(* ===== verification/Prelude.thy ===== *)
theory Prelude
  imports Main "HOL-Library.AList" "HOL-Library.Sublist"
begin

text \<open>
  Shared vocabulary of the development: the exceptions of the Python code as a datatype,
  effectful code as programs that pass a state and may raise, the combinators the code is
  built of (sequencing, \<open>for\<close> loops, \<open>try/except\<close>, \<open>try/finally\<close>), the call history that
  stands for everything outside the repository, and the string and list functions the
  components share, with the lemmas that make their proofs short.
\<close>

section \<open>Exceptions\<close>

text \<open>
  One constructor per exception class the modelled code raises or catches. \<open>External n\<close> is
  any other exception raised by code outside the repository.
\<close>

datatype exn =
    KeyError string
  | IndexError
  | TypeError
  | ValueError string
  | AttributeError
  | AssertionError
  | RuntimeError
  | NotImplementedError
  | FileNotFoundError
  | FileExistsError
  | UnboundLocalError
  | AddrFormatError
  | JSONDecodeError
  | LockTimeout
  | CalledProcessError
  | RequestException
  | OSError int
  | TimeoutExpired
  | ApiException
  | LibvirtError
  | TerraformError
  | InstallationFailedError
  | InstallationPendingActionError
  | ReturnedToReadyAfterInstallationStartsError
  | OperatorFailedError string
  | GenericException
  | BaseExn
  | KeyboardInterrupt
  | External nat
  | Diverges

text \<open>
  \<open>Diverges\<close> is not an exception: it is the outcome of a computation that never returns, so
  no cleanup runs after it. \<open>except Exception\<close> catches everything but the classes directly below \<open>BaseException\<close>.\<close>

fun is_Exception :: "exn \<Rightarrow> bool" where
  "is_Exception Diverges = False"
| "is_Exception BaseExn = False"
| "is_Exception KeyboardInterrupt = False"
| "is_Exception _ = True"

text \<open>Two more classes, which no handler of the modelled code names.\<close>

definition StopIteration :: exn where "StopIteration = External 4"
definition ConnectionError :: exn where "ConnectionError = External 5"

section \<open>Programs: state and exceptions\<close>

text \<open>
  A program takes the state and gives a result, \<open>Inl\<close> an exception or \<open>Inr\<close> a value, and
  the state it leaves. The state is kept when an exception is raised, as in Python.
\<close>

type_synonym ('s, 'a) prog = "'s \<Rightarrow> (exn + 'a) \<times> 's"

definition ret :: "'a \<Rightarrow> ('s, 'a) prog" where
  "ret x = (\<lambda>s. (Inr x, s))"

definition raise :: "exn \<Rightarrow> ('s, 'a) prog" where
  "raise e = (\<lambda>s. (Inl e, s))"

definition bindP :: "('s, 'a) prog \<Rightarrow> ('a \<Rightarrow> ('s, 'b) prog) \<Rightarrow> ('s, 'b) prog" where
  "bindP m f = (\<lambda>s. case m s of (Inl e, t) \<Rightarrow> (Inl e, t) | (Inr x, t) \<Rightarrow> f x t)"

abbreviation thenP :: "('s, 'a) prog \<Rightarrow> ('s, 'b) prog \<Rightarrow> ('s, 'b) prog" where
  "thenP m n \<equiv> bindP m (\<lambda>_. n)"

definition reads :: "('s \<Rightarrow> 'a) \<Rightarrow> ('s, 'a) prog" where
  "reads f = (\<lambda>s. (Inr (f s), s))"

definition modifies :: "('s \<Rightarrow> 's) \<Rightarrow> ('s, unit) prog" where
  "modifies f = (\<lambda>s. (Inr (), f s))"

definition whenP :: "bool \<Rightarrow> ('s, unit) prog \<Rightarrow> ('s, unit) prog" where
  "whenP b m = (if b then m else ret ())"

definition assertP :: "bool \<Rightarrow> ('s, unit) prog" where
  "assertP b = (if b then ret () else raise AssertionError)"

definition try_except :: "('s, 'a) prog \<Rightarrow> (exn \<Rightarrow> ('s, 'a) prog) \<Rightarrow> ('s, 'a) prog" where
  "try_except m h = (\<lambda>s. case m s of (Inl e, t) \<Rightarrow> h e t | (Inr x, t) \<Rightarrow> (Inr x, t))"

definition try_finally :: "('s, 'a) prog \<Rightarrow> ('s, unit) prog \<Rightarrow> ('s, 'a) prog" where
  "try_finally m f = (\<lambda>s. case m s of (r, t) \<Rightarrow>
     if r = Inl Diverges then (r, t)
     else (case f t of (Inl e, u) \<Rightarrow> (Inl e, u) | (Inr _, u) \<Rightarrow> (r, u)))"

text \<open>A loop that may never return.\<close>

definition or_diverges :: "('s \<Rightarrow> ((exn + 'a) \<times> 's) option) \<Rightarrow> ('s, 'a) prog" where
  "or_diverges f = (\<lambda>s. case f s of None \<Rightarrow> (Inl Diverges, s) | Some r \<Rightarrow> r)"

text \<open>\<open>with suppress(...)\<close>: the exceptions of \<open>P\<close> end the block silently.\<close>

definition suppressing :: "(exn \<Rightarrow> bool) \<Rightarrow> ('s, unit) prog \<Rightarrow> ('s, unit) prog" where
  "suppressing P m = try_except m (\<lambda>e. if P e then ret () else raise e)"

fun for_each :: "('a \<Rightarrow> ('s, unit) prog) \<Rightarrow> 'a list \<Rightarrow> ('s, unit) prog" where
  "for_each f [] = ret ()"
| "for_each f (x # xs) = thenP (f x) (for_each f xs)"

fun collect :: "('a \<Rightarrow> ('s, 'b) prog) \<Rightarrow> 'a list \<Rightarrow> ('s, 'b list) prog" where
  "collect f [] = ret []"
| "collect f (x # xs) = bindP (f x) (\<lambda>y. bindP (collect f xs) (\<lambda>ys. ret (y # ys)))"

named_theorems prog_simps \<open>unfolding rules of the program combinators\<close>

lemma ret_app [prog_simps]: "ret x s = (Inr x, s)"
  by (simp add: ret_def)

lemma raise_app [prog_simps]: "raise e s = (Inl e, s)"
  by (simp add: raise_def)

lemma reads_app [prog_simps]: "reads f s = (Inr (f s), s)"
  by (simp add: reads_def)

lemma modifies_app [prog_simps]: "modifies f s = (Inr (), f s)"
  by (simp add: modifies_def)

lemma assertP_app [prog_simps]: "assertP b s = (if b then Inr () else Inl AssertionError, s)"
  by (simp add: assertP_def prog_simps)

lemma whenP_simps [prog_simps]: "whenP True m = m" "whenP False m = ret ()"
  by (simp_all add: whenP_def)

lemma bindP_ret [simp]: "bindP (ret x) f = f x"
  by (simp add: bindP_def ret_def)

lemma bindP_raise [simp]: "bindP (raise e) f = raise e"
  by (simp add: bindP_def raise_def)

lemma bindP_ret_right [simp]: "bindP m ret = m"
  by (auto simp: bindP_def ret_def fun_eq_iff split: prod.splits sum.splits)

lemma bindP_assoc: "bindP (bindP m f) g = bindP m (\<lambda>x. bindP (f x) g)"
  by (auto simp: bindP_def fun_eq_iff split: prod.splits sum.splits)

lemma bindP_Inr [prog_simps]: "m s = (Inr x, t) \<Longrightarrow> bindP m f s = f x t"
  by (simp add: bindP_def)

lemma bindP_Inl [prog_simps]: "m s = (Inl e, t) \<Longrightarrow> bindP m f s = (Inl e, t)"
  by (simp add: bindP_def)

lemma bindP_app [prog_simps]:
  "bindP (reads g) f s = f (g s) s"
  "bindP (modifies h) k s = k () (h s)"
  "bindP (assertP b) k s = (if b then k () s else (Inl AssertionError, s))"
  by (simp_all add: bindP_def reads_def modifies_def assertP_app)

lemma bindP_eq_Inr_iff:
  "bindP m f s = (Inr y, u) \<longleftrightarrow> (\<exists>x t. m s = (Inr x, t) \<and> f x t = (Inr y, u))"
  by (auto simp: bindP_def split: prod.splits sum.splits)

lemma bindP_eq_Inl_iff:
  "bindP m f s = (Inl e, u) \<longleftrightarrow>
     m s = (Inl e, u) \<or> (\<exists>x t. m s = (Inr x, t) \<and> f x t = (Inl e, u))"
  by (auto simp: bindP_def split: prod.splits sum.splits)

lemma bindP_InrE:
  assumes "bindP m f s = (Inr y, u)"
  obtains x t where "m s = (Inr x, t)" "f x t = (Inr y, u)"
  using assms by (auto simp: bindP_eq_Inr_iff)

lemma try_except_Inr [prog_simps]: "m s = (Inr x, t) \<Longrightarrow> try_except m h s = (Inr x, t)"
  by (simp add: try_except_def)

lemma try_except_Inl [prog_simps]: "m s = (Inl e, t) \<Longrightarrow> try_except m h s = h e t"
  by (simp add: try_except_def)

text \<open>A handler that always re-raises never turns a failure into a result.\<close>

lemma try_except_reraise:
  assumes "\<And>e t. \<exists>e' u. h e t = (Inl e', u)"
  shows "try_except m h s = (Inr x, u) \<longleftrightarrow> m s = (Inr x, u)"
proof -
  have "h e t \<noteq> (Inr x, u)" for e t
    using assms[of e t] by auto
  then show ?thesis
    by (auto simp: try_except_def split: prod.splits sum.splits)
qed

lemma for_each_append: "for_each f (xs @ ys) = thenP (for_each f xs) (for_each f ys)"
  by (induction xs) (simp_all add: bindP_assoc)

lemma for_each_ret: "(\<And>x. x \<in> set xs \<Longrightarrow> f x = ret ()) \<Longrightarrow> for_each f xs = ret ()"
  by (induction xs) simp_all

lemma for_each_modifies:
  "for_each (\<lambda>x. modifies (f x)) xs s = (Inr (), fold f xs s)"
  by (induction xs arbitrary: s) (simp_all add: prog_simps)

lemma collect_length: "collect f xs s = (Inr ys, t) \<Longrightarrow> length ys = length xs"
  by (induction xs arbitrary: s ys) (auto simp: prog_simps bindP_eq_Inr_iff)

lemma collect_reads: "collect (\<lambda>x. reads (f x)) xs s = (Inr (map (\<lambda>x. f x s) xs), s)"
  by (induction xs) (simp_all add: prog_simps)

end
