(* ===== verification/History.thy ===== *)
theory History
  imports Strings
begin

text \<open>
  What lies outside the repository: every call to it is recorded, and its answer is a
  function of the calls made so far, so that the same query may be answered differently
  later. On top of it: relations every program keeps (\<open>state_rel\<close>), the contract of the
  \<open>waiting\<close> library (\<open>waits_by\<close>), and linear searches for a free candidate.
\<close>

section \<open>The call history\<close>

record 'c world =
  hist :: "'c list"

text \<open>\<open>ext f c\<close> makes the call \<open>c\<close>; the environment \<open>f\<close> answers from the history before it.\<close>

definition ext :: "('c list \<Rightarrow> exn + 'a) \<Rightarrow> 'c \<Rightarrow> (('c, 'z) world_scheme, 'a) prog" where
  "ext f c = (\<lambda>w. (f (hist w), w\<lparr>hist := hist w @ [c]\<rparr>))"

lemma ext_app: "ext f c w = (f (hist w), w\<lparr>hist := hist w @ [c]\<rparr>)"
  by (simp add: ext_def)

section \<open>Relations every step keeps\<close>

definition keeps :: "('s \<Rightarrow> 's \<Rightarrow> bool) \<Rightarrow> ('s, 'a) prog \<Rightarrow> bool" where
  "keeps R m \<longleftrightarrow> (\<forall>s. R s (snd (m s)))"

lemma keepsI: "(\<And>s r t. m s = (r, t) \<Longrightarrow> R s t) \<Longrightarrow> keeps R m"
  by (simp add: keeps_def) (metis prod.collapse)

lemma keepsD: "keeps R m \<Longrightarrow> m s = (r, t) \<Longrightarrow> R s t"
  by (metis keeps_def snd_conv)

locale state_rel =
  fixes R :: "'s \<Rightarrow> 's \<Rightarrow> bool"
  assumes rel_refl: "R s s"
    and rel_trans: "R s t \<Longrightarrow> R t u \<Longrightarrow> R s u"
begin

lemma keeps_ret: "keeps R (ret x)"
  by (simp add: keeps_def ret_def rel_refl)

lemma keeps_raise: "keeps R (raise e)"
  by (simp add: keeps_def raise_def rel_refl)

lemma keeps_reads: "keeps R (reads f)"
  by (simp add: keeps_def reads_def rel_refl)

lemma keeps_assertP: "keeps R (assertP b)"
  by (simp add: assertP_def keeps_ret keeps_raise)

lemma keeps_bindP:
  assumes "keeps R m" and "\<And>x. keeps R (f x)"
  shows "keeps R (bindP m f)"
proof (rule keepsI)
  fix s r u
  assume run: "bindP m f s = (r, u)"
  obtain q t where q: "m s = (q, t)" by force
  have "R s t" using assms(1) q by (rule keepsD)
  moreover have "R t u"
    using run q assms(2) by (cases q) (auto simp: bindP_def rel_refl dest: keepsD)
  ultimately show "R s u" by (rule rel_trans)
qed

lemma keeps_whenP: "keeps R m \<Longrightarrow> keeps R (whenP b m)"
  by (cases b) (simp_all add: prog_simps keeps_ret)

lemma keeps_try_except:
  assumes "keeps R m" and "\<And>e. keeps R (h e)"
  shows "keeps R (try_except m h)"
proof (rule keepsI)
  fix s r u
  assume run: "try_except m h s = (r, u)"
  obtain q t where q: "m s = (q, t)" by force
  have "R s t" using assms(1) q by (rule keepsD)
  moreover have "R t u"
    using run q assms(2) by (cases q) (auto simp: try_except_def rel_refl dest: keepsD)
  ultimately show "R s u" by (rule rel_trans)
qed

lemma keeps_try_finally:
  assumes "keeps R m" and "keeps R f"
  shows "keeps R (try_finally m f)"
proof (rule keepsI)
  fix s r u
  assume run: "try_finally m f s = (r, u)"
  obtain q t where q: "m s = (q, t)" by force
  obtain p v where p: "f t = (p, v)" by force
  have "R s t" "R t v" using assms q p by (auto dest: keepsD)
  then show "R s u"
    using run q p by (auto simp: try_finally_def split: sum.splits if_splits intro: rel_trans)
qed

lemma keeps_for_each: "(\<And>x. keeps R (f x)) \<Longrightarrow> keeps R (for_each f xs)"
  by (induction xs) (auto intro: keeps_ret keeps_bindP)

lemma keeps_collect: "(\<And>x. keeps R (f x)) \<Longrightarrow> keeps R (collect f xs)"
  by (induction xs) (auto intro!: keeps_ret keeps_bindP)

lemmas keeps_intros =
  keeps_ret keeps_raise keeps_reads keeps_assertP keeps_bindP keeps_whenP
  keeps_try_except keeps_try_finally keeps_for_each keeps_collect

end

text \<open>Two instances: the history only grows, and a part of the state is left alone.\<close>

definition extends :: "('c, 'z) world_scheme \<Rightarrow> ('c, 'z) world_scheme \<Rightarrow> bool" where
  "extends s t \<longleftrightarrow> prefix (hist s) (hist t)"

definition same :: "('s \<Rightarrow> 'a) \<Rightarrow> 's \<Rightarrow> 's \<Rightarrow> bool" where
  "same f s t \<longleftrightarrow> f t = f s"

interpretation grows: state_rel "extends :: ('c, 'z) world_scheme \<Rightarrow> _"
  by unfold_locales (auto simp: extends_def)

interpretation frame: state_rel "same f" for f :: "'s \<Rightarrow> 'a"
  by unfold_locales (auto simp: same_def)

lemma keeps_extends_ext: "keeps extends (ext f c)"
  by (simp add: keeps_def ext_def extends_def)

text \<open>A third: between two states there are only calls of the kind \<open>P\<close>.\<close>

definition adds :: "('c \<Rightarrow> bool) \<Rightarrow> ('c, 'z) world_scheme \<Rightarrow> ('c, 'z) world_scheme \<Rightarrow> bool" where
  "adds P s t \<longleftrightarrow> (\<exists>cs. hist t = hist s @ cs \<and> list_all P cs)"

interpretation adds: state_rel "adds P :: ('c, 'z) world_scheme \<Rightarrow> _" for P :: "'c \<Rightarrow> bool"
  by unfold_locales (fastforce simp: adds_def)+

lemma adds_weaken: "adds P s t \<Longrightarrow> (\<And>c. P c \<Longrightarrow> Q c) \<Longrightarrow> adds Q s t"
  by (auto simp: adds_def list_all_iff)

lemma keeps_adds_weaken: "keeps (adds P) m \<Longrightarrow> (\<And>c. P c \<Longrightarrow> Q c) \<Longrightarrow> keeps (adds Q) m"
  by (auto simp: keeps_def intro: adds_weaken)

lemma adds_ext: "P c \<Longrightarrow> keeps (adds P) (ext f c)"
  by (simp add: keeps_def ext_def adds_def)

lemma adds_for_each: "(\<And>x. x \<in> set xs \<Longrightarrow> keeps (adds P) (f x)) \<Longrightarrow> keeps (adds P) (for_each f xs)"
  by (induction xs) (simp_all add: adds.keeps_intros)

section \<open>Waiting for a condition\<close>

text \<open>
  \<open>waiting.wait(predicate, timeout_seconds, sleep_seconds, expected_exceptions)\<close> comes from
  a library outside the repository and is an argument of the definitions that use it. Its
  predicate is a program that returns \<open>None\<close> for a falsy result and \<open>Some v\<close> for a truthy
  \<open>v\<close>. What the code relies on is documented: the predicate is called at least once and
  again until it is satisfied, whose value is then returned; an expected exception counts
  as not satisfied, any other ends the wait; when the time is over \<open>TimeoutExpired\<close> is
  raised. How many calls fit in the time is not determined, so the contract is a relation.
\<close>

type_synonym ('s, 'v) waiter =
  "('s, 'v option) prog \<Rightarrow> int \<Rightarrow> int \<Rightarrow> (exn \<Rightarrow> bool) \<Rightarrow> ('s, 'v) prog"

inductive polls :: "('s, 'v option) prog \<Rightarrow> (exn \<Rightarrow> bool) \<Rightarrow> 's \<Rightarrow> exn + 'v \<Rightarrow> 's \<Rightarrow> bool"
  for p expected where
  hit: "p s = (Inr (Some v), t) \<Longrightarrow> polls p expected s (Inr v) t"
| error: "p s = (Inl e, t) \<Longrightarrow> \<not> expected e \<Longrightarrow> polls p expected s (Inl e) t"
| expire: "p s = (Inr None, t) \<Longrightarrow> polls p expected s (Inl TimeoutExpired) t"
| expire_expected:
    "p s = (Inl e, t) \<Longrightarrow> expected e \<Longrightarrow> polls p expected s (Inl TimeoutExpired) t"
| again: "p s = (Inr None, t) \<Longrightarrow> polls p expected t r u \<Longrightarrow> polls p expected s r u"
| again_expected:
    "p s = (Inl e, t) \<Longrightarrow> expected e \<Longrightarrow> polls p expected t r u \<Longrightarrow> polls p expected s r u"

definition waits_by :: "('s, 'v) waiter \<Rightarrow> bool" where
  "waits_by wait \<longleftrightarrow>
     (\<forall>p timeout sleep expected s.
        polls p expected s (fst (wait p timeout sleep expected s))
          (snd (wait p timeout sleep expected s)))"

abbreviation no_exceptions :: "exn \<Rightarrow> bool" where
  "no_exceptions \<equiv> \<lambda>_. False"

definition truthy :: "bool \<Rightarrow> unit option" where
  "truthy b = (if b then Some () else None)"

lemma truthy_simps [simp]:
  "truthy True = Some ()" "truthy False = None"
  "truthy b = Some u \<longleftrightarrow> b" "truthy b = None \<longleftrightarrow> \<not> b"
  by (auto simp: truthy_def)

lemma waits_byD:
  "waits_by wait \<Longrightarrow> wait p timeout sleep expected s = (r, t) \<Longrightarrow> polls p expected s r t"
  by (metis fst_conv snd_conv waits_by_def)

text \<open>A wait that returns saw its predicate hold in the last call it made.\<close>

lemma polls_Inr:
  assumes "polls p expected s r t" and "r = Inr v"
  shows "\<exists>s'. p s' = (Inr (Some v), t)"
  using assms
proof (induction rule: polls.induct)
  case (hit s w t)
  then have "p s = (Inr (Some v), t)" by simp
  then show ?case ..
qed simp_all

lemma wait_Inr:
  assumes "waits_by wait" and "wait p timeout sleep expected s = (Inr v, t)"
  shows "\<exists>s'. p s' = (Inr (Some v), t)"
  by (rule polls_Inr [OF waits_byD [OF assms] refl])

text \<open>A wait that fails either timed out or passes on an exception of the predicate.\<close>

lemma polls_Inl:
  assumes "polls p expected s r t" and "r = Inl e"
  shows "e = TimeoutExpired \<or> (\<not> expected e \<and> (\<exists>s'. p s' = (Inl e, t)))"
  using assms
proof (induction rule: polls.induct)
  case (error s e' t)
  then have "p s = (Inl e, t)" and "\<not> expected e" by simp_all
  then show ?case by metis
qed simp_all

lemma wait_Inl:
  assumes "waits_by wait" and "wait p timeout sleep expected s = (Inl e, t)"
  shows "e = TimeoutExpired \<or> (\<not> expected e \<and> (\<exists>s'. p s' = (Inl e, t)))"
  by (rule polls_Inl [OF waits_byD [OF assms] refl])

text \<open>What every call of the predicate keeps, the wait keeps.\<close>

context state_rel begin

lemma polls_rel:
  assumes "keeps R p"
  shows "polls p expected s r t \<Longrightarrow> R s t"
  by (induction rule: polls.induct) (auto dest: keepsD [OF assms] intro: rel_trans)

lemma polls_Inr_rel:
  assumes "keeps R p"
  shows "polls p expected s r t \<Longrightarrow> r = Inr v \<Longrightarrow> \<exists>s'. R s s' \<and> p s' = (Inr (Some v), t)"
proof (induction rule: polls.induct)
  case (hit s w t)
  then have "R s s \<and> p s = (Inr (Some v), t)" by (simp add: rel_refl)
  then show ?case ..
next
  case (again s t r u)
  then obtain s' where "R t s'" "p s' = (Inr (Some v), u)" by auto
  with keepsD [OF assms again.hyps(1)] show ?case by (metis rel_trans)
next
  case (again_expected s e t r u)
  then obtain s' where "R t s'" "p s' = (Inr (Some v), u)" by auto
  with keepsD [OF assms again_expected.hyps(1)] show ?case by (metis rel_trans)
qed simp_all

lemma wait_Inr_rel:
  assumes "waits_by wait" and "keeps R p" and "wait p timeout sleep expected s = (Inr v, t)"
  shows "\<exists>s'. R s s' \<and> p s' = (Inr (Some v), t)"
  by (rule polls_Inr_rel [OF assms(2) waits_byD [OF assms(1,3)] refl])

lemma keeps_wait:
  assumes "waits_by wait" and "keeps R p"
  shows "keeps R (wait p timeout sleep expected)"
  by (rule keepsI) (rule polls_rel [OF assms(2)], erule waits_byD [OF assms(1)])

end

text \<open>
  A waiter for concrete runs: at most \<open>Suc n\<close> calls of the predicate. It shows that the
  contract can be met, and serves where a property is applied to an input.
\<close>

fun poll_upto :: "nat \<Rightarrow> ('s, 'v) waiter" where
  "poll_upto n p timeout sleep expected s =
     (case p s of
        (Inr (Some v), t) \<Rightarrow> (Inr v, t)
      | (Inr None, t) \<Rightarrow>
          (case n of 0 \<Rightarrow> (Inl TimeoutExpired, t)
           | Suc m \<Rightarrow> poll_upto m p timeout sleep expected t)
      | (Inl e, t) \<Rightarrow>
          (if expected e then
             (case n of 0 \<Rightarrow> (Inl TimeoutExpired, t)
              | Suc m \<Rightarrow> poll_upto m p timeout sleep expected t)
           else (Inl e, t)))"

declare poll_upto.simps [simp del]

lemma poll_upto_polls:
  "poll_upto n p timeout sleep expected s = (r, t) \<Longrightarrow> polls p expected s r t"
proof (induction n arbitrary: s)
  case 0
  then show ?case
    by (subst (asm) poll_upto.simps)
      (auto split: prod.splits sum.splits option.splits if_splits intro: polls.intros)
next
  case (Suc n)
  then show ?case
    by (subst (asm) poll_upto.simps)
      (auto split: prod.splits sum.splits option.splits if_splits intro: polls.intros)
qed

lemma waits_by_poll_upto [simp]: "waits_by (poll_upto n)"
  unfolding waits_by_def by (blast intro: poll_upto_polls [OF surjective_pairing])

section \<open>Searching for a free candidate\<close>

text \<open>\<open>while busy(i): i += 1\<close>, which returns only if some candidate is free.\<close>

partial_function (option) first_index :: "(nat \<Rightarrow> bool) \<Rightarrow> nat \<Rightarrow> nat option" where
  "first_index busy i = (if busy i then first_index busy (Suc i) else Some i)"

lemma first_index_least:
  "i \<le> j \<Longrightarrow> \<not> busy j \<Longrightarrow> (\<And>k. i \<le> k \<Longrightarrow> k < j \<Longrightarrow> busy k) \<Longrightarrow> first_index busy i = Some j"
proof (induction "j - i" arbitrary: i)
  case 0
  then show ?case by (simp add: first_index.simps)
next
  case (Suc n)
  then have "busy i" "first_index busy (Suc i) = Some j"
    by auto
  then show ?case by (simp add: first_index.simps)
qed

locale first_free =
  fixes cand :: "nat \<Rightarrow> 'a" and busy :: "'a \<Rightarrow> bool"
  assumes cand_inj: "inj cand"
    and busy_finite: "finite {x. busy x}"
begin

lemma some_free: "\<exists>i. \<not> busy (cand i)"
proof (rule ccontr)
  assume "\<not> ?thesis"
  then have "range cand \<subseteq> {x. busy x}" by auto
  then have "finite (range cand)" using busy_finite by (rule finite_subset)
  then show False using cand_inj finite_imageD by blast
qed

lemma first_index_found:
  obtains j where "first_index (\<lambda>i. busy (cand i)) 0 = Some j" "\<not> busy (cand j)"
    "\<And>k. k < j \<Longrightarrow> busy (cand k)"
proof -
  let ?j = "LEAST i. \<not> busy (cand i)"
  have free: "\<not> busy (cand ?j)" using some_free by (rule LeastI_ex)
  have least: "busy (cand k)" if "k < ?j" for k using not_less_Least [OF that] by blast
  have "first_index (\<lambda>i. busy (cand i)) 0 = Some ?j"
    by (rule first_index_least) (rule le0, rule free, rule least)
  then show thesis using free least by (rule that)
qed

end

section \<open>Retrying a call\<close>

text \<open>
  \<open>retry(exceptions, tries, delay)\<close> of the \<open>retry\<close> package, also outside the repository.
  The documented behaviour, for a positive number of tries: an exception listed is dropped
  as long as tries are left, the last one is raised, every other one is raised at once.
\<close>

type_synonym ('s, 'a) retrier = "(exn \<Rightarrow> bool) \<Rightarrow> nat \<Rightarrow> ('s, 'a) prog \<Rightarrow> ('s, 'a) prog"

inductive attempts ::
  "('s, 'a) prog \<Rightarrow> (exn \<Rightarrow> bool) \<Rightarrow> nat \<Rightarrow> 's \<Rightarrow> exn + 'a \<Rightarrow> 's \<Rightarrow> bool"
  for p listed where
  success: "p s = (Inr v, t) \<Longrightarrow> attempts p listed (Suc n) s (Inr v) t"
| other: "p s = (Inl e, t) \<Longrightarrow> \<not> listed e \<Longrightarrow> attempts p listed (Suc n) s (Inl e) t"
| last: "p s = (Inl e, t) \<Longrightarrow> listed e \<Longrightarrow> attempts p listed (Suc 0) s (Inl e) t"
| retry: "p s = (Inl e, t) \<Longrightarrow> listed e \<Longrightarrow> attempts p listed (Suc n) t r u
           \<Longrightarrow> attempts p listed (Suc (Suc n)) s r u"

definition retries_by :: "('s, 'a) retrier \<Rightarrow> bool" where
  "retries_by rt \<longleftrightarrow>
     (\<forall>p listed n s. attempts p listed (Suc n) s (fst (rt listed (Suc n) p s)) (snd (rt listed (Suc n) p s)))"

lemma retries_byD:
  "retries_by rt \<Longrightarrow> 0 < n \<Longrightarrow> rt listed n p s = (r, t) \<Longrightarrow> attempts p listed n s r t"
  by (cases n) (simp, metis fst_conv retries_by_def snd_conv)

lemma attempts_last:
  "attempts p listed n s r t \<Longrightarrow> \<exists>s'. p s' = (r, t)"
  by (induction rule: attempts.induct) metis+

lemma retry_last:
  "retries_by rt \<Longrightarrow> 0 < n \<Longrightarrow> rt listed n p s = (r, t) \<Longrightarrow> \<exists>s'. p s' = (r, t)"
  by (rule attempts_last [OF retries_byD])

context state_rel begin

lemma attempts_rel:
  assumes "keeps R p"
  shows "attempts p listed n s r t \<Longrightarrow> R s t"
  by (induction rule: attempts.induct) (auto dest: keepsD [OF assms] intro: rel_trans)

end

fun retry_upto :: "(exn \<Rightarrow> bool) \<Rightarrow> nat \<Rightarrow> ('s, 'a) prog \<Rightarrow> ('s, 'a) prog" where
  "retry_upto listed 0 p = raise RuntimeError"
| "retry_upto listed (Suc n) p =
     try_except p (\<lambda>e. if listed e \<and> n > 0 then retry_upto listed n p else raise e)"

lemma attempts_retry_upto:
  "attempts p listed (Suc n) s (fst (retry_upto listed (Suc n) p s)) (snd (retry_upto listed (Suc n) p s))"
proof (induction n arbitrary: s)
  case 0
  then show ?case
    by (auto simp: try_except_def raise_def intro: attempts.intros split: prod.split sum.split)
next
  case (Suc n)
  obtain q t where q: "p s = (q, t)" by force
  show ?case
  proof (cases q)
    case (Inl e)
    show ?thesis
    proof (cases "listed e")
      case True
      then have "retry_upto listed (Suc (Suc n)) p s = retry_upto listed (Suc n) p t"
        using q Inl by (simp add: try_except_def del: retry_upto.simps(2)) (subst retry_upto.simps, simp add: try_except_def)
      then show ?thesis
        using attempts.retry [of p s e t listed n] q Inl True Suc.IH [of t]
        by (metis)
    qed (use q Inl in \<open>auto simp: try_except_def raise_def intro: attempts.other\<close>)
  qed (use q in \<open>auto simp: try_except_def intro: attempts.success\<close>)
qed

lemma retries_by_retry_upto [simp]: "retries_by retry_upto"
  unfolding retries_by_def using attempts_retry_upto by blast

end
