(* ===== verification/Constants.thy ===== *)
theory Constants
  imports History
begin

text \<open>
  The string constants of \<open>src/consts/consts.py\<close> the components compare against: node and
  cluster statuses, installation stages, roles, platforms and agent condition types, each a
  datatype with its wire value, and the timeouts. The stages carry the order of
  \<open>all_host_stages\<close> as a linear order.
\<close>

section \<open>Node roles and statuses\<close>

datatype node_role = Worker | Master | Arbiter | AutoAssign

fun role_value :: "node_role \<Rightarrow> string" where
  "role_value Worker = ''worker''"
| "role_value Master = ''master''"
| "role_value Arbiter = ''arbiter''"
| "role_value AutoAssign = ''auto-assign''"

datatype nodes_status =
    NS_Insufficient | NS_Known | NS_Installing | NS_InstallingInProgress
  | NS_InstallingPendingUserAction | NS_Installed | NS_Error | NS_PendingForInput
  | NS_Day2Installed | NS_ResetingPendingUserAction | NS_Disconnected
  | NS_InsufficientUnbound | NS_KnownUnbound

fun ns_value :: "nodes_status \<Rightarrow> string" where
  "ns_value NS_Insufficient = ''insufficient''"
| "ns_value NS_Known = ''known''"
| "ns_value NS_Installing = ''installing''"
| "ns_value NS_InstallingInProgress = ''installing-in-progress''"
| "ns_value NS_InstallingPendingUserAction = ''installing-pending-user-action''"
| "ns_value NS_Installed = ''installed''"
| "ns_value NS_Error = ''error''"
| "ns_value NS_PendingForInput = ''pending-for-input''"
| "ns_value NS_Day2Installed = ''added-to-existing-cluster''"
| "ns_value NS_ResetingPendingUserAction = ''resetting-pending-user-action''"
| "ns_value NS_Disconnected = ''disconnected''"
| "ns_value NS_InsufficientUnbound = ''insufficient-unbound''"
| "ns_value NS_KnownUnbound = ''known-unbound''"

datatype cluster_status =
    CS_Insufficient | CS_Installed | CS_Ready | CS_PreparingForInstallation | CS_Installing
  | CS_Finalizing | CS_Error | CS_PendingForInput | CS_Cancelled
  | CS_InstallingPendingUserAction

fun cs_value :: "cluster_status \<Rightarrow> string" where
  "cs_value CS_Insufficient = ''insufficient''"
| "cs_value CS_Installed = ''installed''"
| "cs_value CS_Ready = ''ready''"
| "cs_value CS_PreparingForInstallation = ''preparing-for-installation''"
| "cs_value CS_Installing = ''installing''"
| "cs_value CS_Finalizing = ''finalizing''"
| "cs_value CS_Error = ''error''"
| "cs_value CS_PendingForInput = ''pending-for-input''"
| "cs_value CS_Cancelled = ''cancelled''"
| "cs_value CS_InstallingPendingUserAction = ''installing-pending-user-action''"

section \<open>Installation stages\<close>

datatype host_stage =
    StartInstallation | InstallingStage | WriteImageToDisk | WaitForControlPlane | Rebooting
  | WaitForIgnition | Joined | Configuring | DoneStage

fun stage_value :: "host_stage \<Rightarrow> string" where
  "stage_value StartInstallation = ''Starting installation''"
| "stage_value InstallingStage = ''Installing''"
| "stage_value WriteImageToDisk = ''Writing image to disk''"
| "stage_value WaitForControlPlane = ''Waiting for control plane''"
| "stage_value Rebooting = ''Rebooting''"
| "stage_value WaitForIgnition = ''Waiting for ignition''"
| "stage_value Joined = ''Joined''"
| "stage_value Configuring = ''Configuring''"
| "stage_value DoneStage = ''Done''"

definition all_host_stages :: "host_stage list" where
  "all_host_stages =
     [StartInstallation, InstallingStage, WriteImageToDisk, WaitForControlPlane, Rebooting,
      WaitForIgnition, Configuring, Joined, DoneStage]"

text \<open>\<open>list.index\<close>: the position of the first occurrence, \<open>ValueError\<close> without one.\<close>

fun py_index :: "'a list \<Rightarrow> 'a \<Rightarrow> exn + nat" where
  "py_index [] x = Inl (ValueError ''not in list'')"
| "py_index (y # ys) x =
     (if y = x then Inr 0 else case py_index ys x of Inl e \<Rightarrow> Inl e | Inr i \<Rightarrow> Inr (Suc i))"

fun stage_rank :: "host_stage \<Rightarrow> nat" where
  "stage_rank s = (case py_index all_host_stages s of Inl _ \<Rightarrow> 0 | Inr i \<Rightarrow> i)"

lemma stage_rank_simps [simp]:
  "stage_rank StartInstallation = 0" "stage_rank InstallingStage = 1"
  "stage_rank WriteImageToDisk = 2" "stage_rank WaitForControlPlane = 3"
  "stage_rank Rebooting = 4" "stage_rank WaitForIgnition = 5" "stage_rank Configuring = 6"
  "stage_rank Joined = 7" "stage_rank DoneStage = 8"
  by (simp_all add: all_host_stages_def)

declare stage_rank.simps [simp del]

lemma stage_rank_inject: "stage_rank a = stage_rank b \<Longrightarrow> a = b"
  by (cases a; cases b) simp_all

instantiation host_stage :: linorder
begin

definition less_eq_host_stage :: "host_stage \<Rightarrow> host_stage \<Rightarrow> bool" where
  "less_eq_host_stage a b \<longleftrightarrow> stage_rank a \<le> stage_rank b"

definition less_host_stage :: "host_stage \<Rightarrow> host_stage \<Rightarrow> bool" where
  "less_host_stage a b \<longleftrightarrow> stage_rank a < stage_rank b"

instance
  by standard (auto simp: less_eq_host_stage_def less_host_stage_def intro: stage_rank_inject)

end

lemma py_index_stage: "py_index all_host_stages s = Inr (stage_rank s)"
  by (cases s) (simp_all add: all_host_stages_def)

lemma set_all_host_stages [simp]: "set all_host_stages = UNIV"
  unfolding all_host_stages_def by (auto intro: host_stage.exhaust)

section \<open>Agent conditions, platforms and other enumerations\<close>

datatype agent_status = SpecSynced | Connected | Validated | AgentInstalled | RequirementsMet | Bound

fun agent_status_value :: "agent_status \<Rightarrow> string" where
  "agent_status_value SpecSynced = ''SpecSynced''"
| "agent_status_value Connected = ''Connected''"
| "agent_status_value Validated = ''Validated''"
| "agent_status_value AgentInstalled = ''Installed''"
| "agent_status_value RequirementsMet = ''RequirementsMet''"
| "agent_status_value Bound = ''Bound''"

datatype platform_type = BareMetal | NonePlatform | VSphere | Nutanix | OCI | ExternalPlatform

fun platform_value :: "platform_type \<Rightarrow> string" where
  "platform_value BareMetal = ''baremetal''"
| "platform_value NonePlatform = ''none''"
| "platform_value VSphere = ''vsphere''"
| "platform_value Nutanix = ''nutanix''"
| "platform_value OCI = ''oci''"
| "platform_value ExternalPlatform = ''external''"

definition WRONG_BOOT_ORDER :: string where
  "WRONG_BOOT_ORDER = ''Expected the host to boot from disk, but it booted the installation image''"

definition OLD_REBOOT_TIMEOUT :: string where
  "OLD_REBOOT_TIMEOUT = ''Host failed to reboot within timeout''"

definition REBOOT_TIMEOUT :: string where
  "REBOOT_TIMEOUT = ''Host timed out when pulling''"

section \<open>Timeouts and limits\<close>

definition MINUTE :: int where "MINUTE = 60"
definition HOUR :: int where "HOUR = 60 * MINUTE"

definition NODES_REGISTERED_TIMEOUT :: int where "NODES_REGISTERED_TIMEOUT = 20 * MINUTE"
definition DEFAULT_CHECK_STATUSES_INTERVAL :: int where "DEFAULT_CHECK_STATUSES_INTERVAL = 5"
definition CLUSTER_INSTALLATION_TIMEOUT :: int where "CLUSTER_INSTALLATION_TIMEOUT = HOUR"
definition VALIDATION_TIMEOUT :: int where "VALIDATION_TIMEOUT = 6 * MINUTE"
definition READY_TIMEOUT :: int where "READY_TIMEOUT = 15 * MINUTE"
definition DISCONNECTED_TIMEOUT :: int where "DISCONNECTED_TIMEOUT = 10 * MINUTE"
definition PENDING_USER_ACTION_TIMEOUT :: int where "PENDING_USER_ACTION_TIMEOUT = 45 * MINUTE"
definition ERROR_TIMEOUT :: int where "ERROR_TIMEOUT = 15 * MINUTE"
definition INSTALLING_IN_PROGRESS_TIMEOUT :: int where "INSTALLING_IN_PROGRESS_TIMEOUT = 15 * MINUTE"
definition START_CLUSTER_INSTALLATION_TIMEOUT :: int where
  "START_CLUSTER_INSTALLATION_TIMEOUT = 6 * MINUTE"
definition CLUSTER_READY_FOR_INSTALL_TIMEOUT :: int where
  "CLUSTER_READY_FOR_INSTALL_TIMEOUT = 10 * MINUTE"
definition DEFAULT_WAIT_FOR_CRD_STATUS_TIMEOUT :: int where
  "DEFAULT_WAIT_FOR_CRD_STATUS_TIMEOUT = 5 * MINUTE"
definition DEFAULT_INSTALLATION_RETRIES_ON_FALLBACK :: int where
  "DEFAULT_INSTALLATION_RETRIES_ON_FALLBACK = 3"
definition DURATION_BETWEEN_INSTALLATION_RETRIES :: int where
  "DURATION_BETWEEN_INSTALLATION_RETRIES = 30"

definition GB :: int where "GB = 10 ^ 9"
definition MiB_UNITS :: int where "MiB_UNITS = 1024"

end
