(* ===== verification/Ip.thy ===== *)
theory Ip
  imports Prelude
begin

text \<open>
  The standard library's \<open>ipaddress\<close> module, as far as the components use it. Addresses,
  interfaces (\<open>"192.168.127.10/24"\<close>) and networks are the values their strings parse to;
  \<open>str\<close> of one of these objects is canonical, so the value stands for the string. Writing
  and reading the textual form is not modelled. Also \<open>utils/network_utils.py\<close>, which is
  built on it.
\<close>

section \<open>Addresses and networks\<close>

datatype ipver = V4 | V6

fun ip_bits :: "ipver \<Rightarrow> nat" where
  "ip_bits V4 = 32"
| "ip_bits V6 = 128"

record ip =
  ip_version :: ipver
  ip_value :: nat

text \<open>An address with a prefix length, as written: an interface, or the text of a network.\<close>

record cidr =
  cidr_version :: ipver
  cidr_value :: nat
  cidr_prefixlen :: nat

definition wf_ip :: "ip \<Rightarrow> bool" where
  "wf_ip a \<longleftrightarrow> ip_value a < 2 ^ ip_bits (ip_version a)"

definition wf_cidr :: "cidr \<Rightarrow> bool" where
  "wf_cidr c \<longleftrightarrow> cidr_value c < 2 ^ ip_bits (cidr_version c)
     \<and> cidr_prefixlen c \<le> ip_bits (cidr_version c)"

text \<open>The number of addresses a prefix leaves.\<close>

definition host_span :: "cidr \<Rightarrow> nat" where
  "host_span c = 2 ^ (ip_bits (cidr_version c) - cidr_prefixlen c)"

lemma host_span_pos [simp]: "0 < host_span c"
  by (simp add: host_span_def)

text \<open>\<open>ip_network(text)\<close>, strict: host bits must be zero.\<close>

definition ip_network :: "cidr \<Rightarrow> exn + cidr" where
  "ip_network c =
     (if cidr_value c mod host_span c = 0 then Inr c
      else Inl (ValueError ''has host bits set''))"

text \<open>\<open>ip_address(network.network_address) + n\<close>: \<open>AddressValueError\<close>, a \<open>ValueError\<close>, past the end.\<close>

definition ip_add :: "ip \<Rightarrow> nat \<Rightarrow> exn + ip" where
  "ip_add a n =
     (if ip_value a + n < 2 ^ ip_bits (ip_version a) then Inr (a\<lparr>ip_value := ip_value a + n\<rparr>)
      else Inl (ValueError ''address out of range''))"

definition network_address :: "cidr \<Rightarrow> ip" where
  "network_address c = \<lparr>ip_version = cidr_version c, ip_value = cidr_value c\<rparr>"

text \<open>\<open>ip_interface(text).network\<close> and \<open>ip_interface(text).ip\<close>.\<close>

definition interface_network :: "cidr \<Rightarrow> cidr" where
  "interface_network c = c\<lparr>cidr_value := cidr_value c - cidr_value c mod host_span c\<rparr>"

definition interface_ip :: "cidr \<Rightarrow> ip" where
  "interface_ip c = \<lparr>ip_version = cidr_version c, ip_value = cidr_value c\<rparr>"

text \<open>\<open>address in network\<close>.\<close>

definition in_network :: "ip \<Rightarrow> cidr \<Rightarrow> bool" where
  "in_network a c \<longleftrightarrow> ip_version a = cidr_version c
     \<and> cidr_value c \<le> ip_value a \<and> ip_value a < cidr_value c + host_span c"

lemma host_span_update [simp]: "host_span (c\<lparr>cidr_value := v\<rparr>) = host_span c"
  by (simp add: host_span_def)

lemma ip_network_interface_network: "ip_network (interface_network c) = Inr (interface_network c)"
  by (simp add: ip_network_def interface_network_def mod_eq_0_iff_dvd dvd_minus_mod)

lemma in_interface_network: "in_network (interface_ip c) (interface_network c)"
proof -
  have "cidr_value c mod host_span c < host_span c" by simp
  then have "cidr_value c < cidr_value c - cidr_value c mod host_span c + host_span c"
    using mod_less_eq_dividend [of "cidr_value c" "host_span c"] by arith
  then show ?thesis
    by (simp add: in_network_def interface_ip_def interface_network_def)
qed

lemma ip_add_Inr_iff:
  "ip_add a n = Inr b \<longleftrightarrow>
     ip_value a + n < 2 ^ ip_bits (ip_version a) \<and> b = a\<lparr>ip_value := ip_value a + n\<rparr>"
  by (auto simp: ip_add_def)

lemma ip_add_inject:
  "ip_add a m = Inr b \<Longrightarrow> ip_add a n = Inr b \<Longrightarrow> m = n"
  by (auto simp: ip_add_Inr_iff dest: arg_cong [where f = ip_value])

section \<open>Network utilities\<close>

definition get_cidr_by_interface :: "cidr \<Rightarrow> cidr" where
  "get_cidr_by_interface interface = interface_network interface"

fun any_interface_in_cidr :: "cidr list \<Rightarrow> cidr \<Rightarrow> exn + bool" where
  "any_interface_in_cidr interfaces c =
     (case ip_network c of
        Inl e \<Rightarrow> Inl e
      | Inr network \<Rightarrow> Inr (list_ex (\<lambda>ifc. in_network (interface_ip ifc) network) interfaces))"

definition get_ip_from_interface :: "cidr \<Rightarrow> ip" where
  "get_ip_from_interface interface = interface_ip interface"

lemma own_cidr_matches:
  "ifc \<in> set interfaces \<Longrightarrow>
     any_interface_in_cidr interfaces (get_cidr_by_interface ifc) = Inr True"
  by (auto simp: get_cidr_by_interface_def ip_network_interface_network list_ex_iff
      intro: in_interface_network)

end
