(* ===== verification/Values.thy ===== *)
theory Values
  imports Constants Ip
begin

text \<open>
  Untyped Python values (what the code passes to the service as parameters and keeps in its
  configurations), their truth value, and \<open>netaddr\<close>, a library outside the repository whose
  functions are parameters of the definitions that use it.
\<close>

section \<open>Python values\<close>

datatype pyval =
    PNone
  | PBool bool
  | PInt int
  | PStr string
  | PList "pyval list"
  | PDict "(string \<times> pyval) list"

fun truth :: "pyval \<Rightarrow> bool" where
  "truth PNone = False"
| "truth (PBool b) = b"
| "truth (PInt i) = (i \<noteq> 0)"
| "truth (PStr s) = (s \<noteq> [])"
| "truth (PList xs) = (xs \<noteq> [])"
| "truth (PDict d) = (d \<noteq> [])"

text \<open>\<open>a or b\<close>.\<close>

definition py_or :: "pyval \<Rightarrow> pyval \<Rightarrow> pyval" where
  "py_or a b = (if truth a then a else b)"

definition opt_str :: "string option \<Rightarrow> pyval" where
  "opt_str s = (case s of None \<Rightarrow> PNone | Some t \<Rightarrow> PStr t)"

text \<open>\<open>a or b\<close> on an optional string: the empty string is falsy too.\<close>

definition str_or :: "string option \<Rightarrow> string option \<Rightarrow> string option" where
  "str_or a b = (case a of None \<Rightarrow> b | Some [] \<Rightarrow> b | Some s \<Rightarrow> Some s)"

lemma str_or_simps [simp]:
  "str_or None b = b" "str_or (Some []) b = b" "str_or (Some (c # s)) b = Some (c # s)"
  by (simp_all add: str_or_def)

section \<open>netaddr\<close>

text \<open>
  \<open>IPAddress(x)\<close>, \<open>IPNetwork(x)\<close>, membership of an address and of a network in a network,
  the version of a network, \<open>network += n\<close> (which moves the network by \<open>n\<close> times its size
  and raises past the end of the address space) and \<open>str(network)\<close>.
\<close>

record ('a, 'n) netaddr =
  na_address :: "ip option \<Rightarrow> exn + 'a"
  na_network :: "cidr \<Rightarrow> exn + 'n"
  na_addr_in :: "'a \<Rightarrow> 'n \<Rightarrow> bool"
  na_net_in :: "'n \<Rightarrow> 'n \<Rightarrow> bool"
  na_version :: "'n \<Rightarrow> nat"
  na_advance :: "'n \<Rightarrow> nat \<Rightarrow> exn + 'n"
  na_str :: "'n \<Rightarrow> cidr"

text \<open>An instance over the values of \<open>Ip\<close>, for applying properties to concrete inputs.\<close>

definition plain_netaddr :: "(ip, cidr) netaddr" where
  "plain_netaddr = \<lparr>
     na_address = (\<lambda>x. case x of None \<Rightarrow> Inl (ValueError ''None'') | Some a \<Rightarrow> Inr a),
     na_network = Inr,
     na_addr_in = (\<lambda>a n. in_network a (interface_network n)),
     na_net_in = (\<lambda>m n. in_network (interface_ip m) (interface_network n)
        \<and> cidr_prefixlen n \<le> cidr_prefixlen m),
     na_version = (\<lambda>n. case cidr_version n of V4 \<Rightarrow> 4 | V6 \<Rightarrow> 6),
     na_advance = (\<lambda>n k. let v = cidr_value (interface_network n) + k * host_span n in
        if v + host_span n \<le> 2 ^ ip_bits (cidr_version n) then Inr (n\<lparr>cidr_value := v\<rparr>)
        else Inl IndexError),
     na_str = (\<lambda>n. n)\<rparr>"

end
