(* ===== verification/Service.thy ===== *)
theory Service
  imports Values
begin

text \<open>
  The client of the assisted-installer service, \<open>src/service_client/assisted_service_api.py\<close>.
  The generated \<open>assisted_service_client\<close> is outside the repository: each of its calls is an
  event of the history (\<open>call\<close>), and its answers are the environment \<open>env\<close>, functions of
  the history. The definitions here are the methods of \<open>InventoryClient\<close> over it. JSON
  texts in the answers (inventories) stand for the values they parse to.
\<close>

section \<open>The service's objects\<close>

record nic =
  nic_name :: string
  nic_mac :: string
  nic_ipv4_addresses :: "cidr list"
  nic_ipv6_addresses :: "cidr list"

record disk_info =
  disk_path :: string
  disk_id :: string

record inventory =
  inv_hostname :: string
  inv_interfaces :: "nic list"
  inv_disks :: "disk_info list"

text \<open>A key of a host dictionary that may be missing or \<open>None\<close>.\<close>

datatype 'a attr = Missing | Null | Has 'a

record host =
  h_id :: string
  h_infra_env_id :: string
  h_status :: string
  h_status_info :: string
  h_requested_hostname :: "string option"
  h_role :: string
  h_stage :: string
  h_bootstrap :: bool
  h_logs_info :: "string option"
  h_agent_version :: "string option"
  h_inventory :: "inventory attr"

datatype operator_type = Builtin | Olm

record monitored_operator =
  op_name :: string
  op_type :: operator_type
  op_status :: string
  op_properties :: pyval

record cluster =
  cl_id :: string
  cl_name :: string
  cl_status :: string
  cl_hosts :: "host list"
  cl_operators :: "monitored_operator list"
  cl_platform :: "string option"
  cl_high_availability_mode :: "string option"
  cl_control_plane_count :: "int option"
  cl_logs_info :: "string option"
  cl_tags :: "string option"
  cl_user_managed_networking :: bool
  cl_api_vips :: "ip list"
  cl_ingress_vips :: "ip list"

record infra_env_info =
  ie_id :: string
  ie_cluster_id :: "string option"

section \<open>Calls and environment\<close>

datatype call =
    V2ListClusters bool
  | V2GetCluster string bool
  | V2ListHosts string
  | ListInfraEnvs
  | V2RegisterCluster string pyval
  | V2ImportCluster string string pyval
  | RegisterInfraEnv string pyval
  | V2UpdateCluster string pyval
  | UpdateInfraEnv string pyval
  | V2UpdateHost string string pyval
  | V2UpdateHostInstallerArgs string string pyval
  | V2DeregisterCluster string
  | V2DeregisterHost string string
  | DeregisterInfraEnv string
  | V2InstallCluster string
  | V2InstallHost string string
  | V2CancelInstallation string
  | V2ResetCluster string
  | BindHost string string string
  | UnbindHost string string
  | V2DownloadFile string string
  | WriteFile string
  | V2GetBundle string
  | V2CreateManifest string pyval
  | V2DeleteManifest string string "string option"
  | V2SetIgnoredValidations string pyval
  | KubeApiReadyz "ip option"
  | Sleep int
  | Controller string "pyval list"
  | NodeCommand string string "pyval list"
  | ShellCommand string

record process =
  p_out :: string
  p_err :: string
  p_rc :: int

record env =
  e_list_clusters :: "call list \<Rightarrow> bool \<Rightarrow> exn + cluster list"
  e_get_cluster :: "call list \<Rightarrow> string \<Rightarrow> exn + cluster"
  e_list_hosts :: "call list \<Rightarrow> string \<Rightarrow> exn + host list"
  e_list_infra_envs :: "call list \<Rightarrow> exn + infra_env_info list"
  e_register :: "call list \<Rightarrow> call \<Rightarrow> exn + string"
  e_get_bundle :: "call list \<Rightarrow> string \<Rightarrow> exn + string list"
  e_readyz :: "call list \<Rightarrow> ip option \<Rightarrow> exn + bool"
  e_do :: "call list \<Rightarrow> call \<Rightarrow> exn + unit"
  e_ask :: "call list \<Rightarrow> call \<Rightarrow> exn + pyval"
  e_run :: "call list \<Rightarrow> string \<Rightarrow> exn + process"

text \<open>A call whose result the code does not use.\<close>

definition do_call :: "env \<Rightarrow> call \<Rightarrow> ((call, 'z) world_scheme, unit) prog" where
  "do_call e c = ext (\<lambda>h. e_do e h c) c"

text \<open>A call with an untyped answer.\<close>

definition ask_call :: "env \<Rightarrow> call \<Rightarrow> ((call, 'z) world_scheme, pyval) prog" where
  "ask_call e c = ext (\<lambda>h. e_ask e h c) c"

section \<open>Reading\<close>

definition cluster_get :: "env \<Rightarrow> string \<Rightarrow> bool \<Rightarrow> ((call, 'z) world_scheme, cluster) prog" where
  "cluster_get e cluster_id get_unregistered_clusters =
     ext (\<lambda>h. e_get_cluster e h cluster_id) (V2GetCluster cluster_id get_unregistered_clusters)"

definition get_cluster_hosts ::
  "env \<Rightarrow> string \<Rightarrow> bool \<Rightarrow> ((call, 'z) world_scheme, host list) prog" where
  "get_cluster_hosts e cluster_id get_unregistered_clusters =
     bindP (cluster_get e cluster_id get_unregistered_clusters) (\<lambda>c. ret (cl_hosts c))"

definition get_infra_env_hosts :: "env \<Rightarrow> string \<Rightarrow> ((call, 'z) world_scheme, host list) prog" where
  "get_infra_env_hosts e infra_env_id = ext (\<lambda>h. e_list_hosts e h infra_env_id) (V2ListHosts infra_env_id)"

definition get_cluster_operators ::
  "env \<Rightarrow> string \<Rightarrow> ((call, 'z) world_scheme, monitored_operator list) prog" where
  "get_cluster_operators e cluster_id =
     bindP (cluster_get e cluster_id False) (\<lambda>c. ret (cl_operators c))"

definition get_hosts_in_statuses ::
  "env \<Rightarrow> string \<Rightarrow> string list \<Rightarrow> ((call, 'z) world_scheme, host list) prog" where
  "get_hosts_in_statuses e cluster_id statuses =
     bindP (get_cluster_hosts e cluster_id False) (\<lambda>hosts.
       ret (filter (\<lambda>h. h_status h \<in> set statuses) hosts))"

definition get_hosts_in_error_status ::
  "env \<Rightarrow> string \<Rightarrow> ((call, 'z) world_scheme, host list) prog" where
  "get_hosts_in_error_status e cluster_id = get_hosts_in_statuses e cluster_id [ns_value NS_Error]"

definition clusters_list :: "env \<Rightarrow> ((call, 'z) world_scheme, cluster list) prog" where
  "clusters_list e = ext (\<lambda>h. e_list_clusters e h False) (V2ListClusters False)"

definition get_all_clusters :: "env \<Rightarrow> ((call, 'z) world_scheme, cluster list) prog" where
  "get_all_clusters e = ext (\<lambda>h. e_list_clusters e h True) (V2ListClusters True)"

definition infra_envs_list :: "env \<Rightarrow> ((call, 'z) world_scheme, infra_env_info list) prog" where
  "infra_envs_list e = ext (e_list_infra_envs e) ListInfraEnvs"

definition get_infra_envs_by_cluster_id ::
  "env \<Rightarrow> string \<Rightarrow> ((call, 'z) world_scheme, infra_env_info list) prog" where
  "get_infra_envs_by_cluster_id e cluster_id =
     bindP (infra_envs_list e) (\<lambda>ies. ret (filter (\<lambda>ie. ie_cluster_id ie = Some cluster_id) ies))"

section \<open>Looking hosts up\<close>

text \<open>\<open>json.loads(host.get("inventory", '{"interfaces":[]}'))\<close>: \<open>json.loads(None)\<close> raises.\<close>

fun host_interfaces :: "host \<Rightarrow> exn + nic list" where
  "host_interfaces h =
     (case h_inventory h of Missing \<Rightarrow> Inr [] | Null \<Rightarrow> Inl TypeError | Has i \<Rightarrow> Inr (inv_interfaces i))"

fun hosts_id_with_macs :: "host list \<Rightarrow> exn + (string, string list) dict" where
  "hosts_id_with_macs hosts =
     foldl (\<lambda>acc h. case acc of Inl x \<Rightarrow> Inl x | Inr d \<Rightarrow>
         (case host_interfaces h of Inl x \<Rightarrow> Inl x
          | Inr nics \<Rightarrow> Inr (dict_set (h_id h) (map nic_mac nics) d)))
       (Inr []) hosts"

definition get_hosts_id_with_macs ::
  "env \<Rightarrow> string \<Rightarrow> ((call, 'z) world_scheme, (string, string list) dict) prog" where
  "get_hosts_id_with_macs e cluster_id =
     bindP (get_cluster_hosts e cluster_id False) (\<lambda>hosts.
       case hosts_id_with_macs hosts of Inl x \<Rightarrow> raise x | Inr d \<Rightarrow> ret d)"

text \<open>The loops return the first match and \<open>None\<close> when they fall off the end.\<close>

fun host_by_mac :: "host list \<Rightarrow> string \<Rightarrow> exn + host option" where
  "host_by_mac [] mac = Inr None"
| "host_by_mac (h # hs) mac =
     (case host_interfaces h of
        Inl x \<Rightarrow> Inl x
      | Inr nics \<Rightarrow>
          if lower mac \<in> set (map (\<lambda>n. lower (nic_mac n)) nics) then Inr (Some h)
          else host_by_mac hs mac)"

definition get_host_by_mac ::
  "env \<Rightarrow> string \<Rightarrow> string \<Rightarrow> ((call, 'z) world_scheme, host option) prog" where
  "get_host_by_mac e cluster_id mac =
     bindP (get_cluster_hosts e cluster_id False) (\<lambda>hosts.
       case host_by_mac hosts mac of Inl x \<Rightarrow> raise x | Inr h \<Rightarrow> ret h)"

definition get_host_by_name ::
  "env \<Rightarrow> string \<Rightarrow> string option \<Rightarrow> ((call, 'z) world_scheme, host option) prog" where
  "get_host_by_name e cluster_id host_name =
     bindP (get_cluster_hosts e cluster_id False) (\<lambda>hosts.
       ret (find (\<lambda>h. h_requested_hostname h = host_name) hosts))"

text \<open>\<open>hosts or self.get_cluster_hosts(cluster_id)\<close>: an empty list is fetched anew.\<close>

definition get_hosts_by_role ::
  "env \<Rightarrow> string \<Rightarrow> string \<Rightarrow> host list option \<Rightarrow> ((call, 'z) world_scheme, host list) prog" where
  "get_hosts_by_role e cluster_id role hosts =
     bindP (case hosts of Some (h # hs) \<Rightarrow> ret (h # hs) | _ \<Rightarrow> get_cluster_hosts e cluster_id False)
       (\<lambda>hosts. ret (filter (\<lambda>h. h_role h = role) hosts))"

section \<open>Addresses of hosts\<close>

record nic_data =
  nd_name :: string
  nd_mac :: string
  nd_ip :: "ip option"

definition get_network_interface_ip :: "bool \<Rightarrow> nic \<Rightarrow> ip option" where
  "get_network_interface_ip ipv4_first interface =
     (let addresses =
        (if ipv4_first then nic_ipv4_addresses interface @ nic_ipv6_addresses interface
         else nic_ipv6_addresses interface @ nic_ipv4_addresses interface)
      in case addresses of [] \<Rightarrow> None | a # _ \<Rightarrow> Some (interface_ip a))"

fun get_inventory_host_nics_data :: "host \<Rightarrow> bool \<Rightarrow> exn + nic_data list" where
  "get_inventory_host_nics_data h ipv4_first =
     (case h_inventory h of
        Missing \<Rightarrow> Inl (KeyError ''inventory'')
      | Null \<Rightarrow> Inl TypeError
      | Has i \<Rightarrow> Inr (map (\<lambda>n. \<lparr>nd_name = nic_name n, nd_mac = nic_mac n,
                     nd_ip = get_network_interface_ip ipv4_first n\<rparr>) (inv_interfaces i)))"

text \<open>A list comprehension stops at the first exception.\<close>

fun sum_map :: "('a \<Rightarrow> exn + 'b) \<Rightarrow> 'a list \<Rightarrow> exn + 'b list" where
  "sum_map f [] = Inr []"
| "sum_map f (x # xs) =
     (case f x of Inl e \<Rightarrow> Inl e
      | Inr y \<Rightarrow> (case sum_map f xs of Inl e \<Rightarrow> Inl e | Inr ys \<Rightarrow> Inr (y # ys)))"

definition get_hosts_nics_data :: "host list \<Rightarrow> bool \<Rightarrow> exn + nic_data list list" where
  "get_hosts_nics_data hosts ipv4_first = sum_map (\<lambda>h. get_inventory_host_nics_data h ipv4_first) hosts"

fun get_inventory_host_ips_data :: "host \<Rightarrow> exn + ip option list" where
  "get_inventory_host_ips_data h =
     (case get_inventory_host_nics_data h True of Inl e \<Rightarrow> Inl e | Inr nics \<Rightarrow> Inr (map nd_ip nics))"

text \<open>The inner loop of \<open>get_ips_for_role\<close>: the addresses of the interfaces inside \<open>net\<close>.\<close>

fun ips_in_network :: "('a, 'n) netaddr \<Rightarrow> 'n \<Rightarrow> nic_data list \<Rightarrow> exn + ip list" where
  "ips_in_network na net [] = Inr []"
| "ips_in_network na net (intf # rest) =
     (case na_address na (nd_ip intf) of
        Inl e \<Rightarrow> Inl e
      | Inr a \<Rightarrow>
         (case ips_in_network na net rest of
            Inl e \<Rightarrow> Inl e
          | Inr ips \<Rightarrow> Inr ((if na_addr_in na a net then
                 (case nd_ip intf of None \<Rightarrow> [] | Some i \<Rightarrow> [i]) else []) @ ips)))"

definition ips_for_role ::
  "('a, 'n) netaddr \<Rightarrow> host list \<Rightarrow> cidr \<Rightarrow> string \<Rightarrow> exn + ip list" where
  "ips_for_role na hosts network role =
     (case na_network na network of
        Inl e \<Rightarrow> Inl e
      | Inr net \<Rightarrow>
         (case get_hosts_nics_data (filter (\<lambda>h. h_role h = role) hosts) True of
            Inl e \<Rightarrow> Inl e
          | Inr nics \<Rightarrow> ips_in_network na net (concat nics)))"

definition get_ips_for_role ::
  "env \<Rightarrow> ('a, 'n) netaddr \<Rightarrow> string \<Rightarrow> cidr \<Rightarrow> string \<Rightarrow> ((call, 'z) world_scheme, ip list) prog" where
  "get_ips_for_role e na cluster_id network role =
     bindP (cluster_get e cluster_id False) (\<lambda>c.
       case ips_for_role na (cl_hosts c) network role of Inl x \<Rightarrow> raise x | Inr ips \<Rightarrow> ret ips)"

text \<open>Every exception of the request means \<open>not ready\<close>.\<close>

definition is_kubeapi_service_ready :: "env \<Rightarrow> ip option \<Rightarrow> ((call, 'z) world_scheme, bool) prog" where
  "is_kubeapi_service_ready e ip =
     try_except (ext (\<lambda>h. e_readyz e h ip) (KubeApiReadyz ip)) (\<lambda>_. ret False)"

fun first_ready_ip :: "env \<Rightarrow> ip option list \<Rightarrow> ((call, 'z) world_scheme, ip option option) prog" where
  "first_ready_ip e [] = ret None"
| "first_ready_ip e (i # is) =
     bindP (is_kubeapi_service_ready e i) (\<lambda>ok. if ok then ret (Some i) else first_ready_ip e is)"

fun get_kube_api_ip :: "env \<Rightarrow> host list \<Rightarrow> ((call, 'z) world_scheme, ip option option) prog" where
  "get_kube_api_ip e [] = ret None"
| "get_kube_api_ip e (h # hs) =
     (case get_inventory_host_ips_data h of
        Inl x \<Rightarrow> raise x
      | Inr ips \<Rightarrow> bindP (first_ready_ip e ips) (\<lambda>r.
          case r of Some i \<Rightarrow> ret (Some i) | None \<Rightarrow> get_kube_api_ip e hs))"

text \<open>A found \<open>None\<close> address is falsy, so the wait goes on.\<close>

definition wait_for_api_vip ::
  "((call, 'z) world_scheme, ip) waiter \<Rightarrow> env \<Rightarrow> host list \<Rightarrow> int \<Rightarrow> ((call, 'z) world_scheme, ip) prog" where
  "wait_for_api_vip wait e hosts timeout =
     wait (bindP (get_kube_api_ip e hosts) (\<lambda>r. ret (case r of Some (Some i) \<Rightarrow> Some i | _ \<Rightarrow> None)))
       timeout 5 no_exceptions"

text \<open>
  \<open>cluster_info\<close> is a dictionary; without one the fetched model object has no \<open>get\<close>. With
  no hosts in the dictionary, \<open>cluster.to_dict\<close> is asked of a \<open>dict\<close>.
\<close>

definition get_api_vip ::
  "((call, 'z) world_scheme, ip) waiter \<Rightarrow> env \<Rightarrow> cluster option \<Rightarrow> string
     \<Rightarrow> ((call, 'z) world_scheme, ip option) prog" where
  "get_api_vip wait e cluster_info cluster_id =
     (case cluster_info of
        None \<Rightarrow> bindP (cluster_get e cluster_id False) (\<lambda>_. raise AttributeError)
      | Some cluster \<Rightarrow>
         (case cl_api_vips cluster of
            vip # _ \<Rightarrow> ret (Some vip)
          | [] \<Rightarrow>
              if \<not> cl_user_managed_networking cluster then ret None
              else if cl_hosts cluster = [] then raise AttributeError
              else bindP (get_hosts_by_role e (cl_id cluster) (role_value Master) (Some (cl_hosts cluster)))
                (\<lambda>masters. bindP (wait_for_api_vip wait e masters 180) (\<lambda>i. ret (Some i)))))"

definition get_vips_from_cluster ::
  "env \<Rightarrow> string \<Rightarrow> ((call, 'z) world_scheme, ip list \<times> ip list) prog" where
  "get_vips_from_cluster e cluster_id =
     bindP (cluster_get e cluster_id False) (\<lambda>c. ret (cl_api_vips c, cl_ingress_vips c))"

section \<open>Changing the service's objects\<close>

definition api_update_cluster :: "env \<Rightarrow> string \<Rightarrow> pyval \<Rightarrow> ((call, 'z) world_scheme, unit) prog" where
  "api_update_cluster e cluster_id update_params = do_call e (V2UpdateCluster cluster_id update_params)"

definition api_set_pull_secret :: "env \<Rightarrow> string \<Rightarrow> string \<Rightarrow> ((call, 'z) world_scheme, unit) prog" where
  "api_set_pull_secret e cluster_id pull_secret =
     api_update_cluster e cluster_id (PDict [(''pull_secret'', PStr pull_secret)])"

definition api_set_cluster_proxy ::
  "env \<Rightarrow> string \<Rightarrow> pyval \<Rightarrow> pyval \<Rightarrow> pyval \<Rightarrow> ((call, 'z) world_scheme, unit) prog" where
  "api_set_cluster_proxy e cluster_id http_proxy https_proxy no_proxy =
     api_update_cluster e cluster_id
       (PDict [(''http_proxy'', http_proxy), (''https_proxy'', https_proxy), (''no_proxy'', no_proxy)])"

definition api_delete_cluster :: "env \<Rightarrow> string \<Rightarrow> ((call, 'z) world_scheme, unit) prog" where
  "api_delete_cluster e cluster_id = do_call e (V2DeregisterCluster cluster_id)"

definition api_update_infra_env :: "env \<Rightarrow> string \<Rightarrow> pyval \<Rightarrow> ((call, 'z) world_scheme, unit) prog" where
  "api_update_infra_env e infra_env_id params = do_call e (UpdateInfraEnv infra_env_id params)"

definition api_update_host ::
  "env \<Rightarrow> string \<Rightarrow> string \<Rightarrow> pyval \<Rightarrow> pyval \<Rightarrow> pyval \<Rightarrow> pyval \<Rightarrow> ((call, 'z) world_scheme, unit) prog" where
  "api_update_host e infra_env_id host_id host_role host_name node_labels disks_skip_formatting =
     do_call e (V2UpdateHost infra_env_id host_id
       (PDict [(''host_role'', host_role), (''host_name'', host_name), (''node_labels'', node_labels),
               (''disks_skip_formatting'', disks_skip_formatting)]))"

record disk_choice =
  dc_disk_id :: "string option"
  dc_path :: string
  dc_role :: string

definition api_select_installation_disk ::
  "env \<Rightarrow> string \<Rightarrow> string \<Rightarrow> disk_choice list \<Rightarrow> ((call, 'z) world_scheme, unit) prog" where
  "api_select_installation_disk e infra_env_id host_id disk_paths =
     do_call e (V2UpdateHost infra_env_id host_id
       (PDict [(''disks_selected_config'', PList (map (\<lambda>d. PDict
          [(''id'', PStr (case dc_disk_id d of Some i \<Rightarrow> i | None \<Rightarrow> dc_path d)),
           (''role'', PStr (dc_role d))]) disk_paths))]))"

definition api_deregister_host :: "env \<Rightarrow> string \<Rightarrow> string \<Rightarrow> ((call, 'z) world_scheme, unit) prog" where
  "api_deregister_host e infra_env_id host_id = do_call e (V2DeregisterHost infra_env_id host_id)"

definition api_bind_host :: "env \<Rightarrow> string \<Rightarrow> string \<Rightarrow> string \<Rightarrow> ((call, 'z) world_scheme, unit) prog" where
  "api_bind_host e infra_env_id host_id cluster_id = do_call e (BindHost infra_env_id host_id cluster_id)"

definition api_unbind_host :: "env \<Rightarrow> string \<Rightarrow> string \<Rightarrow> ((call, 'z) world_scheme, unit) prog" where
  "api_unbind_host e infra_env_id host_id = do_call e (UnbindHost infra_env_id host_id)"

definition api_install_cluster :: "env \<Rightarrow> string \<Rightarrow> ((call, 'z) world_scheme, unit) prog" where
  "api_install_cluster e cluster_id = do_call e (V2InstallCluster cluster_id)"

definition api_install_day2_host :: "env \<Rightarrow> string \<Rightarrow> string \<Rightarrow> ((call, 'z) world_scheme, unit) prog" where
  "api_install_day2_host e infra_env_id host_id = do_call e (V2InstallHost infra_env_id host_id)"

definition api_cancel_cluster_install :: "env \<Rightarrow> string \<Rightarrow> ((call, 'z) world_scheme, unit) prog" where
  "api_cancel_cluster_install e cluster_id = do_call e (V2CancelInstallation cluster_id)"

definition api_reset_cluster_install :: "env \<Rightarrow> string \<Rightarrow> ((call, 'z) world_scheme, unit) prog" where
  "api_reset_cluster_install e cluster_id = do_call e (V2ResetCluster cluster_id)"

text \<open>The download methods fetch first and then write the file.\<close>

definition api_download_kubeconfig :: "env \<Rightarrow> string \<Rightarrow> string \<Rightarrow> ((call, 'z) world_scheme, unit) prog" where
  "api_download_kubeconfig e cluster_id kubeconfig_path =
     thenP (do_call e (V2DownloadFile cluster_id ''kubeconfig'')) (do_call e (WriteFile kubeconfig_path))"

definition api_download_kubeconfig_no_ingress ::
  "env \<Rightarrow> string \<Rightarrow> string \<Rightarrow> ((call, 'z) world_scheme, unit) prog" where
  "api_download_kubeconfig_no_ingress e cluster_id kubeconfig_path =
     thenP (do_call e (V2DownloadFile cluster_id ''kubeconfig-noingress'')) (do_call e (WriteFile kubeconfig_path))"

definition api_create_custom_manifest ::
  "env \<Rightarrow> string \<Rightarrow> pyval \<Rightarrow> pyval \<Rightarrow> pyval \<Rightarrow> ((call, 'z) world_scheme, pyval) prog" where
  "api_create_custom_manifest e cluster_id folder file_name base64_content =
     ask_call e (V2CreateManifest cluster_id
       (PDict [(''file_name'', file_name), (''folder'', folder), (''content'', base64_content)]))"

definition api_delete_custom_manifest ::
  "env \<Rightarrow> string \<Rightarrow> string \<Rightarrow> string option \<Rightarrow> ((call, 'z) world_scheme, unit) prog" where
  "api_delete_custom_manifest e cluster_id file_name folder =
     (case folder of
        Some (c # cs) \<Rightarrow> do_call e (V2DeleteManifest cluster_id file_name (Some (c # cs)))
      | _ \<Rightarrow> do_call e (V2DeleteManifest cluster_id file_name None))"

definition api_create_cluster :: "env \<Rightarrow> string \<Rightarrow> pyval \<Rightarrow> ((call, 'z) world_scheme, string) prog" where
  "api_create_cluster e name params =
     ext (\<lambda>h. e_register e h (V2RegisterCluster name params)) (V2RegisterCluster name params)"

definition api_create_infra_env :: "env \<Rightarrow> string \<Rightarrow> pyval \<Rightarrow> ((call, 'z) world_scheme, string) prog" where
  "api_create_infra_env e name params =
     ext (\<lambda>h. e_register e h (RegisterInfraEnv name params)) (RegisterInfraEnv name params)"

definition api_create_day2_cluster ::
  "env \<Rightarrow> string \<Rightarrow> string \<Rightarrow> pyval \<Rightarrow> ((call, 'z) world_scheme, string) prog" where
  "api_create_day2_cluster e name cluster_uuid params =
     ext (\<lambda>h. e_register e h (V2ImportCluster name cluster_uuid params))
       (V2ImportCluster name cluster_uuid params)"

definition api_get_bundle :: "env \<Rightarrow> string \<Rightarrow> ((call, 'z) world_scheme, string list) prog" where
  "api_get_bundle e bundle_id = ext (\<lambda>h. e_get_bundle e h bundle_id) (V2GetBundle bundle_id)"

section \<open>Authentication\<close>

datatype auth_method = OfflineToken | ServiceAccountAuth | RefreshToken

record service_account =
  sa_client_id :: "string option"
  sa_client_secret :: "string option"

definition is_provided :: "service_account \<Rightarrow> bool" where
  "is_provided sa \<longleftrightarrow> sa_client_id sa \<noteq> None \<and> sa_client_secret sa \<noteq> None"

text \<open>\<open>None\<close>: the requests carry no authentication header.\<close>

definition select_authentication ::
  "service_account option \<Rightarrow> string option \<Rightarrow> string option \<Rightarrow> auth_method option" where
  "select_authentication service_account refresh_token offline_token =
     (if (case service_account of None \<Rightarrow> False | Some sa \<Rightarrow> is_provided sa) then Some ServiceAccountAuth
      else if refresh_token \<noteq> None then Some RefreshToken
      else if offline_token = None then None
      else Some OfflineToken)"

text \<open>When the hook fetches a new key: no key yet, or one that expires within ten minutes.\<close>

definition needs_new_key :: "int option \<Rightarrow> int \<Rightarrow> bool" where
  "needs_new_key expires_on now =
     (case expires_on of None \<Rightarrow> True | Some x \<Rightarrow> \<not> (x = 0 \<or> x - now > 600))"

section \<open>Environments for concrete runs\<close>

text \<open>A service that answers every query with the cluster \<open>c\<close> and accepts every request.\<close>

definition still_env :: "cluster \<Rightarrow> env" where
  "still_env c = \<lparr>e_list_clusters = (\<lambda>_ _. Inr [c]), e_get_cluster = (\<lambda>_ _. Inr c),
     e_list_hosts = (\<lambda>_ _. Inr (cl_hosts c)), e_list_infra_envs = (\<lambda>_. Inr []),
     e_register = (\<lambda>_ _. Inr ''id''), e_get_bundle = (\<lambda>_ _. Inr []), e_readyz = (\<lambda>_ _. Inr True),
     e_do = (\<lambda>_ _. Inr ()), e_ask = (\<lambda>_ _. Inr PNone),
     e_run = (\<lambda>_ _. Inr \<lparr>p_out = [], p_err = [], p_rc = 0\<rparr>)\<rparr>"

definition sample_host :: "string \<Rightarrow> string \<Rightarrow> string \<Rightarrow> host" where
  "sample_host i status role = \<lparr>h_id = i, h_infra_env_id = ''ie'', h_status = status,
     h_status_info = [], h_requested_hostname = Some i, h_role = role, h_stage = ''Done'',
     h_bootstrap = False, h_logs_info = None, h_agent_version = None, h_inventory = Missing\<rparr>"

definition sample_cluster :: "string \<Rightarrow> host list \<Rightarrow> cluster" where
  "sample_cluster status hosts = \<lparr>cl_id = ''c'', cl_name = ''c'', cl_status = status,
     cl_hosts = hosts, cl_operators = [], cl_platform = None, cl_high_availability_mode = None,
     cl_control_plane_count = None, cl_logs_info = None, cl_tags = None,
     cl_user_managed_networking = False, cl_api_vips = [], cl_ingress_vips = []\<rparr>"

definition fresh_world :: "call world" where
  "fresh_world = \<lparr>hist = []\<rparr>"

lemmas concrete_env = still_env_def sample_host_def sample_cluster_def fresh_world_def

end
