(* ===== verification/Waiting.thy ===== *)
theory Waiting
  imports Service
begin

text \<open>
  \<open>utils/waiting.py\<close> and the status checks of \<open>utils/utils.py\<close> it polls: what it means that
  enough hosts are in a status, and the waits built on it. \<open>waiting.wait\<close> is a parameter
  (\<open>History.waits_by\<close>). Logging calls are left out, except where they query the service.
\<close>

section \<open>Status checks\<close>

text \<open>
  \<open>status_info\<close> is a string or a tuple of strings: \<open>str.startswith\<close> takes both, and a
  single string is the list of it.
\<close>

definition host_in_status :: "string list \<Rightarrow> string list \<Rightarrow> host \<Rightarrow> bool" where
  "host_in_status statuses status_info h \<longleftrightarrow>
     h_status h \<in> set statuses \<and> list_ex (\<lambda>p. startswith (h_status_info h) p) status_info"

definition are_hosts_in_status ::
  "host list \<Rightarrow> int \<Rightarrow> string list \<Rightarrow> string list \<Rightarrow> bool \<Rightarrow> bool \<Rightarrow> exn + bool" where
  "are_hosts_in_status hosts nodes_count statuses status_info fall_on_error_status fall_on_pending_status =
     (if int (length (filter (host_in_status statuses status_info) hosts)) \<ge> nodes_count then Inr True
      else if fall_on_error_status \<and> length (filter (\<lambda>h. h_status h = ns_value NS_Error) hosts) > 0
        then Inl InstallationFailedError
      else if fall_on_pending_status \<and> length (filter (\<lambda>h. occurs_in ''pending'' (h_status h)) hosts) > 0
        then Inl InstallationPendingActionError
      else Inr False)"

fun are_hosts_using_agent_image :: "host list \<Rightarrow> string \<Rightarrow> bool" where
  "are_hosts_using_agent_image [] img = True"
| "are_hosts_using_agent_image (h # hs) img =
     (if h_agent_version h \<noteq> Some img then False else are_hosts_using_agent_image hs img)"

definition host_statuses ::
  "host list \<Rightarrow> (nat \<times> string \<times> string option \<times> string \<times> string \<times> string) list" where
  "host_statuses hosts =
     map (\<lambda>(i, h). (i, h_id h, h_requested_hostname h, h_role h, h_status h, h_status_info h))
       (enumerate 1 hosts)"

definition are_host_progress_in_stage :: "host list \<Rightarrow> string list \<Rightarrow> int \<Rightarrow> bool" where
  "are_host_progress_in_stage hosts stages nodes_count \<longleftrightarrow>
     int (length (filter (\<lambda>h. h_stage h \<in> set stages) hosts)) \<ge> nodes_count"

text \<open>
  Every exception of the query, \<open>BaseException\<close> included, is logged and swallowed; the
  function then falls off its end and returns \<open>None\<close>.
\<close>

definition is_cluster_in_status ::
  "env \<Rightarrow> string \<Rightarrow> string list \<Rightarrow> ((call, 'z) world_scheme, bool option) prog" where
  "is_cluster_in_status e cluster_id statuses =
     try_except
       (bindP (cluster_get e cluster_id False) (\<lambda>c.
          if cl_status c \<in> set statuses then ret (Some True) else ret (Some False)))
       (\<lambda>_. ret None)"

definition is_true :: "bool option \<Rightarrow> bool" where
  "is_true b \<longleftrightarrow> b = Some True"

definition sum_prog :: "exn + 'a \<Rightarrow> ('s, 'a) prog" where
  "sum_prog r = (case r of Inl x \<Rightarrow> raise x | Inr v \<Rightarrow> ret v)"

lemma sum_prog_app [prog_simps]: "sum_prog r s = (r, s)"
  by (simp add: sum_prog_def prog_simps split: sum.split)

section \<open>Waits on hosts\<close>

type_synonym 'z cwaiter = "((call, 'z) world_scheme, unit) waiter"

text \<open>A host that is not found is \<open>None\<close>, and indexing it raises \<open>TypeError\<close>.\<close>

definition require_hosts :: "host option list \<Rightarrow> exn + host list" where
  "require_hosts hs = sum_map (\<lambda>h. case h of None \<Rightarrow> Inl TypeError | Some h \<Rightarrow> Inr h) hs"

definition wait_till_hosts_with_macs_are_in_status ::
  "'z cwaiter \<Rightarrow> env \<Rightarrow> string \<Rightarrow> string list \<Rightarrow> string list \<Rightarrow> int \<Rightarrow> bool \<Rightarrow> int
     \<Rightarrow> ((call, 'z) world_scheme, unit) prog" where
  "wait_till_hosts_with_macs_are_in_status wait e cluster_id macs statuses timeout fall_on_error_status interval =
     wait (bindP (collect (get_host_by_mac e cluster_id) macs) (\<lambda>hs.
             bindP (sum_prog (require_hosts hs)) (\<lambda>hosts.
               bindP (sum_prog (are_hosts_in_status hosts (int (length macs)) statuses ['''']
                        fall_on_error_status False)) (\<lambda>b. ret (truthy b)))))
       timeout interval no_exceptions"

definition wait_till_all_hosts_are_in_status ::
  "'z cwaiter \<Rightarrow> env \<Rightarrow> string \<Rightarrow> int \<Rightarrow> string list \<Rightarrow> string list \<Rightarrow> int \<Rightarrow> bool \<Rightarrow> int \<Rightarrow> bool
     \<Rightarrow> ((call, 'z) world_scheme, unit) prog" where
  "wait_till_all_hosts_are_in_status wait e cluster_id nodes_count statuses status_info timeout
       fall_on_error_status interval fall_on_pending_status =
     wait (bindP (get_cluster_hosts e cluster_id False) (\<lambda>hosts.
             bindP (sum_prog (are_hosts_in_status hosts nodes_count statuses status_info
                      fall_on_error_status fall_on_pending_status)) (\<lambda>b. ret (truthy b))))
       timeout interval no_exceptions"

definition wait_till_all_hosts_use_agent_image ::
  "'z cwaiter \<Rightarrow> env \<Rightarrow> string \<Rightarrow> string \<Rightarrow> int \<Rightarrow> int \<Rightarrow> ((call, 'z) world_scheme, unit) prog" where
  "wait_till_all_hosts_use_agent_image wait e cluster_id img timeout interval =
     wait (bindP (get_cluster_hosts e cluster_id False) (\<lambda>hosts.
             ret (truthy (are_hosts_using_agent_image hosts img))))
       timeout interval no_exceptions"

definition wait_till_all_infra_env_hosts_are_in_status ::
  "'z cwaiter \<Rightarrow> env \<Rightarrow> string \<Rightarrow> int \<Rightarrow> string list \<Rightarrow> int \<Rightarrow> bool \<Rightarrow> int
     \<Rightarrow> ((call, 'z) world_scheme, unit) prog" where
  "wait_till_all_infra_env_hosts_are_in_status wait e infra_env_id nodes_count statuses timeout
       fall_on_error_status interval =
     wait (bindP (get_infra_env_hosts e infra_env_id) (\<lambda>hosts.
             bindP (sum_prog (are_hosts_in_status hosts nodes_count statuses ['''']
                      fall_on_error_status False)) (\<lambda>b. ret (truthy b))))
       timeout interval no_exceptions"

definition wait_till_at_least_one_host_is_in_status ::
  "'z cwaiter \<Rightarrow> env \<Rightarrow> string \<Rightarrow> string list \<Rightarrow> string list \<Rightarrow> int \<Rightarrow> int \<Rightarrow> bool \<Rightarrow> bool \<Rightarrow> int
     \<Rightarrow> ((call, 'z) world_scheme, unit) prog" where
  "wait_till_at_least_one_host_is_in_status wait e cluster_id statuses status_info nodes_count timeout
       fall_on_error_status fall_on_pending_status interval =
     wait (bindP (get_cluster_hosts e cluster_id False) (\<lambda>hosts.
             bindP (sum_prog (are_hosts_in_status hosts nodes_count statuses status_info
                      fall_on_error_status fall_on_pending_status)) (\<lambda>b. ret (truthy b))))
       timeout interval no_exceptions"

definition wait_till_specific_host_is_in_status ::
  "'z cwaiter \<Rightarrow> env \<Rightarrow> string \<Rightarrow> string option \<Rightarrow> int \<Rightarrow> string list \<Rightarrow> string list \<Rightarrow> int \<Rightarrow> bool \<Rightarrow> int
     \<Rightarrow> ((call, 'z) world_scheme, unit) prog" where
  "wait_till_specific_host_is_in_status wait e cluster_id host_name nodes_count statuses status_info
       timeout fall_on_error_status interval =
     wait (bindP (get_host_by_name e cluster_id host_name) (\<lambda>h.
             bindP (sum_prog (require_hosts [h])) (\<lambda>hosts.
               bindP (sum_prog (are_hosts_in_status hosts nodes_count statuses status_info
                        fall_on_error_status False)) (\<lambda>b. ret (truthy b)))))
       timeout interval no_exceptions"

text \<open>The handlers query the hosts for the log and re-raise; a failing query replaces the exception.\<close>

definition wait_till_at_least_one_host_is_in_stage ::
  "'z cwaiter \<Rightarrow> env \<Rightarrow> string \<Rightarrow> string list \<Rightarrow> int \<Rightarrow> int \<Rightarrow> int \<Rightarrow> ((call, 'z) world_scheme, unit) prog" where
  "wait_till_at_least_one_host_is_in_stage wait e cluster_id stages nodes_count timeout interval =
     try_except
       (wait (bindP (get_cluster_hosts e cluster_id False) (\<lambda>hosts.
                ret (truthy (are_host_progress_in_stage hosts stages nodes_count))))
          timeout interval no_exceptions)
       (\<lambda>x. bindP (get_cluster_hosts e cluster_id False) (\<lambda>_. raise x))"

definition wait_till_specific_host_is_in_stage ::
  "'z cwaiter \<Rightarrow> env \<Rightarrow> string \<Rightarrow> string option \<Rightarrow> string list \<Rightarrow> int \<Rightarrow> int \<Rightarrow> int
     \<Rightarrow> ((call, 'z) world_scheme, unit) prog" where
  "wait_till_specific_host_is_in_stage wait e cluster_id host_name stages nodes_count timeout interval =
     try_except
       (wait (bindP (get_host_by_name e cluster_id host_name) (\<lambda>h.
                bindP (sum_prog (require_hosts [h])) (\<lambda>hosts.
                  ret (truthy (are_host_progress_in_stage hosts stages nodes_count)))))
          timeout interval no_exceptions)
       (\<lambda>x. bindP (get_host_by_name e cluster_id host_name) (\<lambda>h.
              bindP (sum_prog (require_hosts [h])) (\<lambda>_. raise x)))"

section \<open>Waits on the cluster\<close>

text \<open>
  \<open>break_statuses\<close> is \<open>None\<close> or a list; both \<open>None\<close> and \<open>[]\<close> are falsy. The statuses waited
  for then include the ones to stop at, and the second check tells which were reached.
\<close>

definition wait_till_cluster_is_in_status ::
  "'z cwaiter \<Rightarrow> env \<Rightarrow> string \<Rightarrow> string list \<Rightarrow> int \<Rightarrow> int \<Rightarrow> string list
     \<Rightarrow> ((call, 'z) world_scheme, unit) prog" where
  "wait_till_cluster_is_in_status wait e cluster_id statuses timeout interval break_statuses =
     try_except
       (thenP (wait (bindP (is_cluster_in_status e cluster_id (statuses @ break_statuses))
                 (\<lambda>b. ret (truthy (is_true b)))) timeout interval no_exceptions)
         (if break_statuses \<noteq> [] then
            bindP (is_cluster_in_status e cluster_id break_statuses) (\<lambda>b.
              if is_true b then bindP (cluster_get e cluster_id False) (\<lambda>_. raise BaseExn)
              else ret ())
          else ret ()))
       (\<lambda>x. bindP (cluster_get e cluster_id False) (\<lambda>_.
              bindP (get_cluster_hosts e cluster_id False) (\<lambda>_. raise x)))"

section \<open>Waits only read\<close>

fun is_query :: "call \<Rightarrow> bool" where
  "is_query (V2GetCluster _ _) = True"
| "is_query (V2ListHosts _) = True"
| "is_query (V2ListClusters _) = True"
| "is_query ListInfraEnvs = True"
| "is_query (KubeApiReadyz _) = True"
| "is_query _ = False"

text \<open>The history grows by queries only.\<close>

definition only_queries :: "(call, 'z) world_scheme \<Rightarrow> (call, 'z) world_scheme \<Rightarrow> bool" where
  "only_queries s t \<longleftrightarrow> (\<exists>cs. hist t = hist s @ cs \<and> list_all is_query cs)"

interpretation queries: state_rel "only_queries :: (call, 'z) world_scheme \<Rightarrow> _"
  by unfold_locales (fastforce simp: only_queries_def)+

lemma keeps_only_queries_ext: "is_query c \<Longrightarrow> keeps only_queries (ext f c)"
  by (simp add: keeps_def ext_def only_queries_def)

lemma keeps_sum_prog [intro]: "state_rel R \<Longrightarrow> keeps R (sum_prog r)"
  unfolding sum_prog_def by (cases r) (simp_all add: state_rel.keeps_ret state_rel.keeps_raise)

lemmas queries_intros =
  queries.keeps_intros keeps_sum_prog [OF queries.state_rel_axioms] keeps_only_queries_ext

lemma keeps_queries [intro]:
  "keeps only_queries (cluster_get e cid u)"
  "keeps only_queries (get_cluster_hosts e cid u)"
  "keeps only_queries (get_infra_env_hosts e iid)"
  "keeps only_queries (get_host_by_mac e cid mac)"
  "keeps only_queries (get_host_by_name e cid name)"
  "keeps only_queries (is_cluster_in_status e cid statuses)"
  unfolding get_cluster_hosts_def get_infra_env_hosts_def cluster_get_def get_host_by_mac_def
    get_host_by_name_def is_cluster_in_status_def
  by (auto intro!: queries_intros split: sum.splits if_splits)

section \<open>What a finished wait has seen\<close>

lemma cluster_get_app:
  "cluster_get e cid u w = (e_get_cluster e (hist w) cid, w\<lparr>hist := hist w @ [V2GetCluster cid u]\<rparr>)"
  by (simp add: cluster_get_def ext_app)

lemma get_cluster_hosts_Inr_iff:
  "get_cluster_hosts e cid u w = (Inr hosts, t) \<longleftrightarrow>
     (\<exists>c. e_get_cluster e (hist w) cid = Inr c \<and> hosts = cl_hosts c
        \<and> t = w\<lparr>hist := hist w @ [V2GetCluster cid u]\<rparr>)"
  by (auto simp: get_cluster_hosts_def bindP_def cluster_get_app ret_def split: sum.splits)

text \<open>
  \<open>observed e cid s t P\<close>: the last call before \<open>t\<close>, made after \<open>s\<close>, asked for the cluster,
  and the answer satisfies \<open>P\<close>.
\<close>

definition observed ::
  "env \<Rightarrow> string \<Rightarrow> (call, 'z) world_scheme \<Rightarrow> (call, 'z) world_scheme \<Rightarrow> (cluster \<Rightarrow> bool) \<Rightarrow> bool" where
  "observed e cid s t P \<longleftrightarrow>
     (\<exists>h c. prefix (hist s) h \<and> hist t = h @ [V2GetCluster cid False]
        \<and> e_get_cluster e h cid = Inr c \<and> P c)"

lemma only_queries_prefix: "only_queries s t \<Longrightarrow> prefix (hist s) (hist t)"
  by (auto simp: only_queries_def)

lemma keeps_hosts_check:
  "keeps only_queries (bindP (get_cluster_hosts e cid False) (\<lambda>hosts.
     bindP (sum_prog (f hosts)) (\<lambda>b. ret (g b))))"
  by (auto intro!: queries_intros)

lemma wait_observed:
  assumes "waits_by wait"
    and "wait (bindP (get_cluster_hosts e cid False) (\<lambda>hosts.
            bindP (sum_prog (f hosts)) (\<lambda>b. ret (truthy b)))) timeout interval ex s = (Inr u, t)"
  shows "observed e cid s t (\<lambda>c. f (cl_hosts c) = Inr True)"
proof -
  let ?p = "bindP (get_cluster_hosts e cid False) (\<lambda>hosts.
              bindP (sum_prog (f hosts)) (\<lambda>b. ret (truthy b)))"
  obtain s' where s': "only_queries s s'" "?p s' = (Inr (Some u), t)"
    using queries.wait_Inr_rel [OF assms(1) keeps_hosts_check assms(2)] by blast
  then obtain c where "e_get_cluster e (hist s') cid = Inr c" "f (cl_hosts c) = Inr True"
    "t = s'\<lparr>hist := hist s' @ [V2GetCluster cid False]\<rparr>"
    by (auto simp: bindP_eq_Inr_iff get_cluster_hosts_Inr_iff prog_simps)
  then show ?thesis
    unfolding observed_def using only_queries_prefix [OF s'(1)] by auto
qed

lemma are_hosts_in_status_True:
  "are_hosts_in_status hosts n statuses info fe fp = Inr True \<longleftrightarrow>
     n \<le> int (length (filter (host_in_status statuses info) hosts))"
  by (auto simp: are_hosts_in_status_def)

text \<open>C3: A wait for hosts to reach a status that returns normally made, as its very last
  call, a query of the cluster that showed at least the requested number of hosts in one of
  the statuses; and whether it returns or raises, it made nothing but queries.\<close>

theorem wait_hosts_in_status_sound:
  assumes "waits_by wait"
    and "wait_till_all_hosts_are_in_status wait e cid n statuses info timeout fe interval fp s = (r, t)"
  shows "only_queries s t \<and>
    (r = Inr () \<longrightarrow>
       observed e cid s t (\<lambda>c. n \<le> int (length (filter (host_in_status statuses info) (cl_hosts c)))))"
proof
  show "only_queries s t"
    using assms(2) unfolding wait_till_all_hosts_are_in_status_def
    by (rule keepsD [OF queries.keeps_wait [OF assms(1) keeps_hosts_check]])
next
  show "r = Inr () \<longrightarrow> observed e cid s t (\<lambda>c. n \<le> int (length (filter (host_in_status statuses info) (cl_hosts c))))"
  proof
    assume "r = Inr ()"
    with assms(2) have "observed e cid s t
        (\<lambda>c. are_hosts_in_status (cl_hosts c) n statuses info fe fp = Inr True)"
      unfolding wait_till_all_hosts_are_in_status_def by (auto intro: wait_observed [OF assms(1)])
    then show "observed e cid s t (\<lambda>c. n \<le> int (length (filter (host_in_status statuses info) (cl_hosts c))))"
      by (simp add: are_hosts_in_status_True)
  qed
qed

theorem wait_hosts_in_status_sound_witness:
  "wait_till_all_hosts_are_in_status (poll_upto 0)
       (still_env (sample_cluster ''installed'' [sample_host ''a'' ''installed'' ''master'']))
       ''c'' 1 [''installed''] [''''] 60 True 5 False fresh_world
     = (Inr (), \<lparr>hist = [V2GetCluster ''c'' False]\<rparr>)
   \<and> only_queries fresh_world \<lparr>hist = [V2GetCluster ''c'' False]\<rparr>"
proof -
  have run: "wait_till_all_hosts_are_in_status (poll_upto 0)
       (still_env (sample_cluster ''installed'' [sample_host ''a'' ''installed'' ''master'']))
       ''c'' 1 [''installed''] [''''] 60 True 5 False fresh_world
     = (Inr (), \<lparr>hist = [V2GetCluster ''c'' False]\<rparr>)"
    by (simp add: wait_till_all_hosts_are_in_status_def poll_upto.simps get_cluster_hosts_def
        cluster_get_app bindP_def concrete_env prog_simps are_hosts_in_status_def host_in_status_def)
  then show ?thesis
    using wait_hosts_in_status_sound [OF waits_by_poll_upto run] by simp
qed

section \<open>Waiting for a cluster status\<close>

lemma is_cluster_in_status_app:
  "is_cluster_in_status e cid statuses w =
     (Inr (case e_get_cluster e (hist w) cid of Inl _ \<Rightarrow> None | Inr c \<Rightarrow> Some (cl_status c \<in> set statuses)),
      w\<lparr>hist := hist w @ [V2GetCluster cid False]\<rparr>)"
  by (auto simp: is_cluster_in_status_def try_except_def bindP_def cluster_get_app ret_def split: sum.split)

lemma keeps_status_check:
  "keeps only_queries (bindP (is_cluster_in_status e cid statuses) (\<lambda>b. ret (g b)))"
  by (auto intro!: queries_intros)

lemma wait_status_observed:
  assumes "waits_by wait"
    and "wait (bindP (is_cluster_in_status e cid statuses) (\<lambda>b. ret (truthy (is_true b))))
           timeout interval ex s = (Inr u, t)"
  shows "observed e cid s t (\<lambda>c. cl_status c \<in> set statuses)"
proof -
  let ?p = "bindP (is_cluster_in_status e cid statuses) (\<lambda>b. ret (truthy (is_true b)))"
  obtain s' where s': "only_queries s s'" "?p s' = (Inr (Some u), t)"
    using queries.wait_Inr_rel [OF assms(1) keeps_status_check assms(2)] by blast
  then obtain c where "e_get_cluster e (hist s') cid = Inr c" "cl_status c \<in> set statuses"
    "t = s'\<lparr>hist := hist s' @ [V2GetCluster cid False]\<rparr>"
    by (auto simp: bindP_def is_cluster_in_status_app ret_def is_true_def split: sum.splits)
  then show ?thesis
    unfolding observed_def using only_queries_prefix [OF s'(1)] by auto
qed

lemma reraise_never_returns:
  "bindP m (\<lambda>_. bindP n (\<lambda>_. raise x)) s \<noteq> (Inr y, t)"
  by (auto simp: bindP_eq_Inr_iff prog_simps)

text \<open>Without statuses to stop at, a wait for a cluster status that returns normally saw, in
  its very last call, the cluster in one of the statuses it waits for.\<close>

lemma wait_cluster_in_status_sound:
  assumes "waits_by wait"
    and "wait_till_cluster_is_in_status wait e cid statuses timeout interval [] s = (Inr (), t)"
  shows "observed e cid s t (\<lambda>c. cl_status c \<in> set statuses)"
proof -
  have "wait (bindP (is_cluster_in_status e cid statuses) (\<lambda>b. ret (truthy (is_true b))))
          timeout interval no_exceptions s = (Inr (), t)"
    using assms(2) unfolding wait_till_cluster_is_in_status_def
    by (auto simp: try_except_def reraise_never_returns split: prod.splits sum.splits)
  then show ?thesis by (rule wait_status_observed [OF assms(1)])
qed

lemma wait_cluster_in_status_sound_witness:
  "observed (still_env (sample_cluster ''ready'' [])) ''c'' fresh_world \<lparr>hist = [V2GetCluster ''c'' False]\<rparr>
     (\<lambda>c. cl_status c \<in> set [''ready''])"
proof -
  have run: "wait_till_cluster_is_in_status (poll_upto 0) (still_env (sample_cluster ''ready'' []))
      ''c'' [''ready''] 60 5 [] fresh_world = (Inr (), \<lparr>hist = [V2GetCluster ''c'' False]\<rparr>)"
    by (simp add: wait_till_cluster_is_in_status_def poll_upto.simps is_cluster_in_status_app
        bindP_def try_except_def concrete_env prog_simps is_true_def)
  show ?thesis by (rule wait_cluster_in_status_sound [OF waits_by_poll_upto run])
qed

end
