(* ===== verification/Utils.thy ===== *)
theory Utils
  imports Waiting
begin

text \<open>
  \<open>utils/utils.py\<close>: running commands, ports, environment variables, validations, version
  selection, the nodes of a terraform state, the locked update of \<open>/etc/hosts\<close>. The process
  environment, the contents of files and the answers of sockets and requests are parameters.
\<close>

section \<open>Commands and files\<close>

text \<open>
  \<open>subprocess.run\<close> waits for the command and gives its outputs and return code; with
  \<open>shell=False\<close> the command string is split first, which its text stands for.
\<close>

definition run_command ::
  "env \<Rightarrow> string \<Rightarrow> bool \<Rightarrow> ((call, 'z) world_scheme, string \<times> string \<times> int) prog" where
  "run_command e command raise_errors =
     bindP (ext (\<lambda>h. e_run e h command) (ShellCommand command)) (\<lambda>p.
       if raise_errors \<and> p_rc p \<noteq> 0 then raise RuntimeError
       else ret (strip (p_out p), strip (p_err p), p_rc p))"

definition run_command_with_output :: "env \<Rightarrow> string \<Rightarrow> ((call, 'z) world_scheme, unit) prog" where
  "run_command_with_output e command =
     bindP (ext (\<lambda>h. e_run e h command) (ShellCommand command)) (\<lambda>p.
       whenP (p_rc p \<noteq> 0) (raise CalledProcessError))"

text \<open>An answer of the outside used as a truth value.\<close>

definition ask_bool :: "env \<Rightarrow> string \<Rightarrow> pyval list \<Rightarrow> ((call, 'z) world_scheme, bool) prog" where
  "ask_bool e what args = bindP (ask_call e (Controller what args)) (\<lambda>v. ret (truth v))"

definition act :: "env \<Rightarrow> string \<Rightarrow> pyval list \<Rightarrow> ((call, 'z) world_scheme, unit) prog" where
  "act e what args = do_call e (Controller what args)"

definition recreate_folder :: "env \<Rightarrow> string \<Rightarrow> bool \<Rightarrow> bool \<Rightarrow> ((call, 'z) world_scheme, unit) prog" where
  "recreate_folder e folder with_chmod force_recreate =
     bindP (ask_bool e ''os.path.isdir'' [PStr folder]) (\<lambda>is_exists.
       thenP
         (if is_exists \<and> force_recreate then
            thenP (act e ''shutil.rmtree'' [PStr folder]) (act e ''os.makedirs'' [PStr folder])
          else if \<not> is_exists then act e ''os.makedirs'' [PStr folder]
          else ret ())
         (whenP with_chmod
            (bindP (run_command e (''chmod -R ugo+rx '' @ [CHR 0x27] @ folder @ [CHR 0x27]) True)
              (\<lambda>_. ret ()))))"

definition run_container ::
  "env \<Rightarrow> string \<Rightarrow> string \<Rightarrow> string list \<Rightarrow> string \<Rightarrow> ((call, 'z) world_scheme, unit) prog" where
  "run_container e container_name img flags command =
     bindP (run_command e
       (''podman-remote run --name '' @ container_name @ concat (map (\<lambda>f. '' '' @ f) flags)
          @ '' '' @ img @ '' '' @ command) True) (\<lambda>_. ret ())"

definition remove_running_container :: "env \<Rightarrow> string \<Rightarrow> ((call, 'z) world_scheme, unit) prog" where
  "remove_running_container e container_name =
     bindP (run_command e (''podman-remote rm --force '' @ container_name) True) (\<lambda>_. ret ())"

section \<open>Decorators and locks\<close>

text \<open>\<open>None\<close> is what a silenced call returns.\<close>

definition on_exception ::
  "(exn \<Rightarrow> ('s, unit) prog) option \<Rightarrow> bool \<Rightarrow> (exn \<Rightarrow> bool) \<Rightarrow> ('s, 'a) prog \<Rightarrow> ('s, 'a option) prog" where
  "on_exception callback silent errors fn =
     try_except (bindP fn (\<lambda>x. ret (Some x))) (\<lambda>x.
       if errors x then
         thenP (case callback of None \<Rightarrow> ret () | Some c \<Rightarrow> c x) (if silent then ret None else raise x)
       else raise x)"

definition acquire_lock :: "env \<Rightarrow> string \<Rightarrow> ((call, 'z) world_scheme, unit) prog" where
  "acquire_lock e filepath = act e ''lock.acquire'' [PStr filepath]"

definition release_lock :: "env \<Rightarrow> string \<Rightarrow> ((call, 'z) world_scheme, unit) prog" where
  "release_lock e filepath = act e ''lock.release'' [PStr filepath]"

definition file_lock_context ::
  "env \<Rightarrow> string \<Rightarrow> ((call, 'z) world_scheme, 'a) prog \<Rightarrow> ((call, 'z) world_scheme, 'a) prog" where
  "file_lock_context e filepath body =
     thenP
       (try_except (acquire_lock e filepath) (\<lambda>x.
          if x = LockTimeout then thenP (act e ''os.unlink'' [PStr filepath]) (acquire_lock e filepath)
          else raise x))
       (try_finally body (release_lock e filepath))"

section \<open>Ports\<close>

definition EADDRINUSE :: int where
  "EADDRINUSE = 98"

definition try_port :: "env \<Rightarrow> int \<Rightarrow> ((call, 'z) world_scheme, bool) prog" where
  "try_port e port =
     try_except (thenP (act e ''sock.bind'' [PInt port]) (thenP (act e ''sock.listen'' [PInt port]) (ret True)))
       (\<lambda>x. case x of
          OSError n \<Rightarrow> if n \<noteq> EADDRINUSE then raise x else ret False
        | _ \<Rightarrow> raise x)"

fun scan_ports :: "env \<Rightarrow> int list \<Rightarrow> ((call, 'z) world_scheme, int) prog" where
  "scan_ports e [] = raise RuntimeError"
| "scan_ports e (port # ports) = bindP (try_port e port) (\<lambda>ok. if ok then ret port else scan_ports e ports)"

definition scan_for_free_port :: "env \<Rightarrow> int \<Rightarrow> nat \<Rightarrow> ((call, 'z) world_scheme, int) prog" where
  "scan_for_free_port e starting_port step =
     scan_ports e (map (\<lambda>i. starting_port + int i) [0..<step])"

section \<open>Environment variables\<close>

type_synonym environ = "string \<Rightarrow> string option"

definition os_environ_get :: "environ \<Rightarrow> string \<Rightarrow> string \<Rightarrow> string" where
  "os_environ_get environ k d = (case environ k of None \<Rightarrow> d | Some v \<Rightarrow> v)"

definition get_env :: "environ \<Rightarrow> string \<Rightarrow> string option \<Rightarrow> string option" where
  "get_env environ k d =
     (let res = strip (os_environ_get environ k [])
      in if res = [] \<or> res = [CHR 0x22, CHR 0x22] then d else Some res)"

text \<open>\<open>distutils.util.strtobool\<close> of the standard library.\<close>

definition strtobool :: "string \<Rightarrow> exn + bool" where
  "strtobool v =
     (if lower v \<in> {''y'', ''yes'', ''t'', ''true'', ''on'', ''1''} then Inr True
      else if lower v \<in> {''n'', ''no'', ''f'', ''false'', ''off'', ''0''} then Inr False
      else Inl (ValueError ''invalid truth value''))"

definition opt_strtobool :: "string option \<Rightarrow> exn + bool option" where
  "opt_strtobool v =
     (case v of None \<Rightarrow> Inr None
      | Some s \<Rightarrow> (case strtobool s of Inl x \<Rightarrow> Inl x | Inr b \<Rightarrow> Inr (Some b)))"

definition get_kubeapi_protocol_options :: "environ \<Rightarrow> exn + (bool \<times> bool) list" where
  "get_kubeapi_protocol_options environ =
     (case opt_strtobool (get_env environ ''IPv4'' None) of
        Inl x \<Rightarrow> Inl x
      | Inr is_ipv4 \<Rightarrow>
         (case opt_strtobool (get_env environ ''IPv6'' None) of
            Inl x \<Rightarrow> Inl x
          | Inr is_ipv6 \<Rightarrow>
              Inr (if is_ipv6 = Some True \<and> is_ipv4 = Some True then [(True, True)]
                   else if is_ipv4 = Some True then [(True, False)]
                   else if is_ipv6 = Some True then [(False, True)]
                   else [(False, True), (True, False)])))"

section \<open>Validations\<close>

text \<open>\<open>json.loads(validations_info)\<close>: the sections, each a list of validations.\<close>

record validation =
  val_id :: string
  val_status :: string

type_synonym validations = "(string, validation list) dict"

definition found_status :: "validation list \<Rightarrow> string \<Rightarrow> string" where
  "found_status vs validation_id =
     (case find (\<lambda>v. val_id v = validation_id) vs of
        None \<Rightarrow> ''validation not found'' | Some v \<Rightarrow> val_status v)"

definition get_cluster_validation_value :: "validations \<Rightarrow> string \<Rightarrow> string \<Rightarrow> exn + string" where
  "get_cluster_validation_value validations section_name validation_id =
     (case dict_get validations section_name of
        None \<Rightarrow> Inl (KeyError section_name)
      | Some vs \<Rightarrow> Inr (found_status vs validation_id))"

fun get_host_validation_value ::
  "(string \<times> validations) list \<Rightarrow> string \<Rightarrow> string \<Rightarrow> string \<Rightarrow> exn + string" where
  "get_host_validation_value [] host_id section_name validation_id = Inr ''host not found''"
| "get_host_validation_value ((i, validations) # hosts) host_id section_name validation_id =
     (if i \<noteq> host_id then get_host_validation_value hosts host_id section_name validation_id
      else get_cluster_validation_value validations section_name validation_id)"

section \<open>Address lists\<close>

definition create_ip_address_list :: "nat \<Rightarrow> ip \<Rightarrow> exn + ip list" where
  "create_ip_address_list node_count starting_ip_addr =
     sum_map (\<lambda>i. ip_add starting_ip_addr i) [0..<node_count]"

definition create_ip_address_nested_list :: "nat \<Rightarrow> ip \<Rightarrow> exn + ip list list" where
  "create_ip_address_nested_list node_count starting_ip_addr =
     sum_map (\<lambda>i. case ip_add starting_ip_addr i of Inl x \<Rightarrow> Inl x | Inr a \<Rightarrow> Inr [a]) [0..<node_count]"

definition create_empty_nested_list :: "nat \<Rightarrow> 'a list list" where
  "create_empty_nested_list node_count = map (\<lambda>_. []) [0..<node_count]"

section \<open>The hosts file\<close>

definition newline :: char where
  "newline = CHR 0x0A"

definition hosts_record :: "string \<Rightarrow> string \<Rightarrow> string" where
  "hosts_record dns_name addr = addr @ '' '' @ dns_name @ [newline]"

text \<open>
  One step of the loop over the lines: the first entry of the map that occurs in the line
  replaces it and leaves the map.
\<close>

definition update_line :: "(string, string) dict \<Rightarrow> string \<Rightarrow> (string, string) dict \<times> string" where
  "update_line dns line =
     (case find (\<lambda>(n, addr). occurs_in n line) dns of
        None \<Rightarrow> (dns, line)
      | Some (n, addr) \<Rightarrow> (AList.delete n dns, hosts_record n addr))"

fun update_lines :: "(string, string) dict \<Rightarrow> string list \<Rightarrow> (string, string) dict \<times> string list" where
  "update_lines dns [] = (dns, [])"
| "update_lines dns (line # lines) =
     (let (dns', line') = update_line dns line; (dns'', lines') = update_lines dns' lines
      in (dns'', line' # lines'))"

definition hosts_lines :: "(string, string) dict \<Rightarrow> string list \<Rightarrow> string list" where
  "hosts_lines dns_map lines =
     (let (rest, lines') = update_lines dns_map lines
      in lines' @ map (\<lambda>(n, addr). hosts_record n addr) rest)"

definition str_items :: "pyval \<Rightarrow> string list" where
  "str_items v = (case v of PList xs \<Rightarrow> [s. PStr s \<leftarrow> xs] | _ \<Rightarrow> [])"

text \<open>The last log line names the loop variable \<open>ip\<close>, which an empty map never binds.\<close>

definition update_etc_hosts :: "env \<Rightarrow> (string, string) dict \<Rightarrow> ((call, 'z) world_scheme, unit) prog" where
  "update_etc_hosts e dns_map =
     file_lock_context e ''/tmp/test_etc_hosts.lock''
       (bindP (ask_call e (Controller ''readlines'' [PStr ''/etc/hosts''])) (\<lambda>v.
          thenP (act e ''writelines''
                   [PStr ''/etc/hosts'', PList (map PStr (hosts_lines dns_map (str_items v)))])
            (if dns_map = [] then raise UnboundLocalError else ret ())))"

definition truthy_str :: "string option \<Rightarrow> bool" where
  "truthy_str v \<longleftrightarrow> v \<noteq> None \<and> v \<noteq> Some []"

definition ingress_names :: "string list" where
  "ingress_names =
     [''oauth-openshift.apps.'', ''console-openshift-console.apps.'', ''grafana-openshift-monitoring.apps.'',
      ''thanos-querier-openshift-monitoring.apps.'', ''prometheus-k8s-openshift-monitoring.apps.'',
      ''alertmanager-main-openshift-monitoring.apps.'']"

definition etc_hosts_dns ::
  "string \<Rightarrow> string \<Rightarrow> string option \<Rightarrow> string option \<Rightarrow> (string, string) dict" where
  "etc_hosts_dns cluster_name base_dns_domain api_vip ingress_vip =
     (let domain = cluster_name @ ''.'' @ base_dns_domain
      in (if truthy_str api_vip then [(''api.'' @ domain, the api_vip)] else [])
         @ (if truthy_str ingress_vip then map (\<lambda>n. (n @ domain, the ingress_vip)) ingress_names else []))"

definition config_etc_hosts ::
  "env \<Rightarrow> string \<Rightarrow> string \<Rightarrow> string option \<Rightarrow> string option \<Rightarrow> ((call, 'z) world_scheme, unit) prog" where
  "config_etc_hosts e cluster_name base_dns_domain api_vip ingress_vip =
     update_etc_hosts e (etc_hosts_dns cluster_name base_dns_domain api_vip ingress_vip)"

section \<open>Versions\<close>

definition py_field :: "pyval \<Rightarrow> string \<Rightarrow> exn + pyval" where
  "py_field v k = (case v of
     PDict d \<Rightarrow> (case dict_get d k of None \<Rightarrow> Inl (KeyError k) | Some x \<Rightarrow> Inr x)
   | _ \<Rightarrow> Inl TypeError)"

text \<open>\<open>v.get(k, default)\<close>.\<close>

definition py_get :: "pyval \<Rightarrow> string \<Rightarrow> pyval \<Rightarrow> exn + pyval" where
  "py_get v k d = (case v of
     PDict m \<Rightarrow> (case dict_get m k of None \<Rightarrow> Inr d | Some x \<Rightarrow> Inr x)
   | _ \<Rightarrow> Inl AttributeError)"

text \<open>What a loop goes through, where only lists occur.\<close>

definition items_in :: "pyval \<Rightarrow> exn + pyval list" where
  "items_in v = (case v of PList xs \<Rightarrow> Inr xs | _ \<Rightarrow> Inl TypeError)"

lemma items_in_Inr [simp]: "items_in v = Inr xs \<longleftrightarrow> v = PList xs"
  by (simp add: items_in_def split: pyval.split)

definition sum_bind :: "exn + 'a \<Rightarrow> ('a \<Rightarrow> exn + 'b) \<Rightarrow> exn + 'b" where
  "sum_bind m f = (case m of Inl x \<Rightarrow> Inl x | Inr v \<Rightarrow> f v)"

lemma sum_bind_simps [simp]: "sum_bind (Inl x) f = Inl x" "sum_bind (Inr v) f = f v"
  by (simp_all add: sum_bind_def)

lemma sum_bind_Inr_iff: "sum_bind m f = Inr y \<longleftrightarrow> (\<exists>v. m = Inr v \<and> f v = Inr y)"
  by (cases m) auto

definition default_version :: "string option list \<Rightarrow> exn + string option" where
  "default_version versions =
     (if length versions \<le> 1 then Inr (case versions of [] \<Rightarrow> None | v # _ \<Rightarrow> v) else Inl AssertionError)"

text \<open>
  The versions of the client (name and its \<open>default\<close> flag), or the release images of the
  file if it exists, or the default of the code.
\<close>

definition get_default_openshift_version ::
  "(string \<times> bool) list option \<Rightarrow> (string option \<times> bool) list option \<Rightarrow> exn + string option" where
  "get_default_openshift_version client release_images =
     (case client of
        Some versions \<Rightarrow> default_version (map (\<lambda>(k, _). Some k) (filter snd versions))
      | None \<Rightarrow>
         (case release_images of
            Some images \<Rightarrow> default_version (map fst (filter snd images))
          | None \<Rightarrow> default_version [Some ''4.22'']))"

definition release_info_command :: "string \<Rightarrow> string \<Rightarrow> string" where
  "release_info_command pull_secret release_image =
     ''oc adm release info --registry-config '' @ [CHR 0x27] @ pull_secret @ [CHR 0x27] @ '' ''
       @ [CHR 0x27] @ release_image @ [CHR 0x27] @ '' -ojson''"

definition architecture_of :: "pyval \<Rightarrow> exn + pyval" where
  "architecture_of parsed_result =
     sum_bind (py_get parsed_result ''metadata'' PNone) (\<lambda>metadata.
       sum_bind
         (case sum_bind (py_field metadata ''metadata'')
                 (\<lambda>inner. py_field inner ''release.openshift.io/architecture'') of
            Inl (KeyError _) \<Rightarrow>
              sum_bind (py_get parsed_result ''config'' (PDict [])) (\<lambda>c. py_get c ''architecture'' PNone)
          | r \<Rightarrow> r)
         (\<lambda>arch. Inr (if arch \<noteq> PStr ''amd64'' then arch else PStr ''x86_64'')))"

text \<open>\<open>version\<close> and \<open>arch\<close>: what \<open>extract_version\<close> and \<open>extract_architecture\<close> give for the image.\<close>

definition get_openshift_version ::
  "environ \<Rightarrow> bool \<Rightarrow> (string \<Rightarrow> exn + nat \<times> nat) \<Rightarrow> (string \<Rightarrow> exn + pyval) \<Rightarrow> (exn + string option)
     \<Rightarrow> exn + string option" where
  "get_openshift_version environ allow_default version arch default_openshift_version =
     (case get_env environ ''OPENSHIFT_VERSION'' None of
        Some (c # cs) \<Rightarrow> Inr (Some (c # cs))
      | _ \<Rightarrow>
         if truthy_str (environ ''OPENSHIFT_INSTALL_RELEASE_IMAGE'') then
           sum_bind (version (the (environ ''OPENSHIFT_INSTALL_RELEASE_IMAGE''))) (\<lambda>(major, minor).
             sum_bind (arch (the (environ ''OPENSHIFT_INSTALL_RELEASE_IMAGE''))) (\<lambda>a.
               Inr (Some (dec major @ ''.'' @ dec minor
                 @ (if a = PStr ''multi'' then ''-multi'' else [])))))
         else if allow_default then default_openshift_version
         else Inr None)"

record release_image =
  ri_url :: "string option"
  ri_version :: "string option"
  ri_arch :: "string option"
  ri_archs :: "string list option"

fun image_matches :: "string option \<Rightarrow> release_image \<Rightarrow> exn + bool" where
  "image_matches ocp_version v =
     (if ri_version v \<noteq> ocp_version then Inr False
      else if ri_arch v = Some ''x86_64'' then Inr True
      else (case ri_archs v of None \<Rightarrow> Inl TypeError | Some as \<Rightarrow> Inr (''x86_64'' \<in> set as)))"

text \<open>The list comprehension runs over every image before its first element is taken.\<close>

fun matching_urls :: "string option \<Rightarrow> release_image list \<Rightarrow> exn + string option list" where
  "matching_urls ocp_version [] = Inr []"
| "matching_urls ocp_version (v # vs) =
     sum_bind (image_matches ocp_version v) (\<lambda>m.
       sum_bind (matching_urls ocp_version vs) (\<lambda>urls. Inr (if m then ri_url v # urls else urls)))"

definition get_openshift_release_image ::
  "environ \<Rightarrow> (exn + string option) \<Rightarrow> release_image list \<Rightarrow> exn + string option" where
  "get_openshift_release_image environ ocp_version release_images =
     (if truthy_str (environ ''OPENSHIFT_INSTALL_RELEASE_IMAGE'')
      then Inr (environ ''OPENSHIFT_INSTALL_RELEASE_IMAGE'')
      else sum_bind ocp_version (\<lambda>v. sum_bind (matching_urls v release_images) (\<lambda>urls.
        case urls of [] \<Rightarrow> Inl IndexError | u # _ \<Rightarrow> Inr u)))"

definition get_release_images_path :: "environ \<Rightarrow> string" where
  "get_release_images_path environ =
     (if truthy_str (environ ''IMAGES_FLAVOR'')
      then ''assisted-service/data//default_'' @ the (environ ''IMAGES_FLAVOR'') @ ''_release_images.json''
      else ''assisted-service/data//default_release_images.json'')"

definition get_major_minor_version :: "(string \<Rightarrow> exn + nat \<times> nat) \<Rightarrow> string \<Rightarrow> exn + string" where
  "get_major_minor_version semver_parse openshift_full_version =
     sum_bind (semver_parse openshift_full_version) (\<lambda>(major, minor).
       Inr (dec major @ ''.'' @ dec minor
         @ (if endswith openshift_full_version ''-multi'' then ''-multi'' else [])))"

section \<open>Nodes of a terraform state\<close>

record tf_nic =
  tn_network_name :: string
  tn_mac :: string
  tn_addresses :: "string list"

record tf_domain =
  td_name :: string
  td_nics :: "tf_nic list"

record tf_resource =
  tr_mode :: string
  tr_type :: string
  tr_module :: string
  tr_instances :: "tf_domain list"

record tf_node =
  tfn_ip :: "string list"
  tfn_name :: string
  tfn_role :: string

definition extract_nodes_from_tf_state ::
  "tf_resource list \<Rightarrow> string list \<Rightarrow> string \<Rightarrow> (string, tf_node) dict" where
  "extract_nodes_from_tf_state resources network_names role =
     fold (\<lambda>(mac, node). dict_set mac node)
       [(tn_mac nic, \<lparr>tfn_ip = tn_addresses nic, tfn_name = td_name d, tfn_role = role\<rparr>).
          r \<leftarrow> filter (\<lambda>r. tr_type r = ''libvirt_domain'' \<and> occurs_in role (tr_module r)) resources,
          d \<leftarrow> tr_instances r, nic \<leftarrow> td_nics d, tn_network_name nic \<in> set network_names] []"

definition get_libvirt_nodes_from_tf_state :: "string list \<Rightarrow> tf_resource list \<Rightarrow> (string, tf_node) dict" where
  "get_libvirt_nodes_from_tf_state network_names resources =
     dict_update (extract_nodes_from_tf_state resources network_names (role_value Master))
       (extract_nodes_from_tf_state resources network_names (role_value Worker))"

section \<open>Properties\<close>

subsection \<open>The lock is always given back\<close>

lemma act_app: "act e what args w =
  (e_do e (hist w) (Controller what args), w\<lparr>hist := hist w @ [Controller what args]\<rparr>)"
  by (simp add: act_def do_call_def ext_app)

lemma file_lock_context_locked:
  assumes "e_do e (hist s) (Controller ''lock.acquire'' [PStr path]) = Inr ()"
  shows "file_lock_context e path body s =
    try_finally body (release_lock e path) (s\<lparr>hist := hist s @ [Controller ''lock.acquire'' [PStr path]]\<rparr>)"
  using assms by (simp add: file_lock_context_def acquire_lock_def bindP_def try_except_def act_app)

text \<open>Once the file lock is acquired, the body runs with the lock held, and the very next
  call after a body that ends releases the lock, whether it returned or raised; and when the release
  succeeds the body's own result or exception is the result of the whole block.\<close>

lemma file_lock_released:
  assumes "e_do e (hist s) (Controller ''lock.acquire'' [PStr path]) = Inr ()"
    and "body (s\<lparr>hist := hist s @ [Controller ''lock.acquire'' [PStr path]]\<rparr>) = (r, t)"
    and "r \<noteq> Inl Diverges"
  shows "\<exists>q. file_lock_context e path body s
            = (q, t\<lparr>hist := hist t @ [Controller ''lock.release'' [PStr path]]\<rparr>)
        \<and> (e_do e (hist t) (Controller ''lock.release'' [PStr path]) = Inr () \<longrightarrow> q = r)"
  unfolding file_lock_context_locked [OF assms(1)]
  by (auto simp: try_finally_def assms(2,3) release_lock_def act_app split: sum.split)

lemma file_lock_released_witness:
  "\<exists>q. file_lock_context (still_env (sample_cluster [] [])) ''l'' (raise IndexError) fresh_world
        = (q :: exn + unit, fresh_world\<lparr>hist := [Controller ''lock.acquire'' [PStr ''l''],
             Controller ''lock.release'' [PStr ''l'']]\<rparr>)"
  using file_lock_released [of "still_env (sample_cluster [] [])" fresh_world "''l''"
      "raise IndexError :: (call world, unit) prog"]
  by (simp add: concrete_env prog_simps)

subsection \<open>The hosts file\<close>

lemma find_Some_in: "find P xs = Some x \<Longrightarrow> x \<in> set xs"
  by (auto simp: find_Some_iff)

lemma update_line_kept:
  assumes "update_line dns line = (rest, line')" and "(n, a) \<in> set dns" and "distinct (map fst dns)"
  shows "(n, a) \<in> set rest \<or> line' = hosts_record n a"
proof (cases "find (\<lambda>(n, addr). occurs_in n line) dns")
  case None
  with assms show ?thesis by (simp add: update_line_def)
next
  case (Some p)
  obtain m b where p: "p = (m, b)" by force
  have "(m, b) \<in> set dns" using find_Some_in [OF Some] p by simp
  then have "n = m \<Longrightarrow> a = b" using assms eq_key_imp_eq_value by fast
  with assms Some p show ?thesis by (auto simp: update_line_def AList.delete_eq)
qed

lemma update_line_subset:
  "update_line dns line = (rest, line') \<Longrightarrow> distinct (map fst dns) \<Longrightarrow>
     set rest \<subseteq> set dns \<and> distinct (map fst rest)"
  by (auto simp: update_line_def AList.delete_eq distinct_map_filter split: option.splits)

lemma update_lines_complete:
  "update_lines dns lines = (rest, lines') \<Longrightarrow> distinct (map fst dns) \<Longrightarrow> (n, a) \<in> set dns \<Longrightarrow>
     (n, a) \<in> set rest \<or> hosts_record n a \<in> set lines'"
proof (induction lines arbitrary: dns rest lines')
  case Nil
  then show ?case by simp
next
  case (Cons line lines)
  obtain dns' line' where u: "update_line dns line = (dns', line')" by force
  obtain rs ls where v: "update_lines dns' lines = (rs, ls)" by force
  have eq: "rest = rs" "lines' = line' # ls" using Cons.prems(1) u v by simp_all
  from update_line_kept [OF u Cons.prems(3,2)] show ?case
  proof
    assume "(n, a) \<in> set dns'"
    with update_line_subset [OF u Cons.prems(2)] Cons.IH [OF v] show ?thesis
      using eq by auto
  qed (simp add: eq)
qed

lemma update_lines_length:
  "length (snd (update_lines dns lines)) = length lines"
  by (induction dns lines rule: update_lines.induct) (auto split: prod.split)

lemma update_line_other:
  assumes "\<forall>(n, a) \<in> set dns. \<not> occurs_in n line"
  shows "update_line dns line = (dns, line)"
proof -
  have "find (\<lambda>(n, addr). occurs_in n line) dns = None"
    using assms by (auto simp: find_None_iff)
  then show ?thesis by (simp add: update_line_def)
qed

lemma update_lines_other:
  assumes "i < length lines" and "\<forall>(n, a) \<in> set dns. \<not> occurs_in n (lines ! i)"
    and "distinct (map fst dns)"
  shows "snd (update_lines dns lines) ! i = lines ! i"
  using assms
proof (induction lines arbitrary: dns i)
  case Nil
  then show ?case by simp
next
  case (Cons line lines)
  obtain dns' line' where u: "update_line dns line = (dns', line')" by force
  obtain rest lines' where v: "update_lines dns' lines = (rest, lines')" by force
  have d: "set dns' \<subseteq> set dns" "distinct (map fst dns')"
    using update_line_subset [OF u Cons.prems(3)] by auto
  have step: "snd (update_lines dns (line # lines)) = line' # lines'"
    by (simp add: u v)
  show ?case
  proof (cases i)
    case 0
    with Cons.prems(2) have "\<forall>(n, a) \<in> set dns. \<not> occurs_in n line" by simp
    then show ?thesis using u 0 step update_line_other by simp
  next
    case (Suc j)
    have "j < length lines" using Cons.prems(1) Suc by simp
    moreover have "\<forall>(n, a) \<in> set dns'. \<not> occurs_in n (lines ! j)"
      using Cons.prems(2) Suc d(1) by auto
    ultimately have "snd (update_lines dns' lines) ! j = lines ! j"
      using d(2) by (rule Cons.IH)
    then show ?thesis using Suc step v by simp
  qed
qed

text \<open>Updating the hosts file leaves a record for every name of the map, appends at most the
  records that replaced no line, and keeps in place every line in which no name occurs.\<close>

lemma hosts_file_updated:
  assumes "distinct (map fst dns_map)"
  shows "(\<forall>(n, a) \<in> set dns_map. hosts_record n a \<in> set (hosts_lines dns_map lines))
    \<and> length lines \<le> length (hosts_lines dns_map lines)
    \<and> (\<forall>i < length lines. (\<forall>(n, a) \<in> set dns_map. \<not> occurs_in n (lines ! i)) \<longrightarrow>
          hosts_lines dns_map lines ! i = lines ! i)"
proof -
  obtain rest lines' where u: "update_lines dns_map lines = (rest, lines')" by force
  have eq: "hosts_lines dns_map lines = lines' @ map (\<lambda>(n, a). hosts_record n a) rest"
    by (simp add: hosts_lines_def u)
  have len: "length lines' = length lines"
    using update_lines_length [of dns_map lines] u by simp
  have "hosts_record n a \<in> set (hosts_lines dns_map lines)" if "(n, a) \<in> set dns_map" for n a
    using update_lines_complete [OF u assms that] by (force simp: eq)
  moreover have "hosts_lines dns_map lines ! i = lines ! i"
    if "i < length lines" "\<forall>(n, a) \<in> set dns_map. \<not> occurs_in n (lines ! i)" for i
    using update_lines_other [OF that assms] that u len by (simp add: eq nth_append)
  ultimately show ?thesis using len by (auto simp: eq)
qed

lemma hosts_file_updated_witness:
  "hosts_record ''api.c.d'' ''10.0.0.1''
     \<in> set (hosts_lines [(''api.c.d'', ''10.0.0.1'')] [''127.0.0.1 localhost'', ''9.9.9.9 api.c.d''])"
  using hosts_file_updated [of "[(''api.c.d'', ''10.0.0.1'')]"
      "[''127.0.0.1 localhost'', ''9.9.9.9 api.c.d'']"] by simp

subsection \<open>Ports and protocols\<close>

lemma scan_ports_found:
  "scan_ports e ports s = (Inr q, t) \<Longrightarrow>
     \<exists>s' pre post. ports = pre @ q # post \<and> try_port e q s' = (Inr True, t)"
proof (induction ports arbitrary: s)
  case Nil
  then show ?case by (simp add: prog_simps)
next
  case (Cons p ports)
  then obtain b u where b: "try_port e p s = (Inr b, u)"
    and k: "(if b then ret p else scan_ports e ports) u = (Inr q, t)"
    by (auto elim: bindP_InrE)
  show ?case
  proof (cases b)
    case True
    then have "p = q" "u = t" using k by (simp_all add: prog_simps)
    with True b have "p # ports = [] @ q # ports \<and> try_port e q s = (Inr True, t)" by simp
    then show ?thesis by metis
  next
    case False
    with k have "scan_ports e ports u = (Inr q, t)" by simp
    from Cons.IH [OF this] obtain s' pre post
      where s': "ports = pre @ q # post" "try_port e q s' = (Inr True, t)" by (elim exE conjE)
    then have "p # ports = (p # pre) @ q # post" by simp
    with s'(2) show ?thesis by (intro exI conjI)
  qed
qed

lemma try_port_True:
  "try_port e q s = (Inr True, t) \<Longrightarrow>
     hist t = hist s @ [Controller ''sock.bind'' [PInt q], Controller ''sock.listen'' [PInt q]]
     \<and> e_do e (hist s) (Controller ''sock.bind'' [PInt q]) = Inr ()
     \<and> e_do e (hist s @ [Controller ''sock.bind'' [PInt q]]) (Controller ''sock.listen'' [PInt q]) = Inr ()"
  by (auto simp: try_port_def try_except_def bindP_def act_app ret_def raise_def
      split: sum.splits exn.splits if_splits)

text \<open>A port that the scan returns lies in the scanned range, and the last two calls bound
  a socket to it and listened on it, both with success.\<close>

lemma scan_for_free_port_sound:
  assumes "scan_for_free_port e starting_port step s = (Inr q, t)"
  shows "starting_port \<le> q \<and> q < starting_port + int step
    \<and> (\<exists>h. hist t = h @ [Controller ''sock.bind'' [PInt q], Controller ''sock.listen'' [PInt q]]
         \<and> e_do e h (Controller ''sock.bind'' [PInt q]) = Inr ()
         \<and> e_do e (h @ [Controller ''sock.bind'' [PInt q]]) (Controller ''sock.listen'' [PInt q]) = Inr ())"
proof -
  obtain s' pre post where p: "map (\<lambda>i. starting_port + int i) [0..<step] = pre @ q # post"
    and t: "try_port e q s' = (Inr True, t)"
    using scan_ports_found assms unfolding scan_for_free_port_def by blast
  have "q \<in> set (map (\<lambda>i. starting_port + int i) [0..<step])" unfolding p by simp
  then show ?thesis using try_port_True [OF t] by auto
qed

lemma scan_for_free_port_sound_witness:
  "(59151 :: int) \<le> 59151 \<and> (59151 :: int) < 59151 + int 2 \<and>
     (\<exists>h. [Controller ''sock.bind'' [PInt 59151], Controller ''sock.listen'' [PInt 59151]]
        = h @ [Controller ''sock.bind'' [PInt 59151], Controller ''sock.listen'' [PInt 59151]])"
proof -
  have run: "scan_for_free_port (still_env (sample_cluster [] [])) 59151 2 fresh_world =
     (Inr 59151, \<lparr>hist = [Controller ''sock.bind'' [PInt 59151], Controller ''sock.listen'' [PInt 59151]]\<rparr>)"
    by (simp add: scan_for_free_port_def upt_rec try_port_def act_app bindP_def try_except_def
        concrete_env prog_simps)
  show ?thesis using scan_for_free_port_sound [OF run] by auto
qed

text \<open>Whatever the environment says, the protocol options to test are never empty, and each
  asks for at least one protocol.\<close>

lemma kubeapi_options_usable:
  "case get_kubeapi_protocol_options environ of
     Inl x \<Rightarrow> x = ValueError ''invalid truth value''
   | Inr opts \<Rightarrow> opts \<noteq> [] \<and> list_all (\<lambda>(v4, v6). v4 \<or> v6) opts"
  by (auto simp: get_kubeapi_protocol_options_def opt_strtobool_def strtobool_def
      split: option.splits sum.splits if_splits)

end
