(* ===== verification/Assets.thy ===== *)
theory Assets
  imports Utils
begin

text \<open>
  \<open>tools/assets.py\<close>: \<open>LibvirtNetworkAssets\<close> takes four networks and two bridge names that
  are free on the host, records them in a file shared by all runs, and gives them back. The
  file's content, the objects in use and the assets taken are the state; \<open>netaddr\<close>,
  \<open>netifaces\<close> and \<open>libvirt\<close> are parameters.
\<close>

section \<open>State\<close>

text \<open>A value of an asset: the text of a network, or a bridge name (which parses to no network).\<close>

datatype asset_value = NetText cidr | NameText string

type_synonym asset = "(string, asset_value) dict"

text \<open>
  \<open>str(asset)\<close> is injective on dictionaries of strings, so the set of taken assets holds the
  assets themselves. An object in use is an address (\<open>Inl\<close>) or a network (\<open>Inr\<close>).
\<close>

record ('a, 'n) assets = "call world" +
  as_file :: "asset list option"
  as_objects :: "('a + 'n) list"
  as_bridges :: "string list"
  as_taken :: "asset set"
  as_asset :: asset

definition IP_NETWORK_ASSET_FIELDS :: "string list" where
  "IP_NETWORK_ASSET_FIELDS = [''machine_cidr'', ''machine_cidr6'', ''provisioning_cidr'', ''provisioning_cidr6'']"

definition REQUIRED_ASSET_FIELDS :: "string list" where
  "REQUIRED_ASSET_FIELDS = [''libvirt_network_if'', ''libvirt_secondary_network_if''] @ IP_NETWORK_ASSET_FIELDS"

text \<open>
  The interfaces of the host with the texts of their addresses (\<open>None\<close> for a text that is
  not an IP address, such as a MAC), and the leases of the libvirt networks.
\<close>

record lease =
  ls_iface :: "string option"
  ls_ipaddr :: "ip option"

record host_net =
  hn_libvirt_uri_is_default :: bool
  hn_interfaces :: "string list"
  hn_addresses :: "string \<Rightarrow> exn + ip option list"
  hn_networks :: "string list"
  hn_leases :: "string \<Rightarrow> exn + lease list"

section \<open>Collecting what is in use\<close>

definition add_allocated_ip :: "'a + 'n \<Rightarrow> (('a, 'n) assets, unit) prog" where
  "add_allocated_ip obj = modifies (\<lambda>s. s\<lparr>as_objects := as_objects s @ [obj]\<rparr>)"

definition add_allocated_net_bridge :: "string \<Rightarrow> (('a, 'n) assets, unit) prog" where
  "add_allocated_net_bridge b = modifies (\<lambda>s. s\<lparr>as_bridges := as_bridges s @ [b]\<rparr>)"

definition verify_asset_fields :: "(('a, 'n) assets, unit) prog" where
  "verify_asset_fields =
     bindP (reads as_asset) (\<lambda>asset.
       for_each (\<lambda>field. assertP (dict_get asset field \<noteq> None)) REQUIRED_ASSET_FIELDS)"

text \<open>\<open>IPNetwork(asset[field])\<close> and \<open>asset[field]\<close> as a bridge name.\<close>

definition field_network :: "('a, 'n) netaddr \<Rightarrow> asset \<Rightarrow> string \<Rightarrow> exn + 'n" where
  "field_network na asset field =
     (case dict_get asset field of
        None \<Rightarrow> Inl (KeyError field)
      | Some (NameText _) \<Rightarrow> Inl AddrFormatError
      | Some (NetText c) \<Rightarrow> na_network na c)"

definition field_name :: "asset \<Rightarrow> string \<Rightarrow> exn + string" where
  "field_name asset field =
     (case dict_get asset field of
        Some (NameText b) \<Rightarrow> Inr b | Some (NetText _) \<Rightarrow> Inl TypeError | None \<Rightarrow> Inl (KeyError field))"

definition fill_from_asset :: "('a, 'n) netaddr \<Rightarrow> asset \<Rightarrow> (('a, 'n) assets, unit) prog" where
  "fill_from_asset na asset =
     thenP verify_asset_fields
       (thenP (for_each (\<lambda>field. bindP (sum_prog (field_network na asset field)) (\<lambda>n. add_allocated_ip (Inr n)))
          IP_NETWORK_ASSET_FIELDS)
         (thenP (bindP (sum_prog (field_name asset ''libvirt_network_if'')) add_allocated_net_bridge)
            (bindP (sum_prog (field_name asset ''libvirt_secondary_network_if'')) add_allocated_net_bridge)))"

definition fill_allocated_ips_and_bridges_from_assets_file ::
  "('a, 'n) netaddr \<Rightarrow> asset list \<Rightarrow> (('a, 'n) assets, unit) prog" where
  "fill_allocated_ips_and_bridges_from_assets_file na assets_in_use = for_each (fill_from_asset na) assets_in_use"

text \<open>A text that is no address is skipped; an interface that is gone is skipped.\<close>

definition add_interface_address :: "('a, 'n) netaddr \<Rightarrow> ip option \<Rightarrow> (('a, 'n) assets, unit) prog" where
  "add_interface_address na addr =
     try_except (bindP (sum_prog (case addr of None \<Rightarrow> Inl AddrFormatError | Some a \<Rightarrow> na_address na (Some a)))
                   (\<lambda>a. add_allocated_ip (Inl a)))
       (\<lambda>x. if x = AddrFormatError then ret () else raise x)"

definition fill_interface :: "('a, 'n) netaddr \<Rightarrow> host_net \<Rightarrow> string \<Rightarrow> (('a, 'n) assets, unit) prog" where
  "fill_interface na hn ifc =
     thenP (add_allocated_net_bridge ifc)
       (case hn_addresses hn ifc of
          Inl (ValueError _) \<Rightarrow> ret ()
        | Inl x \<Rightarrow> raise x
        | Inr addrs \<Rightarrow> for_each (add_interface_address na) addrs)"

definition fill_allocated_ips_and_bridges_by_interface ::
  "('a, 'n) netaddr \<Rightarrow> host_net \<Rightarrow> (('a, 'n) assets, unit) prog" where
  "fill_allocated_ips_and_bridges_by_interface na hn =
     (if \<not> hn_libvirt_uri_is_default hn then ret ()
      else for_each (fill_interface na hn) (hn_interfaces hn))"

definition fill_lease :: "('a, 'n) netaddr \<Rightarrow> lease \<Rightarrow> (('a, 'n) assets, unit) prog" where
  "fill_lease na l =
     thenP (case ls_iface l of Some (c # cs) \<Rightarrow> add_allocated_net_bridge (c # cs) | _ \<Rightarrow> ret ())
       (case ls_ipaddr l of
          Some a \<Rightarrow> bindP (sum_prog (na_address na (Some a))) (\<lambda>a. add_allocated_ip (Inl a))
        | None \<Rightarrow> ret ())"

definition fill_virsh_network :: "('a, 'n) netaddr \<Rightarrow> host_net \<Rightarrow> string \<Rightarrow> (('a, 'n) assets, unit) prog" where
  "fill_virsh_network na hn net =
     try_except (bindP (sum_prog (hn_leases hn net)) (for_each (fill_lease na)))
       (\<lambda>x. if x = LibvirtError then ret () else raise x)"

definition fill_virsh_allocated_ips_and_bridges ::
  "env \<Rightarrow> ('a, 'n) netaddr \<Rightarrow> host_net \<Rightarrow> (('a, 'n) assets, unit) prog" where
  "fill_virsh_allocated_ips_and_bridges e na hn =
     thenP (act e ''libvirt.open'' [])
       (try_finally (for_each (fill_virsh_network na hn) (hn_networks hn)) (act e ''conn.close'' []))"

section \<open>Choosing networks\<close>

fun object_in :: "('a, 'n) netaddr \<Rightarrow> 'a + 'n \<Rightarrow> 'n \<Rightarrow> bool" where
  "object_in na (Inl a) n = na_addr_in na a n"
| "object_in na (Inr m) n = na_net_in na m n"

definition is_ip_network_allocated :: "('a, 'n) netaddr \<Rightarrow> ('a + 'n) list \<Rightarrow> 'n \<Rightarrow> bool" where
  "is_ip_network_allocated na objects n \<longleftrightarrow> list_ex (\<lambda>obj. object_in na obj n) objects"

text \<open>\<open>ip_network += k\<close> moves the network by \<open>k\<close> times its own size.\<close>

definition network_step :: "('a, 'n) netaddr \<Rightarrow> 'n \<Rightarrow> nat" where
  "network_step na n = (if na_version na n = 6 then 2 ^ 72 else 1)"

text \<open>The loop of \<open>_set_next_available_ip_network\<close>: \<open>None\<close> if it never ends.\<close>

partial_function (option) next_available_ip_network ::
  "('a, 'n) netaddr \<Rightarrow> ('a + 'n) list \<Rightarrow> 'n \<Rightarrow> (exn + 'n) option" where
  "next_available_ip_network na objects n =
     (if is_ip_network_allocated na objects n then
        (case na_advance na n (network_step na n) of
           Inl x \<Rightarrow> Some (Inl x)
         | Inr m \<Rightarrow> next_available_ip_network na objects m)
      else Some (Inr n))"

definition override_ip_network :: "('a, 'n) netaddr \<Rightarrow> string \<Rightarrow> (('a, 'n) assets, unit) prog" where
  "override_ip_network na field =
     bindP (reads as_asset) (\<lambda>asset.
       bindP (sum_prog (field_network na asset field)) (\<lambda>n.
         bindP (reads as_objects) (\<lambda>objects.
           case next_available_ip_network na objects n of
             None \<Rightarrow> raise Diverges
           | Some r \<Rightarrow>
               bindP (sum_prog r) (\<lambda>m.
                 thenP (add_allocated_ip (Inr m))
                   (modifies (\<lambda>s. s\<lparr>as_asset := dict_set field (NetText (na_str na m)) (as_asset s)\<rparr>))))))"

definition override_ip_networks_values_if_not_free :: "('a, 'n) netaddr \<Rightarrow> (('a, 'n) assets, unit) prog" where
  "override_ip_networks_values_if_not_free na = for_each (override_ip_network na) IP_NETWORK_ASSET_FIELDS"

section \<open>Choosing bridges\<close>

definition is_net_bridge_allocated :: "string list \<Rightarrow> string \<Rightarrow> bool" where
  "is_net_bridge_allocated bridges b \<longleftrightarrow> b \<in> set bridges"

definition bridge_name :: "string \<Rightarrow> nat \<Rightarrow> string" where
  "bridge_name p i = p @ dec i"

definition get_next_available_net_bridge :: "string list \<Rightarrow> string \<Rightarrow> string option" where
  "get_next_available_net_bridge bridges p =
     map_option (bridge_name p) (first_index (\<lambda>i. is_net_bridge_allocated bridges (bridge_name p i)) 0)"

definition opt_prog :: "'a option \<Rightarrow> ('s, 'a) prog" where
  "opt_prog v = (case v of None \<Rightarrow> raise Diverges | Some x \<Rightarrow> ret x)"

definition set_asset_name :: "string \<Rightarrow> string \<Rightarrow> (('a, 'n) assets, unit) prog" where
  "set_asset_name field b = modifies (\<lambda>s. s\<lparr>as_asset := dict_set field (NameText b) (as_asset s)\<rparr>)"

definition override_network_bridges_values_if_not_free :: "(('a, 'n) assets, unit) prog" where
  "override_network_bridges_values_if_not_free =
     bindP (reads as_asset) (\<lambda>asset. bindP (sum_prog (field_name asset ''libvirt_network_if'')) (\<lambda>b.
       bindP (reads as_bridges) (\<lambda>bridges.
       thenP
         (whenP (is_net_bridge_allocated bridges b)
            (bindP (opt_prog (get_next_available_net_bridge bridges ''tt'')) (\<lambda>b'.
               thenP (set_asset_name ''libvirt_network_if'' b') (add_allocated_net_bridge b'))))
       (bindP (reads as_asset) (\<lambda>asset.
          bindP (sum_prog (field_name asset ''libvirt_secondary_network_if'')) (\<lambda>b.
            bindP (reads as_bridges) (\<lambda>bridges.
              whenP (is_net_bridge_allocated bridges b)
                (bindP (opt_prog (get_next_available_net_bridge bridges ''stt''))
                   (set_asset_name ''libvirt_secondary_network_if'')))))))))"

section \<open>Taking and releasing\<close>

definition get_assets_in_use_from_assets_file :: "(('a, 'n) assets, asset list) prog" where
  "get_assets_in_use_from_assets_file = reads (\<lambda>s. case as_file s of None \<Rightarrow> [] | Some xs \<Rightarrow> xs)"

definition dump_all_assets_in_use_to_assets_file :: "asset list \<Rightarrow> (('a, 'n) assets, unit) prog" where
  "dump_all_assets_in_use_to_assets_file assets_in_use = modifies (\<lambda>s. s\<lparr>as_file := Some assets_in_use\<rparr>)"

definition take_asset :: "asset list \<Rightarrow> (('a, 'n) assets, unit) prog" where
  "take_asset assets_in_use =
     bindP (reads as_asset) (\<lambda>asset.
       thenP (modifies (\<lambda>s. s\<lparr>as_taken := insert asset (as_taken s)\<rparr>))
         (dump_all_assets_in_use_to_assets_file (assets_in_use @ [asset])))"

definition get_locked :: "env \<Rightarrow> ('a, 'n) netaddr \<Rightarrow> host_net \<Rightarrow> (('a, 'n) assets, unit) prog" where
  "get_locked e na hn =
     bindP get_assets_in_use_from_assets_file (\<lambda>assets_in_use.
       thenP (fill_allocated_ips_and_bridges_from_assets_file na assets_in_use)
       (thenP (fill_allocated_ips_and_bridges_by_interface na hn)
       (thenP (fill_virsh_allocated_ips_and_bridges e na hn)
       (thenP (override_ip_networks_values_if_not_free na)
       (thenP override_network_bridges_values_if_not_free
         (take_asset assets_in_use))))))"

definition assets_get :: "env \<Rightarrow> ('a, 'n) netaddr \<Rightarrow> host_net \<Rightarrow> string \<Rightarrow> (('a, 'n) assets, asset) prog" where
  "assets_get e na hn lock_file =
     thenP verify_asset_fields
       (thenP (file_lock_context e lock_file (get_locked e na hn))
       (thenP (modifies (\<lambda>s. s\<lparr>as_bridges := [], as_objects := []\<rparr>))
         (reads as_asset)))"

text \<open>\<open>list.pop(i)\<close>, and the loop that pops the collected indexes from the last to the first.\<close>

definition pop_at :: "nat \<Rightarrow> 'b list \<Rightarrow> 'b list" where
  "pop_at i xs = take i xs @ drop (Suc i) xs"

definition indexes_to_pop :: "('b \<Rightarrow> bool) \<Rightarrow> 'b list \<Rightarrow> nat list" where
  "indexes_to_pop P xs = filter (\<lambda>i. P (xs ! i)) [0..<length xs]"

definition pop_all :: "nat list \<Rightarrow> 'b list \<Rightarrow> 'b list" where
  "pop_all idxs xs = fold pop_at (rev idxs) xs"

definition remove_taken_assets_from_all_assets_in_use ::
  "asset list \<Rightarrow> (('a, 'n) assets, asset list) prog" where
  "remove_taken_assets_from_all_assets_in_use assets_in_use =
     bindP (reads as_taken) (\<lambda>taken.
       thenP (modifies (\<lambda>s. s\<lparr>as_taken := {}\<rparr>))
         (ret (pop_all (indexes_to_pop (\<lambda>a. a \<in> taken) assets_in_use) assets_in_use)))"

definition release_all :: "env \<Rightarrow> string \<Rightarrow> (('a, 'n) assets, unit) prog" where
  "release_all e lock_file =
     file_lock_context e lock_file
       (bindP get_assets_in_use_from_assets_file (\<lambda>assets_in_use.
          bindP (remove_taken_assets_from_all_assets_in_use assets_in_use)
            dump_all_assets_in_use_to_assets_file))"

section \<open>Networks: the search ends, and what it finds is free\<close>

text \<open>
  What the search relies on: moving a network forward increases its position, and no object
  lies in networks of arbitrarily high position.
\<close>

locale netaddr_order =
  fixes na :: "('a, 'n) netaddr" and pos :: "'n \<Rightarrow> nat"
  assumes advance_pos: "na_advance na n k = Inr m \<Longrightarrow> 0 < k \<Longrightarrow> pos n < pos m"
    and object_bound: "\<exists>b. \<forall>n. object_in na obj n \<longrightarrow> pos n \<le> b"
begin

lemma objects_bound: "\<exists>b. \<forall>n. is_ip_network_allocated na objects n \<longrightarrow> pos n \<le> b"
proof (induction objects)
  case Nil
  then show ?case by (simp add: is_ip_network_allocated_def)
next
  case (Cons obj objects)
  then obtain b where b: "\<forall>n. is_ip_network_allocated na objects n \<longrightarrow> pos n \<le> b" ..
  obtain c where c: "\<forall>n. object_in na obj n \<longrightarrow> pos n \<le> c" using object_bound ..
  have "\<forall>n. is_ip_network_allocated na (obj # objects) n \<longrightarrow> pos n \<le> max b c"
    using b c by (auto simp: is_ip_network_allocated_def)
  then show ?case ..
qed

lemma search_ends: "\<exists>r. next_available_ip_network na objects n = Some r"
proof -
  obtain b where b: "\<forall>n. is_ip_network_allocated na objects n \<longrightarrow> pos n \<le> b"
    using objects_bound ..
  show ?thesis
  proof (induction "Suc b - pos n" arbitrary: n rule: less_induct)
    case less
    show ?case
    proof (cases "is_ip_network_allocated na objects n")
      case True
      show ?thesis
      proof (cases "na_advance na n (network_step na n)")
        case (Inr m)
        have "pos n < pos m" using Inr by (rule advance_pos) (simp add: network_step_def)
        with b True have "Suc b - pos m < Suc b - pos n" by fastforce
        from less [OF this] show ?thesis
          using True Inr by (subst next_available_ip_network.simps) simp
      qed (use True in \<open>subst next_available_ip_network.simps, simp\<close>)
    qed (subst next_available_ip_network.simps, simp)
  qed
qed

end

lemma next_available_free:
  "next_available_ip_network na objects n = Some (Inr m) \<Longrightarrow> \<not> is_ip_network_allocated na objects m"
proof -
  have "r = Inr m \<longrightarrow> \<not> is_ip_network_allocated na objects m"
    if "next_available_ip_network na objects n = Some r" for r
  proof (rule next_available_ip_network.raw_induct [OF _ that,
      where P = "\<lambda>na objects n r. r = Inr m \<longrightarrow> \<not> is_ip_network_allocated na objects m"])
  qed (auto split: if_splits sum.splits)
  then show "next_available_ip_network na objects n = Some (Inr m) \<Longrightarrow> ?thesis" by blast
qed

lemma plain_advance_pos:
  "na_advance plain_netaddr n k = Inr m \<Longrightarrow> 0 < k \<Longrightarrow>
     cidr_value (interface_network n) < cidr_value (interface_network m)"
proof -
  assume adv: "na_advance plain_netaddr n k = Inr m" and k: "0 < k"
  let ?v = "cidr_value (interface_network n) + k * host_span n"
  have m: "m = n\<lparr>cidr_value := ?v\<rparr>"
    using adv by (auto simp: plain_netaddr_def Let_def split: if_splits)
  have "host_span n dvd cidr_value (interface_network n)"
    by (simp add: interface_network_def dvd_minus_mod)
  then have "?v mod host_span n = 0" by auto
  then have "cidr_value (interface_network m) = ?v" by (simp add: m interface_network_def)
  then show ?thesis using k by simp
qed

lemma plain_object_bound:
  "\<exists>b. \<forall>n. object_in plain_netaddr obj n \<longrightarrow> cidr_value (interface_network n) \<le> b"
  by (cases obj) (auto simp: plain_netaddr_def in_network_def)

interpretation plain: netaddr_order plain_netaddr "\<lambda>n. cidr_value (interface_network n)"
  by unfold_locales (auto intro: plain_advance_pos plain_object_bound)

text \<open>C4: If moving a network forward increases its position and every object lies below some
  position, the search for a free network ends, and a network it returns contains no
  address and no network in use.\<close>

theorem network_search_ends_and_is_free:
  assumes "netaddr_order na pos"
  shows "\<exists>r. next_available_ip_network na objects n = Some r
    \<and> (\<forall>m. r = Inr m \<longrightarrow> \<not> is_ip_network_allocated na objects m)"
  using netaddr_order.search_ends [OF assms, of objects n] next_available_free by metis

theorem network_search_ends_and_is_free_witness:
  "\<exists>r. next_available_ip_network plain_netaddr
         [Inr \<lparr>cidr_version = V4, cidr_value = 256, cidr_prefixlen = 24\<rparr>]
         \<lparr>cidr_version = V4, cidr_value = 256, cidr_prefixlen = 24\<rparr> = Some r
     \<and> r = Inr \<lparr>cidr_version = V4, cidr_value = 512, cidr_prefixlen = 24\<rparr>"
proof -
  have "\<exists>r. next_available_ip_network plain_netaddr
         [Inr \<lparr>cidr_version = V4, cidr_value = 256, cidr_prefixlen = 24\<rparr>]
         \<lparr>cidr_version = V4, cidr_value = 256, cidr_prefixlen = 24\<rparr> = Some r"
    using network_search_ends_and_is_free [OF plain.netaddr_order_axioms] by metis
  then show ?thesis
    by (simp add: next_available_ip_network.simps is_ip_network_allocated_def plain_netaddr_def
        in_network_def interface_ip_def interface_network_def host_span_def network_step_def)
qed

section \<open>The four networks do not collide\<close>

lemma sum_prog_Inr [simp]: "sum_prog (Inr x) = ret x"
  by (simp add: sum_prog_def)

lemma override_ip_network_Inr:
  assumes "override_ip_network na field s = (Inr (), t)"
  obtains m where "\<not> is_ip_network_allocated na (as_objects s) m"
    and "t = s\<lparr>as_objects := as_objects s @ [Inr m],
               as_asset := dict_set field (NetText (na_str na m)) (as_asset s)\<rparr>"
proof -
  obtain n where n: "field_network na (as_asset s) field = Inr n"
    and k: "(case next_available_ip_network na (as_objects s) n of
        None \<Rightarrow> raise Diverges
      | Some r \<Rightarrow> bindP (sum_prog r) (\<lambda>m. thenP (add_allocated_ip (Inr m))
          (modifies (\<lambda>s. s\<lparr>as_asset := dict_set field (NetText (na_str na m)) (as_asset s)\<rparr>)))) s
      = (Inr (), t)"
    using assms by (auto simp: override_ip_network_def bindP_app prog_simps elim!: bindP_InrE)
  then obtain m where m: "next_available_ip_network na (as_objects s) n = Some (Inr m)"
    and t: "t = s\<lparr>as_objects := as_objects s @ [Inr m],
               as_asset := dict_set field (NetText (na_str na m)) (as_asset s)\<rparr>"
    by (auto simp: prog_simps add_allocated_ip_def bindP_app split: option.splits elim!: bindP_InrE)
  show thesis using next_available_free [OF m] t by (rule that)
qed

text \<open>What the loop over the fields leaves, for any distinct fields.\<close>

definition networks_chosen ::
  "('a, 'n) netaddr \<Rightarrow> string list \<Rightarrow> ('a, 'n) assets \<Rightarrow> ('a, 'n) assets \<Rightarrow> 'n list \<Rightarrow> bool" where
  "networks_chosen na flds s t ns \<longleftrightarrow>
     length ns = length flds
     \<and> as_objects t = as_objects s @ map Inr ns
     \<and> (\<forall>i < length flds.
          dict_get (as_asset t) (flds ! i) = Some (NetText (na_str na (ns ! i)))
          \<and> \<not> is_ip_network_allocated na (as_objects s @ map Inr (take i ns)) (ns ! i))
     \<and> (\<forall>k. k \<notin> set flds \<longrightarrow> dict_get (as_asset t) k = dict_get (as_asset s) k)"

lemma override_networks_chosen:
  "for_each (override_ip_network na) flds s = (Inr (), t) \<Longrightarrow> distinct flds \<Longrightarrow>
     \<exists>ns. networks_chosen na flds s t ns"
proof (induction flds arbitrary: s)
  case Nil
  then show ?case by (auto simp: networks_chosen_def prog_simps)
next
  case (Cons f fs)
  obtain u where u: "override_ip_network na f s = (Inr (), u)"
    and v: "for_each (override_ip_network na) fs u = (Inr (), t)"
    using Cons.prems(1) by (auto elim: bindP_InrE)
  obtain m where m: "\<not> is_ip_network_allocated na (as_objects s) m"
    and eq: "u = s\<lparr>as_objects := as_objects s @ [Inr m],
               as_asset := dict_set f (NetText (na_str na m)) (as_asset s)\<rparr>"
    using u by (rule override_ip_network_Inr)
  obtain ns where ns: "networks_chosen na fs u t ns"
    using Cons.IH [OF v] Cons.prems(2) by auto
  have "dict_get (as_asset t) f = Some (NetText (na_str na m))"
    using ns Cons.prems(2) by (auto simp: networks_chosen_def eq dict_get_set)
  then have "networks_chosen na (f # fs) s t (m # ns)"
    using ns m unfolding networks_chosen_def
    by (auto simp: eq dict_get_set nth_Cons split: nat.splits)
  then show ?case ..
qed

definition net24 :: "nat \<Rightarrow> cidr" where
  "net24 i = \<lparr>cidr_version = V4, cidr_value = 256 * i, cidr_prefixlen = 24\<rparr>"

definition sample_asset :: asset where
  "sample_asset = [(''machine_cidr'', NetText (net24 1)), (''machine_cidr6'', NetText (net24 1)),
     (''provisioning_cidr'', NetText (net24 4)), (''provisioning_cidr6'', NetText (net24 5)),
     (''libvirt_network_if'', NameText ''tt0''), (''libvirt_secondary_network_if'', NameText ''stt1'')]"

definition sample_assets :: "(ip, cidr) assets" where
  "sample_assets = \<lparr>hist = [], as_file = Some [sample_asset], as_objects = [], as_bridges = [],
     as_taken = {sample_asset}, as_asset = sample_asset\<rparr>"

lemmas plain_search =
  next_available_ip_network.simps is_ip_network_allocated_def plain_netaddr_def
  in_network_def interface_ip_def interface_network_def host_span_def network_step_def net24_def

text \<open>C5: When the networks of an asset are chosen, each of the four fields gets the text of a
  network that contains nothing in use before and none of the networks chosen before it, and
  all four count as in use afterwards.\<close>

theorem chosen_networks_are_free:
  assumes "override_ip_networks_values_if_not_free na s = (Inr (), t)"
  shows "\<exists>ns. length ns = 4
    \<and> as_objects t = as_objects s @ map Inr ns
    \<and> (\<forall>i < 4. dict_get (as_asset t) (IP_NETWORK_ASSET_FIELDS ! i) = Some (NetText (na_str na (ns ! i)))
         \<and> \<not> is_ip_network_allocated na (as_objects s) (ns ! i)
         \<and> (\<forall>j < i. \<not> na_net_in na (ns ! j) (ns ! i)))"
proof -
  obtain ns where ns: "networks_chosen na IP_NETWORK_ASSET_FIELDS s t ns"
    using override_networks_chosen [OF assms [unfolded override_ip_networks_values_if_not_free_def]]
    by (auto simp: IP_NETWORK_ASSET_FIELDS_def)
  have four: "length IP_NETWORK_ASSET_FIELDS = 4" by (simp add: IP_NETWORK_ASSET_FIELDS_def)
  have "\<not> is_ip_network_allocated na (as_objects s) (ns ! i)
      \<and> (\<forall>j < i. \<not> na_net_in na (ns ! j) (ns ! i))" if "i < 4" for i
  proof -
    have "\<not> is_ip_network_allocated na (as_objects s @ map Inr (take i ns)) (ns ! i)" "i < length ns"
      using ns that four by (auto simp: networks_chosen_def)
    then have free: "\<not> object_in na obj (ns ! i)" if "obj \<in> set (as_objects s) \<union> Inr ` set (take i ns)" for obj
      using that by (auto simp: is_ip_network_allocated_def list_ex_iff)
    have "\<not> na_net_in na (ns ! j) (ns ! i)" if "j < i" for j
    proof -
      have "ns ! j \<in> set (take i ns)"
        using that \<open>i < length ns\<close> by (auto simp: in_set_conv_nth intro!: exI [of _ j])
      then show ?thesis using free [of "Inr (ns ! j)"] by simp
    qed
    then show ?thesis using free by (auto simp: is_ip_network_allocated_def list_ex_iff)
  qed
  with ns four show ?thesis unfolding networks_chosen_def by metis
qed

theorem chosen_networks_are_free_witness:
  "\<exists>ns. length ns = 4 \<and> \<not> na_net_in plain_netaddr (ns ! 0) (ns ! 1)
     \<and> \<not> na_net_in plain_netaddr (ns ! 2) (ns ! 3)"
proof -
  have "fst (override_ip_networks_values_if_not_free plain_netaddr sample_assets) = Inr ()"
    by (simp add: override_ip_networks_values_if_not_free_def IP_NETWORK_ASSET_FIELDS_def
        override_ip_network_def field_network_def sample_assets_def sample_asset_def
        plain_search add_allocated_ip_def prog_simps)
  then have "override_ip_networks_values_if_not_free plain_netaddr sample_assets
      = (Inr (), snd (override_ip_networks_values_if_not_free plain_netaddr sample_assets))"
    by (metis prod.collapse)
  from chosen_networks_are_free [OF this] obtain ns where "length ns = 4"
    and free: "\<forall>i < 4. \<forall>j < i. \<not> na_net_in plain_netaddr (ns ! j) (ns ! i)"
    by blast
  moreover have "\<not> na_net_in plain_netaddr (ns ! 0) (ns ! 1)" "\<not> na_net_in plain_netaddr (ns ! 2) (ns ! 3)"
    using free by simp_all
  ultimately show ?thesis by blast
qed

text \<open>The check for a free network asks only whether something in use lies inside the candidate:
  inside a network in use with a shorter prefix, a candidate is taken to be free.\<close>

lemma enclosing_network_is_not_noticed:
  "next_available_ip_network plain_netaddr
       [Inr \<lparr>cidr_version = V4, cidr_value = 0, cidr_prefixlen = 16\<rparr>] (net24 1) = Some (Inr (net24 1))
   \<and> na_net_in plain_netaddr (net24 1) \<lparr>cidr_version = V4, cidr_value = 0, cidr_prefixlen = 16\<rparr>"
  by (simp add: plain_search)

section \<open>The bridge names are free\<close>

interpretation bridges: first_free "bridge_name p" "is_net_bridge_allocated bs" for p bs
  by unfold_locales (auto simp: inj_def bridge_name_def is_net_bridge_allocated_def)

text \<open>The search for a bridge name always returns, the name is not in use, and it has the
  smallest index among the free names with the prefix.\<close>

lemma next_bridge_is_free:
  "\<exists>i. get_next_available_net_bridge bridges p = Some (bridge_name p i)
     \<and> bridge_name p i \<notin> set bridges \<and> (\<forall>k < i. bridge_name p k \<in> set bridges)"
proof -
  obtain j where "first_index (\<lambda>i. is_net_bridge_allocated bridges (bridge_name p i)) 0 = Some j"
    "\<not> is_net_bridge_allocated bridges (bridge_name p j)"
    "\<And>k. k < j \<Longrightarrow> is_net_bridge_allocated bridges (bridge_name p k)"
    using bridges.first_index_found [of bridges p] by metis
  then show ?thesis
    by (auto simp: get_next_available_net_bridge_def is_net_bridge_allocated_def)
qed

lemma next_bridge_is_free_witness:
  "\<exists>i. get_next_available_net_bridge [''tt0'', ''tt1''] ''tt'' = Some (bridge_name ''tt'' i)
     \<and> bridge_name ''tt'' i \<notin> set [''tt0'', ''tt1'']"
  using next_bridge_is_free [of "[''tt0'', ''tt1'']" "''tt''"] by auto

section \<open>Releasing\<close>

lemma pop_all_snoc: "pop_all (idxs @ [i]) xs = pop_all idxs (pop_at i xs)"
  by (simp add: pop_all_def)

lemma pop_at_append: "i < length xs \<Longrightarrow> pop_at i (xs @ ys) = pop_at i xs @ ys"
  by (simp add: pop_at_def)

lemma length_pop_at: "i < length xs \<Longrightarrow> length (pop_at i xs) = length xs - 1"
  by (simp add: pop_at_def)

lemma pop_all_append:
  "sorted_wrt (<) idxs \<Longrightarrow> (\<forall>i \<in> set idxs. i < length xs) \<Longrightarrow>
     pop_all idxs (xs @ ys) = pop_all idxs xs @ ys"
proof (induction idxs arbitrary: xs rule: rev_induct)
  case Nil
  then show ?case by (simp add: pop_all_def)
next
  case (snoc i idxs)
  have "\<forall>j \<in> set idxs. j < length (pop_at i xs)"
    using snoc.prems by (fastforce simp: sorted_wrt_append length_pop_at)
  with snoc show ?case by (simp add: pop_all_snoc pop_at_append sorted_wrt_append)
qed

text \<open>Popping the indexes from the last to the first is a filter.\<close>

lemma pop_all_filter: "pop_all (indexes_to_pop P xs) xs = filter (\<lambda>x. \<not> P x) xs"
proof (induction xs rule: rev_induct)
  case Nil
  then show ?case by (simp add: pop_all_def indexes_to_pop_def)
next
  case (snoc x xs)
  have idx: "indexes_to_pop P (xs @ [x]) = indexes_to_pop P xs @ (if P x then [length xs] else [])"
    by (auto simp: indexes_to_pop_def nth_append intro: filter_cong)
  have "sorted_wrt (<) (indexes_to_pop P xs)"
    by (simp add: indexes_to_pop_def sorted_wrt_filter)
  moreover have "\<forall>i \<in> set (indexes_to_pop P xs). i < length xs"
    by (simp add: indexes_to_pop_def)
  ultimately have "pop_all (indexes_to_pop P xs) (xs @ [x]) = filter (\<lambda>x. \<not> P x) xs @ [x]"
    using snoc by (simp add: pop_all_append)
  then show ?case using snoc by (simp add: idx pop_all_snoc pop_at_def)
qed

lemma act_Inr: "act e what args s = (Inr u, t) \<Longrightarrow> t = s\<lparr>hist := hist s @ [Controller what args]\<rparr>"
  by (simp add: act_app)

lemma file_lock_context_Inr:
  assumes "file_lock_context e path body s = (Inr v, t)"
  obtains s' u where "body s' = (Inr v, u)" "\<exists>h. s' = s\<lparr>hist := h\<rparr>" "\<exists>h. t = u\<lparr>hist := h\<rparr>"
proof -
  let ?acq = "try_except (acquire_lock e path) (\<lambda>x. if x = LockTimeout
      then thenP (act e ''os.unlink'' [PStr path]) (acquire_lock e path) else raise x)"
  obtain s' where a: "?acq s = (Inr (), s')"
    and b: "try_finally body (release_lock e path) s' = (Inr v, t)"
    using assms by (auto simp: file_lock_context_def elim: bindP_InrE)
  have "\<exists>h. s' = s\<lparr>hist := h\<rparr>"
    using a by (auto simp: try_except_def acquire_lock_def act_app bindP_def raise_def
        split: sum.splits if_splits)
  moreover obtain u where "body s' = (Inr v, u)" "\<exists>h. t = u\<lparr>hist := h\<rparr>"
    using b by (auto simp: try_finally_def release_lock_def act_app split: prod.splits sum.splits if_splits)
  ultimately show thesis by (intro that)
qed

text \<open>C6: Releasing keeps, in order, exactly the entries of the shared file that this object has
  not taken, and leaves it with nothing taken.\<close>

theorem release_all_removes_taken:
  assumes "release_all e lock_file s = (Inr (), t)"
  shows "as_file t = Some (filter (\<lambda>a. a \<notin> as_taken s) (case as_file s of None \<Rightarrow> [] | Some xs \<Rightarrow> xs))
    \<and> as_taken t = {}"
proof -
  obtain s' u where body: "bindP get_assets_in_use_from_assets_file (\<lambda>assets_in_use.
          bindP (remove_taken_assets_from_all_assets_in_use assets_in_use)
            dump_all_assets_in_use_to_assets_file) s' = (Inr (), u)"
    and "\<exists>h. s' = s\<lparr>hist := h\<rparr>" "\<exists>h. t = u\<lparr>hist := h\<rparr>"
    using assms unfolding release_all_def by (rule file_lock_context_Inr)
  then show ?thesis
    by (auto simp: get_assets_in_use_from_assets_file_def bindP_app prog_simps
        remove_taken_assets_from_all_assets_in_use_def dump_all_assets_in_use_to_assets_file_def
        bindP_assoc pop_all_filter)
qed

theorem release_all_removes_taken_witness:
  "as_file (snd (release_all (still_env (sample_cluster [] [])) ''l'' sample_assets)) = Some []"
proof -
  let ?r = "release_all (still_env (sample_cluster [] [])) ''l'' sample_assets"
  have "fst ?r = Inr ()"
    by (simp add: release_all_def file_lock_context_locked still_env_def try_finally_def
        release_lock_def act_app get_assets_in_use_from_assets_file_def bindP_app prog_simps
        remove_taken_assets_from_all_assets_in_use_def dump_all_assets_in_use_to_assets_file_def
        sample_assets_def pop_all_filter bindP_assoc)
  then have "?r = (Inr (), snd ?r)" by (metis prod.collapse)
  from release_all_removes_taken [OF this] show ?thesis by (simp add: sample_assets_def)
qed

end
