(* ===== verification/Operators.thy ===== *)
theory Operators
  imports Utils
begin

text \<open>
  The operators a cluster is installed with: \<open>consts/olm_operators.py\<close> (resource requirements,
  exception classes, properties) and \<open>utils/operators_utils.py\<close> (their statuses and the wait
  for them).
\<close>

section \<open>Resources\<close>

type_synonym resources = "(string, int) dict"

definition get_resource_dict ::
  "int \<Rightarrow> int \<Rightarrow> int \<Rightarrow> int \<Rightarrow> int \<Rightarrow> int \<Rightarrow> int \<Rightarrow> int \<Rightarrow> int \<Rightarrow> resources" where
  "get_resource_dict master_memory worker_memory master_vcpu worker_vcpu master_disk worker_disk
       master_disk_count worker_disk_count worker_count =
     [(''master_memory'', master_memory), (''worker_memory'', worker_memory),
      (''master_vcpu'', master_vcpu), (''worker_vcpu'', worker_vcpu),
      (''master_disk'', master_disk), (''worker_disk'', worker_disk),
      (''master_disk_count'', master_disk_count), (''worker_disk_count'', worker_disk_count),
      (''workers_count'', worker_count)]"

definition resource_keys :: "string list" where
  "resource_keys = map fst (get_resource_dict 0 0 0 0 0 0 0 0 0)"

definition get_mce_resource_dict :: "bool \<Rightarrow> resources" where
  "get_mce_resource_dict is_sno =
     (if \<not> is_sno then get_resource_dict 17000 17000 8 6 0 0 0 0 0
      else get_resource_dict 33000 0 8 0 0 0 0 0 0)"

definition get_osc_resource_dict :: "bool \<Rightarrow> resources" where
  "get_osc_resource_dict is_sno =
     (if \<not> is_sno then get_resource_dict 16384 8192 4 2 0 0 0 0 0
      else get_resource_dict 16384 0 8 0 0 0 0 0 0)"

definition operator_resources :: "bool \<Rightarrow> (string, resources) dict" where
  "operator_resources is_sno =
     [(''cnv'', get_resource_dict 150 360 4 2 0 0 0 0 0),
      (''mtv'', get_resource_dict 1174 1384 5 3 0 0 0 0 0),
      (''odf'', get_resource_dict 24000 24000 12 12 (10 * GB) (25 * GB) 1 1 4),
      (''lvm'', get_resource_dict 1200 0 1 1 0 0 1 0 0),
      (''mce'', get_mce_resource_dict is_sno),
      (''openshift-ai'', get_resource_dict (40 * 1024) (64 * 1024) 12 20 (100 * GB) (100 * GB) 1 2 3),
      (''osc'', get_osc_resource_dict is_sno)]"

text \<open>A missing operator or resource is a \<open>KeyError\<close>, re-raised as \<open>ValueError\<close>.\<close>

definition resource_param :: "int \<Rightarrow> string \<Rightarrow> string \<Rightarrow> bool \<Rightarrow> exn + int" where
  "resource_param base_value resource_name operator is_sno =
     (case dict_get (operator_resources is_sno) operator of
        None \<Rightarrow> Inl (ValueError operator)
      | Some rs \<Rightarrow>
         (case dict_get rs resource_name of
            None \<Rightarrow> Inl (ValueError resource_name)
          | Some resource \<Rightarrow> Inr (if base_value \<le> resource then base_value + resource else base_value)))"

section \<open>Exceptions and properties\<close>

definition exception_map :: "(string, string) dict" where
  "exception_map =
     [(''cnv'', ''CNV''), (''mtv'', ''MTV''), (''odf'', ''ODF''), (''lso'', ''LSO''), (''lvm'', ''LVM''),
      (''mce'', ''MCE''), (''metallb'', ''MetalLB''), (''openshift-ai'', ''OpenShiftAI''), (''osc'', ''OSC''),
      (''nmstate'', ''NMState''), (''node-healthcheck'', ''NHO''), (''self-node-remediation'', ''SNR''),
      (''fence-agents-remediation'', ''FAR''), (''node-maintenance'', ''NMO''), (''kube-descheduler'', ''KDO''),
      (''cluster-observability'', ''COO''), (''numaresources'', ''NUMAResources''), (''oadp'', ''OADP''),
      (''loki'', ''Loki''), (''openshift-logging'', ''OpenShiftLogging'')]"

text \<open>The class is named by its prefix before \<open>OperatorFailedError\<close>; the base class has none.\<close>

definition get_exception_factory :: "string \<Rightarrow> exn" where
  "get_exception_factory operator =
     OperatorFailedError (case dict_get exception_map operator of None \<Rightarrow> [] | Some c \<Rightarrow> c)"

definition get_operator_properties :: "string \<Rightarrow> string option \<Rightarrow> string option \<Rightarrow> exn + string" where
  "get_operator_properties operator api_ip ingress_ip =
     (if operator = ''metallb'' then
        if truthy_str api_ip \<and> truthy_str ingress_ip then
          Inr (''{'' @ [CHR 0x22] @ ''api_ip'' @ [CHR 0x22] @ '': '' @ [CHR 0x22] @ the api_ip @ [CHR 0x22]
            @ '', '' @ [CHR 0x22] @ ''ingress_ip'' @ [CHR 0x22] @ '': '' @ [CHR 0x22] @ the ingress_ip
            @ [CHR 0x22] @ ''}'')
        else Inl (ValueError ''MetalLB properties are missing or invalid'')
      else Inr [])"

section \<open>Statuses\<close>

definition operator_failed :: "monitored_operator \<Rightarrow> bool" where
  "operator_failed opr \<longleftrightarrow> op_status opr = ''failed''"

definition are_operators_in_status ::
  "env \<Rightarrow> string \<Rightarrow> monitored_operator list \<Rightarrow> int \<Rightarrow> string list \<Rightarrow> bool
     \<Rightarrow> ((call, 'z) world_scheme, bool) prog" where
  "are_operators_in_status e cluster_id operators operators_count statuses fall_on_error_status =
     thenP
       (if fall_on_error_status then
          (case find operator_failed operators of
             None \<Rightarrow> ret () | Some op \<Rightarrow> raise (get_exception_factory (op_name op)))
        else ret ())
       (bindP (cluster_get e cluster_id False) (\<lambda>_.
          ret (int (length (filter (\<lambda>op. op_status op \<in> set statuses) operators)) \<ge> operators_count)))"

definition is_operator_in_status :: "monitored_operator list \<Rightarrow> string \<Rightarrow> string \<Rightarrow> bool" where
  "is_operator_in_status operators operator_name status \<longleftrightarrow>
     list_ex (\<lambda>op. op_status op = status) (filter (\<lambda>op. op_name op = operator_name) operators)"

definition filter_operators_by_type ::
  "monitored_operator list \<Rightarrow> operator_type list \<Rightarrow> monitored_operator list" where
  "filter_operators_by_type operators operator_types =
     filter (\<lambda>op. op_type op \<in> set operator_types) operators"

definition operators_check ::
  "env \<Rightarrow> string \<Rightarrow> int \<Rightarrow> operator_type list \<Rightarrow> string list \<Rightarrow> bool
     \<Rightarrow> ((call, 'z) world_scheme, unit option) prog" where
  "operators_check e cluster_id operators_count operator_types statuses fall_on_error_status =
     bindP (get_cluster_operators e cluster_id) (\<lambda>ops.
       bindP (are_operators_in_status e cluster_id (filter_operators_by_type ops operator_types)
                operators_count statuses fall_on_error_status) (\<lambda>b. ret (truthy b)))"

definition wait_till_all_operators_are_in_status ::
  "'z cwaiter \<Rightarrow> env \<Rightarrow> string \<Rightarrow> int \<Rightarrow> operator_type list \<Rightarrow> string list \<Rightarrow> int \<Rightarrow> bool \<Rightarrow> int
     \<Rightarrow> ((call, 'z) world_scheme, unit) prog" where
  "wait_till_all_operators_are_in_status wait e cluster_id operators_count operator_types statuses
       timeout fall_on_error_status interval =
     try_except
       (wait (operators_check e cluster_id operators_count operator_types statuses fall_on_error_status)
          timeout interval no_exceptions)
       (\<lambda>x. bindP (get_cluster_operators e cluster_id) (\<lambda>_. raise x))"

section \<open>Properties\<close>

lemma get_cluster_operators_app:
  "get_cluster_operators e cid w =
     (case e_get_cluster e (hist w) cid of Inl x \<Rightarrow> Inl x | Inr c \<Rightarrow> Inr (cl_operators c),
      w\<lparr>hist := hist w @ [V2GetCluster cid False]\<rparr>)"
  by (simp add: get_cluster_operators_def bindP_def cluster_get_app ret_def split: sum.split)

text \<open>What a successful check has seen: enough operators in the statuses, none failed if asked.\<close>

definition operators_fine ::
  "int \<Rightarrow> operator_type list \<Rightarrow> string list \<Rightarrow> bool \<Rightarrow> cluster \<Rightarrow> bool" where
  "operators_fine n types statuses fall_on_error c \<longleftrightarrow>
     (let ops = filter_operators_by_type (cl_operators c) types
      in n \<le> int (length (filter (\<lambda>op. op_status op \<in> set statuses) ops))
         \<and> (fall_on_error \<longrightarrow> list_all (\<lambda>op. \<not> operator_failed op) ops))"

lemma operators_check_Inr:
  assumes "operators_check e cid n types statuses fe s = (Inr (Some u), t)"
  shows "\<exists>c. e_get_cluster e (hist s) cid = Inr c \<and> operators_fine n types statuses fe c
    \<and> hist t = hist s @ [V2GetCluster cid False, V2GetCluster cid False]"
  using assms
  by (auto simp: operators_check_def bindP_def get_cluster_operators_app are_operators_in_status_def
      cluster_get_app ret_def raise_def operators_fine_def Let_def find_None_iff list_all_iff
      split: sum.splits if_splits option.splits)

lemma reraise_after_query:
  "bindP m (\<lambda>_. raise x) s \<noteq> (Inr y, t)"
  by (auto simp: bindP_eq_Inr_iff prog_simps)

text \<open>A wait for the operators that returns normally saw, in the next to last call, a cluster in
  which at least the requested number of operators of the given types is in the statuses, and
  none of them failed if the wait was to fall on errors.\<close>

lemma wait_operators_sound:
  assumes "waits_by wait"
    and "wait_till_all_operators_are_in_status wait e cid n types statuses timeout fe interval s = (Inr (), t)"
  shows "\<exists>h c. hist t = h @ [V2GetCluster cid False, V2GetCluster cid False]
    \<and> e_get_cluster e h cid = Inr c \<and> operators_fine n types statuses fe c"
proof -
  have "wait (operators_check e cid n types statuses fe) timeout interval no_exceptions s = (Inr (), t)"
    using assms(2) unfolding wait_till_all_operators_are_in_status_def
    by (auto simp: try_except_def reraise_after_query split: prod.splits sum.splits)
  from wait_Inr [OF assms(1) this] obtain s' where
    "operators_check e cid n types statuses fe s' = (Inr (Some ()), t)" ..
  from operators_check_Inr [OF this] show ?thesis by metis
qed

definition sample_operator :: "string \<Rightarrow> string \<Rightarrow> monitored_operator" where
  "sample_operator n status = \<lparr>op_name = n, op_type = Olm, op_status = status, op_properties = PNone\<rparr>"

lemma wait_operators_sound_witness:
  "\<exists>h. [V2GetCluster ''c'' False, V2GetCluster ''c'' False] = h @ [V2GetCluster ''c'' False, V2GetCluster ''c'' False]
     \<and> operators_fine 1 [Olm] [''available''] True
         ((sample_cluster ''installed'' [])\<lparr>cl_operators := [sample_operator ''lvm'' ''available'']\<rparr>)"
proof -
  let ?c = "(sample_cluster ''installed'' [])\<lparr>cl_operators := [sample_operator ''lvm'' ''available'']\<rparr>"
  have run: "wait_till_all_operators_are_in_status (poll_upto 0) (still_env ?c) ''c'' 1 [Olm] [''available'']
      60 True 10 fresh_world = (Inr (), \<lparr>hist = [V2GetCluster ''c'' False, V2GetCluster ''c'' False]\<rparr>)"
    by (simp add: wait_till_all_operators_are_in_status_def poll_upto.simps operators_check_def
        bindP_def get_cluster_operators_app are_operators_in_status_def cluster_get_app
        try_except_def concrete_env prog_simps sample_operator_def operator_failed_def
        filter_operators_by_type_def)
  show ?thesis
    using wait_operators_sound [OF waits_by_poll_upto run] by (auto simp: still_env_def)
qed

text \<open>For every operator with known requirements and every resource key, a non-negative resource
  is raised to at least what the operator needs and never lowered; a positive one that was
  raised once is not raised again.\<close>

lemma resource_param_meets_requirement:
  assumes "dict_get (operator_resources is_sno) operator = Some rs"
    and "dict_get rs k = Some need" and "0 \<le> v"
  shows "\<exists>r. resource_param v k operator is_sno = Inr r \<and> v \<le> r \<and> need \<le> r
    \<and> (0 < v \<longrightarrow> resource_param r k operator is_sno = Inr r)"
proof -
  have nonneg: "0 \<le> need"
    using assms(1,2)
    by (auto simp: operator_resources_def get_resource_dict_def get_mce_resource_dict_def
        get_osc_resource_dict_def GB_def split: if_splits)
  show ?thesis using assms nonneg by (simp add: resource_param_def)
qed

lemma resource_param_meets_requirement_witness:
  "\<exists>r. resource_param 16384 ''master_memory'' ''odf'' False = Inr r \<and> 24000 \<le> r
     \<and> resource_param r ''master_memory'' ''odf'' False = Inr r"
  using resource_param_meets_requirement [of False "''odf''" _ "''master_memory''" 24000 16384]
  by (simp add: operator_resources_def get_resource_dict_def) blast

end
