(* ===== verification/Triggers.thy ===== *)
theory Triggers
  imports Operators
begin

text \<open>
  Configuration variables and the triggers that set them: \<open>utils/env_var.py\<close>,
  \<open>triggers/*.py\<close>, \<open>helper_classes/config/base_config.py\<close> and
  \<open>tests/global_variables/default_variables.py\<close>. A trigger's conditions are functions of a
  configuration's attributes; the process environment is a parameter.
\<close>

section \<open>Environment variables with their source\<close>

type_synonym loader = "string \<Rightarrow> exn + pyval"

record env_var =
  ev_keys :: "string list"
  ev_loader :: "loader option"
  ev_default :: pyval
  ev_is_user_set :: bool
  ev_value :: pyval

fun first_set_key :: "environ \<Rightarrow> string list \<Rightarrow> string option" where
  "first_set_key environ [] = None"
| "first_set_key environ (k # ks) =
     (case get_env environ k None of Some v \<Rightarrow> Some v | None \<Rightarrow> first_set_key environ ks)"

definition env_var_init ::
  "environ \<Rightarrow> string list \<Rightarrow> loader option \<Rightarrow> pyval \<Rightarrow> exn + env_var" where
  "env_var_init environ var_keys loader d =
     (case first_set_key environ var_keys of
        None \<Rightarrow> Inr \<lparr>ev_keys = var_keys, ev_loader = loader, ev_default = d, ev_is_user_set = False, ev_value = d\<rparr>
      | Some v \<Rightarrow>
          sum_bind (case loader of None \<Rightarrow> Inr (PStr v) | Some f \<Rightarrow> f v) (\<lambda>x.
            Inr \<lparr>ev_keys = var_keys, ev_loader = loader, ev_default = d, ev_is_user_set = True, ev_value = x\<rparr>))"

text \<open>\<open>copy(value)\<close> makes a new variable, which loads the environment again, and overrides it.\<close>

definition env_var_copy :: "environ \<Rightarrow> env_var \<Rightarrow> pyval \<Rightarrow> exn + env_var" where
  "env_var_copy environ ev value =
     sum_bind (env_var_init environ (ev_keys ev) (ev_loader ev) (ev_default ev)) (\<lambda>env.
       Inr (env\<lparr>ev_is_user_set := ev_is_user_set ev,
                ev_value := (if truth value then value else ev_value ev)\<rparr>))"

section \<open>Configurations\<close>

datatype origin = ENVIRONMENT | PARAMETERIZED | TRIGGER

type_synonym default_variables = "(string, env_var) dict"

record base_config =
  bc_fields :: "(string, pyval) dict"
  bc_origins :: "(string, origin) dict"
  bc_pool :: default_variables

text \<open>
  The abstract class \<open>Triggerable\<close>: the operations a configuration provides. \<open>None\<close> from
  \<open>tr_get\<close> is a missing attribute.
\<close>

record 's triggerable_ops =
  tr_get :: "'s \<Rightarrow> string \<Rightarrow> pyval option"
  tr_origin :: "'s \<Rightarrow> string \<Rightarrow> origin option"
  tr_set :: "string \<Rightarrow> pyval \<Rightarrow> ('s, unit) prog"

definition pool_origin :: "default_variables \<Rightarrow> string \<Rightarrow> origin option" where
  "pool_origin pool k =
     (case dict_get pool k of
        None \<Rightarrow> None | Some ev \<Rightarrow> if ev_is_user_set ev then Some ENVIRONMENT else None)"

subsection \<open>BaseConfig\<close>

definition config_origin :: "base_config \<Rightarrow> string \<Rightarrow> origin option" where
  "config_origin c k =
     (case pool_origin (bc_pool c) k of Some r \<Rightarrow> Some r | None \<Rightarrow> dict_get (bc_origins c) k)"

definition config_set :: "string \<Rightarrow> pyval \<Rightarrow> (base_config, unit) prog" where
  "config_set k v =
     bindP (reads bc_fields) (\<lambda>fs.
       whenP (dict_get fs k \<noteq> None)
         (modifies (\<lambda>c. c\<lparr>bc_origins := dict_set k TRIGGER (bc_origins c),
                          bc_fields := dict_set k v (bc_fields c)\<rparr>)))"

definition config_ops :: "base_config triggerable_ops" where
  "config_ops = \<lparr>tr_get = (\<lambda>c k. dict_get (bc_fields c) k), tr_origin = config_origin, tr_set = config_set\<rparr>"

text \<open>\<open>getattr(pool, key, default)\<close> on the default variables gives the value of the variable.\<close>

definition get_default :: "base_config \<Rightarrow> string \<Rightarrow> pyval \<Rightarrow> pyval" where
  "get_default c k d = (case dict_get (bc_pool c) k of None \<Rightarrow> d | Some ev \<Rightarrow> ev_value ev)"

definition config_post_init :: "base_config \<Rightarrow> base_config" where
  "config_post_init c =
     c\<lparr>bc_origins := [],
       bc_fields := map (\<lambda>(k, v). (k, if v = PNone then get_default c k PNone else v)) (bc_fields c)\<rparr>"

text \<open>\<open>set_value\<close>: the origin is marked before the value is converted, which may raise.\<close>

definition set_value ::
  "(string \<Rightarrow> pyval \<Rightarrow> exn + pyval) \<Rightarrow> string \<Rightarrow> pyval \<Rightarrow> origin option \<Rightarrow> (base_config, unit) prog" where
  "set_value correct_value attr new_val origin_mark =
     thenP (case origin_mark of None \<Rightarrow> ret () | Some r \<Rightarrow> modifies (\<lambda>c. c\<lparr>bc_origins := dict_set attr r (bc_origins c)\<rparr>))
       (bindP (reads bc_fields) (\<lambda>fs.
          if dict_get fs attr = None then raise AttributeError
          else bindP (sum_prog (correct_value attr new_val)) (\<lambda>v.
            modifies (\<lambda>c. c\<lparr>bc_fields := dict_set attr v (bc_fields c)\<rparr>))))"

subsection \<open>DefaultVariables\<close>

definition defaults_set :: "environ \<Rightarrow> string \<Rightarrow> pyval \<Rightarrow> (default_variables, unit) prog" where
  "defaults_set environ k v =
     bindP (reads (\<lambda>vars. dict_get vars k)) (\<lambda>old.
       case old of
         None \<Rightarrow> raise AttributeError
       | Some ev \<Rightarrow> bindP (sum_prog (env_var_copy environ ev v)) (\<lambda>ev'. modifies (dict_set k ev')))"

definition defaults_ops :: "environ \<Rightarrow> default_variables triggerable_ops" where
  "defaults_ops environ =
     \<lparr>tr_get = (\<lambda>vars k. map_option ev_value (dict_get vars k)), tr_origin = pool_origin,
      tr_set = defaults_set environ\<rparr>"

section \<open>Triggers\<close>

type_synonym attrs = "string \<Rightarrow> pyval option"

text \<open>What a trigger sets: its own variables, or what an operator needs.\<close>

datatype trigger_effect = SetVars "(string \<times> pyval) list" | OlmNeeds string bool

record trigger =
  tg_conditions :: "(attrs \<Rightarrow> exn + bool) list"
  tg_effect :: trigger_effect

text \<open>A condition holds of some configuration; those without the attribute are passed over.\<close>

fun some_config_meets :: "(attrs \<Rightarrow> exn + bool) \<Rightarrow> attrs list \<Rightarrow> exn + bool" where
  "some_config_meets cond [] = Inr False"
| "some_config_meets cond (c # cs) =
     (case cond c of
        Inr True \<Rightarrow> Inr True
      | Inr False \<Rightarrow> some_config_meets cond cs
      | Inl AttributeError \<Rightarrow> some_config_meets cond cs
      | Inl x \<Rightarrow> Inl x)"

definition is_condition_met :: "trigger \<Rightarrow> attrs list \<Rightarrow> exn + bool" where
  "is_condition_met tg configs =
     sum_bind (sum_map (\<lambda>cond. some_config_meets cond configs) (tg_conditions tg)) (\<lambda>ms.
       let met = filter (\<lambda>b. b) ms
       in Inr (length met > 0 \<and> length met = length (tg_conditions tg) \<and> list_all (\<lambda>b. b) met))"

definition handle_item :: "'s triggerable_ops \<Rightarrow> string \<times> pyval \<Rightarrow> ('s, unit) prog" where
  "handle_item ops kv =
     bindP (reads (\<lambda>s. (tr_get ops s (fst kv), tr_origin ops s (fst kv)))) (\<lambda>(present, org).
       if present = None then ret ()
       else if org = None \<or> org = Some TRIGGER then tr_set ops (fst kv) (snd kv)
       else ret ())"

definition handle_trigger :: "'s triggerable_ops \<Rightarrow> (string \<times> pyval) list \<Rightarrow> ('s, unit) prog" where
  "handle_trigger ops values = for_each (handle_item ops) values"

text \<open>\<open>suppress(AttributeError)\<close> leaves out the keys the configuration does not have.\<close>

fun olm_variables :: "attrs \<Rightarrow> string \<Rightarrow> bool \<Rightarrow> string list \<Rightarrow> exn + (string \<times> pyval) list" where
  "olm_variables c operator is_sno [] = Inr []"
| "olm_variables c operator is_sno (k # ks) =
     (case c k of
        None \<Rightarrow> olm_variables c operator is_sno ks
      | Some (PInt v) \<Rightarrow>
          sum_bind (resource_param v k operator is_sno) (\<lambda>r.
            sum_bind (olm_variables c operator is_sno ks) (\<lambda>vs. Inr ((k, PInt r) # vs)))
      | Some _ \<Rightarrow> Inl TypeError)"

definition trigger_handle :: "'s triggerable_ops \<Rightarrow> trigger \<Rightarrow> ('s, unit) prog" where
  "trigger_handle ops tg =
     (case tg_effect tg of
        SetVars vars \<Rightarrow> handle_trigger ops vars
      | OlmNeeds operator is_sno \<Rightarrow>
          bindP (reads (tr_get ops)) (\<lambda>c.
            bindP (sum_prog (olm_variables c operator is_sno resource_keys)) (handle_trigger ops)))"

text \<open>A program run on the \<open>i\<close>-th configuration.\<close>

definition at_index :: "nat \<Rightarrow> ('s, 'a) prog \<Rightarrow> ('s list, 'a) prog" where
  "at_index i p = (\<lambda>cs. case p (cs ! i) of (r, c) \<Rightarrow> (r, cs[i := c]))"

text \<open>All conditions are evaluated before the first trigger is handled.\<close>

definition met_triggers :: "trigger list \<Rightarrow> attrs list \<Rightarrow> exn + trigger list" where
  "met_triggers tgs configs =
     sum_bind (sum_map (\<lambda>tg. is_condition_met tg configs) tgs) (\<lambda>ms.
       Inr (map fst (filter snd (zip tgs ms))))"

definition trigger_configurations :: "'s triggerable_ops \<Rightarrow> trigger list \<Rightarrow> ('s list, unit) prog" where
  "trigger_configurations ops tgs =
     bindP (reads (\<lambda>cs. met_triggers tgs (map (tr_get ops) cs))) (\<lambda>m.
       bindP (sum_prog m) (\<lambda>met.
         bindP (reads length) (\<lambda>n.
           for_each (\<lambda>tg. for_each (\<lambda>i. at_index i (trigger_handle ops tg)) [0..<n]) met)))"

section \<open>The default triggers\<close>

definition attr_test :: "string \<Rightarrow> (pyval \<Rightarrow> bool) \<Rightarrow> attrs \<Rightarrow> exn + bool" where
  "attr_test k P c = (case c k of None \<Rightarrow> Inl AttributeError | Some v \<Rightarrow> Inr (P v))"

definition attr_is :: "string \<Rightarrow> pyval \<Rightarrow> attrs \<Rightarrow> exn + bool" where
  "attr_is k x = attr_test k (\<lambda>v. v = x)"

text \<open>\<open>a and b\<close>: the right operand is read only if the left holds.\<close>

definition cond_and :: "(attrs \<Rightarrow> exn + bool) \<Rightarrow> (attrs \<Rightarrow> exn + bool) \<Rightarrow> attrs \<Rightarrow> exn + bool" where
  "cond_and p q c = sum_bind (p c) (\<lambda>b. if b then q c else Inr False)"

text \<open>\<open>operator in config.olm_operators\<close>, on a list, a string or a dictionary.\<close>

definition wants_operator :: "string \<Rightarrow> attrs \<Rightarrow> exn + bool" where
  "wants_operator operator c =
     (case c ''olm_operators'' of
        None \<Rightarrow> Inl AttributeError
      | Some (PList xs) \<Rightarrow> Inr (PStr operator \<in> set xs)
      | Some (PStr s) \<Rightarrow> Inr (occurs_in operator s)
      | Some (PDict d) \<Rightarrow> Inr (operator \<in> set (map fst d))
      | Some _ \<Rightarrow> Inl TypeError)"

definition several_masters :: "attrs \<Rightarrow> exn + bool" where
  "several_masters c =
     (case c ''masters_count'' of
        None \<Rightarrow> Inl AttributeError | Some (PInt n) \<Rightarrow> Inr (n > 1) | Some _ \<Rightarrow> Inl TypeError)"

definition network :: "string \<Rightarrow> int \<Rightarrow> pyval" where
  "network c host_prefix = PDict [(''cidr'', PStr c), (''host_prefix'', PInt host_prefix)]"

definition plain_network :: "string \<Rightarrow> pyval" where
  "plain_network c = PDict [(''cidr'', PStr c)]"

definition CLUSTER_NETWORKS_IPV4 :: "pyval list" where
  "CLUSTER_NETWORKS_IPV4 = [network ''172.30.0.0/16'' 23]"

definition CLUSTER_NETWORKS_IPV6 :: "pyval list" where
  "CLUSTER_NETWORKS_IPV6 = [network ''2002:db8::/53'' 64]"

definition SERVICE_NETWORKS_IPV4 :: "pyval list" where
  "SERVICE_NETWORKS_IPV4 = [plain_network ''10.128.0.0/14'']"

definition SERVICE_NETWORKS_IPV6 :: "pyval list" where
  "SERVICE_NETWORKS_IPV6 = [plain_network ''2003:db8::/112'']"

definition sets :: "(attrs \<Rightarrow> exn + bool) \<Rightarrow> (string \<times> pyval) list \<Rightarrow> trigger" where
  "sets cond vars = \<lparr>tg_conditions = [cond], tg_effect = SetVars vars\<rparr>"

definition needs :: "(attrs \<Rightarrow> exn + bool) list \<Rightarrow> string \<Rightarrow> bool \<Rightarrow> trigger" where
  "needs conds operator is_sno =
     \<lparr>tg_conditions = wants_operator operator # conds, tg_effect = OlmNeeds operator is_sno\<rparr>"

abbreviation PTrue :: pyval where "PTrue \<equiv> PBool True"
abbreviation PFalse :: pyval where "PFalse \<equiv> PBool False"

definition default_triggers :: "(string \<times> trigger) list" where
  "default_triggers =
    [(''remote_deployment'', sets (attr_test ''remote_service_url'' (\<lambda>v. v \<noteq> PNone))
        [(''worker_disk'', PInt (100 * GB))]),
     (''none_platform'', sets (attr_is ''platform'' (PStr ''none''))
        [(''user_managed_networking'', PTrue), (''tf_platform'', PStr ''none'')]),
     (''external_platform'', sets (attr_is ''platform'' (PStr ''external''))
        [(''user_managed_networking'', PTrue), (''tf_platform'', PStr ''none'')]),
     (''vsphere_platform'', sets (attr_is ''platform'' (PStr ''vsphere''))
        [(''user_managed_networking'', PFalse), (''tf_platform'', PStr ''vsphere'')]),
     (''nutanix_platform'', sets (attr_is ''platform'' (PStr ''nutanix''))
        [(''tf_platform'', PStr ''nutanix'')]),
     (''sno'', sets (attr_is ''masters_count'' (PInt 1))
        [(''workers_count'', PInt 0), (''control_plane_count'', PInt 1),
         (''high_availability_mode'', PStr ''None''), (''user_managed_networking'', PTrue),
         (''master_memory'', PInt (16 * MiB_UNITS)), (''master_vcpu'', PInt 8), (''network_type'', PNone)]),
     (''control_plane_count_2'', sets (attr_is ''masters_count'' (PInt 2)) [(''control_plane_count'', PInt 2)]),
     (''control_plane_count_4'', sets (attr_is ''masters_count'' (PInt 4)) [(''control_plane_count'', PInt 4)]),
     (''control_plane_count_5'', sets (attr_is ''masters_count'' (PInt 5)) [(''control_plane_count'', PInt 5)]),
     (''ipv4'', sets (cond_and (attr_is ''is_ipv4'' PTrue) (attr_is ''is_ipv6'' PFalse))
        [(''cluster_networks'', PList CLUSTER_NETWORKS_IPV4), (''service_networks'', PList SERVICE_NETWORKS_IPV4)]),
     (''ipv6'', sets (cond_and (attr_is ''is_ipv4'' PFalse) (attr_is ''is_ipv6'' PTrue))
        [(''cluster_networks'', PList CLUSTER_NETWORKS_IPV6), (''service_networks'', PList SERVICE_NETWORKS_IPV6)]),
     (''ipv6_required_configurations'', sets (attr_is ''is_ipv6'' PTrue) [(''network_type'', PStr ''OVNKubernetes'')]),
     (''OVNKubernetes'', sets (attr_is ''network_type'' (PStr ''OVNKubernetes'')) []),
     (''dualstack'', sets (cond_and (attr_is ''is_ipv4'' PTrue) (attr_is ''is_ipv6'' PTrue))
        [(''cluster_networks'', PList (CLUSTER_NETWORKS_IPV4 @ CLUSTER_NETWORKS_IPV6)),
         (''service_networks'', PList (SERVICE_NETWORKS_IPV4 @ SERVICE_NETWORKS_IPV6))]),
     (''cnv_operator'', needs [] ''cnv'' False),
     (''mtv_operator'', needs [] ''mtv'' False),
     (''odf_operator'', needs [] ''odf'' False),
     (''lvm_operator'', needs [] ''lvm'' False),
     (''openshift_ai_operator'', needs [] ''openshift-ai'' False),
     (''sno_mce_operator'', needs [attr_is ''masters_count'' (PInt 1)] ''mce'' True),
     (''mce_operator'', needs [several_masters] ''mce'' False),
     (''sno_osc_operator'', needs [attr_is ''masters_count'' (PInt 1)] ''osc'' True),
     (''osc_operator'', needs [several_masters] ''osc'' False),
     (''ipxe_boot'', sets (attr_is ''ipxe_boot'' PTrue)
        [(''download_image'', PFalse), (''master_boot_devices'', PList [PStr ''hd'', PStr ''network'']),
         (''worker_boot_devices'', PList [PStr ''hd'', PStr ''network''])]),
     (''static_ips_vlan_enables_static'',
        sets (\<lambda>c. Inr (c ''static_ips_vlan'' = Some PTrue)) [(''is_static_ip'', PTrue)]),
     (''cpu_s390x'', sets (attr_is ''cpu_architecture'' (PStr ''s390x''))
        [(''user_managed_networking'', PTrue), (''iso_image_type'', PStr ''full-iso''), (''tf_platform'', PStr ''s390x'')])]"

text \<open>\<open>DefaultVariables.__post_init__\<close>, given the version that was found.\<close>

definition on_single :: "('s list, 'a) prog \<Rightarrow> ('s, 'a) prog" where
  "on_single p = (\<lambda>s. case p [s] of (r, cs) \<Rightarrow> (r, hd cs))"

definition defaults_post_init ::
  "environ \<Rightarrow> (exn + string option) \<Rightarrow> (default_variables, unit) prog" where
  "defaults_post_init environ openshift_version =
     bindP (sum_prog openshift_version) (\<lambda>v.
       case v of
         None \<Rightarrow> raise (ValueError ''openshift_Version is None'')
       | Some version \<Rightarrow>
           thenP (defaults_set environ ''openshift_version'' (PStr version))
             (on_single (trigger_configurations (defaults_ops environ) (map snd default_triggers))))"

section \<open>What the user has set stays\<close>

definition user_set :: "'s triggerable_ops \<Rightarrow> 's \<Rightarrow> string \<Rightarrow> bool" where
  "user_set ops s k \<longleftrightarrow> tr_origin ops s k = Some ENVIRONMENT \<or> tr_origin ops s k = Some PARAMETERIZED"

definition honours :: "'s triggerable_ops \<Rightarrow> 's \<Rightarrow> 's \<Rightarrow> bool" where
  "honours ops s t \<longleftrightarrow>
     (\<forall>k. user_set ops s k \<longrightarrow> tr_get ops t k = tr_get ops s k \<and> tr_origin ops t k = tr_origin ops s k)"

text \<open>The contract of a triggerable configuration: setting a key touches no other key.\<close>

locale triggerable =
  fixes ops :: "'s triggerable_ops"
  assumes set_frame: "tr_set ops k v s = (r, t) \<Longrightarrow> k' \<noteq> k \<Longrightarrow>
    tr_get ops t k' = tr_get ops s k' \<and> tr_origin ops t k' = tr_origin ops s k'"

sublocale triggerable \<subseteq> respecting: state_rel "honours ops"
  by unfold_locales (auto simp: honours_def user_set_def)

sublocale triggerable \<subseteq> all_respecting: state_rel "list_all2 (honours ops)"
  by unfold_locales (auto intro: list_all2_refl list_all2_trans respecting.rel_refl respecting.rel_trans)

context triggerable begin

lemma keeps_handle_item: "keeps (honours ops) (handle_item ops kv)"
proof (rule keepsI)
  fix s r t
  assume run: "handle_item ops kv s = (r, t)"
  show "honours ops s t"
  proof (cases "tr_get ops s (fst kv) = None \<or> \<not> (tr_origin ops s (fst kv) = None \<or> tr_origin ops s (fst kv) = Some TRIGGER)")
    case True
    then have "t = s" using run by (auto simp: handle_item_def prog_simps bindP_app split: if_splits)
    then show ?thesis by (simp add: respecting.rel_refl)
  next
    case False
    then have "tr_set ops (fst kv) (snd kv) s = (r, t)" "\<not> user_set ops s (fst kv)"
      using run by (auto simp: handle_item_def prog_simps bindP_app user_set_def)
    then show ?thesis unfolding honours_def using set_frame by metis
  qed
qed

lemma keeps_handle: "keeps (honours ops) (trigger_handle ops tg)"
  by (auto simp: trigger_handle_def handle_trigger_def sum_prog_def
      intro!: respecting.keeps_intros keeps_handle_item split: trigger_effect.split sum.split)

lemma keeps_at_index:
  assumes "keeps (honours ops) p"
  shows "keeps (list_all2 (honours ops)) (at_index i p)"
proof (rule keepsI)
  fix cs r ds
  assume "at_index i p cs = (r, ds)"
  then obtain c where c: "p (cs ! i) = (r, c)" "ds = cs[i := c]"
    by (auto simp: at_index_def split: prod.splits)
  have "honours ops (cs ! i) c" using assms c(1) by (rule keepsD)
  then have "honours ops (cs ! j) (cs[i := c] ! j)" if "j < length cs" for j
    using that by (cases "j = i") (simp_all add: respecting.rel_refl)
  then show "list_all2 (honours ops) cs ds"
    by (simp add: c(2) list_all2_conv_all_nth)
qed

lemma keeps_trigger_configurations:
  "keeps (list_all2 (honours ops)) (trigger_configurations ops tgs)"
  unfolding trigger_configurations_def
  by (auto simp: sum_prog_def intro!: all_respecting.keeps_intros keeps_at_index keeps_handle
      split: sum.split)

end

interpretation configs: triggerable config_ops
  by unfold_locales
    (auto simp: config_ops_def config_set_def config_origin_def prog_simps bindP_app whenP_def
      dict_get_set split: if_splits option.splits)

interpretation defaults: triggerable "defaults_ops environ" for environ
  by unfold_locales
    (auto simp: defaults_ops_def defaults_set_def pool_origin_def prog_simps bindP_app bindP_def
      dict_get_set split: if_splits option.splits sum.splits)

section \<open>Properties\<close>

lemma trigger_configurations_honours:
  assumes "triggerable ops" and "trigger_configurations ops tgs cs = (r, ds)"
  shows "length ds = length cs \<and> (\<forall>i < length cs. honours ops (cs ! i) (ds ! i))"
  using keepsD [OF triggerable.keeps_trigger_configurations [OF assms(1)] assms(2)]
  by (simp add: list_all2_conv_all_nth)

text \<open>C39: Whatever triggers are met, in any order, and whether or not one of them raises, a variable
  of a configuration that the user has set, through the environment or as a test parameter,
  keeps its value and its origin.\<close>

theorem triggers_keep_user_values:
  assumes "trigger_configurations config_ops tgs cs = (r, ds)" and "i < length cs"
    and "config_origin (cs ! i) k = Some ENVIRONMENT \<or> config_origin (cs ! i) k = Some PARAMETERIZED"
  shows "dict_get (bc_fields (ds ! i)) k = dict_get (bc_fields (cs ! i)) k
    \<and> config_origin (ds ! i) k = config_origin (cs ! i) k"
  using trigger_configurations_honours [OF configs.triggerable_axioms assms(1)] assms(2,3)
  by (auto simp: honours_def user_set_def config_ops_def)

definition plain_var :: "pyval \<Rightarrow> env_var" where
  "plain_var v = \<lparr>ev_keys = [], ev_loader = None, ev_default = v, ev_is_user_set = False, ev_value = v\<rparr>"

definition sample_config_vars :: base_config where
  "sample_config_vars = \<lparr>bc_fields = [(''masters_count'', PInt 1), (''workers_count'', PInt 2), (''master_vcpu'', PInt 4)],
     bc_origins = [(''master_vcpu'', PARAMETERIZED)], bc_pool = []\<rparr>"

definition sno_trigger :: trigger where
  "sno_trigger = sets (attr_is ''masters_count'' (PInt 1)) [(''workers_count'', PInt 0), (''master_vcpu'', PInt 8)]"

lemmas trigger_eval =
  trigger_configurations_def met_triggers_def is_condition_met_def trigger_handle_def handle_trigger_def
  handle_item_def at_index_def on_single_def sets_def attr_is_def attr_test_def
  config_ops_def config_set_def config_origin_def pool_origin_def defaults_ops_def defaults_set_def
  env_var_copy_def env_var_init_def

theorem triggers_keep_user_values_witness:
  "\<exists>d. trigger_configurations config_ops [sno_trigger] [sample_config_vars] = (Inr (), [d])
     \<and> dict_get (bc_fields d) ''workers_count'' = Some (PInt 0)
     \<and> dict_get (bc_fields d) ''master_vcpu'' = Some (PInt 4)"
proof -
  have "\<exists>d. trigger_configurations config_ops [sno_trigger] [sample_config_vars] = (Inr (), [d])
     \<and> dict_get (bc_fields d) ''workers_count'' = Some (PInt 0)"
    by (simp add: trigger_eval sno_trigger_def sample_config_vars_def prog_simps bindP_app bindP_def)
  then obtain d where run: "trigger_configurations config_ops [sno_trigger] [sample_config_vars] = (Inr (), [d])"
    and w: "dict_get (bc_fields d) ''workers_count'' = Some (PInt 0)" by blast
  from triggers_keep_user_values [OF run, of 0 "''master_vcpu''"] show ?thesis
    using run w by (simp add: sample_config_vars_def config_origin_def pool_origin_def)
qed

text \<open>The default variables are protected the same way: a variable set in the process environment
  keeps its value whatever triggers are met.\<close>

lemma triggers_keep_environment_values:
  assumes "trigger_configurations (defaults_ops environ) tgs [vars] = (r, [vars'])"
    and "dict_get vars k = Some ev" and "ev_is_user_set ev"
  shows "\<exists>ev'. dict_get vars' k = Some ev' \<and> ev_value ev' = ev_value ev \<and> ev_is_user_set ev'"
proof -
  have "honours (defaults_ops environ) vars vars'"
    using trigger_configurations_honours [OF defaults.triggerable_axioms assms(1)] by simp
  moreover have "user_set (defaults_ops environ) vars k"
    using assms(2,3) by (simp add: user_set_def defaults_ops_def pool_origin_def)
  ultimately have "map_option ev_value (dict_get vars' k) = map_option ev_value (dict_get vars k)
      \<and> pool_origin vars' k = pool_origin vars k"
    by (auto simp: honours_def defaults_ops_def)
  then show ?thesis using assms(2,3) by (auto simp: pool_origin_def split: option.splits if_splits)
qed

lemma triggers_keep_environment_values_witness:
  "\<exists>vars'. trigger_configurations (defaults_ops (\<lambda>_. None)) [sno_trigger]
       [[(''masters_count'', plain_var (PInt 1)), (''master_vcpu'', (plain_var (PInt 6))\<lparr>ev_is_user_set := True\<rparr>)]]
     = (Inr (), [vars']) \<and> (\<exists>ev'. dict_get vars' ''master_vcpu'' = Some ev' \<and> ev_value ev' = PInt 6)"
proof -
  let ?vars = "[(''masters_count'', plain_var (PInt 1)), (''master_vcpu'', (plain_var (PInt 6))\<lparr>ev_is_user_set := True\<rparr>)]"
  have "\<exists>vars'. trigger_configurations (defaults_ops (\<lambda>_. None)) [sno_trigger] [?vars] = (Inr (), [vars'])"
    by (simp add: trigger_eval sno_trigger_def plain_var_def prog_simps bindP_app bindP_def)
  then obtain vars' where run:
    "trigger_configurations (defaults_ops (\<lambda>_. None)) [sno_trigger] [?vars] = (Inr (), [vars'])" by blast
  from triggers_keep_environment_values [OF run, of "''master_vcpu''"] run show ?thesis
    by (auto simp: plain_var_def)
qed

subsection \<open>What a trigger sets\<close>

lemma config_handle_item:
  "handle_item config_ops (k, v) c =
     (Inr (), if dict_get (bc_fields c) k \<noteq> None \<and> \<not> user_set config_ops c k
              then c\<lparr>bc_origins := dict_set k TRIGGER (bc_origins c), bc_fields := dict_set k v (bc_fields c)\<rparr>
              else c)"
proof -
  have "config_origin c k = None \<or> config_origin c k = Some TRIGGER \<longleftrightarrow> \<not> user_set config_ops c k"
    by (cases "config_origin c k"; cases "the (config_origin c k)") (auto simp: user_set_def config_ops_def)
  then show ?thesis
    by (auto simp: handle_item_def config_ops_def config_set_def prog_simps bindP_app whenP_def user_set_def)
qed

lemma config_handle_item_frame:
  assumes "handle_item config_ops (k, v) c = (Inr (), d)" and "k' \<noteq> k"
  shows "dict_get (bc_fields d) k' = dict_get (bc_fields c) k'
    \<and> (user_set config_ops d k' \<longleftrightarrow> user_set config_ops c k')"
proof -
  consider "d = c"
    | "d = c\<lparr>bc_origins := dict_set k TRIGGER (bc_origins c), bc_fields := dict_set k v (bc_fields c)\<rparr>"
    using assms(1) by (auto simp: config_handle_item split: if_splits)
  then show ?thesis
    using assms(2)
    by cases (auto simp: user_set_def config_ops_def config_origin_def dict_get_set split: option.splits)
qed

text \<open>Handling a trigger of plain variables on a configuration never raises; it gives each of its
  variables that the configuration has and the user has not set the trigger's value, and
  leaves every other attribute as it was.\<close>

lemma trigger_sets_the_rest:
  assumes "distinct (map fst vars)"
  shows "\<exists>d. handle_trigger config_ops vars c = (Inr (), d)
    \<and> (\<forall>k. dict_get (bc_fields d) k =
         (case dict_get vars k of
            Some v \<Rightarrow> if dict_get (bc_fields c) k \<noteq> None \<and> \<not> user_set config_ops c k then Some v
                      else dict_get (bc_fields c) k
          | None \<Rightarrow> dict_get (bc_fields c) k))"
  using assms
proof (induction vars arbitrary: c)
  case Nil
  then show ?case by (simp add: handle_trigger_def prog_simps)
next
  case (Cons kv vars)
  obtain k v where kv: "kv = (k, v)" by force
  obtain c' where c': "handle_item config_ops (k, v) c = (Inr (), c')"
    by (simp add: config_handle_item)
  obtain d where d: "handle_trigger config_ops vars c' = (Inr (), d)"
    and get: "\<And>x. dict_get (bc_fields d) x =
         (case dict_get vars x of
            Some v \<Rightarrow> if dict_get (bc_fields c') x \<noteq> None \<and> \<not> user_set config_ops c' x then Some v
                      else dict_get (bc_fields c') x
          | None \<Rightarrow> dict_get (bc_fields c') x)"
    using Cons.IH [of c'] Cons.prems by auto
  have notin: "dict_get vars k = None" using Cons.prems by (simp add: kv map_of_eq_None_iff)
  have here: "dict_get (bc_fields c') k =
      (if dict_get (bc_fields c) k \<noteq> None \<and> \<not> user_set config_ops c k then Some v else dict_get (bc_fields c) k)"
    using c' by (auto simp: config_handle_item dict_get_set split: if_splits)
  have "handle_trigger config_ops (kv # vars) c = (Inr (), d)"
    using c' d by (simp add: handle_trigger_def kv prog_simps)
  then show ?case
    using get here notin config_handle_item_frame [OF c'] by (auto simp: kv split: option.split)
qed

lemma trigger_sets_the_rest_witness:
  "\<exists>d. handle_trigger config_ops [(''workers_count'', PInt 0), (''master_vcpu'', PInt 8)] sample_config_vars = (Inr (), d)
     \<and> dict_get (bc_fields d) ''workers_count'' = Some (PInt 0)"
  using trigger_sets_the_rest [of "[(''workers_count'', PInt 0), (''master_vcpu'', PInt 8)]" sample_config_vars]
  by (auto simp: sample_config_vars_def user_set_def config_ops_def config_origin_def pool_origin_def)

text \<open>On the default variables a trigger cannot set a falsy value: \<open>False\<close>, \<open>0\<close> or \<open>None\<close> leaves the
  value the variable had, although the copy is documented to keep it only for \<open>None\<close>.\<close>

lemma falsy_trigger_values_are_dropped:
  assumes "\<not> truth v" and "dict_get vars k = Some ev"
    and "env_var_init environ (ev_keys ev) (ev_loader ev) (ev_default ev) = Inr fresh"
  shows "\<exists>vars'. handle_trigger (defaults_ops environ) [(k, v)] vars = (Inr (), vars')
    \<and> map_option ev_value (dict_get vars' k) = Some (ev_value ev)"
  using assms
  by (auto simp: handle_trigger_def handle_item_def defaults_ops_def defaults_set_def env_var_copy_def
      prog_simps bindP_app bindP_def dict_get_set)

lemma falsy_trigger_values_are_dropped_witness:
  "\<exists>vars'. handle_trigger (defaults_ops (\<lambda>_. None)) [(''workers_count'', PInt 0)] [(''workers_count'', plain_var (PInt 2))]
     = (Inr (), vars') \<and> map_option ev_value (dict_get vars' ''workers_count'') = Some (PInt 2)"
  using falsy_trigger_values_are_dropped [of "PInt 0" "[(''workers_count'', plain_var (PInt 2))]" "''workers_count''"
      "plain_var (PInt 2)" "\<lambda>_. None"]
  by (simp add: plain_var_def env_var_init_def)

end
