(* ===== verification/InfraEnv.thy ===== *)
theory InfraEnv
  imports Utils
begin

text \<open>
  \<open>helper_classes/entity.py\<close> and \<open>helper_classes/infra_env.py\<close>: an entity is created in the
  service or updated if its configuration already names it; the operations of an
  infrastructure environment. A configuration is a dictionary of attributes.
\<close>

section \<open>Configurations\<close>

type_synonym config = "(string, pyval) dict"

definition cfg :: "config \<Rightarrow> string \<Rightarrow> pyval" where
  "cfg c k = (case dict_get c k of None \<Rightarrow> PNone | Some v \<Rightarrow> v)"

text \<open>An identifier as text; \<open>None\<close> becomes the empty identifier.\<close>

definition text_of :: "pyval \<Rightarrow> string" where
  "text_of v = (case v of PStr s \<Rightarrow> s | _ \<Rightarrow> [])"

text \<open>\<open>update_config\<close>: an unknown key raises after the keys before it were set.\<close>

fun update_config :: "(string \<times> pyval) list \<Rightarrow> (config, unit) prog" where
  "update_config [] = ret ()"
| "update_config ((k, v) # kvs) =
     bindP (reads (\<lambda>c. dict_get c k)) (\<lambda>old.
       if old = None then raise (KeyError k)
       else thenP (modifies (dict_set k v)) (update_config kvs))"

lemma cfg_dict_set: "cfg (dict_set k v c) x = (if x = k then v else cfg c x)"
  by (simp add: cfg_def dict_get_set)

lemma dict_set_keeps_keys: "dict_get c k' \<noteq> None \<Longrightarrow> dict_get (dict_set k v c) k' \<noteq> None"
  by (simp add: dict_get_set)

lemma update_config_known:
  "(\<forall>(k, v) \<in> set kvs. dict_get c k \<noteq> None) \<Longrightarrow> update_config kvs c = (Inr (), dict_update c kvs)"
proof (induction kvs arbitrary: c)
  case Nil
  then show ?case by (simp add: prog_simps)
next
  case (Cons kv kvs)
  obtain k v where kv: "kv = (k, v)" by force
  have "\<forall>(k', v') \<in> set kvs. dict_get (dict_set k v c) k' \<noteq> None"
    using Cons.prems by (auto simp: dict_get_set)
  from Cons.IH [OF this] show ?case
    using Cons.prems by (simp add: kv prog_simps)
qed

text \<open>A program on the configuration, run on the part of the state that holds it.\<close>

definition on_part :: "('s \<Rightarrow> 'p) \<Rightarrow> ('p \<Rightarrow> 's \<Rightarrow> 's) \<Rightarrow> ('p, 'a) prog \<Rightarrow> ('s, 'a) prog" where
  "on_part get put p = (\<lambda>s. case p (get s) of (r, c) \<Rightarrow> (r, put c s))"

section \<open>Entities\<close>

text \<open>\<open>Entity.__init__\<close>: create the entity unless its configuration names one.\<close>

definition entity_init ::
  "('s \<Rightarrow> pyval) \<Rightarrow> ('s, string) prog \<Rightarrow> ('s, string) prog \<Rightarrow> ('s \<Rightarrow> 's) \<Rightarrow> ('s, unit) prog" where
  "entity_init id_of create update_existing set_iso_path =
     bindP (reads id_of) (\<lambda>i.
       bindP (if \<not> truth i then create else update_existing) (\<lambda>_. modifies set_iso_path))"

text \<open>What a subclass promises: creating names the entity, updating keeps its name.\<close>

locale entity =
  fixes id_of :: "'s \<Rightarrow> pyval" and create update_existing :: "('s, string) prog"
    and set_iso_path :: "'s \<Rightarrow> 's"
  assumes create_names: "create s = (Inr i, t) \<Longrightarrow> id_of t = PStr i"
    and update_keeps: "update_existing s = (Inr i, t) \<Longrightarrow> id_of t = id_of s"
    and path_keeps: "id_of (set_iso_path s) = id_of s"
begin

lemma init_names:
  assumes "entity_init id_of create update_existing set_iso_path s = (Inr (), t)"
  shows "if truth (id_of s) then id_of t = id_of s else \<exists>i. id_of t = PStr i"
proof -
  obtain i u where "(if \<not> truth (id_of s) then create else update_existing) s = (Inr i, u)"
    and "t = set_iso_path u"
    using assms by (auto simp: entity_init_def bindP_app prog_simps elim!: bindP_InrE)
  then show ?thesis
    using create_names update_keeps path_keeps by (auto split: if_splits)
qed

end

section \<open>The infrastructure environment\<close>

record infra_state = "call world" +
  ie_config :: config

abbreviation ie_cfg :: "'z infra_state_scheme \<Rightarrow> string \<Rightarrow> pyval" where
  "ie_cfg s k \<equiv> cfg (ie_config s) k"

definition infra_env_id :: "'z infra_state_scheme \<Rightarrow> pyval" where
  "infra_env_id s = ie_cfg s ''infra_env_id''"

definition infra_update_config :: "(string \<times> pyval) list \<Rightarrow> ('z infra_state_scheme, unit) prog" where
  "infra_update_config kvs = on_part ie_config (\<lambda>c s. s\<lparr>ie_config := c\<rparr>) (update_config kvs)"

definition set_ie :: "string \<Rightarrow> pyval \<Rightarrow> ('z infra_state_scheme, unit) prog" where
  "set_ie k v = modifies (\<lambda>s. s\<lparr>ie_config := dict_set k v (ie_config s)\<rparr>)"

text \<open>A call about the infrastructure environment, given its identifier.\<close>

definition with_ie_id :: "(string \<Rightarrow> ('z infra_state_scheme, 'a) prog) \<Rightarrow> ('z infra_state_scheme, 'a) prog" where
  "with_ie_id f = bindP (reads infra_env_id) (\<lambda>i. f (text_of i))"

definition infra_update_existing :: "env \<Rightarrow> ('z infra_state_scheme, string) prog" where
  "infra_update_existing e =
     bindP (reads (\<lambda>s. ie_cfg s ''iso_image_type'')) (\<lambda>t.
       with_ie_id (\<lambda>i. thenP (api_update_infra_env e i (PDict [(''image_type'', t)])) (ret i)))"

text \<open>\<open>json.dumps\<close> of the override is the override itself here.\<close>

definition infra_create_params :: "config \<Rightarrow> pyval" where
  "infra_create_params c =
     PDict
       ([(''pull_secret'', cfg c ''pull_secret''), (''ssh_public_key'', cfg c ''ssh_public_key''),
         (''openshift_version'', cfg c ''openshift_version''), (''cluster_id'', cfg c ''cluster_id''),
         (''static_network_config'', cfg c ''static_network_config''),
         (''ignition_config_override'',
            if truth (cfg c ''ignition_config_override'') then cfg c ''ignition_config_override'' else PNone),
         (''proxy'', cfg c ''proxy''), (''image_type'', cfg c ''iso_image_type'')]
        @ (if cfg c ''kernel_arguments'' \<noteq> PNone then [(''kernel_arguments'', cfg c ''kernel_arguments'')] else [])
        @ (if truth (cfg c ''cpu_architecture'') then [(''cpu_architecture'', cfg c ''cpu_architecture'')] else []))"

definition infra_create :: "env \<Rightarrow> ('z infra_state_scheme, string) prog" where
  "infra_create e =
     bindP (reads ie_config) (\<lambda>c.
       bindP (api_create_infra_env e (text_of (cfg c ''entity_name'')) (infra_create_params c)) (\<lambda>i.
         thenP (set_ie ''infra_env_id'' (PStr i)) (ret i)))"

definition infra_iso_path :: "'z infra_state_scheme \<Rightarrow> pyval \<Rightarrow> pyval" where
  "infra_iso_path s iso_download_path = py_or iso_download_path (ie_cfg s ''iso_download_path'')"

definition infra_set_iso_path :: "'z infra_state_scheme \<Rightarrow> 'z infra_state_scheme" where
  "infra_set_iso_path s = s\<lparr>ie_config := dict_set ''iso_download_path'' (infra_iso_path s PNone) (ie_config s)\<rparr>"

definition infra_env_init :: "env \<Rightarrow> ('z infra_state_scheme, unit) prog" where
  "infra_env_init e = entity_init infra_env_id (infra_create e) (infra_update_existing e) infra_set_iso_path"

text \<open>
  \<open>static_data\<close> is what \<open>StaticNetwork.generate_static_network_data_from_tf\<close> gives for the
  configuration, as a value.
\<close>

definition update_static_network :: "env \<Rightarrow> (exn + pyval) \<Rightarrow> ('z infra_state_scheme, unit) prog" where
  "update_static_network e static_data =
     bindP (reads ie_config) (\<lambda>c.
       if \<not> truth (cfg c ''is_static_ip'') then ret ()
       else thenP
         (if cfg c ''static_network_config'' = PNone
          then bindP (sum_prog static_data) (set_ie ''static_network_config'') else ret ())
         (bindP (reads (\<lambda>s. ie_cfg s ''static_network_config'')) (\<lambda>v.
            with_ie_id (\<lambda>i. api_update_infra_env e i (PDict [(''static_network_config'', v)])))))"

definition dirname :: "string \<Rightarrow> string" where
  "dirname p = join ''/'' (butlast (split_on (CHR 0x2F) p))"

definition infra_get_details :: "env \<Rightarrow> ('z infra_state_scheme, pyval) prog" where
  "infra_get_details e = with_ie_id (\<lambda>i. ask_call e (Controller ''get_infra_env'' [PStr i]))"

definition infra_download_image :: "env \<Rightarrow> (exn + pyval) \<Rightarrow> pyval \<Rightarrow> ('z infra_state_scheme, pyval) prog" where
  "infra_download_image e static_data iso_download_path =
     bindP (infra_get_details e) (\<lambda>url.
       bindP (reads (\<lambda>s. infra_iso_path s iso_download_path)) (\<lambda>path.
         bindP (ask_bool e ''os.path.exists'' [path]) (\<lambda>there.
           thenP (whenP (\<not> there) (recreate_folder e (dirname (text_of path)) True False))
           (thenP (update_static_network e static_data)
           (thenP (act e ''controller.set_download_path'' [path])
             (bindP (reads (\<lambda>s. ie_cfg s ''verify_download_iso_ssl'')) (\<lambda>ssl.
                ask_call e (Controller ''download_file'' [url, path, ssl]))))))))"

definition download_infra_env_file :: "env \<Rightarrow> string \<Rightarrow> string \<Rightarrow> ('z infra_state_scheme, unit) prog" where
  "download_infra_env_file e file_name file_path =
     bindP (ask_bool e ''os.path.exists'' [PStr file_path]) (\<lambda>there.
       thenP (whenP (\<not> there) (recreate_folder e (dirname file_path) True False))
         (with_ie_id (\<lambda>i. act e ''download_and_save_infra_env_file'' [PStr i, PStr file_name, PStr file_path])))"

definition infra_wait_until_hosts_are_discovered ::
  "'z cwaiter \<Rightarrow> env \<Rightarrow> string \<Rightarrow> int \<Rightarrow> bool \<Rightarrow> ((call, 'z) world_scheme, unit) prog" where
  "infra_wait_until_hosts_are_discovered wait e i nodes_count allow_insufficient =
     wait_till_all_infra_env_hosts_are_in_status wait e i nodes_count
       (ns_value NS_KnownUnbound # (if allow_insufficient then [ns_value NS_InsufficientUnbound] else []))
       NODES_REGISTERED_TIMEOUT True DEFAULT_CHECK_STATUSES_INTERVAL"

section \<open>Hosts of the environment\<close>

definition infra_update_host ::
  "env \<Rightarrow> string \<Rightarrow> pyval \<Rightarrow> pyval \<Rightarrow> pyval \<Rightarrow> pyval \<Rightarrow> ('z infra_state_scheme, unit) prog" where
  "infra_update_host e host_id host_role host_name node_labels disks_skip_formatting =
     with_ie_id (\<lambda>i. api_update_host e i host_id host_role host_name node_labels disks_skip_formatting)"

definition infra_update_host_installer_args :: "env \<Rightarrow> string \<Rightarrow> ('z infra_state_scheme, unit) prog" where
  "infra_update_host_installer_args e host_id =
     bindP (reads (\<lambda>s. ie_cfg s ''host_installer_args'')) (\<lambda>args.
       if \<not> truth args then ret ()
       else with_ie_id (\<lambda>i. do_call e (V2UpdateHostInstallerArgs i host_id args)))"

definition infra_bind_host :: "env \<Rightarrow> string \<Rightarrow> string \<Rightarrow> ('z infra_state_scheme, unit) prog" where
  "infra_bind_host e host_id cluster_id = with_ie_id (\<lambda>i. api_bind_host e i host_id cluster_id)"

definition infra_unbind_host :: "env \<Rightarrow> string \<Rightarrow> ('z infra_state_scheme, unit) prog" where
  "infra_unbind_host e host_id = with_ie_id (\<lambda>i. api_unbind_host e i host_id)"

definition infra_delete_host :: "env \<Rightarrow> string \<Rightarrow> ('z infra_state_scheme, unit) prog" where
  "infra_delete_host e host_id = with_ie_id (\<lambda>i. api_deregister_host e i host_id)"

definition infra_patch_discovery_ignition :: "env \<Rightarrow> pyval \<Rightarrow> ('z infra_state_scheme, unit) prog" where
  "infra_patch_discovery_ignition e ignition_info =
     with_ie_id (\<lambda>i. api_update_infra_env e i (PDict [(''ignition_config_override'', ignition_info)]))"

definition infra_update_and_send :: "env \<Rightarrow> string \<Rightarrow> pyval \<Rightarrow> ('z infra_state_scheme, unit) prog" where
  "infra_update_and_send e k v =
     thenP (infra_update_config [(k, v)]) (with_ie_id (\<lambda>i. api_update_infra_env e i (PDict [(k, v)])))"

definition infra_update_proxy :: "env \<Rightarrow> pyval \<Rightarrow> ('z infra_state_scheme, unit) prog" where
  "infra_update_proxy e proxy = infra_update_and_send e ''proxy'' proxy"

definition update_infra_env_kernel :: "env \<Rightarrow> pyval \<Rightarrow> ('z infra_state_scheme, unit) prog" where
  "update_infra_env_kernel e kernel_arguments = infra_update_and_send e ''kernel_arguments'' kernel_arguments"

definition update_static_network_config :: "env \<Rightarrow> pyval \<Rightarrow> ('z infra_state_scheme, unit) prog" where
  "update_static_network_config e static_network_config =
     infra_update_and_send e ''static_network_config'' static_network_config"

definition infra_select_host_installation_disk ::
  "env \<Rightarrow> string \<Rightarrow> disk_choice list \<Rightarrow> ('z infra_state_scheme, unit) prog" where
  "infra_select_host_installation_disk e host_id disk_paths =
     with_ie_id (\<lambda>i. api_select_installation_disk e i host_id disk_paths)"

definition infra_deregister_host :: "env \<Rightarrow> host \<Rightarrow> ('z infra_state_scheme, unit) prog" where
  "infra_deregister_host e h = with_ie_id (\<lambda>i. do_call e (V2DeregisterHost i (h_id h)))"

definition infra_deregister :: "env \<Rightarrow> bool \<Rightarrow> ('z infra_state_scheme, unit) prog" where
  "infra_deregister e deregister_hosts =
     thenP
       (if deregister_hosts then
          with_ie_id (\<lambda>i. bindP (get_infra_env_hosts e i) (for_each (infra_deregister_host e)))
        else ret ())
       (thenP (with_ie_id (\<lambda>i. do_call e (DeregisterInfraEnv i))) (set_ie ''infra_env_id'' PNone))"

section \<open>Properties\<close>

lemma do_call_app: "do_call e c w = (e_do e (hist w) c, w\<lparr>hist := hist w @ [c]\<rparr>)"
  by (simp add: do_call_def ext_app)

text \<open>Calls leave the configuration alone.\<close>

lemma keeps_config_ext: "keeps (same ie_config) (ext f c :: ('z infra_state_scheme, 'a) prog)"
  by (simp add: keeps_def same_def ext_def)

lemma do_call_Inr:
  "do_call e c s = (r, t) \<Longrightarrow> t = s\<lparr>hist := hist s @ [c]\<rparr>"
  by (simp add: do_call_app)

lemma infra_create_names:
  "infra_create e s = (Inr i, t) \<Longrightarrow> infra_env_id t = PStr i"
  by (auto simp: infra_create_def set_ie_def bindP_app prog_simps infra_env_id_def cfg_dict_set
      elim!: bindP_InrE)

lemma infra_update_keeps:
  "infra_update_existing e s = (Inr i, t) \<Longrightarrow> infra_env_id t = infra_env_id s"
  by (auto simp: infra_update_existing_def with_ie_id_def api_update_infra_env_def bindP_app prog_simps
      infra_env_id_def do_call_app elim!: bindP_InrE)

interpretation infra: entity infra_env_id "infra_create e" "infra_update_existing e" infra_set_iso_path for e
  by unfold_locales
    (auto dest: infra_create_names infra_update_keeps simp: infra_env_id_def infra_set_iso_path_def cfg_dict_set)

text \<open>Initialising an infrastructure environment keeps the identifier its configuration has, and
  gives it the identifier of the one it creates if it has none.\<close>

lemma infra_env_is_named:
  assumes "infra_env_init e s = (Inr (), t)"
  shows "if truth (infra_env_id s) then infra_env_id t = infra_env_id s
    else \<exists>i. infra_env_id t = PStr i"
  using assms unfolding infra_env_init_def by (rule infra.init_names)

definition sample_infra :: "pyval \<Rightarrow> infra_state" where
  "sample_infra i = \<lparr>hist = [], ie_config = [(''infra_env_id'', i)]\<rparr>"

lemma infra_env_is_named_witness:
  "\<exists>t. infra_env_init (still_env (sample_cluster [] [])) (sample_infra PNone) = (Inr (), t)
     \<and> (\<exists>i. infra_env_id t = PStr i)"
proof -
  have "fst (infra_env_init (still_env (sample_cluster [] [])) (sample_infra PNone)) = Inr ()"
    by (simp add: infra_env_init_def entity_init_def infra_env_id_def sample_infra_def cfg_def
        infra_create_def api_create_infra_env_def ext_app still_env_def bindP_def set_ie_def prog_simps)
  then obtain t where run: "infra_env_init (still_env (sample_cluster [] [])) (sample_infra PNone) = (Inr (), t)"
    by (metis prod.collapse)
  from infra_env_is_named [OF run] run show ?thesis
    by (simp add: infra_env_id_def sample_infra_def cfg_def)
qed

lemma infra_deregister_host_app:
  "infra_deregister_host e h s =
     (e_do e (hist s) (V2DeregisterHost (text_of (infra_env_id s)) (h_id h)),
      s\<lparr>hist := hist s @ [V2DeregisterHost (text_of (infra_env_id s)) (h_id h)]\<rparr>)"
  by (simp add: infra_deregister_host_def with_ie_id_def bindP_app do_call_app)

lemma deregister_hosts_run:
  assumes "for_each (infra_deregister_host e) hosts s = (Inr (), t)"
  shows "t = s\<lparr>hist := hist s @ map (\<lambda>h. V2DeregisterHost (text_of (infra_env_id s)) (h_id h)) hosts\<rparr>"
  using assms
proof (induction hosts arbitrary: s)
  case Nil
  then show ?case by (simp add: prog_simps)
next
  case (Cons h hosts)
  obtain u where head: "infra_deregister_host e h s = (Inr (), u)"
    and tail: "for_each (infra_deregister_host e) hosts u = (Inr (), t)"
    using Cons.prems by (auto elim: bindP_InrE)
  have u: "u = s\<lparr>hist := hist s @ [V2DeregisterHost (text_of (infra_env_id s)) (h_id h)]\<rparr>"
    using head by (simp add: infra_deregister_host_app)
  from Cons.IH [OF tail] show ?case by (simp add: u infra_env_id_def)
qed

text \<open>Deregistering an infrastructure environment asks for its hosts, deregisters every host of
  the answer in order, then the environment itself, all under the identifier it had, and
  leaves it without an identifier.\<close>

lemma deregister_removes_hosts_first:
  assumes "infra_deregister e True s = (Inr (), t)"
  shows "\<exists>hosts. e_list_hosts e (hist s) (text_of (infra_env_id s)) = Inr hosts
    \<and> hist t = hist s @ [V2ListHosts (text_of (infra_env_id s))]
        @ map (\<lambda>h. V2DeregisterHost (text_of (infra_env_id s)) (h_id h)) hosts
        @ [DeregisterInfraEnv (text_of (infra_env_id s))]
    \<and> infra_env_id t = PNone"
proof -
  let ?s = "s\<lparr>hist := hist s @ [V2ListHosts (text_of (infra_env_id s))]\<rparr>"
  obtain hosts u v where hosts: "e_list_hosts e (hist s) (text_of (infra_env_id s)) = Inr hosts"
    and loop: "for_each (infra_deregister_host e) hosts ?s = (Inr (), u)"
    and dereg: "do_call e (DeregisterInfraEnv (text_of (infra_env_id u))) u = (Inr (), v)"
    and set: "set_ie ''infra_env_id'' PNone v = (Inr (), t)"
    using assms
    by (auto simp: infra_deregister_def with_ie_id_def bindP_app reads_app get_infra_env_hosts_def ext_app
        elim!: bindP_InrE)
  have u: "u = ?s\<lparr>hist := hist ?s @ map (\<lambda>h. V2DeregisterHost (text_of (infra_env_id ?s)) (h_id h)) hosts\<rparr>"
    using loop by (rule deregister_hosts_run)
  have v: "v = u\<lparr>hist := hist u @ [DeregisterInfraEnv (text_of (infra_env_id u))]\<rparr>"
    using dereg by (rule do_call_Inr)
  have id: "infra_env_id ?s = infra_env_id s" "infra_env_id u = infra_env_id s"
    by (simp_all add: u infra_env_id_def)
  show ?thesis
    using hosts set by (auto simp: v u set_ie_def prog_simps infra_env_id_def cfg_dict_set)
qed

lemma deregister_removes_hosts_first_witness:
  "\<exists>t. infra_deregister (still_env (sample_cluster [] [sample_host ''h'' [] []])) True (sample_infra (PStr ''ie''))
       = (Inr (), t)
     \<and> hist t = [V2ListHosts ''ie'', V2DeregisterHost ''ie'' ''h'', DeregisterInfraEnv ''ie'']"
proof -
  let ?e = "still_env (sample_cluster [] [sample_host ''h'' [] []])"
  have "fst (infra_deregister ?e True (sample_infra (PStr ''ie''))) = Inr ()"
    by (simp add: infra_deregister_def infra_deregister_host_app with_ie_id_def get_infra_env_hosts_def ext_app do_call_app
        still_env_def sample_cluster_def bindP_def reads_def set_ie_def prog_simps)
  then obtain t where run: "infra_deregister ?e True (sample_infra (PStr ''ie'')) = (Inr (), t)"
    by (metis prod.collapse)
  from deregister_removes_hosts_first [OF run] run show ?thesis
    by (auto simp: infra_env_id_def sample_infra_def cfg_def text_of_def still_env_def
        sample_cluster_def sample_host_def)
qed

end
