(* ===== verification/StaticNetwork.thy ===== *)
theory StaticNetwork
  imports Utils
begin

text \<open>
  \<open>tools/static_network.py\<close>: the NMState configuration of every host of a static network,
  derived from the terraform variables, plain or bonded, with or without a VLAN. The YAML
  text of a configuration stands for the value dumped; \<open>show_ip\<close>, the textual form of an
  address, is a parameter.
\<close>

section \<open>Configuration data\<close>

datatype ip_conf = IpDisabled | IpStatic ip nat

record link_aggregation =
  la_mode :: string
  la_ports :: "string list"

record vlan_conf =
  vl_base_iface :: string
  vl_id :: nat

record iface =
  if_name :: string
  if_type :: string
  if_ipv4 :: "ip_conf option"
  if_ipv6 :: "ip_conf option"
  if_link_aggregation :: "link_aggregation option"
  if_vlan :: "vlan_conf option"

record route =
  rt_is_v6_default :: bool
  rt_next_hop_address :: ip
  rt_next_hop_interface :: string

record host_network =
  hw_interfaces :: "iface list"
  hw_dns_servers :: "string list"
  hw_routes :: "route list"
  hw_mac_map :: "(string \<times> string) list"

record tfvars =
  tv_master_count :: nat
  tv_worker_count :: nat
  tv_master_macs :: "string list"
  tv_secondary_master_macs :: "string list"
  tv_worker_macs :: "string list"
  tv_secondary_worker_macs :: "string list"
  tv_machine_cidrs :: "cidr list"
  tv_provisioning_cidrs :: "cidr list"

definition PRIMARY_LOGICAL_INTERFACE :: string where
  "PRIMARY_LOGICAL_INTERFACE = ''eth0''"

definition SECONDARY_LOGICAL_INTERFACE :: string where
  "SECONDARY_LOGICAL_INTERFACE = ''eth1''"

text \<open>\<open>xs[i]\<close>, \<open>xs[a:b]\<close> and \<open>xs[n:]\<close> with an index that may be negative.\<close>

definition py_nth :: "'a list \<Rightarrow> nat \<Rightarrow> exn + 'a" where
  "py_nth xs i = (if i < length xs then Inr (xs ! i) else Inl IndexError)"

definition py_slice :: "'a list \<Rightarrow> nat \<Rightarrow> nat \<Rightarrow> 'a list" where
  "py_slice xs a b = take (b - a) (drop a xs)"

definition py_from :: "'a list \<Rightarrow> int \<Rightarrow> 'a list" where
  "py_from xs i = drop (nat (if i < 0 then max 0 (int (length xs) + i) else i)) xs"

section \<open>Addresses\<close>

definition prepare_ip_dict :: "cidr \<Rightarrow> nat \<Rightarrow> exn + bool \<times> ip_conf" where
  "prepare_ip_dict c host_count =
     sum_bind (ip_network c) (\<lambda>network.
       sum_bind (ip_add (network_address network) 30) (\<lambda>base.
         sum_bind (ip_add base host_count) (\<lambda>a.
           Inr (cidr_version network = V6, IpStatic a (cidr_prefixlen network)))))"

text \<open>The part the three interface builders share: the IPv4 and IPv6 settings of \<open>cidrs\<close>.\<close>

definition prepare_ips :: "cidr list \<Rightarrow> nat \<Rightarrow> exn + ip_conf option \<times> ip_conf option" where
  "prepare_ips cidrs host_count =
     sum_bind (py_nth cidrs 0) (\<lambda>c0.
       sum_bind (prepare_ip_dict c0 host_count) (\<lambda>(ipv6_version, conf).
         if ipv6_version then Inr (None, Some conf)
         else if length cidrs > 1 then
           sum_bind (py_nth cidrs 1) (\<lambda>c1.
             sum_bind (prepare_ip_dict c1 host_count) (\<lambda>(_, conf6). Inr (Some conf, Some conf6)))
         else Inr (Some conf, None)))"

section \<open>Interfaces\<close>

definition vlan_name :: "string \<Rightarrow> nat \<Rightarrow> string" where
  "vlan_name parent vlan_id = parent @ ''.'' @ dec vlan_id"

definition prepare_vlan_interface :: "string \<Rightarrow> nat \<Rightarrow> cidr list \<Rightarrow> nat \<Rightarrow> exn + iface" where
  "prepare_vlan_interface parent_logical_iface vlan_id cidrs count =
     sum_bind (prepare_ips cidrs count) (\<lambda>(v4, v6).
       Inr \<lparr>if_name = vlan_name parent_logical_iface vlan_id, if_type = ''vlan'', if_ipv4 = v4, if_ipv6 = v6,
            if_link_aggregation = None,
            if_vlan = Some \<lparr>vl_base_iface = parent_logical_iface, vl_id = vlan_id\<rparr>\<rparr>)"

text \<open>One interface, or the base and the VLAN interface over it.\<close>

definition prepare_interface ::
  "string \<Rightarrow> cidr list \<Rightarrow> nat \<Rightarrow> bool \<Rightarrow> nat \<Rightarrow> exn + iface list" where
  "prepare_interface logical_interface cidrs host_count vlan_enabled vlan_id =
     (if vlan_enabled \<and> logical_interface = PRIMARY_LOGICAL_INTERFACE then
        sum_bind (prepare_vlan_interface logical_interface vlan_id cidrs host_count) (\<lambda>vlan_iface.
          Inr [\<lparr>if_name = logical_interface, if_type = ''ethernet'', if_ipv4 = Some IpDisabled,
                if_ipv6 = Some IpDisabled, if_link_aggregation = None, if_vlan = None\<rparr>, vlan_iface])
      else
        sum_bind (prepare_ips cidrs host_count) (\<lambda>(v4, v6).
          Inr [\<lparr>if_name = logical_interface, if_type = ''ethernet'', if_ipv4 = v4, if_ipv6 = v6,
                if_link_aggregation = None, if_vlan = None\<rparr>]))"

definition prepare_interfaces ::
  "cidr list \<Rightarrow> cidr list \<Rightarrow> nat \<Rightarrow> bool \<Rightarrow> nat \<Rightarrow> exn + iface list" where
  "prepare_interfaces machine_cidrs provisioning_cidrs count vlan_enabled vlan_id =
     sum_bind (prepare_interface PRIMARY_LOGICAL_INTERFACE machine_cidrs count vlan_enabled vlan_id) (\<lambda>prim.
       sum_bind (prepare_interface SECONDARY_LOGICAL_INTERFACE provisioning_cidrs count False 100) (\<lambda>sec.
         Inr (prim @ sec)))"

definition eth :: "nat \<Rightarrow> string" where
  "eth i = ''eth'' @ dec i"

definition prepare_link_aggregation :: "nat \<Rightarrow> nat \<Rightarrow> string \<Rightarrow> link_aggregation" where
  "prepare_link_aggregation starting_physical_interface num_bonded_slaves bonding_mode =
     \<lparr>la_mode = bonding_mode,
      la_ports = map (\<lambda>i. eth (starting_physical_interface + i)) [0..<num_bonded_slaves]\<rparr>"

definition prepare_bonded_interface ::
  "string \<Rightarrow> nat \<Rightarrow> cidr list \<Rightarrow> nat \<Rightarrow> nat \<Rightarrow> string \<Rightarrow> exn + iface" where
  "prepare_bonded_interface logical_interface starting_physical_interface cidrs host_count
       num_bonded_slaves bonding_mode =
     sum_bind (prepare_ips cidrs host_count) (\<lambda>(v4, v6).
       Inr \<lparr>if_name = logical_interface, if_type = ''bond'', if_ipv4 = v4, if_ipv6 = v6,
            if_link_aggregation =
              Some (prepare_link_aggregation starting_physical_interface num_bonded_slaves bonding_mode),
            if_vlan = None\<rparr>)"

definition prepare_bonded_interfaces ::
  "cidr list \<Rightarrow> cidr list \<Rightarrow> nat \<Rightarrow> nat \<Rightarrow> string \<Rightarrow> bool \<Rightarrow> nat \<Rightarrow> exn + iface list" where
  "prepare_bonded_interfaces machine_cidrs provisioning_cidrs count num_bonded_slaves bonding_mode
       vlan_enabled vlan_id =
     sum_bind (prepare_bonded_interface ''bond0'' 0 machine_cidrs count num_bonded_slaves bonding_mode) (\<lambda>prim.
       sum_bind (prepare_bonded_interface ''bond1'' num_bonded_slaves provisioning_cidrs count
                  num_bonded_slaves bonding_mode) (\<lambda>sec.
         if vlan_enabled then
           sum_bind (prepare_vlan_interface ''bond0'' vlan_id machine_cidrs count) (\<lambda>vlan_iface.
             Inr [prim\<lparr>if_ipv4 := Some IpDisabled, if_ipv6 := Some IpDisabled\<rparr>, vlan_iface, sec])
         else Inr [prim, sec]))"

section \<open>Name servers and routes\<close>

definition gateway_address :: "cidr list \<Rightarrow> exn + bool \<times> ip" where
  "gateway_address machine_cidrs =
     sum_bind (py_nth machine_cidrs 0) (\<lambda>c0.
       sum_bind (ip_network c0) (\<lambda>network.
         sum_bind (ip_add (network_address network) 1) (\<lambda>a. Inr (cidr_version network = V6, a))))"

definition add_nameserver :: "string list \<Rightarrow> string \<Rightarrow> string list" where
  "add_nameserver servers line =
     (if startswith (strip line) ''nameserver'' then
        (case words (strip line) of
           _ # ns # _ \<Rightarrow> if ns \<notin> set servers then servers @ [ns] else servers
         | _ \<Rightarrow> servers)
      else servers)"

text \<open>\<open>resolv_conf\<close>: the lines of the file, \<open>None\<close> if it cannot be read, which is ignored.\<close>

definition prepare_dns_resolver ::
  "(ip \<Rightarrow> string) \<Rightarrow> string list option \<Rightarrow> cidr list \<Rightarrow> bool \<Rightarrow> exn + string list" where
  "prepare_dns_resolver show_ip resolv_conf machine_cidrs vlan_enabled =
     sum_bind (gateway_address machine_cidrs) (\<lambda>(_, a).
       Inr (if vlan_enabled then foldl add_nameserver [show_ip a] (case resolv_conf of None \<Rightarrow> [] | Some ls \<Rightarrow> ls)
            else [show_ip a]))"

definition prepare_routes :: "string \<Rightarrow> cidr list \<Rightarrow> exn + route list" where
  "prepare_routes next_hop_interface machine_cidrs =
     sum_bind (gateway_address machine_cidrs) (\<lambda>(v6, a).
       Inr [\<lparr>rt_is_v6_default = v6, rt_next_hop_address = a, rt_next_hop_interface = next_hop_interface\<rparr>])"

section \<open>Hosts\<close>

definition assemble_host ::
  "(ip \<Rightarrow> string) \<Rightarrow> string list option \<Rightarrow> cidr list \<Rightarrow> bool \<Rightarrow> string \<Rightarrow> (string \<times> string) list
     \<Rightarrow> iface list \<Rightarrow> exn + host_network" where
  "assemble_host show_ip resolv_conf machine_cidrs vlan_enabled next_hop_iface mac_map interfaces =
     sum_bind (prepare_dns_resolver show_ip resolv_conf machine_cidrs vlan_enabled) (\<lambda>dns.
       sum_bind (prepare_routes next_hop_iface machine_cidrs) (\<lambda>routes.
         Inr \<lparr>hw_interfaces = interfaces, hw_dns_servers = dns, hw_routes = routes, hw_mac_map = mac_map\<rparr>))"

definition prepare_host_static_network_data ::
  "(ip \<Rightarrow> string) \<Rightarrow> string list option \<Rightarrow> string \<Rightarrow> string \<Rightarrow> cidr list \<Rightarrow> cidr list \<Rightarrow> nat \<Rightarrow> bool \<Rightarrow> nat
     \<Rightarrow> exn + host_network" where
  "prepare_host_static_network_data show_ip resolv_conf primary_mac secondary_mac machine_cidrs
       provisioning_cidrs count vlan_enabled vlan_id =
     sum_bind (prepare_interfaces machine_cidrs provisioning_cidrs count vlan_enabled vlan_id) (\<lambda>interfaces.
       assemble_host show_ip resolv_conf machine_cidrs vlan_enabled
         (if vlan_enabled then vlan_name PRIMARY_LOGICAL_INTERFACE vlan_id else PRIMARY_LOGICAL_INTERFACE)
         [(primary_mac, PRIMARY_LOGICAL_INTERFACE), (secondary_mac, SECONDARY_LOGICAL_INTERFACE)]
         interfaces)"

definition bonded_mac_map :: "string list \<Rightarrow> string list \<Rightarrow> (string \<times> string) list" where
  "bonded_mac_map primary_macs secondary_macs =
     map (\<lambda>i. (primary_macs ! i, eth i)) [0..<length primary_macs]
     @ map (\<lambda>i. (secondary_macs ! i, eth (i + length primary_macs))) [0..<length secondary_macs]"

definition prepare_host_bonded_static_network_data ::
  "(ip \<Rightarrow> string) \<Rightarrow> string list option \<Rightarrow> string list \<Rightarrow> string list \<Rightarrow> cidr list \<Rightarrow> cidr list \<Rightarrow> nat \<Rightarrow> nat
     \<Rightarrow> string \<Rightarrow> bool \<Rightarrow> nat \<Rightarrow> exn + host_network" where
  "prepare_host_bonded_static_network_data show_ip resolv_conf primary_macs secondary_macs machine_cidrs
       provisioning_cidrs count num_bonded_slaves bonding_mode vlan_enabled vlan_id =
     sum_bind (prepare_bonded_interfaces machine_cidrs provisioning_cidrs count num_bonded_slaves
                bonding_mode vlan_enabled vlan_id) (\<lambda>interfaces.
       assemble_host show_ip resolv_conf machine_cidrs vlan_enabled
         (if vlan_enabled then vlan_name ''bond0'' vlan_id else ''bond0'')
         (bonded_mac_map primary_macs secondary_macs) interfaces)"

section \<open>All hosts\<close>

record static_config =
  sc_vlan_enabled :: bool
  sc_vlan_id :: "nat option"
  sc_is_bonded :: bool
  sc_num_bonded_slaves :: nat
  sc_bonding_mode :: string

text \<open>\<open>int(getattr(config, "vlan_id", 100) or 100)\<close>.\<close>

definition config_vlan_id :: "static_config \<Rightarrow> nat" where
  "config_vlan_id cfg = (case sc_vlan_id cfg of None \<Rightarrow> 100 | Some i \<Rightarrow> if i = 0 then 100 else i)"

text \<open>\<open>for count in range(n)\<close>, appending what \<open>f\<close> gives, and masters before workers.\<close>

definition for_hosts :: "tfvars \<Rightarrow> (nat \<Rightarrow> exn + 'b) \<Rightarrow> (nat \<Rightarrow> exn + 'b) \<Rightarrow> exn + 'b list" where
  "for_hosts tv master worker =
     sum_bind (sum_map master [0..<tv_master_count tv]) (\<lambda>ms.
       sum_bind (sum_map worker [0..<tv_worker_count tv]) (\<lambda>ws. Inr (ms @ ws)))"

definition generate_bonded_static_network_data_from_tf ::
  "(ip \<Rightarrow> string) \<Rightarrow> string list option \<Rightarrow> tfvars \<Rightarrow> nat \<Rightarrow> string \<Rightarrow> bool \<Rightarrow> nat \<Rightarrow> exn + host_network list" where
  "generate_bonded_static_network_data_from_tf show_ip resolv_conf tv n mode vlan_enabled vlan_id =
     for_hosts tv
       (\<lambda>count. prepare_host_bonded_static_network_data show_ip resolv_conf
          (py_slice (tv_master_macs tv) (n * count) (n * (count + 1)))
          (py_slice (tv_secondary_master_macs tv) (n * count) (n * (count + 1)))
          (tv_machine_cidrs tv) (tv_provisioning_cidrs tv) count n mode vlan_enabled vlan_id)
       (\<lambda>count. prepare_host_bonded_static_network_data show_ip resolv_conf
          (py_slice (tv_worker_macs tv) (n * count) (n * (count + 1)))
          (py_slice (tv_secondary_worker_macs tv) (n * count) (n * (count + 1)))
          (tv_machine_cidrs tv) (tv_provisioning_cidrs tv) (tv_master_count tv + count) n mode
          vlan_enabled vlan_id)"

definition plain_host ::
  "(ip \<Rightarrow> string) \<Rightarrow> string list option \<Rightarrow> tfvars \<Rightarrow> string list \<Rightarrow> string list \<Rightarrow> nat \<Rightarrow> nat \<Rightarrow> bool \<Rightarrow> nat
     \<Rightarrow> exn + host_network" where
  "plain_host show_ip resolv_conf tv macs secondary_macs i count vlan_enabled vlan_id =
     sum_bind (py_nth macs i) (\<lambda>mac. sum_bind (py_nth secondary_macs i) (\<lambda>secondary_mac.
       prepare_host_static_network_data show_ip resolv_conf mac secondary_mac
         (tv_machine_cidrs tv) (tv_provisioning_cidrs tv) count vlan_enabled vlan_id))"

definition generate_static_network_data_from_tf ::
  "(ip \<Rightarrow> string) \<Rightarrow> string list option \<Rightarrow> tfvars \<Rightarrow> static_config \<Rightarrow> exn + host_network list" where
  "generate_static_network_data_from_tf show_ip resolv_conf tv cfg =
     (if sc_is_bonded cfg then
        generate_bonded_static_network_data_from_tf show_ip resolv_conf tv (sc_num_bonded_slaves cfg)
          (sc_bonding_mode cfg) (sc_vlan_enabled cfg) (config_vlan_id cfg)
      else
        for_hosts tv
          (\<lambda>count. plain_host show_ip resolv_conf tv (tv_master_macs tv) (tv_secondary_master_macs tv)
             count count (sc_vlan_enabled cfg) (config_vlan_id cfg))
          (\<lambda>count. plain_host show_ip resolv_conf tv (tv_worker_macs tv) (tv_secondary_worker_macs tv)
             count (tv_master_count tv + count) (sc_vlan_enabled cfg) (config_vlan_id cfg)))"

text \<open>
  The call of \<open>_prepare_host_static_network_data\<close> here leaves out its keyword-only arguments
  \<open>vlan_enabled\<close> and \<open>vlan_id\<close>, which have no default: once the positional arguments are
  evaluated, Python raises \<open>TypeError\<close>.
\<close>

definition generate_day2_static_network_data_from_tf :: "tfvars \<Rightarrow> nat \<Rightarrow> exn + host_network list" where
  "generate_day2_static_network_data_from_tf tv num_day2_workers =
     (let primary_macs = py_from (tv_worker_macs tv) (int (length (tv_worker_macs tv)) - int num_day2_workers);
          secondary_macs = py_from (tv_secondary_worker_macs tv)
            (int (length (tv_secondary_worker_macs tv)) - int num_day2_workers)
      in sum_map (\<lambda>count.
           sum_bind (py_nth primary_macs count) (\<lambda>_.
             sum_bind (py_nth secondary_macs count) (\<lambda>_. Inl TypeError))) [0..<num_day2_workers])"

text \<open>Only the managed libvirt domains count; a later domain of the same name replaces the entry.\<close>

definition get_name_to_mac_addresses_mapping :: "tf_resource list \<Rightarrow> (string, string set) dict" where
  "get_name_to_mac_addresses_mapping resources =
     fold (\<lambda>d. dict_set (td_name d) (set (map (\<lambda>nic. lower (tn_mac nic)) (td_nics d))))
       (concat (map tr_instances
          (filter (\<lambda>r. tr_mode r = ''managed'' \<and> tr_type r = ''libvirt_domain'') resources))) []"

section \<open>Lemmas\<close>

lemma sum_map_Inr_iff: "sum_map f xs = Inr ys \<longleftrightarrow> list_all2 (\<lambda>x y. f x = Inr y) xs ys"
proof (induction xs arbitrary: ys)
  case Nil
  then show ?case by auto
next
  case (Cons x xs)
  then show ?case by (cases "f x"; cases "sum_map f xs") (auto simp: list_all2_Cons1)
qed

lemma for_hosts_nth:
  assumes "for_hosts tv f g = Inr hosts"
  shows "length hosts = tv_master_count tv + tv_worker_count tv"
    and "k < tv_master_count tv \<Longrightarrow> f k = Inr (hosts ! k)"
    and "tv_master_count tv \<le> k \<Longrightarrow> k < length hosts \<Longrightarrow> g (k - tv_master_count tv) = Inr (hosts ! k)"
  using assms
  by (auto simp: for_hosts_def sum_bind_Inr_iff sum_map_Inr_iff list_all2_conv_all_nth nth_append)

lemmas builder_defs =
  prepare_interfaces_def prepare_interface_def prepare_bonded_interfaces_def
  prepare_bonded_interface_def prepare_vlan_interface_def sum_bind_Inr_iff

text \<open>The interfaces of the \<open>k\<close>-th host and the interface its default route names.\<close>

definition host_interfaces_of :: "tfvars \<Rightarrow> static_config \<Rightarrow> nat \<Rightarrow> exn + iface list" where
  "host_interfaces_of tv cfg k =
     (if sc_is_bonded cfg then
        prepare_bonded_interfaces (tv_machine_cidrs tv) (tv_provisioning_cidrs tv) k
          (sc_num_bonded_slaves cfg) (sc_bonding_mode cfg) (sc_vlan_enabled cfg) (config_vlan_id cfg)
      else prepare_interfaces (tv_machine_cidrs tv) (tv_provisioning_cidrs tv) k
          (sc_vlan_enabled cfg) (config_vlan_id cfg))"

definition next_hop_of :: "static_config \<Rightarrow> string" where
  "next_hop_of cfg =
     (let base = if sc_is_bonded cfg then ''bond0'' else PRIMARY_LOGICAL_INTERFACE
      in if sc_vlan_enabled cfg then vlan_name base (config_vlan_id cfg) else base)"

lemma assemble_host_Inr:
  "assemble_host show_ip rc mc ve hop mm ifs = Inr h \<Longrightarrow>
     hw_interfaces h = ifs \<and> hw_mac_map h = mm \<and> prepare_routes hop mc = Inr (hw_routes h)
     \<and> prepare_dns_resolver show_ip rc mc ve = Inr (hw_dns_servers h)"
  by (auto simp: assemble_host_def sum_bind_Inr_iff)

lemma generated_host:
  assumes "generate_static_network_data_from_tf show_ip rc tv cfg = Inr hosts"
    and "k < length hosts"
  shows "host_interfaces_of tv cfg k = Inr (hw_interfaces (hosts ! k))
    \<and> prepare_routes (next_hop_of cfg) (tv_machine_cidrs tv) = Inr (hw_routes (hosts ! k))"
proof (cases "sc_is_bonded cfg")
  case True
  then have run: "generate_bonded_static_network_data_from_tf show_ip rc tv (sc_num_bonded_slaves cfg)
      (sc_bonding_mode cfg) (sc_vlan_enabled cfg) (config_vlan_id cfg) = Inr hosts"
    using assms(1) by (simp add: generate_static_network_data_from_tf_def)
  note nth = for_hosts_nth [OF run [unfolded generate_bonded_static_network_data_from_tf_def]]
  show ?thesis
    using nth(2) [of k] nth(3) [of k] assms(2) True
    by (cases "k < tv_master_count tv")
      (auto simp: host_interfaces_of_def next_hop_of_def Let_def prepare_host_bonded_static_network_data_def
        sum_bind_Inr_iff dest!: assemble_host_Inr)
next
  case False
  note nth = for_hosts_nth [OF assms(1) [unfolded generate_static_network_data_from_tf_def if_not_P [OF False]]]
  show ?thesis
    using nth(2) [of k] nth(3) [of k] assms(2) False
    by (cases "k < tv_master_count tv")
      (auto simp: host_interfaces_of_def next_hop_of_def Let_def plain_host_def
        prepare_host_static_network_data_def sum_bind_Inr_iff dest!: assemble_host_Inr)
qed

lemma generated_length:
  assumes "generate_static_network_data_from_tf show_ip rc tv cfg = Inr hosts"
  shows "length hosts = tv_master_count tv + tv_worker_count tv"
  using assms unfolding generate_static_network_data_from_tf_def
    generate_bonded_static_network_data_from_tf_def
  by (auto split: if_splits dest: for_hosts_nth(1))

section \<open>No two hosts share an address\<close>

fun conf_apart :: "ip_conf option \<Rightarrow> ip_conf option \<Rightarrow> bool" where
  "conf_apart (Some (IpStatic a _)) (Some (IpStatic b _)) = (a \<noteq> b)"
| "conf_apart _ _ = True"

definition iface_apart :: "iface \<Rightarrow> iface \<Rightarrow> bool" where
  "iface_apart f g \<longleftrightarrow> if_name f = if_name g
     \<and> conf_apart (if_ipv4 f) (if_ipv4 g) \<and> conf_apart (if_ipv6 f) (if_ipv6 g)"

lemma prepare_ip_dict_Inr:
  "prepare_ip_dict c k = Inr (v6, conf) \<longleftrightarrow>
     cidr_value c mod host_span c = 0
     \<and> cidr_value c + 30 < 2 ^ ip_bits (cidr_version c)
     \<and> cidr_value c + 30 + k < 2 ^ ip_bits (cidr_version c)
     \<and> v6 = (cidr_version c = V6)
     \<and> conf = IpStatic \<lparr>ip_version = cidr_version c, ip_value = cidr_value c + 30 + k\<rparr> (cidr_prefixlen c)"
  by (auto simp: prepare_ip_dict_def ip_network_def ip_add_Inr_iff network_address_def sum_bind_Inr_iff)

lemma prepare_ips_apart:
  assumes "prepare_ips cidrs i = Inr (v4, v6)" and "prepare_ips cidrs j = Inr (w4, w6)" and "i \<noteq> j"
  shows "conf_apart v4 w4 \<and> conf_apart v6 w6"
  using assms
  by (auto simp: prepare_ips_def sum_bind_Inr_iff py_nth_def prepare_ip_dict_Inr split: if_splits)

lemma host_interfaces_apart:
  assumes "host_interfaces_of tv cfg i = Inr fs" and "host_interfaces_of tv cfg j = Inr gs" and "i \<noteq> j"
  shows "list_all2 iface_apart fs gs"
  using assms(1,2) prepare_ips_apart [OF _ _ assms(3)]
  by (auto simp: host_interfaces_of_def builder_defs iface_apart_def PRIMARY_LOGICAL_INTERFACE_def
      SECONDARY_LOGICAL_INTERFACE_def split: if_splits)

text \<open>C35: A generated static network has one configuration for every master and every worker, and
  any two of them give their corresponding interfaces different IPv4 and IPv6 addresses.\<close>

theorem static_hosts_have_distinct_addresses:
  assumes "generate_static_network_data_from_tf show_ip resolv_conf tv cfg = Inr hosts"
  shows "length hosts = tv_master_count tv + tv_worker_count tv
    \<and> (\<forall>i < length hosts. \<forall>j < length hosts. i \<noteq> j \<longrightarrow>
         list_all2 iface_apart (hw_interfaces (hosts ! i)) (hw_interfaces (hosts ! j)))"
  using generated_length [OF assms] generated_host [OF assms] host_interfaces_apart by blast

definition sample_cidr :: "nat \<Rightarrow> cidr" where
  "sample_cidr i = \<lparr>cidr_version = V4, cidr_value = 256 * i, cidr_prefixlen = 24\<rparr>"

definition sample_tfvars :: tfvars where
  "sample_tfvars = \<lparr>tv_master_count = 1, tv_worker_count = 1, tv_master_macs = [''m''],
     tv_secondary_master_macs = [''n''], tv_worker_macs = [''w''], tv_secondary_worker_macs = [''x''],
     tv_machine_cidrs = [sample_cidr 1], tv_provisioning_cidrs = [sample_cidr 2]\<rparr>"

definition sample_config :: "bool \<Rightarrow> bool \<Rightarrow> static_config" where
  "sample_config vlan bonded = \<lparr>sc_vlan_enabled = vlan, sc_vlan_id = None, sc_is_bonded = bonded,
     sc_num_bonded_slaves = 1, sc_bonding_mode = ''active-backup''\<rparr>"

lemmas sample_eval =
  generate_static_network_data_from_tf_def generate_bonded_static_network_data_from_tf_def
  for_hosts_def plain_host_def prepare_host_static_network_data_def
  prepare_host_bonded_static_network_data_def assemble_host_def prepare_interfaces_def
  prepare_interface_def prepare_bonded_interfaces_def prepare_bonded_interface_def
  prepare_vlan_interface_def prepare_ips_def prepare_ip_dict_def prepare_dns_resolver_def
  prepare_routes_def gateway_address_def ip_network_def ip_add_def host_span_def network_address_def
  py_nth_def py_slice_def sample_tfvars_def sample_config_def sample_cidr_def config_vlan_id_def

theorem static_hosts_have_distinct_addresses_witness:
  "\<exists>hosts. generate_static_network_data_from_tf (\<lambda>_. []) None sample_tfvars (sample_config True False)
       = Inr hosts \<and> length hosts = 2
     \<and> list_all2 iface_apart (hw_interfaces (hosts ! 0)) (hw_interfaces (hosts ! 1))"
proof -
  have "\<exists>hosts. generate_static_network_data_from_tf (\<lambda>_. []) None sample_tfvars (sample_config True False) = Inr hosts"
    by (simp add: sample_eval)
  then obtain hosts where run:
    "generate_static_network_data_from_tf (\<lambda>_. []) None sample_tfvars (sample_config True False) = Inr hosts" ..
  from static_hosts_have_distinct_addresses [OF run] run show ?thesis
    by (simp add: sample_tfvars_def)
qed

section \<open>The default route\<close>

definition carries :: "bool \<Rightarrow> iface \<Rightarrow> ip \<Rightarrow> bool" where
  "carries v6 f a \<longleftrightarrow> (\<exists>n. (if v6 then if_ipv6 f else if_ipv4 f) = Some (IpStatic a n))"

text \<open>The route leads through an interface that carries an address, and both lie in the first network.\<close>

definition route_served :: "cidr \<Rightarrow> nat \<Rightarrow> iface list \<Rightarrow> route \<Rightarrow> bool" where
  "route_served c k fs r \<longleftrightarrow>
     in_network (rt_next_hop_address r) c
     \<and> (\<exists>f \<in> set fs. \<exists>a. if_name f = rt_next_hop_interface r \<and> carries (rt_is_v6_default r) f a
          \<and> (30 + k < host_span c \<longrightarrow> in_network a c))"

lemma gateway_address_Inr:
  "gateway_address cidrs = Inr (v6, a) \<Longrightarrow>
     cidrs \<noteq> [] \<and> v6 = (cidr_version (cidrs ! 0) = V6)
     \<and> a = \<lparr>ip_version = cidr_version (cidrs ! 0), ip_value = cidr_value (cidrs ! 0) + 1\<rparr>"
  by (auto simp: gateway_address_def sum_bind_Inr_iff py_nth_def ip_network_def ip_add_Inr_iff
      network_address_def split: if_splits)

lemma prepare_ips_carries:
  assumes "prepare_ips cidrs k = Inr (v4, v6)" and "f = g\<lparr>if_ipv4 := v4, if_ipv6 := v6\<rparr>"
  shows "\<exists>a. carries (cidr_version (cidrs ! 0) = V6) f a
           \<and> (30 + k < host_span (cidrs ! 0) \<longrightarrow> in_network a (cidrs ! 0))"
  using assms
  by (auto simp: prepare_ips_def sum_bind_Inr_iff py_nth_def prepare_ip_dict_Inr carries_def
      in_network_def split: if_splits)

lemma host_interfaces_next_hop:
  assumes "host_interfaces_of tv cfg k = Inr fs"
  shows "\<exists>f \<in> set fs. if_name f = next_hop_of cfg
    \<and> prepare_ips (tv_machine_cidrs tv) k = Inr (if_ipv4 f, if_ipv6 f)"
  using assms
  by (auto simp: host_interfaces_of_def next_hop_of_def builder_defs PRIMARY_LOGICAL_INTERFACE_def
      SECONDARY_LOGICAL_INTERFACE_def split: if_splits)

text \<open>Every generated host has one default route; its gateway is the second address of the
  machine network, and it leads through an interface of the configuration (the VLAN over the
  base interface where VLANs are used) that carries an address of the same IP version, which
  lies in the machine network as long as the network is large enough.\<close>

lemma static_default_route_is_served:
  assumes "generate_static_network_data_from_tf show_ip resolv_conf tv cfg = Inr hosts"
    and "k < length hosts"
    and "1 < host_span (tv_machine_cidrs tv ! 0)"
  shows "\<exists>r. hw_routes (hosts ! k) = [r] \<and> rt_next_hop_interface r = next_hop_of cfg
    \<and> ip_value (rt_next_hop_address r) = cidr_value (tv_machine_cidrs tv ! 0) + 1
    \<and> route_served (tv_machine_cidrs tv ! 0) k (hw_interfaces (hosts ! k)) r"
proof -
  let ?c = "tv_machine_cidrs tv ! 0"
  have gen: "host_interfaces_of tv cfg k = Inr (hw_interfaces (hosts ! k))"
    "prepare_routes (next_hop_of cfg) (tv_machine_cidrs tv) = Inr (hw_routes (hosts ! k))"
    using generated_host [OF assms(1,2)] by simp_all
  obtain v6 gw where gw: "gateway_address (tv_machine_cidrs tv) = Inr (v6, gw)"
    and routes: "hw_routes (hosts ! k)
      = [\<lparr>rt_is_v6_default = v6, rt_next_hop_address = gw, rt_next_hop_interface = next_hop_of cfg\<rparr>]"
    using gen(2) by (auto simp: prepare_routes_def sum_bind_Inr_iff)
  obtain f where f: "f \<in> set (hw_interfaces (hosts ! k))" "if_name f = next_hop_of cfg"
    "prepare_ips (tv_machine_cidrs tv) k = Inr (if_ipv4 f, if_ipv6 f)"
    using host_interfaces_next_hop [OF gen(1)] by blast
  obtain a where "carries (cidr_version ?c = V6) f a" "30 + k < host_span ?c \<longrightarrow> in_network a ?c"
    using prepare_ips_carries [OF f(3), of f f] by auto
  then show ?thesis
    using gateway_address_Inr [OF gw] routes f(1,2) assms(3)
    by (auto simp: route_served_def in_network_def)
qed

lemma static_default_route_is_served_witness:
  "\<exists>hosts r. generate_static_network_data_from_tf (\<lambda>_. []) None sample_tfvars (sample_config True True)
       = Inr hosts \<and> hw_routes (hosts ! 1) = [r] \<and> rt_next_hop_interface r = ''bond0.100''"
proof -
  have "\<exists>hosts. generate_static_network_data_from_tf (\<lambda>_. []) None sample_tfvars (sample_config True True) = Inr hosts"
    by (simp add: sample_eval)
  then obtain hosts where run:
    "generate_static_network_data_from_tf (\<lambda>_. []) None sample_tfvars (sample_config True True) = Inr hosts" ..
  have "1 < length hosts" using generated_length [OF run] by (simp add: sample_tfvars_def)
  moreover have "1 < host_span (tv_machine_cidrs sample_tfvars ! 0)"
    by (simp add: sample_tfvars_def sample_cidr_def host_span_def)
  moreover have "next_hop_of (sample_config True True) = ''bond0.100''"
    by code_simp
  ultimately show ?thesis
    using static_default_route_is_served [OF run, of 1] run by auto
qed

text \<open>The configuration of hosts added after the installation cannot be generated: for any
  positive number of them, whatever the terraform variables hold, the function raises, and
  with enough MAC addresses it is the \<open>TypeError\<close> of the call's missing arguments.\<close>

lemma day2_static_network_always_raises:
  assumes "0 < num_day2_workers"
  shows "\<exists>x. generate_day2_static_network_data_from_tf tv num_day2_workers = Inl x
    \<and> (num_day2_workers \<le> length (tv_worker_macs tv)
       \<and> num_day2_workers \<le> length (tv_secondary_worker_macs tv) \<longrightarrow> x = TypeError)"
proof -
  obtain n where n: "num_day2_workers = Suc n" using assms by (cases num_day2_workers) auto
  have upt: "[0..<num_day2_workers] = 0 # [1..<num_day2_workers]"
    using assms by (simp add: upt_rec)
  have some: "py_from xs (int (length xs) - int num_day2_workers) \<noteq> []"
    if "num_day2_workers \<le> length xs" for xs :: "string list"
    using that assms by (simp add: py_from_def)
  show ?thesis
    using some [of "tv_worker_macs tv"] some [of "tv_secondary_worker_macs tv"]
    by (auto simp: generate_day2_static_network_data_from_tf_def upt Let_def py_nth_def)
qed

lemma day2_static_network_always_raises_witness:
  "generate_day2_static_network_data_from_tf sample_tfvars 1 = Inl TypeError"
  using day2_static_network_always_raises [of 1 sample_tfvars] by (simp add: sample_tfvars_def)

section \<open>Bonded hosts\<close>

definition bond_ports :: "host_network \<Rightarrow> string list" where
  "bond_ports h =
     concat (map (\<lambda>f. case if_link_aggregation f of None \<Rightarrow> [] | Some la \<Rightarrow> la_ports la) (hw_interfaces h))"

lemma eth_inject [simp]: "eth i = eth j \<longleftrightarrow> i = j"
  by (simp add: eth_def)

lemma length_py_slice: "n * (k + 1) \<le> length xs \<Longrightarrow> length (py_slice xs (n * k) (n * (k + 1))) = n"
  by (simp add: py_slice_def)

lemma map_eth_upt: "map eth [0..<n] @ map (\<lambda>i. eth (i + n)) [0..<m] = map eth [0..<n + m]"
  by (induction m) (simp_all add: add.commute)

lemma bonded_mac_map_names:
  "map snd (bonded_mac_map ps ss) = map eth [0..<length ps + length ss]"
  unfolding map_eth_upt [symmetric] by (simp add: bonded_mac_map_def comp_def)

lemma bonded_ports:
  assumes "prepare_bonded_interfaces mc pc k n mode ve vid = Inr ifs" and "hw_interfaces h = ifs"
  shows "bond_ports h = map eth [0..<n + n]"
proof -
  have "map eth [0..<n] @ map (\<lambda>i. eth (n + i)) [0..<n] = map eth [0..<n + n]"
    using map_eth_upt [of n n] by (simp add: add.commute)
  then have "concat (map (\<lambda>f. case if_link_aggregation f of None \<Rightarrow> [] | Some la \<Rightarrow> la_ports la) ifs)
      = map eth [0..<n + n]"
    using assms(1)
    by (auto simp: prepare_bonded_interfaces_def prepare_bonded_interface_def
        prepare_vlan_interface_def sum_bind_Inr_iff prepare_link_aggregation_def split: if_splits)
  then show ?thesis by (simp add: bond_ports_def assms(2))
qed

text \<open>In a bonded host whose MAC lists are complete, the ports of the two bonds are exactly the
  logical names given to the host's MAC addresses, in order, and no name occurs twice.\<close>

lemma bonded_ports_match_macs:
  assumes "prepare_host_bonded_static_network_data show_ip resolv_conf
      (py_slice macs (n * k) (n * (k + 1))) (py_slice secondary_macs (n * k) (n * (k + 1)))
      machine_cidrs provisioning_cidrs count n mode vlan_enabled vlan_id = Inr h"
    and "n * (k + 1) \<le> length macs" and "n * (k + 1) \<le> length secondary_macs"
  shows "map snd (hw_mac_map h) = bond_ports h \<and> distinct (bond_ports h)
    \<and> map fst (hw_mac_map h) = py_slice macs (n * k) (n * (k + 1)) @ py_slice secondary_macs (n * k) (n * (k + 1))"
proof -
  let ?p = "py_slice macs (n * k) (n * (k + 1))" and ?s = "py_slice secondary_macs (n * k) (n * (k + 1))"
  obtain ifs where ifs: "prepare_bonded_interfaces machine_cidrs provisioning_cidrs count n mode
      vlan_enabled vlan_id = Inr ifs" "hw_interfaces h = ifs" "hw_mac_map h = bonded_mac_map ?p ?s"
    using assms(1) unfolding prepare_host_bonded_static_network_data_def
    by (auto simp: sum_bind_Inr_iff dest!: assemble_host_Inr)
  have ports: "bond_ports h = map eth [0..<n + n]"
    using ifs(1,2) by (rule bonded_ports)
  have "map snd (hw_mac_map h) = map eth [0..<n + n]"
    unfolding ifs(3) bonded_mac_map_names length_py_slice [OF assms(2)] length_py_slice [OF assms(3)] ..
  moreover have "map fst (hw_mac_map h) = ?p @ ?s"
    unfolding ifs(3) by (simp add: bonded_mac_map_def comp_def map_nth)
  ultimately show ?thesis by (simp add: ports distinct_map inj_on_def)
qed

lemma bonded_ports_match_macs_witness:
  "\<exists>h. prepare_host_bonded_static_network_data (\<lambda>_. []) None (py_slice [''a'', ''b''] (1 * 1) (1 * (1 + 1)))
      (py_slice [''c'', ''d''] (1 * 1) (1 * (1 + 1))) [sample_cidr 1] [sample_cidr 2] 1 1 ''m'' False 100 = Inr h
     \<and> map fst (hw_mac_map h) = [''b'', ''d'']"
proof -
  have "\<exists>h. prepare_host_bonded_static_network_data (\<lambda>_. []) None (py_slice [''a'', ''b''] (1 * 1) (1 * (1 + 1)))
      (py_slice [''c'', ''d''] (1 * 1) (1 * (1 + 1))) [sample_cidr 1] [sample_cidr 2] 1 1 ''m'' False 100 = Inr h"
    by (simp add: sample_eval)
  then obtain h where run: "prepare_host_bonded_static_network_data (\<lambda>_. []) None
      (py_slice [''a'', ''b''] (1 * 1) (1 * (1 + 1))) (py_slice [''c'', ''d''] (1 * 1) (1 * (1 + 1)))
      [sample_cidr 1] [sample_cidr 2] 1 1 ''m'' False 100 = Inr h" ..
  from bonded_ports_match_macs [OF run] run show ?thesis
    by (simp add: py_slice_def)
qed

end
