(* ===== verification/ClusterBase.thy ===== *)
theory ClusterBase
  imports InfraEnv StaticNetwork
begin

text \<open>
  \<open>helper_classes/base_cluster.py\<close>, \<open>cluster_host.py\<close> and the part of \<open>cluster.py\<close> that
  prepares a cluster: its life cycle, hosts and roles, operators, networking and the check
  of static addresses. The nodes and their controller are an environment (\<open>nodes_env\<close>); calls
  that change them are events of the history.
\<close>

section \<open>State\<close>

text \<open>\<open>cs_has_infra_env\<close>: the cluster holds an infrastructure environment object.\<close>

record cluster_state = infra_state +
  cs_config :: config
  cs_has_infra_env :: bool
  cs_is_installed :: bool

record node_info =
  nf_name :: string
  nf_role :: string
  nf_macs :: "string list"

record nodes_env =
  nv_nodes_count :: nat
  nv_masters_count :: nat
  nv_workers_count :: nat
  nv_arbiters_count :: nat
  nv_is_ipv4 :: bool
  nv_is_ipv6 :: bool
  nv_get_nodes :: "call list \<Rightarrow> exn + node_info list"
  nv_tf_platform :: string
  nv_primary_cidr :: "exn + cidr option"
  nv_provisioning_cidr :: "exn + cidr option"
  nv_vips :: "exn + (pyval \<times> pyval) option"
  nv_machine_addresses :: "exn + pyval"

text \<open>The textual forms of addresses and networks, and the iteration order of a set.\<close>

record texts =
  tx_ip :: "ip \<Rightarrow> string"
  tx_net :: "cidr \<Rightarrow> string"
  tx_iter :: "cidr set \<Rightarrow> cidr list"

type_synonym ('z, 'a) cprog = "('z cluster_state_scheme, 'a) prog"

abbreviation cc :: "'z cluster_state_scheme \<Rightarrow> string \<Rightarrow> pyval" where
  "cc s k \<equiv> cfg (cs_config s) k"

definition cluster_id :: "'z cluster_state_scheme \<Rightarrow> pyval" where
  "cluster_id s = cc s ''cluster_id''"

definition set_cc :: "string \<Rightarrow> pyval \<Rightarrow> ('z, unit) cprog" where
  "set_cc k v = modifies (\<lambda>s. s\<lparr>cs_config := dict_set k v (cs_config s)\<rparr>)"

definition cluster_update_config :: "(string \<times> pyval) list \<Rightarrow> ('z, unit) cprog" where
  "cluster_update_config kvs = on_part cs_config (\<lambda>c s. s\<lparr>cs_config := c\<rparr>) (update_config kvs)"

definition with_cluster_id :: "(string \<Rightarrow> ('z, 'a) cprog) \<Rightarrow> ('z, 'a) cprog" where
  "with_cluster_id f = bindP (reads cluster_id) (\<lambda>i. f (text_of i))"

text \<open>An operation on \<open>self._infra_env\<close>, which may be \<open>None\<close>.\<close>

definition on_infra_env :: "('z, 'a) cprog \<Rightarrow> ('z, 'a) cprog" where
  "on_infra_env p = bindP (reads cs_has_infra_env) (\<lambda>b. if b then p else raise AttributeError)"

section \<open>Hosts of a cluster\<close>

type_synonym cluster_host = "host \<times> inventory"

definition to_cluster_host :: "host \<Rightarrow> exn + cluster_host" where
  "to_cluster_host h = (case h_inventory h of Has i \<Rightarrow> Inr (h, i) | _ \<Rightarrow> Inl TypeError)"

definition to_cluster_hosts :: "host list \<Rightarrow> exn + cluster_host list" where
  "to_cluster_hosts hosts = sum_map to_cluster_host hosts"

definition ch_hostname :: "cluster_host \<Rightarrow> string" where
  "ch_hostname h =
     (case h_requested_hostname (fst h) of Some (c # cs) \<Rightarrow> c # cs | _ \<Rightarrow> inv_hostname (snd h))"

definition ch_macs :: "cluster_host \<Rightarrow> string list" where
  "ch_macs h = map (\<lambda>n. lower (nic_mac n)) (inv_interfaces (snd h))"

definition ch_ipv4_addresses :: "cluster_host \<Rightarrow> cidr list" where
  "ch_ipv4_addresses h = concat (map nic_ipv4_addresses (inv_interfaces (snd h)))"

definition ch_ipv6_addresses :: "cluster_host \<Rightarrow> cidr list" where
  "ch_ipv6_addresses h = concat (map nic_ipv6_addresses (inv_interfaces (snd h)))"

definition ch_ips :: "cluster_host \<Rightarrow> cidr list" where
  "ch_ips h = ch_ipv4_addresses h @ ch_ipv6_addresses h"

fun find_matching_node :: "cluster_host \<Rightarrow> node_info list \<Rightarrow> node_info option" where
  "find_matching_node h [] = None"
| "find_matching_node h (n # ns) =
     (if list_ex (\<lambda>m. lower m \<in> set (ch_macs h)) (nf_macs n) then Some n else find_matching_node h ns)"

definition get_nodes :: "nodes_env \<Rightarrow> ((call, 'z) world_scheme, node_info list) prog" where
  "get_nodes nv = ext (nv_get_nodes nv) (Controller ''nodes.get_nodes'' [])"

definition set_hostname_and_role :: "env \<Rightarrow> node_info list \<Rightarrow> cluster_host \<Rightarrow> ('z, unit) cprog" where
  "set_hostname_and_role e nodes h =
     (case find_matching_node h nodes of
        None \<Rightarrow> raise AssertionError
      | Some n \<Rightarrow> on_infra_env
          (infra_update_host e (h_id (fst h)) (PStr (nf_role n)) (PStr (nf_name n)) PNone PNone))"

definition set_hostnames_and_roles :: "env \<Rightarrow> nodes_env \<Rightarrow> ('z, unit) cprog" where
  "set_hostnames_and_roles e nv =
     with_cluster_id (\<lambda>i. bindP (get_cluster_hosts e i False) (\<lambda>hs.
       bindP (sum_prog (to_cluster_hosts hs)) (\<lambda>hosts.
         bindP (get_nodes nv) (\<lambda>nodes. for_each (set_hostname_and_role e nodes) hosts))))"

definition set_installer_args :: "env \<Rightarrow> ('z, unit) cprog" where
  "set_installer_args e =
     with_cluster_id (\<lambda>i. bindP (get_cluster_hosts e i False) (\<lambda>hs.
       bindP (sum_prog (to_cluster_hosts hs)) (\<lambda>hosts.
         for_each (\<lambda>h. on_infra_env (infra_update_host_installer_args e (h_id (fst h)))) hosts)))"

text \<open>\<open>count or d\<close> on numbers.\<close>

definition num_or :: "nat option \<Rightarrow> nat \<Rightarrow> nat" where
  "num_or n d = (case n of None \<Rightarrow> d | Some k \<Rightarrow> if k = 0 then d else k)"

definition base_wait_until_hosts_are_discovered ::
  "'z infra_state_ext cwaiter \<Rightarrow> env \<Rightarrow> nodes_env \<Rightarrow> bool \<Rightarrow> nat option \<Rightarrow> string \<Rightarrow> ('z infra_state_scheme, unit) prog" where
  "base_wait_until_hosts_are_discovered wait e nv allow_insufficient nodes_count i =
     wait_till_all_hosts_are_in_status wait e i (int (num_or nodes_count (nv_nodes_count nv)))
       ([ns_value NS_PendingForInput, ns_value NS_Known]
        @ (if allow_insufficient then [ns_value NS_Insufficient] else []))
       [''''] NODES_REGISTERED_TIMEOUT True DEFAULT_CHECK_STATUSES_INTERVAL False"

section \<open>Infrastructure environment of the cluster\<close>

definition create_infra_env ::
  "env \<Rightarrow> pyval \<Rightarrow> pyval \<Rightarrow> pyval \<Rightarrow> pyval \<Rightarrow> pyval \<Rightarrow> pyval \<Rightarrow> ('z, unit) cprog" where
  "create_infra_env e static_network_config iso_image_type ssh_key ignition_info proxy cpu_architecture =
     bindP (reads cs_config) (\<lambda>c.
       thenP (set_ie ''ssh_public_key'' (py_or ssh_key (cfg c ''ssh_public_key'')))
       (thenP (set_ie ''iso_image_type'' (py_or iso_image_type (cfg c ''iso_image_type'')))
       (thenP (set_ie ''static_network_config'' static_network_config)
       (thenP (set_ie ''ignition_config_override'' ignition_info)
       (thenP (set_ie ''proxy'' (py_or proxy (cfg c ''proxy'')))
       (thenP (set_ie ''cpu_architecture'' (py_or cpu_architecture (cfg c ''cpu_architecture'')))
         (infra_env_init e)))))))"

definition generate_infra_env ::
  "env \<Rightarrow> pyval \<Rightarrow> pyval \<Rightarrow> pyval \<Rightarrow> pyval \<Rightarrow> pyval \<Rightarrow> pyval \<Rightarrow> ('z, unit) cprog" where
  "generate_infra_env e static_network_config iso_image_type ssh_key ignition_info proxy cpu_architecture =
     bindP (reads cs_has_infra_env) (\<lambda>b.
       if b then ret ()
       else thenP (create_infra_env e static_network_config iso_image_type ssh_key ignition_info proxy
                     cpu_architecture)
              (modifies (\<lambda>s. s\<lparr>cs_has_infra_env := True\<rparr>)))"

definition download_infra_env_image :: "env \<Rightarrow> (exn + pyval) \<Rightarrow> pyval \<Rightarrow> ('z, pyval) cprog" where
  "download_infra_env_image e static_data iso_download_path =
     bindP (reads (\<lambda>s. py_or iso_download_path (cc s ''iso_download_path''))) (\<lambda>path.
       on_infra_env (infra_download_image e static_data path))"

definition generate_and_download_infra_env ::
  "env \<Rightarrow> (exn + pyval) \<Rightarrow> pyval \<Rightarrow> pyval \<Rightarrow> pyval \<Rightarrow> pyval \<Rightarrow> pyval \<Rightarrow> pyval \<Rightarrow> pyval \<Rightarrow> ('z, pyval) cprog" where
  "generate_and_download_infra_env e static_data iso_download_path static_network_config iso_image_type
       ssh_key ignition_info proxy cpu_architecture =
     thenP (generate_infra_env e static_network_config iso_image_type ssh_key ignition_info proxy cpu_architecture)
       (bindP (reads (\<lambda>s. py_or iso_download_path (cc s ''iso_download_path'')))
          (download_infra_env_image e static_data))"

definition download_image :: "env \<Rightarrow> (exn + pyval) \<Rightarrow> pyval \<Rightarrow> pyval \<Rightarrow> ('z, pyval) cprog" where
  "download_image e static_data iso_download_path static_network_config =
     bindP (reads (\<lambda>s. (cs_has_infra_env s, py_or iso_download_path (cc s ''iso_download_path''),
                       cc s ''iso_image_type''))) (\<lambda>(b, path, iso_type).
       if \<not> b then
         generate_and_download_infra_env e static_data path static_network_config iso_type PNone PNone PNone PNone
       else infra_download_image e static_data path)"

definition deregister_infraenv :: "env \<Rightarrow> ('z, unit) cprog" where
  "deregister_infraenv e =
     bindP (reads cs_has_infra_env) (\<lambda>b.
       thenP (whenP b (infra_deregister e True)) (modifies (\<lambda>s. s\<lparr>cs_has_infra_env := False\<rparr>)))"

definition cluster_delete :: "env \<Rightarrow> ('z, unit) cprog" where
  "cluster_delete e =
     thenP (deregister_infraenv e)
       (bindP (reads cluster_id) (\<lambda>i.
          whenP (truth i) (thenP (api_delete_cluster e (text_of i)) (set_cc ''cluster_id'' PNone))))"

definition cluster_set_pull_secret :: "env \<Rightarrow> string \<Rightarrow> string option \<Rightarrow> ('z, unit) cprog" where
  "cluster_set_pull_secret e pull_secret i =
     thenP (cluster_update_config [(''pull_secret'', PStr pull_secret)])
       (with_cluster_id (\<lambda>own. api_update_cluster e (case i of Some (c # cs) \<Rightarrow> c # cs | _ \<Rightarrow> own)
          (PDict [(''pull_secret'', PStr pull_secret)])))"

section \<open>Life cycle\<close>

text \<open>\<open>_create\<close>: the parameters of the new cluster.\<close>

definition items_of :: "pyval \<Rightarrow> pyval list" where
  "items_of v = (case v of PList xs \<Rightarrow> xs | _ \<Rightarrow> [])"

fun hashable :: "pyval \<Rightarrow> bool" where
  "hashable (PList _) = False"
| "hashable (PDict _) = False"
| "hashable _ = True"

fun expand_bundles :: "env \<Rightarrow> pyval list \<Rightarrow> ((call, 'z) world_scheme, pyval list) prog" where
  "expand_bundles e [] = ret []"
| "expand_bundles e (b # bs) =
     (case b of
        PStr bundle_id \<Rightarrow>
          if strip bundle_id \<noteq> [] then
            bindP (api_get_bundle e (strip bundle_id)) (\<lambda>ops.
              bindP (expand_bundles e bs) (\<lambda>rest. ret (map PStr ops @ rest)))
          else expand_bundles e bs
      | _ \<Rightarrow> raise AttributeError)"

definition expand_bundles_to_operators :: "env \<Rightarrow> ('z, pyval list) cprog" where
  "expand_bundles_to_operators e =
     bindP (reads (\<lambda>s. cc s ''olm_bundles'')) (\<lambda>v. expand_bundles e (items_of v))"

text \<open>\<open>dict.fromkeys\<close> raises on an element that has no hash.\<close>

definition named_operators :: "pyval list \<Rightarrow> exn + pyval list" where
  "named_operators all_operators =
     (if list_all hashable all_operators
      then Inr (map (\<lambda>n. PDict [(''name'', n)]) (first_occurrences all_operators))
      else Inl TypeError)"

definition get_olm_operators :: "env \<Rightarrow> ('z, pyval list) cprog" where
  "get_olm_operators e =
     bindP (expand_bundles_to_operators e) (\<lambda>from_bundles.
       bindP (reads (\<lambda>s. items_of (cc s ''olm_operators''))) (\<lambda>ops.
         sum_prog (named_operators (from_bundles @ ops))))"

definition when_item :: "bool \<Rightarrow> string \<Rightarrow> pyval \<Rightarrow> (string \<times> pyval) list" where
  "when_item b k v = (if b then [(k, v)] else [])"

definition cluster_extra_vars :: "config \<Rightarrow> pyval list \<Rightarrow> (string \<times> pyval) list" where
  "cluster_extra_vars c olm_operators =
     when_item (truth (cfg c ''platform'')) ''platform''
       (PDict ([(''type'', cfg c ''platform'')]
          @ when_item (cfg c ''platform'' = PStr ''external'') ''external''
              (PDict [(''platform_name'', cfg c ''external_platform_name''),
                      (''cloud_controller_manager'', cfg c ''external_cloud_controller_manager'')])))
     @ when_item (cfg c ''vip_dhcp_allocation'' \<noteq> PNone) ''vip_dhcp_allocation'' (cfg c ''vip_dhcp_allocation'')
     @ when_item (cfg c ''network_type'' \<noteq> PNone) ''network_type'' (cfg c ''network_type'')
     @ when_item (truth (cfg c ''is_disconnected'')) ''is_disconnected'' (cfg c ''is_disconnected'')
     @ when_item (truth (cfg c ''registry_ca_path'')) ''registry_ca_path'' (cfg c ''registry_ca_path'')
     @ when_item (cfg c ''load_balancer_type'' = PStr ''user-managed'') ''load_balancer''
         (PDict [(''type'', cfg c ''load_balancer_type'')])
     @ when_item (olm_operators \<noteq> []) ''olm_operators'' (PList olm_operators)"

definition cluster_create_params :: "config \<Rightarrow> pyval list \<Rightarrow> pyval" where
  "cluster_create_params c olm_operators =
     PDict
       ([(''ssh_public_key'', cfg c ''ssh_public_key''), (''openshift_version'', cfg c ''openshift_version''),
         (''pull_secret'', cfg c ''pull_secret''), (''base_dns_domain'', cfg c ''base_dns_domain''),
         (''additional_ntp_source'', cfg c ''additional_ntp_source''),
         (''user_managed_networking'', cfg c ''user_managed_networking''),
         (''control_plane_count'', cfg c ''control_plane_count''),
         (''high_availability_mode'', cfg c ''high_availability_mode''),
         (''disk_encryption'', PDict [(''enable_on'', cfg c ''disk_encryption_roles''),
            (''mode'', cfg c ''disk_encryption_mode''), (''tang_servers'', cfg c ''tang_servers'')]),
         (''tags'', py_or (cfg c ''cluster_tags'') PNone),
         (''cpu_architecture'',
            if endswith (text_of (cfg c ''openshift_version'')) ''multi'' then PStr ''multi''
            else cfg c ''cpu_architecture'')]
        @ cluster_extra_vars c olm_operators)"

definition cluster_create :: "env \<Rightarrow> ('z, string) cprog" where
  "cluster_create e =
     bindP (reads cs_config) (\<lambda>c.
       bindP (if items_of (cfg c ''olm_operators'') \<noteq> [] \<or> items_of (cfg c ''olm_bundles'') \<noteq> []
              then get_olm_operators e else ret []) (\<lambda>ops.
         bindP (api_create_cluster e (text_of (cfg c ''cluster_name'')) (cluster_create_params c ops)) (\<lambda>i.
           thenP (set_cc ''cluster_id'' (PStr i)) (ret i))))"

text \<open>
  \<open>update_existing\<close>: the configuration is read back from the service (the attributes of the
  cluster object it copies are \<open>existing\<close>), and the first infrastructure environment of the
  cluster becomes its own.
\<close>

definition existing_keys :: "string list" where
  "existing_keys =
     [''openshift_version'', ''entity_name'', ''additional_ntp_source'', ''user_managed_networking'',
      ''control_plane_count'', ''high_availability_mode'', ''olm_operators'', ''base_dns_domain'',
      ''vip_dhcp_allocation'', ''cluster_tags'']"

definition update_existing_cluster_config :: "env \<Rightarrow> (cluster \<Rightarrow> string \<Rightarrow> pyval) \<Rightarrow> string \<Rightarrow> ('z, unit) cprog" where
  "update_existing_cluster_config e existing i =
     bindP (cluster_get e i False) (\<lambda>c. cluster_update_config (map (\<lambda>k. (k, existing c k)) existing_keys))"

definition cluster_update_existing :: "env \<Rightarrow> (cluster \<Rightarrow> string \<Rightarrow> pyval) \<Rightarrow> ('z, string) cprog" where
  "cluster_update_existing e existing =
     with_cluster_id (\<lambda>i. thenP (update_existing_cluster_config e existing i)
       (bindP (get_infra_envs_by_cluster_id e i) (\<lambda>ies.
          thenP
            (case ies of
               [] \<Rightarrow> ret ()
             | ie # _ \<Rightarrow>
                 thenP (set_ie ''infra_env_id'' (PStr (ie_id ie)))
                   (thenP (infra_env_init e)
                     (modifies (\<lambda>s. s\<lparr>cs_has_infra_env := True, cs_is_installed := True\<rparr>))))
            (ret i))))"

definition cluster_set_iso_path :: "'z cluster_state_scheme \<Rightarrow> 'z cluster_state_scheme" where
  "cluster_set_iso_path s =
     s\<lparr>cs_config := dict_set ''iso_download_path'' (ie_cfg s ''iso_download_path'') (cs_config s)\<rparr>"

text \<open>\<open>Cluster.__init__\<close>: the entity, then the attributes shared with the infrastructure environment.\<close>

definition cluster_init :: "env \<Rightarrow> (cluster \<Rightarrow> string \<Rightarrow> pyval) \<Rightarrow> ('z, unit) cprog" where
  "cluster_init e existing =
     thenP (modifies (\<lambda>s. s\<lparr>cs_is_installed := False, cs_has_infra_env := False\<rparr>))
       (thenP (entity_init cluster_id (cluster_create e) (cluster_update_existing e existing) cluster_set_iso_path)
         (bindP (reads cs_config) (\<lambda>c.
            thenP (set_ie ''cluster_id'' (cfg c ''cluster_id''))
              (thenP (set_ie ''openshift_version'' (cfg c ''openshift_version''))
                (set_ie ''pull_secret'' (cfg c ''pull_secret''))))))"

section \<open>Operators\<close>

definition operator_entry :: "monitored_operator \<Rightarrow> pyval" where
  "operator_entry opr = PDict [(''name'', PStr (op_name opr)), (''properties'', op_properties opr)]"

definition unset_olm_operator :: "env \<Rightarrow> string \<Rightarrow> ('z, unit) cprog" where
  "unset_olm_operator e operator_name =
     with_cluster_id (\<lambda>i. bindP (cluster_get e i False) (\<lambda>c.
       api_update_cluster e i (PDict [(''olm_operators'',
         PList (map operator_entry
           (filter (\<lambda>op. \<not> (op_name op = operator_name \<or> op_type op = Builtin)) (cl_operators c))))])))"

definition set_olm_operator :: "env \<Rightarrow> string \<Rightarrow> pyval \<Rightarrow> bool \<Rightarrow> ('z, unit) cprog" where
  "set_olm_operator e operator_name properties update =
     with_cluster_id (\<lambda>i. bindP (cluster_get e i False) (\<lambda>c.
       if \<not> update \<and> operator_name \<in> set (map op_name (cl_operators c)) then ret ()
       else
         (let ops = PList (map operator_entry (filter (\<lambda>op. op_type op \<noteq> Builtin) (cl_operators c))
                @ [PDict [(''name'', PStr operator_name), (''properties'', properties)]])
          in thenP (set_cc ''olm_operators'' ops) (api_update_cluster e i (PDict [(''olm_operators'', ops)])))))"

section \<open>Roles\<close>

text \<open>\<open>[...][:count]\<close> over the hosts whose requested name contains the role.\<close>

definition matching_hosts :: "host list \<Rightarrow> string \<Rightarrow> nat \<Rightarrow> exn + (string \<times> string) list" where
  "matching_hosts hosts host_type count =
     sum_bind (sum_map (\<lambda>h. case h_requested_hostname h of None \<Rightarrow> Inl TypeError
                  | Some n \<Rightarrow> Inr (occurs_in host_type n)) hosts) (\<lambda>bs.
       Inr (take count (map (\<lambda>(h, _). (h_id h, host_type)) (filter snd (zip hosts bs)))))"

definition get_matching_hosts :: "env \<Rightarrow> string \<Rightarrow> nat \<Rightarrow> ('z, (string \<times> string) list) cprog" where
  "get_matching_hosts e host_type count =
     with_cluster_id (\<lambda>i. bindP (get_cluster_hosts e i False) (\<lambda>hosts.
       sum_prog (matching_hosts hosts host_type count)))"

definition set_host_roles ::
  "env \<Rightarrow> nodes_env \<Rightarrow> nat option \<Rightarrow> nat option \<Rightarrow> nat option \<Rightarrow> (nat \<times> nat \<times> nat) option
     \<Rightarrow> ('z, (string \<times> string) list) cprog" where
  "set_host_roles e nv num_masters num_workers num_arbiters requested_roles =
     (let (masters, workers, arbiters) =
        (case requested_roles of
           Some r \<Rightarrow> r
         | None \<Rightarrow> (num_or num_masters (nv_masters_count nv), num_or num_workers (nv_workers_count nv),
                    num_or num_arbiters (nv_arbiters_count nv)))
      in bindP (get_matching_hosts e (role_value Master) masters) (\<lambda>ms.
           bindP (get_matching_hosts e (role_value Worker) workers) (\<lambda>ws.
             bindP (get_matching_hosts e (role_value Arbiter) arbiters) (\<lambda>as.
               thenP (for_each (\<lambda>(i, role). on_infra_env (infra_update_host e i (PStr role) PNone PNone PNone))
                        (ms @ ws @ as))
                 (ret (ms @ ws @ as))))))"

section \<open>Networking\<close>

definition get_primary_stack :: "config \<Rightarrow> pyval" where
  "get_primary_stack c = (case dict_get c ''primary_stack'' of None \<Rightarrow> PStr ''ipv4'' | Some v \<Rightarrow> v)"

text \<open>The default networks of a dual-stack cluster, by their first address family.\<close>

record dual_networks =
  dn_cluster_v4v6 :: pyval
  dn_service_v4v6 :: pyval
  dn_cluster_v6v4 :: pyval
  dn_service_v6v4 :: pyval

definition configure_networking_for_primary_stack :: "dual_networks \<Rightarrow> config \<Rightarrow> config" where
  "configure_networking_for_primary_stack dn c =
     (let primary_stack = get_primary_stack c;
          dual = truth (cfg c ''is_ipv4'') \<and> truth (cfg c ''is_ipv6'')
      in if primary_stack = PStr ''ipv6'' \<and> \<not> dual then c
         else if primary_stack = PStr ''ipv4'' \<and> \<not> dual then c
         else if primary_stack = PStr ''ipv6'' then
           dict_set ''service_networks'' (dn_service_v6v4 dn) (dict_set ''cluster_networks'' (dn_cluster_v6v4 dn) c)
         else
           dict_set ''service_networks'' (dn_service_v4v6 dn) (dict_set ''cluster_networks'' (dn_cluster_v4v6 dn) c))"

definition host_addresses :: "nodes_env \<Rightarrow> cluster_host \<Rightarrow> cidr list" where
  "host_addresses nv h =
     (if nv_is_ipv4 nv then ch_ipv4_addresses h else []) @ (if nv_is_ipv6 nv then ch_ipv6_addresses h else [])"

definition get_cluster_cidrs :: "nodes_env \<Rightarrow> cluster_host list \<Rightarrow> cidr set" where
  "get_cluster_cidrs nv hosts = set (map get_cidr_by_interface (concat (map (host_addresses nv) hosts)))"

text \<open>
  The inner loop breaks at the first host without an interface in the network, but the
  statement after the loop runs in either case.
\<close>

fun check_hosts :: "nodes_env \<Rightarrow> cidr \<Rightarrow> cluster_host list \<Rightarrow> exn + unit" where
  "check_hosts nv c [] = Inr ()"
| "check_hosts nv c (h # hs) =
     (case any_interface_in_cidr (host_addresses nv h) c of
        Inl x \<Rightarrow> Inl x | Inr found \<Rightarrow> if \<not> found then Inr () else check_hosts nv c hs)"

fun matching_cidrs :: "nodes_env \<Rightarrow> cluster_host list \<Rightarrow> cidr list \<Rightarrow> exn + cidr set" where
  "matching_cidrs nv hosts [] = Inr {}"
| "matching_cidrs nv hosts (c # cs) =
     sum_bind (check_hosts nv c hosts) (\<lambda>_.
       sum_bind (matching_cidrs nv hosts cs) (\<lambda>m. Inr (insert c m)))"

definition get_cluster_matching_cidrs :: "texts \<Rightarrow> nodes_env \<Rightarrow> cluster_host list \<Rightarrow> exn + cidr set" where
  "get_cluster_matching_cidrs tx nv hosts =
     matching_cidrs nv hosts (tx_iter tx (get_cluster_cidrs nv hosts))"

definition service_cidrs :: "texts \<Rightarrow> env \<Rightarrow> nodes_env \<Rightarrow> ('z, cidr list) cprog" where
  "service_cidrs tx e nv =
     with_cluster_id (\<lambda>i. bindP (cluster_get e i False) (\<lambda>c.
       bindP (sum_prog (to_cluster_hosts (cl_hosts c))) (\<lambda>hosts.
         bindP (sum_prog (get_cluster_matching_cidrs tx nv hosts)) (\<lambda>m.
           if tx_iter tx m = [] then raise RuntimeError else ret (tx_iter tx m)))))"

definition get_primary_machine_cidr :: "texts \<Rightarrow> env \<Rightarrow> nodes_env \<Rightarrow> ('z, cidr) cprog" where
  "get_primary_machine_cidr tx e nv =
     bindP (sum_prog (nv_primary_cidr nv)) (\<lambda>c.
       case c of Some n \<Rightarrow> ret n | None \<Rightarrow> bindP (service_cidrs tx e nv) (\<lambda>ns. ret (hd ns)))"

definition get_machine_networks :: "texts \<Rightarrow> env \<Rightarrow> nodes_env \<Rightarrow> ('z, cidr list) cprog" where
  "get_machine_networks tx e nv =
     bindP (sum_prog (nv_primary_cidr nv)) (\<lambda>p.
       bindP (sum_prog (nv_provisioning_cidr nv)) (\<lambda>q.
         let networks = (case p of None \<Rightarrow> [] | Some n \<Rightarrow> [n]) @ (case q of None \<Rightarrow> [] | Some n \<Rightarrow> [n])
         in if networks = [] then service_cidrs tx e nv else ret networks))"

text \<open>\<open>192.168.1.0/24\<close>.\<close>

definition load_balancer_network_cidr :: cidr where
  "load_balancer_network_cidr =
     \<lparr>cidr_version = V4, cidr_value = 192 * 2 ^ 24 + 168 * 2 ^ 16 + 2 ^ 8, cidr_prefixlen = 24\<rparr>"

definition get_load_balancer_ip :: "texts \<Rightarrow> env \<Rightarrow> nodes_env \<Rightarrow> ('z, ip) cprog" where
  "get_load_balancer_ip tx e nv =
     bindP (reads (\<lambda>s. cc s ''load_balancer_type'')) (\<lambda>t.
       bindP (if t = PStr ''user-managed'' then ret load_balancer_network_cidr
              else get_primary_machine_cidr tx e nv) (\<lambda>c.
         case ip_add (interface_ip c) 1 of Inl _ \<Rightarrow> raise IndexError | Inr a \<Rightarrow> ret a))"

text \<open>\<open>set_advanced_networking\<close>; \<open>PNone\<close> is an argument that was not given.\<close>

definition set_advanced_networking ::
  "env \<Rightarrow> pyval \<Rightarrow> pyval \<Rightarrow> pyval \<Rightarrow> pyval list option \<Rightarrow> pyval \<Rightarrow> pyval \<Rightarrow> ('z, unit) cprog" where
  "set_advanced_networking e vip_dhcp_allocation cluster_networks service_networks machine_networks
       api_vips ingress_vips =
     bindP (reads cs_config) (\<lambda>c.
       let given = (\<lambda>v k. if v \<noteq> PNone then v else cfg c k);
           kvs = [(''cluster_networks'', given cluster_networks ''cluster_networks''),
                  (''service_networks'', given service_networks ''service_networks''),
                  (''machine_networks'', case machine_networks of
                      None \<Rightarrow> cfg c ''machine_networks''
                    | Some ns \<Rightarrow> PList (map (\<lambda>n. PDict [(''cidr'', n)]) ns)),
                  (''api_vips'', given api_vips ''api_vips''),
                  (''ingress_vips'', given ingress_vips ''ingress_vips''),
                  (''vip_dhcp_allocation'', if vip_dhcp_allocation = PNone
                     then py_or (cfg c ''vip_dhcp_allocation'') (PBool False) else vip_dhcp_allocation)]
       in thenP (cluster_update_config kvs) (with_cluster_id (\<lambda>i. api_update_cluster e i (PDict kvs))))"

definition net_texts :: "texts \<Rightarrow> cidr list \<Rightarrow> pyval list" where
  "net_texts tx ns = map (\<lambda>n. PStr (tx_net tx n)) ns"

text \<open>The VIPs and machine networks \<open>set_network_params\<close> chooses.\<close>

definition network_choice ::
  "texts \<Rightarrow> env \<Rightarrow> nodes_env \<Rightarrow> ('z, pyval \<times> pyval \<times> pyval list option) cprog" where
  "network_choice tx e nv =
     bindP (reads cs_config) (\<lambda>c.
       let vips_of = (\<lambda>v. case v of None \<Rightarrow> (PNone, PNone) | Some vs \<Rightarrow> vs)
       in if cfg c ''platform'' = PStr ''none'' \<or> cfg c ''platform'' = PStr ''external'' then ret (PNone, PNone, None)
          else if truth (cfg c ''vip_dhcp_allocation'') \<or> cfg c ''control_plane_count'' = PInt 1 then
            bindP (get_machine_networks tx e nv) (\<lambda>ns. ret (PNone, PNone, Some (net_texts tx (take 1 ns))))
          else if cfg c ''load_balancer_type'' = PStr ''user-managed'' then
            if nv_tf_platform nv = ''baremetal'' then
              bindP (get_load_balancer_ip tx e nv) (\<lambda>a.
                bindP (get_machine_networks tx e nv) (\<lambda>ns.
                  let vip = PList [PDict [(''ip'', PStr (tx_ip tx a))]]
                  in ret (vip, vip, Some (net_texts tx (ns @ [load_balancer_network_cidr])))))
            else if nv_tf_platform nv = ''vsphere'' then
              bindP (sum_prog (nv_vips nv)) (\<lambda>v.
                bindP (get_machine_networks tx e nv) (\<lambda>ns.
                  ret (fst (vips_of v), snd (vips_of v), Some (net_texts tx ns))))
            else raise NotImplementedError
          else bindP (sum_prog (nv_vips nv)) (\<lambda>v. ret (fst (vips_of v), snd (vips_of v), None)))"

definition set_network_params :: "texts \<Rightarrow> env \<Rightarrow> nodes_env \<Rightarrow> ('z, unit) cprog" where
  "set_network_params tx e nv =
     bindP (network_choice tx e nv) (\<lambda>(api_vips, ingress_vips, machine_networks).
       bindP (reads cs_config) (\<lambda>c.
         bindP (if truth (cfg c ''is_ipv4'') \<and> truth (cfg c ''is_ipv6'')
                then bindP (sum_prog (nv_machine_addresses nv)) (\<lambda>v. ret (Some (items_of v)))
                else ret machine_networks) (\<lambda>machine_networks.
           set_advanced_networking e (cfg c ''vip_dhcp_allocation'') (cfg c ''cluster_networks'')
             (cfg c ''service_networks'') machine_networks api_vips ingress_vips)))"

text \<open>\<open>get_ip_for_single_node\<close>: the first address of the first host inside the network.\<close>

fun first_ip_in :: "('a, 'n) netaddr \<Rightarrow> 'n \<Rightarrow> nic_data list \<Rightarrow> exn + ip" where
  "first_ip_in na net [] = Inl GenericException"
| "first_ip_in na net (intf # rest) =
     (case nd_ip intf of
        None \<Rightarrow> first_ip_in na net rest
      | Some i \<Rightarrow>
         (case na_address na (Some i) of
            Inl x \<Rightarrow> Inl x
          | Inr a \<Rightarrow> if na_addr_in na a net then Inr i else first_ip_in na net rest))"

definition ip_for_single_node :: "('a, 'n) netaddr \<Rightarrow> host list \<Rightarrow> cidr \<Rightarrow> bool \<Rightarrow> exn + ip" where
  "ip_for_single_node na hosts machine_cidr ipv4_first =
     (case hosts of
        [] \<Rightarrow> Inl GenericException
      | h # _ \<Rightarrow>
          sum_bind (na_network na machine_cidr) (\<lambda>net.
            sum_bind (get_inventory_host_nics_data h ipv4_first) (first_ip_in na net)))"

definition get_ip_for_single_node ::
  "('a, 'n) netaddr \<Rightarrow> env \<Rightarrow> string \<Rightarrow> cidr \<Rightarrow> bool \<Rightarrow> ((call, 'z) world_scheme, ip) prog" where
  "get_ip_for_single_node na e i machine_cidr ipv4_first =
     bindP (cluster_get e i False) (\<lambda>c. sum_prog (ip_for_single_node na (cl_hosts c) machine_cidr ipv4_first))"

definition configure_load_balancer :: "('a, 'n) netaddr \<Rightarrow> texts \<Rightarrow> env \<Rightarrow> nodes_env \<Rightarrow> ('z, unit) cprog" where
  "configure_load_balancer na tx e nv =
     bindP (get_primary_machine_cidr tx e nv) (\<lambda>main.
       bindP (sum_prog (nv_provisioning_cidr nv)) (\<lambda>sec.
         with_cluster_id (\<lambda>i.
           let ips_of = (\<lambda>role. bindP (get_ips_for_role e na i main role) (\<lambda>a.
                 bindP (case sec of None \<Rightarrow> raise TypeError | Some n \<Rightarrow> get_ips_for_role e na i n role)
                   (\<lambda>b. ret (a @ b))))
           in bindP (ips_of (role_value Master)) (\<lambda>master_ips.
                bindP (ips_of (role_value Worker)) (\<lambda>worker_ips.
                  bindP (get_load_balancer_ip tx e nv) (\<lambda>lb.
                    act e ''set_load_balancing_config''
                      [PStr (tx_ip tx lb), PList (map (\<lambda>a. PStr (tx_ip tx a)) master_ips),
                       PList (map (\<lambda>a. PStr (tx_ip tx a)) worker_ips)]))))))"

section \<open>The check of static addresses\<close>

text \<open>
  The network of a MAC address: the key of \<open>IP_VERSIONS\<close> it is stored under and the addresses.
  Assigning a dictionary with one key replaces what was stored for the MAC before.
\<close>

type_synonym mac_network = "(string, string \<times> cidr list) dict"

definition IP_VERSIONS :: "(string \<times> string) list" where
  "IP_VERSIONS = [(''ipv4'', ''ipv4_addresses''), (''ipv6'', ''ipv6_addresses'')]"

definition nic_addresses :: "nic \<Rightarrow> string \<Rightarrow> cidr list" where
  "nic_addresses n version =
     (if version = ''ipv4_addresses'' then nic_ipv4_addresses n else nic_ipv6_addresses n)"

definition format_nic :: "nic \<Rightarrow> mac_network \<Rightarrow> mac_network" where
  "format_nic n net =
     fold (\<lambda>version net. if nic_addresses n version \<noteq> []
             then dict_set (nic_mac n) (version, nic_addresses n version) net else net)
       (map snd IP_VERSIONS) net"

definition format_host_current_network :: "host list \<Rightarrow> exn + mac_network" where
  "format_host_current_network hosts =
     sum_bind (sum_map (\<lambda>h. case h_inventory h of Has i \<Rightarrow> Inr i
                | Missing \<Rightarrow> Inl (KeyError ''inventory'') | Null \<Rightarrow> Inl AttributeError) hosts) (\<lambda>invs.
       Inr (fold format_nic (concat (map inv_interfaces invs)) []))"

definition conf_addresses :: "ip_conf \<Rightarrow> cidr list" where
  "conf_addresses conf =
     (case conf of
        IpDisabled \<Rightarrow> []
      | IpStatic a n \<Rightarrow> [\<lparr>cidr_version = ip_version a, cidr_value = ip_value a, cidr_prefixlen = n\<rparr>])"

definition iface_conf :: "iface \<Rightarrow> string \<Rightarrow> ip_conf option" where
  "iface_conf f version = (if version = ''ipv4'' then if_ipv4 f else if_ipv6 f)"

definition format_config_iface :: "string \<Rightarrow> string \<Rightarrow> iface \<Rightarrow> mac_network \<Rightarrow> mac_network" where
  "format_config_iface name mac f net =
     (if if_name f = name \<or> occurs_in ''bond'' (lower (if_name f)) then
        fold (\<lambda>(version, key) net.
            case iface_conf f version of
              None \<Rightarrow> net | Some conf \<Rightarrow> dict_set mac (key, conf_addresses conf) net) IP_VERSIONS net
      else net)"

definition format_host_from_config_mapping_file :: "host_network list \<Rightarrow> mac_network" where
  "format_host_from_config_mapping_file config =
     fold (\<lambda>h net. fold (\<lambda>(mac, name) net. fold (format_config_iface name mac) (hw_interfaces h) net)
             (hw_mac_map h) net) config []"

text \<open>
  The failures found for one MAC address of the configuration. \<open>version not in
  config_host_network\<close> looks a version up among the MAC addresses, and \<open>addr\<close> is looked up
  in the list it comes from.
\<close>

fun mac_failures :: "bool \<Rightarrow> mac_network \<Rightarrow> mac_network \<Rightarrow> string \<Rightarrow> exn + nat" where
  "mac_failures is_bonded current config mac =
     (if dict_get current mac = None \<and> \<not> is_bonded then Inr 1
      else
        foldl (\<lambda>acc version. sum_bind acc (\<lambda>n.
            if dict_get config version = None then Inr n
            else
              (case dict_get config mac of
                 None \<Rightarrow> Inl (KeyError mac)
               | Some (key, addrs) \<Rightarrow>
                   if key \<noteq> version then Inl (KeyError version)
                   else Inr (n + length (filter (\<lambda>addr. addr \<notin> set addrs) addrs)))))
          (Inr 0) (map snd IP_VERSIONS))"

definition static_ip_failures :: "bool \<Rightarrow> mac_network \<Rightarrow> mac_network \<Rightarrow> exn + nat" where
  "static_ip_failures is_bonded current config =
     sum_bind (sum_map (\<lambda>(mac, _). mac_failures is_bonded current config mac) config) (\<lambda>ns. Inr (sum_list ns))"

definition check_static_ip :: "bool \<Rightarrow> host list \<Rightarrow> host_network list \<Rightarrow> exn + unit" where
  "check_static_ip is_bonded hosts config =
     sum_bind (format_host_current_network hosts) (\<lambda>current.
       if current = [] then Inl GenericException
       else
         (let config_net = format_host_from_config_mapping_file config
          in if config_net = [] then Inl GenericException
             else sum_bind (static_ip_failures is_bonded current config_net) (\<lambda>n.
               if n \<noteq> 0 then Inl AssertionError else Inr ())))"

text \<open>\<open>config\<close>: the static network configuration, parsed; \<open>None\<close> if there is none.\<close>

definition validate_static_ip ::
  "('z cluster_state_scheme, unit) waiter \<Rightarrow> env \<Rightarrow> nodes_env \<Rightarrow> host_network list option \<Rightarrow> ('z, unit) cprog" where
  "validate_static_ip wait e nv config =
     (case config of
        None \<Rightarrow> ret ()
      | Some config \<Rightarrow>
          with_cluster_id (\<lambda>i.
            thenP (base_wait_until_hosts_are_discovered wait e nv False None i)
              (bindP (get_cluster_hosts e i False) (\<lambda>hosts.
                 bindP (reads (\<lambda>s. truth (ie_cfg s ''is_bonded''))) (\<lambda>is_bonded.
                   sum_prog (check_static_ip is_bonded hosts config))))))"

section \<open>Properties\<close>

subsection \<open>Looking for the node of a host\<close>

lemma find_matching_node_Some:
  "find_matching_node h ns = Some n \<Longrightarrow>
     n \<in> set ns \<and> (\<exists>m \<in> set (nf_macs n). lower m \<in> set (ch_macs h))"
  by (induction ns) (auto simp: list_ex_iff split: if_splits)

lemma find_matching_node_None:
  "find_matching_node h ns = None \<longleftrightarrow> (\<forall>n \<in> set ns. \<forall>m \<in> set (nf_macs n). lower m \<notin> set (ch_macs h))"
  by (induction ns) (auto simp: list_ex_iff)

text \<open>If no MAC address belongs to two nodes, upper and lower case counting as the same, the node
  found for a host is the only node that shares a MAC address with it, in whatever order the
  nodes are listed; and none is found only if no node shares one.\<close>

lemma matching_node_unique:
  assumes "\<And>n n' m m'. n \<in> set nodes \<Longrightarrow> n' \<in> set nodes \<Longrightarrow> m \<in> set (nf_macs n) \<Longrightarrow> m' \<in> set (nf_macs n') \<Longrightarrow>
      lower m \<in> set (ch_macs h) \<Longrightarrow> lower m' \<in> set (ch_macs h) \<Longrightarrow> n = n'"
    and "n \<in> set nodes" and "m \<in> set (nf_macs n)" and "lower m \<in> set (ch_macs h)"
  shows "find_matching_node h nodes = Some n"
proof (cases "find_matching_node h nodes")
  case None
  then show ?thesis using assms(2,3,4) by (auto simp: find_matching_node_None)
next
  case (Some n')
  from find_matching_node_Some [OF this] obtain m' where
    "n' \<in> set nodes" "m' \<in> set (nf_macs n')" "lower m' \<in> set (ch_macs h)" by auto
  then have "n = n'" using assms by metis
  then show ?thesis using Some by simp
qed

definition sample_nic :: "string \<Rightarrow> nic" where
  "sample_nic mac = \<lparr>nic_name = ''eth0'', nic_mac = mac,
     nic_ipv4_addresses = [\<lparr>cidr_version = V4, cidr_value = 266, cidr_prefixlen = 24\<rparr>], nic_ipv6_addresses = []\<rparr>"

definition sample_inventory :: "string \<Rightarrow> inventory" where
  "sample_inventory mac = \<lparr>inv_hostname = ''h'', inv_interfaces = [sample_nic mac], inv_disks = []\<rparr>"

definition sample_node :: "string \<Rightarrow> string \<Rightarrow> node_info" where
  "sample_node n mac = \<lparr>nf_name = n, nf_role = ''master'', nf_macs = [mac]\<rparr>"

lemma matching_node_unique_witness:
  "find_matching_node (sample_host ''h'' [] [], sample_inventory ''0a'') [sample_node ''x'' ''0b'', sample_node ''y'' ''0A'']
     = Some (sample_node ''y'' ''0A'')"
proof (rule matching_node_unique)
  show "lower ''0A'' \<in> set (ch_macs (sample_host ''h'' [] [], sample_inventory ''0a''))" by code_simp
next
  fix n n' m m'
  assume "n \<in> set [sample_node ''x'' ''0b'', sample_node ''y'' ''0A'']"
    "n' \<in> set [sample_node ''x'' ''0b'', sample_node ''y'' ''0A'']"
    "m \<in> set (nf_macs n)" "m' \<in> set (nf_macs n')"
    "lower m \<in> set (ch_macs (sample_host ''h'' [] [], sample_inventory ''0a''))"
    "lower m' \<in> set (ch_macs (sample_host ''h'' [] [], sample_inventory ''0a''))"
  moreover have "lower ''0b'' \<notin> set (ch_macs (sample_host ''h'' [] [], sample_inventory ''0a''))" by code_simp
  ultimately show "n = n'" by (auto simp: sample_node_def)
qed (simp_all add: sample_node_def)

subsection \<open>Networks of the hosts\<close>

lemma check_hosts_network: "check_hosts nv (get_cidr_by_interface a) hosts = Inr ()"
  by (induction hosts) (simp_all add: get_cidr_by_interface_def ip_network_interface_network)

lemma matching_cidrs_all:
  "(\<forall>c \<in> set cs. \<exists>a. c = get_cidr_by_interface a) \<Longrightarrow> matching_cidrs nv hosts cs = Inr (set cs)"
  by (induction cs) (auto simp: check_hosts_network)

text \<open>The networks reported as matching all hosts are the networks of any host: no network is
  left out because some host has no address in it.\<close>

lemma matching_cidrs_ignore_hosts:
  assumes set: "set (tx_iter tx (get_cluster_cidrs nv hosts)) = get_cluster_cidrs nv hosts"
  shows "get_cluster_matching_cidrs tx nv hosts = Inr (get_cluster_cidrs nv hosts)"
proof -
  have "\<forall>c \<in> set (tx_iter tx (get_cluster_cidrs nv hosts)). \<exists>a. c = get_cidr_by_interface a"
    using set by (auto simp: get_cluster_cidrs_def)
  from matching_cidrs_all [OF this] show ?thesis
    by (simp add: get_cluster_matching_cidrs_def set)
qed

definition sample_texts :: "cidr list \<Rightarrow> texts" where
  "sample_texts order = \<lparr>tx_ip = (\<lambda>_. []), tx_net = (\<lambda>_. []), tx_iter = (\<lambda>_. order)\<rparr>"

definition sample_nodes :: nodes_env where
  "sample_nodes = \<lparr>nv_nodes_count = 1, nv_masters_count = 1, nv_workers_count = 0, nv_arbiters_count = 0,
     nv_is_ipv4 = True, nv_is_ipv6 = False, nv_get_nodes = (\<lambda>_. Inr []), nv_tf_platform = ''baremetal'',
     nv_primary_cidr = Inr None, nv_provisioning_cidr = Inr None, nv_vips = Inr None,
     nv_machine_addresses = Inr (PList [])\<rparr>"

lemma matching_cidrs_ignore_hosts_witness:
  "get_cluster_matching_cidrs (sample_texts [\<lparr>cidr_version = V4, cidr_value = 256, cidr_prefixlen = 24\<rparr>]) sample_nodes
       [(sample_host ''a'' [] [], sample_inventory ''0a''),
        (sample_host ''b'' [] [], (sample_inventory ''0b'')\<lparr>inv_interfaces := []\<rparr>)]
     = Inr {\<lparr>cidr_version = V4, cidr_value = 256, cidr_prefixlen = 24\<rparr>}"
proof -
  let ?hosts = "[(sample_host ''a'' [] [], sample_inventory ''0a''),
        (sample_host ''b'' [] [], (sample_inventory ''0b'')\<lparr>inv_interfaces := []\<rparr>)]"
  have own: "get_cluster_cidrs sample_nodes ?hosts = {\<lparr>cidr_version = V4, cidr_value = 256, cidr_prefixlen = 24\<rparr>}"
    by (simp add: get_cluster_cidrs_def host_addresses_def sample_nodes_def ch_ipv4_addresses_def
        sample_inventory_def sample_nic_def get_cidr_by_interface_def interface_network_def host_span_def)
  show ?thesis
    by (subst matching_cidrs_ignore_hosts) (simp_all add: own sample_texts_def)
qed

subsection \<open>The check of static addresses\<close>

lemma mac_failures_present:
  "dict_get config ''ipv4_addresses'' = None \<Longrightarrow> dict_get config ''ipv6_addresses'' = None \<Longrightarrow>
     mac_failures is_bonded current config mac = (if dict_get current mac = None \<and> \<not> is_bonded then Inr 1 else Inr 0)"
  by (simp add: IP_VERSIONS_def)

text \<open>The check of static addresses looks at MAC addresses only: if the service reports every MAC
  address of the configuration, it passes whatever addresses the hosts really have.\<close>

lemma static_ip_check_sees_macs_only:
  assumes "format_host_current_network hosts = Inr current" and "current \<noteq> []"
    and "format_host_from_config_mapping_file config \<noteq> []"
    and "\<And>mac. mac \<in> set (map fst (format_host_from_config_mapping_file config)) \<Longrightarrow>
      dict_get current mac \<noteq> None \<and> mac \<noteq> ''ipv4_addresses'' \<and> mac \<noteq> ''ipv6_addresses''"
  shows "check_static_ip is_bonded hosts config = Inr ()"
proof -
  let ?net = "format_host_from_config_mapping_file config"
  have nokey: "dict_get ?net ''ipv4_addresses'' = None" "dict_get ?net ''ipv6_addresses'' = None"
    using assms(4) by (auto simp: map_of_eq_None_iff)
  have "sum_map (\<lambda>(mac, _). mac_failures is_bonded current ?net mac) xs = Inr (map (\<lambda>_. 0) xs)"
    if "set xs \<subseteq> set ?net" for xs
    using that
  proof (induction xs)
    case (Cons x xs)
    obtain mac v where x: "x = (mac, v)" by (cases x)
    have "mac \<in> set (map fst ?net)" using Cons.prems by (force simp: x)
    then have "mac_failures is_bonded current ?net mac = Inr 0"
      using assms(4) unfolding mac_failures_present [OF nokey] by simp
    then show ?case using Cons by (simp add: x del: mac_failures.simps)
  qed simp
  then have "static_ip_failures is_bonded current ?net = Inr 0"
    by (simp add: static_ip_failures_def)
  then show ?thesis using assms(1,2,3) by (simp add: check_static_ip_def)
qed

definition sample_host_network :: host_network where
  "sample_host_network =
     \<lparr>hw_interfaces = [\<lparr>if_name = ''eth0'', if_type = ''ethernet'',
        if_ipv4 = Some (IpStatic \<lparr>ip_version = V4, ip_value = 999\<rparr> 24), if_ipv6 = None,
        if_link_aggregation = None, if_vlan = None\<rparr>],
      hw_dns_servers = [], hw_routes = [], hw_mac_map = [(''0a'', ''eth0'')]\<rparr>"

lemma static_ip_check_sees_macs_only_witness:
  "check_static_ip False [(sample_host ''h'' [] [])\<lparr>h_inventory := Has (sample_inventory ''0a'')\<rparr>]
     [sample_host_network] = Inr ()"
proof (rule static_ip_check_sees_macs_only)
  show "format_host_current_network [(sample_host ''h'' [] [])\<lparr>h_inventory := Has (sample_inventory ''0a'')\<rparr>]
      = Inr [(''0a'', (''ipv4_addresses'', [\<lparr>cidr_version = V4, cidr_value = 266, cidr_prefixlen = 24\<rparr>]))]"
    by (simp add: format_host_current_network_def format_nic_def sample_inventory_def sample_nic_def
        nic_addresses_def IP_VERSIONS_def)
qed (simp_all add: format_host_from_config_mapping_file_def sample_host_network_def format_config_iface_def
    iface_conf_def IP_VERSIONS_def)

subsection \<open>Operators\<close>

text \<open>The operators of a new cluster are those of its bundles followed by those configured, each
  once, at the place where it occurs first.\<close>

lemma olm_operators_unique_and_complete:
  assumes "named_operators all_operators = Inr entries"
  shows "distinct entries
    \<and> set entries = (\<lambda>n. PDict [(''name'', n)]) ` set all_operators
    \<and> (distinct all_operators \<longrightarrow> entries = map (\<lambda>n. PDict [(''name'', n)]) all_operators)"
proof -
  have eq: "entries = map (\<lambda>n. PDict [(''name'', n)]) (first_occurrences all_operators)"
    using assms by (simp add: named_operators_def split: if_splits)
  then show ?thesis
    by (simp add: distinct_map inj_on_def first_occurrences_distinct)
qed

lemma olm_operators_unique_and_complete_witness:
  "named_operators [PStr ''odf'', PStr ''lso'', PStr ''odf''] = Inr [PDict [(''name'', PStr ''odf'')], PDict [(''name'', PStr ''lso'')]]
     \<and> distinct [PDict [(''name'', PStr ''odf'')], PDict [(''name'', PStr ''lso'')]]"
proof -
  have run: "named_operators [PStr ''odf'', PStr ''lso'', PStr ''odf'']
      = Inr [PDict [(''name'', PStr ''odf'')], PDict [(''name'', PStr ''lso'')]]"
    by (simp add: named_operators_def)
  with olm_operators_unique_and_complete [OF run] show ?thesis by blast
qed

text \<open>What \<open>set_olm_operator\<close> and \<open>unset_olm_operator\<close> ask the service for, given the cluster they read.\<close>

definition operators_sent :: "call list \<Rightarrow> string \<Rightarrow> pyval list \<Rightarrow> bool" where
  "operators_sent h i ops \<longleftrightarrow> last h = V2UpdateCluster i (PDict [(''olm_operators'', PList ops)])"

definition olm_entries :: "cluster \<Rightarrow> pyval list" where
  "olm_entries c = map operator_entry (filter (\<lambda>op. op_type op \<noteq> Builtin) (cl_operators c))"

text \<open>Setting an operator asks the service for the cluster's own operators and the new one, and
  unsetting it, on a cluster that has taken that over, asks for exactly the operators the
  cluster had before.\<close>

lemma set_then_unset_operator:
  assumes "set_olm_operator e name properties upd s = (Inr (), t)"
    and "e_get_cluster e (hist s) (text_of (cluster_id s)) = Inr c"
    and "name \<notin> set (map op_name (cl_operators c))"
    and "unset_olm_operator e name u = (Inr (), v)"
    and "e_get_cluster e (hist u) (text_of (cluster_id u)) = Inr c'"
    and "op_type new = Olm" and "op_name new = name" and "op_properties new = properties"
    and "cl_operators c' = cl_operators c @ [new]"
  shows "operators_sent (hist t) (text_of (cluster_id s)) (olm_entries c')
    \<and> operators_sent (hist v) (text_of (cluster_id u)) (olm_entries c)"
proof
  have new: "operator_entry new = PDict [(''name'', PStr name), (''properties'', properties)]"
    using assms(7,8) by (simp add: operator_entry_def)
  show "operators_sent (hist t) (text_of (cluster_id s)) (olm_entries c')"
    using assms(1,2,3,6,9) new
    by (auto simp: set_olm_operator_def with_cluster_id_def reads_app cluster_get_app bindP_def
        set_cc_def modifies_app api_update_cluster_def do_call_app operators_sent_def olm_entries_def Let_def)
  have "filter (\<lambda>op. \<not> (op_name op = name \<or> op_type op = Builtin)) (cl_operators c')
      = filter (\<lambda>op. op_type op \<noteq> Builtin) (cl_operators c)"
  proof -
    have "op_name op \<noteq> name" if "op \<in> set (cl_operators c)" for op
      using assms(3) that by auto
    then show ?thesis using assms(6,7,9) by (auto intro!: filter_cong)
  qed
  then show "operators_sent (hist v) (text_of (cluster_id u)) (olm_entries c)"
    using assms(4,5)
    by (auto simp: unset_olm_operator_def with_cluster_id_def reads_app cluster_get_app bindP_def
        api_update_cluster_def do_call_app operators_sent_def olm_entries_def)
qed

definition sample_state :: cluster_state where
  "sample_state = \<lparr>hist = [], ie_config = [(''infra_env_id'', PStr ''ie'')],
     cs_config = [(''cluster_id'', PStr ''c''), (''olm_operators'', PList [])],
     cs_has_infra_env = True, cs_is_installed = False\<rparr>"

definition sample_olm :: "string \<Rightarrow> monitored_operator" where
  "sample_olm n = \<lparr>op_name = n, op_type = Olm, op_status = [], op_properties = PNone\<rparr>"

definition lso_env :: env where
  "lso_env = (still_env (sample_cluster [] []))\<lparr>e_get_cluster := (\<lambda>h _.
     Inr ((sample_cluster [] [])\<lparr>cl_operators :=
       (if h = [] then [sample_olm ''odf''] else [sample_olm ''odf'', sample_olm ''lso''])\<rparr>))\<rparr>"

lemma set_then_unset_operator_witness:
  "\<exists>t v. set_olm_operator lso_env ''lso'' PNone False sample_state = (Inr (), t)
     \<and> unset_olm_operator lso_env ''lso'' t = (Inr (), v)
     \<and> operators_sent (hist v) ''c'' [operator_entry (sample_olm ''odf'')]"
proof -
  have set: "\<exists>t. set_olm_operator lso_env ''lso'' PNone False sample_state = (Inr (), t)
      \<and> hist t \<noteq> [] \<and> cluster_id t = PStr ''c''"
    by (simp add: set_olm_operator_def with_cluster_id_def reads_app cluster_get_app bindP_def set_cc_def
        modifies_app api_update_cluster_def do_call_app lso_env_def sample_state_def still_env_def
        sample_cluster_def cluster_id_def cfg_def text_of_def sample_olm_def dict_get_set Let_def)
  then obtain t where t: "set_olm_operator lso_env ''lso'' PNone False sample_state = (Inr (), t)"
    "hist t \<noteq> []" "cluster_id t = PStr ''c''" by blast
  have "\<exists>v. unset_olm_operator lso_env ''lso'' t = (Inr (), v)"
    using t(2,3)
    by (simp add: unset_olm_operator_def with_cluster_id_def reads_app cluster_get_app bindP_def
        api_update_cluster_def do_call_app lso_env_def still_env_def)
  then obtain v where v: "unset_olm_operator lso_env ''lso'' t = (Inr (), v)" ..
  have "e_get_cluster lso_env (hist sample_state) (text_of (cluster_id sample_state))
      = Inr ((sample_cluster [] [])\<lparr>cl_operators := [sample_olm ''odf'']\<rparr>)"
    by (simp add: lso_env_def sample_state_def)
  moreover have "e_get_cluster lso_env (hist t) (text_of (cluster_id t))
      = Inr ((sample_cluster [] [])\<lparr>cl_operators := [sample_olm ''odf'', sample_olm ''lso'']\<rparr>)"
    using t(2) by (simp add: lso_env_def)
  ultimately have "operators_sent (hist v) (text_of (cluster_id t))
      (olm_entries ((sample_cluster [] [])\<lparr>cl_operators := [sample_olm ''odf'']\<rparr>))"
    using set_then_unset_operator [OF t(1) _ _ v, of _ _ "sample_olm ''lso''"] by (simp add: sample_olm_def)
  then show ?thesis using t v by (auto simp: text_of_def olm_entries_def sample_olm_def)
qed

subsection \<open>Roles\<close>

text \<open>The hosts chosen for a role are hosts of the cluster whose requested name contains the role,
  in the order of the cluster and at most as many as requested; fewer are chosen only if no
  other host's name contains it.\<close>

lemma matching_hosts_chosen:
  assumes "matching_hosts hosts role n = Inr chosen"
  shows "chosen = take n (map (\<lambda>h. (h_id h, role))
      (filter (\<lambda>h. occurs_in role (the (h_requested_hostname h))) hosts))
    \<and> (\<forall>h \<in> set hosts. h_requested_hostname h \<noteq> None)"
proof -
  let ?name = "\<lambda>h. case h_requested_hostname h of None \<Rightarrow> Inl TypeError | Some n \<Rightarrow> Inr (occurs_in role n)"
  obtain bs where bs: "sum_map ?name hosts = Inr bs"
    and chosen: "chosen = take n (map (\<lambda>(h, _). (h_id h, role)) (filter snd (zip hosts bs)))"
    using assms by (auto simp: matching_hosts_def sum_bind_Inr_iff)
  have "map (\<lambda>(h, _). (h_id h, role)) (filter snd (zip hosts bs))
      = map (\<lambda>h. (h_id h, role)) (filter (\<lambda>h. occurs_in role (the (h_requested_hostname h))) hosts)
    \<and> (\<forall>h \<in> set hosts. h_requested_hostname h \<noteq> None)"
    using bs [unfolded sum_map_Inr_iff]
    by (induction hosts bs rule: list_all2_induct) (auto split: option.splits)
  then show ?thesis using chosen by simp
qed

lemma matching_hosts_chosen_witness:
  "matching_hosts [sample_host ''worker-0'' [] [], sample_host ''master-0'' [] []] ''master'' 3
     = Inr [(''master-0'', ''master'')]
   \<and> list_all (\<lambda>h. h_requested_hostname h \<noteq> None) [sample_host ''worker-0'' [] [], sample_host ''master-0'' [] []]"
proof -
  have run: "matching_hosts [sample_host ''worker-0'' [] [], sample_host ''master-0'' [] []] ''master'' 3
     = Inr [(''master-0'', ''master'')]"
    by (simp add: matching_hosts_def sample_host_def sublist_code)
  from matching_hosts_chosen [OF run] run show ?thesis by (simp add: list_all_iff)
qed

end
