(* ===== verification/Cluster.thy ===== *)
theory Cluster
  imports ClusterBase Operators
begin

text \<open>
  The rest of \<open>helper_classes/cluster.py\<close>: preparing nodes and networking, starting the
  installation with its fallbacks to \<open>ready\<close>, the waits on hosts, stages, operators,
  validations and the cluster, and the setters.
\<close>

section \<open>Waits\<close>

type_synonym 'z kwaiter = "('z cluster_state_scheme, unit) waiter"

definition sleepP :: "int \<Rightarrow> ((call, 'z) world_scheme, unit) prog" where
  "sleepP n = ext (\<lambda>_. Inr ()) (Sleep n)"

definition wait_status :: "'z kwaiter \<Rightarrow> env \<Rightarrow> string list \<Rightarrow> int \<Rightarrow> string list \<Rightarrow> ('z, unit) cprog" where
  "wait_status wait e statuses timeout break_statuses =
     with_cluster_id (\<lambda>i. wait_till_cluster_is_in_status wait e i statuses timeout 30 break_statuses)"

definition wait_all_hosts ::
  "'z kwaiter \<Rightarrow> env \<Rightarrow> nat \<Rightarrow> string list \<Rightarrow> string list \<Rightarrow> int \<Rightarrow> bool \<Rightarrow> bool \<Rightarrow> ('z, unit) cprog" where
  "wait_all_hosts wait e nodes_count statuses status_info timeout fall_on_error_status fall_on_pending_status =
     with_cluster_id (\<lambda>i. wait_till_all_hosts_are_in_status wait e i (int nodes_count) statuses status_info
       timeout fall_on_error_status 5 fall_on_pending_status)"

definition wait_some_host ::
  "'z kwaiter \<Rightarrow> env \<Rightarrow> nat \<Rightarrow> string list \<Rightarrow> string list \<Rightarrow> int \<Rightarrow> bool \<Rightarrow> bool \<Rightarrow> ('z, unit) cprog" where
  "wait_some_host wait e nodes_count statuses status_info timeout fall_on_error_status fall_on_pending_status =
     with_cluster_id (\<lambda>i. wait_till_at_least_one_host_is_in_status wait e i statuses status_info
       (int nodes_count) timeout fall_on_error_status fall_on_pending_status 5)"

definition wait_some_stage :: "'z kwaiter \<Rightarrow> env \<Rightarrow> int \<Rightarrow> host_stage list \<Rightarrow> ('z, unit) cprog" where
  "wait_some_stage wait e nodes_count stages =
     with_cluster_id (\<lambda>i. wait_till_at_least_one_host_is_in_stage wait e i (map stage_value stages)
       nodes_count (CLUSTER_INSTALLATION_TIMEOUT div 2) 5)"

definition wait_until_hosts_are_disconnected :: "'z kwaiter \<Rightarrow> env \<Rightarrow> nodes_env \<Rightarrow> nat option \<Rightarrow> ('z, unit) cprog" where
  "wait_until_hosts_are_disconnected wait e nv nodes_count =
     wait_all_hosts wait e (num_or nodes_count (nv_nodes_count nv)) [ns_value NS_Disconnected] ['''']
       DISCONNECTED_TIMEOUT True False"

definition wait_until_hosts_use_agent_image :: "'z kwaiter \<Rightarrow> env \<Rightarrow> string \<Rightarrow> ('z, unit) cprog" where
  "wait_until_hosts_use_agent_image wait e img =
     with_cluster_id (\<lambda>i. wait_till_all_hosts_use_agent_image wait e i img NODES_REGISTERED_TIMEOUT 5)"

definition wait_until_hosts_are_insufficient :: "'z kwaiter \<Rightarrow> env \<Rightarrow> nodes_env \<Rightarrow> nat option \<Rightarrow> ('z, unit) cprog" where
  "wait_until_hosts_are_insufficient wait e nv nodes_count =
     wait_all_hosts wait e (num_or nodes_count (nv_nodes_count nv)) [ns_value NS_Insufficient] ['''']
       CLUSTER_INSTALLATION_TIMEOUT True False"

definition wait_for_installing_in_progress :: "'z kwaiter \<Rightarrow> env \<Rightarrow> nat \<Rightarrow> ('z, unit) cprog" where
  "wait_for_installing_in_progress wait e nodes_count =
     wait_some_host wait e nodes_count [ns_value NS_InstallingInProgress] [''''] INSTALLING_IN_PROGRESS_TIMEOUT
       True False"

definition wait_for_write_image_to_disk :: "'z kwaiter \<Rightarrow> env \<Rightarrow> nat \<Rightarrow> ('z, unit) cprog" where
  "wait_for_write_image_to_disk wait e nodes_count =
     wait_some_stage wait e (int nodes_count) [WriteImageToDisk, Rebooting]"

definition wait_for_host_status :: "'z kwaiter \<Rightarrow> env \<Rightarrow> string list \<Rightarrow> bool \<Rightarrow> nat \<Rightarrow> bool \<Rightarrow> ('z, unit) cprog" where
  "wait_for_host_status wait e statuses fall_on_error_status nodes_count fall_on_pending_status =
     wait_some_host wait e nodes_count statuses [''''] CLUSTER_INSTALLATION_TIMEOUT fall_on_error_status
       fall_on_pending_status"

definition wait_for_specific_host_status ::
  "'z kwaiter \<Rightarrow> env \<Rightarrow> host \<Rightarrow> string list \<Rightarrow> string list \<Rightarrow> nat \<Rightarrow> int \<Rightarrow> ('z, unit) cprog" where
  "wait_for_specific_host_status wait e h statuses status_info nodes_count timeout =
     with_cluster_id (\<lambda>i. wait_till_specific_host_is_in_status wait e i (h_requested_hostname h)
       (int nodes_count) statuses status_info timeout True 5)"

text \<open>\<open>all_host_stages[index:]\<close>, or from the next stage on if the stage itself does not count.\<close>

definition stages_from :: "host_stage \<Rightarrow> bool \<Rightarrow> host_stage list" where
  "stages_from stage inclusive =
     (case py_index all_host_stages stage of
        Inl _ \<Rightarrow> []
      | Inr i \<Rightarrow> if inclusive then drop i all_host_stages else drop (i + 1) all_host_stages)"

definition wait_for_specific_host_stage ::
  "'z kwaiter \<Rightarrow> env \<Rightarrow> host \<Rightarrow> host_stage \<Rightarrow> bool \<Rightarrow> ('z, unit) cprog" where
  "wait_for_specific_host_stage wait e h stage inclusive =
     with_cluster_id (\<lambda>i. wait_till_specific_host_is_in_stage wait e i (h_requested_hostname h)
       (map stage_value (stages_from stage inclusive)) 1 (CLUSTER_INSTALLATION_TIMEOUT div 2) 5)"

definition wait_for_hosts_stage :: "'z kwaiter \<Rightarrow> env \<Rightarrow> nodes_env \<Rightarrow> host_stage \<Rightarrow> bool \<Rightarrow> ('z, unit) cprog" where
  "wait_for_hosts_stage wait e nv stage inclusive =
     wait_some_stage wait e (int (nv_nodes_count nv)) (stages_from stage inclusive)"

definition wait_for_cluster_in_error_status :: "'z kwaiter \<Rightarrow> env \<Rightarrow> ('z, unit) cprog" where
  "wait_for_cluster_in_error_status wait e = wait_status wait e [cs_value CS_Error] ERROR_TIMEOUT []"

definition wait_for_pending_for_input_status :: "'z kwaiter \<Rightarrow> env \<Rightarrow> ('z, unit) cprog" where
  "wait_for_pending_for_input_status wait e =
     wait_status wait e [cs_value CS_PendingForInput] PENDING_USER_ACTION_TIMEOUT []"

definition wait_for_at_least_one_host_to_boot_during_install :: "'z kwaiter \<Rightarrow> env \<Rightarrow> nat \<Rightarrow> ('z, unit) cprog" where
  "wait_for_at_least_one_host_to_boot_during_install wait e nodes_count =
     wait_some_stage wait e (int nodes_count) [Rebooting]"

text \<open>All masters but the bootstrap node.\<close>

definition wait_for_non_bootstrap_masters ::
  "'z kwaiter \<Rightarrow> env \<Rightarrow> nodes_env \<Rightarrow> host_stage \<Rightarrow> nat option \<Rightarrow> ('z, unit) cprog" where
  "wait_for_non_bootstrap_masters wait e nv stage num_masters =
     wait_some_stage wait e
       (int (case num_masters of None \<Rightarrow> nv_masters_count nv | Some n \<Rightarrow> n) - 1) [stage]"

definition wait_for_one_host_to_be_in_wrong_boot_order :: "'z kwaiter \<Rightarrow> env \<Rightarrow> bool \<Rightarrow> bool \<Rightarrow> ('z, unit) cprog" where
  "wait_for_one_host_to_be_in_wrong_boot_order wait e fall_on_error_status fall_on_pending_status =
     wait_some_host wait e 1 [ns_value NS_InstallingPendingUserAction] [WRONG_BOOT_ORDER]
       PENDING_USER_ACTION_TIMEOUT fall_on_error_status fall_on_pending_status"

definition wait_for_at_least_one_host_to_be_in_reboot_timeout ::
  "'z kwaiter \<Rightarrow> env \<Rightarrow> bool \<Rightarrow> nat \<Rightarrow> bool \<Rightarrow> ('z, unit) cprog" where
  "wait_for_at_least_one_host_to_be_in_reboot_timeout wait e fall_on_error_status nodes_count
       fall_on_pending_status =
     wait_some_host wait e nodes_count [ns_value NS_InstallingPendingUserAction]
       [REBOOT_TIMEOUT, OLD_REBOOT_TIMEOUT] PENDING_USER_ACTION_TIMEOUT fall_on_error_status
       fall_on_pending_status"

definition wait_for_hosts_to_be_in_wrong_boot_order ::
  "'z kwaiter \<Rightarrow> env \<Rightarrow> nat \<Rightarrow> int \<Rightarrow> bool \<Rightarrow> bool \<Rightarrow> ('z, unit) cprog" where
  "wait_for_hosts_to_be_in_wrong_boot_order wait e nodes_count timeout fall_on_error_status
       fall_on_pending_status =
     wait_all_hosts wait e nodes_count [ns_value NS_InstallingPendingUserAction] [WRONG_BOOT_ORDER] timeout
       fall_on_error_status fall_on_pending_status"

definition wait_for_ready_to_install :: "'z kwaiter \<Rightarrow> env \<Rightarrow> ('z, unit) cprog" where
  "wait_for_ready_to_install wait e =
     thenP (wait_status wait e [cs_value CS_Ready] READY_TIMEOUT [])
       (thenP (sleepP 10) (wait_status wait e [cs_value CS_Ready] READY_TIMEOUT []))"

definition cluster_is_in_status :: "env \<Rightarrow> cluster_status \<Rightarrow> ('z, bool option) cprog" where
  "cluster_is_in_status e status = with_cluster_id (\<lambda>i. is_cluster_in_status e i [cs_value status])"

definition wait_for_hosts_to_install ::
  "'z kwaiter \<Rightarrow> env \<Rightarrow> nodes_env \<Rightarrow> int \<Rightarrow> bool \<Rightarrow> nat option \<Rightarrow> bool \<Rightarrow> ('z, unit) cprog" where
  "wait_for_hosts_to_install wait e nv timeout fall_on_error_status nodes_count fall_on_pending_status =
     wait_all_hosts wait e (num_or nodes_count (nv_nodes_count nv)) [cs_value CS_Installed] [''''] timeout
       fall_on_error_status fall_on_pending_status"

definition wait_for_operators_to_finish :: "'z kwaiter \<Rightarrow> env \<Rightarrow> int \<Rightarrow> bool \<Rightarrow> ('z, unit) cprog" where
  "wait_for_operators_to_finish wait e timeout fall_on_error_status =
     with_cluster_id (\<lambda>i. bindP (get_cluster_operators e i) (\<lambda>ops.
       thenP
         (wait_till_all_operators_are_in_status wait e i
            (int (length (filter_operators_by_type ops [Builtin]))) [Builtin]
            (if fall_on_error_status then [''available''] else [''available'', ''failed'']) timeout False 10)
         (wait_till_all_operators_are_in_status wait e i
            (int (length (filter_operators_by_type ops [Olm]))) [Olm]
            [''available'', ''failed''] timeout fall_on_error_status 10)))"

definition wait_for_install :: "'z kwaiter \<Rightarrow> env \<Rightarrow> int \<Rightarrow> ('z, unit) cprog" where
  "wait_for_install wait e timeout = wait_status wait e [cs_value CS_Installed] timeout []"

definition wait_for_cluster_to_be_in_installing_pending_user_action_status ::
  "'z kwaiter \<Rightarrow> env \<Rightarrow> ('z, unit) cprog" where
  "wait_for_cluster_to_be_in_installing_pending_user_action_status wait e =
     wait_status wait e [cs_value CS_InstallingPendingUserAction] PENDING_USER_ACTION_TIMEOUT []"

definition wait_for_cluster_to_be_in_installing_status :: "'z kwaiter \<Rightarrow> env \<Rightarrow> ('z, unit) cprog" where
  "wait_for_cluster_to_be_in_installing_status wait e =
     wait_status wait e [cs_value CS_Installing] START_CLUSTER_INSTALLATION_TIMEOUT []"

definition wait_for_cluster_to_be_in_finalizing_status :: "'z kwaiter \<Rightarrow> env \<Rightarrow> ('z, unit) cprog" where
  "wait_for_cluster_to_be_in_finalizing_status wait e =
     wait_status wait e [cs_value CS_Finalizing, cs_value CS_Installed] CLUSTER_INSTALLATION_TIMEOUT
       [cs_value CS_Error]"

definition wait_for_cluster_to_be_in_status :: "'z kwaiter \<Rightarrow> env \<Rightarrow> string list \<Rightarrow> int \<Rightarrow> ('z, unit) cprog" where
  "wait_for_cluster_to_be_in_status wait e statuses timeout = wait_status wait e statuses timeout []"

section \<open>Starting the installation\<close>

text \<open>One attempt; \<open>fallback\<close> is what follows if the cluster is back in \<open>ready\<close>.\<close>

definition install_attempt :: "'z kwaiter \<Rightarrow> env \<Rightarrow> string \<Rightarrow> ('z, unit) cprog \<Rightarrow> ('z, unit) cprog" where
  "install_attempt wait e i fallback =
     thenP (api_install_cluster e i)
       (thenP (wait_till_cluster_is_in_status wait e i [cs_value CS_Installing, cs_value CS_Ready] ERROR_TIMEOUT 30 [])
         (bindP (is_cluster_in_status e i [cs_value CS_Ready]) (\<lambda>b.
            if is_true b then fallback else ret ())))"

primrec start_install :: "'z kwaiter \<Rightarrow> env \<Rightarrow> string \<Rightarrow> nat \<Rightarrow> ('z, unit) cprog" where
  "start_install wait e i 0 =
     install_attempt wait e i (raise ReturnedToReadyAfterInstallationStartsError)"
| "start_install wait e i (Suc retries) =
     install_attempt wait e i
       (thenP (sleepP DURATION_BETWEEN_INSTALLATION_RETRIES) (start_install wait e i retries))"

definition cluster_start_install :: "'z kwaiter \<Rightarrow> env \<Rightarrow> nat \<Rightarrow> ('z, unit) cprog" where
  "cluster_start_install wait e retries = with_cluster_id (\<lambda>i. start_install wait e i retries)"

definition cluster_download_kubeconfig :: "env \<Rightarrow> pyval \<Rightarrow> ('z, unit) cprog" where
  "cluster_download_kubeconfig e kubeconfig_path =
     bindP (reads (\<lambda>s. py_or kubeconfig_path (cc s ''kubeconfig_path''))) (\<lambda>path.
       with_cluster_id (\<lambda>i. api_download_kubeconfig e i (text_of path)))"

definition get_details :: "env \<Rightarrow> ('z, cluster) cprog" where
  "get_details e = with_cluster_id (\<lambda>i. cluster_get e i False)"

text \<open>The phases after the installation has started; the cluster is installed when all returned.\<close>

definition finish_install ::
  "'z kwaiter \<Rightarrow> env \<Rightarrow> nodes_env \<Rightarrow> bool \<Rightarrow> bool \<Rightarrow> bool \<Rightarrow> bool \<Rightarrow> bool \<Rightarrow> ('z, unit) cprog" where
  "finish_install wait e nv wait_for_hosts wait_for_operators wait_for_cluster_install download_kubeconfig
       fall_on_pending_status =
     thenP (whenP wait_for_hosts
              (wait_for_hosts_to_install wait e nv CLUSTER_INSTALLATION_TIMEOUT True None fall_on_pending_status))
     (thenP (whenP wait_for_operators (wait_for_operators_to_finish wait e CLUSTER_INSTALLATION_TIMEOUT True))
     (thenP (whenP wait_for_cluster_install (wait_for_install wait e CLUSTER_INSTALLATION_TIMEOUT))
     (thenP (whenP download_kubeconfig (cluster_download_kubeconfig e PNone))
     (bindP (get_details e) (\<lambda>_.
        modifies (\<lambda>s. s\<lparr>cs_is_installed := True\<rparr>))))))"

definition start_install_and_wait_for_installed ::
  "'z kwaiter \<Rightarrow> env \<Rightarrow> nodes_env \<Rightarrow> bool \<Rightarrow> bool \<Rightarrow> bool \<Rightarrow> bool \<Rightarrow> bool \<Rightarrow> ('z, unit) cprog" where
  "start_install_and_wait_for_installed wait e nv wait_for_hosts wait_for_operators wait_for_cluster_install
       download_kubeconfig fall_on_pending_status =
     thenP (cluster_start_install wait e 3)
       (finish_install wait e nv wait_for_hosts wait_for_operators wait_for_cluster_install
          download_kubeconfig fall_on_pending_status)"

definition start_install_s390x_and_wait_for_installed ::
  "'z kwaiter \<Rightarrow> env \<Rightarrow> nodes_env \<Rightarrow> bool \<Rightarrow> bool \<Rightarrow> bool \<Rightarrow> bool \<Rightarrow> bool \<Rightarrow> ('z, unit) cprog" where
  "start_install_s390x_and_wait_for_installed wait e nv wait_for_hosts wait_for_operators
       wait_for_cluster_install download_kubeconfig fall_on_pending_status =
     thenP (wait_for_ready_to_install wait e)
       (thenP (cluster_start_install wait e 3)
         (thenP (act e ''controller.check_vms_for_first_reboot_and_start'' [])
           (finish_install wait e nv wait_for_hosts wait_for_operators wait_for_cluster_install
              download_kubeconfig fall_on_pending_status)))"

section \<open>What the calls leave alone\<close>

text \<open>Between \<open>s\<close> and \<open>t\<close> there were calls only: the history grew, the rest is as it was.\<close>

definition only_calls :: "(call, 'z) world_scheme \<Rightarrow> (call, 'z) world_scheme \<Rightarrow> bool" where
  "only_calls s t \<longleftrightarrow> prefix (hist s) (hist t) \<and> world.more t = world.more s"

interpretation calls: state_rel "only_calls :: (call, 'z) world_scheme \<Rightarrow> _"
  by unfold_locales (auto simp: only_calls_def)

lemma only_calls_cluster:
  assumes "only_calls s t"
  shows "cs_config t = cs_config s" "cs_is_installed t = cs_is_installed s" "cluster_id t = cluster_id s"
  using assms by (cases s; cases t; simp add: only_calls_def cluster_id_def)+

lemma keeps_calls_ext: "keeps only_calls (ext f c)"
  by (simp add: keeps_def ext_def only_calls_def)

lemmas calls_intros =
  calls.keeps_intros keeps_sum_prog [OF calls.state_rel_axioms] keeps_calls_ext

lemma keeps_calls_do [intro]: "keeps only_calls (do_call e c)" "keeps only_calls (act e w args)"
  by (auto simp: do_call_def act_def intro: keeps_calls_ext)

lemma keeps_calls_reads [intro]:
  "keeps only_calls (cluster_get e cid u)"
  "keeps only_calls (get_cluster_hosts e cid u)"
  "keeps only_calls (get_cluster_operators e cid)"
  "keeps only_calls (is_cluster_in_status e cid statuses)"
  unfolding get_cluster_hosts_def cluster_get_def get_cluster_operators_def is_cluster_in_status_def
  by (auto intro!: calls_intros)

lemma keeps_calls_with_cluster_id [intro]:
  "(\<And>i. keeps only_calls (f i)) \<Longrightarrow> keeps only_calls (with_cluster_id f)"
  unfolding with_cluster_id_def by (auto intro!: calls_intros)

lemma keeps_calls_waits [intro]:
  assumes "waits_by wait"
  shows "keeps only_calls (wait_till_cluster_is_in_status wait e cid statuses timeout interval bs)"
    "keeps only_calls (wait_till_all_hosts_are_in_status wait e cid n statuses info timeout fe interval fp)"
    "keeps only_calls (wait_till_all_operators_are_in_status wait e cid n types statuses timeout fe interval)"
  unfolding wait_till_cluster_is_in_status_def wait_till_all_hosts_are_in_status_def
    wait_till_all_operators_are_in_status_def operators_check_def are_operators_in_status_def
  by (auto intro!: calls_intros calls.keeps_wait [OF assms] split: option.split)

lemma keeps_calls_install_attempt:
  "waits_by wait \<Longrightarrow> keeps only_calls fallback \<Longrightarrow> keeps only_calls (install_attempt wait e i fallback)"
  unfolding install_attempt_def api_install_cluster_def by (auto intro!: calls_intros)

lemma keeps_calls_start_install [intro]: "waits_by wait \<Longrightarrow> keeps only_calls (start_install wait e i n)"
  by (induction n)
    (auto simp: sleepP_def intro!: keeps_calls_install_attempt calls_intros)

lemma keeps_calls_phases [intro]:
  assumes "waits_by wait"
  shows "keeps only_calls (cluster_start_install wait e n)"
    "keeps only_calls (wait_for_hosts_to_install wait e nv timeout fe cnt fp)"
    "keeps only_calls (wait_for_operators_to_finish wait e timeout fe)"
    "keeps only_calls (wait_for_install wait e timeout)"
    "keeps only_calls (cluster_download_kubeconfig e path)"
    "keeps only_calls (get_details e)"
    "keeps only_calls (wait_for_ready_to_install wait e)"
  unfolding cluster_start_install_def wait_for_hosts_to_install_def wait_all_hosts_def
    wait_for_operators_to_finish_def wait_for_install_def wait_status_def cluster_download_kubeconfig_def
    api_download_kubeconfig_def get_details_def wait_for_ready_to_install_def sleepP_def
  using assms by (auto intro!: calls_intros)

section \<open>Starting the installation\<close>

text \<open>The requests to install the cluster \<open>i\<close> among the calls.\<close>

definition installs :: "string \<Rightarrow> call list \<Rightarrow> nat" where
  "installs i cs = length (filter (\<lambda>c. c = V2InstallCluster i) cs)"

lemma installs_simps [simp]:
  "installs i [] = 0" "installs i (cs @ ds) = installs i cs + installs i ds"
  "installs i (c # cs) = (if c = V2InstallCluster i then 1 else 0) + installs i cs"
  by (simp_all add: installs_def)

lemma installs_queries: "list_all is_query cs \<Longrightarrow> installs i cs = 0"
  by (induction cs) auto

text \<open>The service itself never answers with the exception that the code raises at the end.\<close>

definition never_falls_back :: "env \<Rightarrow> bool" where
  "never_falls_back e \<longleftrightarrow>
     (\<forall>h c. e_do e h c \<noteq> Inl ReturnedToReadyAfterInstallationStartsError)
     \<and> (\<forall>h i. e_get_cluster e h i \<noteq> Inl ReturnedToReadyAfterInstallationStartsError)"

lemma wait_status_Inl:
  assumes "waits_by wait"
    and "wait_till_cluster_is_in_status wait e i statuses timeout interval [] s = (Inl x, t)"
  shows "x = TimeoutExpired \<or> (\<exists>h. e_get_cluster e h i = Inl x)"
proof -
  let ?p = "bindP (is_cluster_in_status e i statuses) (\<lambda>b. ret (truthy (is_true b)))"
  have no: "?p s' \<noteq> (Inl y, u)" for s' y u
    by (simp add: bindP_def is_cluster_in_status_app ret_def)
  then have "y = TimeoutExpired" if "wait ?p timeout interval no_exceptions s = (Inl y, u)" for y u
    using wait_Inl [OF assms(1) that] by blast
  then show ?thesis
    using assms(2) unfolding wait_till_cluster_is_in_status_def
    by (auto simp: try_except_def bindP_eq_Inl_iff cluster_get_app get_cluster_hosts_def prog_simps
        split: prod.splits sum.splits)
qed

text \<open>How one attempt ends: with an exception, with the cluster not in \<open>ready\<close>, or in \<open>fallback\<close>.\<close>

lemma install_attempt_cases:
  assumes "waits_by wait" and "install_attempt wait e i fallback s = (r, t)"
  obtains
    (failed) x qs where "r = Inl x" "hist t = hist s @ V2InstallCluster i # qs" "list_all is_query qs"
      "never_falls_back e \<Longrightarrow> x \<noteq> ReturnedToReadyAfterInstallationStartsError"
  | (started) qs where "r = Inr ()" "hist t = hist s @ V2InstallCluster i # qs @ [V2GetCluster i False]"
      "list_all is_query qs"
      "\<And>c. e_get_cluster e (hist s @ V2InstallCluster i # qs) i = Inr c \<Longrightarrow> cl_status c \<noteq> cs_value CS_Ready"
  | (again) u qs where "fallback u = (r, t)"
      "hist u = hist s @ V2InstallCluster i # qs @ [V2GetCluster i False]" "list_all is_query qs"
proof -
  let ?w = "wait_till_cluster_is_in_status wait e i [cs_value CS_Installing, cs_value CS_Ready] ERROR_TIMEOUT 30 []"
  let ?s = "s\<lparr>hist := hist s @ [V2InstallCluster i]\<rparr>"
  have run: "install_attempt wait e i fallback s =
      (case e_do e (hist s) (V2InstallCluster i) of
         Inl x \<Rightarrow> (Inl x, ?s)
       | Inr _ \<Rightarrow> thenP ?w (bindP (is_cluster_in_status e i [cs_value CS_Ready])
           (\<lambda>b. if is_true b then fallback else ret ())) ?s)"
    by (simp add: install_attempt_def api_install_cluster_def bindP_def do_call_app split: sum.split)
  obtain q v where w: "?w ?s = (q, v)" by force
  have "keeps only_queries ?w"
    unfolding wait_till_cluster_is_in_status_def
    by (auto intro!: queries_intros queries.keeps_wait [OF assms(1)])
  from keepsD [OF this w] obtain qs where qs: "hist v = hist s @ V2InstallCluster i # qs" "list_all is_query qs"
    by (auto simp: only_queries_def)
  show thesis
  proof (cases "e_do e (hist s) (V2InstallCluster i)")
    case (Inl x)
    then show thesis
      using assms(2)
      by (intro failed [of x "[]"]) (auto simp: run, metis never_falls_back_def)
  next
    case ok: (Inr z)
    show thesis
    proof (cases q)
      case (Inl x)
      then show thesis
        using assms(2) ok qs w wait_status_Inl [OF assms(1), of e i _ _ _ ?s x v]
        by (intro failed [of x qs]) (auto simp: run bindP_def never_falls_back_def)
    next
      case (Inr y)
      then show thesis
        using assms(2) ok qs w
        by (cases "\<exists>c. e_get_cluster e (hist v) i = Inr c \<and> cl_status c = cs_value CS_Ready")
          (auto simp: run bindP_def is_cluster_in_status_app is_true_def prog_simps split: sum.splits
            intro: started [of qs] again [of "v\<lparr>hist := hist v @ [V2GetCluster i False]\<rparr>" qs])
    qed
  qed
qed

lemma start_install_runs:
  assumes "waits_by wait"
  shows "start_install wait e i n s = (r, t) \<Longrightarrow>
    \<exists>cs. hist t = hist s @ cs \<and> 1 \<le> installs i cs \<and> installs i cs \<le> n + 1
      \<and> (r = Inr () \<longrightarrow> (\<exists>ds. cs = ds @ [V2GetCluster i False]
           \<and> (\<forall>c. e_get_cluster e (hist s @ ds) i = Inr c \<longrightarrow> cl_status c \<noteq> cs_value CS_Ready)))
      \<and> (r = Inl ReturnedToReadyAfterInstallationStartsError \<longrightarrow> never_falls_back e \<longrightarrow> installs i cs = n + 1)"
proof (induction n arbitrary: s)
  case 0
  then have "install_attempt wait e i (raise ReturnedToReadyAfterInstallationStartsError) s = (r, t)" by simp
  then show ?case
    by (rule install_attempt_cases [OF assms]) (auto simp: installs_queries prog_simps)
next
  case (Suc n)
  then have "install_attempt wait e i
      (thenP (sleepP DURATION_BETWEEN_INSTALLATION_RETRIES) (start_install wait e i n)) s = (r, t)" by simp
  then show ?case
  proof (rule install_attempt_cases [OF assms], goal_cases)
    case (3 u qs)
    let ?u = "u\<lparr>hist := hist u @ [Sleep DURATION_BETWEEN_INSTALLATION_RETRIES]\<rparr>"
    have "start_install wait e i n ?u = (r, t)"
      using 3(1) by (simp add: bindP_def sleepP_def ext_app)
    from Suc.IH [OF this] obtain cs where cs: "hist t = hist ?u @ cs" "1 \<le> installs i cs" "installs i cs \<le> n + 1"
      "r = Inr () \<longrightarrow> (\<exists>ds. cs = ds @ [V2GetCluster i False]
         \<and> (\<forall>c. e_get_cluster e (hist ?u @ ds) i = Inr c \<longrightarrow> cl_status c \<noteq> cs_value CS_Ready))"
      "r = Inl ReturnedToReadyAfterInstallationStartsError \<longrightarrow> never_falls_back e \<longrightarrow> installs i cs = n + 1"
      by blast
    show ?case
      using cs 3(2,3)
      by (intro exI [of _ "V2InstallCluster i # qs @ V2GetCluster i False #
            Sleep DURATION_BETWEEN_INSTALLATION_RETRIES # cs"])
        (auto simp: installs_queries)
  qed (auto simp: installs_queries)
qed

section \<open>Properties\<close>

text \<open>C0: Starting an installation asks for it at least once and at most once more than the retries
  allowed. If it returns normally, the last thing it did was to ask for the cluster, and the cluster was
  not back in \<open>ready\<close> (or its status could not be read). It gives up because of the fallback to \<open>ready\<close>
  only after all retries, provided the service never answers with that very exception.\<close>

theorem start_install_retries:
  assumes "waits_by wait" and "start_install wait e i n s = (r, t)"
  shows "\<exists>cs. hist t = hist s @ cs \<and> 1 \<le> installs i cs \<and> installs i cs \<le> n + 1
    \<and> (r = Inr () \<longrightarrow> (\<exists>ds. cs = ds @ [V2GetCluster i False]
         \<and> (\<forall>c. e_get_cluster e (hist s @ ds) i = Inr c \<longrightarrow> cl_status c \<noteq> cs_value CS_Ready)))
    \<and> (r = Inl ReturnedToReadyAfterInstallationStartsError \<longrightarrow> never_falls_back e \<longrightarrow> installs i cs = n + 1)"
  by (rule start_install_runs [OF assms])

definition sample_cluster_state :: "bool \<Rightarrow> cluster_state" where
  "sample_cluster_state installed =
     \<lparr>hist = [], ie_config = [], cs_config = [(''cluster_id'', PStr ''c''), (''kubeconfig_path'', PStr ''k'')],
      cs_has_infra_env = False, cs_is_installed = installed\<rparr>"

lemma start_install_back_to_ready:
  "start_install (poll_upto 0) (still_env (sample_cluster ''ready'' [])) ''c'' 1 (sample_cluster_state False) =
     (Inl ReturnedToReadyAfterInstallationStartsError,
      sample_cluster_state False\<lparr>hist := [V2InstallCluster ''c'', V2GetCluster ''c'' False, V2GetCluster ''c'' False,
        Sleep 30, V2InstallCluster ''c'', V2GetCluster ''c'' False, V2GetCluster ''c'' False]\<rparr>)"
  by (simp add: install_attempt_def api_install_cluster_def bindP_def do_call_app
      wait_till_cluster_is_in_status_def poll_upto.simps is_cluster_in_status_app try_except_def is_true_def
      concrete_env prog_simps sleepP_def ext_app sample_cluster_state_def
      DURATION_BETWEEN_INSTALLATION_RETRIES_def)

theorem start_install_retries_witness:
  "\<exists>cs. cs = [V2InstallCluster ''c'', V2GetCluster ''c'' False, V2GetCluster ''c'' False,
        Sleep 30, V2InstallCluster ''c'', V2GetCluster ''c'' False, V2GetCluster ''c'' False]
     \<and> installs ''c'' cs = 1 + 1"
proof -
  have never: "never_falls_back (still_env (sample_cluster ''ready'' []))"
    by (simp add: never_falls_back_def still_env_def)
  show ?thesis
    using start_install_retries [OF waits_by_poll_upto start_install_back_to_ready] never
    by (simp add: sample_cluster_state_def)
qed

text \<open>Waiting for a stage means waiting for that stage or a later one, and not inclusive for a
  strictly later one.\<close>

lemma stages_from_are_later:
  "set (stages_from s True) = {x. s \<le> x} \<and> set (stages_from s False) = {x. s < x}"
proof -
  have "x \<in> set (stages_from s True) \<longleftrightarrow> s \<le> x" and "x \<in> set (stages_from s False) \<longleftrightarrow> s < x" for x
    by (cases s; cases x; simp add: stages_from_def py_index_stage all_host_stages_def
        less_eq_host_stage_def less_host_stage_def)+
  then show ?thesis by blast
qed

lemma wait_for_install_seen:
  assumes "waits_by wait" and "wait_for_install wait e timeout s = (Inr (), t)"
  shows "observed e (text_of (cluster_id s)) s t (\<lambda>c. cl_status c = cs_value CS_Installed)"
proof -
  have "wait_till_cluster_is_in_status wait e (text_of (cluster_id s)) [cs_value CS_Installed] timeout 30 [] s
      = (Inr (), t)"
    using assms(2) by (simp add: wait_for_install_def wait_status_def with_cluster_id_def bindP_app)
  then have "wait (bindP (is_cluster_in_status e (text_of (cluster_id s)) [cs_value CS_Installed])
          (\<lambda>b. ret (truthy (is_true b)))) timeout 30 no_exceptions s = (Inr (), t)"
    unfolding wait_till_cluster_is_in_status_def
    by (auto simp: try_except_def reraise_never_returns split: prod.splits sum.splits)
  from wait_status_observed [OF assms(1) this] show ?thesis by (simp add: observed_def)
qed

text \<open>The service showed a cluster with \<open>P\<close> at some call after \<open>s\<close> and up to \<open>t\<close>.\<close>

definition seen_between ::
  "env \<Rightarrow> string \<Rightarrow> (call, 'z) world_scheme \<Rightarrow> (call, 'z) world_scheme \<Rightarrow> (cluster \<Rightarrow> bool) \<Rightarrow> bool" where
  "seen_between e i s t P \<longleftrightarrow>
     (\<exists>h c. prefix (hist s) h \<and> prefix (h @ [V2GetCluster i False]) (hist t) \<and> e_get_cluster e h i = Inr c \<and> P c)"

lemma observed_between:
  assumes "prefix (hist s) (hist s')" "observed e i s' t' P" "prefix (hist t') (hist t)"
  shows "seen_between e i s t P"
proof -
  obtain h c where "prefix (hist s') h" "hist t' = h @ [V2GetCluster i False]" "e_get_cluster e h i = Inr c" "P c"
    using assms(2) by (auto simp: observed_def)
  then show ?thesis
    unfolding seen_between_def using assms(1,3) prefix_order.trans by metis
qed

definition mark_installed :: "('z, unit) cprog" where
  "mark_installed = modifies (\<lambda>s. s\<lparr>cs_is_installed := True\<rparr>)"

text \<open>The phases of \<open>finish_install\<close> before the cluster is marked as installed.\<close>

lemma finish_install_split:
  "finish_install wait e nv wh wo wi dl fp =
     thenP (thenP (whenP wh (wait_for_hosts_to_install wait e nv CLUSTER_INSTALLATION_TIMEOUT True None fp))
              (whenP wo (wait_for_operators_to_finish wait e CLUSTER_INSTALLATION_TIMEOUT True)))
       (thenP (whenP wi (wait_for_install wait e CLUSTER_INSTALLATION_TIMEOUT))
         (thenP (thenP (whenP dl (cluster_download_kubeconfig e PNone)) (get_details e)) mark_installed))"
  by (simp add: finish_install_def bindP_assoc mark_installed_def)

lemma keeps_calls_Inl:
  assumes "keeps only_calls m" and "bindP m f s = (Inl x, t)"
    and "\<And>y u. m s = (Inr y, u) \<Longrightarrow> f y u = (Inl x, t) \<Longrightarrow> only_calls u t"
  shows "only_calls s t"
proof -
  obtain q u where q: "m s = (q, u)" by force
  from keepsD [OF assms(1) this] have "only_calls s u" .
  then show ?thesis
    using q assms(2,3) by (cases q) (auto simp: bindP_def intro: calls.rel_trans)
qed

lemma install_and_mark:
  assumes "waits_by wait" and "keeps only_calls start"
    and "thenP start (finish_install wait e nv wh wo True dl fp) s = (r, t)"
  shows "(r = Inr () \<longrightarrow> cs_is_installed t
            \<and> seen_between e (text_of (cluster_id s)) s t (\<lambda>c. cl_status c = cs_value CS_Installed))
    \<and> (\<forall>x. r = Inl x \<longrightarrow> only_calls s t)"
proof -
  let ?a = "thenP start
      (thenP (whenP wh (wait_for_hosts_to_install wait e nv CLUSTER_INSTALLATION_TIMEOUT True None fp))
         (whenP wo (wait_for_operators_to_finish wait e CLUSTER_INSTALLATION_TIMEOUT True)))"
  let ?b = "wait_for_install wait e CLUSTER_INSTALLATION_TIMEOUT"
  let ?c = "thenP (whenP dl (cluster_download_kubeconfig e PNone)) (get_details e)"
  have run: "thenP ?a (thenP ?b (thenP ?c mark_installed)) s = (r, t)"
    using assms(3) by (simp add: finish_install_split bindP_assoc prog_simps)
  have kept: "keeps only_calls ?a" "keeps only_calls ?b" "keeps only_calls ?c"
    using assms(1,2) by (auto intro!: calls_intros)
  have c: "only_calls u t" if "thenP ?c mark_installed u = (Inl x, t)" for x u
    by (rule keeps_calls_Inl [OF kept(3) that]) (simp add: mark_installed_def prog_simps)
  have b: "only_calls u t" if "thenP ?b (thenP ?c mark_installed) u = (Inl x, t)" for x u
    by (rule keeps_calls_Inl [OF kept(2) that]) (erule c)
  have fails: "only_calls s t" if "r = Inl x" for x
    using run unfolding that by (rule keeps_calls_Inl [OF kept(1)]) (erule b)
  have "cs_is_installed t \<and> seen_between e (text_of (cluster_id s)) s t (\<lambda>c. cl_status c = cs_value CS_Installed)"
    if "r = Inr ()"
  proof -
    from run that obtain s1 s2 s3 z where s1: "?a s = (Inr (), s1)" and s2: "?b s1 = (Inr (), s2)"
      and s3: "?c s2 = (Inr z, s3)" and t: "t = s3\<lparr>cs_is_installed := True\<rparr>"
      by (auto simp: mark_installed_def prog_simps elim!: bindP_InrE)
    have "only_calls s s1" "only_calls s2 s3"
      using keepsD [OF kept(1) s1] keepsD [OF kept(3) s3] by auto
    then have "cluster_id s1 = cluster_id s" and p: "prefix (hist s) (hist s1)" "prefix (hist s2) (hist t)"
      using t by (simp_all add: only_calls_cluster) (simp_all add: only_calls_def)
    then show ?thesis
      using observed_between [OF p(1) wait_for_install_seen [OF assms(1) s2] p(2)] t by simp
  qed
  with fails show ?thesis by blast
qed


definition sample_nodes_env :: "nat \<Rightarrow> nodes_env" where
  "sample_nodes_env n = \<lparr>nv_nodes_count = n, nv_masters_count = n, nv_workers_count = 0, nv_arbiters_count = 0,
     nv_is_ipv4 = True, nv_is_ipv6 = False, nv_get_nodes = (\<lambda>_. Inr []), nv_tf_platform = ''baremetal'',
     nv_primary_cidr = Inr None, nv_provisioning_cidr = Inr None, nv_vips = Inr None,
     nv_machine_addresses = Inr PNone\<rparr>"

definition installing_env :: env where
  "installing_env = (still_env (sample_cluster [] []))\<lparr>e_get_cluster :=
     (\<lambda>h i. Inr (sample_cluster (if length h < 3 then ''installing'' else ''installed'') []))\<rparr>"

lemma installing_run:
  "start_install_and_wait_for_installed (poll_upto 0) installing_env (sample_nodes_env 1) False False True False
     False (sample_cluster_state False) =
   (Inr (), sample_cluster_state True\<lparr>hist := V2InstallCluster ''c'' # replicate 4 (V2GetCluster ''c'' False)\<rparr>)"
  by (simp add: start_install_and_wait_for_installed_def cluster_start_install_def with_cluster_id_def
      start_install.simps install_attempt_def api_install_cluster_def bindP_def do_call_app cluster_id_def
      wait_till_cluster_is_in_status_def poll_upto.simps is_cluster_in_status_app try_except_def is_true_def
      concrete_env prog_simps sleepP_def ext_app sample_cluster_state_def installing_env_def
      finish_install_def wait_for_install_def wait_status_def get_details_def cluster_get_app
      cfg_def text_of_def eval_nat_numeral)


section \<open>The life cycle as an entity\<close>

lemma set_ie_app: "set_ie k v s = (Inr (), s\<lparr>ie_config := dict_set k v (ie_config s)\<rparr>)"
  by (simp add: set_ie_def prog_simps)

lemma cluster_create_names: "cluster_create e s = (Inr i, t) \<Longrightarrow> cluster_id t = PStr i"
  by (auto simp: cluster_create_def set_cc_def bindP_app prog_simps cluster_id_def cfg_dict_set
      elim!: bindP_InrE)

lemma update_config_keeps:
  "k \<notin> set (map fst kvs) \<Longrightarrow> update_config kvs c = (r, d) \<Longrightarrow> cfg d k = cfg c k"
proof (induction kvs arbitrary: c)
  case Nil
  then show ?case by (simp add: prog_simps)
next
  case (Cons kv kvs)
  obtain k' v where "kv = (k', v)" by force
  with Cons show ?case
    by (auto simp: bindP_app prog_simps cfg_dict_set split: if_splits)
qed

text \<open>Programs that leave the configuration of the cluster alone.\<close>

lemma keeps_cs_config_ext: "keeps (same cs_config) (ext f c)"
  by (simp add: keeps_def same_def ext_def)

lemma keeps_cs_config_ie [intro]:
  "keeps (same cs_config) (set_ie k v)"
  "keeps (same cs_config) (infra_env_init e)"
proof -
  have set_ie: "keeps (same cs_config) (set_ie k v)" for k v
    by (simp add: keeps_def same_def set_ie_app)
  then show "keeps (same cs_config) (set_ie k v)" .
  have path: "keeps (same cs_config) (modifies infra_set_iso_path)"
    by (simp add: keeps_def same_def modifies_def infra_set_iso_path_def)
  show "keeps (same cs_config) (infra_env_init e)"
    unfolding infra_env_init_def entity_init_def infra_create_def infra_update_existing_def with_ie_id_def
      api_create_infra_env_def api_update_infra_env_def do_call_def
    by (auto intro!: frame.keeps_intros keeps_cs_config_ext set_ie path)
qed

lemma keeps_cs_config_installed:
  "keeps (same cs_config) (modifies (\<lambda>s. s\<lparr>cs_has_infra_env := True, cs_is_installed := True\<rparr>))"
  by (simp add: keeps_def same_def modifies_def)

lemma keeps_cs_config_adopt:
  "keeps (same cs_config) (bindP (get_infra_envs_by_cluster_id e j) (\<lambda>ies. thenP
     (case ies of [] \<Rightarrow> ret () | ie # _ \<Rightarrow>
        thenP (set_ie ''infra_env_id'' (PStr (ie_id ie))) (thenP (infra_env_init e)
          (modifies (\<lambda>s. s\<lparr>cs_has_infra_env := True, cs_is_installed := True\<rparr>)))) (ret j)))"
  unfolding get_infra_envs_by_cluster_id_def infra_envs_list_def
  by (auto intro!: frame.keeps_intros keeps_cs_config_ext keeps_cs_config_ie keeps_cs_config_installed
      split: list.split)

lemma cluster_update_existing_config:
  assumes "cluster_update_existing e existing s = (Inr i, t)"
  obtains u where "update_existing_cluster_config e existing i s = (Inr (), u)" "cs_config t = cs_config u"
proof -
  from assms have i: "i = text_of (cluster_id s)"
    by (auto simp: cluster_update_existing_def with_cluster_id_def bindP_app prog_simps elim!: bindP_InrE)
  obtain u where "update_existing_cluster_config e existing i s = (Inr (), u)" "same cs_config u t"
    using assms unfolding cluster_update_existing_def with_cluster_id_def bindP_app i [symmetric]
    by (rule bindP_InrE) (auto dest: keepsD [OF keeps_cs_config_adopt])
  then show thesis by (auto simp: same_def intro: that)
qed

lemma cluster_update_keeps:
  assumes "cluster_update_existing e existing s = (Inr i, t)"
  shows "cluster_id t = cluster_id s"
proof -
  from assms obtain u where u: "update_existing_cluster_config e existing i s = (Inr (), u)"
    and t: "cs_config t = cs_config u"
    by (rule cluster_update_existing_config)
  have "cfg (cs_config u) ''cluster_id'' = cfg (cs_config s) ''cluster_id''"
    using u
    by (auto simp: update_existing_cluster_config_def cluster_update_config_def on_part_def cluster_get_app
        split: prod.splits elim!: bindP_InrE dest!: update_config_keeps [rotated, of _ _ _ _ "''cluster_id''"])
      (simp add: existing_keys_def)
  then show ?thesis by (simp add: cluster_id_def t)
qed

interpretation clusters: entity cluster_id "cluster_create e" "cluster_update_existing e existing"
    cluster_set_iso_path for e existing
  by unfold_locales
    (auto dest: cluster_create_names cluster_update_keeps
      simp: cluster_id_def cluster_set_iso_path_def cfg_dict_set)

text \<open>A cluster object whose configuration names a cluster keeps that name when it is initialised; one
  without a name gets the identifier of the cluster it creates; and either way the infrastructure
  environment's configuration refers to the cluster afterwards.\<close>

lemma cluster_is_named:
  assumes "cluster_init e existing s = (Inr (), t)"
  shows "(if truth (cluster_id s) then cluster_id t = cluster_id s else \<exists>i. cluster_id t = PStr i)
    \<and> ie_cfg t ''cluster_id'' = cluster_id t"
proof -
  from assms obtain u where
    u: "entity_init cluster_id (cluster_create e) (cluster_update_existing e existing) cluster_set_iso_path
          (s\<lparr>cs_is_installed := False, cs_has_infra_env := False\<rparr>) = (Inr (), u)"
    and t: "cs_config t = cs_config u" "ie_cfg t ''cluster_id'' = cluster_id u"
    by (auto simp: cluster_init_def bindP_app set_ie_app prog_simps cfg_dict_set cluster_id_def elim!: bindP_InrE)
  from clusters.init_names [OF u] show ?thesis
    using t by (simp add: cluster_id_def split: if_splits)
qed

lemma cluster_is_named_witness:
  "\<exists>t. cluster_init (still_env (sample_cluster [] [])) (\<lambda>_ _. PNone)
       (sample_cluster_state True\<lparr>cs_config := [(''cluster_id'', PNone)]\<rparr>) = (Inr (), t)
     \<and> ie_cfg t ''cluster_id'' = cluster_id t"
proof -
  let ?r = "cluster_init (still_env (sample_cluster [] [])) (\<lambda>_ _. PNone)
       (sample_cluster_state True\<lparr>cs_config := [(''cluster_id'', PNone)]\<rparr>)"
  have "fst ?r = Inr ()"
    by (simp add: cluster_init_def entity_init_def cluster_id_def sample_cluster_state_def cfg_def
        cluster_create_def api_create_cluster_def ext_app still_env_def bindP_def set_ie_def set_cc_def
        items_of_def prog_simps)
  then have "?r = (Inr (), snd ?r)" by (metis prod.collapse)
  from cluster_is_named [OF this] this show ?thesis by blast
qed

text \<open>A cluster object made for a cluster that exists in the service counts as installed as soon as the
  cluster has an infrastructure environment, whatever the status of the cluster is: here it is
  \<open>insufficient\<close>.\<close>

lemma existing_cluster_counts_as_installed:
  "\<exists>t. cluster_init
      (still_env (sample_cluster ''insufficient'' [])\<lparr>e_list_infra_envs :=
         (\<lambda>_. Inr [\<lparr>ie_id = ''ie'', ie_cluster_id = Some ''c''\<rparr>])\<rparr>) (\<lambda>_ _. PNone)
      (sample_cluster_state False\<lparr>cs_config := (''cluster_id'', PStr ''c'') # map (\<lambda>k. (k, PNone)) existing_keys\<rparr>)
      = (Inr (), t) \<and> cs_is_installed t"
proof -
  let ?r = "cluster_init
      (still_env (sample_cluster ''insufficient'' [])\<lparr>e_list_infra_envs :=
         (\<lambda>_. Inr [\<lparr>ie_id = ''ie'', ie_cluster_id = Some ''c''\<rparr>])\<rparr>) (\<lambda>_ _. PNone)
      (sample_cluster_state False\<lparr>cs_config := (''cluster_id'', PStr ''c'') # map (\<lambda>k. (k, PNone)) existing_keys\<rparr>)"
  have "fst ?r = Inr () \<and> cs_is_installed (snd ?r)"
    by (simp add: cluster_init_def entity_init_def cluster_id_def sample_cluster_state_def cfg_def
        cluster_update_existing_def with_cluster_id_def text_of_def update_existing_cluster_config_def
        cluster_get_app cluster_update_config_def on_part_def existing_keys_def
        get_infra_envs_by_cluster_id_def infra_envs_list_def infra_env_init_def infra_env_id_def
        infra_update_existing_def with_ie_id_def api_update_infra_env_def do_call_app
        infra_set_iso_path_def cluster_set_iso_path_def
        ext_app concrete_env bindP_def set_ie_def set_cc_def prog_simps)
  then show ?thesis by (metis prod.collapse)
qed

end
