(* ===== verification/Prepare.thy ===== *)
theory Prepare
  imports Cluster
begin

text \<open>
  \<open>helper_classes/cluster.py\<close>, continued: custom manifests (\<open>utils/manifests.py\<close>), preparing the
  nodes and the networking for an installation, validations, and the setters. The nodes and
  their controller are called through the history, as in \<open>ClusterBase\<close>.
\<close>

section \<open>Custom manifests\<close>

text \<open>The annotation says \<open>str\<close>; \<open>get_manifests\<close> reads the files in binary mode.\<close>

datatype content = TextContent string | BytesContent "nat list"

record manifest =
  mf_folder :: string
  mf_file_name :: string
  mf_content :: content

definition ALLOWED_FOLDERS :: "string list" where
  "ALLOWED_FOLDERS = [''manifests'', ''openshift'']"

definition is_folder_allowed :: "manifest \<Rightarrow> bool" where
  "is_folder_allowed m \<longleftrightarrow> mf_folder m \<in> set ALLOWED_FOLDERS"

text \<open>
  \<open>Manifest.get_manifests\<close>; \<open>listing\<close> gives the files below a directory with a suffix as pairs
  of the parent folder and the name with the bytes, in the order of \<open>rglob\<close>.
\<close>

definition manifest_of :: "string \<times> string \<times> nat list \<Rightarrow> manifest" where
  "manifest_of f = (case f of (folder, file_name, bytes) \<Rightarrow>
     \<lparr>mf_folder = folder, mf_file_name = file_name, mf_content = BytesContent bytes\<rparr>)"

definition get_manifests ::
  "bool \<Rightarrow> (string \<Rightarrow> (string \<times> string \<times> nat list) list) \<Rightarrow> string \<times> string \<times> nat list \<Rightarrow> manifest list" where
  "get_manifests is_dir listing the_file =
     map manifest_of
       (if is_dir then concat (map listing [''yaml'', ''yml'', ''json'']) else [the_file])"

text \<open>The UTF-8 bytes of a text, and \<open>base64.b64encode\<close>.\<close>

definition utf8_char :: "char \<Rightarrow> nat list" where
  "utf8_char c = (let n = of_char c in if n < 128 then [n] else [192 + n div 64, 128 + n mod 64])"

definition utf8 :: "string \<Rightarrow> nat list" where
  "utf8 s = concat (map utf8_char s)"

definition base64_digit :: "nat \<Rightarrow> char" where
  "base64_digit d =
     (if d < 26 then char_of (65 + d) else if d < 52 then char_of (97 + (d - 26))
      else if d < 62 then char_of (48 + (d - 52)) else if d = 62 then CHR ''+'' else CHR 0x2F)"

fun b64encode :: "nat list \<Rightarrow> string" where
  "b64encode [] = []"
| "b64encode [a] = [base64_digit (a div 4), base64_digit (16 * (a mod 4)), CHR ''='', CHR ''='']"
| "b64encode [a, b] =
     [base64_digit (a div 4), base64_digit (16 * (a mod 4) + b div 16), base64_digit (4 * (b mod 16)), CHR ''='']"
| "b64encode (a # b # c # bs) =
     base64_digit (a div 4) # base64_digit (16 * (a mod 4) + b div 16)
       # base64_digit (4 * (b mod 16) + c div 64) # base64_digit (c mod 64) # b64encode bs"

text \<open>\<open>content.encode("utf-8")\<close>: \<open>bytes\<close> have no such method.\<close>

definition encoded_content :: "content \<Rightarrow> exn + string" where
  "encoded_content c =
     (case c of TextContent s \<Rightarrow> Inr (b64encode (utf8 s)) | BytesContent _ \<Rightarrow> Inl AttributeError)"

definition attribute :: "pyval \<Rightarrow> string \<Rightarrow> pyval" where
  "attribute v k = (case v of PDict d \<Rightarrow> cfg d k | _ \<Rightarrow> PNone)"

definition create_manifest :: "env \<Rightarrow> string \<Rightarrow> manifest \<Rightarrow> ((call, 'z) world_scheme, unit) prog" where
  "create_manifest e i m =
     bindP (sum_prog (encoded_content (mf_content m))) (\<lambda>content.
       bindP (api_create_custom_manifest e i (PStr (mf_folder m)) (PStr (mf_file_name m)) (PStr content))
         (\<lambda>created.
            thenP (assertP (attribute created ''file_name'' = PStr (mf_file_name m)))
              (assertP (attribute created ''folder'' = PStr (mf_folder m)))))"

text \<open>The list may grow while the nodes are prepared, so it is a function of the history.\<close>

type_synonym manifests = "call list \<Rightarrow> manifest list"

definition create_custom_manifests :: "env \<Rightarrow> manifests \<Rightarrow> ('z, unit) cprog" where
  "create_custom_manifests e ms =
     bindP (reads (\<lambda>s. ms (hist s))) (\<lambda>manifests.
       with_cluster_id (\<lambda>i. for_each (create_manifest e i) manifests))"

text \<open>\<open>manifest.local_path.exists()\<close>: a manifest has no attribute \<open>local_path\<close>.\<close>

definition local_path_exists :: "manifest \<Rightarrow> exn + bool" where
  "local_path_exists m = Inl AttributeError"

definition validate_manifest :: "manifest \<Rightarrow> ('s, unit) prog" where
  "validate_manifest m =
     bindP (sum_prog (local_path_exists m)) (\<lambda>b. thenP (assertP b) (assertP (is_folder_allowed m)))"

definition validate_params :: "manifests \<Rightarrow> ('z, unit) cprog" where
  "validate_params ms = bindP (reads (\<lambda>s. ms (hist s))) (for_each validate_manifest)"

section \<open>Preparing the nodes\<close>

text \<open>
  \<open>Entity.prepare_nodes\<close>; \<open>config_of\<close> reads the configuration of the entity, \<open>get_image\<close> downloads
  its ISO and \<open>discovered\<close> waits for the hosts.
\<close>

definition DEFAULT_IPXE_SERVER :: string where
  "DEFAULT_IPXE_SERVER = ''http://192.168.122.1:8500/''"

definition entity_prepare_nodes ::
  "env \<Rightarrow> (((call, 'z) world_scheme) \<Rightarrow> config) \<Rightarrow> ((call, 'z) world_scheme, unit) prog
     \<Rightarrow> ((call, 'z) world_scheme, pyval) prog \<Rightarrow> ((call, 'z) world_scheme, unit) prog \<Rightarrow> bool
     \<Rightarrow> ((call, 'z) world_scheme, unit) prog" where
  "entity_prepare_nodes e config_of update get_image discovered is_static_ip =
     thenP update
     (thenP (act e ''controller.log_configuration'' [])
     (bindP (reads config_of) (\<lambda>c.
       thenP (if truth (cfg c ''download_image'') \<and> \<not> is_static_ip then thenP get_image (ret ()) else ret ())
       (thenP (act e ''nodes.prepare_nodes'' [])
       (thenP (if is_static_ip then
                 bindP (reads config_of) (\<lambda>c.
                   if truth (cfg c ''download_image'') then thenP get_image (ret ()) else ret ())
               else ret ())
       (thenP (act e ''nodes.notify_iso_ready'' [])
       (bindP (reads config_of) (\<lambda>c.
          thenP (if truth (cfg c ''ipxe_boot'') then
                   bindP (ask_call e (Controller ''nodes.get_cluster_network'' [])) (\<lambda>network.
                     act e ''controller.set_ipxe_url''
                       [network, PStr (DEFAULT_IPXE_SERVER @ text_of (cfg c ''entity_name''))])
                 else ret ())
          (thenP (act e ''nodes.start_all'' [PBool (\<not> (is_static_ip \<and> truth (cfg c ''is_ipv6'')))])
             discovered)))))))))"

definition cluster_is_sno :: "cluster \<Rightarrow> bool" where
  "cluster_is_sno c \<longleftrightarrow>
     (if cl_high_availability_mode c = Some ''None'' then True
      else case cl_control_plane_count c of Some n \<Rightarrow> n = 1 | None \<Rightarrow> False)"

definition supported_platforms :: "cluster \<Rightarrow> string list" where
  "supported_platforms c =
     (if cluster_is_sno c then [''none'']
      else
        (let base = [''baremetal'', ''none'']
         in case cl_platform c of
              None \<Rightarrow> base
            | Some p \<Rightarrow> if p \<notin> set base then base @ [p] else base))"

definition get_supported_cluster_platforms ::
  "env \<Rightarrow> string \<Rightarrow> ((call, 'z) world_scheme, string list) prog" where
  "get_supported_cluster_platforms e i =
     bindP (cluster_get e i False) (\<lambda>c. ret (supported_platforms c))"

text \<open>\<open>external c\<close> is \<open>platform.external.platform_name\<close> of the cluster \<open>c\<close>.\<close>

definition check_platform :: "env \<Rightarrow> (cluster \<Rightarrow> exn + string) \<Rightarrow> ('z, unit) cprog" where
  "check_platform e external =
     bindP (get_details e) (\<lambda>c.
       case cl_platform c of
         None \<Rightarrow> raise AttributeError
       | Some p \<Rightarrow>
           bindP (with_cluster_id (get_supported_cluster_platforms e)) (\<lambda>supported.
             if p \<in> set supported then ret ()
             else if p = ''external'' then bindP (sum_prog (external c)) (\<lambda>name. assertP (name = ''oci''))
             else raise AssertionError))"

definition count_role :: "nodes_env \<Rightarrow> node_role \<Rightarrow> ((call, 'z) world_scheme, nat) prog" where
  "count_role nv role =
     bindP (get_nodes nv) (\<lambda>nodes. ret (length (filter (\<lambda>n. nf_role n = role_value role) nodes)))"

text \<open>\<open>static_data\<close> and \<open>static_config\<close>: the static network configuration, generated and parsed.\<close>

definition cluster_discovered :: "'z kwaiter \<Rightarrow> env \<Rightarrow> nodes_env \<Rightarrow> ('z, unit) cprog" where
  "cluster_discovered wait e nv =
     with_cluster_id (base_wait_until_hosts_are_discovered wait e nv True None)"

definition prepare_nodes ::
  "'z kwaiter \<Rightarrow> env \<Rightarrow> nodes_env \<Rightarrow> (cluster \<Rightarrow> exn + string) \<Rightarrow> (exn + pyval) \<Rightarrow> host_network list option
     \<Rightarrow> (string \<times> pyval) list \<Rightarrow> ('z, unit) cprog" where
  "prepare_nodes wait e nv external static_data static_config kwargs =
     bindP (reads (\<lambda>s. truth (ie_cfg s ''is_static_ip''))) (\<lambda>is_static_ip.
       thenP (entity_prepare_nodes e cs_config (cluster_update_config kwargs)
                (download_image e static_data PNone PNone) (cluster_discovered wait e nv) is_static_ip)
       (thenP (check_platform e external)
       (thenP (set_hostnames_and_roles e nv)
       (thenP
          (bindP (reads (\<lambda>s. cc s ''control_plane_count'')) (\<lambda>count.
             if count \<noteq> PInt 1 then
               bindP (count_role nv Master) (\<lambda>masters.
                 bindP (count_role nv Worker) (\<lambda>workers.
                   bindP (count_role nv Arbiter) (\<lambda>arbiters.
                     bindP (set_host_roles e nv (Some masters) (Some workers) (Some arbiters) None)
                       (\<lambda>_. ret ()))))
             else ret ()))
          (thenP (set_installer_args e) (validate_static_ip wait e nv static_config))))))"

section \<open>Preparing the networking\<close>

definition user_managed_dns :: "nodes_env \<Rightarrow> config \<Rightarrow> bool" where
  "user_managed_dns nv c \<longleftrightarrow>
     nv_tf_platform nv \<in> {''none'', ''external''}
     \<or> (cfg c ''load_balancer_type'' = PStr ''user-managed'' \<and> nv_tf_platform nv = ''baremetal'')"

definition ha_not_none_not_external :: "config \<Rightarrow> bool" where
  "ha_not_none_not_external c \<longleftrightarrow>
     cfg c ''control_plane_count'' \<noteq> PInt 1
     \<and> cfg c ''platform'' \<noteq> PStr ''none'' \<and> cfg c ''platform'' \<noteq> PStr ''external''"

definition first_ip_text :: "texts \<Rightarrow> ip list \<Rightarrow> string" where
  "first_ip_text tx vips = (case vips of [] \<Rightarrow> [] | a # _ \<Rightarrow> tx_ip tx a)"

definition set_dns_before_ready :: "('a, 'n) netaddr \<Rightarrow> texts \<Rightarrow> env \<Rightarrow> nodes_env \<Rightarrow> ('z, unit) cprog" where
  "set_dns_before_ready na tx e nv =
     bindP (reads cs_config) (\<lambda>c.
       if user_managed_dns nv c then
         thenP (configure_load_balancer na tx e nv) (act e ''controller.set_dns_for_user_managed_network'' [])
       else if cfg c ''control_plane_count'' = PInt 1 then
         bindP (get_primary_machine_cidr tx e nv) (\<lambda>main.
           bindP (with_cluster_id (\<lambda>i. get_ip_for_single_node na e i main (get_primary_stack c \<noteq> PStr ''ipv6'')))
             (\<lambda>a. thenP (act e ''controller.set_single_node_ip'' [PStr (tx_ip tx a)])
                    (act e ''controller.set_dns'' [PStr (tx_ip tx a), PStr (tx_ip tx a)])))
       else ret ())"

definition set_dns_after_ready :: "texts \<Rightarrow> env \<Rightarrow> ('z, unit) cprog" where
  "set_dns_after_ready tx e =
     bindP (reads cs_config) (\<lambda>c.
       if ha_not_none_not_external c then
         bindP (with_cluster_id (get_vips_from_cluster e)) (\<lambda>(api_vips, ingress_vips).
           act e ''controller.set_dns'' [PStr (first_ip_text tx api_vips), PStr (first_ip_text tx ingress_vips)])
       else ret ())"

definition prepare_networking ::
  "'z kwaiter \<Rightarrow> ('a, 'n) netaddr \<Rightarrow> texts \<Rightarrow> dual_networks \<Rightarrow> env \<Rightarrow> nodes_env \<Rightarrow> ('z, unit) cprog" where
  "prepare_networking wait na tx dn e nv =
     thenP (act e ''nodes.wait_for_networking'' [])
     (thenP (modifies (\<lambda>s. s\<lparr>cs_config := configure_networking_for_primary_stack dn (cs_config s)\<rparr>))
     (thenP (set_network_params tx e nv)
     (thenP (set_dns_before_ready na tx e nv)
     (thenP (wait_for_ready_to_install wait e) (set_dns_after_ready tx e)))))"

text \<open>\<open>Entity.prepare_for_installation\<close> with the steps of a cluster; \<open>is_static_ip\<close> leaves the arguments.\<close>

definition entity_prepare_for_installation ::
  "'z kwaiter \<Rightarrow> ('a, 'n) netaddr \<Rightarrow> texts \<Rightarrow> dual_networks \<Rightarrow> env \<Rightarrow> nodes_env \<Rightarrow> manifests
     \<Rightarrow> (cluster \<Rightarrow> exn + string) \<Rightarrow> (exn + pyval) \<Rightarrow> host_network list option
     \<Rightarrow> (string \<times> pyval) list \<Rightarrow> ('z, unit) cprog" where
  "entity_prepare_for_installation wait na tx dn e nv ms external static_data static_config kwargs =
     thenP (validate_params ms)
     (thenP (prepare_nodes wait e nv external static_data static_config
               (filter (\<lambda>(k, _). k \<noteq> ''is_static_ip'') kwargs))
       (prepare_networking wait na tx dn e nv))"

definition prepare_for_installation ::
  "'z kwaiter \<Rightarrow> ('a, 'n) netaddr \<Rightarrow> texts \<Rightarrow> dual_networks \<Rightarrow> env \<Rightarrow> nodes_env \<Rightarrow> manifests
     \<Rightarrow> (cluster \<Rightarrow> exn + string) \<Rightarrow> (exn + pyval) \<Rightarrow> host_network list option
     \<Rightarrow> (string \<times> pyval) list \<Rightarrow> ('z, unit) cprog" where
  "prepare_for_installation wait na tx dn e nv ms external static_data static_config kwargs =
     thenP (create_custom_manifests e ms)
     (thenP (entity_prepare_for_installation wait na tx dn e nv ms external static_data static_config kwargs)
       (create_custom_manifests e ms))"

definition prepare_for_installation_s390x ::
  "'z kwaiter \<Rightarrow> ('a, 'n) netaddr \<Rightarrow> texts \<Rightarrow> dual_networks \<Rightarrow> env \<Rightarrow> nodes_env \<Rightarrow> manifests
     \<Rightarrow> (cluster \<Rightarrow> exn + string) \<Rightarrow> (exn + pyval) \<Rightarrow> host_network list option
     \<Rightarrow> (string \<times> pyval) list \<Rightarrow> ('z, unit) cprog" where
  "prepare_for_installation_s390x wait na tx dn e nv ms external static_data static_config kwargs =
     thenP (entity_prepare_for_installation wait na tx dn e nv ms external static_data static_config kwargs)
     (thenP (create_custom_manifests e ms) (act e ''controller.log_configuration'' []))"

section \<open>Validations\<close>

text \<open>
  \<open>parse\<close> is \<open>json.loads\<close> of the validations of a cluster or a host; every exception is logged
  and swallowed, and the check then returns \<open>None\<close>.
\<close>

definition cluster_validation_check ::
  "(cluster \<Rightarrow> exn + validations) \<Rightarrow> string \<Rightarrow> string \<Rightarrow> string list \<Rightarrow> cluster \<Rightarrow> exn + bool" where
  "cluster_validation_check parse validation_section validation_id statuses c =
     sum_bind (parse c) (\<lambda>vs.
       sum_bind (get_cluster_validation_value vs validation_section validation_id) (\<lambda>v. Inr (v \<in> set statuses)))"

text \<open>The validations are parsed for the host looked for only.\<close>

fun host_validation_value ::
  "(host \<Rightarrow> exn + validations) \<Rightarrow> string \<Rightarrow> string \<Rightarrow> string \<Rightarrow> host list \<Rightarrow> exn + string" where
  "host_validation_value parse host_id validation_section validation_id [] = Inr ''host not found''"
| "host_validation_value parse host_id validation_section validation_id (h # hs) =
     (if h_id h \<noteq> host_id then host_validation_value parse host_id validation_section validation_id hs
      else sum_bind (parse h) (\<lambda>vs. get_cluster_validation_value vs validation_section validation_id))"

definition host_validation_check ::
  "(host \<Rightarrow> exn + validations) \<Rightarrow> string \<Rightarrow> string \<Rightarrow> string \<Rightarrow> string list \<Rightarrow> cluster \<Rightarrow> exn + bool" where
  "host_validation_check parse host_id validation_section validation_id statuses c =
     sum_bind (host_validation_value parse host_id validation_section validation_id (cl_hosts c))
       (\<lambda>v. Inr (v \<in> set statuses))"

definition validation_in_status :: "env \<Rightarrow> (cluster \<Rightarrow> exn + bool) \<Rightarrow> ('z, bool option) cprog" where
  "validation_in_status e check =
     try_except
       (with_cluster_id (\<lambda>i. bindP (cluster_get e i False) (\<lambda>c.
          bindP (sum_prog (check c)) (\<lambda>b. ret (Some b)))))
       (\<lambda>_. ret None)"

definition is_cluster_validation_in_status ::
  "env \<Rightarrow> (cluster \<Rightarrow> exn + validations) \<Rightarrow> string \<Rightarrow> string \<Rightarrow> string list \<Rightarrow> ('z, bool option) cprog" where
  "is_cluster_validation_in_status e parse validation_section validation_id statuses =
     validation_in_status e (cluster_validation_check parse validation_section validation_id statuses)"

definition is_host_validation_in_status ::
  "env \<Rightarrow> (host \<Rightarrow> exn + validations) \<Rightarrow> string \<Rightarrow> string \<Rightarrow> string \<Rightarrow> string list \<Rightarrow> ('z, bool option) cprog" where
  "is_host_validation_in_status e parse host_id validation_section validation_id statuses =
     validation_in_status e (host_validation_check parse host_id validation_section validation_id statuses)"

text \<open>The handler reads the validation once more for the log; if that fails, its exception wins.\<close>

definition wait_for_validation ::
  "'z kwaiter \<Rightarrow> env \<Rightarrow> (cluster \<Rightarrow> exn + bool) \<Rightarrow> int \<Rightarrow> int \<Rightarrow> ('z, unit) cprog" where
  "wait_for_validation wait e check timeout interval =
     try_except
       (wait (bindP (validation_in_status e check) (\<lambda>b. ret (truthy (is_true b)))) timeout interval no_exceptions)
       (\<lambda>x. with_cluster_id (\<lambda>i. bindP (cluster_get e i False) (\<lambda>c.
          bindP (sum_prog (check c)) (\<lambda>_. raise x))))"

definition wait_for_cluster_validation ::
  "'z kwaiter \<Rightarrow> env \<Rightarrow> (cluster \<Rightarrow> exn + validations) \<Rightarrow> string \<Rightarrow> string \<Rightarrow> string list \<Rightarrow> int \<Rightarrow> int
     \<Rightarrow> ('z, unit) cprog" where
  "wait_for_cluster_validation wait e parse validation_section validation_id statuses timeout interval =
     wait_for_validation wait e (cluster_validation_check parse validation_section validation_id statuses)
       timeout interval"

definition wait_for_host_validation ::
  "'z kwaiter \<Rightarrow> env \<Rightarrow> (host \<Rightarrow> exn + validations) \<Rightarrow> string \<Rightarrow> string \<Rightarrow> string \<Rightarrow> string list \<Rightarrow> int \<Rightarrow> int
     \<Rightarrow> ('z, unit) cprog" where
  "wait_for_host_validation wait e parse host_id validation_section validation_id statuses timeout interval =
     wait_for_validation wait e (host_validation_check parse host_id validation_section validation_id statuses)
       timeout interval"

section \<open>Setters\<close>

definition send_update :: "env \<Rightarrow> (string \<times> pyval) list \<Rightarrow> ('z, unit) cprog" where
  "send_update e kvs = with_cluster_id (\<lambda>i. api_update_cluster e i (PDict kvs))"

text \<open>Setters that change the configuration first and send the same value.\<close>

definition update_tags :: "env \<Rightarrow> pyval \<Rightarrow> ('z, unit) cprog" where
  "update_tags e tags = thenP (cluster_update_config [(''cluster_tags'', tags)]) (send_update e [(''tags'', tags)])"

definition set_cluster_name :: "env \<Rightarrow> string \<Rightarrow> ('z, unit) cprog" where
  "set_cluster_name e name =
     thenP (cluster_update_config [(''cluster_name'', PStr name)]) (send_update e [(''name'', PStr name)])"

definition set_ssh_key :: "env \<Rightarrow> pyval \<Rightarrow> ('z, unit) cprog" where
  "set_ssh_key e ssh_key =
     thenP (cluster_update_config [(''ssh_public_key'', ssh_key)]) (send_update e [(''ssh_public_key'', ssh_key)])"

definition set_base_dns_domain :: "env \<Rightarrow> pyval \<Rightarrow> ('z, unit) cprog" where
  "set_base_dns_domain e base_dns_domain =
     thenP (cluster_update_config [(''base_dns_domain'', base_dns_domain)])
       (send_update e [(''base_dns_domain'', base_dns_domain)])"

text \<open>\<open>",".join\<close> raises on a list with something else than strings.\<close>

definition str_items :: "pyval list \<Rightarrow> exn + string list" where
  "str_items vs = sum_map (\<lambda>v. case v of PStr s \<Rightarrow> Inr s | _ \<Rightarrow> Inl TypeError) vs"

definition ntp_source_string :: "pyval \<Rightarrow> exn + string" where
  "ntp_source_string ntp_source =
     (case ntp_source of
        PList vs \<Rightarrow> sum_bind (str_items vs) (\<lambda>ss. Inr (join '','' ss))
      | PStr s \<Rightarrow> Inr s
      | _ \<Rightarrow> Inl TypeError)"

definition set_additional_ntp_source :: "env \<Rightarrow> pyval \<Rightarrow> ('z, unit) cprog" where
  "set_additional_ntp_source e ntp_source =
     bindP (sum_prog (ntp_source_string ntp_source)) (\<lambda>s.
       thenP (cluster_update_config [(''additional_ntp_source'', PStr s)])
         (send_update e [(''additional_ntp_source'', PStr s)]))"

text \<open>The proxy sent is the one the configuration holds after the update.\<close>

definition set_proxy_values :: "env \<Rightarrow> pyval \<Rightarrow> ('z, unit) cprog" where
  "set_proxy_values e proxy_values =
     thenP (cluster_update_config [(''proxy'', proxy_values)])
       (bindP (reads (\<lambda>s. cc s ''proxy'')) (\<lambda>p.
          with_cluster_id (\<lambda>i. api_set_cluster_proxy e i (attribute p ''http_proxy'') (attribute p ''https_proxy'')
            (attribute p ''no_proxy''))))"

text \<open>Setters that send only.\<close>

definition set_network_type :: "env \<Rightarrow> pyval \<Rightarrow> ('z, unit) cprog" where
  "set_network_type e network_type = send_update e [(''network_type'', network_type)]"

definition set_ingress_and_api_vips :: "env \<Rightarrow> string \<Rightarrow> string \<Rightarrow> ('z, unit) cprog" where
  "set_ingress_and_api_vips e api_vip ingress_vip =
     send_update e [(''api_vips'', PList [PDict [(''ip'', PStr api_vip)]]),
                    (''ingress_vips'', PList [PDict [(''ip'', PStr ingress_vip)]])]"

definition set_cluster_network_cidr :: "env \<Rightarrow> pyval \<Rightarrow> pyval \<Rightarrow> ('z, unit) cprog" where
  "set_cluster_network_cidr e c host_prefix =
     send_update e [(''cluster_networks'', PList [PDict [(''cidr'', c), (''host_prefix'', host_prefix)]])]"

definition set_disk_encryption :: "env \<Rightarrow> pyval \<Rightarrow> pyval \<Rightarrow> pyval \<Rightarrow> ('z, unit) cprog" where
  "set_disk_encryption e mode roles tang_servers =
     send_update e [(''disk_encryption'',
       PDict [(''enable_on'', roles), (''mode'', mode), (''tang_servers'', tang_servers)])]"

text \<open>\<open>json.dumps\<close> of a list of identifiers is the list itself here; an empty one becomes \<open>None\<close>.\<close>

definition set_ignored_validations :: "env \<Rightarrow> pyval \<Rightarrow> pyval \<Rightarrow> ('z, unit) cprog" where
  "set_ignored_validations e host_validation_ids cluster_validation_ids =
     with_cluster_id (\<lambda>i. do_call e (V2SetIgnoredValidations i
       (PDict [(''host_validation_ids'', py_or host_validation_ids PNone),
               (''cluster_validation_ids'', py_or cluster_validation_ids PNone)])))"

definition get_tags :: "env \<Rightarrow> ('z, pyval) cprog" where
  "get_tags e =
     bindP (get_details e) (\<lambda>c. thenP (set_cc ''cluster_tags'' (opt_str (cl_tags c))) (ret (opt_str (cl_tags c))))"

definition update_infra_env_proxy :: "env \<Rightarrow> pyval \<Rightarrow> ('z, unit) cprog" where
  "update_infra_env_proxy e proxy = thenP (set_ie ''proxy'' proxy) (on_infra_env (infra_update_proxy e proxy))"

section \<open>Hosts\<close>

definition cluster_hosts :: "env \<Rightarrow> ('z, host list) cprog" where
  "cluster_hosts e = with_cluster_id (\<lambda>i. get_cluster_hosts e i False)"

definition get_host_ids :: "env \<Rightarrow> ('z, string list) cprog" where
  "get_host_ids e = bindP (cluster_hosts e) (\<lambda>hs. ret (map h_id hs))"

text \<open>A dictionary comprehension: a later host with the same identifier replaces the value.\<close>

definition get_host_ids_names_mapping :: "env \<Rightarrow> ('z, (string, string option) dict) cprog" where
  "get_host_ids_names_mapping e =
     bindP (cluster_hosts e) (\<lambda>hs. ret (dict_update [] (map (\<lambda>h. (h_id h, h_requested_hostname h)) hs)))"

definition get_host_assigned_roles :: "env \<Rightarrow> ('z, (string, string) dict) cprog" where
  "get_host_assigned_roles e =
     bindP (cluster_hosts e) (\<lambda>hs. ret (dict_update [] (map (\<lambda>h. (h_id h, h_role h)) hs)))"

definition cluster_hosts_by_role :: "env \<Rightarrow> string \<Rightarrow> host list option \<Rightarrow> ('z, host list) cprog" where
  "cluster_hosts_by_role e role hosts = with_cluster_id (\<lambda>i. get_hosts_by_role e i role hosts)"

definition disable_host :: "env \<Rightarrow> host \<Rightarrow> ('z, unit) cprog" where
  "disable_host e h = on_infra_env (infra_unbind_host e (h_id h))"

definition disable_worker_hosts :: "env \<Rightarrow> ('z, unit) cprog" where
  "disable_worker_hosts e = bindP (cluster_hosts_by_role e (role_value Worker) None) (for_each (disable_host e))"

definition enable_host :: "env \<Rightarrow> host \<Rightarrow> ('z, unit) cprog" where
  "enable_host e h = with_cluster_id (\<lambda>i. on_infra_env (infra_bind_host e (h_id h) i))"

definition cluster_delete_host :: "env \<Rightarrow> host \<Rightarrow> ('z, unit) cprog" where
  "cluster_delete_host e h = on_infra_env (infra_delete_host e (h_id h))"

definition set_specific_host_role :: "env \<Rightarrow> host \<Rightarrow> pyval \<Rightarrow> ('z, unit) cprog" where
  "set_specific_host_role e h role = on_infra_env (infra_update_host e (h_id h) role PNone PNone PNone)"

definition set_host_name :: "env \<Rightarrow> string \<Rightarrow> pyval \<Rightarrow> ('z, unit) cprog" where
  "set_host_name e host_id requested_name =
     on_infra_env (infra_update_host e host_id PNone requested_name PNone PNone)"

definition set_node_labels :: "env \<Rightarrow> string \<Rightarrow> pyval \<Rightarrow> ('z, unit) cprog" where
  "set_node_labels e host_id node_labels =
     on_infra_env (infra_update_host e host_id PNone PNone node_labels PNone)"

definition select_installation_disk :: "env \<Rightarrow> string \<Rightarrow> disk_choice list \<Rightarrow> ('z, unit) cprog" where
  "select_installation_disk e host_id disk_paths =
     on_infra_env (infra_select_host_installation_disk e host_id disk_paths)"

definition get_bootstrap_hostname :: "env \<Rightarrow> ('z, string option) cprog" where
  "get_bootstrap_hostname e =
     bindP (cluster_hosts_by_role e (role_value Master) None) (\<lambda>hosts.
       ret (case find h_bootstrap hosts of None \<Rightarrow> None | Some h \<Rightarrow> h_requested_hostname h))"

definition get_reboot_required_hosts :: "env \<Rightarrow> ('z, host list) cprog" where
  "get_reboot_required_hosts e =
     with_cluster_id (\<lambda>i. get_hosts_in_statuses e i [ns_value NS_ResetingPendingUserAction])"

text \<open>The first host with the identifier; there is none to index if the list is empty.\<close>

definition host_disks :: "host list \<Rightarrow> string \<Rightarrow> (disk_info \<Rightarrow> bool) option \<Rightarrow> exn + disk_info list" where
  "host_disks hosts host_id keep =
     (case filter (\<lambda>h. h_id h = host_id) hosts of
        [] \<Rightarrow> Inl IndexError
      | h # _ \<Rightarrow>
          (case h_inventory h of
             Missing \<Rightarrow> Inl (KeyError ''inventory'')
           | Null \<Rightarrow> Inl TypeError
           | Has i \<Rightarrow> Inr (case keep of None \<Rightarrow> inv_disks i | Some p \<Rightarrow> filter p (inv_disks i))))"

definition get_host_disks :: "env \<Rightarrow> host \<Rightarrow> (disk_info \<Rightarrow> bool) option \<Rightarrow> ('z, disk_info list) cprog" where
  "get_host_disks e h keep = bindP (cluster_hosts e) (\<lambda>hosts. sum_prog (host_disks hosts (h_id h) keep))"

definition reset_install :: "env \<Rightarrow> ('z, unit) cprog" where
  "reset_install e = with_cluster_id (api_reset_cluster_install e)"

text \<open>The nodes of the hosts, by the hostname in their inventory, are reset together.\<close>

definition inventory_hostname :: "host \<Rightarrow> exn + string" where
  "inventory_hostname h =
     (case h_inventory h of Missing \<Rightarrow> Inl (KeyError ''inventory'') | Null \<Rightarrow> Inl TypeError
      | Has i \<Rightarrow> Inr (inv_hostname i))"

definition reboot_required_nodes_into_iso_after_reset :: "env \<Rightarrow> ('z, unit) cprog" where
  "reboot_required_nodes_into_iso_after_reset e =
     bindP (get_reboot_required_hosts e) (\<lambda>hosts.
       bindP (sum_prog (sum_map inventory_hostname hosts)) (\<lambda>names.
         act e ''nodes.reset'' [PList (map PStr names)]))"

definition reset_cluster_and_wait_for_ready :: "'z kwaiter \<Rightarrow> env \<Rightarrow> nodes_env \<Rightarrow> ('z, unit) cprog" where
  "reset_cluster_and_wait_for_ready wait e nv =
     thenP (reset_install e)
     (bindP (cluster_is_in_status e CS_Insufficient) (\<lambda>b.
       thenP (assertP (is_true b))
       (thenP (reboot_required_nodes_into_iso_after_reset e)
       (thenP (with_cluster_id (base_wait_until_hosts_are_discovered wait e nv False None))
         (wait_for_ready_to_install wait e)))))"

text \<open>\<open>^tt(\d+)$\<close>: the number after \<open>tt\<close>, 0 if the name has another form. \<open>$\<close> matches before a final newline too.\<close>

definition is_digit :: "char \<Rightarrow> bool" where
  "is_digit c \<longleftrightarrow> 48 \<le> (of_char c :: nat) \<and> (of_char c :: nat) \<le> 57"

definition chomp :: "string \<Rightarrow> string" where
  "chomp s = (if s \<noteq> [] \<and> last s = CHR 0x0A then butlast s else s)"

definition get_namespace_index :: "string \<Rightarrow> nat" where
  "get_namespace_index libvirt_network_if =
     (case libvirt_network_if of
        CHR ''t'' # CHR ''t'' # ds \<Rightarrow>
          (let n = chomp ds in if n \<noteq> [] \<and> list_all is_digit n then undec 0 n else 0)
      | _ \<Rightarrow> 0)"

section \<open>Properties\<close>

subsection \<open>Custom manifests\<close>

text \<open>The call that creates a manifest.\<close>

definition manifest_call :: "string \<Rightarrow> manifest \<Rightarrow> call" where
  "manifest_call i m = V2CreateManifest i
     (PDict [(''file_name'', PStr (mf_file_name m)), (''folder'', PStr (mf_folder m)),
             (''content'', PStr (case mf_content m of TextContent s \<Rightarrow> b64encode (utf8 s) | BytesContent _ \<Rightarrow> []))])"

definition is_text :: "manifest \<Rightarrow> bool" where
  "is_text m \<longleftrightarrow> (case mf_content m of TextContent _ \<Rightarrow> True | BytesContent _ \<Rightarrow> False)"

lemma create_manifest_Inr:
  "create_manifest e i m s = (Inr (), t) \<Longrightarrow>
     is_text m \<and> t = s\<lparr>hist := hist s @ [manifest_call i m]\<rparr>
     \<and> (\<exists>v. e_ask e (hist s) (manifest_call i m) = Inr v \<and> attribute v ''file_name'' = PStr (mf_file_name m)
          \<and> attribute v ''folder'' = PStr (mf_folder m))"
  by (cases "mf_content m")
    (auto simp: create_manifest_def encoded_content_def is_text_def manifest_call_def
      api_create_custom_manifest_def ask_call_def ext_app prog_simps bindP_def
      split: sum.splits if_splits)

lemma create_manifests_Inr:
  "for_each (create_manifest e i) xs s = (Inr (), t) \<Longrightarrow>
     list_all is_text xs \<and> t = s\<lparr>hist := hist s @ map (manifest_call i) xs\<rparr>"
proof (induction xs arbitrary: s)
  case Nil
  then show ?case by (simp add: prog_simps)
next
  case (Cons m xs)
  then obtain u where "create_manifest e i m s = (Inr (), u)" "for_each (create_manifest e i) xs u = (Inr (), t)"
    by (auto elim!: bindP_InrE)
  with Cons.IH [of u] show ?case by (auto dest!: create_manifest_Inr)
qed

text \<open>If creating the custom manifests returns normally, each of them was sent once, in order, with its
  folder, its name and the base64 form of its UTF-8 text, nothing else was called, and every one of
  them holds text.\<close>

lemma manifests_are_sent:
  assumes "create_custom_manifests e ms s = (Inr (), t)"
  shows "list_all is_text (ms (hist s))
    \<and> t = s\<lparr>hist := hist s @ map (manifest_call (text_of (cluster_id s))) (ms (hist s))\<rparr>"
  using assms by (auto simp: create_custom_manifests_def with_cluster_id_def bindP_app dest!: create_manifests_Inr)

definition sample_manifest :: manifest where
  "sample_manifest = \<lparr>mf_folder = ''openshift'', mf_file_name = ''a.yaml'', mf_content = TextContent ''abc''\<rparr>"

definition echo_env :: env where
  "echo_env = (still_env (sample_cluster ''ready'' []))\<lparr>e_ask :=
     (\<lambda>_ c. case c of V2CreateManifest i v \<Rightarrow> Inr v | _ \<Rightarrow> Inr PNone)\<rparr>"

lemma b64_abc: "b64encode (utf8 ''abc'') = ''YWJj''"
  by code_simp

lemma manifests_run:
  "create_custom_manifests echo_env (\<lambda>_. [sample_manifest]) (sample_cluster_state False) =
     (Inr (), sample_cluster_state False\<lparr>hist := [manifest_call ''c'' sample_manifest]\<rparr>)"
  by (simp add: create_custom_manifests_def with_cluster_id_def bindP_app prog_simps create_manifest_def
      encoded_content_def api_create_custom_manifest_def ask_call_def ext_app bindP_def
      sample_manifest_def manifest_call_def echo_env_def sample_cluster_state_def cluster_id_def cfg_def
      text_of_def attribute_def)

lemma manifests_are_sent_witness:
  "hist (snd (create_custom_manifests echo_env (\<lambda>_. [sample_manifest]) (sample_cluster_state False))) =
     [V2CreateManifest ''c'' (PDict [(''file_name'', PStr ''a.yaml''), (''folder'', PStr ''openshift''),
        (''content'', PStr ''YWJj'')])]"
  using manifests_are_sent [OF manifests_run] unfolding manifests_run
  by (simp add: manifest_call_def sample_manifest_def b64_abc sample_cluster_state_def)



subsection \<open>Ready to install\<close>

lemma wait_status_seen:
  assumes "waits_by wait" and "wait_status wait e statuses timeout [] s = (Inr (), t)"
  shows "observed e (text_of (cluster_id s)) s t (\<lambda>c. cl_status c \<in> set statuses)"
proof -
  have "wait_till_cluster_is_in_status wait e (text_of (cluster_id s)) statuses timeout 30 [] s = (Inr (), t)"
    using assms(2) by (simp add: wait_status_def with_cluster_id_def bindP_app)
  then have "wait (bindP (is_cluster_in_status e (text_of (cluster_id s)) statuses)
          (\<lambda>b. ret (truthy (is_true b)))) timeout 30 no_exceptions s = (Inr (), t)"
    unfolding wait_till_cluster_is_in_status_def
    by (auto simp: try_except_def reraise_never_returns split: prod.splits sum.splits)
  then show ?thesis by (rule wait_status_observed [OF assms(1)])
qed

text \<open>Waiting for a cluster to be ready to install returns normally only after the service showed it in
  \<open>ready\<close>, then ten seconds were slept, and then it was shown in \<open>ready\<close> again by the last call.\<close>

lemma ready_is_seen_twice:
  assumes "waits_by wait" and "wait_for_ready_to_install wait e s = (Inr (), t)"
  shows "\<exists>u. observed e (text_of (cluster_id s)) s u (\<lambda>c. cl_status c = cs_value CS_Ready)
    \<and> observed e (text_of (cluster_id s)) (u\<lparr>hist := hist u @ [Sleep 10]\<rparr>) t (\<lambda>c. cl_status c = cs_value CS_Ready)"
proof -
  obtain u where u: "wait_status wait e [cs_value CS_Ready] READY_TIMEOUT [] s = (Inr (), u)"
    and t: "wait_status wait e [cs_value CS_Ready] READY_TIMEOUT [] (u\<lparr>hist := hist u @ [Sleep 10]\<rparr>) = (Inr (), t)"
    using assms(2)
    by (auto simp: wait_for_ready_to_install_def sleepP_def bindP_def ext_app split: prod.splits sum.splits)
  have "keeps only_calls (wait_status wait e [cs_value CS_Ready] READY_TIMEOUT [])"
    using assms(1) by (auto simp: wait_status_def)
  from only_calls_cluster(3) [OF keepsD [OF this u]]
  have "cluster_id (u\<lparr>hist := hist u @ [Sleep 10]\<rparr>) = cluster_id s"
    by (simp add: cluster_id_def)
  with wait_status_seen [OF assms(1) u] wait_status_seen [OF assms(1) t] show ?thesis by auto
qed

lemma ready_run:
  "wait_for_ready_to_install (poll_upto 0) (still_env (sample_cluster ''ready'' [])) (sample_cluster_state False) =
     (Inr (), sample_cluster_state False\<lparr>hist := [V2GetCluster ''c'' False, Sleep 10, V2GetCluster ''c'' False]\<rparr>)"
  by (simp add: wait_for_ready_to_install_def wait_status_def with_cluster_id_def bindP_def cluster_id_def cfg_def
      text_of_def wait_till_cluster_is_in_status_def poll_upto.simps is_cluster_in_status_app try_except_def
      is_true_def concrete_env prog_simps sleepP_def ext_app sample_cluster_state_def)

lemma ready_is_seen_twice_witness:
  "\<exists>u. observed (still_env (sample_cluster ''ready'' [])) ''c'' (sample_cluster_state False) u
     (\<lambda>c. cl_status c = cs_value CS_Ready)"
  using ready_is_seen_twice [OF waits_by_poll_upto ready_run]
  by (auto simp: sample_cluster_state_def cluster_id_def cfg_def text_of_def)

subsection \<open>Validations\<close>

lemma validation_in_status_app:
  "validation_in_status e check s =
     (Inr (case e_get_cluster e (hist s) (text_of (cluster_id s)) of Inl _ \<Rightarrow> None
           | Inr c \<Rightarrow> (case check c of Inl _ \<Rightarrow> None | Inr b \<Rightarrow> Some b)),
      s\<lparr>hist := hist s @ [V2GetCluster (text_of (cluster_id s)) False]\<rparr>)"
  by (simp add: validation_in_status_def try_except_def with_cluster_id_def bindP_app bindP_def cluster_get_app
      prog_simps split: sum.split)

lemma wait_for_validation_Inr:
  assumes "waits_by wait" and "wait_for_validation wait e check timeout interval s = (Inr (), t)"
  obtains s' c where "e_get_cluster e (hist s') (text_of (cluster_id s')) = Inr c" "check c = Inr True"
    "t = s'\<lparr>hist := hist s' @ [V2GetCluster (text_of (cluster_id s')) False]\<rparr>"
proof -
  let ?p = "bindP (validation_in_status e check) (\<lambda>b. ret (truthy (is_true b)))"
  have no: "with_cluster_id (\<lambda>i. bindP (cluster_get e i False) (\<lambda>c.
      bindP (sum_prog (check c)) (\<lambda>_. raise x))) u \<noteq> (Inr (), t)" for x u
    by (auto simp: with_cluster_id_def bindP_app bindP_def cluster_get_app prog_simps split: sum.split)
  then have "wait ?p timeout interval no_exceptions s = (Inr (), t)"
    using assms(2) by (auto simp: wait_for_validation_def try_except_def split: prod.splits sum.splits)
  from wait_Inr [OF assms(1) this] obtain s' where "?p s' = (Inr (Some ()), t)" ..
  then show thesis
    by (auto simp: bindP_def validation_in_status_app prog_simps is_true_def split: sum.splits intro: that)
qed

text \<open>Waiting for a validation returns normally only if the last call asked for the cluster and the
  validation was in one of the statuses in the answer; the exceptions of a check that cannot be made do
  not count as success.\<close>

lemma wait_validation_sound:
  assumes "waits_by wait"
    and "wait_for_cluster_validation wait e parse sec vid statuses timeout interval s = (Inr (), t)"
  shows "\<exists>h c vs. hist t = h @ [V2GetCluster (text_of (cluster_id t)) False]
    \<and> e_get_cluster e h (text_of (cluster_id t)) = Inr c \<and> parse c = Inr vs
    \<and> (\<exists>v \<in> set statuses. get_cluster_validation_value vs sec vid = Inr v)"
proof -
  obtain s' c where c: "e_get_cluster e (hist s') (text_of (cluster_id s')) = Inr c"
    and check: "cluster_validation_check parse sec vid statuses c = Inr True"
    and t: "t = s'\<lparr>hist := hist s' @ [V2GetCluster (text_of (cluster_id s')) False]\<rparr>"
    using assms(2) unfolding wait_for_cluster_validation_def by (rule wait_for_validation_Inr [OF assms(1)])
  have "cluster_id t = cluster_id s'" by (simp add: t cluster_id_def)
  moreover obtain vs v where "parse c = Inr vs" "get_cluster_validation_value vs sec vid = Inr v" "v \<in> set statuses"
    using check by (auto simp: cluster_validation_check_def sum_bind_Inr_iff)
  ultimately show ?thesis using c t by auto
qed

lemma validation_run:
  "wait_for_cluster_validation (poll_upto 0) (still_env (sample_cluster ''ready'' []))
     (\<lambda>_. Inr [(''network'', [\<lparr>val_id = ''dns'', val_status = ''success''\<rparr>])]) ''network'' ''dns'' [''success''] 60 2
     (sample_cluster_state False) = (Inr (), sample_cluster_state False\<lparr>hist := [V2GetCluster ''c'' False]\<rparr>)"
  by (simp add: wait_for_cluster_validation_def wait_for_validation_def try_except_def poll_upto.simps bindP_def
      validation_in_status_app sample_cluster_state_def cluster_id_def cfg_def text_of_def concrete_env prog_simps
      cluster_validation_check_def sum_bind_def get_cluster_validation_value_def found_status_def is_true_def)

lemma wait_validation_sound_witness:
  "\<exists>h c. [V2GetCluster ''c'' False] = h @ [V2GetCluster ''c'' False]
     \<and> e_get_cluster (still_env (sample_cluster ''ready'' [])) h ''c'' = Inr c"
  using wait_validation_sound [OF waits_by_poll_upto validation_run]
  by (auto simp: sample_cluster_state_def cluster_id_def cfg_def text_of_def)

end
