(* ===== verification/Firewall.thy ===== *)
theory Firewall
  imports Prepare
begin

text \<open>
  \<open>controllers/iptables.py\<close>, \<open>nat_controller.py\<close> and \<open>load_balancer_controller.py\<close>. The tables of
  the kernel's packet filter are outside: what they hold is computed from the history of
  commands by the documented meaning of \<open>--insert\<close> and \<open>--delete\<close>, and an environment keeps a
  table if it answers accordingly (\<open>keeps_table\<close>). Both controllers add a rule only if the table
  does not have it; what that needs from the way they build commands is a locale.
\<close>

section \<open>Rules and commands\<close>

datatype command_option = Check | Insert | Delete

fun option_value :: "command_option \<Rightarrow> string" where
  "option_value Check = ''check''"
| "option_value Insert = ''insert''"
| "option_value Delete = ''delete''"

record iptable_rule =
  ir_chain :: string
  ir_target :: string
  ir_protocol :: string
  ir_dest_port :: string
  ir_sources :: "string list"
  ir_extra_args :: string
  ir_is_ipv6 :: bool

definition iptables_bin :: "bool \<Rightarrow> string" where
  "iptables_bin is_ipv6 = (if is_ipv6 then ''ip6tables'' else ''iptables'')"

text \<open>The command up to the option, and the words of the rule after it.\<close>

definition filter_command :: "bool \<Rightarrow> command_option \<Rightarrow> string \<Rightarrow> string" where
  "filter_command is_ipv6 option rule = iptables_bin is_ipv6 @ '' --'' @ option_value option @ '' '' @ rule"

definition rule_words :: "iptable_rule \<Rightarrow> string list" where
  "rule_words r =
     [ir_chain r, ''-p'', ir_protocol r, ''-j'', ir_target r]
     @ (if ir_sources r \<noteq> [] then [''-s'', join '','' (ir_sources r)] else [])
     @ (if ir_dest_port r \<noteq> [] then [''--dport'', ir_dest_port r] else [])
     @ (if ir_extra_args r \<noteq> [] then [ir_extra_args r] else [])"

definition build_command_string :: "iptable_rule \<Rightarrow> command_option \<Rightarrow> string" where
  "build_command_string r option = filter_command (ir_is_ipv6 r) option (join '' '' (rule_words r))"

definition add_sources :: "string list \<Rightarrow> iptable_rule \<Rightarrow> iptable_rule" where
  "add_sources sources r = r\<lparr>ir_sources := ir_sources r @ sources\<rparr>"

definition build_rule_string :: "command_option \<Rightarrow> string \<Rightarrow> string" where
  "build_rule_string option rule_suffix = ''iptables -t nat --'' @ option_value option @ '' '' @ rule_suffix"

section \<open>Checking, adding and removing\<close>

definition does_rule_exist ::
  "env \<Rightarrow> (command_option \<Rightarrow> string \<Rightarrow> string) \<Rightarrow> string \<Rightarrow> ((call, 'z) world_scheme, bool) prog" where
  "does_rule_exist e cmd rule =
     bindP (run_command e (cmd Check rule) False) (\<lambda>(_, _, exit_code). ret (exit_code = 0))"

definition add_rule ::
  "env \<Rightarrow> (command_option \<Rightarrow> string \<Rightarrow> string) \<Rightarrow> string \<Rightarrow> ((call, 'z) world_scheme, unit) prog" where
  "add_rule e cmd rule =
     bindP (does_rule_exist e cmd rule) (\<lambda>there.
       if \<not> there then thenP (run_command e (cmd Insert rule) True) (ret ()) else ret ())"

definition remove_rule ::
  "env \<Rightarrow> (command_option \<Rightarrow> string \<Rightarrow> string) \<Rightarrow> string \<Rightarrow> ((call, 'z) world_scheme, unit) prog" where
  "remove_rule e cmd rule =
     bindP (does_rule_exist e cmd rule) (\<lambda>there.
       if there then thenP (run_command e (cmd Delete rule) True) (ret ()) else ret ())"

definition rule_insert :: "env \<Rightarrow> iptable_rule \<Rightarrow> ((call, 'z) world_scheme, unit) prog" where
  "rule_insert e r = add_rule e (filter_command (ir_is_ipv6 r)) (join '' '' (rule_words r))"

definition rule_delete :: "env \<Rightarrow> iptable_rule \<Rightarrow> ((call, 'z) world_scheme, unit) prog" where
  "rule_delete e r = remove_rule e (filter_command (ir_is_ipv6 r)) (join '' '' (rule_words r))"

section \<open>Address translation\<close>

record nat_controller =
  nc_input_interfaces :: "string list"
  nc_ns_index :: nat

definition build_mark :: "nat_controller \<Rightarrow> nat" where
  "build_mark nc = 555 + nc_ns_index nc"

definition build_mark_string :: "nat_controller \<Rightarrow> string \<Rightarrow> string" where
  "build_mark_string nc input_interface =
     join '' '' [''PREROUTING'', ''-i'', input_interface, ''-j'', ''MARK'', ''--set-mark'', dec (build_mark nc)]"

definition build_nat_string :: "nat_controller \<Rightarrow> string \<Rightarrow> string" where
  "build_nat_string nc output_interface =
     join '' '' [''POSTROUTING'', ''-m'', ''mark'', ''--mark'', dec (build_mark nc), ''-o'', output_interface,
       ''-j'', ''MASQUERADE'']"

definition default_route_command :: string where
  "default_route_command = ''ip -4 route | egrep '^default ' | awk '{print $5}'' @ [CHR 0x27]"

text \<open>\<open>iter\<close> is the order in which Python iterates over the set of the words.\<close>

definition get_default_interfaces ::
  "(string list \<Rightarrow> string list) \<Rightarrow> env \<Rightarrow> ((call, 'z) world_scheme, string list) prog" where
  "get_default_interfaces iter e =
     bindP (run_command e default_route_command True) (\<lambda>(interfaces, _, _). ret (iter (words (strip interfaces))))"

definition add_nat_rules ::
  "(string list \<Rightarrow> string list) \<Rightarrow> env \<Rightarrow> nat_controller \<Rightarrow> ((call, 'z) world_scheme, unit) prog" where
  "add_nat_rules iter e nc =
     bindP (get_default_interfaces iter e) (\<lambda>outs.
       thenP (for_each (\<lambda>i. add_rule e build_rule_string (build_nat_string nc i)) outs)
         (for_each (\<lambda>i. add_rule e build_rule_string (build_mark_string nc i)) (nc_input_interfaces nc)))"

definition remove_nat_rules ::
  "(string list \<Rightarrow> string list) \<Rightarrow> env \<Rightarrow> nat_controller \<Rightarrow> ((call, 'z) world_scheme, unit) prog" where
  "remove_nat_rules iter e nc =
     thenP (for_each (\<lambda>i. remove_rule e build_rule_string (build_mark_string nc i)) (nc_input_interfaces nc))
       (bindP (get_default_interfaces iter e) (\<lambda>outs.
          for_each (\<lambda>i. remove_rule e build_rule_string (build_nat_string nc i)) outs))"

section \<open>The load balancer\<close>

definition tab :: char where "tab = CHR 0x09"

definition render_socket_endpoint :: "string \<Rightarrow> nat \<Rightarrow> string" where
  "render_socket_endpoint ip port =
     (if occurs_in ''.'' ip then ip @ '':'' @ dec port else ''['' @ ip @ '']:'' @ dec port)"

definition render_upstream_server :: "string \<Rightarrow> nat \<Rightarrow> string" where
  "render_upstream_server ip port = [tab, tab] @ ''server '' @ render_socket_endpoint ip port @ '';''"

definition render_upstream_servers :: "string list \<Rightarrow> nat \<Rightarrow> string" where
  "render_upstream_servers ips port =
     join [newline] (map (\<lambda>ip. render_upstream_server ip port) ips) @ [newline]"

definition render_upstream_block :: "string list \<Rightarrow> nat \<Rightarrow> string \<Rightarrow> string" where
  "render_upstream_block ips port upstream_name =
     [tab] @ ''upstream '' @ upstream_name @ '' {'' @ [newline] @ render_upstream_servers ips port
       @ [tab] @ ''}'' @ [newline]"

definition render_server_block :: "string \<Rightarrow> nat \<Rightarrow> string \<Rightarrow> string" where
  "render_server_block load_balancer_ip port upstream_name =
     [tab] @ ''server {'' @ [newline, tab, tab] @ ''listen '' @ render_socket_endpoint load_balancer_ip port @ '';''
       @ [newline, tab, tab] @ ''proxy_pass '' @ upstream_name @ '';'' @ [newline, tab] @ ''}'' @ [newline]"

definition upstream_name_of :: "string \<Rightarrow> nat \<Rightarrow> string" where
  "upstream_name_of load_balancer_ip port =
     ''upstream_'' @ map (\<lambda>c. if c = CHR ''.'' \<or> c = CHR '':'' then CHR ''_'' else c) load_balancer_ip
       @ ''_'' @ dec port"

definition render_port_entities :: "string \<Rightarrow> string list \<Rightarrow> nat \<Rightarrow> string" where
  "render_port_entities load_balancer_ip ips port =
     (let name = upstream_name_of load_balancer_ip port
      in render_upstream_block ips port name @ render_server_block load_balancer_ip port name)"

definition DEFAULT_LOAD_BALANCER_PORT :: nat where "DEFAULT_LOAD_BALANCER_PORT = 6443"

definition render_load_balancer_config_file :: "string \<Rightarrow> string list \<Rightarrow> string list \<Rightarrow> string" where
  "render_load_balancer_config_file load_balancer_ip master_ips worker_ips =
     join [newline]
       (map (render_port_entities load_balancer_ip master_ips) [DEFAULT_LOAD_BALANCER_PORT, 22623]
        @ map (render_port_entities load_balancer_ip (if worker_ips \<noteq> [] then worker_ips else master_ips)) [80, 443])"

definition connect_to_load_balancer :: "env \<Rightarrow> string \<Rightarrow> ((call, 'z) world_scheme, bool) prog" where
  "connect_to_load_balancer e load_balancer_ip =
     try_except
       (thenP (act e ''socket.connect'' [PStr load_balancer_ip, PInt (int DEFAULT_LOAD_BALANCER_PORT)]) (ret True))
       (\<lambda>x. if is_Exception x then ret False else raise x)"

definition set_load_balancing_config ::
  "((call, 'z) world_scheme, unit) waiter \<Rightarrow> env \<Rightarrow> string \<Rightarrow> string list \<Rightarrow> string list
     \<Rightarrow> ((call, 'z) world_scheme, unit) prog" where
  "set_load_balancing_config wait e load_balancer_ip master_ips worker_ips =
     thenP (act e ''tf.change_variables'' [PDict [(''load_balancer_ip'', PStr load_balancer_ip),
              (''load_balancer_config_file'',
                 PStr (render_load_balancer_config_file load_balancer_ip master_ips worker_ips))]])
       (wait (bindP (connect_to_load_balancer e load_balancer_ip) (\<lambda>b. ret (truthy b))) 120 5 no_exceptions)"

section \<open>What a table holds\<close>

text \<open>The copies of a rule in a table, from those at the start and the commands since.\<close>

definition step_copies ::
  "(command_option \<Rightarrow> string \<Rightarrow> string) \<Rightarrow> string \<Rightarrow> call \<Rightarrow> nat \<Rightarrow> nat" where
  "step_copies cmd rule c n =
     (if c = ShellCommand (cmd Insert rule) then n + 1
      else if c = ShellCommand (cmd Delete rule) then n - 1 else n)"

definition copies ::
  "(command_option \<Rightarrow> string \<Rightarrow> string) \<Rightarrow> (string \<Rightarrow> nat) \<Rightarrow> call list \<Rightarrow> string \<Rightarrow> nat" where
  "copies cmd start h rule = fold (step_copies cmd rule) h (start rule)"

lemma copies_Nil [simp]: "copies cmd start [] rule = start rule"
  by (simp add: copies_def)

lemma copies_snoc [simp]: "copies cmd start (h @ [c]) rule = step_copies cmd rule c (copies cmd start h rule)"
  by (simp add: copies_def)

text \<open>\<open>--check\<close> and \<open>--delete\<close> succeed if the rule is there, \<open>--insert\<close> always does.\<close>

definition keeps_table :: "env \<Rightarrow> (command_option \<Rightarrow> string \<Rightarrow> string) \<Rightarrow> (string \<Rightarrow> nat) \<Rightarrow> bool" where
  "keeps_table e cmd start \<longleftrightarrow>
     (\<forall>h rule. (\<exists>p. e_run e h (cmd Check rule) = Inr p \<and> (p_rc p = 0 \<longleftrightarrow> 0 < copies cmd start h rule))
       \<and> (\<exists>p. e_run e h (cmd Insert rule) = Inr p \<and> p_rc p = 0)
       \<and> (\<exists>p. e_run e h (cmd Delete rule) = Inr p \<and> (p_rc p = 0 \<longleftrightarrow> 0 < copies cmd start h rule)))"

text \<open>What adding and removing need of the commands: they tell the options and the rules apart.\<close>

locale rule_commands =
  fixes cmd :: "command_option \<Rightarrow> string \<Rightarrow> string"
  assumes cmd_eq: "cmd opt rule = cmd opt' rule' \<longleftrightarrow> opt = opt' \<and> rule = rule'"
begin

lemma run_command_app:
  assumes "e_run e (hist s) c = Inr p"
  shows "run_command e c raises s =
    (if raises \<and> p_rc p \<noteq> 0 then Inl RuntimeError else Inr (strip (p_out p), strip (p_err p), p_rc p),
     s\<lparr>hist := hist s @ [ShellCommand c]\<rparr>)"
  using assms by (simp add: run_command_def bindP_def ext_app prog_simps)

lemma exists_app:
  assumes "keeps_table e cmd start"
  shows "does_rule_exist e cmd rule s =
    (Inr (0 < copies cmd start (hist s) rule), s\<lparr>hist := hist s @ [ShellCommand (cmd Check rule)]\<rparr>)"
proof -
  obtain p where "e_run e (hist s) (cmd Check rule) = Inr p" "p_rc p = 0 \<longleftrightarrow> 0 < copies cmd start (hist s) rule"
    using assms unfolding keeps_table_def by blast
  then show ?thesis by (simp add: does_rule_exist_def bindP_def run_command_app prog_simps)
qed

text \<open>Adding leaves one copy at least, removing takes one away; no other rule is touched.\<close>

lemma add_rule_copies:
  assumes "keeps_table e cmd start"
  shows "\<exists>t. add_rule e cmd rule s = (Inr (), t) \<and> (\<forall>q. copies cmd start (hist t) q =
    (if q = rule then max 1 (copies cmd start (hist s) q) else copies cmd start (hist s) q))"
proof (cases "0 < copies cmd start (hist s) rule")
  case True
  then show ?thesis
    by (intro exI [of _ "s\<lparr>hist := hist s @ [ShellCommand (cmd Check rule)]\<rparr>"])
      (auto simp: add_rule_def bindP_def exists_app [OF assms] prog_simps step_copies_def cmd_eq)
next
  case False
  let ?u = "s\<lparr>hist := hist s @ [ShellCommand (cmd Check rule)]\<rparr>"
  obtain p where "e_run e (hist ?u) (cmd Insert rule) = Inr p" "p_rc p = 0"
    using assms unfolding keeps_table_def by blast
  from run_command_app [OF this(1), of True] this(2) False show ?thesis
    by (intro exI [of _ "?u\<lparr>hist := hist ?u @ [ShellCommand (cmd Insert rule)]\<rparr>"])
      (auto simp: add_rule_def bindP_def exists_app [OF assms] prog_simps step_copies_def cmd_eq
        simp flip: append_assoc)
qed

lemma remove_rule_copies:
  assumes "keeps_table e cmd start"
  shows "\<exists>t. remove_rule e cmd rule s = (Inr (), t) \<and> (\<forall>q. copies cmd start (hist t) q =
    (if q = rule then copies cmd start (hist s) q - 1 else copies cmd start (hist s) q))"
proof (cases "0 < copies cmd start (hist s) rule")
  case False
  then show ?thesis
    by (intro exI [of _ "s\<lparr>hist := hist s @ [ShellCommand (cmd Check rule)]\<rparr>"])
      (auto simp: remove_rule_def bindP_def exists_app [OF assms] prog_simps step_copies_def cmd_eq)
next
  case True
  let ?u = "s\<lparr>hist := hist s @ [ShellCommand (cmd Check rule)]\<rparr>"
  have "copies cmd start (hist ?u) rule = copies cmd start (hist s) rule"
    by (simp add: step_copies_def cmd_eq)
  with True obtain p where "e_run e (hist ?u) (cmd Delete rule) = Inr p" "p_rc p = 0"
    using assms unfolding keeps_table_def by metis
  from run_command_app [OF this(1), of True] this(2) True show ?thesis
    by (intro exI [of _ "?u\<lparr>hist := hist ?u @ [ShellCommand (cmd Delete rule)]\<rparr>"])
      (auto simp: remove_rule_def bindP_def exists_app [OF assms] prog_simps step_copies_def cmd_eq
        simp flip: append_assoc)
qed

end

lemma option_value_split:
  "option_value a @ '' '' @ r = option_value b @ '' '' @ q \<longleftrightarrow> a = b \<and> r = q"
  by (cases a; cases b) auto

interpretation filter_table: rule_commands "filter_command is_ipv6" for is_ipv6
  by unfold_locales (use option_value_split in \<open>auto simp: filter_command_def\<close>)

interpretation nat_table: rule_commands build_rule_string
  by unfold_locales (use option_value_split in \<open>auto simp: build_rule_string_def\<close>)

section \<open>Properties\<close>

context rule_commands begin

lemma add_rules_copies:
  assumes "keeps_table e cmd start"
  shows "\<exists>t. for_each (\<lambda>i. add_rule e cmd (f i)) xs s = (Inr (), t)
    \<and> (\<forall>q. copies cmd start (hist t) q =
         (if q \<in> f ` set xs then max 1 (copies cmd start (hist s) q) else copies cmd start (hist s) q))"
proof (induction xs arbitrary: s)
  case Nil
  then show ?case by (simp add: prog_simps)
next
  case (Cons x xs)
  obtain u where u: "add_rule e cmd (f x) s = (Inr (), u)"
    "\<forall>q. copies cmd start (hist u) q = (if q = f x then max 1 (copies cmd start (hist s) q) else copies cmd start (hist s) q)"
    using add_rule_copies [OF assms, of "f x" s] by blast
  obtain t where "for_each (\<lambda>i. add_rule e cmd (f i)) xs u = (Inr (), t)"
    "\<forall>q. copies cmd start (hist t) q =
       (if q \<in> f ` set xs then max 1 (copies cmd start (hist u) q) else copies cmd start (hist u) q)"
    using Cons.IH [of u] by blast
  with u show ?case by (auto simp: bindP_def)
qed

lemma remove_rules_copies:
  assumes "keeps_table e cmd start"
  shows "\<exists>t. for_each (\<lambda>i. remove_rule e cmd (f i)) xs s = (Inr (), t)
    \<and> (\<forall>q. copies cmd start (hist t) q = copies cmd start (hist s) q - length (filter (\<lambda>i. f i = q) xs))"
proof (induction xs arbitrary: s)
  case Nil
  then show ?case by (simp add: prog_simps)
next
  case (Cons x xs)
  obtain u where u: "remove_rule e cmd (f x) s = (Inr (), u)"
    "\<forall>q. copies cmd start (hist u) q = (if q = f x then copies cmd start (hist s) q - 1 else copies cmd start (hist s) q)"
    using remove_rule_copies [OF assms, of "f x" s] by blast
  obtain t where "for_each (\<lambda>i. remove_rule e cmd (f i)) xs u = (Inr (), t)"
    "\<forall>q. copies cmd start (hist t) q = copies cmd start (hist u) q - length (filter (\<lambda>i. f i = q) xs)"
    using Cons.IH [of u] by blast
  with u show ?case by (auto simp: bindP_def)
qed

end

text \<open>Inserting a filter rule, once or several times, leaves it in a table that does not have it exactly
  once; deleting it then takes it out again, and no other rule is touched.\<close>

lemma inserted_once_and_deleted:
  assumes "keeps_table e (filter_command (ir_is_ipv6 r)) start"
    and "copies (filter_command (ir_is_ipv6 r)) start (hist s) (join '' '' (rule_words r)) = 0"
  shows "\<exists>t u. for_each (\<lambda>_. rule_insert e r) [0..<Suc n] s = (Inr (), t) \<and> rule_delete e r t = (Inr (), u)
    \<and> copies (filter_command (ir_is_ipv6 r)) start (hist t) (join '' '' (rule_words r)) = 1
    \<and> (\<forall>q. copies (filter_command (ir_is_ipv6 r)) start (hist u) q
          = copies (filter_command (ir_is_ipv6 r)) start (hist s) q)"
proof -
  let ?c = "filter_command (ir_is_ipv6 r)" and ?r = "join '' '' (rule_words r)"
  have one: "(\<lambda>_. ?r) ` set [0..<Suc n] = {?r}" by auto
  obtain t where t: "for_each (\<lambda>_. add_rule e ?c ?r) [0..<Suc n] s = (Inr (), t)"
    "\<forall>q. copies ?c start (hist t) q = (if q = ?r then max 1 (copies ?c start (hist s) q)
        else copies ?c start (hist s) q)"
    using filter_table.add_rules_copies [OF assms(1), of "\<lambda>_. ?r" "[0..<Suc n]" s] unfolding one singleton_iff by blast
  obtain u where u: "remove_rule e ?c ?r t = (Inr (), u)"
    "\<forall>q. copies ?c start (hist u) q = (if q = ?r then copies ?c start (hist t) q - 1
        else copies ?c start (hist t) q)"
    using filter_table.remove_rule_copies [OF assms(1), of ?r t] by blast
  show ?thesis
    unfolding rule_insert_def rule_delete_def
    using t u assms(2) by (intro exI [of _ t] exI [of _ u]) auto
qed

text \<open>A packet filter that starts empty, for concrete runs.\<close>

definition table_env :: "(command_option \<Rightarrow> string \<Rightarrow> string) \<Rightarrow> env" where
  "table_env cmd = (still_env (sample_cluster [] []))\<lparr>e_run := (\<lambda>h c.
     let ask = (\<lambda>opt. Inr \<lparr>p_out = [], p_err = [],
           p_rc = if 0 < copies cmd (\<lambda>_. 0) h (drop (length (cmd opt [])) c) then 0 else 1\<rparr>)
     in if prefix (cmd Check []) c then ask Check
        else if prefix (cmd Delete []) c then ask Delete
        else Inr \<lparr>p_out = (if c = default_route_command then ''eth0'' else []), p_err = [], p_rc = 0\<rparr>)\<rparr>"

lemma table_env_filter: "keeps_table (table_env (filter_command b)) (filter_command b) (\<lambda>_. 0)"
  by (auto simp: keeps_table_def table_env_def filter_command_def Let_def)

lemma table_env_nat: "keeps_table (table_env build_rule_string) build_rule_string (\<lambda>_. 0)"
  by (auto simp: keeps_table_def table_env_def build_rule_string_def Let_def)

definition sample_rule :: iptable_rule where
  "sample_rule = \<lparr>ir_chain = ''INPUT'', ir_target = ''ACCEPT'', ir_protocol = ''tcp'', ir_dest_port = ''80'',
     ir_sources = [], ir_extra_args = [], ir_is_ipv6 = False\<rparr>"

lemma inserted_once_and_deleted_witness:
  "\<exists>t. for_each (\<lambda>_. rule_insert (table_env (filter_command False)) sample_rule) [0..<Suc 2] fresh_world = (Inr (), t)
     \<and> copies (filter_command False) (\<lambda>_. 0) (hist t) (join '' '' (rule_words sample_rule)) = 1"
  using inserted_once_and_deleted [of "table_env (filter_command False)" sample_rule "\<lambda>_. 0" fresh_world 2]
    table_env_filter [of False] by (auto simp: sample_rule_def fresh_world_def)

text \<open>The rules of a controller when \<open>outs\<close> are the interfaces with a default route.\<close>

definition nat_rules :: "nat_controller \<Rightarrow> string list \<Rightarrow> string set" where
  "nat_rules nc outs = build_nat_string nc ` set outs \<union> build_mark_string nc ` set (nc_input_interfaces nc)"

lemma default_interfaces_app:
  assumes "\<forall>h. e_run e h default_route_command = Inr p" "p_rc p = 0"
  shows "get_default_interfaces iter e s = (Inr (iter (words (strip (strip (p_out p))))),
    s\<lparr>hist := hist s @ [ShellCommand default_route_command]\<rparr>)"
  using assms by (simp add: get_default_interfaces_def run_command_def bindP_def ext_app prog_simps)

lemma hist_snoc: "hist (s\<lparr>hist := h @ [c]\<rparr>) = h @ [c]"
  by simp

lemma copies_default_route:
  "copies build_rule_string start (h @ [ShellCommand default_route_command]) q = copies build_rule_string start h q"
  by (simp add: step_copies_def build_rule_string_def default_route_command_def)

text \<open>C36: On a table in which no rule is there twice, adding the address translation rules leaves each of
  them there exactly once, and removing them afterwards, while the default route stays the same, leaves
  none of them; the rules of others are as they were throughout.\<close>

theorem nat_rules_come_and_go:
  assumes "keeps_table e build_rule_string start"
    and "\<forall>h. e_run e h default_route_command = Inr p" and "p_rc p = 0"
    and "\<And>xs. set (iter xs) = set xs"
    and "\<And>q. copies build_rule_string start (hist s) q \<le> 1"
  shows "\<exists>t u. add_nat_rules iter e nc s = (Inr (), t) \<and> remove_nat_rules iter e nc t = (Inr (), u)
    \<and> (\<forall>q. if q \<in> nat_rules nc (words (strip (strip (p_out p))))
           then copies build_rule_string start (hist t) q = 1 \<and> copies build_rule_string start (hist u) q = 0
           else copies build_rule_string start (hist t) q = copies build_rule_string start (hist s) q
              \<and> copies build_rule_string start (hist u) q = copies build_rule_string start (hist s) q)"
proof -
  let ?cp = "copies build_rule_string start" and ?outs = "iter (words (strip (strip (p_out p))))"
  let ?s = "s\<lparr>hist := hist s @ [ShellCommand default_route_command]\<rparr>"
  let ?nat = "build_nat_string nc" and ?mark = "build_mark_string nc" and ?ins = "nc_input_interfaces nc"
  obtain a where a: "for_each (\<lambda>i. add_rule e build_rule_string (?nat i)) ?outs ?s = (Inr (), a)"
    "\<forall>q. ?cp (hist a) q = (if q \<in> ?nat ` set ?outs then max 1 (?cp (hist s) q) else ?cp (hist s) q)"
    using nat_table.add_rules_copies [OF assms(1), of ?nat ?outs ?s]
    unfolding hist_snoc copies_default_route by blast
  obtain t where t: "for_each (\<lambda>i. add_rule e build_rule_string (?mark i)) ?ins a = (Inr (), t)"
    "\<forall>q. ?cp (hist t) q = (if q \<in> ?mark ` set ?ins then max 1 (?cp (hist a) q) else ?cp (hist a) q)"
    using nat_table.add_rules_copies [OF assms(1), of ?mark ?ins a] by blast
  obtain b where b: "for_each (\<lambda>i. remove_rule e build_rule_string (?mark i)) ?ins t = (Inr (), b)"
    "\<forall>q. ?cp (hist b) q = ?cp (hist t) q - length (filter (\<lambda>i. ?mark i = q) ?ins)"
    using nat_table.remove_rules_copies [OF assms(1), of ?mark ?ins t] by blast
  let ?b = "b\<lparr>hist := hist b @ [ShellCommand default_route_command]\<rparr>"
  obtain u where u: "for_each (\<lambda>i. remove_rule e build_rule_string (?nat i)) ?outs ?b = (Inr (), u)"
    "\<forall>q. ?cp (hist u) q = ?cp (hist b) q - length (filter (\<lambda>i. ?nat i = q) ?outs)"
    using nat_table.remove_rules_copies [OF assms(1), of ?nat ?outs ?b]
    unfolding hist_snoc copies_default_route by blast
  have run: "add_nat_rules iter e nc s = (Inr (), t)" "remove_nat_rules iter e nc t = (Inr (), u)"
    using a(1) b(1) t(1) u(1)
    by (simp_all add: add_nat_rules_def remove_nat_rules_def bindP_def default_interfaces_app [OF assms(2,3)])
  have "if q \<in> nat_rules nc (words (strip (strip (p_out p)))) then ?cp (hist t) q = 1 \<and> ?cp (hist u) q = 0
      else ?cp (hist t) q = ?cp (hist s) q \<and> ?cp (hist u) q = ?cp (hist s) q" for q
  proof (cases "q \<in> nat_rules nc (words (strip (strip (p_out p))))")
    case True
    then have "?cp (hist t) q = 1"
      using a(2) t(2) assms(5) [of q] by (auto simp: nat_rules_def assms(4) max_def)
    moreover have "0 < length (filter (\<lambda>i. ?mark i = q) ?ins) \<or> 0 < length (filter (\<lambda>i. ?nat i = q) ?outs)"
      using True by (auto simp: nat_rules_def filter_empty_conv assms(4))
    moreover have "?cp (hist u) q = ?cp (hist t) q - length (filter (\<lambda>i. ?mark i = q) ?ins)
        - length (filter (\<lambda>i. ?nat i = q) ?outs)"
      using b(2) u(2) by simp
    ultimately have "?cp (hist u) q = 0" by linarith
    with \<open>?cp (hist t) q = 1\<close> True show ?thesis by simp
  next
    case False
    then have "filter (\<lambda>i. ?mark i = q) ?ins = []" "filter (\<lambda>i. ?nat i = q) ?outs = []"
      by (auto simp: nat_rules_def filter_empty_conv assms(4))
    then have "?cp (hist u) q = ?cp (hist t) q" using b(2) u(2) by simp
    moreover have "?cp (hist t) q = ?cp (hist s) q"
      using False a(2) t(2) by (auto simp: nat_rules_def assms(4))
    ultimately show ?thesis using False by simp
  qed
  with run show ?thesis by blast
qed

theorem nat_rules_come_and_go_witness:
  "\<exists>t u. add_nat_rules (\<lambda>xs. xs) (table_env build_rule_string)
       \<lparr>nc_input_interfaces = [''tt0''], nc_ns_index = 0\<rparr> fresh_world = (Inr (), t)
     \<and> remove_nat_rules (\<lambda>xs. xs) (table_env build_rule_string)
       \<lparr>nc_input_interfaces = [''tt0''], nc_ns_index = 0\<rparr> t = (Inr (), u)"
proof -
  have route: "\<forall>h. e_run (table_env build_rule_string) h default_route_command =
      Inr \<lparr>p_out = ''eth0'', p_err = [], p_rc = 0\<rparr>"
    by (simp add: table_env_def build_rule_string_def default_route_command_def Let_def)
  show ?thesis
    using nat_rules_come_and_go [OF table_env_nat route, of "\<lambda>xs. xs" fresh_world
        "\<lparr>nc_input_interfaces = [''tt0''], nc_ns_index = 0\<rparr>"]
    by (auto simp: fresh_world_def)
qed

end
