(* ===== verification/Terraform.thy ===== *)
theory Terraform
  imports Prepare
begin

text \<open>
  \<open>tools/terraform_utils.py\<close> and the parts of \<open>terraform_controller.py\<close> that decide something:
  applying a plan with retries, the networks and addresses of the machines and of the virtual
  IPs, disk encryption, and the VLAN interface on the host. Terraform itself, \<open>hcl2\<close> and the
  \<open>ip\<close> command are outside.
\<close>

section \<open>Applying\<close>

definition apply_command :: string where
  "apply_command = ''terraform apply''"

definition tf_run :: "env \<Rightarrow> ((call, 'z) world_scheme, int) prog" where
  "tf_run e = bindP (ext (\<lambda>h. e_run e h apply_command) (ShellCommand apply_command)) (\<lambda>p. ret (p_rc p))"

text \<open>
  \<open>TerraformUtils.apply\<close>: it calls itself with one attempt less and twice the interval, and
  raises when one attempt is left. With no attempt to start with it may run forever (\<open>None\<close>).
\<close>

partial_function (option) tf_apply ::
  "env \<Rightarrow> int \<Rightarrow> int \<Rightarrow> (call, 'z) world_scheme \<Rightarrow> ((exn + unit) \<times> (call, 'z) world_scheme) option" where
  "tf_apply e left interval s =
     (case tf_run e s of
        (Inl x, t) \<Rightarrow> Some (Inl x, t)
      | (Inr return_value, t) \<Rightarrow>
          if return_value = 0 then Some (Inr (), t)
          else if left = 1 then Some (Inl GenericException, t)
          else tf_apply e (left - 1) (interval * 2) (t\<lparr>hist := hist t @ [Sleep interval]\<rparr>))"

definition TF_APPLY_ATTEMPTS_INTERVAL :: int where "TF_APPLY_ATTEMPTS_INTERVAL = 15"

definition apply_plan :: "env \<Rightarrow> int \<Rightarrow> ((call, 'z) world_scheme, unit) prog" where
  "apply_plan e left = or_diverges (tf_apply e left TF_APPLY_ATTEMPTS_INTERVAL)"

definition init_tf :: "((call, 'z) world_scheme, unit) retrier \<Rightarrow> env \<Rightarrow> ((call, 'z) world_scheme, unit) prog" where
  "init_tf retry e = retry (\<lambda>x. x = TerraformError) 10 (act e ''terraform init'' [])"

text \<open>\<open>supported\<close>: the variables the \<open>.tf\<close> files of the folder declare.\<close>

definition select_defined_variables :: "string list \<Rightarrow> (string \<times> pyval) list \<Rightarrow> (string \<times> pyval) list" where
  "select_defined_variables supported kwargs = filter (\<lambda>(k, v). v \<noteq> PNone \<and> k \<in> set supported) kwargs"

definition update_variables_file :: "env \<Rightarrow> (string \<times> pyval) list \<Rightarrow> ((call, 'z) world_scheme, unit) prog" where
  "update_variables_file e variables = act e ''update_variables_file'' [PDict variables]"

definition change_variables :: "env \<Rightarrow> int \<Rightarrow> (string \<times> pyval) list \<Rightarrow> ((call, 'z) world_scheme, unit) prog" where
  "change_variables e left variables = thenP (update_variables_file e variables) (apply_plan e left)"

definition set_and_apply ::
  "((call, 'z) world_scheme, unit) retrier \<Rightarrow> env \<Rightarrow> int \<Rightarrow> string list \<Rightarrow> (string \<times> pyval) list
     \<Rightarrow> ((call, 'z) world_scheme, unit) prog" where
  "set_and_apply retry e left supported kwargs =
     thenP (update_variables_file e (select_defined_variables supported kwargs))
       (thenP (init_tf retry e) (apply_plan e left))"

section \<open>Networks of the machines\<close>

record tf_config =
  tc_machine_cidr :: cidr
  tc_machine_cidr6 :: cidr
  tc_provisioning_cidr :: cidr
  tc_provisioning_cidr6 :: cidr
  tc_is_ipv4 :: bool
  tc_is_ipv6 :: bool
  tc_primary_stack :: pyval
  tc_master_count :: nat
  tc_worker_count :: nat
  tc_arbiter_count :: nat
  tc_api_vips :: "ip list"
  tc_ingress_vips :: "ip list"

definition ipv6_primary :: "tf_config \<Rightarrow> bool" where
  "ipv6_primary c \<longleftrightarrow> tc_primary_stack c = PStr ''ipv6'' \<and> tc_is_ipv4 c \<and> tc_is_ipv6 c"

definition primary_machine_cidr :: "tf_config \<Rightarrow> cidr" where
  "primary_machine_cidr c =
     (if ipv6_primary c then tc_machine_cidr6 c
      else if tc_is_ipv6 c \<and> \<not> tc_is_ipv4 c then tc_machine_cidr6 c
      else tc_machine_cidr c)"

definition get_provisioning_cidr :: "tf_config \<Rightarrow> cidr" where
  "get_provisioning_cidr c =
     (if ipv6_primary c then tc_provisioning_cidr6 c
      else if tc_is_ipv6 c \<and> \<not> tc_is_ipv4 c then tc_provisioning_cidr6 c
      else tc_provisioning_cidr c)"

definition get_all_machine_addresses :: "tf_config \<Rightarrow> cidr list" where
  "get_all_machine_addresses c =
     (if ipv6_primary c then
        (if tc_is_ipv6 c then [tc_machine_cidr6 c] else []) @ (if tc_is_ipv4 c then [tc_machine_cidr c] else [])
      else
        (if tc_is_ipv4 c then [tc_machine_cidr c] else []) @ (if tc_is_ipv6 c then [tc_machine_cidr6 c] else []))"

definition get_all_provisioning_addresses :: "tf_config \<Rightarrow> cidr list" where
  "get_all_provisioning_addresses c =
     (if tc_is_ipv4 c then [tc_provisioning_cidr c] else [])
     @ (if tc_is_ipv6 c then [tc_provisioning_cidr6 c] else [])"

section \<open>Addresses\<close>

definition network_plus :: "cidr \<Rightarrow> nat \<Rightarrow> exn + ip" where
  "network_plus c n = sum_bind (ip_network c) (\<lambda>network. ip_add (network_address network) n)"

text \<open>The two addresses from the hundredth on.\<close>

definition vip_pair :: "cidr \<Rightarrow> exn + ip \<times> ip" where
  "vip_pair c =
     sum_bind (network_plus c 100) (\<lambda>start.
       sum_bind (create_ip_address_list 2 start) (\<lambda>ips. Inr (ips ! 0, ips ! 1)))"

definition get_ingress_and_api_vips :: "tf_config \<Rightarrow> exn + ip list \<times> ip list" where
  "get_ingress_and_api_vips c =
     (if tc_is_ipv4 c \<and> tc_is_ipv6 c then
        sum_bind (vip_pair (tc_machine_cidr c)) (\<lambda>(api4, ingress4).
          sum_bind (vip_pair (tc_machine_cidr6 c)) (\<lambda>(api6, ingress6).
            if tc_primary_stack c = PStr ''ipv6'' then Inr ([api6, api4], [ingress6, ingress4])
            else Inr ([api4, api6], [ingress4, ingress6])))
      else sum_bind (vip_pair (primary_machine_cidr c)) (\<lambda>(api, ingress). Inr ([api], [ingress])))"

definition get_vips :: "tf_config \<Rightarrow> exn + ip list \<times> ip list" where
  "get_vips c =
     sum_bind (get_ingress_and_api_vips c) (\<lambda>(api, ingress).
       Inr (if tc_api_vips c \<noteq> [] then tc_api_vips c else api,
            if tc_ingress_vips c \<noteq> [] then tc_ingress_vips c else ingress))"

text \<open>\<open>@on_exception(silent=True)\<close>: an exception of the body gives \<open>None\<close>.\<close>

definition create_address_list :: "tf_config \<Rightarrow> nat \<Rightarrow> ip \<Rightarrow> ip list list option" where
  "create_address_list c num starting_ip_addr =
     (if tc_is_ipv6 c then Some (create_empty_nested_list num)
      else case create_ip_address_nested_list num starting_ip_addr of Inl _ \<Rightarrow> None | Inr ips \<Rightarrow> Some ips)"

text \<open>The addresses of masters, workers and arbiters in a network.\<close>

definition role_addresses ::
  "tf_config \<Rightarrow> cidr \<Rightarrow> exn + ip list list option \<times> ip list list option \<times> ip list list option" where
  "role_addresses c network =
     sum_bind (network_plus network 10) (\<lambda>masters.
       sum_bind (network_plus network (10 + tc_master_count c)) (\<lambda>workers.
         sum_bind (network_plus network (10 + tc_master_count c + tc_worker_count c)) (\<lambda>arbiters.
           Inr (create_address_list c (tc_master_count c) masters,
                create_address_list c (tc_worker_count c) workers,
                create_address_list c (tc_arbiter_count c) arbiters))))"

definition primary_addresses ::
  "tf_config \<Rightarrow> exn + ip list list option \<times> ip list list option \<times> ip list list option" where
  "primary_addresses c = role_addresses c (primary_machine_cidr c)"

definition secondary_addresses ::
  "tf_config \<Rightarrow> exn + ip list list option \<times> ip list list option \<times> ip list list option" where
  "secondary_addresses c = role_addresses c (get_provisioning_cidr c)"

section \<open>Disk encryption\<close>

text \<open>\<open>None\<close> for an infrastructure environment; otherwise whether masters, workers and arbiters get a TPM.\<close>

definition get_disk_encryption_appliance :: "bool \<Rightarrow> pyval \<Rightarrow> pyval \<Rightarrow> exn + (bool \<times> bool \<times> bool) option" where
  "get_disk_encryption_appliance is_infra_env mode roles =
     (if is_infra_env then Inr None
      else if mode \<noteq> PStr ''tpmv2'' \<and> mode \<noteq> PStr ''tang'' then Inl AssertionError
      else if mode = PStr ''tpmv2'' then
        (case roles of
           PStr r \<Rightarrow> Inr (Some (r = ''all'' \<or> occurs_in ''masters'' r, r = ''all'' \<or> occurs_in ''workers'' r,
                             r = ''all'' \<or> occurs_in ''arbiters'' r))
         | _ \<Rightarrow> Inl TypeError)
      else Inr (Some (False, False, False)))"

section \<open>The VLAN interface of the host\<close>

definition vlan_iface_name :: "string \<Rightarrow> nat option \<Rightarrow> string" where
  "vlan_iface_name bridge vlan_id = bridge @ ''.'' @ dec (num_or vlan_id 100)"

text \<open>\<open>str.splitlines\<close>, up to empty lines, which have no fields: the characters it breaks lines at.\<close>

definition line_break :: "char \<Rightarrow> bool" where
  "line_break c \<longleftrightarrow> of_char c \<in> {10, 11, 12, 13, 28, 29, 30, 133 :: nat}"

definition splitlines :: "string \<Rightarrow> string list" where
  "splitlines s = split_on newline (map (\<lambda>c. if line_break c then newline else c) s)"

text \<open>The fields of a line of \<open>ip -o addr\<close> with an address that is not link-local.\<close>

definition address_of_line :: "string \<Rightarrow> string option" where
  "address_of_line line =
     (let parts = words line
      in if 4 \<le> length parts \<and> (parts ! 2 = ''inet'' \<or> parts ! 2 = ''inet6'')
           \<and> \<not> (parts ! 2 = ''inet6'' \<and> startswith (lower (parts ! 3)) ''fe80:'')
         then Some (parts ! 3) else None)"

definition show_addresses_command :: "string \<Rightarrow> string \<Rightarrow> string" where
  "show_addresses_command family_flag iface = ''ip -o '' @ family_flag @ '' addr show dev '' @ iface"

definition get_ip_addrs_for_iface :: "env \<Rightarrow> string \<Rightarrow> string \<Rightarrow> ((call, 'z) world_scheme, string list) prog" where
  "get_ip_addrs_for_iface e iface family_flag =
     bindP (run_command e (show_addresses_command family_flag iface) False) (\<lambda>(out, _, _).
       ret (List.map_filter address_of_line (splitlines out)))"

definition iface_has_addr :: "env \<Rightarrow> string \<Rightarrow> string \<Rightarrow> ((call, 'z) world_scheme, bool) prog" where
  "iface_has_addr e iface c =
     bindP (run_command e (show_addresses_command (if occurs_in '':'' c then ''-6'' else ''-4'') iface) False)
       (\<lambda>(out, _, _).
          ret (list_ex (\<lambda>line. 4 \<le> length (words line) \<and> words line ! 3 = c) (splitlines out)))"

definition add_address_command :: "string \<Rightarrow> string \<Rightarrow> string" where
  "add_address_command c iface = ''ip addr add '' @ c @ '' dev '' @ iface"

definition del_address_command :: "string \<Rightarrow> string \<Rightarrow> string" where
  "del_address_command c iface = ''ip addr del '' @ c @ '' dev '' @ iface"

definition run_only :: "env \<Rightarrow> string \<Rightarrow> ((call, 'z) world_scheme, unit) prog" where
  "run_only e c = bindP (run_command e c True) (\<lambda>_. ret ())"

definition move_address :: "env \<Rightarrow> string \<Rightarrow> string \<Rightarrow> string \<Rightarrow> ((call, 'z) world_scheme, unit) prog" where
  "move_address e bridge vlan_iface c =
     try_except
       (bindP (iface_has_addr e vlan_iface c) (\<lambda>there.
          thenP (if \<not> there then run_only e (add_address_command c vlan_iface) else ret ())
            (run_only e (del_address_command c bridge))))
       (\<lambda>x. if is_Exception x then ret () else raise x)"

definition move_bridge_addresses_to_vlan :: "env \<Rightarrow> string \<Rightarrow> string \<Rightarrow> ((call, 'z) world_scheme, unit) prog" where
  "move_bridge_addresses_to_vlan e bridge vlan_iface =
     bindP (get_ip_addrs_for_iface e bridge ''-4'') (\<lambda>ipv4_cidrs.
       bindP (get_ip_addrs_for_iface e bridge ''-6'') (\<lambda>ipv6_cidrs.
         for_each (move_address e bridge vlan_iface) (ipv4_cidrs @ ipv6_cidrs)))"

definition iface_exists :: "env \<Rightarrow> string \<Rightarrow> ((call, 'z) world_scheme, bool) prog" where
  "iface_exists e iface =
     bindP (run_command e (''ip link show dev '' @ iface) False) (\<lambda>(_, _, rc). ret (rc = 0))"

definition ensure_vlan_interface :: "env \<Rightarrow> string \<Rightarrow> nat option \<Rightarrow> ((call, 'z) world_scheme, unit) prog" where
  "ensure_vlan_interface e bridge vlan_id =
     (let vlan_iface = vlan_iface_name bridge vlan_id
      in bindP (iface_exists e vlan_iface) (\<lambda>there.
           thenP (if there then ret ()
                  else run_only e (''ip link add link '' @ bridge @ '' name '' @ vlan_iface @ '' type vlan id ''
                         @ dec (num_or vlan_id 100)))
           (thenP (run_only e (''ip link set dev '' @ vlan_iface @ '' up''))
             (move_bridge_addresses_to_vlan e bridge vlan_iface))))"

definition delete_vlan_interface :: "env \<Rightarrow> string \<Rightarrow> nat option \<Rightarrow> ((call, 'z) world_scheme, unit) prog" where
  "delete_vlan_interface e bridge vlan_id =
     (let vlan_iface = vlan_iface_name bridge vlan_id
      in bindP (iface_exists e vlan_iface) (\<lambda>there.
           if there then run_only e (''sudo ip link del dev '' @ vlan_iface) else ret ()))"

section \<open>Properties\<close>

subsection \<open>Applying ends\<close>

text \<open>The calls of \<open>k\<close> applications with growing pauses in between.\<close>

fun apply_trace :: "int \<Rightarrow> nat \<Rightarrow> call list" where
  "apply_trace i 0 = []"
| "apply_trace i (Suc 0) = [ShellCommand apply_command]"
| "apply_trace i (Suc (Suc k)) = ShellCommand apply_command # Sleep i # apply_trace (i * 2) (Suc k)"

fun slept :: "call list \<Rightarrow> int" where
  "slept [] = 0"
| "slept (Sleep i # cs) = i + slept cs"
| "slept (_ # cs) = slept cs"

lemma slept_apply_trace: "slept (apply_trace i (Suc k)) = i * (2 ^ k - 1)"
  by (induction k arbitrary: i) (simp_all add: algebra_simps)

lemma tf_run_app:
  "tf_run e s = (case e_run e (hist s) apply_command of Inl x \<Rightarrow> Inl x | Inr p \<Rightarrow> Inr (p_rc p),
     s\<lparr>hist := hist s @ [ShellCommand apply_command]\<rparr>)"
  by (simp add: tf_run_def bindP_def ext_app prog_simps split: sum.split)

lemma tf_apply_runs:
  "\<exists>r t k. tf_apply e (int (Suc n)) i s = Some (r, t) \<and> k \<le> n \<and> hist t = hist s @ apply_trace i (Suc k)
     \<and> (r = Inr () \<longrightarrow> (\<exists>h p. hist t = h @ [ShellCommand apply_command] \<and> e_run e h apply_command = Inr p \<and> p_rc p = 0))
     \<and> (r = Inl GenericException \<longrightarrow> (\<forall>h. e_run e h apply_command \<noteq> Inl GenericException) \<longrightarrow> k = n)"
proof (induction n arbitrary: i s)
  case 0
  show ?case
    by (subst tf_apply.simps)
      (auto simp: tf_run_app split: sum.splits intro!: exI [of _ "hist s"])
next
  case (Suc n)
  let ?t = "s\<lparr>hist := hist s @ [ShellCommand apply_command]\<rparr>"
  show ?case
  proof (cases "\<exists>p. e_run e (hist s) apply_command = Inr p \<and> p_rc p \<noteq> 0")
    case False
    then show ?thesis
      by (subst tf_apply.simps)
        (auto simp: tf_run_app split: sum.splits intro!: exI [of _ "0::nat"] exI [of _ "hist s"])
  next
    case True
    then have step: "tf_apply e (int (Suc (Suc n))) i s =
        tf_apply e (int (Suc n)) (i * 2) (?t\<lparr>hist := hist ?t @ [Sleep i]\<rparr>)"
      by (subst tf_apply.simps) (auto simp: tf_run_app)
    obtain r t k where "tf_apply e (int (Suc n)) (i * 2) (?t\<lparr>hist := hist ?t @ [Sleep i]\<rparr>) = Some (r, t)"
      "k \<le> n" "hist t = hist (?t\<lparr>hist := hist ?t @ [Sleep i]\<rparr>) @ apply_trace (i * 2) (Suc k)"
      "r = Inr () \<longrightarrow> (\<exists>h p. hist t = h @ [ShellCommand apply_command] \<and> e_run e h apply_command = Inr p \<and> p_rc p = 0)"
      "r = Inl GenericException \<longrightarrow> (\<forall>h. e_run e h apply_command \<noteq> Inl GenericException) \<longrightarrow> k = n"
      using Suc.IH [of "i * 2" "?t\<lparr>hist := hist ?t @ [Sleep i]\<rparr>"] by blast
    then show ?thesis
      unfolding step by (intro exI [of _ r] exI [of _ t] exI [of _ "Suc k"]) simp
  qed
qed

text \<open>C38: With a positive number of attempts, applying a terraform plan ends. It runs terraform at least once
  and at most as often as there are attempts, with pauses that double from one to the next; it returns
  normally only right after a run that reported success, and it gives up only after the last attempt.\<close>

theorem apply_ends:
  assumes "0 < n"
  shows "\<exists>r t k. tf_apply e (int n) i s = Some (r, t) \<and> 0 < k \<and> k \<le> n \<and> hist t = hist s @ apply_trace i k
     \<and> slept (apply_trace i k) = i * (2 ^ (k - 1) - 1)
     \<and> (r = Inr () \<longrightarrow> (\<exists>h p. hist t = h @ [ShellCommand apply_command] \<and> e_run e h apply_command = Inr p \<and> p_rc p = 0))
     \<and> (r = Inl GenericException \<longrightarrow> (\<forall>h. e_run e h apply_command \<noteq> Inl GenericException) \<longrightarrow> k = n)"
proof -
  obtain m where n: "n = Suc m" using assms by (cases n) auto
  from tf_apply_runs [of e m i s] obtain r t k where "tf_apply e (int n) i s = Some (r, t)" "k \<le> m"
    "hist t = hist s @ apply_trace i (Suc k)"
    "r = Inr () \<longrightarrow> (\<exists>h p. hist t = h @ [ShellCommand apply_command] \<and> e_run e h apply_command = Inr p \<and> p_rc p = 0)"
    "r = Inl GenericException \<longrightarrow> (\<forall>h. e_run e h apply_command \<noteq> Inl GenericException) \<longrightarrow> k = m"
    unfolding n by blast
  then show ?thesis
    unfolding n by (intro exI [of _ r] exI [of _ t] exI [of _ "Suc k"]) (simp add: slept_apply_trace)
qed

theorem apply_ends_witness:
  "\<exists>r t. tf_apply (still_env (sample_cluster [] [])) (int 3) 15 fresh_world = Some (r, t)"
  using apply_ends [of 3 "still_env (sample_cluster [] [])" 15 fresh_world] by auto

subsection \<open>Addresses\<close>

lemma nested_list_Inr:
  "create_ip_address_nested_list n a = Inr xs \<Longrightarrow> xs = map (\<lambda>i. [a\<lparr>ip_value := ip_value a + i\<rparr>]) [0..<n]"
proof -
  have "sum_map (\<lambda>i. case ip_add a i of Inl x \<Rightarrow> Inl x | Inr b \<Rightarrow> Inr [b]) is = Inr xs \<Longrightarrow>
      xs = map (\<lambda>i. [a\<lparr>ip_value := ip_value a + i\<rparr>]) is" for "is"
    by (induction "is" arbitrary: xs) (auto simp: ip_add_def split: sum.splits if_splits)
  then show "create_ip_address_nested_list n a = Inr xs \<Longrightarrow> ?thesis"
    by (simp add: create_ip_address_nested_list_def)
qed

definition addr_at :: "cidr \<Rightarrow> nat \<Rightarrow> ip" where
  "addr_at c n = (network_address c)\<lparr>ip_value := cidr_value c + n\<rparr>"

lemma addr_at_eq: "addr_at c m = addr_at c n \<longleftrightarrow> m = n"
  by (auto simp: addr_at_def network_address_def)

lemma network_plus_Inr: "network_plus c n = Inr a \<Longrightarrow> a = addr_at c n"
  by (auto simp: network_plus_def sum_bind_Inr_iff ip_network_def ip_add_def addr_at_def network_address_def
      split: if_splits)

lemma address_list_Some:
  assumes "\<not> tc_is_ipv6 c" "create_address_list c n (addr_at network k) = Some xs"
  shows "concat xs = map (addr_at network) [k..<k + n]"
proof -
  have xs: "xs = map (\<lambda>i. [addr_at network (k + i)]) [0..<n]"
    using assms by (auto simp: create_address_list_def addr_at_def add.assoc dest!: nested_list_Inr split: sum.splits)
  have "concat (map (\<lambda>i. [addr_at network (k + i)]) [0..<m]) = map (addr_at network) [k..<k + m]" for m
    by (induction m) simp_all
  then show ?thesis by (simp add: xs)
qed

lemma vip_pair_Inr: "vip_pair c = Inr (api, ingress) \<Longrightarrow> api = addr_at c 100 \<and> ingress = addr_at c 101"
  by (auto simp: vip_pair_def sum_bind_Inr_iff create_ip_address_list_def ip_add_def addr_at_def upt_rec
      dest!: network_plus_Inr split: sum.splits if_splits)

text \<open>On a network of a cluster that is not IPv6, the addresses of all masters, workers and arbiters are
  distinct, and one of them is the API virtual IP exactly if there are more than 90 machines, the ingress
  virtual IP exactly if there are more than 91.\<close>

lemma machine_addresses_and_vips:
  assumes "\<not> tc_is_ipv6 c"
    and "role_addresses c network = Inr (Some masters, Some workers, Some arbiters)"
    and "vip_pair network = Inr (api, ingress)"
  shows "let addresses = concat (masters @ workers @ arbiters);
             total = tc_master_count c + tc_worker_count c + tc_arbiter_count c
         in length addresses = total \<and> distinct addresses
            \<and> (api \<in> set addresses \<longleftrightarrow> 90 < total) \<and> (ingress \<in> set addresses \<longleftrightarrow> 91 < total)"
proof -
  let ?m = "tc_master_count c" and ?w = "tc_worker_count c" and ?a = "tc_arbiter_count c"
  obtain a b d where "network_plus network 10 = Inr a" "network_plus network (10 + ?m) = Inr b"
    "network_plus network (10 + ?m + ?w) = Inr d"
    and lists: "create_address_list c ?m a = Some masters" "create_address_list c ?w b = Some workers"
      "create_address_list c ?a d = Some arbiters"
    using assms(2) by (auto simp: role_addresses_def sum_bind_Inr_iff)
  then have "a = addr_at network 10" "b = addr_at network (10 + ?m)" "d = addr_at network (10 + ?m + ?w)"
    by (auto dest: network_plus_Inr)
  with lists have "concat masters = map (addr_at network) [10..<10 + ?m]"
    "concat workers = map (addr_at network) [10 + ?m..<10 + ?m + ?w]"
    "concat arbiters = map (addr_at network) [10 + ?m + ?w..<10 + ?m + ?w + ?a]"
    by (auto intro: address_list_Some [OF assms(1)])
  then have "concat (masters @ workers @ arbiters) =
      map (addr_at network) ([10..<10 + ?m] @ [10 + ?m..<10 + ?m + ?w] @ [10 + ?m + ?w..<10 + ?m + ?w + ?a])"
    by simp
  also have "[10..<10 + ?m] @ [10 + ?m..<10 + ?m + ?w] @ [10 + ?m + ?w..<10 + ?m + ?w + ?a] = [10..<10 + (?m + ?w + ?a)]"
    using upt_add_eq_append [of 10 "10 + ?m" "?w + ?a"] upt_add_eq_append [of "10 + ?m" "10 + ?m + ?w" ?a]
    by (simp add: add.assoc)
  finally have all: "concat (masters @ workers @ arbiters) = map (addr_at network) [10..<10 + (?m + ?w + ?a)]" .
  have "distinct (concat (masters @ workers @ arbiters))"
    unfolding all by (simp add: distinct_map inj_on_def addr_at_eq)
  moreover have "addr_at network n \<in> set (concat (masters @ workers @ arbiters)) \<longleftrightarrow> 10 \<le> n \<and> n < 10 + (?m + ?w + ?a)" for n
    unfolding all by (auto simp: addr_at_eq image_iff)
  moreover have "length (concat (masters @ workers @ arbiters)) = ?m + ?w + ?a"
    unfolding all by simp
  ultimately show ?thesis
    using vip_pair_Inr [OF assms(3)] by (auto simp: Let_def simp del: concat_append)
qed

definition sample_tf :: "nat \<Rightarrow> tf_config" where
  "sample_tf n = \<lparr>tc_machine_cidr = \<lparr>cidr_version = V4, cidr_value = 256, cidr_prefixlen = 24\<rparr>,
     tc_machine_cidr6 = \<lparr>cidr_version = V6, cidr_value = 0, cidr_prefixlen = 64\<rparr>,
     tc_provisioning_cidr = \<lparr>cidr_version = V4, cidr_value = 512, cidr_prefixlen = 24\<rparr>,
     tc_provisioning_cidr6 = \<lparr>cidr_version = V6, cidr_value = 0, cidr_prefixlen = 64\<rparr>,
     tc_is_ipv4 = True, tc_is_ipv6 = False, tc_primary_stack = PStr ''ipv4'', tc_master_count = n,
     tc_worker_count = 1, tc_arbiter_count = 0, tc_api_vips = [], tc_ingress_vips = []\<rparr>"

lemma machine_addresses_and_vips_witness:
  "\<exists>ms ws as api ingress. role_addresses (sample_tf 3) (tc_machine_cidr (sample_tf 3)) = Inr (Some ms, Some ws, Some as)
     \<and> vip_pair (tc_machine_cidr (sample_tf 3)) = Inr (api, ingress) \<and> api \<notin> set (concat (ms @ ws @ as))"
proof -
  let ?c = "sample_tf 3"
  have "\<exists>ms ws as. role_addresses ?c (tc_machine_cidr ?c) = Inr (Some ms, Some ws, Some as)"
    by (simp add: role_addresses_def sample_tf_def network_plus_def ip_network_def host_span_def sum_bind_def
        ip_add_def network_address_def create_address_list_def create_ip_address_nested_list_def upt_rec)
  then obtain ms ws as where r: "role_addresses ?c (tc_machine_cidr ?c) = Inr (Some ms, Some ws, Some as)" by blast
  have "\<exists>api ingress. vip_pair (tc_machine_cidr ?c) = Inr (api, ingress)"
    by (simp add: vip_pair_def sample_tf_def network_plus_def ip_network_def host_span_def sum_bind_def
        ip_add_def network_address_def create_ip_address_list_def upt_rec)
  then obtain api ingress where v: "vip_pair (tc_machine_cidr ?c) = Inr (api, ingress)" by blast
  from machine_addresses_and_vips [OF _ r v] r v show ?thesis
    by (auto simp: sample_tf_def Let_def)
qed

subsection \<open>Moving addresses to the VLAN interface\<close>

lemma run_command_cases:
  "run_command e c raises s = (r, t) \<Longrightarrow> t = s\<lparr>hist := hist s @ [ShellCommand c]\<rparr>
     \<and> (raises \<longrightarrow> (\<exists>v. r = Inr v) \<longrightarrow> (\<exists>p. e_run e (hist s) c = Inr p \<and> p_rc p = 0))"
  by (auto simp: run_command_def bindP_def ext_app prog_simps split: sum.splits if_splits)

definition show_for :: "string \<Rightarrow> string \<Rightarrow> string" where
  "show_for c iface = show_addresses_command (if occurs_in '':'' c then ''-6'' else ''-4'') iface"

text \<open>The address \<open>c\<close> is on the interface according to the answer to the query made after \<open>h\<close>.\<close>

definition listed :: "env \<Rightarrow> call list \<Rightarrow> string \<Rightarrow> string \<Rightarrow> bool" where
  "listed e h iface c \<longleftrightarrow> (\<exists>p. e_run e h (show_for c iface) = Inr p
     \<and> list_ex (\<lambda>line. 4 \<le> length (words line) \<and> words line ! 3 = c) (splitlines (strip (p_out p))))"

lemma iface_has_addr_app:
  "iface_has_addr e iface c s =
     (case e_run e (hist s) (show_for c iface) of Inl x \<Rightarrow> Inl x | Inr p \<Rightarrow> Inr (listed e (hist s) iface c),
      s\<lparr>hist := hist s @ [ShellCommand (show_for c iface)]\<rparr>)"
  by (auto simp: iface_has_addr_def show_for_def [symmetric] run_command_def bindP_def ext_app prog_simps
      listed_def split: sum.split)

text \<open>An address is taken off the bridge only as the last call of its move, and only if the VLAN interface
  was shown to have it, or the command that gave it to the VLAN interface had just succeeded.\<close>

lemma no_address_is_lost:
  assumes "move_address e bridge vlan_iface c s = (r, t)"
  shows "\<exists>cs. hist t = hist s @ cs \<and> (ShellCommand (del_address_command c bridge) \<in> set cs \<longrightarrow>
     (listed e (hist s) vlan_iface c
        \<and> cs = [ShellCommand (show_for c vlan_iface), ShellCommand (del_address_command c bridge)])
     \<or> (\<exists>p. e_run e (hist s @ [ShellCommand (show_for c vlan_iface)]) (add_address_command c vlan_iface) = Inr p
          \<and> p_rc p = 0
          \<and> cs = [ShellCommand (show_for c vlan_iface), ShellCommand (add_address_command c vlan_iface),
                  ShellCommand (del_address_command c bridge)]))"
proof -
  have differ: "show_for c vlan_iface \<noteq> del_address_command c bridge"
    "add_address_command c vlan_iface \<noteq> del_address_command c bridge"
    by (simp_all add: show_for_def show_addresses_command_def del_address_command_def add_address_command_def)
  have run: "run_only e cmd u = (case e_run e (hist u) cmd of Inl x \<Rightarrow> Inl x
      | Inr p \<Rightarrow> if p_rc p \<noteq> 0 then Inl RuntimeError else Inr (), u\<lparr>hist := hist u @ [ShellCommand cmd]\<rparr>)" for cmd u
    by (auto simp: run_only_def run_command_def bindP_def ext_app prog_simps split: sum.split)
  show ?thesis
    using assms differ
    by (auto simp: move_address_def try_except_def bindP_def iface_has_addr_app run prog_simps
        split: sum.splits if_splits)
qed

lemma no_address_is_lost_witness:
  "\<exists>r t cs. move_address (still_env (sample_cluster [] [])) ''virbr0'' ''virbr0.100'' ''192.168.0.1/24'' fresh_world = (r, t)
     \<and> hist t = hist fresh_world @ cs"
proof -
  obtain r t where "move_address (still_env (sample_cluster [] [])) ''virbr0'' ''virbr0.100'' ''192.168.0.1/24'' fresh_world = (r, t)"
    by (rule prod.exhaust)
  from no_address_is_lost [OF this] this show ?thesis by blast
qed

end
