(* ===== verification/Day2.thy ===== *)
theory Day2
  imports Prepare
begin

text \<open>
  \<open>helper_classes/day2_cluster.py\<close>: hosts that are added to a cluster after its installation.
  \<open>oc\<close> and the parsing of its answers are outside; the day 1 cluster is read through
  \<open>day2_env\<close>. The state is that of any cluster (\<open>ClusterBase\<close>), since \<open>Day2Cluster\<close> is a \<open>BaseCluster\<close>.
\<close>

section \<open>What the OpenShift cluster answers\<close>

record ocp_condition =
  oc_status :: string
  oc_type :: string

text \<open>The status of a node: falsy, or a dictionary whose conditions may be missing.\<close>

datatype node_status = NoStatus | Status "ocp_condition list attr"

record csr =
  csr_name :: string
  csr_has_status :: bool

record day2_env =
  d2_name :: string
  d2_uuid :: string
  d2_kubeconfig :: string
  d2_day1_is_static_ip :: bool
  d2_day1_api_vip :: "exn + string"
  d2_parse_nodes :: "string \<Rightarrow> exn + node_status list"
  d2_parse_csrs :: "string \<Rightarrow> exn + csr list"

definition is_ocp_node_ready :: "node_status \<Rightarrow> exn + bool" where
  "is_ocp_node_ready st =
     (case st of
        NoStatus \<Rightarrow> Inr False
      | Status Missing \<Rightarrow> Inl (KeyError ''conditions'')
      | Status Null \<Rightarrow> Inl TypeError
      | Status (Has cs) \<Rightarrow> Inr (list_ex (\<lambda>c. oc_status c = ''True'' \<and> oc_type c = ''Ready'') cs))"

text \<open>\<open>subprocess.check_output(..., shell=True)\<close>.\<close>

definition check_output :: "env \<Rightarrow> string \<Rightarrow> ((call, 'z) world_scheme, string) prog" where
  "check_output e c =
     bindP (ext (\<lambda>h. e_run e h c) (ShellCommand c)) (\<lambda>p.
       if p_rc p \<noteq> 0 then raise CalledProcessError else ret (p_out p))"

definition oc_command :: "day2_env \<Rightarrow> string \<Rightarrow> string" where
  "oc_command d rest = ''oc --kubeconfig='' @ d2_kubeconfig d @ '' '' @ rest"

definition get_ocp_cluster_nodes :: "env \<Rightarrow> day2_env \<Rightarrow> ((call, 'z) world_scheme, node_status list) prog" where
  "get_ocp_cluster_nodes e d =
     bindP (check_output e (oc_command d ''get nodes --output=json'')) (\<lambda>res. sum_prog (d2_parse_nodes d res))"

definition get_ocp_cluster_csrs :: "env \<Rightarrow> day2_env \<Rightarrow> ((call, 'z) world_scheme, csr list) prog" where
  "get_ocp_cluster_csrs e d =
     bindP (check_output e (oc_command d ''get csr --output=json'')) (\<lambda>res. sum_prog (d2_parse_csrs d res))"

definition ready_nodes :: "node_status list \<Rightarrow> exn + nat" where
  "ready_nodes nodes = sum_bind (sum_map is_ocp_node_ready nodes) (\<lambda>bs. Inr (length (filter id bs)))"

definition get_ocp_cluster_ready_nodes_num :: "env \<Rightarrow> day2_env \<Rightarrow> ((call, 'z) world_scheme, nat) prog" where
  "get_ocp_cluster_ready_nodes_num e d =
     bindP (get_ocp_cluster_nodes e d) (\<lambda>nodes. sum_prog (ready_nodes nodes))"

definition approve_command :: "day2_env \<Rightarrow> csr \<Rightarrow> string" where
  "approve_command d c = oc_command d (''adm certificate approve '' @ csr_name c)"

definition approve_nodes_on_ocp_cluster :: "env \<Rightarrow> day2_env \<Rightarrow> ((call, 'z) world_scheme, unit) prog" where
  "approve_nodes_on_ocp_cluster e d =
     bindP (get_ocp_cluster_csrs e d) (\<lambda>csrs.
       for_each (\<lambda>c. if csr_has_status c then ret ()
         else thenP (check_output e (approve_command d c)) (ret ())) csrs)"

section \<open>Life cycle\<close>

definition day2_create :: "env \<Rightarrow> day2_env \<Rightarrow> ('z, string) cprog" where
  "day2_create e d =
     bindP (reads cs_config) (\<lambda>c.
       bindP (api_create_day2_cluster e (d2_name d) (d2_uuid d)
           (PDict [(''openshift_version'', cfg c ''openshift_version''),
                   (''api_vip_dnsname'', cfg c ''day1_api_vip_dnsname'')])) (\<lambda>i.
         thenP (set_cc ''cluster_id'' (PStr i)) (ret i)))"

definition day2_update_existing :: "('z, string) cprog" where
  "day2_update_existing = raise NotImplementedError"

definition day2_init :: "env \<Rightarrow> day2_env \<Rightarrow> ('z, unit) cprog" where
  "day2_init e d =
     thenP (modifies (\<lambda>s. s\<lparr>cs_has_infra_env := False\<rparr>))
       (thenP (entity_init cluster_id (day2_create e d) day2_update_existing cluster_set_iso_path)
         (bindP (reads cs_config) (\<lambda>c.
            thenP (set_ie ''cluster_id'' (cfg c ''cluster_id''))
              (thenP (set_ie ''openshift_version'' (cfg c ''openshift_version''))
                (set_ie ''pull_secret'' (cfg c ''pull_secret''))))))"

text \<open>The hosts that are to be added, and the wait for all of them.\<close>

definition int_of :: "pyval \<Rightarrow> int" where
  "int_of v = (case v of PInt i \<Rightarrow> i | PBool True \<Rightarrow> 1 | _ \<Rightarrow> 0)"

definition new_nodes :: "'z cluster_state_scheme \<Rightarrow> int" where
  "new_nodes s = int_of (cc s ''day2_workers_count'') + int_of (cc s ''day2_masters_count'')"

definition wait_day2_hosts :: "'z kwaiter \<Rightarrow> env \<Rightarrow> string \<Rightarrow> string list \<Rightarrow> ('z, unit) cprog" where
  "wait_day2_hosts wait e i statuses =
     bindP (reads new_nodes) (\<lambda>n.
       wait_till_all_hosts_are_in_status wait e i n statuses [''''] CLUSTER_INSTALLATION_TIMEOUT True 30 False)"

section \<open>Preparing\<close>

definition day2_set_cluster_proxy :: "env \<Rightarrow> ('z, unit) cprog" where
  "day2_set_cluster_proxy e =
     bindP (reads (\<lambda>s. cc s ''proxy'')) (\<lambda>p.
       if truth p then
         with_cluster_id (\<lambda>i. api_set_cluster_proxy e i (attribute p ''http_proxy'')
           (attribute p ''https_proxy'') (attribute p ''no_proxy''))
       else ret ())"

definition day2_record :: "string \<Rightarrow> string \<Rightarrow> string" where
  "day2_record api_vip api_vip_dnsname = api_vip @ '' '' @ api_vip_dnsname @ [newline]"

text \<open>The first line with the name is replaced; without one a line is added (\<open>for ... else\<close>).\<close>

fun day2_hosts_lines :: "string \<Rightarrow> string \<Rightarrow> string list \<Rightarrow> string list" where
  "day2_hosts_lines api_vip api_vip_dnsname [] = [day2_record api_vip api_vip_dnsname]"
| "day2_hosts_lines api_vip api_vip_dnsname (line # lines) =
     (if occurs_in api_vip_dnsname line then day2_record api_vip api_vip_dnsname # lines
      else line # day2_hosts_lines api_vip api_vip_dnsname lines)"

definition day2_config_etc_hosts :: "env \<Rightarrow> string \<Rightarrow> string \<Rightarrow> ((call, 'z) world_scheme, unit) prog" where
  "day2_config_etc_hosts e api_vip api_vip_dnsname =
     bindP (ask_call e (Controller ''readlines'' [PStr ''/etc/hosts''])) (\<lambda>v.
       act e ''writelines''
         [PStr ''/etc/hosts'', PList (map PStr (day2_hosts_lines api_vip api_vip_dnsname (Utils.str_items v)))])"

definition day2_prepare_nodes ::
  "'z kwaiter \<Rightarrow> env \<Rightarrow> nodes_env \<Rightarrow> day2_env \<Rightarrow> (exn + pyval) \<Rightarrow> ('z, unit) cprog" where
  "day2_prepare_nodes wait e nv d static_data =
     bindP (reads cs_config) (\<lambda>c.
       thenP (cluster_set_pull_secret e (text_of (cfg c ''pull_secret'')) None)
       (thenP (day2_set_cluster_proxy e)
       (thenP (bindP (sum_prog (d2_day1_api_vip d)) (\<lambda>vip.
                 day2_config_etc_hosts e vip (text_of (cfg c ''day1_api_vip_dnsname''))))
       (thenP (generate_and_download_infra_env e static_data (cfg c ''iso_download_path'') PNone
                 (cfg c ''iso_image_type'') PNone PNone PNone (cfg c ''day2_cpu_architecture''))
       (thenP (entity_prepare_nodes e cs_config (cluster_update_config [])
                 (download_image e static_data PNone PNone) (cluster_discovered wait e nv)
                 (d2_day1_is_static_ip d))
       (thenP (act e ''nodes.wait_for_networking'' [])
       (thenP (set_hostnames_and_roles e nv)
         (with_cluster_id (\<lambda>i. wait_day2_hosts wait e i [ns_value NS_Known])))))))))"

section \<open>Installing\<close>

definition install_known_host :: "env \<Rightarrow> host \<Rightarrow> ('z, unit) cprog" where
  "install_known_host e h =
     (if h_status h = ''known'' then
        bindP (reads infra_env_id) (\<lambda>i. api_install_day2_host e (text_of i) (h_id h))
      else ret ())"

definition install_day2_cluster :: "'z kwaiter \<Rightarrow> env \<Rightarrow> ('z, unit) cprog" where
  "install_day2_cluster wait e =
     with_cluster_id (\<lambda>i.
       bindP (get_cluster_hosts e i False) (\<lambda>hosts.
         thenP (for_each (install_known_host e) hosts)
           (wait_day2_hosts wait e i [ns_value NS_Day2Installed])))"

text \<open>The predicate approves and counts; every exception of it only means another try.\<close>

definition nodes_joined :: "env \<Rightarrow> day2_env \<Rightarrow> nat \<Rightarrow> int \<Rightarrow> ((call, 'z) world_scheme, bool) prog" where
  "nodes_joined e d num_orig_nodes num_new_nodes =
     thenP (approve_nodes_on_ocp_cluster e d)
       (bindP (get_ocp_cluster_ready_nodes_num e d) (\<lambda>n. ret (int n = int num_orig_nodes + num_new_nodes)))"

definition wait_nodes_to_be_in_ocp :: "'z kwaiter \<Rightarrow> env \<Rightarrow> day2_env \<Rightarrow> nat \<Rightarrow> ('z, unit) cprog" where
  "wait_nodes_to_be_in_ocp wait e d ocp_ready_nodes =
     bindP (reads new_nodes) (\<lambda>n.
       wait (bindP (nodes_joined e d ocp_ready_nodes n) (\<lambda>b. ret (truthy b)))
         NODES_REGISTERED_TIMEOUT 30 is_Exception)"

definition day2_start_install_and_wait_for_installed ::
  "'z kwaiter \<Rightarrow> env \<Rightarrow> day2_env \<Rightarrow> ('z, unit) cprog" where
  "day2_start_install_and_wait_for_installed wait e d =
     bindP (get_ocp_cluster_ready_nodes_num e d) (\<lambda>ocp_ready_nodes.
       thenP (install_day2_cluster wait e)
         (thenP (act e ''nodes.wait_till_nodes_are_ssh_ready'' [])
           (wait_nodes_to_be_in_ocp wait e d ocp_ready_nodes)))"

section \<open>Properties\<close>

subsection \<open>The hosts file\<close>

lemma day2_record_has_name: "occurs_in n (day2_record a n)"
  unfolding day2_record_def sublist_def by (rule exI [of _ "a @ '' ''"]) auto

text \<open>Configuring the hosts file of a day 2 cluster gives a file whose first line with the name of the API is
  the new record; all lines without the name stay, in their order, the number of lines with it only grows
  if there was none, and doing it again changes nothing.\<close>

lemma day2_hosts_file_configured:
  "find (occurs_in n) (day2_hosts_lines a n lines) = Some (day2_record a n)
   \<and> filter (\<lambda>l. \<not> occurs_in n l) (day2_hosts_lines a n lines) = filter (\<lambda>l. \<not> occurs_in n l) lines
   \<and> length (filter (occurs_in n) (day2_hosts_lines a n lines)) = max 1 (length (filter (occurs_in n) lines))
   \<and> day2_hosts_lines a n (day2_hosts_lines a n lines) = day2_hosts_lines a n lines"
  by (induction lines) (auto simp: day2_record_has_name)

subsection \<open>Installing the known hosts\<close>

lemma install_known_hosts_Inr:
  assumes "for_each (install_known_host e) hosts s = (Inr (), t)"
  shows "hist t = hist s @ map (\<lambda>h. V2InstallHost (text_of (infra_env_id s)) (h_id h))
             (filter (\<lambda>h. h_status h = ''known'') hosts)
    \<and> only_calls s t"
  using assms
proof (induction hosts arbitrary: s)
  case Nil
  then show ?case by (simp add: prog_simps calls.rel_refl)
next
  case (Cons h hosts)
  from Cons.prems obtain u where u: "install_known_host e h s = (Inr (), u)"
    and t: "for_each (install_known_host e) hosts u = (Inr (), t)"
    by (auto elim!: bindP_InrE)
  show ?case
  proof (cases "h_status h = ''known''")
    case True
    then have "u = s\<lparr>hist := hist s @ [V2InstallHost (text_of (infra_env_id s)) (h_id h)]\<rparr>"
      using u by (auto simp: install_known_host_def api_install_day2_host_def bindP_app do_call_def ext_app)
    with Cons.IH [OF t] True show ?thesis
      by (auto simp: infra_env_id_def only_calls_def elim: prefix_order.trans)
  next
    case False
    with u have "u = s" by (simp add: install_known_host_def prog_simps)
    with Cons.IH [OF t] False show ?thesis by simp
  qed
qed

lemma observed_mono: "observed e i s t P \<Longrightarrow> (\<And>c. P c \<Longrightarrow> Q c) \<Longrightarrow> observed e i s t Q"
  by (auto simp: observed_def)

lemma observed_earlier: "observed e i u t P \<Longrightarrow> prefix (hist s) (hist u) \<Longrightarrow> observed e i s t P"
  unfolding observed_def by (blast intro: prefix_order.trans)

lemma wait_day2_hosts_Inr:
  assumes "waits_by wait" and "wait_day2_hosts wait e i statuses s = (r, t)"
  shows "only_queries s t \<and> only_calls s t \<and> (r = Inr () \<longrightarrow> observed e i s t
     (\<lambda>c. new_nodes s \<le> int (length (filter (host_in_status statuses ['''']) (cl_hosts c)))))"
proof -
  have run: "wait_till_all_hosts_are_in_status wait e i (new_nodes s) statuses [''''] CLUSTER_INSTALLATION_TIMEOUT
      True 30 False s = (r, t)"
    using assms(2) by (simp add: wait_day2_hosts_def bindP_app)
  have "only_queries s t"
    using run unfolding wait_till_all_hosts_are_in_status_def
    by (rule keepsD [OF queries.keeps_wait [OF assms(1) keeps_hosts_check]])
  moreover have "only_calls s t"
    by (rule keepsD [OF keeps_calls_waits(2) [OF assms(1)] run])
  moreover have "observed e i s t (\<lambda>c. new_nodes s \<le> int (length (filter (host_in_status statuses ['''']) (cl_hosts c))))"
    if "r = Inr ()"
    by (rule observed_mono [OF wait_observed [OF assms(1) run [unfolded wait_till_all_hosts_are_in_status_def that]]])
      (simp add: are_hosts_in_status_True)
  ultimately show ?thesis by blast
qed

definition added_hosts :: "cluster \<Rightarrow> nat" where
  "added_hosts c = length (filter (host_in_status [''added-to-existing-cluster''] ['''']) (cl_hosts c))"

text \<open>The installation up to the wait.\<close>

lemma install_day2_steps:
  assumes "install_day2_cluster wait e s = (Inr (), t)"
  shows "\<exists>c u. e_get_cluster e (hist s) (text_of (cluster_id s)) = Inr c
    \<and> hist u = hist s @ V2GetCluster (text_of (cluster_id s)) False
        # map (\<lambda>h. V2InstallHost (text_of (infra_env_id s)) (h_id h)) (filter (\<lambda>h. h_status h = ''known'') (cl_hosts c))
    \<and> new_nodes u = new_nodes s
    \<and> wait_day2_hosts wait e (text_of (cluster_id s)) [ns_value NS_Day2Installed] u = (Inr (), t)"
proof -
  let ?i = "text_of (cluster_id s)"
  let ?s1 = "s\<lparr>hist := hist s @ [V2GetCluster ?i False]\<rparr>"
  obtain c u where c: "e_get_cluster e (hist s) ?i = Inr c"
    and u: "for_each (install_known_host e) (cl_hosts c) ?s1 = (Inr (), u)"
    and t: "wait_day2_hosts wait e ?i [ns_value NS_Day2Installed] u = (Inr (), t)"
    using assms
    by (auto simp: install_day2_cluster_def with_cluster_id_def bindP_app get_cluster_hosts_Inr_iff
        elim!: bindP_InrE)
  have "infra_env_id ?s1 = infra_env_id s" by (simp add: infra_env_id_def)
  then have "hist u = hist s @ V2GetCluster ?i False
      # map (\<lambda>h. V2InstallHost (text_of (infra_env_id s)) (h_id h)) (filter (\<lambda>h. h_status h = ''known'') (cl_hosts c))"
    and "only_calls ?s1 u"
    using install_known_hosts_Inr [OF u] by simp_all
  moreover have "new_nodes u = new_nodes s"
    using only_calls_cluster(1) [OF \<open>only_calls ?s1 u\<close>] by (simp add: new_nodes_def)
  ultimately show ?thesis using c t by blast
qed

lemma day2_install_seen:
  assumes "waits_by wait" and "install_day2_cluster wait e s = (Inr (), t)"
  shows "observed e (text_of (cluster_id s)) s t (\<lambda>c. new_nodes s \<le> int (added_hosts c))"
proof -
  obtain u where u: "prefix (hist s) (hist u)" "new_nodes u = new_nodes s"
    "wait_day2_hosts wait e (text_of (cluster_id s)) [ns_value NS_Day2Installed] u = (Inr (), t)"
    using install_day2_steps [OF assms(2)] by (metis prefixI)
  from wait_day2_hosts_Inr [OF assms(1) u(3)] show ?thesis
    using u(2) by (auto simp: added_hosts_def intro: observed_earlier [OF _ u(1)])
qed

text \<open>An installation of a day 2 cluster that returns normally asked for the hosts once, then asked to install
  exactly those that were known, in their order and in the cluster's infrastructure environment, and made
  only queries from then on; the last showed as many hosts added as the configuration asks for.\<close>

lemma day2_installs_known_hosts:
  assumes "waits_by wait" and "install_day2_cluster wait e s = (Inr (), t)"
  shows "\<exists>c qs. e_get_cluster e (hist s) (text_of (cluster_id s)) = Inr c
    \<and> hist t = hist s @ V2GetCluster (text_of (cluster_id s)) False
        # map (\<lambda>h. V2InstallHost (text_of (infra_env_id s)) (h_id h)) (filter (\<lambda>h. h_status h = ''known'') (cl_hosts c))
        @ qs
    \<and> list_all is_query qs
    \<and> observed e (text_of (cluster_id s)) s t (\<lambda>c. new_nodes s \<le> int (added_hosts c))"
proof -
  obtain c u where c: "e_get_cluster e (hist s) (text_of (cluster_id s)) = Inr c"
    and u: "hist u = hist s @ V2GetCluster (text_of (cluster_id s)) False
        # map (\<lambda>h. V2InstallHost (text_of (infra_env_id s)) (h_id h)) (filter (\<lambda>h. h_status h = ''known'') (cl_hosts c))"
      "wait_day2_hosts wait e (text_of (cluster_id s)) [ns_value NS_Day2Installed] u = (Inr (), t)"
    using install_day2_steps [OF assms(2)] by blast
  obtain qs where "hist t = hist u @ qs" "list_all is_query qs"
    using wait_day2_hosts_Inr [OF assms(1) u(2)] by (auto simp: only_queries_def)
  then show ?thesis using c u(1) day2_install_seen [OF assms] by auto
qed

definition day2_state :: cluster_state where
  "day2_state = \<lparr>hist = [], ie_config = [(''infra_env_id'', PStr ''ie'')],
     cs_config = [(''cluster_id'', PStr ''c''), (''day2_workers_count'', PInt 1), (''day2_masters_count'', PInt 0)],
     cs_has_infra_env = True, cs_is_installed = False\<rparr>"

text \<open>Two hosts, one known; after the request to install it, it is added. The cluster has two ready nodes then.\<close>

definition day2_cluster :: "call list \<Rightarrow> cluster" where
  "day2_cluster h = sample_cluster ''adding-hosts'' [sample_host ''a'' ''insufficient'' ''worker'',
     sample_host ''b'' (if V2InstallHost ''ie'' ''b'' \<in> set h then ''added-to-existing-cluster'' else ''known'') ''worker'']"

definition day2_services :: env where
  "day2_services = (still_env (sample_cluster [] []))\<lparr>e_get_cluster := (\<lambda>h i. Inr (day2_cluster h)),
     e_run := (\<lambda>h c. Inr \<lparr>p_out = (if V2InstallHost ''ie'' ''b'' \<in> set h then ''2'' else ''1''), p_err = [], p_rc = 0\<rparr>)\<rparr>"

lemma day2_install_run:
  assumes "V2InstallHost ''ie'' ''b'' \<notin> set h"
  shows "install_day2_cluster (poll_upto 0) day2_services (day2_state\<lparr>hist := h\<rparr>) = (Inr (), day2_state\<lparr>hist := h @
     [V2GetCluster ''c'' False, V2InstallHost ''ie'' ''b'', V2GetCluster ''c'' False]\<rparr>)"
  using assms
  by (simp add: install_day2_cluster_def with_cluster_id_def bindP_def prog_simps get_cluster_hosts_def
      cluster_get_app install_known_host_def api_install_day2_host_def do_call_def ext_app wait_day2_hosts_def
      wait_till_all_hosts_are_in_status_def poll_upto.simps are_hosts_in_status_def host_in_status_def
      day2_state_def day2_services_def day2_cluster_def concrete_env cluster_id_def infra_env_id_def cfg_def
      text_of_def new_nodes_def int_of_def)

lemma day2_installs_known_hosts_witness:
  "observed day2_services ''c'' (day2_state\<lparr>hist := []\<rparr>) (day2_state\<lparr>hist :=
     [V2GetCluster ''c'' False, V2InstallHost ''ie'' ''b'', V2GetCluster ''c'' False]\<rparr>) (\<lambda>c. 1 \<le> int (added_hosts c))"
  using day2_installs_known_hosts [OF waits_by_poll_upto day2_install_run [of "[]"]]
  by (auto simp: day2_state_def cluster_id_def cfg_def text_of_def new_nodes_def int_of_def)

subsection \<open>Nodes that joined\<close>

abbreviation nodes_command :: "day2_env \<Rightarrow> string" where
  "nodes_command d \<equiv> oc_command d ''get nodes --output=json''"

text \<open>The ready nodes in the answer to the query made after \<open>h\<close>.\<close>

definition ready_count :: "env \<Rightarrow> day2_env \<Rightarrow> call list \<Rightarrow> exn + nat" where
  "ready_count e d h = sum_bind (e_run e h (nodes_command d)) (\<lambda>p.
     if p_rc p \<noteq> 0 then Inl CalledProcessError else sum_bind (d2_parse_nodes d (p_out p)) ready_nodes)"

lemma ready_nodes_num_app:
  "get_ocp_cluster_ready_nodes_num e d s =
     (ready_count e d (hist s), s\<lparr>hist := hist s @ [ShellCommand (nodes_command d)]\<rparr>)"
  by (auto simp: get_ocp_cluster_ready_nodes_num_def get_ocp_cluster_nodes_def check_output_def bindP_def ext_app
      prog_simps ready_count_def sum_bind_def sum_prog_def split: sum.splits)

lemma keeps_calls_check_output [intro]: "keeps only_calls (check_output e c)"
  unfolding check_output_def by (auto intro!: calls_intros)

lemma keeps_calls_install_known [intro]: "keeps only_calls (install_known_host e h)"
  unfolding install_known_host_def api_install_day2_host_def
  by (cases "h_status h = ''known''") (auto intro!: calls_intros)

lemma keeps_calls_approve [intro]: "keeps only_calls (approve_nodes_on_ocp_cluster e d)"
  unfolding approve_nodes_on_ocp_cluster_def get_ocp_cluster_csrs_def by (auto intro!: calls_intros)

lemma keeps_calls_joined: "keeps only_calls (bindP (nodes_joined e d n k) (\<lambda>b. ret (truthy b)))"
  unfolding nodes_joined_def get_ocp_cluster_ready_nodes_num_def get_ocp_cluster_nodes_def
  by (auto intro!: calls_intros)

lemma wait_nodes_joined:
  assumes "waits_by wait" and "wait_nodes_to_be_in_ocp wait e d n s = (Inr (), t)"
  shows "\<exists>h m. prefix (hist s) h \<and> hist t = h @ [ShellCommand (nodes_command d)]
    \<and> ready_count e d h = Inr m \<and> int m = int n + new_nodes s"
proof -
  let ?p = "bindP (nodes_joined e d n (new_nodes s)) (\<lambda>b. ret (truthy b))"
  have "wait ?p NODES_REGISTERED_TIMEOUT 30 is_Exception s = (Inr (), t)"
    using assms(2) by (simp add: wait_nodes_to_be_in_ocp_def bindP_app)
  then obtain s' where s': "only_calls s s'" "?p s' = (Inr (Some ()), t)"
    using calls.wait_Inr_rel [OF assms(1) keeps_calls_joined] by blast
  then obtain u where u: "approve_nodes_on_ocp_cluster e d s' = (Inr (), u)"
    and "\<exists>m. ready_count e d (hist u) = Inr m \<and> int m = int n + new_nodes s"
    and "hist t = hist u @ [ShellCommand (nodes_command d)]"
    by (auto simp: nodes_joined_def bindP_def ready_nodes_num_app prog_simps split: prod.splits sum.splits)
  moreover have "only_calls s u"
    using s'(1) keepsD [OF keeps_calls_approve u] by (rule calls.rel_trans)
  ultimately show ?thesis unfolding only_calls_def by blast
qed

text \<open>C29: A day 2 installation that returns normally counted the ready nodes of the OpenShift cluster first, saw the
  service report as many hosts added as the configuration asks for, and its last call found exactly that many
  ready nodes more than there were at the start.\<close>

theorem day2_returns_when_joined:
  assumes "waits_by wait" and "day2_start_install_and_wait_for_installed wait e d s = (Inr (), t)"
  shows "\<exists>n m h. ready_count e d (hist s) = Inr n
    \<and> seen_between e (text_of (cluster_id s)) s t (\<lambda>c. new_nodes s \<le> int (added_hosts c))
    \<and> hist t = h @ [ShellCommand (nodes_command d)] \<and> ready_count e d h = Inr m
    \<and> int m = int n + new_nodes s"
proof -
  let ?s1 = "s\<lparr>hist := hist s @ [ShellCommand (nodes_command d)]\<rparr>"
  obtain n u v where n: "ready_count e d (hist s) = Inr n"
    and u: "install_day2_cluster wait e ?s1 = (Inr (), u)"
    and v: "act e ''nodes.wait_till_nodes_are_ssh_ready'' [] u = (Inr (), v)"
    and t: "wait_nodes_to_be_in_ocp wait e d n v = (Inr (), t)"
    using assms(2)
    by (auto simp: day2_start_install_and_wait_for_installed_def ready_nodes_num_app elim!: bindP_InrE)
  have "keeps only_calls (install_day2_cluster wait e)"
    unfolding install_day2_cluster_def wait_day2_hosts_def
    using assms(1) by (auto intro!: keeps_calls_with_cluster_id calls_intros)
  from keepsD [OF this u] have c1: "only_calls ?s1 u" .
  have c2: "only_calls u v" by (rule keepsD [OF keeps_calls_do(2) v])
  have same: "new_nodes v = new_nodes s" "cluster_id ?s1 = cluster_id s" "new_nodes ?s1 = new_nodes s"
    using only_calls_cluster(1) [OF calls.rel_trans [OF c1 c2]] by (simp_all add: new_nodes_def cluster_id_def)
  obtain h m where h: "prefix (hist v) h" "hist t = h @ [ShellCommand (nodes_command d)]" "ready_count e d h = Inr m"
    "int m = int n + new_nodes s"
    using wait_nodes_joined [OF assms(1) t] same by auto
  have seen: "observed e (text_of (cluster_id s)) ?s1 u (\<lambda>c. new_nodes s \<le> int (added_hosts c))"
    using day2_install_seen [OF assms(1) u] same by simp
  have "seen_between e (text_of (cluster_id s)) s t (\<lambda>c. new_nodes s \<le> int (added_hosts c))"
  proof (rule observed_between [OF _ seen])
    show "prefix (hist s) (hist ?s1)" by simp
    show "prefix (hist u) (hist t)" using c2 h(1,2) by (auto simp: only_calls_def elim!: prefixE)
  qed
  then show ?thesis using n h by blast
qed

definition day2_texts :: day2_env where
  "day2_texts = \<lparr>d2_name = ''d'', d2_uuid = ''u'', d2_kubeconfig = ''k'', d2_day1_is_static_ip = False,
     d2_day1_api_vip = Inr ''v'',
     d2_parse_nodes = (\<lambda>out. Inr (replicate (if out = ''2'' then 2 else 1)
        (Status (Has [\<lparr>oc_status = ''True'', oc_type = ''Ready''\<rparr>])))),
     d2_parse_csrs = (\<lambda>_. Inr [\<lparr>csr_name = ''r'', csr_has_status = False\<rparr>])\<rparr>"

lemma day2_approve_run:
  "\<exists>t. approve_nodes_on_ocp_cluster day2_services day2_texts (day2_state\<lparr>hist := h\<rparr>) = (Inr (), day2_state\<lparr>hist := h @ t\<rparr>)"
  by (simp add: approve_nodes_on_ocp_cluster_def get_ocp_cluster_csrs_def check_output_def bindP_def ext_app
      day2_services_def concrete_env prog_simps sum_prog_def day2_texts_def) (rule exI, rule refl)

lemma day2_ready_count:
  "ready_count day2_services day2_texts h = Inr (if V2InstallHost ''ie'' ''b'' \<in> set h then 2 else 1)"
  by (simp add: ready_count_def day2_services_def concrete_env day2_texts_def ready_nodes_def sum_bind_def
      is_ocp_node_ready_def eval_nat_numeral)

lemma day2_act: "act day2_services w args s = (Inr (), s\<lparr>hist := hist s @ [Controller w args]\<rparr>)"
  by (simp add: act_def do_call_def ext_app day2_services_def concrete_env)

lemma day2_new_nodes: "new_nodes (day2_state\<lparr>hist := h\<rparr>) = 1"
  by (simp add: new_nodes_def int_of_def cfg_def day2_state_def)

lemma day2_run:
  "\<exists>t. day2_start_install_and_wait_for_installed (poll_upto 0) day2_services day2_texts (day2_state\<lparr>hist := []\<rparr>) = (Inr (), t)"
proof -
  let ?cmd = "ShellCommand (nodes_command day2_texts)"
  let ?h = "[?cmd, V2GetCluster ''c'' False, V2InstallHost ''ie'' ''b'', V2GetCluster ''c'' False,
    Controller ''nodes.wait_till_nodes_are_ssh_ready'' []]"
  obtain cs where "approve_nodes_on_ocp_cluster day2_services day2_texts (day2_state\<lparr>hist := ?h\<rparr>)
      = (Inr (), day2_state\<lparr>hist := ?h @ cs\<rparr>)"
    using day2_approve_run by blast
  then have "\<exists>t. wait_nodes_to_be_in_ocp (poll_upto 0) day2_services day2_texts 1 (day2_state\<lparr>hist := ?h\<rparr>) = (Inr (), t)"
    by (simp add: wait_nodes_to_be_in_ocp_def bindP_app poll_upto.simps nodes_joined_def bindP_def
        ready_nodes_num_app day2_ready_count day2_new_nodes prog_simps)
  then show ?thesis
    using day2_install_run [of "[?cmd]"]
    by (simp add: day2_start_install_and_wait_for_installed_def bindP_def ready_nodes_num_app day2_ready_count
        day2_act)
qed

theorem day2_returns_when_joined_witness:
  "\<exists>h. prefix [ShellCommand (nodes_command day2_texts)] h \<and> ready_count day2_services day2_texts h = Inr 2"
proof -
  obtain t where t: "day2_start_install_and_wait_for_installed (poll_upto 0) day2_services day2_texts
      (day2_state\<lparr>hist := []\<rparr>) = (Inr (), t)"
    using day2_run by blast
  from day2_returns_when_joined [OF waits_by_poll_upto t] obtain h m where "ready_count day2_services day2_texts h = Inr m"
    "int m = int 1 + 1"
    by (auto simp: day2_ready_count day2_new_nodes)
  then show ?thesis
    by (intro exI [of _ "ShellCommand (nodes_command day2_texts) # h"]) (auto simp: day2_ready_count split: if_splits)
qed

end
