(* ===== verification/Logs.thy ===== *)
theory Logs
  imports Prepare
begin

text \<open>
  \<open>utils/logs_utils.py\<close> and \<open>download_logs/download_logs.py\<close>: waiting for the logs of a cluster,
  checking what was uploaded, removing secrets from downloaded files, and the download with its
  retries. File systems, archives and their contents are outside; what the checks read of an
  archive is a record (\<open>cluster_tar\<close>, \<open>node_archive\<close>, \<open>bootstrap_archive\<close>, \<open>oc_archive\<close>).
\<close>

section \<open>Waiting for logs\<close>

definition are_logs_in_status ::
  "env \<Rightarrow> string \<Rightarrow> string list \<Rightarrow> bool \<Rightarrow> ((call, 'z) world_scheme, bool) prog" where
  "are_logs_in_status e cid statuses check_host_logs_only =
     try_except
       (bindP (cluster_get e cid False) (\<lambda>c.
          bindP (get_cluster_hosts e cid False) (\<lambda>hosts.
            ret (list_all (\<lambda>h. h_logs_info h \<in> Some ` set statuses) hosts
              \<and> (check_host_logs_only \<or> cl_logs_info c \<in> Some ` set statuses)))))
       (\<lambda>_. ret False)"

text \<open>The handler logs and raises again.\<close>

definition wait_for_logs_complete ::
  "'z cwaiter \<Rightarrow> env \<Rightarrow> string \<Rightarrow> int \<Rightarrow> int \<Rightarrow> bool \<Rightarrow> ((call, 'z) world_scheme, unit) prog" where
  "wait_for_logs_complete wait e cid timeout interval check_host_logs_only =
     try_except
       (wait (bindP (are_logs_in_status e cid [''completed'', ''timeout''] check_host_logs_only)
               (\<lambda>b. ret (truthy b))) timeout interval no_exceptions)
       raise"

text \<open>\<open>Some False\<close> is returned for every failure, and \<open>None\<close>, the end of the function, for success.\<close>

definition wait_for_controller_logs ::
  "'z cwaiter \<Rightarrow> env \<Rightarrow> string \<Rightarrow> int \<Rightarrow> int \<Rightarrow> ((call, 'z) world_scheme, bool option) prog" where
  "wait_for_controller_logs wait e cid timeout interval =
     try_except
       (thenP (wait (bindP (cluster_get e cid False) (\<lambda>c. ret (truthy (truthy_str (cl_logs_info c)))))
                timeout interval no_exceptions) (ret None))
       (\<lambda>_. ret (Some False))"

text \<open>\<open>now\<close> is the clock, read once for every element.\<close>

fun verify_logs_are_current :: "int list \<Rightarrow> int \<Rightarrow> int list \<Rightarrow> exn + unit" where
  "verify_logs_are_current (now # nows) started_cluster_install_at (collected_at # rest) =
     (if now - 86400000 < collected_at \<and> collected_at \<le> started_cluster_install_at then Inl AssertionError
      else verify_logs_are_current nows started_cluster_install_at rest)"
| "verify_logs_are_current _ _ _ = Inr ()"

section \<open>Checking uploaded logs\<close>

text \<open>\<open>assert\<close> in a function without effects.\<close>

definition claim :: "bool \<Rightarrow> exn + unit" where
  "claim b = (if b then Inr () else Inl AssertionError)"

abbreviation sum_then :: "exn + 'a \<Rightarrow> exn + 'b \<Rightarrow> exn + 'b" where
  "sum_then a b \<equiv> sum_bind a (\<lambda>_. b)"

definition tar_ReadError :: exn where "tar_ReadError = External 0"

definition MAX_LOG_SIZE_BYTES :: int where "MAX_LOG_SIZE_BYTES = 1000000"
definition MIN_LOG_SIZE_BYTES :: int where "MIN_LOG_SIZE_BYTES = 17"
definition NUMBER_OF_MASTERS :: nat where "NUMBER_OF_MASTERS = 3"

text \<open>\<open>resolve\<close> gives the components of the absolute path; \<open>below\<close> puts a member under the destination.\<close>

definition safe_open_tar ::
  "(string \<Rightarrow> string list) \<Rightarrow> (string \<Rightarrow> string \<Rightarrow> string) \<Rightarrow> string list \<Rightarrow> string \<Rightarrow> exn + unit" where
  "safe_open_tar resolve below members destination_path =
     (if list_all (\<lambda>m. prefix (resolve destination_path) (resolve (below destination_path m))) members
      then Inr () else Inl RuntimeError)"

record log_file =
  lf_name :: string
  lf_md5sum :: string
  lf_size :: int

definition verify_duplicate_and_size_logs_file :: "log_file list \<Rightarrow> exn + unit" where
  "verify_duplicate_and_size_logs_file files =
     (let names = map lf_name files
      in sum_then (claim (distinct (map lf_md5sum files)))
         (sum_then (claim (\<not> list_ex (\<lambda>f. MAX_LOG_SIZE_BYTES < lf_size f) files))
           (claim (list_all (\<lambda>f. list_all (\<lambda>copy_file. \<not> occurs_in f copy_file) (remove1 f names)) names))))"

record node_archive =
  na_names :: "string list"
  na_directories :: "string list"
  na_files :: "(string \<times> int) list"

definition expected_log_files :: "string \<Rightarrow> string list" where
  "expected_log_files file_path =
     [''agent.logs'', ''installer.logs'', ''mount.logs'', ''report.logs'']
     @ (if occurs_in ''bootstrap'' file_path then [''bootkube.logs''] else [])"

definition verify_node_logs_uploaded :: "string \<Rightarrow> node_archive \<Rightarrow> exn + unit" where
  "verify_node_logs_uploaded file_path a =
     sum_then (claim (length (na_names a) = 1))
     (sum_then (claim (length (na_directories a) = 1))
     (sum_then (claim (list_all (\<lambda>(_, file_size). MIN_LOG_SIZE_BYTES < file_size) (na_files a)))
       (claim (set (expected_log_files file_path) = set (map fst (na_files a))))))"

record bootstrap_archive =
  ba_names :: "string list"
  ba_bundle :: "string list"
  ba_masters :: "(string \<times> nat) list"

definition verify_bootstrap_logs_uploaded :: "bootstrap_archive \<Rightarrow> bool \<Rightarrow> bool \<Rightarrow> exn + unit" where
  "verify_bootstrap_logs_uploaded a installation_success verify_control_plane =
     sum_then (claim (list_ex (occurs_in ''bootkube.logs'') (ba_names a)))
     (if installation_success then Inr ()
      else
        sum_then (claim (list_ex (occurs_in ''dmesg.logs'') (ba_names a)))
        (sum_then (claim (list_ex (occurs_in ''log-bundle'') (ba_names a)))
        (sum_then (if filter (occurs_in ''control-plane'') (ba_bundle a) = [] then Inl IndexError else Inr ())
          (if verify_control_plane then
             sum_then (claim (length (ba_masters a) = NUMBER_OF_MASTERS - 1))
               (claim (list_all (\<lambda>(_, entries). 0 < entries) (ba_masters a)))
           else Inr ()))))"

text \<open>\<open>verify\<close> gets the first compressed file of the component, if there is one.\<close>

definition check_entry_from_extracted_tar :: "string \<Rightarrow> string list \<Rightarrow> (string \<Rightarrow> exn + unit) \<Rightarrow> exn + unit" where
  "check_entry_from_extracted_tar component extractedfiles verify =
     sum_then (claim (list_ex (occurs_in component) extractedfiles))
       (case filter (\<lambda>f. occurs_in component f \<and> endswith f ''.gz'') extractedfiles of
          [] \<Rightarrow> Inr () | f # _ \<Rightarrow> verify f)"

record oc_archive =
  oa_files :: "string list"
  oa_inner :: "string \<Rightarrow> exn + string list"

definition verify_oc_logs_uploaded :: "oc_archive \<Rightarrow> exn + unit" where
  "verify_oc_logs_uploaded a =
     check_entry_from_extracted_tar ''controller'' (oa_files a) (\<lambda>f.
       sum_bind (oa_inner a f) (\<lambda>fs. check_entry_from_extracted_tar ''must-gather'' fs (\<lambda>_. Inr ())))"

text \<open>The uploaded archive: its members, and the files it extracts to.\<close>

record cluster_tar =
  ct_exists :: bool
  ct_names :: "string list"
  ct_files :: "log_file list"
  ct_is_tar :: "string \<Rightarrow> bool"
  ct_node :: "string \<Rightarrow> exn + node_archive"
  ct_bootstrap :: "string \<Rightarrow> exn + bootstrap_archive"
  ct_oc :: "string \<Rightarrow> exn + oc_archive"

definition tar_files :: "cluster_tar \<Rightarrow> string list" where
  "tar_files t = filter (\<lambda>f. \<not> occurs_in ''manifest_system-generated_openshift'' f \<and> ct_is_tar t f)
     (map lf_name (ct_files t))"

definition verify_tar_file :: "cluster_tar \<Rightarrow> bool \<Rightarrow> bool \<Rightarrow> bool \<Rightarrow> bool \<Rightarrow> string \<Rightarrow> exn + unit" where
  "verify_tar_file t installation_success verify_control_plane check_oc verify_bootstrap_errors file =
     (if verify_bootstrap_errors \<and> occurs_in ''bootstrap'' file then
        sum_bind (ct_bootstrap t file) (\<lambda>a.
          verify_bootstrap_logs_uploaded a installation_success verify_control_plane)
      else if check_oc \<and> occurs_in ''controller'' file then sum_bind (ct_oc t file) verify_oc_logs_uploaded
      else if occurs_in ''master'' file \<or> occurs_in ''worker'' file then
        (case sum_bind (ct_node t file) (verify_node_logs_uploaded file) of
           Inl x \<Rightarrow> if x = tar_ReadError then Inr () else Inl x
         | Inr u \<Rightarrow> Inr u)
      else Inr ())"

definition verify_logs_uploaded ::
  "(string \<Rightarrow> string list) \<Rightarrow> (string \<Rightarrow> string \<Rightarrow> string) \<Rightarrow> string
     \<Rightarrow> cluster_tar \<Rightarrow> nat \<Rightarrow> bool \<Rightarrow> bool \<Rightarrow> bool \<Rightarrow> bool \<Rightarrow> exn + unit" where
  "verify_logs_uploaded resolve below tempdir t expected_min_log_num installation_success verify_control_plane check_oc
       verify_bootstrap_errors =
     sum_then (claim (ct_exists t))
     (sum_then (safe_open_tar resolve below (ct_names t) tempdir)
     (sum_then (claim (expected_min_log_num \<le> length (ct_names t)))
     (sum_then (claim (distinct (ct_names t)))
     (sum_then (verify_duplicate_and_size_logs_file (ct_files t))
       (sum_then (sum_map (verify_tar_file t installation_success verify_control_plane check_oc
                    verify_bootstrap_errors) (tar_files t)) (Inr ()))))))"

definition verify_logs_not_uploaded ::
  "(string \<Rightarrow> string list) \<Rightarrow> (string \<Rightarrow> string \<Rightarrow> string) \<Rightarrow> string \<Rightarrow> cluster_tar \<Rightarrow> string \<Rightarrow> exn + unit" where
  "verify_logs_not_uploaded resolve below tempdir t category =
     sum_then (claim (ct_exists t))
       (sum_then (safe_open_tar resolve below (ct_names t) tempdir) (claim (category \<notin> set (map lf_name (ct_files t)))))"

definition OC_DOWNLOAD_LOGS_INTERVAL :: int where "OC_DOWNLOAD_LOGS_INTERVAL = 5 * 60"
definition OC_DOWNLOAD_LOGS_TIMEOUT :: int where "OC_DOWNLOAD_LOGS_TIMEOUT = 60 * 60"

definition wait_and_verify_oc_logs_uploaded ::
  "'z cwaiter \<Rightarrow> env \<Rightarrow> string \<Rightarrow> string \<Rightarrow> (exn + oc_archive) \<Rightarrow> ((call, 'z) world_scheme, unit) prog" where
  "wait_and_verify_oc_logs_uploaded wait e cid cluster_tar_path archive =
     thenP (wait_for_logs_complete wait e cid OC_DOWNLOAD_LOGS_TIMEOUT OC_DOWNLOAD_LOGS_INTERVAL False)
     (thenP (act e ''download_installation_logs'' [PStr cluster_tar_path])
     (bindP (ask_bool e ''os.path.exists'' [PStr cluster_tar_path]) (\<lambda>there.
       thenP (assertP there) (bindP (sum_prog archive) (\<lambda>a. sum_prog (verify_oc_logs_uploaded a))))))"

section \<open>Removing secrets\<close>

definition SENSITIVE_PATHS :: "string list" where
  "SENSITIVE_PATHS =
     [''/opt/openshift/openshift/99_openshift-cluster-api_master-user-data-secret.yaml'',
      ''/opt/openshift/openshift/99_openshift-cluster-api_worker-user-data-secret.yaml'',
      ''/opt/openshift/openshift/99_openshift-cluster-api_arbiter-user-data-secret.yaml'',
      ''/opt/openshift/openshift/99_kubeadmin-password-secret.yaml'',
      ''/opt/openshift/manifests/machine-config-server-ca-secret.yaml'',
      ''/opt/openshift/manifests/machine-config-server-tls-secret.yaml'',
      ''/opt/openshift/manifests/openshift-config-secret-pull-secret.yaml'',
      ''/opt/openshift/auth/kubeconfig'',
      ''/opt/openshift/auth/kubeconfig-kubelet'',
      ''/opt/openshift/auth/kubeconfig-loopback'',
      ''/opt/openshift/manifests/kube-system-configmap-root-ca.yaml'',
      ''/opt/openshift/manifests/machine-config-server-ca-configmap.yaml'']"

definition sensitive_path :: "string \<Rightarrow> bool" where
  "sensitive_path path \<longleftrightarrow> endswith path ''.crt'' \<or> endswith path ''.key'' \<or> path \<in> set SENSITIVE_PATHS"

text \<open>\<open>k in v\<close> and \<open>v[k]\<close> for a string \<open>k\<close>.\<close>

definition py_contains :: "pyval \<Rightarrow> string \<Rightarrow> exn + bool" where
  "py_contains v k = (case v of
     PDict d \<Rightarrow> Inr (dict_get d k \<noteq> None) | PList xs \<Rightarrow> Inr (PStr k \<in> set xs) | PStr s \<Rightarrow> Inr (occurs_in k s)
   | _ \<Rightarrow> Inl TypeError)"

text \<open>One entry: whether its source was replaced, and what it is then.\<close>

definition censor_entry :: "pyval \<Rightarrow> exn + (bool \<times> pyval)" where
  "censor_entry entry =
     sum_bind (py_get entry ''path'' (PStr '''')) (\<lambda>path.
       case path of
         PStr p \<Rightarrow>
           if \<not> sensitive_path p then Inr (False, entry)
           else sum_bind (py_contains entry ''contents'') (\<lambda>has_contents.
             if \<not> has_contents then Inr (False, entry)
             else sum_bind (py_field entry ''contents'') (\<lambda>contents.
               sum_bind (py_contains contents ''source'') (\<lambda>has_source.
                 if \<not> has_source then Inr (False, entry)
                 else sum_bind (py_field contents ''source'') (\<lambda>source.
                   if source = PStr ''censored'' then Inr (False, entry)
                   else case (entry, contents) of
                     (PDict d, PDict c) \<Rightarrow>
                       Inr (True, PDict (dict_set ''contents'' (PDict (dict_set ''source'' (PStr ''censored'') c)) d))
                   | _ \<Rightarrow> Inl TypeError))))
       | _ \<Rightarrow> Inl AttributeError)"

text \<open>\<open>data.get("storage", {}).get("files", [])\<close>, and putting the changed entries back in place.\<close>

definition storage_files :: "pyval \<Rightarrow> exn + pyval" where
  "storage_files data = sum_bind (py_get data ''storage'' (PDict [])) (\<lambda>storage. py_get storage ''files'' (PList []))"

definition put_storage_files :: "pyval \<Rightarrow> pyval list \<Rightarrow> pyval" where
  "put_storage_files data entries =
     (case data of
        PDict d \<Rightarrow>
          (case dict_get d ''storage'' of
             Some (PDict st) \<Rightarrow> PDict (dict_set ''storage'' (PDict (dict_set ''files'' (PList entries) st)) d)
           | _ \<Rightarrow> data)
      | _ \<Rightarrow> data)"

text \<open>Only a list of entries is modelled: another iterable has no entries with a \<open>get\<close>.\<close>

definition censor_storage_files :: "pyval \<Rightarrow> exn + (bool \<times> pyval)" where
  "censor_storage_files data =
     sum_bind (storage_files data) (\<lambda>files.
       case files of
         PList entries \<Rightarrow>
           sum_bind (sum_map censor_entry entries) (\<lambda>rs.
             if list_ex fst rs then Inr (True, put_storage_files data (map snd rs)) else Inr (False, data))
       | PStr [] \<Rightarrow> Inr (False, data)
       | PDict [] \<Rightarrow> Inr (False, data)
       | PStr _ \<Rightarrow> Inl AttributeError
       | PDict _ \<Rightarrow> Inl AttributeError
       | _ \<Rightarrow> Inl TypeError)"

definition censored_authority :: pyval where
  "censored_authority = PDict [(''source'', PStr ''censored''), (''verification'', PDict [])]"

definition put_authorities :: "pyval \<Rightarrow> pyval" where
  "put_authorities data =
     (case data of
        PDict d \<Rightarrow>
          (case dict_get d ''ignition'' of
             Some (PDict i) \<Rightarrow>
               (case dict_get i ''security'' of
                  Some (PDict s) \<Rightarrow>
                    (case dict_get s ''tls'' of
                       Some (PDict t) \<Rightarrow>
                         PDict (dict_set ''ignition'' (PDict (dict_set ''security'' (PDict (dict_set ''tls''
                           (PDict (dict_set ''certificateAuthorities'' (PList [censored_authority]) t)) s)) i)) d)
                     | _ \<Rightarrow> data)
                | _ \<Rightarrow> data)
           | _ \<Rightarrow> data)
      | _ \<Rightarrow> data)"

definition authorities :: "pyval \<Rightarrow> exn + pyval" where
  "authorities data =
     sum_bind (py_field data ''ignition'') (\<lambda>i. sum_bind (py_field i ''security'') (\<lambda>s.
       sum_bind (py_field s ''tls'') (\<lambda>t. py_field t ''certificateAuthorities'')))"

definition censor_tls_certificate_authorities :: "pyval \<Rightarrow> exn + (bool \<times> pyval)" where
  "censor_tls_certificate_authorities data =
     (case authorities data of
        Inl (KeyError _) \<Rightarrow> Inr (False, data)
      | Inl x \<Rightarrow> Inl x
      | Inr (PList (ca # cas)) \<Rightarrow>
          sum_bind (if cas = [] then sum_bind (py_get ca ''source'' PNone) (\<lambda>v. Inr (v = PStr ''censored''))
                    else Inr False) (\<lambda>done. if done then Inr (False, data) else Inr (True, put_authorities data))
      | Inr _ \<Rightarrow> Inr (False, data))"

text \<open>\<open>json.load\<close> and \<open>json.dump\<close> are calls; a file that cannot be read or parsed is left alone.\<close>

definition unreadable :: "exn \<Rightarrow> bool" where
  "unreadable x \<longleftrightarrow> x \<in> {FileNotFoundError, OSError 13, JSONDecodeError}"

definition censor_sensitive_sources :: "env \<Rightarrow> string \<Rightarrow> string \<Rightarrow> ((call, 'z) world_scheme, unit) prog" where
  "censor_sensitive_sources e folder filename =
     (let json_path = folder @ ''/'' @ filename
      in bindP (try_except (bindP (ask_call e (Controller ''json.load'' [PStr json_path])) (\<lambda>d.
              case d of PDict _ \<Rightarrow> ret (Some d) | _ \<Rightarrow> raise AttributeError))
            (\<lambda>x. if unreadable x then ret None else raise x)) (\<lambda>loaded.
          case loaded of
            None \<Rightarrow> ret ()
          | Some data \<Rightarrow>
              bindP (sum_prog (if filename = ''bootstrap.ign'' then censor_storage_files data
                               else censor_tls_certificate_authorities data)) (\<lambda>(changes_made, new).
                whenP changes_made (act e ''json.dump'' [PStr json_path, new]))))"

section \<open>Downloading\<close>

definition MAX_RETRIES :: nat where "MAX_RETRIES = 3"
definition MUST_GATHER_MAX_RETRIES :: nat where "MUST_GATHER_MAX_RETRIES = 15"

text \<open>What the download reads of a cluster; \<open>dl_hosts\<close> is \<open>None\<close> when the dictionary has no hosts yet.\<close>

record log_cluster =
  dl_id :: string
  dl_name :: string
  dl_status :: string
  dl_status_info :: string
  dl_base_dns_domain :: string
  dl_deleted :: bool
  dl_hosts :: "host list option"

definition should_download_logs :: "log_cluster \<Rightarrow> bool" where
  "should_download_logs c \<longleftrightarrow> dl_status c = cs_value CS_Error \<or> occurs_in ''degraded'' (dl_status_info c)"

definition min_number_of_log_files :: "host list \<Rightarrow> bool \<Rightarrow> nat" where
  "min_number_of_log_files hosts is_controller_expected =
     (if is_controller_expected then length hosts + 1 else length hosts)"

definition api_error :: "exn \<Rightarrow> bool" where "api_error x \<longleftrightarrow> x = ApiException"

definition api_error_or_interrupt :: "exn \<Rightarrow> bool" where
  "api_error_or_interrupt x \<longleftrightarrow> x \<in> {ApiException, KeyboardInterrupt}"

definition is_update_needed :: "env \<Rightarrow> string \<Rightarrow> bool \<Rightarrow> log_cluster \<Rightarrow> ((call, 'z) world_scheme, bool) prog" where
  "is_update_needed e output_folder update_on_events_update c =
     bindP (ask_bool e ''os.path.isdir'' [PStr output_folder]) (\<lambda>there.
       if \<not> there then ret True
       else bindP (ask_call e (Controller ''json.load'' [PStr (output_folder @ ''/metadata.json'')])) (\<lambda>md.
         bindP (sum_prog (sum_bind (py_get md ''cluster'' (PDict [])) (\<lambda>m. py_get m ''logs_info'' (PStr []))))
           (\<lambda>logs_info.
             if logs_info \<notin> {PStr ''timeout'', PStr ''completed'', PStr []} then ret True
             else if \<not> update_on_events_update then ret False
             else
               let path = output_folder @ ''/cluster_'' @ dl_id c @ ''_events.json''
               in thenP (suppressing api_error (act e ''download_cluster_events'' [PStr (dl_id c), PStr ''latest'']))
                    (bindP (ask_bool e ''filecmp.cmp'' [PStr path, PStr ''latest'']) (\<lambda>equal.
                       if equal then ret False else thenP (act e ''os.remove'' [PStr path]) (ret True))))))"

text \<open>
  The loop \<open>for i in range(max_retries)\<close>: an old archive is removed, a new one downloaded and checked;
  \<open>archive\<close> gives what the check reads from the history. A pause follows a failed check only while
  \<open>i < MAX_RETRIES - 1\<close>.
\<close>

definition download_attempt ::
  "env \<Rightarrow> log_cluster \<Rightarrow> string \<Rightarrow> (call list \<Rightarrow> exn + unit) \<Rightarrow> int \<Rightarrow> nat \<Rightarrow> ((call, 'z) world_scheme, bool) prog" where
  "download_attempt e c path archive retry_interval i =
     thenP (suppressing (\<lambda>x. x = FileNotFoundError) (act e ''os.remove'' [PStr path]))
     (thenP (act e ''download_cluster_logs'' [PStr (dl_id c), PStr path])
       (try_except (bindP (reads (\<lambda>s. archive (hist s))) (\<lambda>r. thenP (sum_prog r) (ret True)))
          (\<lambda>x. if x = AssertionError
             then thenP (whenP (i < MAX_RETRIES - 1) (sleepP retry_interval)) (ret False)
             else raise x)))"

fun download_attempts ::
  "env \<Rightarrow> log_cluster \<Rightarrow> string \<Rightarrow> (call list \<Rightarrow> exn + unit) \<Rightarrow> int \<Rightarrow> nat list \<Rightarrow> ((call, 'z) world_scheme, unit) prog" where
  "download_attempts e c path archive retry_interval [] = ret ()"
| "download_attempts e c path archive retry_interval (i # is) =
     bindP (download_attempt e c path archive retry_interval i) (\<lambda>done.
       if done then ret () else download_attempts e c path archive retry_interval is)"

text \<open>\<open>uploaded h\<close> is the archive the last download before \<open>h\<close> left.\<close>

definition download_and_verify_logs ::
  "env \<Rightarrow> (string \<Rightarrow> string list) \<Rightarrow> (string \<Rightarrow> string \<Rightarrow> string) \<Rightarrow> (call list \<Rightarrow> cluster_tar)
     \<Rightarrow> log_cluster \<Rightarrow> host list \<Rightarrow> string \<Rightarrow> int \<Rightarrow> ((call, 'z) world_scheme, unit) prog" where
  "download_and_verify_logs e resolve below uploaded c hosts output_folder retry_interval =
     (let configuring = are_host_progress_in_stage hosts [stage_value Configuring] 2;
          joined = are_host_progress_in_stage hosts [stage_value Joined, stage_value DoneStage] 2;
          installed = dl_status c = cs_value CS_Installed
      in download_attempts e c (output_folder @ ''/cluster_'' @ dl_id c @ ''_logs.tar'')
           (\<lambda>h. verify_logs_uploaded resolve below ''tempdir'' (uploaded h)
              (min_number_of_log_files hosts (installed \<or> configuring)) installed False joined False)
           retry_interval [0..<(if joined then MUST_GATHER_MAX_RETRIES else MAX_RETRIES)])"

definition fetch_hosts :: "env \<Rightarrow> log_cluster \<Rightarrow> ((call, 'z) world_scheme, host list option) prog" where
  "fetch_hosts e c =
     (if dl_hosts c = None \<or> dl_hosts c = Some [] then
        try_except (bindP (get_cluster_hosts e (dl_id c) True) (\<lambda>hs. ret (Some hs)))
          (\<lambda>x. if x = ApiException \<and> dl_deleted c then ret (dl_hosts c) else raise x)
      else ret (dl_hosts c))"

definition hosts_of :: "host list option \<Rightarrow> exn + host list" where
  "hosts_of hosts = (case hosts of None \<Rightarrow> Inl (KeyError ''hosts'') | Some hs \<Rightarrow> Inr hs)"

definition download_manifests :: "env \<Rightarrow> string \<Rightarrow> string \<Rightarrow> ((call, 'z) world_scheme, unit) prog" where
  "download_manifests e cid output_folder =
     (let manifests_path = output_folder @ ''/cluster_files/manifests''
      in thenP (recreate_folder e manifests_path True True)
           (act e ''download_manifests'' [PStr cid, PStr manifests_path]))"

text \<open>The event files that were downloaded, and the page made of them.\<close>

definition gather_event_file ::
  "env \<Rightarrow> string \<Rightarrow> string \<Rightarrow> string \<Rightarrow> pyval list \<Rightarrow> ((call, 'z) world_scheme, pyval list) prog" where
  "gather_event_file e what i path event_files =
     try_except (thenP (act e what [PStr i, PStr path]) (ret (event_files @ [PStr path])))
       (\<lambda>x. if api_error_or_interrupt x then ret event_files else raise x)"

fun gather_infraenv_events ::
  "env \<Rightarrow> string \<Rightarrow> infra_env_info list \<Rightarrow> pyval list \<Rightarrow> ((call, 'z) world_scheme, pyval list) prog" where
  "gather_infraenv_events e output_folder [] event_files = ret event_files"
| "gather_infraenv_events e output_folder (ie # ies) event_files =
     bindP (gather_event_file e ''download_infraenv_events'' (ie_id ie)
              (output_folder @ ''/infraenv_'' @ ie_id ie @ ''_events.json'') event_files)
       (gather_infraenv_events e output_folder ies)"

definition gather_event_files ::
  "env \<Rightarrow> log_cluster \<Rightarrow> infra_env_info list \<Rightarrow> string \<Rightarrow> ((call, 'z) world_scheme, unit) prog" where
  "gather_event_files e c infra_envs output_folder =
     bindP (gather_infraenv_events e output_folder infra_envs []) (\<lambda>event_files.
       bindP (gather_event_file e ''download_cluster_events'' (dl_id c)
                (output_folder @ ''/cluster_'' @ dl_id c @ ''_events.json'') event_files) (\<lambda>event_files.
         act e ''merge_events'' [PList event_files, PStr (output_folder @ ''/events.html'')]))"

definition download_ignition :: "env \<Rightarrow> log_cluster \<Rightarrow> string \<Rightarrow> string \<Rightarrow> ((call, 'z) world_scheme, unit) prog" where
  "download_ignition e c output_folder cluster_file =
     (let folder = output_folder @ ''/cluster_files''
      in suppressing api_error_or_interrupt
           (thenP (act e ''download_and_save_file'' [PStr (dl_id c), PStr cluster_file, PStr (folder @ ''/'' @ cluster_file)])
             (censor_sensitive_sources e folder cluster_file)))"

definition download_host_ignition :: "env \<Rightarrow> string \<Rightarrow> host \<Rightarrow> ((call, 'z) world_scheme, unit) prog" where
  "download_host_ignition e output_folder h =
     (let folder = output_folder @ ''/cluster_files''
      in suppressing api_error_or_interrupt
           (thenP (act e ''download_host_ignition'' [PStr (h_infra_env_id h), PStr (h_id h), PStr folder])
             (censor_sensitive_sources e folder (''host_'' @ h_id h @ ''.ign''))))"

text \<open>The pull secret of the installation configuration is replaced; \<open>in\<close> on a dictionary.\<close>

definition censor_install_config :: "pyval \<Rightarrow> exn + pyval" where
  "censor_install_config content =
     (case content of
        PDict d \<Rightarrow> Inr (if dict_get d ''pullSecret'' \<noteq> None
                        then PDict (dict_set ''pullSecret'' (PStr ''censored'') d) else content)
      | PList xs \<Rightarrow> if PStr ''pullSecret'' \<in> set xs then Inl TypeError else Inr content
      | PStr s \<Rightarrow> if occurs_in ''pullSecret'' s then Inl TypeError else Inr content
      | _ \<Rightarrow> Inl TypeError)"

definition download_install_config :: "env \<Rightarrow> log_cluster \<Rightarrow> string \<Rightarrow> ((call, 'z) world_scheme, unit) prog" where
  "download_install_config e c output_folder =
     (let path = output_folder @ ''/cluster_files/install-config.yaml''
      in suppressing api_error_or_interrupt
           (thenP (act e ''download_and_save_file'' [PStr (dl_id c), PStr ''install-config.yaml'', PStr path])
             (bindP (ask_call e (Controller ''json.load'' [PStr path])) (\<lambda>content.
                bindP (sum_prog (censor_install_config content)) (\<lambda>new.
                  act e ''json.dump'' [PStr path, new])))))"

definition run_oc_describe_cluster_operators :: "env \<Rightarrow> string \<Rightarrow> string \<Rightarrow> ((call, 'z) world_scheme, unit) prog" where
  "run_oc_describe_cluster_operators e kubeconfig dest_dir =
     suppressing (\<lambda>x. x = RuntimeError)
       (thenP (run_command e (''oc --insecure-skip-tls-verify --kubeconfig='' @ kubeconfig @ '' describe co > ''
          @ dest_dir @ ''/cluster_operators.yaml'') True) (ret ()))"

definition download_must_gather :: "env \<Rightarrow> string \<Rightarrow> string \<Rightarrow> bool \<Rightarrow> ((call, 'z) world_scheme, unit) prog" where
  "download_must_gather e kubeconfig dest_dir describe_cluster_operators =
     (let must_gather_dir = dest_dir @ ''/must-gather-dir''
      in thenP (act e ''os.mkdir'' [PStr must_gather_dir])
         (thenP (suppressing (\<lambda>x. x = RuntimeError)
            (thenP (run_command e (''oc --insecure-skip-tls-verify --kubeconfig='' @ kubeconfig
               @ '' adm must-gather --dest-dir '' @ must_gather_dir @ '' > '' @ must_gather_dir @ ''/must-gather.log'')
               True) (ret ())))
         (thenP (whenP describe_cluster_operators (run_oc_describe_cluster_operators e kubeconfig dest_dir))
         (thenP (act e ''tarfile.add'' [PStr (dest_dir @ ''/must-gather.tar.gz''), PStr must_gather_dir])
           (act e ''shutil.rmtree'' [PStr must_gather_dir])))))"

text \<open>\<open>api_vip\<close> is \<open>client.get_api_vip(cluster, cluster["id"])\<close>.\<close>

definition gather_from_cluster ::
  "env \<Rightarrow> ((call, 'z) world_scheme, string option) prog \<Rightarrow> log_cluster \<Rightarrow> string \<Rightarrow> ((call, 'z) world_scheme, unit) prog" where
  "gather_from_cluster e api_vip c output_folder =
     (let kubeconfig_path = output_folder @ ''/kubeconfig-noingress''
      in suppressing api_error
           (thenP (api_download_kubeconfig_no_ingress e (dl_id c) kubeconfig_path)
             (bindP api_vip (\<lambda>vip.
                thenP (config_etc_hosts e (dl_name c) (dl_base_dns_domain c) vip None)
                  (download_must_gather e kubeconfig_path output_folder True)))))"

definition download_logs ::
  "env \<Rightarrow> (string \<Rightarrow> string list) \<Rightarrow> (string \<Rightarrow> string \<Rightarrow> string) \<Rightarrow> (call list \<Rightarrow> cluster_tar)
     \<Rightarrow> ((call, 'z) world_scheme, string option) prog \<Rightarrow> log_cluster \<Rightarrow> string \<Rightarrow> bool \<Rightarrow> bool \<Rightarrow> int
     \<Rightarrow> ((call, 'z) world_scheme, unit) prog" where
  "download_logs e resolve below uploaded api_vip c output_folder must_gather update_by_events retry_interval =
     bindP (fetch_hosts e c) (\<lambda>hosts.
       bindP (is_update_needed e output_folder update_by_events c) (\<lambda>needed.
         if \<not> needed then ret ()
         else
           thenP (recreate_folder e output_folder True True)
           (thenP (recreate_folder e (output_folder @ ''/cluster_files'') True True)
             (try_finally
               (bindP (get_infra_envs_by_cluster_id e (dl_id c)) (\<lambda>infra_envs.
                  thenP (act e ''write_metadata_file'' [PStr (output_folder @ ''/metadata.json'')])
                  (thenP (for_each (download_ignition e c output_folder) [''bootstrap.ign'', ''master.ign'', ''worker.ign''])
                  (thenP (download_install_config e c output_folder)
                  (thenP (suppressing api_error_or_interrupt (download_manifests e (dl_id c) output_folder))
                  (bindP (sum_prog (hosts_of hosts)) (\<lambda>hs.
                     thenP (for_each (download_host_ignition e output_folder) hs)
                     (thenP (gather_event_files e c infra_envs output_folder)
                     (thenP (suppressing api_error_or_interrupt
                               (download_and_verify_logs e resolve below uploaded c hs output_folder retry_interval))
                       (whenP must_gather (gather_from_cluster e api_vip c output_folder)))))))))))
               (bindP (run_command e (''chmod -R ugo+rx '' @ [CHR 0x27] @ output_folder @ [CHR 0x27]) True)
                 (\<lambda>_. ret ()))))))"

definition get_logs_output_folder :: "string \<Rightarrow> string \<Rightarrow> log_cluster \<Rightarrow> string" where
  "get_logs_output_folder dest started_at c = dest @ ''/'' @ started_at @ ''_'' @ dl_id c"

definition get_ui_url_from_api_url :: "string \<Rightarrow> exn + string" where
  "get_ui_url_from_api_url api_url =
     (case find (\<lambda>(k, v). occurs_in api_url k)
         [(''https://api.openshift.com/'', ''https://console.redhat.com/openshift/assisted-installer''),
          (''https://api.stage.openshift.com/'', ''https://console.dev.redhat.com/openshift'')] of
        Some (k, v) \<Rightarrow> Inr v | None \<Rightarrow> Inl (KeyError api_url))"

definition fetch_url_and_write_to_file ::
  "env \<Rightarrow> string \<Rightarrow> string \<Rightarrow> (string, string) dict \<Rightarrow> string \<Rightarrow> ((call, 'z) world_scheme, unit) prog" where
  "fetch_url_and_write_to_file e url_key file_name debug_info output_folder =
     (case dict_get debug_info url_key of
        None \<Rightarrow> ret ()
      | Some logs_url \<Rightarrow>
          bindP (ask_call e (Controller ''fetch_url'' [PStr logs_url])) (\<lambda>content.
            act e ''write'' [PStr (output_folder @ ''/'' @ file_name), content]))"

text \<open>\<open>TimeoutError\<close>, \<open>SSHException\<close> and \<open>SCPException\<close> are the external exceptions 1 to 3.\<close>

definition gather_sosreport_from_node :: "env \<Rightarrow> string \<Rightarrow> string \<Rightarrow> ((call, 'z) world_scheme, unit) prog" where
  "gather_sosreport_from_node e node destination_dir =
     suppressing (\<lambda>x. x \<in> {RuntimeError, External 1, External 2, External 3})
       (thenP (do_call e (NodeCommand node ''upload_file'' [PStr ''/tmp/man_sosreport.sh'']))
       (thenP (do_call e (NodeCommand node ''run_command'' [PStr ''chmod a+x /tmp/man_sosreport.sh'']))
       (thenP (do_call e (NodeCommand node ''run_command'' [PStr ''sudo /tmp/man_sosreport.sh'']))
         (do_call e (NodeCommand node ''download_file''
            [PStr ''/var/tmp/sosreport.tar.xz'', PStr (destination_dir @ ''/sosreport-'' @ node @ ''.tar.xz'')])))))"

section \<open>Properties\<close>

subsection \<open>Logs that are complete\<close>

lemma are_logs_in_status_True:
  assumes "are_logs_in_status e cid statuses only_hosts s = (Inr True, t)"
  shows "\<exists>c c'. e_get_cluster e (hist s) cid = Inr c
    \<and> e_get_cluster e (hist s @ [V2GetCluster cid False]) cid = Inr c'
    \<and> hist t = hist s @ [V2GetCluster cid False, V2GetCluster cid False]
    \<and> list_all (\<lambda>h. h_logs_info h \<in> Some ` set statuses) (cl_hosts c')
    \<and> (only_hosts \<or> cl_logs_info c \<in> Some ` set statuses)"
  using assms
  by (auto simp: are_logs_in_status_def try_except_def bindP_def cluster_get_app get_cluster_hosts_def prog_simps
      split: sum.splits)

lemma keeps_logs_check:
  "keeps only_queries (bindP (are_logs_in_status e cid statuses only_hosts) (\<lambda>b. ret (truthy b)))"
  unfolding are_logs_in_status_def by (auto intro!: queries_intros)

lemma wait_logs_seen:
  assumes "waits_by wait"
    and "wait (bindP (are_logs_in_status e cid statuses only_hosts) (\<lambda>b. ret (truthy b))) timeout interval ex s
      = (Inr (), t)"
  shows "only_queries s t \<and> (\<exists>h c c'. prefix (hist s) h
    \<and> hist t = h @ [V2GetCluster cid False, V2GetCluster cid False]
    \<and> e_get_cluster e h cid = Inr c \<and> e_get_cluster e (h @ [V2GetCluster cid False]) cid = Inr c'
    \<and> list_all (\<lambda>h. h_logs_info h \<in> Some ` set statuses) (cl_hosts c')
    \<and> (only_hosts \<or> cl_logs_info c \<in> Some ` set statuses))"
proof -
  obtain s' where s': "only_queries s s'"
    "bindP (are_logs_in_status e cid statuses only_hosts) (\<lambda>b. ret (truthy b)) s' = (Inr (Some ()), t)"
    using queries.wait_Inr_rel [OF assms(1) keeps_logs_check assms(2)] by blast
  then have "are_logs_in_status e cid statuses only_hosts s' = (Inr True, t)"
    by (auto simp: bindP_eq_Inr_iff prog_simps)
  note seen = are_logs_in_status_True [OF this]
  have "only_queries s t"
    by (rule keepsD [OF queries.keeps_wait [OF assms(1) keeps_logs_check] assms(2)])
  then show ?thesis using only_queries_prefix [OF s'(1)] seen by blast
qed

text \<open>A wait for the logs of a cluster that returns normally made two queries as its last calls: the first showed
  the logs of the cluster completed or timed out, unless only the hosts matter, the second showed that for
  the logs of every host. It made nothing but queries.\<close>

lemma logs_complete_seen:
  assumes "waits_by wait"
    and "wait_for_logs_complete wait e cid timeout interval only_hosts s = (Inr (), t)"
  shows "only_queries s t \<and> (\<exists>h c c'. prefix (hist s) h
    \<and> hist t = h @ [V2GetCluster cid False, V2GetCluster cid False]
    \<and> e_get_cluster e h cid = Inr c \<and> e_get_cluster e (h @ [V2GetCluster cid False]) cid = Inr c'
    \<and> list_all (\<lambda>h. h_logs_info h \<in> {Some ''completed'', Some ''timeout''}) (cl_hosts c')
    \<and> (only_hosts \<or> cl_logs_info c \<in> {Some ''completed'', Some ''timeout''}))"
proof -
  have "wait (bindP (are_logs_in_status e cid [''completed'', ''timeout''] only_hosts) (\<lambda>b. ret (truthy b)))
      timeout interval no_exceptions s = (Inr (), t)"
    using assms(2) unfolding wait_for_logs_complete_def by (subst (asm) try_except_reraise) (simp_all add: raise_def)
  then have "only_queries s t \<and> (\<exists>h c c'. prefix (hist s) h
    \<and> hist t = h @ [V2GetCluster cid False, V2GetCluster cid False]
    \<and> e_get_cluster e h cid = Inr c \<and> e_get_cluster e (h @ [V2GetCluster cid False]) cid = Inr c'
    \<and> list_all (\<lambda>h. h_logs_info h \<in> Some ` set [''completed'', ''timeout'']) (cl_hosts c')
    \<and> (only_hosts \<or> cl_logs_info c \<in> Some ` set [''completed'', ''timeout'']))"
    by (rule wait_logs_seen [OF assms(1)])
  moreover have "Some ` set [''completed'', ''timeout''] = {Some ''completed'', Some ''timeout''}" by simp
  ultimately show ?thesis by (simp only:)
qed

lemma logs_complete_seen_witness:
  "\<exists>t. wait_for_logs_complete (poll_upto 0)
      (still_env ((sample_cluster ''installed'' [(sample_host ''a'' ''installed'' ''master'')\<lparr>h_logs_info := Some ''timeout''\<rparr>])
         \<lparr>cl_logs_info := Some ''completed''\<rparr>)) ''c'' 60 5 False fresh_world = (Inr (), t)
    \<and> only_queries fresh_world t"
proof -
  let ?e = "still_env ((sample_cluster ''installed'' [(sample_host ''a'' ''installed'' ''master'')\<lparr>h_logs_info := Some ''timeout''\<rparr>])
         \<lparr>cl_logs_info := Some ''completed''\<rparr>)"
  have "\<exists>t. wait_for_logs_complete (poll_upto 0) ?e ''c'' 60 5 False fresh_world = (Inr (), t)"
    by (simp add: wait_for_logs_complete_def try_except_def poll_upto.simps are_logs_in_status_def bindP_def
        cluster_get_app get_cluster_hosts_def prog_simps concrete_env)
  then obtain t where t: "wait_for_logs_complete (poll_upto 0) ?e ''c'' 60 5 False fresh_world = (Inr (), t)" ..
  from logs_complete_seen [OF waits_by_poll_upto t] t show ?thesis by blast
qed

subsection \<open>Uploaded files\<close>

lemma sum_then_Inr_iff: "sum_then a b = Inr y \<longleftrightarrow> (\<exists>x. a = Inr x) \<and> b = Inr y"
  by (cases a) (simp_all add: sum_bind_def)

lemma claim_Inr_iff [simp]: "claim b = Inr u \<longleftrightarrow> b"
  by (simp add: claim_def)

lemma set_remove1_cases:
  "(\<forall>f\<in>set xs. \<forall>g\<in>set (remove1 f xs). P f g) \<longleftrightarrow> sorted_wrt (\<lambda>f g. P f g \<and> P g f) xs"
  if irrefl: "\<And>f. \<not> P f f"
proof (induction xs)
  case Nil
  then show ?case by simp
next
  case (Cons x xs)
  have "(\<forall>f\<in>set (x # xs). \<forall>g\<in>set (remove1 f (x # xs)). P f g) \<longleftrightarrow>
      (\<forall>g\<in>set xs. P x g) \<and> (\<forall>f\<in>set xs. \<forall>g\<in>set (remove1 f (x # xs)). P f g)"
    by simp
  also have "\<dots> \<longleftrightarrow> (\<forall>g\<in>set xs. P x g \<and> P g x) \<and> (\<forall>f\<in>set xs. \<forall>g\<in>set (remove1 f xs). P f g)"
  proof (cases "x \<in> set xs")
    case True
    then show ?thesis using irrefl by auto
  next
    case False
    then have "remove1 f (x # xs) = x # remove1 f xs" if "f \<in> set xs" for f using that by auto
    then show ?thesis by auto
  qed
  finally show ?case using Cons.IH by simp
qed

text \<open>The check of the uploaded files succeeds exactly if no two files have the same checksum, no file is larger
  than a million bytes, and no file name occurs in the name of another file.\<close>

lemma uploaded_files_check:
  "verify_duplicate_and_size_logs_file files = Inr () \<longleftrightarrow>
     distinct (map lf_md5sum files) \<and> list_all (\<lambda>f. lf_size f \<le> 1000000) files
     \<and> sorted_wrt (\<lambda>f g. \<not> occurs_in f g \<and> \<not> occurs_in g f) (map lf_name files)"
proof -
  have "list_all (\<lambda>f. list_all (\<lambda>g. \<not> occurs_in f g) (remove1 f names)) names \<longleftrightarrow>
      sorted_wrt (\<lambda>f g. \<not> occurs_in f g \<and> \<not> occurs_in g f) names" for names
    unfolding list_all_iff by (rule set_remove1_cases) simp
  then show ?thesis
    by (auto simp: verify_duplicate_and_size_logs_file_def Let_def sum_then_Inr_iff MAX_LOG_SIZE_BYTES_def
        list_all_iff list_ex_iff not_less)
qed

lemma verify_duplicate_and_size_Inr:
  "verify_duplicate_and_size_logs_file files = Inr u \<Longrightarrow>
     distinct (map lf_md5sum files) \<and> list_all (\<lambda>f. lf_size f \<le> MAX_LOG_SIZE_BYTES) files"
  by (auto simp: verify_duplicate_and_size_logs_file_def Let_def sum_then_Inr_iff list_all_iff list_ex_iff not_less)

lemma sum_map_Inr_all: "sum_map f xs = Inr ys \<Longrightarrow> list_all2 (\<lambda>x y. f x = Inr y) xs ys"
  by (induction xs arbitrary: ys) (auto split: sum.splits)

lemma sum_map_unit_all: "sum_map f xs = Inr us \<Longrightarrow> list_all (\<lambda>x. f x = Inr ()) xs"
  by (induction xs arbitrary: us) (auto split: sum.splits)

text \<open>An archive of a node is complete: it could not be read as an archive, or it holds exactly the logs that are
  expected of the node, none of them empty.\<close>

definition node_logs_complete :: "cluster_tar \<Rightarrow> string \<Rightarrow> bool" where
  "node_logs_complete t file \<longleftrightarrow>
     (case ct_node t file of
        Inl x \<Rightarrow> x = tar_ReadError
      | Inr a \<Rightarrow> set (map fst (na_files a)) = set (expected_log_files file)
          \<and> list_all (\<lambda>(_, size). 17 < size) (na_files a))"

definition is_node_file :: "bool \<Rightarrow> bool \<Rightarrow> string \<Rightarrow> bool" where
  "is_node_file check_oc verify_bootstrap_errors file \<longleftrightarrow>
     (occurs_in ''master'' file \<or> occurs_in ''worker'' file)
     \<and> \<not> (verify_bootstrap_errors \<and> occurs_in ''bootstrap'' file) \<and> \<not> (check_oc \<and> occurs_in ''controller'' file)"

lemma verify_node_file:
  assumes "verify_tar_file t ok cp oc bs file = Inr ()" and "is_node_file oc bs file"
  shows "node_logs_complete t file"
proof (cases "ct_node t file")
  case (Inl x)
  then show ?thesis
    using assms by (auto simp: verify_tar_file_def is_node_file_def node_logs_complete_def sum_bind_def split: if_splits)
next
  case (Inr a)
  have "verify_node_logs_uploaded file a \<noteq> Inl tar_ReadError"
    by (simp add: verify_node_logs_uploaded_def claim_def sum_bind_def tar_ReadError_def split: sum.split)
  then have "verify_node_logs_uploaded file a = Inr ()"
    using assms Inr
    by (auto simp: verify_tar_file_def is_node_file_def sum_bind_def split: if_splits sum.splits)
  then show ?thesis
    using Inr by (auto simp: node_logs_complete_def verify_node_logs_uploaded_def sum_then_Inr_iff MIN_LOG_SIZE_BYTES_def)
qed

text \<open>Uploaded logs that pass the check have at least the expected number of members, none twice and none that leads
  outside the folder they are extracted to; the extracted files differ and are small enough; and every
  archive of a master or worker is complete or cannot be read as an archive.\<close>

lemma verified_logs:
  assumes "verify_logs_uploaded resolve below tempdir t n ok cp oc bs = Inr ()"
  shows "n \<le> length (ct_names t) \<and> distinct (ct_names t)
    \<and> list_all (\<lambda>m. prefix (resolve tempdir) (resolve (below tempdir m))) (ct_names t)
    \<and> distinct (map lf_md5sum (ct_files t)) \<and> list_all (\<lambda>f. lf_size f \<le> 1000000) (ct_files t)
    \<and> list_all (node_logs_complete t) (filter (is_node_file oc bs) (tar_files t))"
proof -
  obtain us where us: "sum_map (verify_tar_file t ok cp oc bs) (tar_files t) = Inr us"
    and dup: "verify_duplicate_and_size_logs_file (ct_files t) = Inr ()"
    and rest: "safe_open_tar resolve below (ct_names t) tempdir = Inr ()" "n \<le> length (ct_names t)"
      "distinct (ct_names t)"
    using assms by (auto simp: verify_logs_uploaded_def sum_then_Inr_iff)
  have "list_all (node_logs_complete t) (filter (is_node_file oc bs) (tar_files t))"
    using sum_map_unit_all [OF us] by (auto simp: list_all_iff intro: verify_node_file)
  then show ?thesis
    using rest verify_duplicate_and_size_Inr [OF dup]
    by (auto simp: safe_open_tar_def MAX_LOG_SIZE_BYTES_def split: if_splits)
qed

definition sample_tar :: cluster_tar where
  "sample_tar = \<lparr>ct_exists = True, ct_names = [''master-0''],
     ct_files = [\<lparr>lf_name = ''master-0'', lf_md5sum = ''1'', lf_size = 100\<rparr>], ct_is_tar = (\<lambda>_. True),
     ct_node = (\<lambda>_. Inr \<lparr>na_names = [''a.tar.gz''], na_directories = [''d''],
        na_files = [(''agent.logs'', 20), (''installer.logs'', 20), (''mount.logs'', 20), (''report.logs'', 20)]\<rparr>),
     ct_bootstrap = (\<lambda>_. Inl RuntimeError), ct_oc = (\<lambda>_. Inl RuntimeError)\<rparr>"

lemma sample_tar_names: "\<not> occurs_in ''bootstrap'' ''master-0''" "occurs_in ''master'' ''master-0''"
  "\<not> occurs_in ''manifest_system-generated_openshift'' ''master-0''"
  by (simp_all add: sublist_code)

lemma verified_logs_witness:
  "node_logs_complete sample_tar ''master-0''"
proof -
  have files: "tar_files sample_tar = [''master-0'']"
    by (simp add: tar_files_def sample_tar_def sample_tar_names)
  have "verify_logs_uploaded (\<lambda>p. [p]) (\<lambda>d _. d) ''/tmp'' sample_tar 1 True False False False = Inr ()"
    by (simp add: verify_logs_uploaded_def files verify_tar_file_def sample_tar_names)
      (simp add: sample_tar_def claim_def sum_bind_def safe_open_tar_def verify_duplicate_and_size_logs_file_def
        MAX_LOG_SIZE_BYTES_def verify_node_logs_uploaded_def MIN_LOG_SIZE_BYTES_def expected_log_files_def sample_tar_names)
  from verified_logs [OF this] show ?thesis
    by (simp add: files is_node_file_def sample_tar_names)
qed

subsection \<open>Secrets\<close>

text \<open>An entry with a secret: a sensitive path and a source that is not censored.\<close>

definition has_secret :: "pyval \<Rightarrow> bool" where
  "has_secret entry \<longleftrightarrow>
     (case entry of
        PDict d \<Rightarrow>
          (case (dict_get d ''path'', dict_get d ''contents'') of
             (Some (PStr p), Some (PDict c)) \<Rightarrow>
               sensitive_path p \<and> dict_get c ''source'' \<noteq> None \<and> dict_get c ''source'' \<noteq> Some (PStr ''censored'')
           | _ \<Rightarrow> False)
      | _ \<Rightarrow> False)"

lemma sensitive_path_Nil: "\<not> sensitive_path ''''"
  by (simp add: sensitive_path_def SENSITIVE_PATHS_def)

lemma py_dict_simps [simp]:
  "py_get (PDict d) k v = Inr (case dict_get d k of None \<Rightarrow> v | Some x \<Rightarrow> x)"
  "py_contains (PDict d) k = Inr (dict_get d k \<noteq> None)"
  "py_field (PDict d) k = (case dict_get d k of None \<Rightarrow> Inl (KeyError k) | Some x \<Rightarrow> Inr x)"
  by (auto simp: py_get_def py_contains_def py_field_def split: option.split)

lemma censor_entry_PDict:
  "censor_entry (PDict d) =
     (case dict_get d ''path'' of
        None \<Rightarrow> Inr (False, PDict d)
      | Some (PStr p) \<Rightarrow>
          if \<not> sensitive_path p then Inr (False, PDict d)
          else (case dict_get d ''contents'' of
              None \<Rightarrow> Inr (False, PDict d)
            | Some (PDict c) \<Rightarrow>
                (case dict_get c ''source'' of
                   None \<Rightarrow> Inr (False, PDict d)
                 | Some v \<Rightarrow> if v = PStr ''censored'' then Inr (False, PDict d)
                     else Inr (True, PDict (dict_set ''contents'' (PDict (dict_set ''source'' (PStr ''censored'') c)) d)))
            | Some (PList xs) \<Rightarrow> if PStr ''source'' \<in> set xs then Inl TypeError else Inr (False, PDict d)
            | Some (PStr t) \<Rightarrow> if occurs_in ''source'' t then Inl TypeError else Inr (False, PDict d)
            | Some _ \<Rightarrow> Inl TypeError)
      | Some _ \<Rightarrow> Inl AttributeError)"
proof (cases "dict_get d ''path''")
  case None
  then show ?thesis by (simp add: censor_entry_def sum_bind_def sensitive_path_Nil)
next
  case path: (Some v)
  show ?thesis
  proof (cases v)
    case v: (PStr p)
    show ?thesis
    proof (cases "dict_get d ''contents''")
      case None
      then show ?thesis by (simp add: censor_entry_def sum_bind_def path v)
    next
      case (Some w)
      then show ?thesis
        by (cases w) (simp_all add: censor_entry_def sum_bind_def path v py_contains_def py_field_def split: option.split)
    qed
  qed (simp_all add: censor_entry_def sum_bind_def path)
qed

lemma censor_entry_not_dict: "\<forall>d. x \<noteq> PDict d \<Longrightarrow> censor_entry x = Inl AttributeError"
  by (cases x) (simp_all add: censor_entry_def py_get_def sum_bind_def)

lemma censor_entry_Inr:
  assumes "censor_entry x = Inr (b, y)"
  shows "b = has_secret x \<and> \<not> has_secret y \<and> (\<not> b \<longrightarrow> y = x) \<and> censor_entry y = Inr (False, y)"
proof -
  obtain d where x: "x = PDict d" using assms censor_entry_not_dict [of x] by fastforce
  show ?thesis
  proof (cases b)
    case False
    then have "y = x \<and> \<not> has_secret x"
      using assms unfolding x censor_entry_PDict has_secret_def
      by (auto split: pyval.splits option.splits if_splits)
    with False assms show ?thesis by simp
  next
    case True
    then obtain c p where get: "dict_get d ''path'' = Some (PStr p)" "sensitive_path p"
      "dict_get d ''contents'' = Some (PDict c)" "dict_get c ''source'' \<noteq> None"
      "dict_get c ''source'' \<noteq> Some (PStr ''censored'')"
      and y: "y = PDict (dict_set ''contents'' (PDict (dict_set ''source'' (PStr ''censored'') c)) d)"
      using assms unfolding x censor_entry_PDict
      by (auto split: pyval.splits option.splits if_splits)
    have "has_secret x" using get by (simp add: has_secret_def x)
    moreover have "\<not> has_secret y" "censor_entry y = Inr (False, y)"
      using get by (simp_all add: has_secret_def y dict_get_set censor_entry_PDict)
    ultimately show ?thesis using True by simp
  qed
qed

definition entries_of :: "pyval \<Rightarrow> pyval list" where
  "entries_of data = (case storage_files data of Inr (PList es) \<Rightarrow> es | _ \<Rightarrow> [])"

lemma storage_files_Inr:
  assumes "storage_files data = Inr (PList (e # es))"
  obtains d st where "data = PDict d" "dict_get d ''storage'' = Some (PDict st)" "dict_get st ''files'' = Some (PList (e # es))"
proof -
  obtain d where d: "data = PDict d"
    using assms by (cases data) (simp_all add: storage_files_def py_get_def sum_bind_def)
  obtain v where v: "dict_get d ''storage'' = Some v"
    using assms by (cases "dict_get d ''storage''") (simp_all add: storage_files_def sum_bind_def d)
  then obtain st where st: "v = PDict st"
    using assms by (cases v) (simp_all add: storage_files_def sum_bind_def d py_get_def)
  have "dict_get st ''files'' = Some (PList (e # es))"
    using assms v st by (cases "dict_get st ''files''") (simp_all add: storage_files_def sum_bind_def d)
  with d v st show thesis by (intro that) simp_all
qed

lemma storage_files_put:
  assumes "storage_files data = Inr (PList (e # es))"
  shows "storage_files (put_storage_files data xs) = Inr (PList xs)"
proof -
  obtain d st where "data = PDict d" "dict_get d ''storage'' = Some (PDict st)"
    by (rule storage_files_Inr [OF assms])
  then show ?thesis by (simp add: storage_files_def put_storage_files_def sum_bind_def dict_get_set)
qed

lemma sum_map_censor:
  "sum_map censor_entry xs = Inr rs \<Longrightarrow> list_all2 (\<lambda>x r. censor_entry x = Inr r) xs rs"
  by (rule sum_map_Inr_all)

lemma censor_all_again:
  "list_all (\<lambda>y. censor_entry y = Inr (False, y)) ys \<Longrightarrow> sum_map censor_entry ys = Inr (map (Pair False) ys)"
  by (induction ys) auto

text \<open>C28: Censoring the files of an ignition configuration that goes through leaves no entry with a secret, changes
  only the entries that had one, reports a change exactly if there was one, and changes nothing when it is
  done again.\<close>

theorem no_secret_is_left:
  assumes "censor_storage_files data = Inr (changes_made, new)"
  shows "\<not> list_ex has_secret (entries_of new)
    \<and> list_all2 (\<lambda>x y. has_secret x \<or> y = x) (entries_of data) (entries_of new)
    \<and> (changes_made \<longleftrightarrow> list_ex has_secret (entries_of data))
    \<and> (changes_made \<or> new = data) \<and> censor_storage_files new = Inr (False, new)"
proof (cases "\<exists>es rs. storage_files data = Inr (PList es) \<and> sum_map censor_entry es = Inr rs")
  case False
  obtain v where v: "storage_files data = Inr v"
    using assms by (cases "storage_files data") (simp_all add: censor_storage_files_def sum_bind_def)
  then have "\<not> changes_made \<and> new = data \<and> (\<forall>es. v \<noteq> PList es)"
    using assms False
    by (cases v) (auto simp: censor_storage_files_def sum_bind_def split: sum.splits list.splits)
  then show ?thesis
    using assms v by (cases v) (simp_all add: entries_of_def)
next
  case True
  then obtain es rs where es: "storage_files data = Inr (PList es)" "sum_map censor_entry es = Inr rs" by blast
  then have rs: "list_all2 (\<lambda>x r. censor_entry x = Inr r) es rs" by (rule_tac sum_map_censor)
  have each: "list_all2 (\<lambda>x r. fst r = has_secret x \<and> \<not> has_secret (snd r) \<and> (\<not> fst r \<longrightarrow> snd r = x)
      \<and> censor_entry (snd r) = Inr (False, snd r)) es rs"
    using rs by (rule list_all2_mono) (metis censor_entry_Inr prod.collapse)
  have any: "list_ex fst rs \<longleftrightarrow> list_ex has_secret es"
    using each by (induction rule: list_all2_induct) auto
  have none: "\<not> list_ex has_secret (map snd rs)"
    using each by (induction rule: list_all2_induct) auto
  have kept: "list_all2 (\<lambda>x y. has_secret x \<or> y = x) es (map snd rs)"
    using each by (induction rule: list_all2_induct) auto
  have again: "sum_map censor_entry (map snd rs) = Inr (map (Pair False) (map snd rs))"
    by (rule censor_all_again, use each in \<open>induction rule: list_all2_induct\<close>) auto
  have old: "entries_of data = es" using es by (simp add: entries_of_def)
  show ?thesis
  proof (cases "list_ex fst rs")
    case True
    then obtain e es' where "es = e # es'" using each by (cases es) auto
    then have files: "storage_files (put_storage_files data (map snd rs)) = Inr (PList (map snd rs))"
      using storage_files_put es(1) by simp
    have new: "changes_made" "new = put_storage_files data (map snd rs)"
      using assms es True by (simp_all add: censor_storage_files_def sum_bind_def)
    have "entries_of new = map snd rs" using files new(2) by (simp add: entries_of_def)
    moreover have "censor_storage_files new = Inr (False, new)"
      using files new(2) again by (simp add: censor_storage_files_def sum_bind_def list_ex_iff)
    ultimately show ?thesis using none kept any True new(1) old by simp
  next
    case False
    then have new: "\<not> changes_made" "new = data"
      using assms es by (simp_all add: censor_storage_files_def sum_bind_def)
    have "list_all2 (\<lambda>x y. has_secret x \<or> y = x) es es" by (rule list_all2_refl) simp
    then show ?thesis using False any old new assms by simp
  qed
qed

definition sample_ignition :: "string \<Rightarrow> pyval" where
  "sample_ignition source = PDict [(''storage'', PDict [(''files'', PList
     [PDict [(''path'', PStr ''/a.key''), (''contents'', PDict [(''source'', PStr source)])],
      PDict [(''path'', PStr ''/b''), (''contents'', PDict [(''source'', PStr ''x'')])]])])]"

lemma sample_paths: "sensitive_path ''/a.key''" "\<not> sensitive_path ''/b''"
  by (simp_all add: sensitive_path_def SENSITIVE_PATHS_def suffix_def)

theorem no_secret_is_left_witness:
  "\<not> list_ex has_secret (entries_of (sample_ignition ''censored''))
     \<and> list_ex has_secret (entries_of (sample_ignition ''x''))"
proof -
  have "censor_storage_files (sample_ignition ''x'') = Inr (True, sample_ignition ''censored'')"
    by (simp add: censor_storage_files_def storage_files_def sample_ignition_def py_get_def sum_bind_def censor_entry_def
        sample_paths py_contains_def py_field_def put_storage_files_def)
  from no_secret_is_left [OF this] show ?thesis by simp
qed

subsection \<open>Attempts to download\<close>

definition downloads :: "call list \<Rightarrow> nat" where
  "downloads cs = length (filter (\<lambda>c. case c of Controller w _ \<Rightarrow> w = ''download_cluster_logs'' | _ \<Rightarrow> False) cs)"

definition pauses :: "call list \<Rightarrow> nat" where
  "pauses cs = length (filter (\<lambda>c. case c of Sleep _ \<Rightarrow> True | _ \<Rightarrow> False) cs)"

lemma downloads_pauses_simps [simp]:
  "downloads [] = 0" "downloads (as @ bs) = downloads as + downloads bs"
  "downloads (Controller w xs # cs) = (if w = ''download_cluster_logs'' then 1 else 0) + downloads cs"
  "downloads (Sleep n # cs) = downloads cs"
  "pauses [] = 0" "pauses (as @ bs) = pauses as + pauses bs"
  "pauses (Controller w xs # cs) = pauses cs" "pauses (Sleep n # cs) = Suc (pauses cs)"
  by (simp_all add: downloads_def pauses_def)

text \<open>One attempt: an archive that passes its check, or one download and a pause if the attempt is an early one.\<close>

lemma download_attempt_Inr:
  assumes "download_attempt e c path archive r i s = (Inr fin, t)"
  shows "\<exists>cs. hist t = hist s @ cs \<and> downloads cs = 1 \<and> pauses cs \<le> (if i < 2 then 1 else 0)
    \<and> (fin \<longrightarrow> archive (hist t) = Inr ())"
proof -
  let ?s1 = "s\<lparr>hist := hist s @ [Controller ''os.remove'' [PStr path]]\<rparr>"
  let ?s2 = "?s1\<lparr>hist := hist ?s1 @ [Controller ''download_cluster_logs'' [PStr (dl_id c), PStr path]]\<rparr>"
  have "(try_except (bindP (reads (\<lambda>s. archive (hist s))) (\<lambda>r. thenP (sum_prog r) (ret True)))
          (\<lambda>x. if x = AssertionError
             then thenP (whenP (i < MAX_RETRIES - 1) (sleepP r)) (ret False)
             else raise x)) ?s2 = (Inr fin, t)"
    using assms
    by (auto simp: download_attempt_def suppressing_def act_def do_call_def bindP_eq_Inr_iff try_except_def ext_app
        prog_simps split: sum.splits if_splits)
  then show ?thesis
    by (cases "archive (hist ?s2)"; cases "i < 2")
      (auto simp: try_except_def bindP_def prog_simps sum_prog_def sleepP_def ext_app MAX_RETRIES_def split: if_splits)
qed

lemma download_attempts_Inr:
  assumes "download_attempts e c path archive r is s = (Inr (), t)"
  shows "\<exists>cs. hist t = hist s @ cs \<and> pauses cs \<le> length (filter (\<lambda>i. i < 2) is) \<and> downloads cs \<le> length is
    \<and> (archive (hist t) = Inr () \<or> downloads cs = length is)"
  using assms
proof (induction "is" arbitrary: s)
  case Nil
  then show ?case by (simp add: prog_simps)
next
  case (Cons i "is")
  then obtain fin u where u: "download_attempt e c path archive r i s = (Inr fin, u)"
    and rest: "(if fin then ret () else download_attempts e c path archive r is) u = (Inr (), t)"
    by (auto elim!: bindP_InrE)
  obtain cs where cs: "hist u = hist s @ cs" "downloads cs = 1" "pauses cs \<le> (if i < 2 then 1 else 0)"
    "fin \<longrightarrow> archive (hist u) = Inr ()"
    using download_attempt_Inr [OF u] by blast
  show ?case
  proof (cases "fin")
    case True
    then show ?thesis using cs rest by (auto simp: prog_simps split: if_splits)
  next
    case False
    then obtain ds where "hist t = hist u @ ds" "pauses ds \<le> length (filter (\<lambda>i. i < 2) is)"
      "downloads ds \<le> length is" "archive (hist t) = Inr () \<or> downloads ds = length is"
      using Cons.IH rest by force
    then show ?thesis using cs by (intro exI [of _ "cs @ ds"]) auto
  qed
qed

text \<open>C30: Downloading the logs of a cluster returns normally after at most 15 downloads if two hosts have joined, and at
  most 3 otherwise, with at most two pauses in between. Either the last archive passed the check, or every
  attempt was used: then it returns although none of them passed.\<close>

theorem download_is_bounded:
  assumes "download_and_verify_logs e resolve below uploaded c hosts folder r s = (Inr (), t)"
  shows "\<exists>cs n. hist t = hist s @ cs
    \<and> n = (if are_host_progress_in_stage hosts [''Joined'', ''Done''] 2 then 15 else 3)
    \<and> pauses cs \<le> 2 \<and> downloads cs \<le> n
    \<and> (downloads cs = n \<or> verify_logs_uploaded resolve below ''tempdir'' (uploaded (hist t))
         (min_number_of_log_files hosts (dl_status c = ''installed'' \<or> are_host_progress_in_stage hosts [''Configuring''] 2))
         (dl_status c = ''installed'') False (are_host_progress_in_stage hosts [''Joined'', ''Done''] 2) False = Inr ())"
proof -
  have two: "length (filter (\<lambda>i. i < 2) [0..<n]) \<le> 2" for n :: nat
  proof -
    have "length (filter (\<lambda>i. i < 2) [0..<n]) = card {i. i < n \<and> i < 2}"
      by (subst distinct_card [symmetric]) (auto intro!: arg_cong [where f = card])
    also have "\<dots> \<le> card {0, 1 :: nat}" by (rule card_mono) auto
    finally show ?thesis by simp
  qed
  show ?thesis
    using download_attempts_Inr [OF assms [unfolded download_and_verify_logs_def Let_def]] two
    by (auto simp: MUST_GATHER_MAX_RETRIES_def MAX_RETRIES_def intro: order_trans [OF _ two])
qed

lemma download_attempts_give_up:
  assumes "\<And>h. archive h = Inl AssertionError"
  shows "\<exists>t. download_attempts (still_env k) c path archive r is s = (Inr (), t)"
proof (induction "is" arbitrary: s)
  case (Cons i "is")
  have "\<exists>u. download_attempt (still_env k) c path archive r i s = (Inr False, u)"
    by (cases "i < 2") (simp_all add: download_attempt_def suppressing_def act_def do_call_def bindP_def try_except_def
      ext_app prog_simps assms sum_prog_def sleepP_def MAX_RETRIES_def still_env_def)
  with Cons.IH show ?case by (auto simp: bindP_def)
qed (simp add: prog_simps)

definition sample_log_cluster :: log_cluster where
  "sample_log_cluster = \<lparr>dl_id = ''c'', dl_name = ''c'', dl_status = ''error'', dl_status_info = [],
     dl_base_dns_domain = ''d'', dl_deleted = False, dl_hosts = Some []\<rparr>"

theorem download_is_bounded_witness:
  "\<exists>t. download_and_verify_logs (still_env (sample_cluster [] [])) (\<lambda>p. [p]) (\<lambda>d _. d) (\<lambda>_. sample_tar\<lparr>ct_exists := False\<rparr>)
       sample_log_cluster [] ''f'' 5 fresh_world = (Inr (), t) \<and> downloads (hist t) = 3"
proof -
  let ?run = "download_and_verify_logs (still_env (sample_cluster [] [])) (\<lambda>p. [p]) (\<lambda>d _. d)
    (\<lambda>_. sample_tar\<lparr>ct_exists := False\<rparr>) sample_log_cluster [] ''f'' 5 fresh_world"
  have fails: "verify_logs_uploaded (\<lambda>p. [p]) (\<lambda>d _. d) td (sample_tar\<lparr>ct_exists := False\<rparr>) n a b c d = Inl AssertionError"
    for td n a b c d
    by (simp add: verify_logs_uploaded_def claim_def sum_bind_def)
  have "\<exists>t. ?run = (Inr (), t)"
    unfolding download_and_verify_logs_def Let_def by (rule download_attempts_give_up) (rule fails)
  then obtain t where t: "?run = (Inr (), t)" ..
  have none: "\<not> are_host_progress_in_stage [] stages 2" for stages
    by (simp add: are_host_progress_in_stage_def)
  from download_is_bounded [OF t] have "downloads (hist t) = 3"
    by (auto simp: none fails fresh_world_def)
  with t show ?thesis by blast
qed

end
