(* ===== verification/Junit.thy ===== *)
theory Junit
  imports Utils
begin

text \<open>
  \<open>junit_log_parser.py\<close>: turning the log lines of the service and the events of a namespace into test
  cases. The regular expressions that take a line apart are a parameter, \<open>parse\<close>, and so is
  \<open>TestCase.is_failure\<close> of the \<open>junit_xml\<close> library (\<open>failure_contract\<close> is what its documentation says).
\<close>

section \<open>Entries and test cases\<close>

text \<open>The groups of a matched line; \<open>func\<close> is missing from the format of leader elections.\<close>

record log_match =
  lm_time :: string
  lm_level :: string
  lm_msg :: string
  lm_func :: "string option"
  lm_file :: string
  lm_error :: "string option"

record log_entry =
  le_time :: string
  le_level :: string
  le_msg :: string
  le_func :: string
  le_file :: string
  le_error :: "string option"

record case_failure =
  cf_message :: string
  cf_output :: string
  cf_type :: string

record test_case =
  jc_name :: string
  jc_classname :: string
  jc_category :: string
  jc_timestamp :: "string option"
  jc_failures :: "case_failure list"

text \<open>\<open>level.lower()[0]\<close> raises on an empty string.\<close>

definition get_level :: "string \<Rightarrow> exn + string" where
  "get_level level =
     (case lower level of
        [] \<Rightarrow> Inl IndexError
      | c # _ \<Rightarrow> Inr (if c = CHR ''e'' then ''error'' else if c = CHR ''w'' then ''warning''
          else if c = CHR ''f'' then ''fatal'' else ''info''))"

definition strip_quotes :: "string \<Rightarrow> string" where
  "strip_quotes s = filter (\<lambda>c. c \<noteq> CHR 0x22) s"

definition get_log_entry :: "(string \<Rightarrow> log_match option) \<Rightarrow> string \<Rightarrow> exn + log_entry option" where
  "get_log_entry parse line =
     (case parse line of
        None \<Rightarrow> Inr None
      | Some m \<Rightarrow>
          sum_bind (get_level (lm_level m)) (\<lambda>level.
            Inr (Some \<lparr>le_time = lm_time m, le_level = level, le_msg = lm_msg m,
              le_func = (case lm_func m of Some f \<Rightarrow> f
                 | None \<Rightarrow> strip_quotes (hd (split_on (CHR '':'') (lm_file m)))),
              le_file = lm_file m, le_error = lm_error m\<rparr>)))"

section \<open>Failures of the service\<close>

definition EXPORTED_LOG_LEVELS :: "string list" where "EXPORTED_LOG_LEVELS = [''fatal'', ''error'']"

type_synonym fail_cases = "(string, test_case list) dict"

definition is_duplicate_entry :: "log_entry \<Rightarrow> string \<Rightarrow> fail_cases \<Rightarrow> bool" where
  "is_duplicate_entry entry entry_message fail_cases \<longleftrightarrow>
     (case dict_get fail_cases (le_func entry) of
        None \<Rightarrow> False
      | Some cases \<Rightarrow> list_ex (\<lambda>c. case jc_failures c of [] \<Rightarrow> False | f # _ \<Rightarrow> cf_message f = entry_message) cases)"

definition failing_case :: "log_entry \<Rightarrow> string \<Rightarrow> string \<Rightarrow> test_case" where
  "failing_case entry suite_name message =
     \<lparr>jc_name = le_func entry, jc_classname = suite_name, jc_category = suite_name, jc_timestamp = Some (le_time entry),
      jc_failures = [\<lparr>cf_message = message, cf_output = message, cf_type = le_level entry\<rparr>]\<rparr>"

definition flaky_case :: "log_entry \<Rightarrow> string \<Rightarrow> test_case" where
  "flaky_case entry suite_name =
     \<lparr>jc_name = le_func entry, jc_classname = suite_name, jc_category = suite_name, jc_timestamp = None, jc_failures = []\<rparr>"

definition get_log_entry_case :: "log_entry \<Rightarrow> fail_cases \<Rightarrow> string \<Rightarrow> string \<Rightarrow> test_case list" where
  "get_log_entry_case entry fail_cases suite_name failure_message =
     (if is_duplicate_entry entry failure_message fail_cases then []
      else failing_case entry suite_name failure_message
        # (if le_level entry \<noteq> ''fatal'' then [flaky_case entry suite_name] else []))"

definition failure_message :: "log_entry \<Rightarrow> string" where
  "failure_message entry = le_msg entry @ newline # (case le_error entry of None \<Rightarrow> [] | Some x \<Rightarrow> x)"

text \<open>\<open>case.failures[0]\<close> of a failing case gets the message appended.\<close>

definition append_failure :: "(test_case \<Rightarrow> bool) \<Rightarrow> string \<Rightarrow> test_case \<Rightarrow> test_case" where
  "append_failure is_failure message c =
     (if is_failure c then
        (case jc_failures c of
           [] \<Rightarrow> c
         | f # fs \<Rightarrow> c\<lparr>jc_failures := f\<lparr>cf_message := cf_message f @ newline # message,
                                    cf_output := cf_output f @ newline # message\<rparr> # fs\<rparr>)
      else c)"

definition add_entry :: "(test_case \<Rightarrow> bool) \<Rightarrow> string \<Rightarrow> fail_cases \<Rightarrow> log_entry \<Rightarrow> fail_cases" where
  "add_entry is_failure suite_name fail_cases entry =
     (if le_level entry \<notin> set EXPORTED_LOG_LEVELS then fail_cases
      else case dict_get fail_cases (le_func entry) of
          None \<Rightarrow> dict_set (le_func entry)
            (get_log_entry_case entry fail_cases suite_name (failure_message entry)) fail_cases
        | Some cases \<Rightarrow> dict_set (le_func entry)
            (map (append_failure is_failure (failure_message entry)) cases) fail_cases)"

definition failure_cases_of :: "(test_case \<Rightarrow> bool) \<Rightarrow> string \<Rightarrow> log_entry list \<Rightarrow> test_case list" where
  "failure_cases_of is_failure suite_name entries =
     concat (map snd (foldl (add_entry is_failure suite_name) [] entries))"

text \<open>The lines of the file are read one by one; the first that cannot be taken apart ends the conversion.\<close>

definition get_failure_cases ::
  "(string \<Rightarrow> log_match option) \<Rightarrow> (test_case \<Rightarrow> bool) \<Rightarrow> string \<Rightarrow> string list \<Rightarrow> exn + test_case list" where
  "get_failure_cases parse is_failure suite_name lines =
     sum_bind (sum_map (get_log_entry parse) lines) (\<lambda>entries.
       Inr (failure_cases_of is_failure suite_name (List.map_filter id entries)))"

section \<open>Events\<close>

record k8s_event =
  ev_type :: string
  ev_reason :: string
  ev_kind :: string
  ev_name :: string
  ev_message :: string
  ev_first_timestamp :: string

definition EXPORTED_EVENT_LEVELS :: "string list" where "EXPORTED_EVENT_LEVELS = [''critical'', ''error'']"

definition get_event_test_case :: "k8s_event \<Rightarrow> test_case option" where
  "get_event_test_case ev =
     (if lower (ev_type ev) \<notin> set EXPORTED_EVENT_LEVELS then None
      else
        let text = lower (ev_kind ev) @ ''/'' @ ev_name ev @ '': '' @ ev_message ev
        in Some \<lparr>jc_name = ev_reason ev, jc_classname = ''EVENT'', jc_category = ev_reason ev,
             jc_timestamp = Some (ev_first_timestamp ev),
             jc_failures = [\<lparr>cf_message = text, cf_output = text, cf_type = ev_type ev\<rparr>]\<rparr>)"

definition get_event_test_cases :: "k8s_event list \<Rightarrow> test_case list" where
  "get_event_test_cases events = List.map_filter get_event_test_case events"

section \<open>Properties\<close>

definition failure_contract :: "(test_case \<Rightarrow> bool) \<Rightarrow> bool" where
  "failure_contract is_failure \<longleftrightarrow>
     (\<forall>c. is_failure c \<longleftrightarrow> list_ex (\<lambda>f. cf_message f \<noteq> [] \<or> cf_output f \<noteq> []) (jc_failures c))"

text \<open>The reference: one failing case for every function, with the messages of all its exported entries.\<close>

definition exported :: "log_entry \<Rightarrow> bool" where
  "exported entry \<longleftrightarrow> le_level entry = ''fatal'' \<or> le_level entry = ''error''"

definition entries_for :: "log_entry list \<Rightarrow> string \<Rightarrow> log_entry list" where
  "entries_for entries func = filter (\<lambda>x. exported x \<and> le_func x = func) entries"

definition cases_for :: "string \<Rightarrow> log_entry list \<Rightarrow> string \<Rightarrow> test_case list" where
  "cases_for suite_name entries func =
     (let es = entries_for entries func
      in failing_case (hd es) suite_name (join [newline] (map failure_message es))
           # (if le_level (hd es) \<noteq> ''fatal'' then [flaky_case (hd es) suite_name] else []))"

definition failing_functions :: "log_entry list \<Rightarrow> string list" where
  "failing_functions entries = first_occurrences (map le_func (filter exported entries))"

lemma join_snoc: "xs \<noteq> [] \<Longrightarrow> join sep (xs @ [y]) = join sep xs @ sep @ y"
  by (induction sep xs rule: join.induct) auto

lemma first_occurrences_snoc:
  "first_occurrences (xs @ [x]) = (if x \<in> set xs then first_occurrences xs else first_occurrences xs @ [x])"
  by (induction xs) auto

lemma dict_set_old:
  "distinct ks \<Longrightarrow> k \<in> set ks \<Longrightarrow>
     dict_set k v (map (\<lambda>k. (k, h k)) ks) = map (\<lambda>k'. (k', if k' = k then v else h k')) ks"
  by (induction ks) auto

lemma dict_get_map: "dict_get (map (\<lambda>k. (k, h k)) ks) k = (if k \<in> set ks then Some (h k) else None)"
  by (induction ks) auto

lemma failure_message_nonempty: "failure_message entry \<noteq> []"
  by (simp add: failure_message_def)

lemma entries_for_snoc:
  "entries_for (xs @ [x]) func = entries_for xs func @ (if exported x \<and> le_func x = func then [x] else [])"
  by (simp add: entries_for_def)

lemma entries_for_nonempty: "func \<in> set (failing_functions xs) \<Longrightarrow> entries_for xs func \<noteq> []"
  by (auto simp: failing_functions_def entries_for_def filter_empty_conv)

lemma is_failure_cases:
  assumes "failure_contract is_failure"
  shows "m \<noteq> [] \<Longrightarrow> is_failure (failing_case en suite m)" "\<not> is_failure (flaky_case en suite)"
  using assms by (auto simp: failure_contract_def failing_case_def flaky_case_def)

lemma append_to_cases:
  assumes "failure_contract is_failure" and "es \<noteq> []" and "entries_for xs func = es"
    and "exported x" "le_func x = func"
  shows "map (append_failure is_failure (failure_message x)) (cases_for suite xs func) = cases_for suite (xs @ [x]) func"
proof -
  have "join [newline] (map failure_message es) \<noteq> []"
    using assms(2) by (cases es; cases "tl es") (auto simp: failure_message_nonempty)
  moreover have "append_failure is_failure (failure_message x) (failing_case en suite m) =
      failing_case en suite (m @ newline # failure_message x)" if "m \<noteq> []" for en m
    using is_failure_cases(1) [OF assms(1) that] by (simp add: append_failure_def) (simp add: failing_case_def)
  moreover have "append_failure is_failure (failure_message x) (flaky_case en suite) = flaky_case en suite" for en
    using is_failure_cases(2) [OF assms(1)] by (simp add: append_failure_def)
  ultimately show ?thesis
    using assms(2-) by (simp add: cases_for_def Let_def entries_for_snoc join_snoc)
qed

lemma add_entries:
  assumes "failure_contract is_failure"
  shows "foldl (add_entry is_failure suite) [] entries =
    map (\<lambda>func. (func, cases_for suite entries func)) (failing_functions entries)"
proof (induction entries rule: rev_induct)
  case Nil
  then show ?case by (simp add: failing_functions_def)
next
  case (snoc x xs)
  let ?f = "le_func x" and ?fs = "failing_functions xs"
  have same: "cases_for suite (xs @ [x]) g = cases_for suite xs g" if "\<not> exported x \<or> g \<noteq> ?f" for g
    using that by (auto simp: cases_for_def entries_for_snoc)
  show ?case
  proof (cases "exported x")
    case False
    then have "failing_functions (xs @ [x]) = ?fs" by (simp add: failing_functions_def)
    moreover have "add_entry is_failure suite d x = d" for d
      using False by (simp add: add_entry_def EXPORTED_LOG_LEVELS_def exported_def)
    ultimately show ?thesis using False by (simp add: snoc.IH same)
  next
    case True
    then have level: "le_level x \<in> set EXPORTED_LOG_LEVELS" by (auto simp: EXPORTED_LOG_LEVELS_def exported_def)
    have add: "add_entry is_failure suite d x = (case dict_get d ?f of
          None \<Rightarrow> dict_set ?f (get_log_entry_case x d suite (failure_message x)) d
        | Some cases \<Rightarrow> dict_set ?f (map (append_failure is_failure (failure_message x)) cases) d)" for d
      using level by (simp add: add_entry_def)
    have mem: "?f \<in> set (map le_func (filter exported xs)) \<longleftrightarrow> ?f \<in> set ?fs" by (simp add: failing_functions_def)
    show ?thesis
    proof (cases "?f \<in> set ?fs")
      case False
      then have fs: "failing_functions (xs @ [x]) = ?fs @ [?f]"
        using True mem by (simp add: failing_functions_def first_occurrences_snoc)
      have none: "entries_for xs ?f = []"
        using False unfolding failing_functions_def entries_for_def by (simp add: filter_empty_conv) (metis (mono_tags) imageI mem_Collect_eq)
      have "cases_for suite (xs @ [x]) ?f = get_log_entry_case x (map (\<lambda>g. (g, cases_for suite xs g)) ?fs) suite (failure_message x)"
        using True none False
        by (simp add: cases_for_def Let_def entries_for_snoc get_log_entry_case_def is_duplicate_entry_def dict_get_map)
      moreover have "map (\<lambda>g. (g, cases_for suite (xs @ [x]) g)) ?fs = map (\<lambda>g. (g, cases_for suite xs g)) ?fs"
        using False by (intro map_cong refl) (auto intro: same)
      ultimately show ?thesis
        using False by (simp add: snoc.IH add dict_get_map dict_set_new image_image fs)
    next
      case old: True
      then have fs: "failing_functions (xs @ [x]) = ?fs"
        using True mem by (simp add: failing_functions_def first_occurrences_snoc)
      have dist: "distinct ?fs" by (simp add: failing_functions_def)
      have "map (\<lambda>g. (g, if g = ?f then map (append_failure is_failure (failure_message x)) (cases_for suite xs ?f)
            else cases_for suite xs g)) ?fs = map (\<lambda>g. (g, cases_for suite (xs @ [x]) g)) ?fs"
        using append_to_cases [OF assms entries_for_nonempty [OF old] refl True refl] same by auto
      then show ?thesis
        using old by (simp add: snoc.IH add dict_get_map dict_set_old [OF dist] fs)
    qed
  qed
qed

text \<open>C31: The test cases made of a log are those of the reference: for every function with a fatal or error entry, in
  the order of their first such entries, one failing case with the first entry's time and level and the
  messages of all its exported entries, and a passing case of the same name unless the first was fatal.
  In particular no entry is ever dropped as a duplicate.\<close>

theorem failures_are_grouped:
  assumes "failure_contract is_failure"
  shows "failure_cases_of is_failure suite entries = concat (map (cases_for suite entries) (failing_functions entries))"
  by (simp add: failure_cases_of_def add_entries [OF assms] comp_def)

definition sample_entry :: "string \<Rightarrow> log_entry" where
  "sample_entry m = \<lparr>le_time = ''t'', le_level = ''error'', le_msg = m, le_func = ''f'', le_file = ''g'', le_error = None\<rparr>"

theorem failures_are_grouped_witness:
  "map (\<lambda>c. map cf_message (jc_failures c))
     (failure_cases_of (\<lambda>c. list_ex (\<lambda>f. cf_message f \<noteq> [] \<or> cf_output f \<noteq> []) (jc_failures c)) ''s''
        [sample_entry ''a'', sample_entry ''a'']) = [[''a'' @ [newline, newline] @ ''a'' @ [newline]], []]"
proof -
  have "failure_contract (\<lambda>c. list_ex (\<lambda>f. cf_message f \<noteq> [] \<or> cf_output f \<noteq> []) (jc_failures c))"
    by (simp add: failure_contract_def)
  from failures_are_grouped [OF this, of "''s''" "[sample_entry ''a'', sample_entry ''a'']"] show ?thesis
    by (simp add: failing_functions_def cases_for_def entries_for_def exported_def sample_entry_def failure_message_def
        failing_case_def flaky_case_def)
qed

end
