(* ===== verification/Pool.thy ===== *)
theory Pool
  imports Prelude "HOL-Library.Multiset"
begin

text \<open>
  \<open>tools/concurrently.py\<close>: running jobs on a pool of threads. A thread is a program cut into atomic
  steps; the pool is a step relation in which waiting jobs start in their order, at most
  \<open>max_workers\<close> run at a time, running threads step in any order, and a thread that is done leaves
  its result and calls the handler. The time limit of \<open>future.result\<close> is not modelled: its default
  of \<open>2 ** 31\<close> seconds never passes.
\<close>

section \<open>Threads\<close>

datatype ('s, 'a) thread = Finished "exn + 'a" | Step "'s \<Rightarrow> ('s, 'a) thread \<times> 's"

text \<open>A thread run on its own.\<close>

primrec run_thread :: "('s, 'a) thread \<Rightarrow> 's \<Rightarrow> (exn + 'a) \<times> 's" where
  "run_thread (Finished r) = (\<lambda>l. (r, l))"
| "run_thread (Step f) = (\<lambda>l. case (map_prod run_thread (\<lambda>l. l) \<circ> f) l of (g, l') \<Rightarrow> g l')"

lemma run_Step: "f l = (t, l') \<Longrightarrow> run_thread (Step f) l = run_thread t l'"
  by simp

declare run_thread.simps(2) [simp del]

text \<open>A program whose effect is one atomic step.\<close>

definition atomic :: "('s, 'a) prog \<Rightarrow> ('s, 'a) thread" where
  "atomic m = Step (\<lambda>l. case m l of (r, l') \<Rightarrow> (Finished r, l'))"

lemma run_atomic [simp]: "run_thread (atomic m) l = m l"
  by (cases "m l") (simp add: atomic_def run_thread.simps)

section \<open>The pool\<close>

text \<open>
  \<open>pl_finished\<close> are the results in the order in which the threads were done, \<open>pl_handled\<close> the calls of
  the handler, \<open>pl_shared\<close> the state all threads work on.
\<close>

record ('s, 'a) pool =
  pl_waiting :: "(nat \<times> ('s, 'a) thread) list"
  pl_running :: "(nat \<times> ('s, 'a) thread) list"
  pl_finished :: "(nat \<times> (exn + 'a)) list"
  pl_handled :: "nat list"
  pl_shared :: 's

inductive pool_step :: "nat \<Rightarrow> ('s, 'a) pool \<Rightarrow> ('s, 'a) pool \<Rightarrow> bool" for max_workers where
  submit: "pl_waiting p = j # js \<Longrightarrow> length (pl_running p) < max_workers \<Longrightarrow>
     pool_step max_workers p (p\<lparr>pl_waiting := js, pl_running := pl_running p @ [j]\<rparr>)"
| step: "pl_running p = xs @ (i, Step f) # ys \<Longrightarrow> f (pl_shared p) = (t, u) \<Longrightarrow>
     pool_step max_workers p (p\<lparr>pl_running := xs @ (i, t) # ys, pl_shared := u\<rparr>)"
| finish: "pl_running p = xs @ (i, Finished r) # ys \<Longrightarrow>
     pool_step max_workers p (p\<lparr>pl_running := xs @ ys, pl_finished := pl_finished p @ [(i, r)],
       pl_handled := pl_handled p @ [i]\<rparr>)"

definition start_pool :: "('s, 'a) thread list \<Rightarrow> 's \<Rightarrow> ('s, 'a) pool" where
  "start_pool jobs s = \<lparr>pl_waiting = enumerate 0 jobs, pl_running = [], pl_finished = [], pl_handled = [],
     pl_shared = s\<rparr>"

abbreviation pool_steps :: "nat \<Rightarrow> ('s, 'a) pool \<Rightarrow> ('s, 'a) pool \<Rightarrow> bool" where
  "pool_steps max_workers \<equiv> (pool_step max_workers)\<^sup>*\<^sup>*"

text \<open>
  \<open>run_concurrently\<close>: the results are collected in the order of the jobs, so that the exception raised is that of
  the first job that failed, whenever it did; leaving the executor's block waits for all jobs.
\<close>

fun collect_results :: "(nat \<times> (exn + 'a)) list \<Rightarrow> nat list \<Rightarrow> exn + (nat \<times> 'a) list" where
  "collect_results fs [] = Inr []"
| "collect_results fs (i # is) =
     (case map_of fs i of
        None \<Rightarrow> Inl Diverges
      | Some (Inl x) \<Rightarrow> Inl x
      | Some (Inr a) \<Rightarrow> (case collect_results fs is of Inl x \<Rightarrow> Inl x | Inr rs \<Rightarrow> Inr ((i, a) # rs)))"

definition pool_complete :: "('s, 'a) pool \<Rightarrow> bool" where
  "pool_complete p \<longleftrightarrow> pl_waiting p = [] \<and> pl_running p = []"

inductive runs_concurrently ::
  "nat \<Rightarrow> ('s, 'a) thread list \<Rightarrow> 's \<Rightarrow> exn + (nat \<times> 'a) list \<Rightarrow> 's \<Rightarrow> bool"
  for max_workers jobs s where
  "pool_steps max_workers (start_pool jobs s) p \<Longrightarrow> pool_complete p \<Longrightarrow>
     runs_concurrently max_workers jobs s (collect_results (pl_finished p) [0..<length jobs]) (pl_shared p)"

inductive_cases runs_concurrentlyE: "runs_concurrently max_workers jobs s r t"
inductive_cases pool_stepE: "pool_step max_workers p q"

section \<open>Every run ends\<close>

text \<open>What a thread may become in one step.\<close>

definition next_thread :: "(('s, 'a) thread \<times> ('s, 'a) thread) set" where
  "next_thread = {(t, Step f) | t f l l'. f l = (t, l')}"

lemma wf_next_thread: "wf (next_thread :: (('s, 'a) thread \<times> ('s, 'a) thread) set)"
proof (rule wfUNIVI)
  fix P :: "('s, 'a) thread \<Rightarrow> bool" and t
  assume step: "\<forall>x. (\<forall>y. (y, x) \<in> next_thread \<longrightarrow> P y) \<longrightarrow> P x"
  show "P t"
  proof (induction t)
    case (Finished r)
    show ?case using step by (auto simp: next_thread_def)
  next
    case (Step f)
    have "P y" if "(y, Step f) \<in> next_thread" for y
    proof -
      from that obtain l l' where f: "f l = (y, l')" by (auto simp: next_thread_def)
      from f have "(y, l') \<in> range f" by (metis rangeI)
      then show ?thesis by (rule Step) simp
    qed
    then show ?case using step by blast
  qed
qed

definition pool_threads :: "('s, 'a) pool \<Rightarrow> ('s, 'a) thread multiset" where
  "pool_threads p = mset (map snd (pl_waiting p)) + mset (map snd (pl_running p))"

definition pool_order :: "(('s, 'a) pool \<times> ('s, 'a) pool) set" where
  "pool_order = inv_image (mult next_thread <*lex*> less_than) (\<lambda>p. (pool_threads p, length (pl_waiting p)))"

lemma wf_pool_order: "wf pool_order"
  unfolding pool_order_def by (intro wf_inv_image wf_lex_prod wf_mult wf_next_thread wf_less_than)

lemma step_decreases: "pool_step n p q \<Longrightarrow> (q, p) \<in> pool_order"
proof (induction rule: pool_step.induct)
  case (submit p j js)
  then have "pool_threads (p\<lparr>pl_waiting := js, pl_running := pl_running p @ [j]\<rparr>) = pool_threads p"
    by (simp add: pool_threads_def)
  with submit show ?case by (simp add: pool_order_def)
next
  case (step p xs i f ys t u)
  let ?rest = "mset (map snd (pl_waiting p)) + mset (map snd xs) + mset (map snd ys)"
  have "(t, Step f) \<in> next_thread" using step(2) by (auto simp: next_thread_def)
  then have "(?rest + {#t#}, ?rest + {#Step f#}) \<in> mult next_thread"
    by (intro one_step_implies_mult) auto
  moreover have "pool_threads p = ?rest + {#Step f#}" using step(1) by (simp add: pool_threads_def)
  ultimately show ?case by (simp add: pool_order_def pool_threads_def ac_simps)
next
  case (finish p xs i r ys)
  let ?rest = "mset (map snd (pl_waiting p)) + mset (map snd xs) + mset (map snd ys)"
  have "(?rest + {#}, ?rest + {#Finished r#}) \<in> mult next_thread"
    by (intro one_step_implies_mult) auto
  moreover have "pool_threads p = ?rest + {#Finished r#}" using finish by (simp add: pool_threads_def)
  ultimately show ?case by (simp add: pool_order_def pool_threads_def ac_simps)
qed

definition no_infinite_run :: "nat \<Rightarrow> ('s, 'a) pool \<Rightarrow> bool" where
  "no_infinite_run n p \<longleftrightarrow> \<not> (\<exists>run. run 0 = p \<and> (\<forall>k. pool_step n (run k) (run (Suc k))))"

lemma pool_has_no_infinite_run: "no_infinite_run n p"
proof -
  have "\<not> (\<exists>run. \<forall>k. (run (Suc k), run k) \<in> pool_order)"
    using wf_pool_order unfolding wf_iff_no_infinite_down_chain .
  moreover have "\<forall>k. (run (Suc k), run k) \<in> pool_order" if "\<forall>k. pool_step n (run k) (run (Suc k))" for run
    using that by (intro allI step_decreases [of n]) simp
  ultimately show ?thesis unfolding no_infinite_run_def by metis
qed

section \<open>Every job runs once\<close>

definition pool_ids :: "('s, 'a) pool \<Rightarrow> nat multiset" where
  "pool_ids p = mset (map fst (pl_waiting p)) + mset (map fst (pl_running p)) + mset (map fst (pl_finished p))"

definition pool_ok :: "nat \<Rightarrow> nat multiset \<Rightarrow> ('s, 'a) pool \<Rightarrow> bool" where
  "pool_ok n ids p \<longleftrightarrow> length (pl_running p) \<le> n \<and> pool_ids p = ids \<and> pl_handled p = map fst (pl_finished p)"

lemma pool_ok_step: "pool_step n p q \<Longrightarrow> pool_ok n ids p \<Longrightarrow> pool_ok n ids q"
proof (induction rule: pool_step.induct)
  case (submit p j js)
  then show ?case by (simp add: pool_ok_def pool_ids_def add.assoc)
next
  case (step p xs i f ys t u)
  then show ?case by (simp add: pool_ok_def pool_ids_def)
next
  case (finish p xs i r ys)
  then show ?case by (simp add: pool_ok_def pool_ids_def add.assoc)
qed

lemma pool_ok_steps: "pool_steps n p q \<Longrightarrow> pool_ok n ids p \<Longrightarrow> pool_ok n ids q"
  by (induction rule: rtranclp_induct) (auto intro: pool_ok_step)

lemma pool_ok_start: "pool_ok n (mset [0..<length jobs]) (start_pool jobs s)"
  by (simp add: pool_ok_def pool_ids_def start_pool_def enumerate_eq_zip)

lemma pool_progress:
  assumes "0 < n" "length (pl_running p) \<le> n" "\<not> pool_complete p"
  shows "\<exists>q. pool_step n p q"
proof (cases "pl_running p")
  case Nil
  then obtain j js where "pl_waiting p = j # js"
    using assms(3) by (cases "pl_waiting p") (auto simp: pool_complete_def)
  then show ?thesis using pool_step.submit [of p j js n] Nil assms(1) by auto
next
  case (Cons it ys)
  obtain i th where it: "it = (i, th)" by force
  show ?thesis
  proof (cases th)
    case (Finished r)
    then show ?thesis using pool_step.finish [of p "[]" i r ys n] Cons it by auto
  next
    case (Step f)
    obtain u t where "f (pl_shared p) = (u, t)" by force
    then show ?thesis using pool_step.step [of p "[]" i f ys u t n] Cons it Step by auto
  qed
qed



section \<open>Invariants of threads\<close>

text \<open>
  The method of Owicki and Gries: every job \<open>i\<close> has an assertion \<open>I i\<close> on what it still has to do and on
  the state, a step keeps the job's own assertion and does not disturb those of the others, and a
  common invariant \<open>G\<close> holds throughout.
\<close>

definition all_threads :: "('s, 'a) pool \<Rightarrow> (nat \<times> ('s, 'a) thread) list" where
  "all_threads p = pl_waiting p @ pl_running p @ map (\<lambda>(i, r). (i, Finished r)) (pl_finished p)"

definition threads_ok :: "(nat \<Rightarrow> ('s, 'a) thread \<Rightarrow> 's \<Rightarrow> bool) \<Rightarrow> ('s \<Rightarrow> bool) \<Rightarrow> ('s, 'a) pool \<Rightarrow> bool" where
  "threads_ok I G p \<longleftrightarrow>
     (\<forall>(i, t) \<in> set (all_threads p). I i t (pl_shared p)) \<and> distinct (map fst (all_threads p)) \<and> G (pl_shared p)"

lemma threads_ok_same:
  assumes "threads_ok I G p" "set (all_threads q) = set (all_threads p)"
    "distinct (map fst (all_threads q))" "pl_shared q = pl_shared p"
  shows "threads_ok I G q"
  using assms by (simp add: threads_ok_def)

locale thread_invariants =
  fixes jobs :: "('s, 'a) thread list"
    and I :: "nat \<Rightarrow> ('s, 'a) thread \<Rightarrow> 's \<Rightarrow> bool"
    and G :: "'s \<Rightarrow> bool"
    and s0 :: 's
  assumes at_start: "i < length jobs \<Longrightarrow> I i (jobs ! i) s0"
    and common_at_start: "G s0"
    and own_step: "I i (Step f) s \<Longrightarrow> G s \<Longrightarrow> f s = (t, u) \<Longrightarrow> I i t u \<and> G u"
    and other_step: "I i (Step f) s \<Longrightarrow> G s \<Longrightarrow> f s = (t, u) \<Longrightarrow> j \<noteq> i \<Longrightarrow> I j t' s \<Longrightarrow> I j t' u"
begin

lemma start_ok: "threads_ok I G (start_pool jobs s0)"
proof -
  have "all_threads (start_pool jobs s0) = enumerate 0 jobs"
    by (simp add: all_threads_def start_pool_def)
  moreover have "I i t s0" if "(i, t) \<in> set (enumerate 0 jobs)" for i t
    using that at_start by (auto simp: in_set_enumerate_eq)
  ultimately show ?thesis using common_at_start by (auto simp: threads_ok_def start_pool_def)
qed

lemma step_ok:
  assumes "pool_step n p q" and "threads_ok I G p"
  shows "threads_ok I G q"
  using assms
proof (induction rule: pool_step.induct)
  case (submit p j js)
  from submit(3) show ?case
    by (rule threads_ok_same) (use submit in \<open>auto simp: threads_ok_def all_threads_def\<close>)
next
  case (step p xs i f ys t u)
  let ?others = "pl_waiting p @ xs @ ys @ map (\<lambda>(i, r). (i, Finished r)) (pl_finished p)"
  have this_ok: "I i (Step f) (pl_shared p)" "G (pl_shared p)"
    using step(1,3) by (auto simp: threads_ok_def all_threads_def)
  have dist: "i \<notin> set (map fst ?others)" "distinct (map fst ?others)"
    using step(1,3) by (auto simp: threads_ok_def all_threads_def)
  have "I j t' u" if j: "(j, t') \<in> set ?others" for j t'
  proof (rule other_step [OF this_ok step(2)])
    show "j \<noteq> i" using dist(1) j by (force simp del: map_append)
    show "I j t' (pl_shared p)" using step(1,3) j by (auto simp: threads_ok_def all_threads_def)
  qed
  moreover have "I i t u" "G u" using own_step [OF this_ok step(2)] by simp_all
  moreover have "set (all_threads (p\<lparr>pl_running := xs @ (i, t) # ys, pl_shared := u\<rparr>)) = insert (i, t) (set ?others)"
    unfolding all_threads_def by (simp add: insert_commute)
  ultimately have "\<forall>x \<in> set (all_threads (p\<lparr>pl_running := xs @ (i, t) # ys, pl_shared := u\<rparr>)). case x of (i, t) \<Rightarrow> I i t u"
    by (metis (no_types, lifting) insertE prod.case_eq_if prod.collapse prod.sel)
  moreover have "distinct (map fst (all_threads (p\<lparr>pl_running := xs @ (i, t) # ys, pl_shared := u\<rparr>)))"
    using step(1,3) by (auto simp: threads_ok_def all_threads_def)
  ultimately show ?case using \<open>G u\<close> unfolding threads_ok_def by simp
next
  case (finish p xs i r ys)
  from finish(2) show ?case
    by (rule threads_ok_same) (use finish in \<open>auto simp: threads_ok_def all_threads_def\<close>)
qed

lemma steps_ok: "pool_steps n (start_pool jobs s0) p \<Longrightarrow> threads_ok I G p"
  by (induction rule: rtranclp_induct) (auto intro: start_ok step_ok)

lemma reached:
  assumes "pool_steps n (start_pool jobs s0) p" "i < length jobs"
  shows "\<exists>t. I i t (pl_shared p)"
proof -
  have ids: "pool_ids p = mset [0..<length jobs]"
    using pool_ok_steps [OF assms(1) pool_ok_start] by (simp add: pool_ok_def)
  have "mset (map fst (all_threads p)) = pool_ids p"
    by (simp add: all_threads_def pool_ids_def comp_def case_prod_unfold)
  then have "i \<in> set (map fst (all_threads p))"
    using ids assms(2) by (metis atLeastLessThan_upt atLeastLessThan_iff le0 set_mset_mset)
  then obtain t where "(i, t) \<in> set (all_threads p)" by auto
  then show ?thesis using steps_ok [OF assms(1)] by (auto simp: threads_ok_def)
qed

lemma complete_ok:
  assumes "pool_steps n (start_pool jobs s0) p" "pool_complete p" "i < length jobs"
  shows "\<exists>r. map_of (pl_finished p) i = Some r \<and> I i (Finished r) (pl_shared p)"
proof -
  have ok: "pool_ok n (mset [0..<length jobs]) p"
    by (rule pool_ok_steps [OF assms(1) pool_ok_start])
  then have "mset (map fst (pl_finished p)) = mset [0..<length jobs]"
    using assms(2) by (simp add: pool_ok_def pool_ids_def pool_complete_def)
  then have "i \<in> set (map fst (pl_finished p))" using assms(3) mset_eq_setD by fastforce
  then obtain r where r: "(i, r) \<in> set (pl_finished p)" by auto
  have "threads_ok I G p" by (rule steps_ok [OF assms(1)])
  then have "distinct (map fst (pl_finished p))" "I i (Finished r) (pl_shared p)"
    using r by (force simp: threads_ok_def all_threads_def comp_def case_prod_unfold)+
  then show ?thesis using r by auto
qed

end

section \<open>Jobs on parts of their own\<close>

text \<open>A thread that only works on part \<open>i\<close> of the state.\<close>

primrec on_part_of :: "nat \<Rightarrow> ('l, 'a) thread \<Rightarrow> (nat \<Rightarrow> 'l, 'a) thread" where
  "on_part_of i (Finished r) = Finished r"
| "on_part_of i (Step f) = Step (\<lambda>s. case (map_prod (on_part_of i) (\<lambda>l. l) \<circ> f) (s i) of (t, l) \<Rightarrow> (t, s(i := l)))"

definition on_parts :: "('l, 'a) thread list \<Rightarrow> (nat \<Rightarrow> 'l, 'a) thread list" where
  "on_parts ts = map (\<lambda>(i, t). on_part_of i t) (enumerate 0 ts)"

fun in_order :: "(exn + 'a) list \<Rightarrow> exn + 'a list" where
  "in_order [] = Inr []"
| "in_order (Inl x # rs) = Inl x"
| "in_order (Inr a # rs) = (case in_order rs of Inl x \<Rightarrow> Inl x | Inr as \<Rightarrow> Inr (a # as))"

text \<open>What running all jobs comes to: every job does its work on its part, and the result is the list of
  results, or the exception of the first job that failed.\<close>

definition all_jobs :: "('l, 'a) thread list \<Rightarrow> (nat \<Rightarrow> 'l) \<Rightarrow> (exn + (nat \<times> 'a) list) \<times> (nat \<Rightarrow> 'l)" where
  "all_jobs ts s =
     (case in_order (map (\<lambda>i. fst (run_thread (ts ! i) (s i))) [0..<length ts]) of
        Inl x \<Rightarrow> Inl x | Inr as \<Rightarrow> Inr (enumerate 0 as),
      \<lambda>i. if i < length ts then snd (run_thread (ts ! i) (s i)) else s i)"

text \<open>What is left to do on part \<open>i\<close> leads to what the job does on its own; other parts stay as they are.\<close>

definition on_track ::
  "('l, 'a) thread list \<Rightarrow> (nat \<Rightarrow> 'l) \<Rightarrow> nat \<Rightarrow> (nat \<Rightarrow> 'l, 'a) thread \<Rightarrow> (nat \<Rightarrow> 'l) \<Rightarrow> bool" where
  "on_track ts s i t now \<longleftrightarrow>
     (\<exists>u. t = on_part_of i u \<and> i < length ts \<and> run_thread u (now i) = run_thread (ts ! i) (s i))"

lemma on_part_of_Step:
  assumes "on_part_of i th = Step f"
  obtains g where "th = Step g" "\<And>s. f s = (case g (s i) of (t, l) \<Rightarrow> (on_part_of i t, s(i := l)))"
  using assms by (cases th) (auto simp: case_prod_unfold)

lemma length_on_parts [simp]: "length (on_parts ts) = length ts"
  by (simp add: on_parts_def)

lemma on_track_step:
  assumes "on_track ts s i (Step f) now" "f now = (t, later)"
  shows "on_track ts s i t later \<and> (\<forall>j. j \<noteq> i \<longrightarrow> later j = now j) \<and> i < length ts"
proof -
  obtain th where th: "on_part_of i th = Step f" "i < length ts" "run_thread th (now i) = run_thread (ts ! i) (s i)"
    using assms(1) by (auto simp: on_track_def)
  obtain g where g: "th = Step g" "f now = (case g (now i) of (t, l) \<Rightarrow> (on_part_of i t, now(i := l)))"
    using on_part_of_Step [OF th(1)] by metis
  obtain t' l where gl: "g (now i) = (t', l)" by force
  have "run_thread t' l = run_thread (ts ! i) (s i)"
    using th(3) run_Step [of g "now i" t' l] gl by (simp add: g)
  then show ?thesis using assms(2) g(2) gl th(2) by (auto simp: on_track_def)
qed

interpretation parts: thread_invariants "on_parts ts" "on_track ts s" "\<lambda>now. \<forall>i. length ts \<le> i \<longrightarrow> now i = s i" s
  for ts s
proof unfold_locales
  show "on_track ts s i (on_parts ts ! i) s" if "i < length (on_parts ts)" for i
    using that by (auto simp: on_track_def on_parts_def nth_enumerate_eq)
next
  fix i f now t later
  assume "on_track ts s i (Step f) now" "\<forall>i. length ts \<le> i \<longrightarrow> now i = s i" "f now = (t, later)"
  then show "on_track ts s i t later \<and> (\<forall>i. length ts \<le> i \<longrightarrow> later i = s i)"
    using on_track_step [of ts s i f now t later] by auto
next
  fix i f now t later j t'
  assume "on_track ts s i (Step f) now" "f now = (t, later)" "j \<noteq> i" "on_track ts s j t' now"
  then show "on_track ts s j t' later"
    using on_track_step [of ts s i f now t later] by (simp add: on_track_def)
qed simp

lemma in_order_length: "in_order rs = Inr as \<Longrightarrow> length as = length rs"
  by (induction rs arbitrary: as rule: in_order.induct) (auto split: sum.splits)

lemma collect_in_order:
  assumes "list_all (\<lambda>i. map_of fs i = Some (res i)) is"
  shows "collect_results fs is =
    (case in_order (map res is) of Inl x \<Rightarrow> Inl x | Inr as \<Rightarrow> Inr (zip is as))"
  using assms
proof (induction "is")
  case (Cons i "is")
  then show ?case by (cases "res i") (auto split: sum.splits)
qed simp

lemma complete_pool_results:
  assumes "pool_steps n (start_pool (on_parts ts) s) p" "pool_complete p"
  shows "(collect_results (pl_finished p) [0..<length ts], pl_shared p) = all_jobs ts s"
proof -
  let ?fs = "pl_finished p"
  have job: "map_of ?fs i = Some (fst (run_thread (ts ! i) (s i)))
      \<and> pl_shared p i = snd (run_thread (ts ! i) (s i))" if i: "i < length ts" for i
  proof -
    have i': "i < length (on_parts ts)" using i by simp
    obtain r u where "map_of ?fs i = Some r" "Finished r = on_part_of i u"
      "run_thread u (pl_shared p i) = run_thread (ts ! i) (s i)"
      using parts.complete_ok [OF assms i'] by (auto simp: on_track_def)
    then show ?thesis by (cases u) (metis fst_conv snd_conv run_thread.simps(1) on_part_of.simps(1) thread.inject(1),
      simp)
  qed
  have "collect_results ?fs [0..<length ts] =
      (case in_order (map (\<lambda>i. fst (run_thread (ts ! i) (s i))) [0..<length ts]) of
        Inl x \<Rightarrow> Inl x | Inr as \<Rightarrow> Inr (zip [0..<length ts] as))"
    by (rule collect_in_order) (simp add: list_all_iff job)
  also have "\<dots> = fst (all_jobs ts s)"
    by (auto simp: all_jobs_def enumerate_eq_zip dest: in_order_length split: sum.splits)
  finally have "collect_results ?fs [0..<length ts] = fst (all_jobs ts s)" .
  moreover have "pl_shared p = snd (all_jobs ts s)"
    using job parts.steps_ok [OF assms(1)] by (auto simp: all_jobs_def threads_ok_def)
  ultimately show ?thesis by simp
qed

lemma pool_completes:
  assumes "0 < n" "pool_ok n ids p"
  shows "\<exists>q. pool_steps n p q \<and> pool_complete q"
  using assms(2)
proof (induction p rule: wf_induct_rule [OF wf_pool_order])
  case (1 p)
  show ?case
  proof (cases "pool_complete p")
    case False
    then obtain q where q: "pool_step n p q"
      using pool_progress [OF assms(1), of p] 1(2) by (auto simp: pool_ok_def)
    then obtain r where "pool_steps n q r" "pool_complete r"
      using 1(1) [OF step_decreases [OF q] pool_ok_step [OF q 1(2)]] by auto
    then show ?thesis using q by (meson converse_rtranclp_into_rtranclp)
  qed auto
qed

lemma concurrent_run_outcome:
  "runs_concurrently n (on_parts ts) s r t \<Longrightarrow> (r, t) = all_jobs ts s"
  by (erule runs_concurrentlyE) (simp add: complete_pool_results)

text \<open>C7: When every job works on a part of the state of its own (as the jobs of different nodes do), running
  them concurrently, in whatever order their steps interleave, has exactly one outcome: all jobs are done
  as if they ran on their own, also those after one that failed, and the result holds their results under
  their numbers, or is the exception of the first job, in the order of the jobs, that failed.\<close>

theorem concurrent_run_refines_all_jobs:
  assumes "0 < n"
  shows "runs_concurrently n (on_parts ts) s r t \<longleftrightarrow> (r, t) = all_jobs ts s"
proof -
  let ?p0 = "start_pool (on_parts ts) s"
  have ok0: "pool_ok n (mset [0..<length ts]) ?p0"
    using pool_ok_start [of n "on_parts ts" s] by simp
  obtain p where p: "pool_steps n ?p0 p" "pool_complete p"
    using pool_completes [OF assms ok0] by blast
  from runs_concurrently.intros [OF p] have "runs_concurrently n (on_parts ts) s
      (collect_results (pl_finished p) [0..<length ts]) (pl_shared p)" by simp
  then have "(r, t) = all_jobs ts s \<Longrightarrow> runs_concurrently n (on_parts ts) s r t"
    using complete_pool_results [OF p] by (metis prod.inject)
  then show ?thesis using concurrent_run_outcome by blast
qed

theorem concurrent_run_refines_all_jobs_witness:
  "runs_concurrently 2 (on_parts [atomic (\<lambda>l. (Inl RuntimeError, l + 1)), atomic (\<lambda>l. (Inr (), l + 2))])
     (\<lambda>i. 5::nat) (Inl RuntimeError) (\<lambda>i. if i = 0 then 6 else if i = 1 then 7 else 5)"
  by (subst concurrent_run_refines_all_jobs)
     (auto simp: all_jobs_def fun_eq_iff numeral_2_eq_2 less_Suc_eq)

end
