(* ===== verification/Nodes.thy ===== *)
theory Nodes
  imports Prepare Pool
begin

text \<open>
  \<open>node_controllers/ssh.py\<close>, \<open>node.py\<close> and \<open>helper_classes/nodes.py\<close>: the machines of a cluster. Node objects
  are shared between the cached list and the cached dictionary, so they live in a store (\<open>ns_store\<close>)
  and are referred to by their position in it. The controller of the nodes is a parameter: what it lists, and
  the addresses it reports (\<open>node_api\<close>); every other call of it is an event of the history.
\<close>

section \<open>SSH connections\<close>

text \<open>\<open>TimeoutError\<close>, \<open>SSHException\<close> and \<open>SCPException\<close>.\<close>

definition TimeoutErr :: exn where "TimeoutErr = External 1"

definition is_network_error :: "exn \<Rightarrow> bool" where
  "is_network_error x \<longleftrightarrow> x \<in> {TimeoutErr, External 2, External 3}"

text \<open>
  \<open>wait_for_tcp_server\<close>: try, sleep a tenth of a second, try again. \<open>now\<close> is the clock in milliseconds.
\<close>

definition tcp_attempt ::
  "env \<Rightarrow> (call list \<Rightarrow> int) \<Rightarrow> string \<Rightarrow> int \<Rightarrow> ((call, 'z) world_scheme, bool) prog" where
  "tcp_attempt e now ip before =
     bindP (reads (\<lambda>s. now (hist s))) (\<lambda>n.
       if n - before < 60000 then
         bindP (ask_bool e ''raw_tcp_connect'' [PStr ip]) (\<lambda>connected.
           if connected then ret True
           else bindP (ext (\<lambda>_. Inr ()) (Controller ''time.sleep'' [PStr ''0.1''])) (\<lambda>_. ret False))
       else raise TimeoutErr)"

partial_function (option) tcp_loop ::
  "('s, bool) prog \<Rightarrow> 's \<Rightarrow> ((exn + unit) \<times> 's) option" where
  "tcp_loop attempt s =
     (case attempt s of
        (Inl x, t) \<Rightarrow> Some (Inl x, t)
      | (Inr connected, t) \<Rightarrow> if connected then Some (Inr (), t) else tcp_loop attempt t)"

definition wait_for_tcp_server ::
  "env \<Rightarrow> (call list \<Rightarrow> int) \<Rightarrow> string \<Rightarrow> ((call, 'z) world_scheme, unit) prog" where
  "wait_for_tcp_server e now ip =
     bindP (reads (\<lambda>s. now (hist s))) (\<lambda>before. or_diverges (tcp_loop (tcp_attempt e now ip before)))"

definition ssh_connect :: "env \<Rightarrow> (call list \<Rightarrow> int) \<Rightarrow> string \<Rightarrow> ((call, 'z) world_scheme, unit) prog" where
  "ssh_connect e now ip = thenP (wait_for_tcp_server e now ip) (act e ''ssh.connect'' [PStr ip])"

definition ssh_close :: "env \<Rightarrow> string \<Rightarrow> ((call, 'z) world_scheme, unit) prog" where
  "ssh_close e ip = act e ''ssh.close'' [PStr ip]"

text \<open>The output of a command; a status other than 0 raises.\<close>

definition ssh_script :: "env \<Rightarrow> string \<Rightarrow> string \<Rightarrow> ((call, 'z) world_scheme, string) prog" where
  "ssh_script e ip command =
     bindP (ext (\<lambda>h. e_run e h command) (NodeCommand ''script'' ip [PStr command])) (\<lambda>p.
       if p_rc p \<noteq> 0 then raise RuntimeError else ret (p_out p))"

definition background_command :: "string \<Rightarrow> string" where
  "background_command bash_script =
     join [newline] [''nohup sh << '' @ [CHR 0x27] @ ''RACKATTACK_SSH_RUN_SCRIPT_EOF'' @ [CHR 0x27] @ '' >& /dev/null &'',
       bash_script, ''RACKATTACK_SSH_RUN_SCRIPT_EOF'' @ [newline]]"

definition ssh_background_script :: "env \<Rightarrow> string \<Rightarrow> string \<Rightarrow> ((call, 'z) world_scheme, unit) prog" where
  "ssh_background_script e ip bash_script =
     thenP (act e ''open_session'' [PStr ip])
       (try_finally
         (bindP (ext (\<lambda>h. e_run e h (background_command bash_script))
                   (NodeCommand ''exec_command'' ip [PStr (background_command bash_script)])) (\<lambda>p.
            whenP (p_rc p \<noteq> 0) (raise RuntimeError)))
         (act e ''close_session'' [PStr ip]))"

section \<open>Nodes and their store\<close>

record node =
  nd_name :: string
  nd_role :: string
  nd_ips :: "string list"
  nd_macs :: "string list"
  nd_original_vcpu_count :: pyval
  nd_original_ram_kib :: pyval

record nodes_state = "call world" +
  ns_store :: "node list"
  ns_nodes :: "nat list option"
  ns_nodes_as_dict :: "(string, nat) dict option"
  ns_is_prepared :: bool

type_synonym ('z, 'a) nprog = "('z nodes_state_scheme, 'a) prog"

record node_api =
  nc_list_nodes :: "call list \<Rightarrow> exn + node list"
  nc_get_node_ips_and_macs :: "call list \<Rightarrow> string \<Rightarrow> exn + string list \<times> string list"
  nc_now :: "call list \<Rightarrow> int"
  nc_tf_platform :: string

definition get_node :: "nat \<Rightarrow> ('z, node) nprog" where
  "get_node r = reads (\<lambda>s. ns_store s ! r)"

definition put_node :: "nat \<Rightarrow> (node \<Rightarrow> node) \<Rightarrow> ('z, unit) nprog" where
  "put_node r f = modifies (\<lambda>s. s\<lparr>ns_store := (ns_store s)[r := f (ns_store s ! r)]\<rparr>)"

text \<open>A call of the controller for the node by its name.\<close>

definition node_act :: "env \<Rightarrow> string \<Rightarrow> nat \<Rightarrow> pyval list \<Rightarrow> ('z, unit) nprog" where
  "node_act e what r args = bindP (get_node r) (\<lambda>n. do_call e (NodeCommand what (nd_name n) args))"

definition node_ask :: "env \<Rightarrow> string \<Rightarrow> nat \<Rightarrow> pyval list \<Rightarrow> ('z, pyval) nprog" where
  "node_ask e what r args = bindP (get_node r) (\<lambda>n. ask_call e (NodeCommand what (nd_name n) args))"

text \<open>\<open>Node(name, ...)\<close>, which asks for the original resources; its caches are empty.\<close>

definition node_init :: "env \<Rightarrow> string \<Rightarrow> string \<Rightarrow> ((call, 'z) world_scheme, node) prog" where
  "node_init e name role =
     bindP (ask_call e (NodeCommand ''get_cpu_cores'' name [])) (\<lambda>vcpu.
       bindP (ask_call e (NodeCommand ''get_ram_kib'' name [])) (\<lambda>ram.
         ret \<lparr>nd_name = name, nd_role = role, nd_ips = [], nd_macs = [],
              nd_original_vcpu_count = vcpu, nd_original_ram_kib = ram\<rparr>))"

definition node_role_of :: "node \<Rightarrow> string" where
  "node_role_of n =
     (if nd_role n \<noteq> [] then nd_role n
      else if occurs_in (role_value Master) (nd_name n) then role_value Master
      else if occurs_in (role_value Worker) (nd_name n) then role_value Worker
      else if occurs_in (role_value Arbiter) (nd_name n) then role_value Arbiter
      else role_value AutoAssign)"

definition is_master_in_name :: "node \<Rightarrow> bool" where
  "is_master_in_name n \<longleftrightarrow> node_role_of n = role_value Master"

definition is_worker_in_name :: "node \<Rightarrow> bool" where
  "is_worker_in_name n \<longleftrightarrow> node_role_of n = role_value Worker"

definition is_arbiter_in_name :: "node \<Rightarrow> bool" where
  "is_arbiter_in_name n \<longleftrightarrow> node_role_of n = role_value Arbiter"

section \<open>Operations on a node\<close>

definition set_ips_and_macs :: "node_api \<Rightarrow> nat \<Rightarrow> ('z, unit) nprog" where
  "set_ips_and_macs c r =
     bindP (get_node r) (\<lambda>n.
       bindP (ext (\<lambda>h. nc_get_node_ips_and_macs c h (nd_name n)) (NodeCommand ''get_node_ips_and_macs'' (nd_name n) []))
         (\<lambda>(ips, macs). put_node r (\<lambda>n. n\<lparr>nd_ips := ips, nd_macs := macs\<rparr>)))"

definition node_ips :: "node_api \<Rightarrow> nat \<Rightarrow> ('z, string list) nprog" where
  "node_ips c r =
     bindP (get_node r) (\<lambda>n.
       if nd_ips n = [] then thenP (set_ips_and_macs c r) (bindP (get_node r) (\<lambda>n. ret (nd_ips n)))
       else ret (nd_ips n))"

definition node_macs :: "node_api \<Rightarrow> nat \<Rightarrow> ('z, string list) nprog" where
  "node_macs c r =
     bindP (get_node r) (\<lambda>n.
       if nd_macs n = [] then thenP (set_ips_and_macs c r) (bindP (get_node r) (\<lambda>n. ret (nd_macs n)))
       else ret (nd_macs n))"

text \<open>
  The loop of \<open>ssh_connection\<close>: the first address that answers. Network errors are kept for the end;
  the last one is raised. Without addresses nothing is returned.
\<close>

fun try_addresses ::
  "(string \<Rightarrow> ('s, unit) prog) \<Rightarrow> string list \<Rightarrow> exn option \<Rightarrow> ('s, string option) prog" where
  "try_addresses connect [] exception = (case exception of None \<Rightarrow> ret None | Some x \<Rightarrow> raise x)"
| "try_addresses connect (ip # ips) exception =
     bindP (try_except (thenP (connect ip) (ret None))
              (\<lambda>x. if is_network_error x then ret (Some x) else raise x))
       (\<lambda>r. case r of None \<Rightarrow> ret (Some ip) | Some x \<Rightarrow> try_addresses connect ips (Some x))"

definition ssh_connection :: "env \<Rightarrow> node_api \<Rightarrow> nat \<Rightarrow> ('z, string option) nprog" where
  "ssh_connection e c r =
     bindP (node_ips c r) (\<lambda>ips.
       if ips = [] then raise RuntimeError
       else bindP (node_ips c r) (\<lambda>ips. try_addresses (ssh_connect e (nc_now c)) ips None))"

text \<open>
  \<open>with self.ssh_connection as _ssh\<close>: the property returns a connection that is connected, and entering the
  block connects it again.
\<close>

definition with_connection ::
  "env \<Rightarrow> node_api \<Rightarrow> nat \<Rightarrow> (string \<Rightarrow> ('z, 'a) nprog) \<Rightarrow> ('z, 'a) nprog" where
  "with_connection e c r body =
     bindP (ssh_connection e c r) (\<lambda>connection.
       case connection of
         None \<Rightarrow> raise AttributeError
       | Some ip \<Rightarrow> thenP (ssh_connect e (nc_now c) ip) (try_finally (body ip) (ssh_close e ip)))"

definition node_upload_file :: "env \<Rightarrow> node_api \<Rightarrow> nat \<Rightarrow> string \<Rightarrow> string \<Rightarrow> ('z, unit) nprog" where
  "node_upload_file e c r local_source_path remote_target_path =
     with_connection e c r (\<lambda>ip. act e ''scp.put'' [PStr ip, PStr local_source_path, PStr remote_target_path])"

definition node_download_file :: "env \<Rightarrow> node_api \<Rightarrow> nat \<Rightarrow> string \<Rightarrow> string \<Rightarrow> ('z, unit) nprog" where
  "node_download_file e c r remote_source_path local_target_path =
     with_connection e c r (\<lambda>ip. act e ''scp.get'' [PStr ip, PStr remote_source_path, PStr local_target_path])"

definition node_run_command :: "env \<Rightarrow> node_api \<Rightarrow> nat \<Rightarrow> string \<Rightarrow> bool \<Rightarrow> ('z, string) nprog" where
  "node_run_command e c r bash_command background =
     bindP (node_ask e ''is_active'' r []) (\<lambda>active.
       if \<not> truth active then raise RuntimeError
       else with_connection e c r (\<lambda>ip.
         if background then thenP (ssh_background_script e ip bash_command) (ret [])
         else ssh_script e ip bash_command))"

definition node_shutdown :: "env \<Rightarrow> nat \<Rightarrow> ('z, unit) nprog" where
  "node_shutdown e r = node_act e ''shutdown_node'' r []"

definition node_start :: "env \<Rightarrow> bool \<Rightarrow> nat \<Rightarrow> ('z, unit) nprog" where
  "node_start e check_ips r = node_act e ''start_node'' r [PBool check_ips]"

definition node_format_disk :: "env \<Rightarrow> int \<Rightarrow> nat \<Rightarrow> ('z, unit) nprog" where
  "node_format_disk e disk_index r = node_act e ''format_node_disk'' r [PInt disk_index]"

definition node_set_boot_order :: "env \<Rightarrow> bool \<Rightarrow> nat \<Rightarrow> ('z, unit) nprog" where
  "node_set_boot_order e cd_first r = node_act e ''set_boot_order'' r [PBool cd_first, PNone]"

definition restart_service :: "env \<Rightarrow> node_api \<Rightarrow> nat \<Rightarrow> string \<Rightarrow> ('z, unit) nprog" where
  "restart_service e c r service =
     thenP (node_run_command e c r (''sudo systemctl restart '' @ service @ ''.service'') False) (ret ())"

definition kill_service :: "env \<Rightarrow> node_api \<Rightarrow> nat \<Rightarrow> string \<Rightarrow> ('z, unit) nprog" where
  "kill_service e c r service =
     thenP (node_run_command e c r (''sudo systemctl kill '' @ service @ ''.service || true'') False) (ret ())"

definition kill_podman_container_by_name :: "env \<Rightarrow> node_api \<Rightarrow> nat \<Rightarrow> string \<Rightarrow> ('z, unit) nprog" where
  "kill_podman_container_by_name e c r container_name =
     thenP (node_run_command e c r
              (''sudo su root -c '' @ [CHR 0x27] @ ''podman ps | grep '' @ container_name @ [CHR 0x27]) False)
       (thenP (node_run_command e c r
              (''sudo su root -c '' @ [CHR 0x27] @ ''podman kill '' @ container_name @ [CHR 0x27]) False) (ret ()))"

definition kill_installer :: "env \<Rightarrow> node_api \<Rightarrow> nat \<Rightarrow> ('z, unit) nprog" where
  "kill_installer e c r = kill_podman_container_by_name e c r ''assisted-installer''"

definition is_service_active :: "env \<Rightarrow> node_api \<Rightarrow> nat \<Rightarrow> string \<Rightarrow> ('z, bool) nprog" where
  "is_service_active e c r service =
     bindP (node_run_command e c r (''sudo systemctl is-active '' @ service @ ''.service || true'') False)
       (\<lambda>output. ret (strip output = ''active''))"

definition reset_cpu_cores :: "env \<Rightarrow> nat \<Rightarrow> ('z, unit) nprog" where
  "reset_cpu_cores e r = bindP (get_node r) (\<lambda>n. node_act e ''set_cpu_cores'' r [nd_original_vcpu_count n])"

definition reset_ram_kib :: "env \<Rightarrow> nat \<Rightarrow> ('z, unit) nprog" where
  "reset_ram_kib e r = bindP (get_node r) (\<lambda>n. node_act e ''set_ram_kib'' r [nd_original_ram_kib n])"

text \<open>The methods that are run on many nodes, as the steps another thread may come between.\<close>

datatype node_method =
    Shutdown
  | Start bool
  | Restart
  | FormatDisk
  | Reset
  | SetBootOrderFlow bool bool

fun method_steps :: "env \<Rightarrow> node_method \<Rightarrow> nat \<Rightarrow> ('z, unit) nprog list" where
  "method_steps e Shutdown r = [node_shutdown e r]"
| "method_steps e (Start check_ips) r = [node_start e check_ips r]"
| "method_steps e Restart r = [node_shutdown e r, node_start e True r]"
| "method_steps e FormatDisk r = [node_format_disk e 0 r]"
| "method_steps e Reset r = [node_shutdown e r, node_format_disk e 0 r, node_start e True r]"
| "method_steps e (SetBootOrderFlow cd_first start) r =
     [node_shutdown e r, node_set_boot_order e cd_first r] @ (if start then [node_start e True r] else [])"

text \<open>The programs in turn; the first exception ends the thread.\<close>

fun in_steps :: "('s, unit) prog list \<Rightarrow> ('s, unit) thread" where
  "in_steps [] = Finished (Inr ())"
| "in_steps (m # ms) = Step (\<lambda>s. case m s of (Inl x, t) \<Rightarrow> (Finished (Inl x), t) | (Inr _, t) \<Rightarrow> (in_steps ms, t))"

definition method_job :: "env \<Rightarrow> node_method \<Rightarrow> nat \<Rightarrow> ('z nodes_state_scheme, unit) thread" where
  "method_job e m r = in_steps (method_steps e m r)"

section \<open>The nodes of a cluster\<close>

definition list_nodes :: "node_api \<Rightarrow> ('z, nat list) nprog" where
  "list_nodes c =
     bindP (ext (nc_list_nodes c) (Controller ''list_nodes'' [])) (\<lambda>ns.
       bindP (reads (\<lambda>s. length (ns_store s))) (\<lambda>k.
         thenP (modifies (\<lambda>s. s\<lparr>ns_store := ns_store s @ ns\<rparr>)) (ret [k..<k + length ns])))"

definition nodes :: "node_api \<Rightarrow> ('z, nat list) nprog" where
  "nodes c =
     bindP (reads ns_nodes) (\<lambda>cache.
       case cache of
         Some (r # rs) \<Rightarrow> ret (r # rs)
       | _ \<Rightarrow> bindP (list_nodes c) (\<lambda>rs. thenP (modifies (\<lambda>s. s\<lparr>ns_nodes := Some rs\<rparr>)) (ret rs)))"

definition by_name :: "'z nodes_state_scheme \<Rightarrow> nat list \<Rightarrow> (string, nat) dict" where
  "by_name s rs = dict_update [] (map (\<lambda>r. (nd_name (ns_store s ! r), r)) rs)"

definition nodes_as_dict :: "node_api \<Rightarrow> ('z, (string, nat) dict) nprog" where
  "nodes_as_dict c =
     bindP (reads ns_nodes_as_dict) (\<lambda>cache.
       case cache of
         Some (kv # d) \<Rightarrow> ret (kv # d)
       | _ \<Rightarrow> bindP (nodes c) (\<lambda>rs. bindP (reads (\<lambda>s. by_name s rs)) (\<lambda>d.
           thenP (modifies (\<lambda>s. s\<lparr>ns_nodes_as_dict := Some d\<rparr>)) (ret d))))"

definition drop_cache :: "('z, unit) nprog" where
  "drop_cache = modifies (\<lambda>s. s\<lparr>ns_nodes := None, ns_nodes_as_dict := None\<rparr>)"

definition nodes_get_nodes :: "node_api \<Rightarrow> bool \<Rightarrow> ('z, nat list) nprog" where
  "nodes_get_nodes c refresh = thenP (whenP refresh drop_cache) (nodes c)"

definition nodes_with :: "node_api \<Rightarrow> (node \<Rightarrow> bool) \<Rightarrow> ('z, nat list) nprog" where
  "nodes_with c P = bindP (nodes c) (\<lambda>rs. reads (\<lambda>s. filter (\<lambda>r. P (ns_store s ! r)) rs))"

definition get_masters :: "node_api \<Rightarrow> ('z, nat list) nprog" where
  "get_masters c = nodes_with c is_master_in_name"

definition get_workers :: "node_api \<Rightarrow> ('z, nat list) nprog" where
  "get_workers c = nodes_with c is_worker_in_name"

definition get_arbiters :: "node_api \<Rightarrow> ('z, nat list) nprog" where
  "get_arbiters c = nodes_with c is_arbiter_in_name"

definition nodes_prepare_nodes :: "env \<Rightarrow> ('z, unit) nprog" where
  "nodes_prepare_nodes e =
     bindP (reads ns_is_prepared) (\<lambda>prepared.
       whenP (\<not> prepared)
         (thenP (act e ''prepare_nodes'' []) (modifies (\<lambda>s. s\<lparr>ns_is_prepared := True\<rparr>))))"

definition destroy_all_nodes :: "env \<Rightarrow> ('z, unit) nprog" where
  "destroy_all_nodes e =
     thenP (act e ''destroy_all_nodes'' []) (modifies (\<lambda>s. s\<lparr>ns_is_prepared := False\<rparr>))"

definition get_node_by_hostname :: "node_api \<Rightarrow> string \<Rightarrow> ('z, nat) nprog" where
  "get_node_by_hostname c hostname =
     bindP (nodes_as_dict c) (\<lambda>d. case dict_get d hostname of None \<Rightarrow> raise (KeyError hostname) | Some r \<Rightarrow> ret r)"

definition get_cluster_hostname :: "host \<Rightarrow> exn + string" where
  "get_cluster_hostname h =
     (case h_inventory h of
        Missing \<Rightarrow> Inl (KeyError ''inventory'') | Null \<Rightarrow> Inl TypeError | Has i \<Rightarrow> Inr (inv_hostname i))"

definition get_node_from_cluster_host :: "node_api \<Rightarrow> host \<Rightarrow> ('z, nat) nprog" where
  "get_node_from_cluster_host c h = bindP (sum_prog (get_cluster_hostname h)) (get_node_by_hostname c)"

text \<open>The host of the bootstrap, if one of \<open>hosts\<close> (\<open>cluster.get_hosts()\<close>) has the flag.\<close>

definition get_bootstrap_node :: "node_api \<Rightarrow> host list \<Rightarrow> ('z, nat option) nprog" where
  "get_bootstrap_node c hosts =
     (case find h_bootstrap hosts of
        None \<Rightarrow> ret None
      | Some h \<Rightarrow> bindP (get_node_from_cluster_host c h) (\<lambda>r. ret (Some r)))"

text \<open>\<open>node_mapping_dict[name] = NodeMapping(node, host)\<close> for every host in turn.\<close>

fun nodes_hosts_mapping ::
  "node_api \<Rightarrow> host list \<Rightarrow> (string, nat \<times> host) dict \<Rightarrow> ('z, (string, nat \<times> host) dict) nprog" where
  "nodes_hosts_mapping c [] d = ret d"
| "nodes_hosts_mapping c (h # hs) d =
     bindP (sum_prog (get_cluster_hostname h)) (\<lambda>name.
       bindP (get_node_by_hostname c name) (\<lambda>r. nodes_hosts_mapping c hs (dict_set name (r, h) d)))"

definition create_nodes_cluster_hosts_mapping ::
  "node_api \<Rightarrow> host list \<Rightarrow> ('z, (string, nat \<times> host) dict) nprog" where
  "create_nodes_cluster_hosts_mapping c hosts = nodes_hosts_mapping c hosts []"

definition get_cluster_host_obj_from_node :: "node_api \<Rightarrow> host list \<Rightarrow> nat \<Rightarrow> ('z, host) nprog" where
  "get_cluster_host_obj_from_node c hosts r =
     bindP (create_nodes_cluster_hosts_mapping c hosts) (\<lambda>d. bindP (get_node r) (\<lambda>n.
       case dict_get d (nd_name n) of None \<Rightarrow> raise (KeyError (nd_name n)) | Some (_, h) \<Rightarrow> ret h))"

text \<open>\<open>all(node.macs and node.ips for node in self.nodes)\<close>: the first node without either ends the check.\<close>

fun all_have_addresses :: "node_api \<Rightarrow> nat list \<Rightarrow> ('z, bool) nprog" where
  "all_have_addresses c [] = ret True"
| "all_have_addresses c (r # rs) =
     bindP (node_macs c r) (\<lambda>macs.
       if macs = [] then ret False
       else bindP (node_ips c r) (\<lambda>ips. if ips = [] then ret False else all_have_addresses c rs))"

definition are_nodes_network_prepared :: "node_api \<Rightarrow> ('z, bool) nprog" where
  "are_nodes_network_prepared c = bindP (nodes c) (all_have_addresses c)"

type_synonym 'z nwaiter = "('z nodes_state_scheme, unit) waiter"

definition wait_for_networking :: "'z nwaiter \<Rightarrow> node_api \<Rightarrow> int \<Rightarrow> int \<Rightarrow> ('z, unit) nprog" where
  "wait_for_networking wait c timeout interval =
     thenP (bindP (nodes c) (\<lambda>_. ret ()))
       (suppressing (\<lambda>x. x = TimeoutExpired)
         (wait (bindP (are_nodes_network_prepared c) (\<lambda>b. ret (truthy b))) timeout interval no_exceptions))"

fun all_connect :: "env \<Rightarrow> node_api \<Rightarrow> nat list \<Rightarrow> ('z, bool) nprog" where
  "all_connect e c [] = ret True"
| "all_connect e c (r # rs) =
     bindP (ssh_connection e c r) (\<lambda>connection. if connection = None then ret False else all_connect e c rs)"

definition all_nodes_allow_ssh_connection :: "env \<Rightarrow> node_api \<Rightarrow> ('z, bool) nprog" where
  "all_nodes_allow_ssh_connection e c =
     try_except (bindP (nodes c) (all_connect e c)) (\<lambda>x. if is_network_error x then ret False else raise x)"

definition wait_till_nodes_are_ssh_ready :: "'z nwaiter \<Rightarrow> env \<Rightarrow> node_api \<Rightarrow> ('z, unit) nprog" where
  "wait_till_nodes_are_ssh_ready wait e c =
     thenP (bindP (nodes c) (\<lambda>_. ret ()))
       (wait (bindP (all_nodes_allow_ssh_connection e c) (\<lambda>b. ret (truthy b))) 180 20 no_exceptions)"

section \<open>Running a method on many nodes\<close>

text \<open>On Nutanix one node after the other, with a list of results; otherwise on the pool, with numbered results.\<close>

datatype 'a results = Listed "'a list" | Numbered "(nat \<times> 'a) list"

inductive run_for_given_nodes ::
  "string \<Rightarrow> (nat \<Rightarrow> ('s, 'a) thread) \<Rightarrow> nat list \<Rightarrow> 's \<Rightarrow> exn + 'a results \<Rightarrow> 's \<Rightarrow> bool"
  for tf_platform job rs s where
  in_turn: "tf_platform = platform_value Nutanix \<Longrightarrow> collect (\<lambda>r. run_thread (job r)) rs s = (res, t) \<Longrightarrow>
    run_for_given_nodes tf_platform job rs s (map_sum (\<lambda>x. x) Listed res) t"
| at_once: "tf_platform \<noteq> platform_value Nutanix \<Longrightarrow> runs_concurrently 5 (map job rs) s res t \<Longrightarrow>
    run_for_given_nodes tf_platform job rs s (map_sum (\<lambda>x. x) Numbered res) t"

inductive_cases run_for_given_nodesE: "run_for_given_nodes tf_platform job rs s res t"

inductive run_for_all_nodes ::
  "env \<Rightarrow> node_api \<Rightarrow> node_method \<Rightarrow> 'z nodes_state_scheme \<Rightarrow> exn + unit results \<Rightarrow> 'z nodes_state_scheme \<Rightarrow> bool"
  for e c m s where
  not_listed: "nodes c s = (Inl x, t) \<Longrightarrow> run_for_all_nodes e c m s (Inl x) t"
| run: "nodes c s = (Inr rs, u) \<Longrightarrow> run_for_given_nodes (nc_tf_platform c) (method_job e m) rs u res t \<Longrightarrow>
    run_for_all_nodes e c m s res t"

text \<open>
  \<open>shutdown_all\<close>, \<open>reboot_all\<close>, and with given nodes \<open>start_given\<close>, \<open>shutdown_given\<close>, \<open>reboot_given\<close>: the cache is dropped
  afterwards, unless an exception was raised.
\<close>

inductive run_and_drop ::
  "env \<Rightarrow> node_api \<Rightarrow> node_method \<Rightarrow> 'z nodes_state_scheme \<Rightarrow> nat list option \<Rightarrow> exn + unit \<Rightarrow> 'z nodes_state_scheme \<Rightarrow> bool"
  for e c m s where
  all_nodes: "run_for_all_nodes e c m s res t \<Longrightarrow>
    thenP (sum_prog res) drop_cache t = (r, u) \<Longrightarrow> run_and_drop e c m s None r u"
| given_nodes: "run_for_given_nodes (nc_tf_platform c) (method_job e m) rs s res t \<Longrightarrow>
    thenP (sum_prog res) drop_cache t = (r, u) \<Longrightarrow> run_and_drop e c m s (Some rs) r u"

text \<open>
  \<open>set_correct_boot_order\<close> and \<open>set_wrong_boot_order\<close> (which also logs the names of all nodes): the given nodes, or all if
  none are given.
\<close>

definition chosen_nodes :: "node_api \<Rightarrow> bool \<Rightarrow> nat list \<Rightarrow> ('z, nat list) nprog" where
  "chosen_nodes c wrong rs =
     bindP (if rs = [] then nodes c else ret rs) (\<lambda>rs.
       if wrong then bindP (nodes_as_dict c) (\<lambda>_. ret rs) else ret rs)"

inductive set_boot_order_of_nodes ::
  "env \<Rightarrow> node_api \<Rightarrow> bool \<Rightarrow> nat list \<Rightarrow> bool \<Rightarrow> 'z nodes_state_scheme \<Rightarrow> exn + unit results \<Rightarrow> 'z nodes_state_scheme \<Rightarrow> bool"
  for e c wrong rs start_nodes s where
  not_chosen: "chosen_nodes c wrong rs s = (Inl x, t) \<Longrightarrow> set_boot_order_of_nodes e c wrong rs start_nodes s (Inl x) t"
| chosen: "chosen_nodes c wrong rs s = (Inr rs', u) \<Longrightarrow>
    run_for_given_nodes (nc_tf_platform c) (method_job e (SetBootOrderFlow wrong start_nodes)) rs' u res t \<Longrightarrow>
    set_boot_order_of_nodes e c wrong rs start_nodes s res t"

section \<open>The caches\<close>

text \<open>
  References are positions in the store, and a dictionary that is not empty is that of the nodes in the
  cached list.
\<close>

definition nodes_ok :: "'z nodes_state_scheme \<Rightarrow> bool" where
  "nodes_ok s \<longleftrightarrow>
     (case ns_nodes s of None \<Rightarrow> True | Some rs \<Rightarrow> list_all (\<lambda>r. r < length (ns_store s)) rs)
     \<and> (case ns_nodes_as_dict s of None \<Rightarrow> True
        | Some d \<Rightarrow> d = [] \<or> (\<exists>rs. ns_nodes s = Some rs \<and> rs \<noteq> [] \<and> d = by_name s rs))"

definition nodes_kept :: "'z nodes_state_scheme \<Rightarrow> 'z nodes_state_scheme \<Rightarrow> bool" where
  "nodes_kept s t \<longleftrightarrow> nodes_ok s \<longrightarrow> nodes_ok t"

interpretation kept: state_rel nodes_kept
  by unfold_locales (auto simp: nodes_kept_def)

lemma nodes_ok_cong:
  assumes "ns_store t = ns_store s" "ns_nodes t = ns_nodes s" "ns_nodes_as_dict t = ns_nodes_as_dict s"
  shows "nodes_ok t = nodes_ok s"
  unfolding nodes_ok_def by_name_def assms ..

lemma nodes_ok_hist [simp]: "nodes_ok (s\<lparr>hist := h\<rparr>) = nodes_ok s"
  by (rule nodes_ok_cong) simp_all

lemma nodes_ok_prepared [simp]: "nodes_ok (s\<lparr>ns_is_prepared := b\<rparr>) = nodes_ok s"
  by (rule nodes_ok_cong) simp_all

lemma kept_ext: "keeps nodes_kept (ext f x)"
  by (simp add: keeps_def ext_def nodes_kept_def)

lemma kept_modifies: "(\<And>s. nodes_ok s \<Longrightarrow> nodes_ok (f s)) \<Longrightarrow> keeps nodes_kept (modifies f)"
  by (simp add: keeps_def modifies_def nodes_kept_def)

lemma kept_sum_prog: "keeps nodes_kept (sum_prog r)"
  by (cases r) (simp_all add: sum_prog_def kept.keeps_ret kept.keeps_raise)

lemma by_name_cong:
  assumes "list_all (\<lambda>r. nd_name (ns_store t ! r) = nd_name (ns_store s ! r)) rs"
  shows "by_name t rs = by_name s rs"
proof -
  have "map (\<lambda>r. (nd_name (ns_store t ! r), r)) rs = map (\<lambda>r. (nd_name (ns_store s ! r), r)) rs"
    using assms by (simp add: list_all_iff)
  then show ?thesis by (simp only: by_name_def)
qed

lemma kept_put_node:
  assumes "\<And>n. nd_name (f n) = nd_name n"
  shows "keeps nodes_kept (put_node r f)"
  unfolding put_node_def
proof (rule kept_modifies)
  fix s :: "'a nodes_state_scheme"
  let ?t = "s\<lparr>ns_store := (ns_store s)[r := f (ns_store s ! r)]\<rparr>"
  assume ok: "nodes_ok s"
  have "nd_name (ns_store ?t ! x) = nd_name (ns_store s ! x)" for x
    using assms by (cases "r < length (ns_store s)") (auto simp: nth_list_update list_update_beyond)
  then have "by_name ?t rs = by_name s rs" for rs
    by (intro by_name_cong) (simp add: list_all_iff)
  with ok show "nodes_ok ?t" by (simp add: nodes_ok_def split: option.splits)
qed

lemma kept_list_nodes: "keeps nodes_kept (list_nodes c)"
proof -
  have "nodes_ok (s\<lparr>ns_store := ns_store s @ ns\<rparr>)" if "nodes_ok s" for s :: "'a nodes_state_scheme" and ns
  proof -
    let ?t = "s\<lparr>ns_store := ns_store s @ ns\<rparr>"
    have "by_name ?t rs = by_name s rs" if "list_all (\<lambda>r. r < length (ns_store s)) rs" for rs
      using that by (intro by_name_cong) (simp add: list_all_iff nth_append)
    then show ?thesis
      using that by (auto simp: nodes_ok_def list_all_iff split: option.splits)
  qed
  then show ?thesis
    unfolding list_nodes_def by (intro kept.keeps_intros kept_ext kept_modifies)
qed

text \<open>Listing gives positions of the store; the cache is refilled only when it holds nothing.\<close>

lemma list_nodes_Inr:
  "list_nodes c s = (Inr rs, t) \<Longrightarrow>
     list_all (\<lambda>r. r < length (ns_store t)) rs \<and> ns_nodes t = ns_nodes s \<and> ns_nodes_as_dict t = ns_nodes_as_dict s"
  by (auto simp: list_nodes_def bindP_def ext_app prog_simps list_all_iff split: sum.splits)

lemma nodes_Inr:
  assumes "nodes c s = (Inr rs, t)" "nodes_ok s"
  shows "nodes_ok t \<and> ns_nodes t = Some rs \<and> ns_nodes_as_dict t = ns_nodes_as_dict s"
proof (cases "ns_nodes s")
  case (Some cached)
  show ?thesis
  proof (cases cached)
    case (Cons r rs')
    then show ?thesis using assms Some by (simp add: nodes_def prog_simps)
  next
    case Nil
    then obtain u where u: "list_nodes c s = (Inr rs, u)" "t = u\<lparr>ns_nodes := Some rs\<rparr>"
      using assms(1) Some by (auto simp: nodes_def prog_simps elim!: bindP_InrE)
    have "nodes_ok u" using keepsD [OF kept_list_nodes u(1)] assms(2) by (simp add: nodes_kept_def)
    then show ?thesis
      using list_nodes_Inr [OF u(1)] u(2) Some Nil assms(2) by (auto simp: nodes_ok_def by_name_def split: option.splits)
  qed
next
  case None
  then obtain u where u: "list_nodes c s = (Inr rs, u)" "t = u\<lparr>ns_nodes := Some rs\<rparr>"
    using assms(1) by (auto simp: nodes_def prog_simps elim!: bindP_InrE)
  have "nodes_ok u" using keepsD [OF kept_list_nodes u(1)] assms(2) by (simp add: nodes_kept_def)
  then show ?thesis
    using list_nodes_Inr [OF u(1)] u(2) None assms(2) by (auto simp: nodes_ok_def by_name_def split: option.splits)
qed

lemma kept_nodes: "keeps nodes_kept (nodes c)"
proof (rule keepsI)
  fix s :: "'a nodes_state_scheme" and r t
  assume run: "nodes c s = (r, t)"
  show "nodes_kept s t"
  proof (cases r)
    case (Inr rs)
    then show ?thesis using nodes_Inr run by (auto simp: nodes_kept_def)
  next
    case (Inl x)
    then have "list_nodes c s = (Inl x, t)"
      using run by (auto simp: nodes_def prog_simps bindP_eq_Inl_iff split: option.splits list.splits)
    then show ?thesis using keepsD [OF kept_list_nodes] by blast
  qed
qed

lemma nodes_as_dict_Inr:
  assumes "nodes_as_dict c s = (Inr d, t)" "nodes_ok s"
  shows "nodes_ok t \<and> (\<exists>rs. ns_nodes t = Some rs \<and> d = by_name t rs)"
proof (cases "\<exists>kv d'. ns_nodes_as_dict s = Some (kv # d')")
  case True
  then have "ns_nodes_as_dict s = Some d" "t = s" "d \<noteq> []"
    using assms(1) by (auto simp: nodes_as_dict_def prog_simps)
  then show ?thesis using assms(2) by (auto simp: nodes_ok_def)
next
  case False
  then obtain rs u where u: "nodes c s = (Inr rs, u)" "d = by_name u rs" "t = u\<lparr>ns_nodes_as_dict := Some d\<rparr>"
    using assms(1) by (auto simp: nodes_as_dict_def prog_simps elim!: bindP_InrE split: option.splits list.splits)
  have "by_name t rs = by_name u rs" using u(3) by (intro by_name_cong) (simp add: list_all_iff)
  moreover have "by_name u [] = []" by (simp add: by_name_def)
  ultimately show ?thesis
    using nodes_Inr [OF u(1) assms(2)] u by (auto simp: nodes_ok_def)
qed

lemma kept_nodes_as_dict: "keeps nodes_kept (nodes_as_dict c)"
proof (rule keepsI)
  fix s :: "'a nodes_state_scheme" and r t
  assume run: "nodes_as_dict c s = (r, t)"
  show "nodes_kept s t"
  proof (cases r)
    case (Inr d)
    then show ?thesis using nodes_as_dict_Inr run by (auto simp: nodes_kept_def)
  next
    case (Inl x)
    then have "nodes c s = (Inl x, t)"
      using run by (auto simp: nodes_as_dict_def prog_simps bindP_eq_Inl_iff split: option.splits list.splits)
    then show ?thesis using keepsD [OF kept_nodes] by blast
  qed
qed

context state_rel begin

lemma tcp_loop_rel:
  assumes "tcp_loop attempt s = Some y" "keeps R attempt"
  shows "R s (snd y)"
proof -
  have "keeps R attempt \<longrightarrow> R s (snd y)"
  proof (rule tcp_loop.raw_induct [OF _ assms(1), where P = "\<lambda>a s y. keeps R a \<longrightarrow> R s (snd y)"], rule impI)
    fix loop :: "('s, bool) prog \<Rightarrow> 's \<Rightarrow> ((exn + unit) \<times> 's) option" and a :: "('s, bool) prog" and s y
    assume later: "\<And>a s y. loop a s = Some y \<Longrightarrow> keeps R a \<longrightarrow> R s (snd y)"
      and now: "(case a s of (Inl x, t) \<Rightarrow> Some (Inl x, t)
        | (Inr connected, t) \<Rightarrow> if connected then Some (Inr (), t) else loop a t) = Some y"
      and keeps: "keeps R a"
    obtain q u where q: "a s = (q, u)" by force
    have su: "R s u" using keeps q by (rule keepsD)
    have "R s (snd y)" if "loop a u = Some y"
      using later [OF that] keeps su by (auto intro: rel_trans)
    then show "R s (snd y)"
      using now q su by (cases q) (auto split: if_splits)
  qed
  then show ?thesis using assms(2) by simp
qed

lemma keeps_tcp_loop:
  assumes "keeps R attempt"
  shows "keeps R (or_diverges (tcp_loop attempt))"
proof (rule keepsI)
  fix s r t
  assume run: "or_diverges (tcp_loop attempt) s = (r, t)"
  show "R s t"
  proof (cases "tcp_loop attempt s")
    case None
    then show ?thesis using run by (simp add: or_diverges_def rel_refl)
  next
    case (Some y)
    then show ?thesis using run tcp_loop_rel assms by (force simp: or_diverges_def)
  qed
qed

lemma keeps_if: "keeps R m \<Longrightarrow> keeps R m' \<Longrightarrow> keeps R (if b then m else m')"
  by simp

end

lemma kept_calls:
  "keeps nodes_kept (ask_bool e what args)" "keeps nodes_kept (act e what args)"
  "keeps nodes_kept (get_node r)" "keeps nodes_kept (node_act e what r args)" "keeps nodes_kept (node_ask e what r args)"
  unfolding ask_bool_def ask_call_def act_def do_call_def get_node_def node_act_def node_ask_def
  by (intro kept.keeps_intros kept_ext)+

lemma kept_ssh:
  "keeps nodes_kept (ssh_connect e now ip)" "keeps nodes_kept (ssh_close e ip)" "keeps nodes_kept (ssh_script e ip command)"
  "keeps nodes_kept (ssh_background_script e ip command)"
  unfolding ssh_connect_def wait_for_tcp_server_def tcp_attempt_def ssh_close_def ssh_script_def ssh_background_script_def
  by (intro kept.keeps_intros kept.keeps_if kept_ext kept_calls kept.keeps_tcp_loop)+

lemma kept_ips: "keeps nodes_kept (node_ips c r)" "keeps nodes_kept (node_macs c r)"
  unfolding node_ips_def node_macs_def set_ips_and_macs_def
  by (auto intro!: kept.keeps_intros kept.keeps_if kept_ext kept_calls kept_put_node split: prod.split)

lemma kept_try_addresses:
  "(\<And>ip. keeps nodes_kept (connect ip)) \<Longrightarrow> keeps nodes_kept (try_addresses connect ips exception)"
  by (induction connect ips exception rule: try_addresses.induct)
    (auto intro!: kept.keeps_intros split: option.split)

lemma kept_connection: "keeps nodes_kept (ssh_connection e c r)"
  unfolding ssh_connection_def
  by (intro kept.keeps_intros kept.keeps_if kept_ips kept_try_addresses kept_ssh)

lemma kept_with_connection:
  "(\<And>ip. keeps nodes_kept (body ip)) \<Longrightarrow> keeps nodes_kept (with_connection e c r body)"
  unfolding with_connection_def
  by (intro kept.keeps_bindP kept_connection) (auto split: option.split intro!: kept.keeps_intros kept_ssh)

lemma kept_run_command: "keeps nodes_kept (node_run_command e c r command background)"
  unfolding node_run_command_def
  by (intro kept.keeps_intros kept.keeps_if kept_calls kept_with_connection kept_ssh)

lemma kept_drop_cache: "keeps nodes_kept drop_cache"
  unfolding drop_cache_def by (rule kept_modifies) (simp add: nodes_ok_def)

lemma kept_by_hostname: "keeps nodes_kept (get_node_by_hostname c hostname)"
  unfolding get_node_by_hostname_def
  by (intro kept.keeps_bindP kept_nodes_as_dict) (auto split: option.split intro: kept.keeps_intros)

lemma kept_all_have_addresses: "keeps nodes_kept (all_have_addresses c rs)"
  by (induction rs) (auto intro!: kept.keeps_intros kept.keeps_if kept_ips)

lemma kept_all_connect: "keeps nodes_kept (all_connect e c rs)"
  by (induction rs) (auto intro!: kept.keeps_intros kept.keeps_if kept_connection)

section \<open>Reachable states\<close>

text \<open>The calls a test makes on the nodes, in any order.\<close>

datatype nodes_call =
    GetNodes bool
  | AsDict
  | PrepareNodes
  | DestroyAllNodes
  | ByHost host
  | WaitForNetworking
  | WaitSshReady
  | RunCommand nat string bool
  | ResetCores nat

fun nodes_program :: "'z nwaiter \<Rightarrow> env \<Rightarrow> node_api \<Rightarrow> nodes_call \<Rightarrow> ('z, unit) nprog" where
  "nodes_program wait e c (GetNodes refresh) = bindP (nodes_get_nodes c refresh) (\<lambda>_. ret ())"
| "nodes_program wait e c AsDict = bindP (nodes_as_dict c) (\<lambda>_. ret ())"
| "nodes_program wait e c PrepareNodes = nodes_prepare_nodes e"
| "nodes_program wait e c DestroyAllNodes = destroy_all_nodes e"
| "nodes_program wait e c (ByHost h) = bindP (get_node_from_cluster_host c h) (\<lambda>_. ret ())"
| "nodes_program wait e c WaitForNetworking = wait_for_networking wait c (3 * MINUTE) DEFAULT_CHECK_STATUSES_INTERVAL"
| "nodes_program wait e c WaitSshReady = wait_till_nodes_are_ssh_ready wait e c"
| "nodes_program wait e c (RunCommand r command background) =
     bindP (node_run_command e c r command background) (\<lambda>_. ret ())"
| "nodes_program wait e c (ResetCores r) = reset_cpu_cores e r"

inductive nodes_reachable ::
  "'z nwaiter \<Rightarrow> env \<Rightarrow> node_api \<Rightarrow> 'z nodes_state_scheme \<Rightarrow> bool" for wait e c where
  init: "ns_nodes s = None \<Longrightarrow> ns_nodes_as_dict s = None \<Longrightarrow> nodes_reachable wait e c s"
| call: "nodes_reachable wait e c s \<Longrightarrow> nodes_program wait e c m s = (r, t) \<Longrightarrow> nodes_reachable wait e c t"
| run_method: "nodes_reachable wait e c s \<Longrightarrow> run_and_drop e c m s rs r t \<Longrightarrow> nodes_reachable wait e c t"
| boot_order: "nodes_reachable wait e c s \<Longrightarrow> set_boot_order_of_nodes e c wrong rs start_nodes s r t \<Longrightarrow>
    nodes_reachable wait e c t"

lemma kept_nodes_program:
  assumes "waits_by wait"
  shows "keeps nodes_kept (nodes_program wait e c m)"
proof (cases m)
  case (GetNodes refresh)
  then show ?thesis
    by (simp add: nodes_get_nodes_def) (intro kept.keeps_intros kept_drop_cache kept_nodes)
next
  case AsDict
  then show ?thesis by simp (intro kept.keeps_intros kept_nodes_as_dict)
next
  case PrepareNodes
  then show ?thesis
    by (simp add: nodes_prepare_nodes_def) (intro kept.keeps_intros kept_calls kept_modifies, simp)
next
  case DestroyAllNodes
  then show ?thesis
    by (simp add: destroy_all_nodes_def) (intro kept.keeps_intros kept_calls kept_modifies, simp)
next
  case (ByHost h)
  then show ?thesis
    by (simp add: get_node_from_cluster_host_def) (intro kept.keeps_intros kept_sum_prog kept_by_hostname)
next
  case WaitForNetworking
  then show ?thesis
    by (simp add: wait_for_networking_def are_nodes_network_prepared_def suppressing_def)
      (intro kept.keeps_intros kept.keeps_if kept_nodes kept.keeps_wait [OF assms] kept_all_have_addresses)
next
  case WaitSshReady
  then show ?thesis
    by (simp add: wait_till_nodes_are_ssh_ready_def all_nodes_allow_ssh_connection_def)
      (intro kept.keeps_intros kept.keeps_if kept_nodes kept.keeps_wait [OF assms] kept_all_connect)
next
  case (RunCommand r command background)
  then show ?thesis by simp (intro kept.keeps_intros kept_run_command)
next
  case (ResetCores r)
  then show ?thesis by (simp add: reset_cpu_cores_def) (intro kept.keeps_intros kept_calls)
qed

section \<open>The order of the calls\<close>

definition method_calls :: "node_method \<Rightarrow> (string \<times> pyval list) list" where
  "method_calls m =
     (let off = (''shutdown_node'', []); on = (''start_node'', [PBool True]); wipe = (''format_node_disk'', [PInt 0])
      in case m of
           Shutdown \<Rightarrow> [off]
         | Start check_ips \<Rightarrow> [(''start_node'', [PBool check_ips])]
         | Restart \<Rightarrow> [off, on]
         | FormatDisk \<Rightarrow> [wipe]
         | Reset \<Rightarrow> [off, wipe, on]
         | SetBootOrderFlow cd_first start \<Rightarrow>
             [off, (''set_boot_order'', [PBool cd_first, PNone])] @ (if start then [on] else []))"

lemma method_steps_calls: "method_steps e m r = map (\<lambda>(what, args). node_act e what r args) (method_calls m)"
  by (cases m) (simp_all add: method_calls_def Let_def node_shutdown_def node_start_def node_format_disk_def
      node_set_boot_order_def)

text \<open>What a method asks of the controller for one node, and what was asked for a node.\<close>

definition expected_calls :: "node_method \<Rightarrow> string \<Rightarrow> call list" where
  "expected_calls m name = map (\<lambda>(what, args). NodeCommand what name args) (method_calls m)"

definition calls_for :: "string \<Rightarrow> call list \<Rightarrow> call list" where
  "calls_for name cs = filter (\<lambda>c. case c of NodeCommand what n args \<Rightarrow> n = name | _ \<Rightarrow> False) cs"

lemma calls_for_simps [simp]:
  "calls_for name [] = []" "calls_for name (as @ bs) = calls_for name as @ calls_for name bs"
  "calls_for name [NodeCommand what n args] = (if n = name then [NodeCommand what n args] else [])"
  by (simp_all add: calls_for_def)

abbreviation name_at :: "'z nodes_state_scheme \<Rightarrow> nat \<Rightarrow> string" where
  "name_at s r \<equiv> nd_name (ns_store s ! r)"

definition same_nodes :: "'z nodes_state_scheme \<Rightarrow> 'z nodes_state_scheme \<Rightarrow> bool" where
  "same_nodes s t \<longleftrightarrow> (\<exists>cs. hist t = hist s @ cs) \<and> ns_store t = ns_store s \<and> ns_nodes t = ns_nodes s
     \<and> ns_nodes_as_dict t = ns_nodes_as_dict s \<and> ns_is_prepared t = ns_is_prepared s"

definition new_calls :: "'z nodes_state_scheme \<Rightarrow> 'z nodes_state_scheme \<Rightarrow> call list" where
  "new_calls s t = drop (length (hist s)) (hist t)"

lemma node_act_app:
  "node_act e what r args s = (q, t) \<Longrightarrow> t = s\<lparr>hist := hist s @ [NodeCommand what (name_at s r) args]\<rparr>"
  by (auto simp: node_act_def get_node_def prog_simps do_call_def ext_app)

lemma same_nodes_act:
  assumes "same_nodes s t" "node_act e what r args t = (q, u)"
  shows "same_nodes s u \<and> new_calls s u = new_calls s t @ [NodeCommand what (name_at s r) args]"
  using assms(1) node_act_app [OF assms(2)] by (auto simp: same_nodes_def new_calls_def)

text \<open>A job has made the first \<open>k\<close> calls of its method, and has the rest to do, or has failed.\<close>

definition method_invariant ::
  "env \<Rightarrow> node_method \<Rightarrow> nat list \<Rightarrow> 'z nodes_state_scheme \<Rightarrow> nat \<Rightarrow> ('z nodes_state_scheme, unit) thread
     \<Rightarrow> 'z nodes_state_scheme \<Rightarrow> bool" where
  "method_invariant e m rs s i t u \<longleftrightarrow> i < length rs \<and>
     (\<exists>k. (t = in_steps (drop k (method_steps e m (rs ! i))) \<or> (\<exists>x. t = Finished (Inl x)))
        \<and> (distinct (map (name_at s) rs) \<longrightarrow>
             calls_for (name_at s (rs ! i)) (new_calls s u) = take k (expected_calls m (name_at s (rs ! i)))))"

lemma in_steps_Step:
  assumes "Step f = in_steps ms"
  obtains m ms' where "ms = m # ms'" "f = (\<lambda>s. case m s of (Inl x, t) \<Rightarrow> (Finished (Inl x), t) | (Inr _, t) \<Rightarrow> (in_steps ms', t))"
  using assms by (cases ms) auto

lemma method_step:
  assumes "method_invariant e m rs s i (Step f) now" "same_nodes s now" "f now = (t, later)"
  shows "same_nodes s later \<and> method_invariant e m rs s i t later
    \<and> (\<exists>what args. new_calls s later = new_calls s now @ [NodeCommand what (name_at s (rs ! i)) args])"
proof -
  let ?r = "rs ! i" and ?name = "name_at s (rs ! i)"
  obtain k where i: "i < length rs" and t: "Step f = in_steps (drop k (method_steps e m ?r))"
    and calls: "distinct (map (name_at s) rs) \<longrightarrow> calls_for ?name (new_calls s now) = take k (expected_calls m ?name)"
    using assms(1) by (auto simp: method_invariant_def)
  obtain p ps where ps: "drop k (method_steps e m ?r) = p # ps"
    and f: "f = (\<lambda>s. case p s of (Inl x, t) \<Rightarrow> (Finished (Inl x), t) | (Inr _, t) \<Rightarrow> (in_steps ps, t))"
    using in_steps_Step [OF t] by blast
  have k: "k < length (method_calls m)"
    using ps by (metis drop_all length_map linorder_not_less list.distinct(1) method_steps_calls)
  obtain what args where call: "method_calls m ! k = (what, args)" by force
  then have p: "p = node_act e what ?r args"
    using ps k by (metis (no_types, lifting) case_prod_conv hd_drop_conv_nth length_map list.sel(1) method_steps_calls nth_map)
  have rest: "ps = drop (Suc k) (method_steps e m ?r)" using ps by (metis drop_Suc list.sel(3) tl_drop)
  obtain q where q: "p now = (q, later)" "t = Finished (Inl (projl q)) \<or> t = in_steps ps"
    using assms(3) f by (auto split: prod.splits sum.splits)
  have after: "same_nodes s later" "new_calls s later = new_calls s now @ [NodeCommand what ?name args]"
    using same_nodes_act [OF assms(2)] q(1) p by blast+
  have "take (Suc k) (expected_calls m ?name) = take k (expected_calls m ?name) @ [NodeCommand what ?name args]"
    using k call by (simp add: expected_calls_def take_Suc_conv_app_nth)
  then have "distinct (map (name_at s) rs) \<longrightarrow> calls_for ?name (new_calls s later) = take (Suc k) (expected_calls m ?name)"
    using calls after(2) by simp
  then have "method_invariant e m rs s i t later"
    using i q(2) rest unfolding method_invariant_def by blast
  then show ?thesis using after by blast
qed

lemma calls_of_others:
  "name \<noteq> n \<Longrightarrow> calls_for name (cs @ [NodeCommand what n args]) = calls_for name cs"
  by simp

interpretation methods: thread_invariants "map (method_job e m) rs" "method_invariant e m rs s" "same_nodes s" s
  for e m rs s
proof unfold_locales
  show "method_invariant e m rs s i (map (method_job e m) rs ! i) s" if "i < length (map (method_job e m) rs)" for i
    using that unfolding method_invariant_def
    by (intro conjI exI [of _ 0]) (simp_all add: method_job_def new_calls_def)
  show "same_nodes s s" by (simp add: same_nodes_def)
next
  fix i f now t later
  assume "method_invariant e m rs s i (Step f) now" "same_nodes s now" "f now = (t, later)"
  then show "method_invariant e m rs s i t later \<and> same_nodes s later" using method_step by blast
next
  fix i f now t later j t'
  assume a: "method_invariant e m rs s i (Step f) now" "same_nodes s now" "f now = (t, later)" "j \<noteq> i"
    and j: "method_invariant e m rs s j t' now"
  have ij: "i < length rs" "j < length rs" using a(1) j by (simp_all add: method_invariant_def)
  obtain what args where "new_calls s later = new_calls s now @ [NodeCommand what (name_at s (rs ! i)) args]"
    using method_step [OF a(1-3)] by blast
  moreover have "name_at s (rs ! j) \<noteq> name_at s (rs ! i)" if "distinct (map (name_at s) rs)"
    using that ij a(4) by (auto simp: distinct_conv_nth)
  ultimately show "method_invariant e m rs s j t' later"
    using j unfolding method_invariant_def by auto
qed

lemma in_steps_done: "Finished (Inr a) = in_steps ms \<Longrightarrow> ms = []"
  by (cases ms) auto

lemma method_done:
  "Finished (Inr a) = in_steps (drop k (method_steps e m r)) \<Longrightarrow> length (method_calls m) \<le> k"
  by (drule in_steps_done) (simp add: method_steps_calls)

lemma method_invariant_calls:
  assumes "method_invariant e m rs s i t u" "distinct (map (name_at s) rs)"
  shows "prefix (calls_for (name_at s (rs ! i)) (new_calls s u)) (expected_calls m (name_at s (rs ! i)))
    \<and> (\<forall>a. t = Finished (Inr a) \<longrightarrow> calls_for (name_at s (rs ! i)) (new_calls s u) = expected_calls m (name_at s (rs ! i)))"
proof -
  obtain k where k: "t = in_steps (drop k (method_steps e m (rs ! i))) \<or> (\<exists>x. t = Finished (Inl x))"
    and calls: "calls_for (name_at s (rs ! i)) (new_calls s u) = take k (expected_calls m (name_at s (rs ! i)))"
    using assms by (auto simp: method_invariant_def)
  have "length (expected_calls m (name_at s (rs ! i))) \<le> k" if "t = Finished (Inr a)" for a
    using k that method_done [of a k e m "rs ! i"] by (auto simp: expected_calls_def)
  then show ?thesis using calls by (auto simp: take_is_prefix)
qed

lemma run_in_steps:
  "run_thread (in_steps (map (\<lambda>(what, args). node_act e what r args) cs)) u = (q, t) \<Longrightarrow> same_nodes s u \<Longrightarrow>
     same_nodes s t \<and> (\<exists>k. new_calls s t = new_calls s u
         @ take k (map (\<lambda>(what, args). NodeCommand what (name_at s r) args) cs) \<and> (q = Inr () \<longrightarrow> length cs \<le> k))"
proof (induction cs arbitrary: u)
  case (Cons c cs)
  obtain what args where c: "c = (what, args)" by force
  obtain p v where p: "node_act e what r args u = (p, v)" by force
  note after = same_nodes_act [OF Cons.prems(2) p]
  show ?case
  proof (cases p)
    case (Inl x)
    then have "q = Inl x" "t = v" using Cons.prems(1) p by (simp_all add: c run_thread.simps(2))
    then show ?thesis using after by (intro conjI exI [of _ "Suc 0"]) (simp_all add: c)
  next
    case (Inr x)
    then have "run_thread (in_steps (map (\<lambda>(what, args). node_act e what r args) cs)) v = (q, t)"
      using Cons.prems(1) p by (simp add: c run_thread.simps(2))
    from Cons.IH [OF this] after obtain k where "same_nodes s t"
      "new_calls s t = new_calls s v @ take k (map (\<lambda>(what, args). NodeCommand what (name_at s r) args) cs)"
      "q = Inr () \<longrightarrow> length cs \<le> k" by blast
    then show ?thesis using after by (intro conjI exI [of _ "Suc k"]) (simp_all add: c)
  qed
qed simp

lemma job_alone:
  assumes "run_thread (method_job e m r) u = (q, t)" "same_nodes s u"
  shows "same_nodes s t \<and> (\<exists>k. new_calls s t = new_calls s u @ take k (expected_calls m (name_at s r))
     \<and> (q = Inr () \<longrightarrow> length (method_calls m) \<le> k))"
  using run_in_steps [OF assms(1) [unfolded method_job_def method_steps_calls] assms(2)]
  by (simp add: expected_calls_def)

lemma calls_for_map:
  "calls_for name (map (\<lambda>(what, args). NodeCommand what n args) cs) =
     (if n = name then map (\<lambda>(what, args). NodeCommand what n args) cs else [])"
  by (induction cs) (auto simp: calls_for_def)

lemma calls_for_expected:
  "calls_for name (take k (expected_calls m n)) = (if n = name then take k (expected_calls m n) else [])"
  by (simp add: expected_calls_def take_map calls_for_map)

lemma calls_for_all_expected: "calls_for n (expected_calls m n) = expected_calls m n"
  using calls_for_expected [of n "length (expected_calls m n)" m n] by simp

lemma jobs_in_turn:
  assumes "collect (\<lambda>r. run_thread (method_job e m r)) rs u = (res, t)" "same_nodes s u"
    and "distinct (map (name_at s) rs)"
  shows "same_nodes s t \<and> (\<exists>cs. new_calls s t = new_calls s u @ cs
     \<and> (\<forall>name. name \<notin> name_at s ` set rs \<longrightarrow> calls_for name cs = [])
     \<and> list_all (\<lambda>r. prefix (calls_for (name_at s r) cs) (expected_calls m (name_at s r))) rs
     \<and> ((\<exists>x. res = Inl x) \<or> list_all (\<lambda>r. calls_for (name_at s r) cs = expected_calls m (name_at s r)) rs))"
  using assms
proof (induction rs arbitrary: u res)
  case Nil
  then show ?case by (simp add: prog_simps)
next
  case (Cons r rs)
  obtain q v where q: "run_thread (method_job e m r) u = (q, v)" by force
  obtain k where v: "same_nodes s v" "new_calls s v = new_calls s u @ take k (expected_calls m (name_at s r))"
    "q = Inr () \<longrightarrow> length (method_calls m) \<le> k"
    using job_alone [OF q Cons.prems(2)] by blast
  let ?first = "take k (expected_calls m (name_at s r))"
  have "name_at s r \<notin> name_at s ` set rs" using Cons.prems(3) by simp
  then have other: "name_at s r' \<noteq> name_at s r" if "r' \<in> set rs" for r' using that by (metis imageI)
  show ?case
  proof (cases q)
    case (Inl x)
    then have "t = v" "res = Inl x" using Cons.prems(1) q by (simp_all add: bindP_def)
    then show ?thesis using v other
      by (auto simp: calls_for_expected take_is_prefix list_all_iff intro!: exI [of _ ?first])
  next
    case (Inr y)
    then obtain res' where rest: "collect (\<lambda>r. run_thread (method_job e m r)) rs v = (res', t)"
      and res: "(\<exists>x. res = Inl x) \<or> (\<exists>zs. res' = Inr zs)"
      using Cons.prems(1) q by (auto simp: bindP_def prog_simps split: prod.splits sum.splits)
    then obtain cs where cs: "same_nodes s t" "new_calls s t = new_calls s v @ cs"
      "\<forall>name. name \<notin> name_at s ` set rs \<longrightarrow> calls_for name cs = []"
      "list_all (\<lambda>r. prefix (calls_for (name_at s r) cs) (expected_calls m (name_at s r))) rs"
      "(\<exists>x. res' = Inl x) \<or> list_all (\<lambda>r. calls_for (name_at s r) cs = expected_calls m (name_at s r)) rs"
      using Cons.IH [OF rest v(1)] Cons.prems(3) by auto
    have "name_at s r \<notin> name_at s ` set rs" using other by force
    then have here: "calls_for (name_at s r) cs = []" using cs(3) by blast
    have all: "?first = expected_calls m (name_at s r)"
      using v(3) Inr by (simp add: expected_calls_def)
    have new: "calls_for (name_at s r') (?first @ cs) = calls_for (name_at s r') cs" if "r' \<in> set rs" for r'
      using other [OF that] by (simp add: calls_for_expected)
    show ?thesis
    proof (intro conjI exI [of _ "?first @ cs"])
      show "list_all (\<lambda>r. prefix (calls_for (name_at s r) (?first @ cs)) (expected_calls m (name_at s r))) (r # rs)"
        using cs(4) new here by (simp add: list_all_iff calls_for_expected take_is_prefix)
      show "(\<exists>x. res = Inl x) \<or> list_all (\<lambda>r. calls_for (name_at s r) (?first @ cs) = expected_calls m (name_at s r)) (r # rs)"
        using cs(5) new here all res by (auto simp: list_all_iff calls_for_all_expected)
      show "\<forall>name. name \<notin> name_at s ` set (r # rs) \<longrightarrow> calls_for name (?first @ cs) = []"
        using cs(3) by (simp add: calls_for_expected)
    qed (use cs v in simp_all)
  qed
qed

lemma collect_results_Inr:
  "collect_results fs is = Inr vs \<Longrightarrow> list_all (\<lambda>i. \<exists>a. map_of fs i = Some (Inr a)) is"
  by (induction fs "is" arbitrary: vs rule: collect_results.induct) (auto split: option.splits sum.splits)

text \<open>C9: Whatever method is run on a group of nodes with names of their own, on the pool in any interleaving or node
  by node, each node gets the calls of the method in their order: shut down, then the boot order, then
  the start. A node whose job failed got the first of them only; if no exception is raised every
  node got all. Nothing else of the nodes' state changes.\<close>

theorem calls_of_a_node_in_order:
  assumes "run_for_given_nodes tf_platform (method_job e m) rs s res t"
    and "distinct (map (name_at s) rs)"
  shows "same_nodes s t
    \<and> list_all (\<lambda>r. prefix (calls_for (name_at s r) (new_calls s t)) (expected_calls m (name_at s r))) rs
    \<and> ((\<exists>x. res = Inl x) \<or> list_all (\<lambda>r. calls_for (name_at s r) (new_calls s t) = expected_calls m (name_at s r)) rs)"
  using assms(1)
proof (cases rule: run_for_given_nodes.cases)
  case (in_turn res')
  have "same_nodes s s" "new_calls s s = []" by (simp_all add: same_nodes_def new_calls_def)
  then show ?thesis using jobs_in_turn [OF in_turn(3) _ assms(2)] in_turn(1) by force
next
  case (at_once res')
  from at_once(3) obtain p where p: "pool_steps 5 (start_pool (map (method_job e m) rs) s) p" "pool_complete p"
    "res' = collect_results (pl_finished p) [0..<length rs]" "t = pl_shared p"
    by (auto elim!: runs_concurrentlyE)
  have job: "\<exists>q. map_of (pl_finished p) i = Some q \<and> method_invariant e m rs s i (Finished q) t" if "i < length rs" for i
    using methods.complete_ok [OF p(1,2)] that p(4) by simp
  have same: "same_nodes s t" using methods.steps_ok [OF p(1)] p(4) by (simp add: threads_ok_def)
  have some: "list_all (\<lambda>r. prefix (calls_for (name_at s r) (new_calls s t)) (expected_calls m (name_at s r))) rs"
    unfolding list_all_length using job method_invariant_calls [OF _ assms(2)] by blast
  have "list_all (\<lambda>r. calls_for (name_at s r) (new_calls s t) = expected_calls m (name_at s r)) rs" if "res' = Inr vs" for vs
    unfolding list_all_length
  proof (intro allI impI)
    fix i assume i: "i < length rs"
    have "list_all (\<lambda>i. \<exists>a. map_of (pl_finished p) i = Some (Inr a)) [0..<length rs]"
      by (rule collect_results_Inr [where vs = vs]) (use p(3) that in simp)
    then obtain a where "map_of (pl_finished p) i = Some (Inr a)" using i by (auto simp: list_all_iff)
    then have "method_invariant e m rs s i (Finished (Inr a)) t" using job [OF i] by auto
    then show "calls_for (name_at s (rs ! i)) (new_calls s t) = expected_calls m (name_at s (rs ! i))"
      using method_invariant_calls [OF _ assms(2)] by blast
  qed
  then show ?thesis using same some at_once(1) by (cases res') auto
qed

definition two_nodes :: nodes_state where
  "two_nodes = \<lparr>hist = [], ns_store = map (\<lambda>name. \<lparr>nd_name = name, nd_role = [], nd_ips = [], nd_macs = [],
       nd_original_vcpu_count = PInt 4, nd_original_ram_kib = PInt 8\<rparr>) [''a'', ''b''],
     ns_nodes = Some [0, 1], ns_nodes_as_dict = None, ns_is_prepared = False\<rparr>"

lemma two_names: "distinct (map (name_at two_nodes) [0, 1])" "name_at two_nodes 0 = ''a''"
  by (simp_all add: two_nodes_def)

lemma some_run_on_pool:
  assumes "tf_platform \<noteq> ''nutanix''"
  shows "\<exists>res t. run_for_given_nodes tf_platform job rs s res t"
proof -
  have "pool_ok 5 (mset [0..<length (map job rs)]) (start_pool (map job rs) s)"
    by (rule pool_ok_start)
  from pool_completes [OF _ this] obtain p where "pool_steps 5 (start_pool (map job rs) s) p" "pool_complete p" by auto
  from runs_concurrently.intros [OF this] obtain res t where "runs_concurrently 5 (map job rs) s res t" by blast
  then have "run_for_given_nodes tf_platform job rs s (map_sum (\<lambda>x. x) Numbered res) t"
    using assms by (intro run_for_given_nodes.at_once) simp_all
  then show ?thesis by blast
qed

theorem calls_of_a_node_in_order_witness:
  "\<exists>res t. run_for_given_nodes ''baremetal'' (method_job (still_env (sample_cluster [] [])) Restart) [0, 1] two_nodes res t
     \<and> prefix (calls_for ''a'' (new_calls two_nodes t))
         [NodeCommand ''shutdown_node'' ''a'' [], NodeCommand ''start_node'' ''a'' [PBool True]]"
proof -
  obtain res t where run: "run_for_given_nodes ''baremetal'' (method_job (still_env (sample_cluster [] [])) Restart) [0, 1] two_nodes res t"
    using some_run_on_pool [of "''baremetal''" "method_job (still_env (sample_cluster [] [])) Restart" "[0, 1]" two_nodes] by auto
  from calls_of_a_node_in_order [OF run two_names(1)]
  have "prefix (calls_for ''a'' (new_calls two_nodes t)) (expected_calls Restart ''a'')"
    by (simp add: two_names(2))
  then have "prefix (calls_for ''a'' (new_calls two_nodes t))
      [NodeCommand ''shutdown_node'' ''a'' [], NodeCommand ''start_node'' ''a'' [PBool True]]"
    by (simp add: expected_calls_def method_calls_def Let_def)
  with run show ?thesis by blast
qed

section \<open>One by one or at once\<close>

lemma run_on_part:
  "run_thread (on_part_of i t) s = (fst (run_thread t (s i)), s(i := snd (run_thread t (s i))))"
proof (induction t arbitrary: s)
  case (Step f)
  obtain u l where f: "f (s i) = (u, l)" by force
  have "(u, l) \<in> range f" using f by (metis rangeI)
  from Step [OF this, of u "s(i := l)"]
  have "run_thread (on_part_of i u) (s(i := l)) = (fst (run_thread u l), s(i := snd (run_thread u l)))"
    by (simp only: fst_conv fsts.simps fun_upd_same fun_upd_upd)
  then show ?case using f by (simp add: run_thread.simps(2)) (simp add: fun_eq_iff)
qed simp

lemma parts_in_turn:
  assumes "n = length ts" "k \<le> n"
  shows "\<forall>now. (\<forall>j. k \<le> j \<longrightarrow> now j = s j) \<longrightarrow>
    (let (res, t) = collect (\<lambda>i. run_thread (on_part_of i (ts ! i))) [k..<n] now in
     res = in_order (map (\<lambda>i. fst (run_thread (ts ! i) (s i))) [k..<n])
     \<and> (\<forall>v. res = Inr v \<longrightarrow> t = (\<lambda>i. if k \<le> i \<and> i < n then snd (run_thread (ts ! i) (s i)) else now i)))"
  using assms(2)
proof (induction rule: inc_induct)
  case base
  then show ?case by (auto simp: prog_simps fun_eq_iff)
next
  case (step k)
  show ?case
  proof (intro allI impI)
    fix now assume now: "\<forall>j. k \<le> j \<longrightarrow> now j = s j"
    obtain q l where q: "run_thread (ts ! k) (s k) = (q, l)" by force
    have here: "run_thread (on_part_of k (ts ! k)) now = (q, now(k := l))"
      using now q by (simp add: run_on_part)
    have upt: "[k..<n] = k # [Suc k..<n]" using step.hyps by (simp add: upt_conv_Cons)
    obtain res t where rest: "collect (\<lambda>i. run_thread (on_part_of i (ts ! i))) [Suc k..<n] (now(k := l)) = (res, t)" by force
    have IH: "res = in_order (map (\<lambda>i. fst (run_thread (ts ! i) (s i))) [Suc k..<n])
      \<and> (\<forall>v. res = Inr v \<longrightarrow> t = (\<lambda>i. if Suc k \<le> i \<and> i < n then snd (run_thread (ts ! i) (s i)) else (now(k := l)) i))"
      using step.IH now rest by (auto dest!: spec [of _ "now(k := l)"])
    show "let (res, t) = collect (\<lambda>i. run_thread (on_part_of i (ts ! i))) [k..<n] now in
     res = in_order (map (\<lambda>i. fst (run_thread (ts ! i) (s i))) [k..<n])
     \<and> (\<forall>v. res = Inr v \<longrightarrow> t = (\<lambda>i. if k \<le> i \<and> i < n then snd (run_thread (ts ! i) (s i)) else now i))"
    proof (cases q)
      case (Inl x)
      then show ?thesis using here q by (simp add: upt bindP_def)
    next
      case (Inr a)
      have later: "in_order (map (\<lambda>i. fst (run_thread (ts ! i) (s i))) [Suc k..<n]) = res" using IH by simp
      show ?thesis
      proof (cases res)
        case (Inl x)
        then show ?thesis using here q rest later \<open>q = Inr a\<close> by (simp add: upt bindP_def)
      next
        case (Inr v)
        then have "t = (\<lambda>i. if Suc k \<le> i \<and> i < n then snd (run_thread (ts ! i) (s i)) else (now(k := l)) i)"
          using IH by blast
        then have "t = (\<lambda>i. if k \<le> i \<and> i < n then snd (run_thread (ts ! i) (s i)) else now i)"
          using q step.hyps by (auto simp: fun_eq_iff not_less_eq_eq)
        then show ?thesis using here q rest later Inr \<open>q = Inr a\<close> by (simp add: upt bindP_def prog_simps)
      qed
    qed
  qed
qed

text \<open>For jobs that work on parts of their own, running them one by one (Nutanix) and running them on the pool
  have the same values or raise the same exception, and when all succeed leave the same state. Only the
  shape differs: a list of the values, or the values under the numbers of the jobs.\<close>

lemma nutanix_agrees_with_pool:
  assumes "run_for_given_nodes tf_platform (\<lambda>i. on_part_of i (ts ! i)) [0..<length ts] s res t"
  shows "res = map_sum (\<lambda>x. x) (\<lambda>kvs. if tf_platform = ''nutanix'' then Listed (map snd kvs) else Numbered kvs)
           (fst (all_jobs ts s))
    \<and> ((\<exists>x. res = Inl x) \<or> t = snd (all_jobs ts s))"
  using assms
proof (cases rule: run_for_given_nodes.cases)
  case (in_turn res')
  have "res' = in_order (map (\<lambda>i. fst (run_thread (ts ! i) (s i))) [0..<length ts])
     \<and> (\<forall>v. res' = Inr v \<longrightarrow> t = (\<lambda>i. if i < length ts then snd (run_thread (ts ! i) (s i)) else s i))"
    using parts_in_turn [OF refl, of 0 ts s] in_turn(3) by (auto dest: spec [of _ s])
  then show ?thesis using in_turn(1,2)
    by (cases res') (auto simp: all_jobs_def enumerate_eq_zip dest: in_order_length split: sum.splits)
next
  case (at_once res')
  have "map (\<lambda>i. on_part_of i (ts ! i)) [0..<length ts] = on_parts ts"
    by (rule nth_equalityI) (simp_all add: on_parts_def nth_enumerate_eq)
  then have "(res', t) = all_jobs ts s"
    using at_once(3) concurrent_run_outcome [of 5 ts s res' t] by simp
  then have "res' = fst (all_jobs ts s)" "t = snd (all_jobs ts s)" by (simp_all add: prod_eq_iff)
  then show ?thesis using at_once(1,2) by (cases res') simp_all
qed

lemma nutanix_agrees_with_pool_witness:
  "\<exists>res t. run_for_given_nodes ''baremetal'' (\<lambda>i. on_part_of i ([atomic (\<lambda>l. (Inr l, l + 1))] ! i)) [0..<1] (\<lambda>i. 5::nat) res t
     \<and> res = Inr (Numbered [(0, 5)]) \<and> t 0 = 6"
proof -
  let ?ts = "[atomic (\<lambda>l. (Inr l, l + 1))] :: (nat, nat) thread list"
  obtain res t where run: "run_for_given_nodes ''baremetal'' (\<lambda>i. on_part_of i (?ts ! i)) [0..<1] (\<lambda>i. 5) res t"
    using some_run_on_pool [of "''baremetal''" "\<lambda>i. on_part_of i (?ts ! i)" "[0..<1]" "\<lambda>i. 5"] by auto
  have len: "[0..<1] = [0..<length ?ts]" by simp
  have all: "all_jobs ?ts (\<lambda>i. 5) = (Inr [(0, 5)], \<lambda>i. if i < 1 then 6 else 5)"
    by (simp add: all_jobs_def fun_eq_iff)
  from nutanix_agrees_with_pool [OF run [unfolded len]] run show ?thesis
    unfolding all by (intro exI [of _ res] exI [of _ t]) auto
qed

section \<open>References\<close>

lemma run_methods_same:
  assumes "run_for_given_nodes tf_platform (method_job e m) rs s res t"
  shows "same_nodes s t"
  using assms
proof (cases rule: run_for_given_nodes.cases)
  case (in_turn res')
  have "same_nodes s t" if "collect (\<lambda>r. run_thread (method_job e m r)) rs u = (res', t)" "same_nodes s u" for u res'
    using that
  proof (induction rs arbitrary: u res')
    case (Cons r rs)
    obtain q v where q: "run_thread (method_job e m r) u = (q, v)" by force
    then have "same_nodes s v" using job_alone Cons.prems(2) by blast
    with Cons q show ?case
      by (cases q) (auto simp: bindP_def prog_simps split: prod.splits sum.splits)
  qed (simp add: prog_simps)
  then show ?thesis using in_turn(3) by (simp add: same_nodes_def)
next
  case (at_once res')
  then obtain p where "pool_steps 5 (start_pool (map (method_job e m) rs) s) p" "t = pl_shared p"
    by (auto elim!: runs_concurrentlyE)
  then show ?thesis using methods.steps_ok [of 5 e m rs s p] by (simp add: threads_ok_def)
qed

lemma same_nodes_ok: "same_nodes s t \<Longrightarrow> nodes_ok t = nodes_ok s"
  by (rule nodes_ok_cong) (simp_all add: same_nodes_def)

lemma reachable_nodes_ok:
  assumes "waits_by wait"
  shows "nodes_reachable wait e c s \<Longrightarrow> nodes_ok s"
proof (induction rule: nodes_reachable.induct)
  case (init s)
  then show ?case by (simp add: nodes_ok_def)
next
  case (call s m r t)
  then show ?case using keepsD [OF kept_nodes_program [OF assms]] by (auto simp: nodes_kept_def)
next
  case (run_method s m rs r t)
  have runs: "nodes_ok u" if "run_for_given_nodes p (method_job e m) rs v res u" "nodes_ok v" for p rs v res u
    using that run_methods_same same_nodes_ok by blast
  have drop: "nodes_ok t" if "thenP (sum_prog res) drop_cache u = (r, t)" "nodes_ok u" for res u
  proof -
    have "keeps nodes_kept (thenP (sum_prog res) drop_cache)"
      by (intro kept.keeps_intros kept_sum_prog kept_drop_cache)
    then show ?thesis using that keepsD by (fastforce simp: nodes_kept_def)
  qed
  from run_method(2) show ?case
  proof (cases rule: run_and_drop.cases)
    case (all_nodes res u)
    from all_nodes(2) have "nodes_ok u"
    proof (cases rule: run_for_all_nodes.cases)
      case not_listed
      then show ?thesis using keepsD [OF kept_nodes] run_method.IH by (auto simp: nodes_kept_def)
    next
      case (run rs' v)
      then have "nodes_ok v" using nodes_Inr run_method.IH by blast
      then show ?thesis using runs run by blast
    qed
    then show ?thesis using drop all_nodes by blast
  next
    case (given_nodes rs' res u)
    then show ?thesis using drop runs run_method.IH by blast
  qed
next
  case (boot_order s wrong rs start_nodes r t)
  have kept: "keeps nodes_kept (chosen_nodes c wrong rs)"
    unfolding chosen_nodes_def by (intro kept.keeps_intros kept.keeps_if kept_nodes kept_nodes_as_dict)
  from boot_order(2) show ?case
  proof (cases rule: set_boot_order_of_nodes.cases)
    case not_chosen
    then show ?thesis using keepsD [OF kept] boot_order.IH by (auto simp: nodes_kept_def)
  next
    case (chosen rs' u)
    then have "nodes_ok u" using keepsD [OF kept] boot_order.IH by (auto simp: nodes_kept_def)
    then show ?thesis using run_methods_same same_nodes_ok chosen(2) by blast
  qed
qed

lemma dict_get_fold:
  "dict_get (fold (\<lambda>(k, v). dict_set k v) kvs d) x =
     (case map_of (rev kvs) x of None \<Rightarrow> dict_get d x | Some v \<Rightarrow> Some v)"
  by (induction kvs arbitrary: d) (auto simp: dict_get_set map_add_def split: option.split)

lemma by_name_get: "dict_get (by_name s rs) name = map_of (rev (map (\<lambda>r. (name_at s r, r)) rs)) name"
  unfolding by_name_def dict_update_def dict_get_fold by (simp split: option.split)

lemma by_name_found: "dict_get (by_name s rs) name = Some r \<Longrightarrow> r \<in> set rs \<and> name_at s r = name"
  by (auto simp: by_name_get dest!: map_of_SomeD)

lemma by_name_missing: "dict_get (by_name s rs) name = None \<Longrightarrow> \<not> list_ex (\<lambda>r. name_at s r = name) rs"
  by (force simp: by_name_get map_of_eq_None_iff list_ex_iff)

text \<open>However the operations on nodes were called before, in any order, with failures and with methods run on
  the pool: what \<open>get_node_by_hostname\<close> returns refers to an existing node object of that name which is
  one of the cached nodes, and the error for an unknown name is raised only if no cached node has it.\<close>

lemma found_node_is_listed:
  assumes "waits_by wait" and "nodes_reachable wait e c s"
    and "get_node_by_hostname c name s = (res, t)"
  shows "case res of
      Inr r \<Rightarrow> r < length (ns_store t) \<and> name_at t r = name \<and> (\<exists>rs. ns_nodes t = Some rs \<and> r \<in> set rs)
    | Inl x \<Rightarrow> nodes_as_dict c s = (Inl x, t) \<or>
        (x = KeyError name \<and> (\<exists>rs. ns_nodes t = Some rs \<and> \<not> list_ex (\<lambda>r. name_at t r = name) rs))"
proof (cases "nodes_as_dict c s")
  case (Pair q u)
  show ?thesis
  proof (cases q)
    case (Inl x)
    then show ?thesis using assms(3) Pair by (auto simp: get_node_by_hostname_def bindP_def)
  next
    case (Inr d)
    then have d: "nodes_as_dict c s = (Inr d, u)" using Pair by simp
    obtain rs where u: "nodes_ok u" "ns_nodes u = Some rs" "d = by_name u rs"
      using nodes_as_dict_Inr [OF d reachable_nodes_ok [OF assms(1,2)]] by blast
    have valid: "list_all (\<lambda>r. r < length (ns_store u)) rs" using u(1,2) by (simp add: nodes_ok_def)
    show ?thesis
    proof (cases "dict_get d name")
      case None
      then have "res = Inl (KeyError name)" "t = u"
        using assms(3) d by (auto simp: get_node_by_hostname_def bindP_def prog_simps)
      then show ?thesis using by_name_missing [of u rs name] None u by simp
    next
      case (Some r)
      then have "res = Inr r" "t = u"
        using assms(3) d by (auto simp: get_node_by_hostname_def bindP_def prog_simps)
      then show ?thesis using by_name_found [of u rs name r] Some u valid by (auto simp: list_all_iff)
    qed
  qed
qed

definition sample_node_api :: node_api where
  "sample_node_api = \<lparr>nc_list_nodes = (\<lambda>_. Inr (ns_store two_nodes)), nc_get_node_ips_and_macs = (\<lambda>_ _. Inr ([''1.2.3.4''], [''m''])),
     nc_now = (\<lambda>_. 0), nc_tf_platform = ''baremetal''\<rparr>"

lemma found_node_is_listed_witness:
  "\<exists>t. get_node_by_hostname sample_node_api ''b'' (two_nodes\<lparr>ns_nodes := None\<rparr>) = (Inr 3, t)
     \<and> name_at t 3 = ''b''"
proof -
  let ?s = "two_nodes\<lparr>ns_nodes := None\<rparr>"
  have reach: "nodes_reachable (poll_upto 1) (still_env (sample_cluster [] [])) sample_node_api ?s"
    by (rule nodes_reachable.init) (simp_all add: two_nodes_def)
  obtain t where run: "get_node_by_hostname sample_node_api ''b'' ?s = (Inr 3, t)"
    by (simp add: get_node_by_hostname_def nodes_as_dict_def nodes_def list_nodes_def sample_node_api_def two_nodes_def
        bindP_def prog_simps ext_app by_name_def dict_update_def numeral_3_eq_3)
  from found_node_is_listed [OF waits_by_poll_upto reach run] run show ?thesis by auto
qed

section \<open>Waiting for a server\<close>

definition tcp_sleeps :: "call list \<Rightarrow> nat" where
  "tcp_sleeps cs = length (filter (\<lambda>c. c = Controller ''time.sleep'' [PStr ''0.1'']) cs)"

lemma tcp_sleeps_simps [simp]:
  "tcp_sleeps [] = 0" "tcp_sleeps (as @ bs) = tcp_sleeps as + tcp_sleeps bs"
  "tcp_sleeps (c # cs) = (if c = Controller ''time.sleep'' [PStr ''0.1''] then 1 else 0) + tcp_sleeps cs"
  by (simp_all add: tcp_sleeps_def)

text \<open>A pause of a tenth of a second takes no less.\<close>

definition clock_runs :: "(call list \<Rightarrow> int) \<Rightarrow> bool" where
  "clock_runs now \<longleftrightarrow> (\<forall>h cs. now h + 100 * int (tcp_sleeps cs) \<le> now (h @ cs))"

lemma tcp_attempt_cases:
  assumes "tcp_attempt e now ip before s = (q, t)"
  shows "\<exists>cs. hist t = hist s @ cs
    \<and> (if q = Inr False then tcp_sleeps cs = 1 \<and> now (hist s) - before < 60000 else tcp_sleeps cs = 0)"
proof (cases "now (hist s) - before < 60000")
  case True
  then show ?thesis
    using assms
    by (cases "e_ask e (hist s) (Controller ''raw_tcp_connect'' [PStr ip])")
      (auto simp: tcp_attempt_def prog_simps bindP_def ask_bool_def ask_call_def ext_app split: if_splits)
qed (use assms in \<open>auto simp: tcp_attempt_def prog_simps\<close>)

lemma tcp_loop_ends:
  assumes "clock_runs now"
  shows "\<exists>r t cs. tcp_loop (tcp_attempt e now ip before) s = Some (r, t) \<and> hist t = hist s @ cs
    \<and> (tcp_sleeps cs = 0 \<or> 100 * int (tcp_sleeps cs) < 60100 - (now (hist s) - before))"
proof (induction "nat (60000 - (now (hist s) - before))" arbitrary: s rule: less_induct)
  case less
  obtain q u where q: "tcp_attempt e now ip before s = (q, u)" by force
  obtain cs where cs: "hist u = hist s @ cs"
    "if q = Inr False then tcp_sleeps cs = 1 \<and> now (hist s) - before < 60000 else tcp_sleeps cs = 0"
    using tcp_attempt_cases [OF q] by blast
  show ?case
  proof (cases "q = Inr False")
    case False
    then have "tcp_loop (tcp_attempt e now ip before) s = Some (case q of Inl x \<Rightarrow> Inl x | Inr _ \<Rightarrow> Inr (), u)"
      using q by (subst tcp_loop.simps) (auto split: sum.split)
    then show ?thesis using cs False by auto
  next
    case True
    then have cs': "tcp_sleeps cs = 1" "now (hist s) - before < 60000" using cs(2) by simp_all
    have "now (hist s) + 100 \<le> now (hist u)"
      using assms cs(1) cs'(1) unfolding clock_runs_def by (metis mult.right_neutral of_nat_1)
    moreover from this have "nat (60000 - (now (hist u) - before)) < nat (60000 - (now (hist s) - before))"
      using cs'(2) by simp
    from less [OF this] obtain r t ds where "tcp_loop (tcp_attempt e now ip before) u = Some (r, t)"
      "hist t = hist u @ ds" "tcp_sleeps ds = 0 \<or> 100 * int (tcp_sleeps ds) < 60100 - (now (hist u) - before)" by blast
    moreover from this(1) have "tcp_loop (tcp_attempt e now ip before) s = Some (r, t)"
      using q True by (subst tcp_loop.simps) simp
    ultimately show ?thesis using cs(1) cs' by (intro exI conjI) auto
  qed
qed



section \<open>Connections\<close>

definition connects :: "string \<Rightarrow> call list \<Rightarrow> nat" where
  "connects ip cs = length (filter (\<lambda>c. c = Controller ''ssh.connect'' [PStr ip]) cs)"

definition closes :: "call list \<Rightarrow> nat" where
  "closes cs = length (filter (\<lambda>c. case c of Controller what _ \<Rightarrow> what = ''ssh.close'' | _ \<Rightarrow> False) cs)"

lemma connects_closes_simps [simp]:
  "connects ip [] = 0" "connects ip (as @ bs) = connects ip as + connects ip bs"
  "connects ip (Controller w args # cs) = (if w = ''ssh.connect'' \<and> args = [PStr ip] then 1 else 0) + connects ip cs"
  "connects ip (NodeCommand w n args # cs) = connects ip cs"
  "closes [] = 0" "closes (as @ bs) = closes as + closes bs"
  "closes (Controller w args # cs) = (if w = ''ssh.close'' then 1 else 0) + closes cs"
  "closes (NodeCommand w n args # cs) = closes cs"
  by (simp_all add: connects_def closes_def)

definition leaves_open :: "(call, 'z) world_scheme \<Rightarrow> (call, 'z) world_scheme \<Rightarrow> bool" where
  "leaves_open s t \<longleftrightarrow> (\<exists>cs. hist t = hist s @ cs \<and> closes cs = 0)"

interpretation open_kept: state_rel leaves_open
proof unfold_locales
  show "leaves_open s s" for s :: "(call, 'z) world_scheme" by (simp add: leaves_open_def)
next
  fix s t u :: "(call, 'z) world_scheme"
  assume "leaves_open s t" "leaves_open t u"
  then obtain as bs where "hist t = hist s @ as" "closes as = 0" "hist u = hist t @ bs" "closes bs = 0"
    by (auto simp: leaves_open_def)
  then show "leaves_open s u" unfolding leaves_open_def by (intro exI [of _ "as @ bs"]) simp
qed

lemma open_ext: "closes [c] = 0 \<Longrightarrow> keeps leaves_open (ext f c)"
  by (auto simp: keeps_def ext_def leaves_open_def)

lemma open_modifies: "(\<And>s. hist (f s) = hist s) \<Longrightarrow> keeps leaves_open (modifies f)"
  by (simp add: keeps_def modifies_def leaves_open_def)

lemma open_connect: "keeps leaves_open (ssh_connect e now ip)"
  unfolding ssh_connect_def wait_for_tcp_server_def tcp_attempt_def ask_bool_def ask_call_def act_def do_call_def
  by (intro open_kept.keeps_intros open_kept.keeps_if open_ext open_kept.keeps_tcp_loop) simp_all

lemma open_ips: "keeps leaves_open (node_ips c r)"
  unfolding node_ips_def set_ips_and_macs_def get_node_def put_node_def
  by (auto intro!: open_kept.keeps_intros open_kept.keeps_if open_ext open_modifies split: prod.split)

lemma connect_Inr:
  assumes "ssh_connect e now ip s = (Inr (), t)"
  shows "\<exists>cs. hist t = hist s @ cs \<and> closes cs = 0 \<and> 1 \<le> connects ip cs"
proof -
  obtain u where u: "wait_for_tcp_server e now ip s = (Inr (), u)"
    and t: "hist t = hist u @ [Controller ''ssh.connect'' [PStr ip]]"
    using assms by (auto simp: ssh_connect_def act_def do_call_def ext_app elim!: bindP_InrE)
  have "keeps leaves_open (wait_for_tcp_server e now ip)"
    unfolding wait_for_tcp_server_def tcp_attempt_def ask_bool_def ask_call_def
    by (intro open_kept.keeps_intros open_kept.keeps_if open_ext open_kept.keeps_tcp_loop) simp_all
  from keepsD [OF this u] obtain as where "hist u = hist s @ as" "closes as = 0"
    by (auto simp: leaves_open_def)
  with t show ?thesis by (intro exI [of _ "as @ [Controller ''ssh.connect'' [PStr ip]]"]) simp
qed

lemma try_addresses_Some:
  "try_addresses (ssh_connect e now) ips exception s = (Inr (Some ip), t) \<Longrightarrow>
     ip \<in> set ips \<and> (\<exists>cs. hist t = hist s @ cs \<and> closes cs = 0 \<and> 1 \<le> connects ip cs)"
proof (induction ips arbitrary: exception s)
  case Nil
  then show ?case by (auto simp: prog_simps split: option.splits)
next
  case (Cons a ips)
  obtain q u where q: "ssh_connect e now a s = (q, u)" by force
  show ?case
  proof (cases q)
    case (Inr x)
    then have "ip = a" "t = u" using Cons.prems q by (auto simp: bindP_def try_except_def prog_simps)
    then show ?thesis using connect_Inr [of e now a s u] q Inr by simp
  next
    case (Inl x)
    then have "is_network_error x" "try_addresses (ssh_connect e now) ips (Some x) u = (Inr (Some ip), t)"
      using Cons.prems q by (auto simp: bindP_def try_except_def prog_simps split: if_splits)
    from Cons.IH [OF this(2)] obtain cs where cs: "ip \<in> set ips" "hist t = hist u @ cs" "closes cs = 0" "1 \<le> connects ip cs"
      by blast
    obtain as where "hist u = hist s @ as" "closes as = 0"
      using keepsD [OF open_connect q] by (auto simp: leaves_open_def)
    with cs show ?thesis by (auto intro!: exI [of _ "as @ cs"])
  qed
qed

lemma ssh_connection_Some:
  assumes "ssh_connection e c r s = (Inr (Some ip), t)"
  shows "\<exists>cs. hist t = hist s @ cs \<and> closes cs = 0 \<and> 1 \<le> connects ip cs"
proof -
  obtain ips ips' u v where u: "node_ips c r s = (Inr ips, u)" "node_ips c r u = (Inr ips', v)"
    "try_addresses (ssh_connect e (nc_now c)) ips' None v = (Inr (Some ip), t)"
    using assms by (auto simp: ssh_connection_def prog_simps elim!: bindP_InrE split: if_splits)
  obtain as bs where "hist u = hist s @ as" "closes as = 0" "hist v = hist u @ bs" "closes bs = 0"
    using keepsD [OF open_ips u(1)] keepsD [OF open_ips u(2)] by (auto simp: leaves_open_def)
  moreover obtain cs where "hist t = hist v @ cs" "closes cs = 0" "1 \<le> connects ip cs"
    using try_addresses_Some [OF u(3)] by blast
  ultimately show ?thesis by (intro exI [of _ "as @ bs @ cs"]) auto
qed

lemma script_calls:
  "ssh_script e ip command s = (q, t) \<Longrightarrow> \<exists>cs. hist t = hist s @ cs \<and> closes cs = 0"
  by (auto simp: ssh_script_def bindP_def ext_app prog_simps split: sum.splits if_splits)

lemma background_calls:
  assumes "ssh_background_script e ip command s = (q, t)"
  shows "\<exists>cs. hist t = hist s @ cs \<and> closes cs = 0"
proof -
  have "keeps leaves_open (ssh_background_script e ip command)"
    unfolding ssh_background_script_def act_def do_call_def
    by (intro open_kept.keeps_intros open_ext) simp_all
  from keepsD [OF this assms] show ?thesis by (simp add: leaves_open_def)
qed

text \<open>Every command that is run on a node opens two connections to the same address and closes one: the
  connection that the property \<open>ssh_connection\<close> returns is connected already, and the \<open>with\<close> block connects it
  again.\<close>

lemma command_leaves_connection_open:
  assumes "node_run_command e c r command background s = (Inr output, t)"
  shows "\<exists>cs ip. hist t = hist s @ cs \<and> 2 \<le> connects ip cs \<and> closes cs = 1"
proof -
  let ?body = "\<lambda>ip. if background then thenP (ssh_background_script e ip command) (ret []) else ssh_script e ip command"
  define u where "u = s\<lparr>hist := hist s @ [NodeCommand ''is_active'' (name_at s r) []]\<rparr>"
  then have u: "hist u = hist s @ [NodeCommand ''is_active'' (name_at s r) []]" by simp
  have run: "with_connection e c r ?body u = (Inr output, t)"
    using assms unfolding u_def
    by (auto simp: node_run_command_def node_ask_def get_node_def prog_simps ask_call_def ext_app
        elim!: bindP_InrE split: if_splits)
  obtain ip v where v: "ssh_connection e c r u = (Inr (Some ip), v)"
    and rest: "thenP (ssh_connect e (nc_now c) ip) (try_finally (?body ip) (ssh_close e ip)) v = (Inr output, t)"
    using run unfolding with_connection_def by (elim bindP_InrE) (simp add: prog_simps split: option.splits)
  obtain w where w: "ssh_connect e (nc_now c) ip v = (Inr (), w)"
    and x: "try_finally (?body ip) (ssh_close e ip) w = (Inr output, t)"
    using rest by (elim bindP_InrE) simp
  obtain as where as: "hist v = hist u @ as" "closes as = 0" "1 \<le> connects ip as"
    using ssh_connection_Some [OF v] by blast
  obtain bs where bs: "hist w = hist v @ bs" "closes bs = 0" "1 \<le> connects ip bs"
    using connect_Inr [OF w] by blast
  obtain q y where y: "(if background then thenP (ssh_background_script e ip command) (ret []) else ssh_script e ip command) w = (q, y)"
    by force
  have "\<exists>cs. hist y = hist w @ cs \<and> closes cs = 0"
  proof (cases background)
    case True
    obtain p z where "ssh_background_script e ip command w = (p, z)" by force
    moreover from this have "z = y" using y True by (cases p) (auto simp: bindP_def prog_simps)
    ultimately show ?thesis using background_calls by blast
  qed (use y script_calls in simp)
  then obtain cs where cs: "hist y = hist w @ cs" "closes cs = 0" by blast
  have "hist t = hist y @ [Controller ''ssh.close'' [PStr ip]]"
    using x y by (auto simp: try_finally_def ssh_close_def act_def do_call_def ext_app split: sum.splits if_splits)
  then show ?thesis using u as bs cs
    by (intro exI [of _ "[NodeCommand ''is_active'' (name_at s r) []] @ as @ bs @ cs @ [Controller ''ssh.close'' [PStr ip]]"]
        exI [of _ ip]) auto
qed

definition ready_env :: env where
  "ready_env = (still_env (sample_cluster [] []))\<lparr>e_ask := \<lambda>_ _. Inr (PBool True)\<rparr>"

lemma ready_env_simps:
  "e_ask ready_env h x = Inr (PBool True)" "e_do ready_env h x = Inr ()"
  "e_run ready_env h y = Inr \<lparr>p_out = [], p_err = [], p_rc = 0\<rparr>"
  by (simp_all add: ready_env_def still_env_def)

lemma command_leaves_connection_open_witness:
  "\<exists>t. node_run_command ready_env sample_node_api 0 ''ls'' False two_nodes = (Inr [], t) \<and> closes (hist t) = 1"
proof -
  have tcp: "wait_for_tcp_server ready_env (\<lambda>_. 0) ip s = (Inr (), s\<lparr>hist := hist s @ [Controller ''raw_tcp_connect'' [PStr ip]]\<rparr>)"
    for ip and s :: nodes_state
    by (subst wait_for_tcp_server_def, subst bindP_app, subst or_diverges_def, subst tcp_loop.simps)
      (simp add: tcp_attempt_def prog_simps bindP_def ask_bool_def ask_call_def ext_app ready_env_simps)
  obtain t where run: "node_run_command ready_env sample_node_api 0 ''ls'' False two_nodes = (Inr [], t)"
    by (simp add: node_run_command_def node_ask_def get_node_def with_connection_def prog_simps ask_call_def ext_app bindP_def
        ssh_connection_def node_ips_def set_ips_and_macs_def put_node_def sample_node_api_def ssh_connect_def tcp
        try_finally_def ssh_script_def ssh_close_def act_def do_call_def two_nodes_def try_except_def ready_env_simps)
  from command_leaves_connection_open [OF run] run show ?thesis by (auto simp: two_nodes_def)
qed

end
