(* ===== verification/Interface.thy ===== *)
theory Interface
  imports Values
begin

text \<open>
  \<open>node_controllers/node_controller.py\<close>: the interface of all controllers of machines, as two datatypes, one for what is done
  with machines and one for what is asked and changed about them, and the operations that a controller leaves
  empty: they return \<open>None\<close> and change nothing, whatever their caller expects. The other operations are in the theories
  of the controllers.
\<close>

datatype machine_operation =
    ListNodes | ListDisks string | ListNetworks | ListLeases string | ShutdownNode string | ShutdownAllNodes
  | StartNode string bool | StartAllNodes | RestartNode string | FormatNodeDisk string int | FormatAllNodeDisks
  | AttachTestDisk string int bool bool bool | DetachAllTestDisks string | GetIngressAndApiVips | DestroyAllNodes
  | GetClusterNetwork | SetupTime

datatype resource_operation =
    SetBootOrder string bool "string option" | SetPerDeviceBootOrder string | SetSingleNodeIp string | GetHostId string
  | GetCpuCores string | SetCpuCores string int | GetRamKib string | SetRamKib string int | GetPrimaryMachineCidr
  | GetProvisioningCidr | AttachInterface string string | AddInterface string string string | UndefineInterface string string
  | CreateNetwork string | GetNetworkByName string | WaitTillNodesAreReady "string option" | DestroyNetwork
  | NotifyIsoReady | SetDns string string | SetDnsForUserManagedNetwork | SetIpxeUrl string string | GetDay2StaticNetworkData

text \<open>What the abstract class itself defines, for the controllers that do not override it.\<close>

definition inherited :: "resource_operation \<Rightarrow> ('s, pyval) prog option" where
  "inherited operation =
     (case operation of
        SetBootOrder _ _ _ \<Rightarrow> Some (ret PNone)
      | GetPrimaryMachineCidr \<Rightarrow> Some (ret PNone)
      | GetProvisioningCidr \<Rightarrow> Some (ret PNone)
      | WaitTillNodesAreReady _ \<Rightarrow> Some (ret PNone)
      | NotifyIsoReady \<Rightarrow> Some (ret PNone)
      | SetDns _ _ \<Rightarrow> Some (ret PNone)
      | SetDnsForUserManagedNetwork \<Rightarrow> Some (ret PNone)
      | SetIpxeUrl _ _ \<Rightarrow> Some (ret PNone)
      | GetDay2StaticNetworkData \<Rightarrow> Some (ret PNone)
      | _ \<Rightarrow> None)"

text \<open>The empty operations; \<open>None\<close> for an operation that the controller implements or inherits.\<close>

definition redfish_idle_machine :: "machine_operation \<Rightarrow> ('s, pyval) prog option" where
  "redfish_idle_machine operation =
     (case operation of ListNodes \<Rightarrow> None | ListDisks _ \<Rightarrow> None | _ \<Rightarrow> Some (ret PNone))"

definition redfish_idle_resource :: "resource_operation \<Rightarrow> ('s, pyval) prog option" where
  "redfish_idle_resource operation =
     (case operation of
        NotifyIsoReady \<Rightarrow> None | SetDns _ _ \<Rightarrow> None | SetDnsForUserManagedNetwork \<Rightarrow> None | SetIpxeUrl _ _ \<Rightarrow> None
      | GetDay2StaticNetworkData \<Rightarrow> None | _ \<Rightarrow> Some (ret PNone))"

definition adapter_idle_machine :: "machine_operation \<Rightarrow> ('s, pyval) prog option" where
  "adapter_idle_machine operation =
     (case operation of ListNodes \<Rightarrow> None | ListDisks _ \<Rightarrow> None | _ \<Rightarrow> Some (ret PNone))"

definition adapter_idle_resource :: "resource_operation \<Rightarrow> ('s, pyval) prog option" where
  "adapter_idle_resource operation = Some (ret PNone)"

definition oci_idle_machine :: "machine_operation \<Rightarrow> ('s, pyval) prog option" where
  "oci_idle_machine operation =
     (case operation of ListNodes \<Rightarrow> None | DestroyAllNodes \<Rightarrow> None | _ \<Rightarrow> Some (ret PNone))"

definition oci_idle_resource :: "resource_operation \<Rightarrow> ('s, pyval) prog option" where
  "oci_idle_resource operation = Some (ret PNone)"

definition tf_idle_machine :: "machine_operation \<Rightarrow> ('s, pyval) prog option" where
  "tf_idle_machine operation =
     (case operation of
        FormatNodeDisk _ _ \<Rightarrow> Some (ret PNone) | ListDisks _ \<Rightarrow> Some (ret PNone) | FormatAllNodeDisks \<Rightarrow> Some (ret PNone)
      | ListNetworks \<Rightarrow> Some (ret PNone) | ListLeases _ \<Rightarrow> Some (ret PNone) | AttachTestDisk _ _ _ _ _ \<Rightarrow> Some (ret PNone)
      | DetachAllTestDisks _ \<Rightarrow> Some (ret PNone) | GetClusterNetwork \<Rightarrow> Some (ret PNone) | SetupTime \<Rightarrow> Some (ret PNone)
      | _ \<Rightarrow> None)"

definition tf_idle_resource :: "resource_operation \<Rightarrow> ('s, pyval) prog option" where
  "tf_idle_resource operation =
     (case operation of
        SetPerDeviceBootOrder _ \<Rightarrow> Some (ret PNone) | GetHostId _ \<Rightarrow> Some (ret PNone) | SetCpuCores _ _ \<Rightarrow> Some (ret PNone)
      | SetRamKib _ _ \<Rightarrow> Some (ret PNone) | AttachInterface _ _ \<Rightarrow> Some (ret PNone) | AddInterface _ _ _ \<Rightarrow> Some (ret PNone)
      | UndefineInterface _ _ \<Rightarrow> Some (ret PNone) | CreateNetwork _ \<Rightarrow> Some (ret PNone)
      | GetNetworkByName _ \<Rightarrow> Some (ret PNone) | DestroyNetwork \<Rightarrow> Some (ret PNone) | SetSingleNodeIp _ \<Rightarrow> Some (ret PNone)
      | _ \<Rightarrow> None)"

text \<open>\<open>is_active\<close> of the controllers of vSphere and Nutanix.\<close>

definition assumed_active :: "string \<Rightarrow> ('s, bool) prog" where
  "assumed_active node_name = ret True"

end
