(* ===== verification/Libvirt.thy ===== *)
theory Libvirt
  imports Nodes
begin

text \<open>
  \<open>node_controllers/libvirt_controller.py\<close> (and \<open>disk.py\<close>): the machines of a libvirt host. Libvirt is a parameter
  (\<open>libvirt_env\<close>): its answers depend on the calls made so far. Of the XML description of a domain the model
  has what the code reads and changes: the boot devices of the \<open>os\<close> element, and the disks with
  their sources, targets and boot elements.
\<close>

section \<open>Domains\<close>

datatype disk_source_type = FILE | NETWORK | BLOCK | DIR | VOLUME | NVME | OTHER

record disk =
  dk_type :: string
  dk_alias :: "string option"
  dk_wwn :: "string option"
  dk_bus :: "string option"
  dk_target :: "string option"
  dk_source_type :: disk_source_type
  dk_source_path :: "string option"
  dk_source_pool :: "string option"
  dk_source_volume :: "string option"

text \<open>
  A \<open>disk\<close> element: its opening tag as text, its attributes \<open>device\<close> and \<open>type\<close>, the attributes of its first \<open>source\<close>, \<open>target\<close> and \<open>alias\<close>
  elements, the text of \<open>wwn\<close>, and the attributes \<open>order\<close> of its boot elements. A missing attribute
  reads as the empty string.
\<close>

record disk_xml =
  dx_tag :: string
  dx_device :: string
  dx_type :: string
  dx_source :: "(string, string) dict option"
  dx_target :: "(string, string) dict option"
  dx_alias :: "(string, string) dict option"
  dx_wwn :: "string option"
  dx_boot :: "int list"

record domain_xml =
  dm_os_boot :: "string list"
  dm_disks :: "disk_xml list"
  dm_memory :: pyval
  dm_current_memory :: pyval
  dm_vcpu :: pyval

record lease =
  ls_mac :: string
  ls_ipaddr :: string
  ls_hostname :: string

record domain_interface =
  di_hwaddr :: string
  di_addrs :: "string list"

text \<open>\<open>lv_network_hosts\<close> is \<open>None\<close> when the description of the network lacks one of the elements looked for.\<close>

record libvirt_env =
  lv_domains :: "call list \<Rightarrow> exn + string list"
  lv_leases :: "call list \<Rightarrow> string \<Rightarrow> exn + lease list"
  lv_network_hosts :: "call list \<Rightarrow> string \<Rightarrow> exn + lease list option"
  lv_addresses :: "call list \<Rightarrow> string \<Rightarrow> string \<Rightarrow> exn + (string, domain_interface) dict"
  lv_xml :: "call list \<Rightarrow> string \<Rightarrow> exn + domain_xml"
  lv_define :: "call list \<Rightarrow> domain_xml \<Rightarrow> exn + bool"

type_synonym ('z, 'a) lprog = "((call, 'z) world_scheme, 'a) prog"

definition attribute :: "string \<Rightarrow> (string, string) dict \<Rightarrow> string" where
  "attribute k attrs = (case dict_get attrs k of None \<Rightarrow> [] | Some v \<Rightarrow> v)"

definition list_nodes_with_name_filter :: "env \<Rightarrow> libvirt_env \<Rightarrow> string option \<Rightarrow> ('z, node list) lprog" where
  "list_nodes_with_name_filter e l name_filter =
     bindP (ext (lv_domains l) (Controller ''listAllDomains'' [])) (\<lambda>domains.
       collect (\<lambda>domain_name. node_init e domain_name [])
         (filter (\<lambda>domain_name.
            \<not> (name_filter \<noteq> None \<and> name_filter \<noteq> Some [] \<and> \<not> occurs_in (the name_filter) domain_name)
            \<and> (occurs_in (role_value Master) domain_name \<or> occurs_in (role_value Worker) domain_name
               \<or> occurs_in (role_value Arbiter) domain_name)) domains))"

definition libvirt_list_nodes :: "env \<Rightarrow> libvirt_env \<Rightarrow> ('z, node list) lprog" where
  "libvirt_list_nodes e l = list_nodes_with_name_filter e l None"

section \<open>Disks\<close>

definition get_disk_source_attributes ::
  "disk_xml \<Rightarrow> disk_source_type \<times> string option \<times> string option \<times> string option" where
  "get_disk_source_attributes x =
     (case dx_source x of
        None \<Rightarrow> (OTHER, None, None, None)
      | Some src \<Rightarrow>
          if dx_type x = ''file'' then (FILE, Some (attribute ''file'' src), None, None)
          else if dx_type x = ''block'' then (BLOCK, Some (attribute ''dev'' src), None, None)
          else if dx_type x = ''dir'' then (DIR, Some (attribute ''dir'' src), None, None)
          else if dx_type x = ''network'' then (NETWORK, None, None, None)
          else if dx_type x = ''volume'' then
            (VOLUME, None, Some (attribute ''pool'' src), Some (attribute ''volume'' src))
          else if dx_type x = ''nvme'' then (NVME, None, None, None)
          else (OTHER, None, None, None))"

definition get_disk_target_data :: "disk_xml \<Rightarrow> string option \<times> string option" where
  "get_disk_target_data x = (map_option (attribute ''bus'') (dx_target x), map_option (attribute ''dev'') (dx_target x))"

definition get_disk_alias :: "disk_xml \<Rightarrow> string option" where
  "get_disk_alias x = map_option (attribute ''name'') (dx_alias x)"

definition disk_xml_to_disk_obj :: "disk_xml \<Rightarrow> disk" where
  "disk_xml_to_disk_obj x =
     (let (source_type, source_path, source_pool, source_volume) = get_disk_source_attributes x;
          (bus, target) = get_disk_target_data x
      in \<lparr>dk_type = dx_device x, dk_alias = get_disk_alias x, dk_wwn = dx_wwn x, dk_bus = bus, dk_target = target,
          dk_source_type = source_type, dk_source_path = source_path, dk_source_pool = source_pool,
          dk_source_volume = source_volume\<rparr>)"

definition get_xml :: "libvirt_env \<Rightarrow> string \<Rightarrow> ('z, domain_xml) lprog" where
  "get_xml l node_name = ext (\<lambda>h. lv_xml l h node_name) (NodeCommand ''XMLDesc'' node_name [])"

definition list_disks :: "libvirt_env \<Rightarrow> string \<Rightarrow> ('z, disk list) lprog" where
  "list_disks l node_name = bindP (get_xml l node_name) (\<lambda>x. ret (map disk_xml_to_disk_obj (dm_disks x)))"

definition get_all_scsi_disks :: "disk list \<Rightarrow> disk list" where
  "get_all_scsi_disks disks = filter (\<lambda>d. dk_bus d = Some ''scsi'') disks"

definition TEST_DISKS_PREFIX :: string where "TEST_DISKS_PREFIX = ''ua-TestInfraDisk''"

definition get_attached_test_disks :: "disk list \<Rightarrow> disk list" where
  "get_attached_test_disks disks =
     filter (\<lambda>d. case dk_alias d of None \<Rightarrow> False | Some a \<Rightarrow> a \<noteq> [] \<and> prefix TEST_DISKS_PREFIX a)
       (get_all_scsi_disks disks)"

text \<open>\<open>re.findall\<close> with the first two characters of the target as its beginning: what follows them.\<close>

definition get_disk_scsi_identifier :: "disk \<Rightarrow> exn + string" where
  "get_disk_scsi_identifier d = (case dk_target d of None \<Rightarrow> Inl TypeError | Some t \<Rightarrow> Inr (drop 2 t))"

definition ascii_lowercase :: string where
  "ascii_lowercase = ''abcdefghijklmnopqrstuvwxyz''"

definition get_available_scsi_identifier :: "disk list \<Rightarrow> exn + string" where
  "get_available_scsi_identifier disks =
     sum_bind (sum_map get_disk_scsi_identifier (get_all_scsi_disks disks)) (\<lambda>identifiers_in_use.
       case find (\<lambda>c. [c] \<notin> set identifiers_in_use) ascii_lowercase of
         None \<Rightarrow> Inl (ValueError ''all are taken'')
       | Some c \<Rightarrow> Inr [c])"

text \<open>\<open>tmp_disk\<close> is the name of the temporary file, \<open>wwn\<close> the random identifier.\<close>

definition create_disk :: "env \<Rightarrow> string \<Rightarrow> string \<Rightarrow> ('z, unit) lprog" where
  "create_disk e path disk_size =
     bindP (run_command e (''qemu-img create -f qcow2 '' @ path @ '' '' @ disk_size) True) (\<lambda>_. ret ())"

definition add_disk_bootflag :: "env \<Rightarrow> string \<Rightarrow> ('z, unit) lprog" where
  "add_disk_bootflag e path =
     bindP (run_command e (''virt-format -a '' @ path @ '' --partition=mbr'') True) (\<lambda>_. ret ())"

text \<open>\<open>virtual_size\<close> takes the size out of the JSON output of \<open>qemu-img info\<close>.\<close>

definition format_disk :: "env \<Rightarrow> (string \<Rightarrow> exn + string) \<Rightarrow> string \<Rightarrow> ('z, unit) lprog" where
  "format_disk e virtual_size path =
     bindP (ask_bool e ''os.path.exists'' [PStr path]) (\<lambda>exists.
       if \<not> exists then ret ()
       else bindP (run_command e (''qemu-img info '' @ path @ '' --output json'') True) (\<lambda>(output, _, _).
         bindP (sum_prog (virtual_size output)) (create_disk e path)))"

definition attach_test_disk ::
  "env \<Rightarrow> libvirt_env \<Rightarrow> string \<Rightarrow> string \<Rightarrow> string \<Rightarrow> string \<Rightarrow> bool \<Rightarrow> bool \<Rightarrow> bool \<Rightarrow> ('z, string) lprog" where
  "attach_test_disk e l tmp_disk wwn node_name disk_size bootable persistent with_wwn =
     bindP (list_disks l node_name) (\<lambda>disks.
       bindP (sum_prog (get_available_scsi_identifier disks)) (\<lambda>identifier.
         let target_dev = ''sd'' @ identifier; disk_alias = TEST_DISKS_PREFIX @ ''-'' @ target_dev
         in thenP (create_disk e tmp_disk disk_size)
           (thenP (whenP bootable (add_disk_bootflag e tmp_disk))
           (thenP (do_call e (NodeCommand ''attachDeviceFlags'' node_name
              [PStr disk_alias, PStr tmp_disk, PStr target_dev, if with_wwn then PStr wwn else PNone, PBool persistent]))
             (ret tmp_disk)))))"

definition detach_test_disk :: "env \<Rightarrow> string \<Rightarrow> string \<Rightarrow> disk \<Rightarrow> ('z, unit) lprog" where
  "detach_test_disk e tempdir node_name d =
     thenP (do_call e (NodeCommand ''detachDeviceAlias'' node_name [PStr (the (dk_alias d))]))
       (case dk_source_path d of
          None \<Rightarrow> raise AssertionError
        | Some p \<Rightarrow> thenP (assertP (prefix tempdir p)) (act e ''os.remove'' [PStr p]))"

definition detach_all_test_disks :: "env \<Rightarrow> libvirt_env \<Rightarrow> string \<Rightarrow> string \<Rightarrow> ('z, unit) lprog" where
  "detach_all_test_disks e l tempdir node_name =
     bindP (list_disks l node_name) (\<lambda>disks.
       for_each (detach_test_disk e tempdir node_name) (get_attached_test_disks disks))"

section \<open>Networks\<close>

text \<open>The leases, and the hosts of the network's description that have no lease; read under the file lock.\<close>

definition list_leases :: "env \<Rightarrow> libvirt_env \<Rightarrow> string \<Rightarrow> ('z, lease list) lprog" where
  "list_leases e l network_name =
     file_lock_context e ''/tmp/src.lock''
       (bindP (ext (\<lambda>h. lv_leases l h network_name) (Controller ''DHCPLeases'' [PStr network_name])) (\<lambda>leases.
         bindP (ext (\<lambda>h. lv_network_hosts l h network_name) (Controller ''networkXMLDesc'' [PStr network_name])) (\<lambda>r.
           let hosts = (case r of None \<Rightarrow> [] | Some hs \<Rightarrow> hs)
           in ret (leases @ filter (\<lambda>h. ls_ipaddr h \<notin> set (map ls_ipaddr leases)) hosts))))"

type_synonym 'z lwaiter = "((call, 'z) world_scheme, unit) waiter"

text \<open>Whatever ends the wait is raised again, after the leases were read once more for the log.\<close>

definition wait_till_nodes_are_ready ::
  "'z lwaiter \<Rightarrow> env \<Rightarrow> libvirt_env \<Rightarrow> int \<Rightarrow> string option \<Rightarrow> ('z, unit) lprog" where
  "wait_till_nodes_are_ready wait e l nodes_count network_name =
     (case network_name of
        None \<Rightarrow> raise AssertionError
      | Some n \<Rightarrow>
          try_except
            (wait (bindP (list_leases e l n) (\<lambda>ls. ret (truthy (nodes_count \<le> int (length ls)))))
               (NODES_REGISTERED_TIMEOUT * nodes_count) 10 no_exceptions)
            (\<lambda>x. thenP (list_leases e l n) (raise x)))"

definition create_network :: "env \<Rightarrow> pyval \<Rightarrow> ('z, pyval) lprog" where
  "create_network e network_xml =
     bindP (ask_call e (Controller ''networkCreateXML'' [network_xml])) (\<lambda>network.
       if network = PNone then raise GenericException
       else bindP (ask_call e (Controller ''network.isActive'' [network])) (\<lambda>active.
         if active \<noteq> PInt 1 then thenP (act e ''network.destroy'' [network]) (raise GenericException)
         else ret network))"

text \<open>The address of the interface is that of the first new lease, or empty when the second listing has none.\<close>

definition add_interface ::
  "'z lwaiter \<Rightarrow> env \<Rightarrow> libvirt_env \<Rightarrow> string \<Rightarrow> string \<Rightarrow> string \<Rightarrow> string \<Rightarrow> ('z, string) lprog" where
  "add_interface wait e l node_name network_name target_interface model =
     bindP (list_leases e l network_name) (\<lambda>net_leases.
       let mac_addresses = map ls_mac net_leases
       in bindP (run_command e (''virsh attach-interface '' @ node_name @ '' network '' @ network_name
              @ '' --target '' @ target_interface @ '' --persistent --model '' @ model) True) (\<lambda>_.
         thenP
           (try_except
             (wait (bindP (list_leases e l network_name) (\<lambda>ls. ret (truthy (length mac_addresses < length ls)))) 30 2
                no_exceptions)
             raise)
           (bindP (list_leases e l network_name) (\<lambda>new_net_leases.
              ret (case find (\<lambda>lease. ls_mac lease \<notin> set mac_addresses) new_net_leases of
                     None \<Rightarrow> [] | Some lease \<Rightarrow> ls_mac lease)))))"

text \<open>\<open>bridge_name\<close> is the method of libvirt's network objects.\<close>

definition attach_interface ::
  "'z lwaiter \<Rightarrow> env \<Rightarrow> libvirt_env \<Rightarrow> (pyval \<Rightarrow> string) \<Rightarrow> string \<Rightarrow> pyval \<Rightarrow> string \<Rightarrow> ('z, pyval \<times> string) lprog" where
  "attach_interface wait e l bridge_name node_name network_xml target_interface =
     bindP (create_network e network_xml) (\<lambda>network.
       bindP (add_interface wait e l node_name (bridge_name network) target_interface ''virtio'') (\<lambda>mac.
         ret (network, mac)))"

definition undefine_interface :: "env \<Rightarrow> string \<Rightarrow> string \<Rightarrow> ('z, unit) lprog" where
  "undefine_interface e node_name mac =
     bindP (run_command e (''virsh detach-interface '' @ node_name @ '' --type network --mac '' @ mac) True) (\<lambda>_. ret ())"

section \<open>Addresses\<close>

text \<open>Addresses from the leases, then from ARP; an error of libvirt leaves a source out.\<close>

definition add_addresses ::
  "libvirt_env \<Rightarrow> string \<Rightarrow> (string, domain_interface) dict \<Rightarrow> string \<Rightarrow> ('z, (string, domain_interface) dict) lprog" where
  "add_addresses l domain interfaces addresses_source =
     try_except
       (bindP (ext (\<lambda>h. lv_addresses l h domain addresses_source) (NodeCommand ''interfaceAddresses'' domain [PStr addresses_source]))
         (\<lambda>d. ret (dict_update interfaces d)))
       (\<lambda>x. if x = LibvirtError then ret interfaces else raise x)"

definition ips_and_macs_of :: "(string, domain_interface) dict \<Rightarrow> string list \<times> string list" where
  "ips_and_macs_of interfaces =
     (let pairs = concat (map (\<lambda>(_, val). map (\<lambda>addr. (addr, di_hwaddr val)) (di_addrs val)) interfaces)
      in (map fst pairs, map snd pairs))"

definition get_domain_ips_and_macs :: "libvirt_env \<Rightarrow> string \<Rightarrow> ('z, string list \<times> string list) lprog" where
  "get_domain_ips_and_macs l domain =
     bindP (add_addresses l domain [] ''lease'') (\<lambda>interfaces.
       bindP (add_addresses l domain interfaces ''arp'') (\<lambda>interfaces. ret (ips_and_macs_of interfaces)))"

definition wait_till_domain_has_ips :: "'z lwaiter \<Rightarrow> libvirt_env \<Rightarrow> string \<Rightarrow> ('z, unit) lprog" where
  "wait_till_domain_has_ips wait l domain =
     wait (bindP (get_domain_ips_and_macs l domain) (\<lambda>(ips, _). ret (truthy (0 < length ips)))) 600 10 is_Exception"

section \<open>Starting and stopping\<close>

definition is_active :: "env \<Rightarrow> string \<Rightarrow> ('z, bool) lprog" where
  "is_active e node_name =
     bindP (ask_call e (NodeCommand ''isActive'' node_name [])) (\<lambda>v. ret (truth v))"

definition shutdown_node :: "env \<Rightarrow> string \<Rightarrow> ('z, unit) lprog" where
  "shutdown_node e node_name =
     bindP (is_active e node_name) (\<lambda>active. whenP active (do_call e (NodeCommand ''destroy'' node_name [])))"

definition create_domain :: "'z lwaiter \<Rightarrow> env \<Rightarrow> libvirt_env \<Rightarrow> string \<Rightarrow> bool \<Rightarrow> ('z, unit) lprog" where
  "create_domain wait e l node_name check_ips =
     thenP (do_call e (NodeCommand ''create'' node_name [])) (whenP check_ips (wait_till_domain_has_ips wait l node_name))"

definition start_node :: "'z lwaiter \<Rightarrow> env \<Rightarrow> libvirt_env \<Rightarrow> string \<Rightarrow> bool \<Rightarrow> ('z, unit) lprog" where
  "start_node wait e l node_name check_ips =
     bindP (is_active e node_name) (\<lambda>active.
       whenP (\<not> active)
         (try_except (create_domain wait e l node_name check_ips)
            (\<lambda>x. if x = TimeoutExpired
               then thenP (shutdown_node e node_name) (create_domain wait e l node_name check_ips)
               else raise x)))"

definition restart_node :: "'z lwaiter \<Rightarrow> env \<Rightarrow> libvirt_env \<Rightarrow> string \<Rightarrow> ('z, unit) lprog" where
  "restart_node wait e l node_name = thenP (shutdown_node e node_name) (start_node wait e l node_name True)"

definition shutdown_all_nodes :: "env \<Rightarrow> libvirt_env \<Rightarrow> ('z, unit) lprog" where
  "shutdown_all_nodes e l =
     bindP (libvirt_list_nodes e l) (\<lambda>ns. for_each (\<lambda>n. shutdown_node e (nd_name n)) ns)"

definition start_all_nodes :: "'z lwaiter \<Rightarrow> env \<Rightarrow> libvirt_env \<Rightarrow> ('z, node list) lprog" where
  "start_all_nodes wait e l =
     bindP (libvirt_list_nodes e l) (\<lambda>ns. thenP (for_each (\<lambda>n. start_node wait e l (nd_name n) True) ns) (ret ns))"

text \<open>\<open>node.name()\<close> calls a string.\<close>

definition format_all_node_disks :: "env \<Rightarrow> libvirt_env \<Rightarrow> ('z, unit) lprog" where
  "format_all_node_disks e l =
     bindP (libvirt_list_nodes e l) (\<lambda>ns. for_each (\<lambda>n. raise TypeError) ns)"

definition libvirt_destroy_all_nodes :: "env \<Rightarrow> libvirt_env \<Rightarrow> ('z, unit) lprog" where
  "libvirt_destroy_all_nodes e l = thenP (shutdown_all_nodes e l) (format_all_node_disks e l)"

section \<open>The boot order\<close>

definition boot_devices_known :: "domain_xml \<Rightarrow> bool" where
  "boot_devices_known x \<longleftrightarrow> list_all (\<lambda>dev. dev \<in> {''cdrom'', ''hd'', ''network''}) (dm_os_boot x)"

text \<open>An unknown boot device raises; the boot elements of disks are removed.\<close>

definition clean_domain_os_boot_data :: "domain_xml \<Rightarrow> exn + domain_xml" where
  "clean_domain_os_boot_data x =
     (if boot_devices_known x
      then Inr (x\<lparr>dm_os_boot := [], dm_disks := map (\<lambda>d. d\<lparr>dx_boot := []\<rparr>) (dm_disks x)\<rparr>)
      else Inl (ValueError ''Found unexpected boot device''))"

definition is_cdrom_file :: "disk_xml \<Rightarrow> bool" where
  "is_cdrom_file d \<longleftrightarrow> dx_tag d = ''<disk type='' @ [CHR 0x22] @ ''file'' @ [CHR 0x22] @ '' device='' @ [CHR 0x22]
     @ ''cdrom'' @ [CHR 0x22] @ ''>''"

definition update_cdrom_file_path :: "string \<Rightarrow> domain_xml \<Rightarrow> exn + domain_xml" where
  "update_cdrom_file_path cdrom_iso_path x =
     (case filter is_cdrom_file (dm_disks x) of
        [d] \<Rightarrow>
          (case dx_source d of
             None \<Rightarrow> Inl IndexError
           | Some _ \<Rightarrow> Inr (x\<lparr>dm_disks := map (\<lambda>d. if is_cdrom_file d
               then d\<lparr>dx_source := map_option (dict_set ''file'' cdrom_iso_path) (dx_source d)\<rparr> else d) (dm_disks x)\<rparr>))
      | _ \<Rightarrow> Inl AssertionError)"

definition define_xml :: "libvirt_env \<Rightarrow> string \<Rightarrow> domain_xml \<Rightarrow> ('z, unit) lprog" where
  "define_xml l node_name x =
     bindP (ext (\<lambda>h. lv_define l h x) (NodeCommand ''defineXML'' node_name [])) (\<lambda>ok. if ok then ret () else raise GenericException)"

definition with_boot_order :: "bool \<Rightarrow> string option \<Rightarrow> domain_xml \<Rightarrow> exn + domain_xml" where
  "with_boot_order cd_first cdrom_iso_path x =
     sum_bind (clean_domain_os_boot_data x) (\<lambda>x.
       let x = x\<lparr>dm_os_boot := dm_os_boot x @ [if cd_first then ''cdrom'' else ''hd'', if cd_first then ''hd'' else ''cdrom'']\<rparr>
       in case cdrom_iso_path of
            None \<Rightarrow> Inr x | Some p \<Rightarrow> if p = [] then Inr x else update_cdrom_file_path p x)"

definition set_boot_order :: "libvirt_env \<Rightarrow> string \<Rightarrow> bool \<Rightarrow> string option \<Rightarrow> ('z, unit) lprog" where
  "set_boot_order l node_name cd_first cdrom_iso_path =
     bindP (get_xml l node_name) (\<lambda>x.
       bindP (sum_prog (with_boot_order cd_first cdrom_iso_path x)) (define_xml l node_name))"

text \<open>\<open>disks_xmls.sort(key=...)\<close> and the boot element for each, numbered from 1; the document keeps its order.\<close>

definition with_per_device_boot_order :: "(disk \<Rightarrow> int) \<Rightarrow> domain_xml \<Rightarrow> exn + domain_xml" where
  "with_per_device_boot_order key x =
     sum_bind (clean_domain_os_boot_data x) (\<lambda>x.
       let keys = map (\<lambda>d. key (disk_xml_to_disk_obj d)) (dm_disks x);
           sorted = sort_key (nth keys) [0..<length (dm_disks x)]
       in Inr (x\<lparr>dm_disks := fold (\<lambda>(index, i) ds. ds[i := (ds ! i)\<lparr>dx_boot := dx_boot (ds ! i) @ [int index + 1]\<rparr>])
            (enumerate 0 sorted) (dm_disks x)\<rparr>))"

definition set_per_device_boot_order ::
  "'z lwaiter \<Rightarrow> env \<Rightarrow> libvirt_env \<Rightarrow> string \<Rightarrow> (disk \<Rightarrow> int) \<Rightarrow> ('z, unit) lprog" where
  "set_per_device_boot_order wait e l node_name key =
     bindP (get_xml l node_name) (\<lambda>x.
       bindP (sum_prog (with_per_device_boot_order key x)) (\<lambda>x.
         thenP (define_xml l node_name x)
           (thenP (shutdown_node e node_name) (start_node wait e l node_name True))))"

section \<open>Resources\<close>

definition libvirt_get_cpu_cores :: "libvirt_env \<Rightarrow> string \<Rightarrow> ('z, pyval) lprog" where
  "libvirt_get_cpu_cores l node_name = bindP (get_xml l node_name) (\<lambda>x. ret (dm_vcpu x))"

definition libvirt_get_ram_kib :: "libvirt_env \<Rightarrow> string \<Rightarrow> ('z, pyval) lprog" where
  "libvirt_get_ram_kib l node_name = bindP (get_xml l node_name) (\<lambda>x. ret (dm_current_memory x))"

definition libvirt_set_ram_kib :: "libvirt_env \<Rightarrow> string \<Rightarrow> pyval \<Rightarrow> ('z, unit) lprog" where
  "libvirt_set_ram_kib l node_name ram_kib =
     bindP (get_xml l node_name) (\<lambda>x. define_xml l node_name (x\<lparr>dm_memory := ram_kib, dm_current_memory := ram_kib\<rparr>))"

section \<open>Properties\<close>

subsection \<open>The order of the disks\<close>

text \<open>Disks are ordered by key, and disks of the same key by their place in the description.\<close>

definition boots_before :: "(nat \<Rightarrow> int) \<Rightarrow> nat \<Rightarrow> nat \<Rightarrow> bool" where
  "boots_before k i j \<longleftrightarrow> k i < k j \<or> k i = k j \<and> i < j"

lemma insort_ordered:
  "sorted_wrt (boots_before k) xs \<Longrightarrow> list_all (\<lambda>y. i < y) xs \<Longrightarrow> sorted_wrt (boots_before k) (insort_key k i xs)"
proof (induction xs)
  case (Cons y ys)
  show ?case
  proof (cases "k i \<le> k y")
    case True
    have "boots_before k i z" if "z \<in> set (y # ys)" for z
    proof -
      have "z = y \<or> boots_before k y z" using that Cons.prems(1) by auto
      then have "k y \<le> k z" by (auto simp: boots_before_def)
      moreover have "i < z" using that Cons.prems(2) by (auto simp: list_all_iff)
      ultimately show ?thesis using True by (auto simp: boots_before_def)
    qed
    then show ?thesis using True Cons.prems(1) by simp
  next
    case False
    then show ?thesis
      using Cons by (auto simp: set_insort_key boots_before_def)
  qed
qed simp

lemma sort_key_ordered: "i \<le> n \<Longrightarrow> sorted_wrt (boots_before k) (sort_key k [i..<n])"
proof (induction rule: inc_induct)
  case (step i)
  have "sort_key k [i..<n] = insort_key k i (sort_key k [Suc i..<n])"
    using step.hyps by (simp add: upt_conv_Cons)
  then show ?case using insort_ordered [OF step.IH, of i] by (simp add: list_all_iff)
qed simp

definition boot_rank :: "(nat \<Rightarrow> int) \<Rightarrow> nat \<Rightarrow> nat \<Rightarrow> nat" where
  "boot_rank k n i = length (filter (\<lambda>j. boots_before k j i) [0..<n])"

lemma position_is_rank:
  assumes "p < n" "sort_key k [0..<n] ! p = i"
  shows "boot_rank k n i = p"
proof -
  let ?xs = "sort_key k [0..<n]"
  have len: "length ?xs = n" and xs: "sorted_wrt (boots_before k) ?xs" "mset ?xs = mset [0..<n]"
    using sort_key_ordered [of 0 n k] by simp_all
  have "filter (\<lambda>j. boots_before k j i) ?xs = take p ?xs"
  proof -
    have "boots_before k (?xs ! a) i" if "a < p" for a
      using sorted_wrt_nth_less [OF xs(1), of a p] that assms len by simp
    moreover have "\<not> boots_before k (?xs ! a) i" if "p \<le> a" "a < n" for a
    proof (cases "a = p")
      case False
      then have "boots_before k i (?xs ! a)"
        using sorted_wrt_nth_less [OF xs(1), of p a] that assms len by simp
      then show ?thesis by (auto simp: boots_before_def)
    qed (use assms in \<open>simp add: boots_before_def\<close>)
    ultimately have "list_all (\<lambda>j. boots_before k j i) (take p ?xs)" "list_all (\<lambda>j. \<not> boots_before k j i) (drop p ?xs)"
      using assms(1) len by (auto simp: list_all_length)
    then have "filter (\<lambda>j. boots_before k j i) (take p ?xs @ drop p ?xs) = take p ?xs"
      by (simp only: filter_append) (simp add: list_all_iff filter_id_conv filter_empty_conv)
    then show ?thesis by simp
  qed
  then have "length (filter (\<lambda>j. boots_before k j i) ?xs) = p" using assms(1) len by simp
  moreover have "mset (filter (\<lambda>j. boots_before k j i) ?xs) = mset (filter (\<lambda>j. boots_before k j i) [0..<n])"
    using xs(2) by (simp add: mset_filter)
  ultimately show ?thesis unfolding boot_rank_def by (metis mset_eq_length)
qed

definition number_disks :: "nat \<Rightarrow> nat list \<Rightarrow> disk_xml list \<Rightarrow> disk_xml list" where
  "number_disks from is ds =
     fold (\<lambda>(index, i) ds. ds[i := (ds ! i)\<lparr>dx_boot := dx_boot (ds ! i) @ [int index + 1]\<rparr>]) (enumerate from is) ds"

lemma number_disks_nth:
  "distinct is \<Longrightarrow> list_all (\<lambda>i. i < length ds) is \<Longrightarrow> j < length ds \<Longrightarrow>
     length (number_disks from is ds) = length ds
     \<and> (\<forall>p < length is. is ! p = j \<longrightarrow>
          number_disks from is ds ! j = (ds ! j)\<lparr>dx_boot := dx_boot (ds ! j) @ [int (from + p) + 1]\<rparr>)
     \<and> (j \<notin> set is \<longrightarrow> number_disks from is ds ! j = ds ! j)"
proof (induction "is" arbitrary: "from" ds)
  case (Cons i "is")
  let ?ds = "ds[i := (ds ! i)\<lparr>dx_boot := dx_boot (ds ! i) @ [int from + 1]\<rparr>]"
  have step: "number_disks from (i # is) ds = number_disks (Suc from) is ?ds"
    by (simp add: number_disks_def)
  have IH: "length (number_disks (Suc from) is ?ds) = length ds"
    "\<forall>p < length is. is ! p = j \<longrightarrow>
       number_disks (Suc from) is ?ds ! j = (?ds ! j)\<lparr>dx_boot := dx_boot (?ds ! j) @ [int (Suc from + p) + 1]\<rparr>"
    "j \<notin> set is \<longrightarrow> number_disks (Suc from) is ?ds ! j = ?ds ! j"
    using Cons.IH [of ?ds "Suc from"] Cons.prems by simp_all
  show ?case
  proof (intro conjI allI impI)
    show "length (number_disks from (i # is) ds) = length ds" using IH(1) step by simp
    show "number_disks from (i # is) ds ! j = ds ! j" if "j \<notin> set (i # is)"
      using IH(3) step that by simp
  next
    fix p assume p: "p < length (i # is)" "(i # is) ! p = j"
    show "number_disks from (i # is) ds ! j = (ds ! j)\<lparr>dx_boot := dx_boot (ds ! j) @ [int (from + p) + 1]\<rparr>"
    proof (cases p)
      case 0
      then show ?thesis using p IH(3) step Cons.prems by simp
    next
      case (Suc q)
      then have "q < length is" "is ! q = j" using p by simp_all
      moreover from this have "i \<noteq> j" using Cons.prems(1) by (metis distinct.simps(2) nth_mem)
      ultimately show ?thesis using IH(2) step Suc by simp
    qed
  qed
qed (simp add: number_disks_def)

lemma length_number_disks [simp]: "length (number_disks from is ds) = length ds"
  by (induction "is" arbitrary: "from" ds) (simp_all add: number_disks_def)

lemma disks_numbered_by_rank:
  "number_disks 0 (sort_key k [0..<length ds]) (map (\<lambda>d. d\<lparr>dx_boot := []\<rparr>) ds) =
     map (\<lambda>i. (ds ! i)\<lparr>dx_boot := [int (boot_rank k (length ds) i) + 1]\<rparr>) [0..<length ds]"
proof (rule nth_equalityI)
  let ?s = "sort_key k [0..<length ds]" and ?clean = "map (\<lambda>d. d\<lparr>dx_boot := []\<rparr>) ds"
  fix j assume "j < length (number_disks 0 ?s ?clean)"
  then have j: "j < length ds" by simp
  then have "j \<in> set ?s" by simp
  then obtain p where p: "p < length ds" "?s ! p = j" by (metis in_set_conv_nth length_sort length_upt minus_nat.diff_0)
  then have "number_disks 0 ?s ?clean ! j = (ds ! j)\<lparr>dx_boot := [int p + 1]\<rparr>"
    using number_disks_nth [of ?s ?clean j 0] j by (simp add: list_all_iff)
  moreover have "boot_rank k (length ds) j = p" by (rule position_is_rank [OF p])
  ultimately show "number_disks 0 ?s ?clean ! j =
      map (\<lambda>i. (ds ! i)\<lparr>dx_boot := [int (boot_rank k (length ds) i) + 1]\<rparr>) [0..<length ds] ! j"
    using j by simp
qed simp

lemma disk_obj_boot [simp]: "disk_xml_to_disk_obj (d\<lparr>dx_boot := b\<rparr>) = disk_xml_to_disk_obj d"
  by (simp add: disk_xml_to_disk_obj_def get_disk_source_attributes_def get_disk_target_data_def get_disk_alias_def
      split: option.split)

text \<open>C11: Setting the boot order of the disks one by one takes the boot devices of the operating system away, gives every
  disk one boot element whose number is its rank by the given key (and by its place for equal keys), so
  that the numbers are those from 1 up, and changes nothing else of the disks. It fails exactly if the
  description has a boot device other than the three known ones.\<close>

theorem disks_boot_by_rank:
  "case with_per_device_boot_order key x of
     Inl _ \<Rightarrow> \<not> boot_devices_known x
   | Inr y \<Rightarrow> boot_devices_known x \<and> dm_os_boot y = []
      \<and> dm_disks y = map (\<lambda>i. (dm_disks x ! i)\<lparr>dx_boot :=
            [int (boot_rank (nth (map (\<lambda>d. key (disk_xml_to_disk_obj d)) (dm_disks x))) (length (dm_disks x)) i) + 1]\<rparr>)
          [0..<length (dm_disks x)]"
proof (cases "boot_devices_known x")
  case False
  then show ?thesis by (simp add: with_per_device_boot_order_def clean_domain_os_boot_data_def)
next
  case True
  let ?n = "length (dm_disks x)" and ?k = "nth (map (\<lambda>d. key (disk_xml_to_disk_obj d)) (dm_disks x))"
  let ?clean = "map (\<lambda>d. d\<lparr>dx_boot := []\<rparr>) (dm_disks x)"
  let ?s = "sort_key ?k [0..<?n]"
  have y: "with_per_device_boot_order key x = Inr (x\<lparr>dm_os_boot := [], dm_disks := number_disks 0 ?s ?clean\<rparr>)"
    using True by (simp add: with_per_device_boot_order_def clean_domain_os_boot_data_def number_disks_def Let_def comp_def)
  have "number_disks 0 ?s ?clean = map (\<lambda>i. (dm_disks x ! i)\<lparr>dx_boot := [int (boot_rank ?k ?n i) + 1]\<rparr>) [0..<?n]"
    by (rule disks_numbered_by_rank)
  then show ?thesis using y True by simp
qed

subsection \<open>New devices\<close>


text \<open>A test disk gets the first letter that no SCSI disk of the machine uses; that no letter is left is reported exactly
  if all 26 are in use, and an SCSI disk without a target is the only other error.\<close>

lemma free_letter_is_first:
  "case get_available_scsi_identifier disks of
     Inr c \<Rightarrow> (\<exists>before x later. ascii_lowercase = before @ x # later \<and> c = [x]
        \<and> Inr c \<notin> get_disk_scsi_identifier ` set (get_all_scsi_disks disks)
        \<and> list_all (\<lambda>y. Inr [y] \<in> get_disk_scsi_identifier ` set (get_all_scsi_disks disks)) before)
   | Inl e \<Rightarrow> if list_ex (\<lambda>d. dk_target d = None) (get_all_scsi_disks disks) then e = TypeError
        else e = ValueError ''all are taken''
          \<and> list_all (\<lambda>y. Inr [y] \<in> get_disk_scsi_identifier ` set (get_all_scsi_disks disks)) ascii_lowercase"
proof (cases "sum_map get_disk_scsi_identifier (get_all_scsi_disks disks)")
  case (Inl e)
  have "sum_map get_disk_scsi_identifier ds = Inl e \<Longrightarrow> e = TypeError \<and> list_ex (\<lambda>d. dk_target d = None) ds" for ds
    by (induction ds) (auto simp: get_disk_scsi_identifier_def sum_bind_def split: sum.splits option.splits)
  with Inl show ?thesis by (auto simp: get_available_scsi_identifier_def sum_bind_def)
next
  case (Inr used)
  have used: "sum_map get_disk_scsi_identifier ds = Inr us \<Longrightarrow> get_disk_scsi_identifier ` set ds = Inr ` set us
      \<and> \<not> list_ex (\<lambda>d. dk_target d = None) ds" for ds us
    by (induction ds arbitrary: us) (auto simp: get_disk_scsi_identifier_def sum_bind_def split: sum.splits option.splits)
  note u = used [OF Inr]
  show ?thesis
  proof (cases "find (\<lambda>c. [c] \<notin> set used) ascii_lowercase")
    case None
    then have "get_available_scsi_identifier disks = Inl (ValueError ''all are taken'')"
      using Inr by (simp add: get_available_scsi_identifier_def sum_bind_def)
    moreover have "list_all (\<lambda>y. [y] \<in> set used) ascii_lowercase"
      using None by (simp add: find_None_iff list_all_iff)
    ultimately show ?thesis using u by (simp add: list_all_iff image_iff)
  next
    case (Some x)
    then obtain i where i: "i < length ascii_lowercase" "x = ascii_lowercase ! i" "[x] \<notin> set used"
      "\<forall>j < i. [ascii_lowercase ! j] \<in> set used"
      by (auto simp: find_Some_iff)
    have "ascii_lowercase = take i ascii_lowercase @ x # drop (Suc i) ascii_lowercase"
      using i(1,2) by (simp add: id_take_nth_drop)
    moreover have "list_all (\<lambda>y. [y] \<in> set used) (take i ascii_lowercase)"
      using i(1,4) by (simp add: list_all_length)
    moreover have "get_available_scsi_identifier disks = Inr [x]"
      using Inr Some by (simp add: get_available_scsi_identifier_def sum_bind_def)
    ultimately show ?thesis using u i(3)
      by (simp add: list_all_iff image_iff) (intro exI conjI, assumption, simp_all)
  qed
qed

text \<open>The address reported for a new interface, unless it is empty, belongs to no lease the network had before the
  interface was attached, and to one of the leases listed after the wait.\<close>

lemma new_interface_address:
  assumes "add_interface wait e l node_name network_name target_interface model s = (Inr mac, t)" and "mac \<noteq> []"
  shows "\<exists>before u v after. list_leases e l network_name s = (Inr before, u) \<and> list_leases e l network_name v = (Inr after, t)
    \<and> mac \<notin> ls_mac ` set before \<and> mac \<in> ls_mac ` set after"
proof -
  obtain before u where u: "list_leases e l network_name s = (Inr before, u)"
    and rest: "bindP (run_command e (''virsh attach-interface '' @ node_name @ '' network '' @ network_name
              @ '' --target '' @ target_interface @ '' --persistent --model '' @ model) True) (\<lambda>_.
         thenP
           (try_except
             (wait (bindP (list_leases e l network_name) (\<lambda>ls. ret (truthy (length (map ls_mac before) < length ls)))) 30 2
                no_exceptions)
             raise)
           (bindP (list_leases e l network_name) (\<lambda>new_net_leases.
              ret (case find (\<lambda>lease. ls_mac lease \<notin> set (map ls_mac before)) new_net_leases of
                     None \<Rightarrow> [] | Some lease \<Rightarrow> ls_mac lease)))) u = (Inr mac, t)"
    using assms(1) unfolding add_interface_def Let_def by (rule bindP_InrE) (rule that)
  from rest obtain v where v: "bindP (list_leases e l network_name) (\<lambda>new_net_leases.
              ret (case find (\<lambda>lease. ls_mac lease \<notin> set (map ls_mac before)) new_net_leases of
                     None \<Rightarrow> [] | Some lease \<Rightarrow> ls_mac lease)) v = (Inr mac, t)"
  proof (rule bindP_InrE)
    fix x w
    assume w: "bindP (try_except
             (wait (bindP (list_leases e l network_name) (\<lambda>ls. ret (truthy (length (map ls_mac before) < length ls)))) 30 2
                no_exceptions)
             raise) (\<lambda>_. bindP (list_leases e l network_name) (\<lambda>new_net_leases.
              ret (case find (\<lambda>lease. ls_mac lease \<notin> set (map ls_mac before)) new_net_leases of
                     None \<Rightarrow> [] | Some lease \<Rightarrow> ls_mac lease))) w = (Inr mac, t)"
    then show thesis by (rule bindP_InrE) (rule that)
  qed
  then obtain after where after: "list_leases e l network_name v = (Inr after, t)"
    and mac: "mac = (case find (\<lambda>lease. ls_mac lease \<notin> set (map ls_mac before)) after of None \<Rightarrow> [] | Some lease \<Rightarrow> ls_mac lease)"
    by (elim bindP_InrE) (simp add: prog_simps)
  show ?thesis
  proof (cases "find (\<lambda>lease. ls_mac lease \<notin> set (map ls_mac before)) after")
    case None
    then show ?thesis using mac assms(2) by simp
  next
    case (Some x)
    then have "ls_mac x \<notin> ls_mac ` set before" "x \<in> set after" by (auto simp: find_Some_iff)
    then show ?thesis using Some mac u after by (intro exI conjI) auto
  qed
qed

definition sample_leases :: "call list \<Rightarrow> lease list" where
  "sample_leases h = map (\<lambda>m. \<lparr>ls_mac = m, ls_ipaddr = m, ls_hostname = m\<rparr>) (if length h < 4 then [''a''] else [''a'', ''b''])"

definition sample_libvirt :: libvirt_env where
  "sample_libvirt = \<lparr>lv_domains = (\<lambda>_. Inr []), lv_leases = (\<lambda>h _. Inr (sample_leases h)), lv_network_hosts = (\<lambda>_ _. Inr None),
     lv_addresses = (\<lambda>_ _ _. Inr []), lv_xml = (\<lambda>_ _. Inl LibvirtError), lv_define = (\<lambda>_ _. Inr True)\<rparr>"

lemma sample_leases_app:
  "list_leases ready_env sample_libvirt n s = (Inr (sample_leases (hist s @ [Controller ''lock.acquire'' [PStr ''/tmp/src.lock'']])),
     s\<lparr>hist := hist s @ [Controller ''lock.acquire'' [PStr ''/tmp/src.lock''], Controller ''DHCPLeases'' [PStr n],
       Controller ''networkXMLDesc'' [PStr n], Controller ''lock.release'' [PStr ''/tmp/src.lock'']]\<rparr>)"
  by (simp add: list_leases_def file_lock_context_def acquire_lock_def release_lock_def act_app ready_env_simps bindP_def
      try_except_def try_finally_def ext_app sample_libvirt_def prog_simps)

lemma new_interface_address_witness:
  "\<exists>t. add_interface (poll_upto 1) ready_env sample_libvirt ''n'' ''net'' ''i'' ''virtio'' fresh_world = (Inr ''b'', t)
     \<and> ''b'' \<noteq> ''a''"
proof -
  obtain t where run: "add_interface (poll_upto 1) ready_env sample_libvirt ''n'' ''net'' ''i'' ''virtio'' fresh_world = (Inr ''b'', t)"
    by (simp add: add_interface_def Let_def bindP_def sample_leases_app run_command_def ext_app ready_env_simps prog_simps
        try_except_def poll_upto.simps fresh_world_def sample_leases_def)
  from new_interface_address [OF run] run show ?thesis by simp
qed

end
