(* ===== verification/S390x.thy ===== *)
theory S390x
  imports Libvirt
begin

text \<open>
  \<open>node_controllers/kvm_s390x_controller.py\<close>: the libvirt controller for mainframes, where the machines are made by
  \<open>virt-install\<close> and have to be started again by hand after their first reboot. The variables of the
  environment it reads are a record; a machine is given by its name, which libvirt keeps unique.
\<close>

record s390x =
  sx_uri :: string
  sx_use_dhcp :: bool
  sx_download_path :: string
  sx_masters_count :: nat
  sx_workers_count :: nat
  sx_default_masters_count :: nat
  sx_mac_libvirt_prefix :: "string option"
  sx_disk_pool :: string
  sx_disk_pool_size :: string
  sx_network_name :: string

text \<open>The list of domains that the two methods after the first reboot share.\<close>

record reboots = "call world" +
  kv_domains :: "string list"

definition undefine_node :: "env \<Rightarrow> s390x \<Rightarrow> string \<Rightarrow> ('z, unit) lprog" where
  "undefine_node e x node_name =
     bindP (run_command e (''virsh -c '' @ sx_uri x @ '' undefine '' @ node_name @ '' --remove-all-storage'') True) (\<lambda>_. ret ())"

definition remove_all_nodes :: "env \<Rightarrow> libvirt_env \<Rightarrow> s390x \<Rightarrow> ('z, unit) lprog" where
  "remove_all_nodes e l x = bindP (libvirt_list_nodes e l) (for_each (\<lambda>n. undefine_node e x (nd_name n)))"

definition s390x_destroy_all_nodes :: "env \<Rightarrow> libvirt_env \<Rightarrow> s390x \<Rightarrow> ('z, unit) lprog" where
  "s390x_destroy_all_nodes e l x = thenP (shutdown_all_nodes e l) (remove_all_nodes e l x)"

section \<open>Making machines\<close>

text \<open>\<open>int(text)\<close>: spaces around it, a sign and decimal digits.\<close>

definition is_decimal :: "string \<Rightarrow> bool" where
  "is_decimal s \<longleftrightarrow> s \<noteq> [] \<and> list_all (\<lambda>c. 48 \<le> (of_char c :: nat) \<and> (of_char c :: nat) \<le> 57) s"

definition int_of :: "string \<Rightarrow> exn + int" where
  "int_of text =
     (let s = strip text;
          (sign, digits) = (case s of [] \<Rightarrow> (1, s)
            | c # cs \<Rightarrow> if c = CHR 0x2D then (- 1, cs) else if c = CHR 0x2B then (1, cs) else (1, s))
      in if is_decimal digits then Inr (sign * int (undec 0 digits)) else Inl (ValueError ''invalid literal for int''))"

definition hex_digit :: "nat \<Rightarrow> char" where
  "hex_digit d = ''0123456789abcdef'' ! d"

fun hex :: "nat \<Rightarrow> string" where
  "hex n = (if n < 16 then [hex_digit n] else hex (n div 16) @ [hex_digit (n mod 16)])"

declare hex.simps [simp del]

text \<open>The format \<open>02x\<close>.\<close>

definition hex02 :: "int \<Rightarrow> string" where
  "hex02 i =
     (if i < 0 then ''-'' @ hex (nat (- i))
      else if i < 16 then ''0'' @ hex (nat i) else hex (nat i))"

text \<open>\<open>rfind(":")\<close>; with none it is \<open>-1\<close>, and the slice \<open>[0:-1]\<close> loses the last character.\<close>

definition mac_start_of :: "string \<Rightarrow> string" where
  "mac_start_of p = rev (takeWhile (\<lambda>c. c \<noteq> CHR 0x3A) (rev p))"

definition mac_prefix_of :: "string \<Rightarrow> string" where
  "mac_prefix_of p = (if CHR 0x3A \<in> set p then rev (drop 1 (dropWhile (\<lambda>c. c \<noteq> CHR 0x3A) (rev p))) else butlast p)"

text \<open>The index of the first occurrence, \<open>re.search(...).start()\<close>.\<close>

fun search_start :: "string \<Rightarrow> string \<Rightarrow> nat option" where
  "search_start pattern [] = (if pattern = [] then Some 0 else None)"
| "search_start pattern (c # cs) = (if prefix pattern (c # cs) then Some 0 else map_option Suc (search_start pattern cs))"

definition remote_host :: "string \<Rightarrow> exn + string" where
  "remote_host uri =
     (case search_start ''//'' uri of
        None \<Rightarrow> Inl AttributeError
      | Some y \<Rightarrow>
          (case search_start ''/system'' uri of None \<Rightarrow> Inl AttributeError | Some e \<Rightarrow> Inr (drop (y + 2) (take e uri))))"

definition copy_image :: "env \<Rightarrow> s390x \<Rightarrow> ('z, unit) lprog" where
  "copy_image e x =
     whenP (occurs_in ''@'' (sx_uri x))
       (bindP (sum_prog (remote_host (sx_uri x))) (\<lambda>host.
         bindP (run_command e (''scp '' @ sx_download_path x @ '' '' @ host @ '':'' @ sx_download_path x) True) (\<lambda>_. ret ())))"

definition DEFAULT_MASTER_MEMORY :: int where "DEFAULT_MASTER_MEMORY = 16 * MiB_UNITS"
definition DEFAULT_WORKER_MEMORY :: int where "DEFAULT_WORKER_MEMORY = 8 * MiB_UNITS"
definition DEFAULT_MASTER_CPU :: int where "DEFAULT_MASTER_CPU = 4"
definition DEFAULT_MASTER_SNO_CPU :: int where "DEFAULT_MASTER_SNO_CPU = 8"
definition DEFAULT_WORKER_CPU :: int where "DEFAULT_WORKER_CPU = 2"

definition virt_install :: "s390x \<Rightarrow> string \<Rightarrow> int \<Rightarrow> int \<Rightarrow> string \<Rightarrow> string" where
  "virt_install x node_name memory cpus mac =
     ''virt-install --connect '' @ sx_uri x @ '' --name '' @ node_name @ '' --autostart --memory '' @ dec_int memory
     @ '' --cpu host --vcpus='' @ dec_int cpus @ '' --cdrom '' @ sx_download_path x @ '' --disk pool='' @ sx_disk_pool x
     @ '',size='' @ sx_disk_pool_size x @ '' --network network='' @ sx_network_name x @ '',mac='' @ mac
     @ '' --nographics --noautoconsole --boot hd,cdrom --os-variant rhel9.0''"

definition node_number :: "node_role \<Rightarrow> nat \<Rightarrow> string" where
  "node_number role n = role_value role @ ''-'' @ dec n"

definition mac_of_node :: "string \<Rightarrow> int \<Rightarrow> string" where
  "mac_of_node mac_prefix n = mac_prefix @ '':'' @ hex02 n"

definition create_node ::
  "env \<Rightarrow> s390x \<Rightarrow> string \<Rightarrow> node_role \<Rightarrow> int \<Rightarrow> int \<Rightarrow> nat \<Rightarrow> nat \<Rightarrow> ('z, unit) lprog" where
  "create_node e x p role memory cpus offset n =
     bindP (sum_prog (int_of (mac_start_of p))) (\<lambda>start.
       bindP (run_command e (virt_install x (node_number role n) memory cpus
           (mac_of_node (mac_prefix_of p) (start + int n + int offset))) True) (\<lambda>_. ret ()))"

definition create_nodes :: "env \<Rightarrow> s390x \<Rightarrow> ('z, unit) lprog" where
  "create_nodes e x =
     thenP (copy_image e x)
       (whenP (sx_use_dhcp x)
         (case sx_mac_libvirt_prefix x of
            None \<Rightarrow> raise AttributeError
          | Some p \<Rightarrow>
              (let master_cpu_count = (if sx_masters_count x = 1 then DEFAULT_MASTER_SNO_CPU else DEFAULT_MASTER_CPU)
               in thenP (for_each (create_node e x p Master DEFAULT_MASTER_MEMORY master_cpu_count 0) [0..<sx_masters_count x])
                    (for_each (create_node e x p Worker DEFAULT_WORKER_MEMORY DEFAULT_WORKER_CPU (sx_default_masters_count x))
                       [0..<sx_workers_count x]))))"

definition s390x_prepare_nodes :: "env \<Rightarrow> libvirt_env \<Rightarrow> s390x \<Rightarrow> ('z, unit) lprog" where
  "s390x_prepare_nodes e l x = thenP (s390x_destroy_all_nodes e l x) (create_nodes e x)"

definition s390x_start_all_nodes :: "'z lwaiter \<Rightarrow> env \<Rightarrow> libvirt_env \<Rightarrow> s390x \<Rightarrow> ('z, node list) lprog" where
  "s390x_start_all_nodes wait e l x =
     bindP (libvirt_list_nodes e l) (\<lambda>nodes.
       if length nodes = 0 then thenP (create_nodes e x) (libvirt_list_nodes e l)
       else start_all_nodes wait e l)"

section \<open>After the first reboot\<close>

definition is_node :: "string \<Rightarrow> bool" where
  "is_node name \<longleftrightarrow> occurs_in (role_value Master) name \<or> occurs_in (role_value Worker) name"

definition VIR_DOMAIN_SHUTOFF :: int where "VIR_DOMAIN_SHUTOFF = 5"

text \<open>
  \<open>for domain in domains\<close> over a list that its body shortens: Python keeps an index, so that the domain after a
  removed one is passed over. The answer of \<open>info\<close> stands for its first component.
\<close>

function sweep :: "env \<Rightarrow> nat \<Rightarrow> bool \<Rightarrow> string list \<Rightarrow> ('z, bool \<times> string list) lprog" where
  "sweep e i nodes_found domains =
     (if i < length domains then
        (let domain = domains ! i in
         if is_node domain then
           thenP (do_call e (Controller ''lookupByName'' [PStr domain]))
             (bindP (ask_call e (NodeCommand ''info'' domain [])) (\<lambda>v.
               if v = PInt VIR_DOMAIN_SHUTOFF
               then thenP (do_call e (NodeCommand ''create'' domain []))
                      (sweep e (Suc i) True (take i domains @ drop (Suc i) domains))
               else sweep e (Suc i) True domains))
         else sweep e (Suc i) nodes_found domains)
      else ret (nodes_found, domains))"
  by pat_completeness auto
termination
  by (relation "measure (\<lambda>(e, i, f, domains). length domains - i)") auto

declare sweep.simps [simp del]

definition restart_vms_after_first_reboot :: "env \<Rightarrow> ('z reboots_scheme, bool) prog" where
  "restart_vms_after_first_reboot e =
     bindP (reads kv_domains) (\<lambda>domains.
       bindP (sweep e 0 False domains) (\<lambda>(nodes_found, rest).
         thenP (modifies (\<lambda>s. s\<lparr>kv_domains := rest\<rparr>)) (ret (\<not> nodes_found))))"

definition check_vms_for_first_reboot_and_start ::
  "('z reboots_scheme, unit) waiter \<Rightarrow> env \<Rightarrow> libvirt_env \<Rightarrow> ('z reboots_scheme, unit) prog" where
  "check_vms_for_first_reboot_and_start wait e l =
     bindP (ext (lv_domains l) (Controller ''listAllDomains'' [])) (\<lambda>domains.
       thenP (modifies (\<lambda>s. s\<lparr>kv_domains := domains\<rparr>))
         (wait (bindP (restart_vms_after_first_reboot e) (\<lambda>r. ret (truthy r)))
            CLUSTER_INSTALLATION_TIMEOUT (DEFAULT_CHECK_STATUSES_INTERVAL * 6) no_exceptions))"

section \<open>Properties\<close>

text \<open>Among the calls \<open>cs\<close> after \<open>h\<close>, the machine was seen to be off and started right after.\<close>

definition restarted :: "env \<Rightarrow> call list \<Rightarrow> call list \<Rightarrow> string \<Rightarrow> bool" where
  "restarted e h cs d \<longleftrightarrow> (\<exists>before later. cs = before @ [NodeCommand ''info'' d [], NodeCommand ''create'' d []] @ later
     \<and> e_ask e (h @ before) (NodeCommand ''info'' d []) = Inr (PInt VIR_DOMAIN_SHUTOFF))"

lemma restarted_left: "restarted e h cs d \<Longrightarrow> restarted e h (cs @ ds) d"
  unfolding restarted_def by (elim exE conjE) (metis append.assoc)

lemma restarted_right:
  assumes "restarted e (h @ cs) ds d"
  shows "restarted e h (cs @ ds) d"
proof -
  obtain before later where "ds = before @ [NodeCommand ''info'' d [], NodeCommand ''create'' d []] @ later"
    "e_ask e ((h @ cs) @ before) (NodeCommand ''info'' d []) = Inr (PInt VIR_DOMAIN_SHUTOFF)"
    using assms by (auto simp: restarted_def)
  then show ?thesis
    unfolding restarted_def by (intro exI [of _ "cs @ before"] exI [of _ later]) simp
qed

text \<open>Every machine of the list stays on it until it is restarted.\<close>

definition none_lost :: "env \<Rightarrow> string list \<Rightarrow> call list \<Rightarrow> string list \<Rightarrow> call list \<Rightarrow> bool" where
  "none_lost e ds h ds' h' \<longleftrightarrow>
     (\<exists>cs. h' = h @ cs \<and> (\<forall>d \<in> set ds. is_node d \<longrightarrow> d \<in> set ds' \<or> restarted e h cs d))"

lemma none_lost_refl: "none_lost e ds h ds h"
  by (simp add: none_lost_def)

lemma none_lost_trans:
  assumes "none_lost e ds h ds' h'" and "none_lost e ds' h' ds'' h''"
  shows "none_lost e ds h ds'' h''"
proof -
  obtain cs where cs: "h' = h @ cs" "\<forall>d \<in> set ds. is_node d \<longrightarrow> d \<in> set ds' \<or> restarted e h cs d"
    using assms(1) by (auto simp: none_lost_def)
  obtain cs' where cs': "h'' = h' @ cs'" "\<forall>d \<in> set ds'. is_node d \<longrightarrow> d \<in> set ds'' \<or> restarted e h' cs' d"
    using assms(2) by (auto simp: none_lost_def)
  show ?thesis unfolding none_lost_def
  proof (intro exI [of _ "cs @ cs'"] conjI ballI impI)
    fix d assume "d \<in> set ds" "is_node d"
    with cs(2) cs'(2) have "d \<in> set ds'' \<or> restarted e h cs d \<or> restarted e (h @ cs) cs' d"
      using cs(1) by blast
    then show "d \<in> set ds'' \<or> restarted e h (cs @ cs') d"
      using restarted_left [of e h cs d cs'] restarted_right [of e h cs cs' d] by blast
  qed (simp add: cs(1) cs'(1))
qed

lemma none_lost_calls: "none_lost e ds h ds (h @ cs)"
  by (simp add: none_lost_def)

lemma none_lost_restart:
  assumes "i < length ds" and "e_ask e h (NodeCommand ''info'' (ds ! i) []) = Inr (PInt VIR_DOMAIN_SHUTOFF)"
  shows "none_lost e ds h (take i ds @ drop (Suc i) ds)
    (h @ [NodeCommand ''info'' (ds ! i) [], NodeCommand ''create'' (ds ! i) []])"
proof -
  let ?cs = "[NodeCommand ''info'' (ds ! i) [], NodeCommand ''create'' (ds ! i) []]"
  have "restarted e h ?cs (ds ! i)"
    using assms(2) unfolding restarted_def by (intro exI [of _ "[]"]) simp
  moreover have "set ds = set (take i ds @ [ds ! i] @ drop (Suc i) ds)"
    using assms(1) by (simp add: id_take_nth_drop [symmetric])
  ultimately show ?thesis
    unfolding none_lost_def by (intro exI [of _ ?cs]) auto
qed

lemma sweep_Inr:
  fixes s t :: "(call, 'z) world_scheme"
  shows "sweep e i found ds s = (Inr (found', ds'), t) \<Longrightarrow>
    none_lost e ds (hist s) ds' (hist t)
    \<and> (\<not> found' \<longrightarrow> \<not> found \<and> ds' = ds \<and> (\<forall>j < length ds. i \<le> j \<longrightarrow> \<not> is_node (ds ! j)))"
proof (induction e i found ds arbitrary: s rule: sweep.induct)
  case (1 e i found ds)
  show ?case
  proof (cases "i < length ds")
    case False
    with 1(4) show ?thesis by (subst (asm) sweep.simps) (auto simp: prog_simps none_lost_refl)
  next
    case i: True
    let ?d = "ds ! i"
    show ?thesis
    proof (cases "is_node ?d")
      case False
      have "sweep e (Suc i) found ds s = (Inr (found', ds'), t)"
        using 1(4) i False by (subst (asm) sweep.simps) simp
      from 1(3) [OF i refl False this] False show ?thesis
        by (metis le_antisym not_less_eq_eq)
    next
      case node: True
      let ?s = "s\<lparr>hist := hist s @ [Controller ''lookupByName'' [PStr ?d]]\<rparr>"
      let ?t = "?s\<lparr>hist := hist ?s @ [NodeCommand ''info'' ?d []]\<rparr>"
      obtain v where v: "e_ask e (hist ?s) (NodeCommand ''info'' ?d []) = Inr v"
        and run: "(if v = PInt VIR_DOMAIN_SHUTOFF
               then thenP (do_call e (NodeCommand ''create'' ?d []))
                      (sweep e (Suc i) True (take i ds @ drop (Suc i) ds))
               else sweep e (Suc i) True ds) ?t = (Inr (found', ds'), t)"
        using 1(4) i node
        by (subst (asm) sweep.simps) (auto simp: Let_def bindP_eq_Inr_iff do_call_def ask_call_def ext_app)
      show ?thesis
      proof (cases "v = PInt VIR_DOMAIN_SHUTOFF")
        case False
        with run have "sweep e (Suc i) True ds ?t = (Inr (found', ds'), t)" by simp
        from 1(2) [OF i refl node False this] show ?thesis
          using none_lost_trans [OF none_lost_calls [of e ds "hist s" "[_, _]"]] by auto
      next
        case off: True
        let ?u = "?t\<lparr>hist := hist ?t @ [NodeCommand ''create'' ?d []]\<rparr>"
        have "sweep e (Suc i) True (take i ds @ drop (Suc i) ds) ?u = (Inr (found', ds'), t)"
          using run off by (auto simp: bindP_eq_Inr_iff do_call_def ext_app)
        from 1(1) [OF i refl node off this]
        have rest: "none_lost e (take i ds @ drop (Suc i) ds) (hist ?u) ds' (hist t)" "found'" by auto
        have "none_lost e ds (hist ?s) (take i ds @ drop (Suc i) ds) (hist ?u)"
          using none_lost_restart [OF i, of e "hist ?s"] v off by simp
        from none_lost_trans [OF this rest(1)]
        have "none_lost e ds (hist ?s) ds' (hist t)" .
        from none_lost_trans [OF none_lost_calls this [simplified]] rest(2) show ?thesis by simp
      qed
    qed
  qed
qed

lemma sweep_rel:
  fixes R :: "(call, 'z) world_scheme \<Rightarrow> (call, 'z) world_scheme \<Rightarrow> bool"
  assumes "state_rel R" and "\<And>c. keeps R (do_call e c)" and "\<And>c. keeps R (ask_call e c)"
  shows "keeps R (sweep e i found ds)"
  using assms(2,3)
proof (induction e i found ds rule: sweep.induct)
  case (1 e i found ds)
  show ?case
    by (subst sweep.simps) (auto simp: Let_def intro!: state_rel.keeps_intros [OF assms(1)] 1)
qed

lemma keeps_same_calls:
  "keeps (same kv_domains) (do_call e c)" "keeps (same kv_domains) (ask_call e c)"
  "keeps extends (do_call e c)" "keeps extends (ask_call e c)"
  by (simp_all add: keeps_def do_call_def ask_call_def ext_app same_def extends_def)

lemma sweep_frame:
  "keeps (same kv_domains) (sweep e i found ds)" "keeps extends (sweep e i found ds)"
  by (rule sweep_rel [OF frame.state_rel_axioms keeps_same_calls(1,2)])
     (rule sweep_rel [OF grows.state_rel_axioms keeps_same_calls(3,4)])

definition waiting_for_restart :: "env \<Rightarrow> 'z reboots_scheme \<Rightarrow> 'z reboots_scheme \<Rightarrow> bool" where
  "waiting_for_restart e s t \<longleftrightarrow> none_lost e (kv_domains s) (hist s) (kv_domains t) (hist t)"

interpretation restarts: state_rel "waiting_for_restart e :: 'z reboots_scheme \<Rightarrow> _"
  by unfold_locales (auto simp: waiting_for_restart_def none_lost_refl intro: none_lost_trans)

lemma restart_keeps: "keeps (waiting_for_restart e) (restart_vms_after_first_reboot e)"
proof (rule keepsI)
  fix s t :: "'z reboots_scheme" and r
  assume run: "restart_vms_after_first_reboot e s = (r, t)"
  obtain q u where q: "sweep e 0 False (kv_domains s) s = (q, u)" by force
  show "waiting_for_restart e s t"
  proof (cases q)
    case (Inl x)
    with run q have "t = u" by (simp add: restart_vms_after_first_reboot_def bindP_def prog_simps)
    moreover have "kv_domains u = kv_domains s" "prefix (hist s) (hist u)"
      using keepsD [OF sweep_frame(1) q] keepsD [OF sweep_frame(2) q] by (simp_all add: same_def extends_def)
    ultimately show ?thesis
      by (auto simp: waiting_for_restart_def none_lost_def prefix_def)
  next
    case (Inr fr)
    obtain found rest where "fr = (found, rest)" by force
    with run q Inr sweep_Inr [of e 0 False "kv_domains s" s found rest u] show ?thesis
      by (auto simp: restart_vms_after_first_reboot_def bindP_def prog_simps waiting_for_restart_def)
  qed
qed

lemma restart_ends:
  assumes "restart_vms_after_first_reboot e s = (Inr True, t)" and "d \<in> set (kv_domains t)"
  shows "\<not> is_node d"
proof -
  obtain rest u where sweep: "sweep e 0 False (kv_domains s) s = (Inr (False, rest), u)"
    and t: "t = u\<lparr>kv_domains := rest\<rparr>"
    using assms(1) by (auto simp: restart_vms_after_first_reboot_def bindP_eq_Inr_iff prog_simps)
  from sweep_Inr [OF sweep] t assms(2) show ?thesis
    by (auto simp: in_set_conv_nth)
qed

text \<open>C14: When the wait for the first reboot returns, every machine of the cluster that libvirt listed at its start was seen to be
  switched off, and started directly after that. No machine is forgotten, although a pass over the list
  skips the machine after each one that it starts and removes.
\<close>

theorem first_reboot_restarts_all:
  assumes "waits_by wait"
    and "check_vms_for_first_reboot_and_start wait e l s = (Inr (), t)"
    and "lv_domains l (hist s) = Inr domains" and "d \<in> set domains" and "is_node d"
  shows "\<exists>before later. hist t = hist s @ before @ [NodeCommand ''info'' d [], NodeCommand ''create'' d []] @ later
     \<and> e_ask e (hist s @ before) (NodeCommand ''info'' d []) = Inr (PInt VIR_DOMAIN_SHUTOFF)"
proof -
  let ?list = "Controller ''listAllDomains'' []"
  let ?s = "s\<lparr>hist := hist s @ [?list], kv_domains := domains\<rparr>"
  have "wait (bindP (restart_vms_after_first_reboot e) (\<lambda>r. ret (truthy r))) CLUSTER_INSTALLATION_TIMEOUT
      (DEFAULT_CHECK_STATUSES_INTERVAL * 6) no_exceptions ?s = (Inr (), t)"
    using assms(2,3) by (simp add: check_vms_for_first_reboot_and_start_def bindP_def ext_app prog_simps)
  then obtain u where u: "waiting_for_restart e ?s u"
    "bindP (restart_vms_after_first_reboot e) (\<lambda>r. ret (truthy r)) u = (Inr (Some ()), t)"
    using restarts.wait_Inr_rel [OF assms(1)] restarts.keeps_bindP [OF restart_keeps restarts.keeps_ret] by blast
  then have last: "restart_vms_after_first_reboot e u = (Inr True, t)"
    by (auto simp: bindP_eq_Inr_iff prog_simps)
  have "waiting_for_restart e ?s t"
    using u(1) keepsD [OF restart_keeps last] by (rule restarts.rel_trans)
  with assms(4,5) restart_ends [OF last] obtain cs where cs: "hist t = (hist s @ [?list]) @ cs"
    "restarted e (hist s @ [?list]) cs d"
    by (auto simp: waiting_for_restart_def none_lost_def)
  from restarted_right [OF cs(2)] cs(1) show ?thesis
    by (auto simp: restarted_def)
qed

text \<open>Two machines that are off from the start.\<close>

definition off_env :: env where
  "off_env = \<lparr>e_list_clusters = \<lambda>_ _. Inl (External 0), e_get_cluster = \<lambda>_ _. Inl (External 0),
     e_list_hosts = \<lambda>_ _. Inl (External 0), e_list_infra_envs = \<lambda>_. Inl (External 0),
     e_register = \<lambda>_ _. Inl (External 0), e_get_bundle = \<lambda>_ _. Inl (External 0), e_readyz = \<lambda>_ _. Inl (External 0),
     e_do = \<lambda>_ _. Inr (), e_ask = \<lambda>_ _. Inr (PInt 5), e_run = \<lambda>_ _. Inl (External 0)\<rparr>"

definition two_machines :: libvirt_env where
  "two_machines = \<lparr>lv_domains = \<lambda>_. Inr [''master-0'', ''master-1''], lv_leases = \<lambda>_ _. Inl LibvirtError,
     lv_network_hosts = \<lambda>_ _. Inl LibvirtError, lv_addresses = \<lambda>_ _ _. Inl LibvirtError,
     lv_xml = \<lambda>_ _. Inl LibvirtError, lv_define = \<lambda>_ _. Inl LibvirtError\<rparr>"

definition no_reboots :: reboots where
  "no_reboots = \<lparr>hist = [], kv_domains = []\<rparr>"

lemma off_pass:
  "kv_domains s = d # ds \<Longrightarrow> ds \<in> {[], [d']} \<Longrightarrow> is_node d \<Longrightarrow>
   restart_vms_after_first_reboot off_env s = (Inr False, s\<lparr>kv_domains := ds, hist := hist s
     @ [Controller ''lookupByName'' [PStr d], NodeCommand ''info'' d [], NodeCommand ''create'' d []]\<rparr>)"
  "kv_domains s = [] \<Longrightarrow> restart_vms_after_first_reboot off_env s = (Inr True, s\<lparr>kv_domains := []\<rparr>)"
  by (auto simp: restart_vms_after_first_reboot_def bindP_def prog_simps sweep.simps do_call_def ask_call_def
      off_env_def VIR_DOMAIN_SHUTOFF_def ext_app)

lemma machines_are_nodes: "is_node ''master-0''" "is_node ''master-1''"
  by (simp_all add: is_node_def sublist_code)

abbreviation off_poll :: "(reboots, unit option) prog" where
  "off_poll \<equiv> bindP (restart_vms_after_first_reboot off_env) (\<lambda>r. ret (truthy r))"

lemma off_polls:
  "kv_domains s = [''master-0'', ''master-1''] \<Longrightarrow> \<exists>t. off_poll s = (Inr None, t) \<and> kv_domains t = [''master-1'']"
  "kv_domains s = [''master-1''] \<Longrightarrow> \<exists>t. off_poll s = (Inr None, t) \<and> kv_domains t = []"
  "kv_domains s = [] \<Longrightarrow> \<exists>t. off_poll s = (Inr (Some ()), t)"
  by (simp_all add: bindP_def off_pass(1) [where d' = "''master-1''", OF _ _ machines_are_nodes(1)]
      off_pass(1) [OF _ _ machines_are_nodes(2)] off_pass(2) prog_simps)

lemma two_machines_run:
  "\<exists>t. check_vms_for_first_reboot_and_start (poll_upto 2) off_env two_machines no_reboots = (Inr (), t)"
proof -
  let ?s = "\<lparr>hist = [Controller ''listAllDomains'' []], kv_domains = [''master-0'', ''master-1'']\<rparr>"
  obtain t where t: "off_poll ?s = (Inr None, t)" "kv_domains t = [''master-1'']" using off_polls(1) [of ?s] by auto
  obtain u where u: "off_poll t = (Inr None, u)" "kv_domains u = []" using off_polls(2) t(2) by blast
  obtain v where v: "off_poll u = (Inr (Some ()), v)" using off_polls(3) u(2) by blast
  show ?thesis
    by (simp add: check_vms_for_first_reboot_and_start_def two_machines_def no_reboots_def bindP_def [of "ext _ _"]
        bindP_app ext_app numeral_2_eq_2 poll_upto.simps t(1) u(1) v)
qed

theorem first_reboot_restarts_all_witness:
  "\<exists>t before later. check_vms_for_first_reboot_and_start (poll_upto 2) off_env two_machines no_reboots = (Inr (), t)
     \<and> hist t = before @ [NodeCommand ''info'' ''master-1'' [], NodeCommand ''create'' ''master-1'' []] @ later"
proof -
  obtain t where t: "check_vms_for_first_reboot_and_start (poll_upto 2) off_env two_machines no_reboots = (Inr (), t)"
    using two_machines_run by blast
  have "lv_domains two_machines (hist no_reboots) = Inr [''master-0'', ''master-1'']" by (simp add: two_machines_def)
  then show ?thesis
    using first_reboot_restarts_all [OF waits_by_poll_upto t, of "[''master-0'', ''master-1'']" "''master-1''"] t machines_are_nodes(2)
    by (auto simp: no_reboots_def)
qed

end
