(* ===== verification/BareMetal.thy ===== *)
theory BareMetal
  imports Nodes Interface
begin

text \<open>
  Machines without a hypervisor: \<open>node_controllers/redfish_controller.py\<close>, which drives their service processors with the
  library \<open>kfish\<close> (a parameter), and \<open>adapter_controller.py\<close>, which answers questions about nodes from the
  hosts of the cluster at the service. The operations they leave empty are in \<open>Interface\<close>.
\<close>

section \<open>Answers from the cluster\<close>

type_synonym ('z, 'a) bprog = "((call, 'z) world_scheme, 'a) prog"

text \<open>A node is given by its name, which may be missing.\<close>

definition adapter_list_nodes :: "env \<Rightarrow> string \<Rightarrow> ('z, string option list) bprog" where
  "adapter_list_nodes e cid =
     try_except (bindP (cluster_get e cid False) (\<lambda>c. ret (map h_requested_hostname (cl_hosts c))))
       (\<lambda>x. if is_Exception x then ret [] else raise x)"

definition named :: "string \<Rightarrow> host \<Rightarrow> bool" where
  "named node_name h \<longleftrightarrow> h_requested_hostname h = Some node_name"

text \<open>\<open>json.loads(host.inventory)\<close>.\<close>

definition inventory_of :: "host \<Rightarrow> exn + inventory" where
  "inventory_of h = (case h_inventory h of Missing \<Rightarrow> Inl AttributeError | Null \<Rightarrow> Inl TypeError | Has i \<Rightarrow> Inr i)"

text \<open>\<open>None\<close> stands for the empty dictionary that is returned when there is no such host, or an error.\<close>

definition adapter_list_disks :: "env \<Rightarrow> string \<Rightarrow> string \<Rightarrow> ('z, disk_info list option) bprog" where
  "adapter_list_disks e cid node_name =
     try_except
       (bindP (cluster_get e cid False) (\<lambda>c.
          case find (named node_name) (cl_hosts c) of
            None \<Rightarrow> ret None
          | Some h \<Rightarrow> sum_prog (sum_bind (inventory_of h) (\<lambda>i. Inr (Some (inv_disks i))))))
       (\<lambda>x. if is_Exception x then ret None else raise x)"

definition adapter_is_active :: "env \<Rightarrow> string \<Rightarrow> string \<Rightarrow> ('z, bool) bprog" where
  "adapter_is_active e cid node_name =
     try_except
       (bindP (cluster_get e cid False) (\<lambda>c.
          ret (list_ex (\<lambda>h. named node_name h \<and> h_status h \<noteq> ''disconnected'') (cl_hosts c))))
       (\<lambda>x. if is_Exception x then ret False else raise x)"

text \<open>
  The addresses are cut at the slash at the end only: an error before leaves those found so far with their
  prefix lengths.
\<close>

datatype addresses = Cut "ip list" | Uncut "cidr list"

fun adapter_host_addresses :: "string \<Rightarrow> host list \<Rightarrow> cidr list \<Rightarrow> string list \<Rightarrow> addresses \<times> string list" where
  "adapter_host_addresses node_name [] ips macs = (Cut (map interface_ip ips), macs)"
| "adapter_host_addresses node_name (h # hs) ips macs =
     (if named node_name h then
        (case inventory_of h of
           Inl x \<Rightarrow> (Uncut ips, macs)
         | Inr i \<Rightarrow> adapter_host_addresses node_name hs (ips @ concat (map nic_ipv4_addresses (inv_interfaces i)))
                     (macs @ map nic_mac (inv_interfaces i)))
      else adapter_host_addresses node_name hs ips macs)"

definition adapter_get_node_ips_and_macs :: "env \<Rightarrow> string \<Rightarrow> string \<Rightarrow> ('z, addresses \<times> string list) bprog" where
  "adapter_get_node_ips_and_macs e cid node_name =
     try_except
       (bindP (cluster_get e cid False) (\<lambda>c. ret (adapter_host_addresses node_name (cl_hosts c) [] [])))
       (\<lambda>x. if is_Exception x then ret (Uncut [], []) else raise x)"

section \<open>Service processors\<close>

record redfish_receiver =
  rr_host :: string
  rr_url :: string

record redfish = "call world" +
  rf_nfs_mount :: "string option"
  rf_adapter :: bool

definition redfish_init :: "env \<Rightarrow> (string \<Rightarrow> string) \<Rightarrow> string \<Rightarrow> string \<Rightarrow> string \<Rightarrow> ('z, redfish_receiver) bprog" where
  "redfish_init e url_of user password host =
     (let host = strip host in
      thenP (act e ''kfish.Redfish'' [PStr host, PStr user, PStr password]) (ret \<lparr>rr_host = host, rr_url = url_of host\<rparr>))"

definition receiver_do :: "env \<Rightarrow> string \<Rightarrow> redfish_receiver \<Rightarrow> pyval list \<Rightarrow> ('z, unit) bprog" where
  "receiver_do e what r args = do_call e (NodeCommand what (rr_host r) args)"

definition eject_iso :: "env \<Rightarrow> redfish_receiver \<Rightarrow> ('z, unit) bprog" where
  "eject_iso e r =
     thenP (receiver_do e ''get_iso_status'' r []) (suppressing is_Exception (receiver_do e ''eject_iso'' r []))"

definition insert_iso :: "env \<Rightarrow> redfish_receiver \<Rightarrow> string option \<Rightarrow> ('z, unit) bprog" where
  "insert_iso e r nfs_iso = suppressing is_Exception (receiver_do e ''insert_iso'' r [opt_str nfs_iso])"

definition set_iso_once :: "env \<Rightarrow> redfish_receiver \<Rightarrow> ('z, unit) bprog" where
  "set_iso_once e r = suppressing is_Exception (receiver_do e ''set_iso_once'' r [])"

definition redfish_restart :: "env \<Rightarrow> redfish_receiver \<Rightarrow> ('z, unit) bprog" where
  "redfish_restart e r = receiver_do e ''restart'' r []"

definition redfish_reset :: "env \<Rightarrow> redfish_receiver \<Rightarrow> ('z, unit) bprog" where
  "redfish_reset e r = receiver_do e ''reset'' r []"

definition IDRAC_WAIT :: int where "IDRAC_WAIT = 60 * 3"
definition IDRAC_RETRY :: int where "IDRAC_RETRY = 30"
definition IDRAC_RESET_RECOVER :: int where "IDRAC_RESET_RECOVER = 60 * 4"

definition nfs_server_local :: "env \<Rightarrow> ('z, string) bprog" where
  "nfs_server_local e =
     bindP (run_command e (''ip route get 1 | awk '' @ [CHR 0x27] @ ''{ printf  $7 }'' @ [CHR 0x27]) True) (\<lambda>(cmd_out, _). ret cmd_out)"

text \<open>Whatever goes wrong, the state is not one of those asked for.\<close>

definition is_idrac_state :: "env \<Rightarrow> redfish_receiver \<Rightarrow> string list \<Rightarrow> ('z, bool) bprog" where
  "is_idrac_state e r states =
     try_except
       (if length (split_on CHR 0x2F (rr_url r)) \<le> 2 then raise IndexError
        else bindP (ask_call e (NodeCommand ''info'' (rr_host r) [])) (\<lambda>v.
          bindP (sum_prog (sum_bind (py_field v ''BootProgress'') (\<lambda>b. py_field b ''LastState''))) (\<lambda>current_state.
            ret (current_state \<in> PStr ` set states))))
       (\<lambda>x. if is_Exception x then ret False else raise x)"

type_synonym 'z bwaiter = "((call, 'z) world_scheme, unit) waiter"

definition wait_for_state :: "'z bwaiter \<Rightarrow> env \<Rightarrow> redfish_receiver \<Rightarrow> string list \<Rightarrow> ('z, unit) bprog" where
  "wait_for_state wait e r states =
     wait (bindP (is_idrac_state e r states) (\<lambda>b. ret (truthy b))) IDRAC_WAIT IDRAC_RETRY no_exceptions"

definition stop_idrac_node :: "'z bwaiter \<Rightarrow> env \<Rightarrow> redfish_receiver \<Rightarrow> ('z, unit) bprog" where
  "stop_idrac_node wait e r =
     thenP (receiver_do e ''stop'' r []) (wait_for_state wait e r [''None'', ''Node already powered off''])"

definition start_idrac_node :: "'z bwaiter \<Rightarrow> env \<Rightarrow> redfish_receiver \<Rightarrow> ('z, unit) bprog" where
  "start_idrac_node wait e r = thenP (receiver_do e ''start'' r []) (wait_for_state wait e r [''OSRunning''])"

definition stop_idrac :: "'z bwaiter \<Rightarrow> env \<Rightarrow> redfish_receiver list \<Rightarrow> ('z, unit) bprog" where
  "stop_idrac wait e receivers = for_each (stop_idrac_node wait e) receivers"

definition start_idrac :: "'z bwaiter \<Rightarrow> env \<Rightarrow> redfish_receiver list \<Rightarrow> ('z, unit) bprog" where
  "start_idrac wait e receivers = for_each (start_idrac_node wait e) receivers"

subsection \<open>Resetting all at once\<close>

text \<open>
  \<open>_reset_idrac_node\<close> as a thread: every call is a step. \<open>retries\<close> is the number of times the library asks, after the
  first, before the time is over.
\<close>

fun poll_thread :: "nat \<Rightarrow> ('s, bool) prog \<Rightarrow> ('s, unit) thread" where
  "poll_thread retries p = Step (\<lambda>s.
     case p s of
       (Inl x, t) \<Rightarrow> (Finished (Inl x), t)
     | (Inr b, t) \<Rightarrow>
         if b then (Finished (Inr ()), t)
         else (case retries of 0 \<Rightarrow> (Finished (Inl TimeoutExpired), t) | Suc n \<Rightarrow> (poll_thread n p, t)))"

declare poll_thread.simps [simp del]

definition reset_idrac_node ::
  "nat \<Rightarrow> env \<Rightarrow> redfish_receiver \<Rightarrow> ((call, 'z) world_scheme, unit) thread" where
  "reset_idrac_node retries e r = Step (\<lambda>s.
     case redfish_reset e r s of
       (Inl x, t) \<Rightarrow> (Finished (Inl x), t)
     | (Inr _, t) \<Rightarrow>
         (Step (\<lambda>s. (poll_thread retries (is_idrac_state e r [''OSRunning'']),
            s\<lparr>hist := hist s @ [Sleep IDRAC_RESET_RECOVER]\<rparr>)), t))"

text \<open>
  \<open>reset_idrac\<close> starts a thread for each machine and joins them all. What a thread raises stays in it: the method
  returns, whatever their results are.
\<close>

inductive reset_idrac ::
  "nat \<Rightarrow> env \<Rightarrow> redfish_receiver list \<Rightarrow> (call, 'z) world_scheme \<Rightarrow> (call, 'z) world_scheme \<Rightarrow> bool"
  for retries e receivers s where
  "runs_concurrently (length receivers) (map (reset_idrac_node retries e) receivers) s r t \<Longrightarrow> reset_idrac retries e receivers s t"

inductive_cases reset_idracE: "reset_idrac retries e receivers s t"

section \<open>Preparing the machines\<close>

definition set_nfs_mount_path :: "string \<Rightarrow> string \<Rightarrow> ('z redfish_scheme, unit) prog" where
  "set_nfs_mount_path host image_path = modifies (\<lambda>s. s\<lparr>rf_nfs_mount := Some (host @ '':'' @ image_path)\<rparr>)"

definition set_adapter_controller :: "('z redfish_scheme, unit) prog" where
  "set_adapter_controller = modifies (\<lambda>s. s\<lparr>rf_adapter := True\<rparr>)"

text \<open>Without an adapter the list is empty, and the disks are an empty dictionary.\<close>

definition redfish_list_nodes :: "env \<Rightarrow> string \<Rightarrow> ('z redfish_scheme, string option list) prog" where
  "redfish_list_nodes e cid =
     bindP (reads rf_adapter) (\<lambda>a. if a then adapter_list_nodes e cid else ret [])"

definition redfish_list_disks :: "env \<Rightarrow> string \<Rightarrow> string \<Rightarrow> ('z redfish_scheme, disk_info list option) prog" where
  "redfish_list_disks e cid node_name =
     bindP (reads rf_adapter) (\<lambda>a. if a then adapter_list_disks e cid node_name else ret None)"

definition redfish_is_active :: "env \<Rightarrow> string \<Rightarrow> string \<Rightarrow> ('z redfish_scheme, bool) prog" where
  "redfish_is_active e cid node_name =
     bindP (reads rf_adapter) (\<lambda>a. if a then adapter_is_active e cid node_name else raise AttributeError)"

definition redfish_get_node_ips_and_macs ::
  "env \<Rightarrow> string \<Rightarrow> string \<Rightarrow> ('z redfish_scheme, addresses \<times> string list) prog" where
  "redfish_get_node_ips_and_macs e cid node_name =
     bindP (reads rf_adapter) (\<lambda>a. if a then adapter_get_node_ips_and_macs e cid node_name else raise AttributeError)"

definition before_reset :: "env \<Rightarrow> string \<Rightarrow> ('z redfish_scheme, unit) prog" where
  "before_reset e iso_download_path =
     bindP (reads rf_nfs_mount) (\<lambda>m.
       thenP (whenP (m = None \<or> m = Some [])
           (bindP (nfs_server_local e) (\<lambda>host. set_nfs_mount_path host iso_download_path)))
         (bindP (reads rf_adapter) (\<lambda>a. whenP (\<not> a) set_adapter_controller)))"

definition boot_from_image :: "env \<Rightarrow> string option \<Rightarrow> redfish_receiver \<Rightarrow> ('z, unit) bprog" where
  "boot_from_image e mount r = thenP (eject_iso e r) (thenP (set_iso_once e r) (insert_iso e r mount))"

definition after_reset :: "env \<Rightarrow> redfish_receiver list \<Rightarrow> ('z redfish_scheme, unit) prog" where
  "after_reset e receivers =
     bindP (reads rf_nfs_mount) (\<lambda>m.
       thenP (for_each (boot_from_image e m) receivers)
         (for_each (redfish_restart e) receivers))"

inductive redfish_prepare_nodes ::
  "nat \<Rightarrow> env \<Rightarrow> string \<Rightarrow> redfish_receiver list \<Rightarrow> 'z redfish_scheme \<Rightarrow> exn + unit \<Rightarrow> 'z redfish_scheme \<Rightarrow> bool"
  for retries e iso_download_path receivers s where
  failed: "before_reset e iso_download_path s = (Inl x, t) \<Longrightarrow> redfish_prepare_nodes retries e iso_download_path receivers s (Inl x) t"
| prepared: "before_reset e iso_download_path s = (Inr (), t) \<Longrightarrow> reset_idrac retries e receivers t u \<Longrightarrow> after_reset e receivers u = (r, v)
     \<Longrightarrow> redfish_prepare_nodes retries e iso_download_path receivers s r v"

section \<open>What the threads do\<close>

definition adds_calls :: "(call, 'z) world_scheme \<Rightarrow> (call, 'z) world_scheme \<Rightarrow> call list \<Rightarrow> bool" where
  "adds_calls s t cs \<longleftrightarrow> t = s\<lparr>hist := hist s @ cs\<rparr>"

lemma adds_calls_refl: "adds_calls s s []"
  by (simp add: adds_calls_def)

lemma adds_calls_append: "adds_calls s t cs \<Longrightarrow> adds_calls s (t\<lparr>hist := hist t @ ds\<rparr>) (cs @ ds)"
  by (simp add: adds_calls_def)

abbreviation reset_call :: "redfish_receiver \<Rightarrow> call" where
  "reset_call r \<equiv> NodeCommand ''reset'' (rr_host r) []"

abbreviation info_call :: "redfish_receiver \<Rightarrow> call" where
  "info_call r \<equiv> NodeCommand ''info'' (rr_host r) []"

lemma redfish_reset_app: "redfish_reset e r s = (e_do e (hist s) (reset_call r), s\<lparr>hist := hist s @ [reset_call r]\<rparr>)"
  by (simp add: redfish_reset_def receiver_do_def do_call_def ext_app)

lemma is_idrac_state_app:
  assumes "is_idrac_state e r states s = (q, t)"
  shows "t = s \<or> t = s\<lparr>hist := hist s @ [info_call r]\<rparr>"
  using assms
  by (auto simp: is_idrac_state_def try_except_def bindP_def ask_call_def ext_app prog_simps
      split: prod.splits sum.splits if_splits)

text \<open>How far a thread is, and the calls it has made for its machine.\<close>

inductive reset_phase ::
  "nat \<Rightarrow> env \<Rightarrow> redfish_receiver \<Rightarrow> ((call, 'z) world_scheme, unit) thread \<Rightarrow> call list \<Rightarrow> bool" for n e r where
  not_yet: "reset_phase n e r (reset_idrac_node n e r) []"
| recovering: "reset_phase n e r (Step (\<lambda>s. (poll_thread n (is_idrac_state e r [''OSRunning'']),
     s\<lparr>hist := hist s @ [Sleep IDRAC_RESET_RECOVER]\<rparr>))) [reset_call r]"
| asking: "m + k \<le> n \<Longrightarrow> reset_phase n e r (poll_thread m (is_idrac_state e r [''OSRunning''])) (reset_call r # replicate k (info_call r))"
| over: "k \<le> Suc n \<Longrightarrow> reset_phase n e r (Finished q) (reset_call r # replicate k (info_call r))"

lemma poll_step:
  assumes "poll_thread m (is_idrac_state e r states) = Step f" "f s = (t, u)"
  obtains "u = s" | "u = s\<lparr>hist := hist s @ [info_call r]\<rparr>"
  using assms is_idrac_state_app [of e r states s]
  by (subst (asm) poll_thread.simps) (auto split: prod.splits sum.splits if_splits nat.splits)

lemma poll_next:
  assumes "poll_thread m (is_idrac_state e r states) = Step f" "f s = (t, u)"
  obtains q where "t = Finished q" | m' where "m = Suc m'" "t = poll_thread m' (is_idrac_state e r states)"
  using assms by (subst (asm) poll_thread.simps) (auto split: prod.splits sum.splits if_splits nat.splits)

lemma reset_phase_step:
  assumes "reset_phase n e r (Step f) cs" and "f s = (t, u)"
  shows "\<exists>ds. u = s\<lparr>hist := hist s @ ds\<rparr> \<and> reset_phase n e r t (cs @ calls_for (rr_host r) ds)
    \<and> set ds \<subseteq> {reset_call r, info_call r, Sleep IDRAC_RESET_RECOVER}"
  using assms(1)
proof (cases rule: reset_phase.cases)
  case not_yet
  then have u: "u = s\<lparr>hist := hist s @ [reset_call r]\<rparr>"
    using assms(2) by (auto simp: reset_idrac_node_def redfish_reset_app split: sum.splits)
  show ?thesis
  proof (cases "e_do e (hist s) (reset_call r)")
    case (Inl x)
    then have "t = Finished (Inl x)" using not_yet assms(2) by (simp add: reset_idrac_node_def redfish_reset_app)
    with u not_yet reset_phase.over [of 0 n e r "Inl x"] show ?thesis by (intro exI [of _ "[reset_call r]"]) simp
  next
    case (Inr x)
    then have "t = Step (\<lambda>s. (poll_thread n (is_idrac_state e r [''OSRunning'']),
        s\<lparr>hist := hist s @ [Sleep IDRAC_RESET_RECOVER]\<rparr>))"
      using not_yet assms(2) by (simp add: reset_idrac_node_def redfish_reset_app)
    with u not_yet reset_phase.recovering [of n e r] show ?thesis by (intro exI [of _ "[reset_call r]"]) simp
  qed
next
  case recovering
  then have "t = poll_thread n (is_idrac_state e r [''OSRunning''])" "u = s\<lparr>hist := hist s @ [Sleep IDRAC_RESET_RECOVER]\<rparr>"
    using assms(2) by auto
  with recovering reset_phase.asking [of n 0 n e r] show ?thesis
    by (intro exI [of _ "[Sleep IDRAC_RESET_RECOVER]"]) (simp add: calls_for_def)
next
  case (asking m k)
  let ?goal = "\<lambda>ds k'. u = s\<lparr>hist := hist s @ ds\<rparr> \<and> cs @ calls_for (rr_host r) ds = reset_call r # replicate k' (info_call r)
    \<and> set ds \<subseteq> {reset_call r, info_call r, Sleep IDRAC_RESET_RECOVER} \<and> k' \<le> Suc k"
  have "\<exists>ds k'. ?goal ds k'"
    using poll_step [OF asking(1) [symmetric] assms(2)]
  proof cases
    case 1
    with asking(2) have "?goal [] k" by simp
    then show ?thesis by blast
  next
    case 2
    with asking(2) have "?goal [info_call r] (Suc k)" by (simp add: replicate_append_same)
    then show ?thesis by blast
  qed
  then obtain ds k' where ds: "?goal ds k'" by blast
  from poll_next [OF asking(1) [symmetric] assms(2)] have "reset_phase n e r t (cs @ calls_for (rr_host r) ds)"
  proof cases
    case (1 q)
    with ds asking(3) show ?thesis by (auto intro: reset_phase.over)
  next
    case (2 m')
    with ds asking(3) show ?thesis by (auto intro: reset_phase.asking)
  qed
  with ds show ?thesis by blast
qed

text \<open>The method of Owicki and Gries again: each thread's phase, and a state of which only the history changes.\<close>

definition reset_invariant ::
  "nat \<Rightarrow> env \<Rightarrow> redfish_receiver list \<Rightarrow> (call, 'z) world_scheme \<Rightarrow> nat \<Rightarrow> ((call, 'z) world_scheme, unit) thread
     \<Rightarrow> (call, 'z) world_scheme \<Rightarrow> bool" where
  "reset_invariant n e rs s i t u \<longleftrightarrow> i < length rs
     \<and> (\<exists>cs. adds_calls s u cs \<and> (\<exists>ds. reset_phase n e (rs ! i) t ds \<and> (distinct (map rr_host rs) \<longrightarrow> ds = calls_for (rr_host (rs ! i)) cs)))"

definition reset_frame :: "(call, 'z) world_scheme \<Rightarrow> (call, 'z) world_scheme \<Rightarrow> bool" where
  "reset_frame s u \<longleftrightarrow> (\<exists>cs. adds_calls s u cs)"

lemma adds_calls_inject: "adds_calls s u cs \<Longrightarrow> adds_calls s u ds \<Longrightarrow> cs = ds"
  by (auto simp: adds_calls_def dest: arg_cong [of _ _ hist])

lemma reset_own_step:
  assumes "reset_invariant n e rs s i (Step f) now" and "f now = (t, later)"
  shows "reset_invariant n e rs s i t later"
    and "\<exists>ds. later = now\<lparr>hist := hist now @ ds\<rparr> \<and> (\<forall>host. host \<noteq> rr_host (rs ! i) \<longrightarrow> calls_for host ds = [])"
proof -
  obtain cs ds where i: "i < length rs" and now: "adds_calls s now cs" "reset_phase n e (rs ! i) (Step f) ds"
    "distinct (map rr_host rs) \<longrightarrow> ds = calls_for (rr_host (rs ! i)) cs"
    using assms(1) by (auto simp: reset_invariant_def)
  obtain new where new: "later = now\<lparr>hist := hist now @ new\<rparr>"
    "reset_phase n e (rs ! i) t (ds @ calls_for (rr_host (rs ! i)) new)"
    "set new \<subseteq> {reset_call (rs ! i), info_call (rs ! i), Sleep IDRAC_RESET_RECOVER}"
    using reset_phase_step [OF now(2) assms(2)] by blast
  have "adds_calls s later (cs @ new)" using adds_calls_append [OF now(1)] new(1) by simp
  moreover have "distinct (map rr_host rs) \<longrightarrow> ds @ calls_for (rr_host (rs ! i)) new = calls_for (rr_host (rs ! i)) (cs @ new)"
    using now(3) by simp
  ultimately show "reset_invariant n e rs s i t later"
    using i new(2) unfolding reset_invariant_def by blast
  have "calls_for host new = []" if "host \<noteq> rr_host (rs ! i)" for host
    using new(3) that by (auto simp: calls_for_def filter_empty_conv)
  with new(1) show "\<exists>ds. later = now\<lparr>hist := hist now @ ds\<rparr> \<and> (\<forall>host. host \<noteq> rr_host (rs ! i) \<longrightarrow> calls_for host ds = [])"
    by blast
qed

interpretation resets: thread_invariants "map (reset_idrac_node n e) rs" "reset_invariant n e rs s" "reset_frame s" s
  for n e rs and s :: "(call, 'z) world_scheme"
proof unfold_locales
  show "reset_invariant n e rs s i (map (reset_idrac_node n e) rs ! i) s"
    if "i < length (map (reset_idrac_node n e) rs)" for i
    using that adds_calls_refl [of s] reset_phase.not_yet [of n e "rs ! i"] unfolding reset_invariant_def
    by (intro conjI exI [of _ "[]"]) simp_all
  show "reset_frame s s" using adds_calls_refl by (auto simp: reset_frame_def)
next
  fix i f now t later
  assume "reset_invariant n e rs s i (Step f) now" "reset_frame s now" "f now = (t, later)"
  then show "reset_invariant n e rs s i t later \<and> reset_frame s later"
    using reset_own_step(1) [of n e rs s i f now t later] by (auto simp: reset_frame_def reset_invariant_def)
next
  fix i f now t later j t'
  assume a: "reset_invariant n e rs s i (Step f) now" "reset_frame s now" "f now = (t, later)" "j \<noteq> i"
    and j: "reset_invariant n e rs s j t' now"
  obtain new where new: "later = now\<lparr>hist := hist now @ new\<rparr>"
    "\<And>host. host \<noteq> rr_host (rs ! i) \<Longrightarrow> calls_for host new = []"
    using reset_own_step(2) [OF a(1,3)] by blast
  obtain cs ds where cs: "adds_calls s now cs" "reset_phase n e (rs ! j) t' ds" "j < length rs"
    "distinct (map rr_host rs) \<longrightarrow> ds = calls_for (rr_host (rs ! j)) cs"
    using j by (auto simp: reset_invariant_def)
  have "distinct (map rr_host rs) \<longrightarrow> calls_for (rr_host (rs ! j)) new = []"
    using new(2) cs(3) a(1,4) by (auto simp: distinct_conv_nth reset_invariant_def)
  with cs adds_calls_append [OF cs(1), of new] new(1) show "reset_invariant n e rs s j t' later"
    unfolding reset_invariant_def by (intro conjI exI [of _ "cs @ new"] exI [of _ ds]) auto
qed

lemma reset_idrac_calls:
  fixes s t :: "(call, 'z) world_scheme"
  assumes "reset_idrac n e rs s t" and "distinct (map rr_host rs)"
  shows "\<exists>cs. adds_calls s t cs
    \<and> (\<forall>r \<in> set rs. \<exists>k \<le> Suc n. calls_for (rr_host r) cs = reset_call r # replicate k (info_call r))"
proof -
  obtain res where "runs_concurrently (length rs) (map (reset_idrac_node n e) rs) s res t"
    using assms(1) by (auto elim: reset_idracE)
  then obtain p where p: "pool_steps (length rs) (start_pool (map (reset_idrac_node n e) rs) s) p" "pool_complete p" "t = pl_shared p"
    by (auto elim: runs_concurrentlyE)
  obtain cs where cs: "adds_calls s t cs"
    using resets.steps_ok [OF p(1)] p(3) by (auto simp: threads_ok_def reset_frame_def)
  have "\<exists>k \<le> Suc n. calls_for (rr_host (rs ! i)) cs = reset_call (rs ! i) # replicate k (info_call (rs ! i))"
    if i: "i < length rs" for i
  proof -
    obtain q where "reset_invariant n e rs s i (Finished q) t"
      using resets.complete_ok [OF p(1,2)] i p(3) by auto
    then obtain cs' where "adds_calls s t cs'"
      "reset_phase n e (rs ! i) (Finished q :: ((call, 'z) world_scheme, unit) thread) (calls_for (rr_host (rs ! i)) cs')"
      using assms(2) by (auto simp: reset_invariant_def)
    with adds_calls_inject [OF cs]
    have "reset_phase n e (rs ! i) (Finished q :: ((call, 'z) world_scheme, unit) thread) (calls_for (rr_host (rs ! i)) cs)"
      by metis
    then show ?thesis
      by (cases rule: reset_phase.cases) (auto simp: reset_idrac_node_def poll_thread.simps)
  qed
  with cs show ?thesis by (metis in_set_conv_nth)
qed

section \<open>Properties\<close>

abbreviation receiver_call :: "string \<Rightarrow> redfish_receiver \<Rightarrow> call" where
  "receiver_call what r \<equiv> NodeCommand what (rr_host r) []"

definition boot_calls :: "string option \<Rightarrow> redfish_receiver \<Rightarrow> call list" where
  "boot_calls m r = [receiver_call ''get_iso_status'' r, receiver_call ''eject_iso'' r, receiver_call ''set_iso_once'' r,
     NodeCommand ''insert_iso'' (rr_host r) [opt_str m]]"

text \<open>The two calls of a machine whose failure is not caught are answered, and failures are of the kind that is caught.\<close>

definition answers :: "env \<Rightarrow> redfish_receiver \<Rightarrow> bool" where
  "answers e r \<longleftrightarrow> (\<forall>h. e_do e h (receiver_call ''get_iso_status'' r) = Inr () \<and> e_do e h (receiver_call ''restart'' r) = Inr ())
     \<and> (\<forall>h c x. e_do e h c = Inl x \<longrightarrow> is_Exception x)"

lemma suppressed_call:
  "\<forall>h c x. e_do e h c = Inl x \<longrightarrow> is_Exception x \<Longrightarrow>
   suppressing is_Exception (receiver_do e what r args) s = (Inr (), s\<lparr>hist := hist s @ [NodeCommand what (rr_host r) args]\<rparr>)"
  by (cases "e_do e (hist s) (NodeCommand what (rr_host r) args)")
    (simp_all add: suppressing_def try_except_def receiver_do_def do_call_def ext_app prog_simps)

lemma boot_from_image_app:
  assumes "answers e r"
  shows "boot_from_image e m r s = (Inr (), s\<lparr>hist := hist s @ boot_calls m r\<rparr>)"
proof -
  have x: "\<forall>h c x. e_do e h c = Inl x \<longrightarrow> is_Exception x" using assms by (simp add: answers_def)
  show ?thesis
    using assms
    by (simp add: boot_from_image_def eject_iso_def set_iso_once_def insert_iso_def bindP_def suppressed_call [OF x]
        receiver_do_def [of e "''get_iso_status''"] do_call_def ext_app boot_calls_def answers_def)
qed

lemma restart_app: "answers e r \<Longrightarrow> redfish_restart e r s = (Inr (), s\<lparr>hist := hist s @ [receiver_call ''restart'' r]\<rparr>)"
  by (simp add: redfish_restart_def receiver_do_def do_call_def ext_app answers_def)

lemma for_each_calls:
  assumes "\<And>x s. x \<in> set xs \<Longrightarrow> f x s = (Inr (), s\<lparr>hist := hist s @ g x\<rparr>)"
  shows "for_each f xs (s :: (call, 'z) world_scheme) = (Inr (), s\<lparr>hist := hist s @ concat (map g xs)\<rparr>)"
  using assms by (induction xs arbitrary: s) (simp_all add: prog_simps)

lemma after_reset_app:
  assumes "\<forall>r \<in> set rs. answers e r"
  shows "after_reset e rs s = (Inr (), s\<lparr>hist := hist s @ concat (map (boot_calls (rf_nfs_mount s)) rs)
    @ map (receiver_call ''restart'') rs\<rparr>)"
  using assms
  by (simp add: after_reset_def bindP_app(1) bindP_def [of "for_each _ _"]
      for_each_calls [of rs _ "boot_calls (rf_nfs_mount s)", OF boot_from_image_app]
      for_each_calls [of rs _ "\<lambda>r. [receiver_call ''restart'' r]", OF restart_app])


definition dark_env :: env where
  "dark_env = \<lparr>e_list_clusters = \<lambda>_ _. Inl (External 0), e_get_cluster = \<lambda>_ _. Inl (External 0),
     e_list_hosts = \<lambda>_ _. Inl (External 0), e_list_infra_envs = \<lambda>_. Inl (External 0),
     e_register = \<lambda>_ _. Inl (External 0), e_get_bundle = \<lambda>_ _. Inl (External 0), e_readyz = \<lambda>_ _. Inl (External 0),
     e_do = \<lambda>_ _. Inr (), e_ask = \<lambda>_ _. Inl RequestException, e_run = \<lambda>_ _. Inl (External 0)\<rparr>"

definition mounted :: redfish where
  "mounted = \<lparr>hist = [], rf_nfs_mount = Some ''m'', rf_adapter = True\<rparr>"

definition two_receivers :: "redfish_receiver list" where
  "two_receivers = [\<lparr>rr_host = ''a'', rr_url = ''https://a''\<rparr>, \<lparr>rr_host = ''b'', rr_url = ''https://b''\<rparr>]"

lemma dark_before: "before_reset dark_env ''p'' mounted = (Inr (), mounted)"
  by (simp add: before_reset_def mounted_def prog_simps bindP_def)

lemma dark_answers: "\<forall>r \<in> set two_receivers. answers dark_env r"
  by (simp add: two_receivers_def answers_def dark_env_def)

lemma dark_run: "\<exists>r t. redfish_prepare_nodes 6 dark_env ''p'' two_receivers mounted r t"
proof -
  let ?jobs = "map (reset_idrac_node 6 dark_env) two_receivers :: (redfish, unit) thread list"
  have "pool_ok 2 (mset [0..<length ?jobs]) (start_pool ?jobs mounted)" by (rule pool_ok_start)
  from pool_completes [OF _ this] obtain p where "pool_steps 2 (start_pool ?jobs mounted) p" "pool_complete p" by auto
  from runs_concurrently.intros [OF this] obtain res t where "runs_concurrently 2 ?jobs mounted res t" by blast
  then have "reset_idrac 6 dark_env two_receivers mounted t"
    by (intro reset_idrac.intros [of _ _ _ _ res]) (simp add: two_receivers_def numeral_2_eq_2)
  from redfish_prepare_nodes.prepared [OF dark_before this after_reset_app [OF dark_answers]] show ?thesis by blast
qed


text \<open>The addresses the adapter reports for a node are those of all hosts of that name at the service, in their order, without prefix
  lengths. If one of these hosts has no inventory, it reports the addresses of the hosts before it only, and as the service has
  them, with the prefix lengths, which are no addresses; nothing tells the caller.
\<close>

lemma adapter_addresses:
  assumes "e_get_cluster e (hist s) cid = Inr c" and "filter (named node_name) (cl_hosts c) = hs @ rest"
    and "\<forall>h \<in> set hs. \<exists>i. h_inventory h = Has i"
    and "rest = [] \<or> (\<exists>h hs'. rest = h # hs' \<and> h_inventory h \<in> {Missing, Null})"
  shows "fst (adapter_get_node_ips_and_macs e cid node_name s) =
    (let nics = concat (map (\<lambda>h. case h_inventory h of Has i \<Rightarrow> inv_interfaces i) hs); ips = concat (map nic_ipv4_addresses nics)
     in Inr (if rest = [] then Cut (map interface_ip ips) else Uncut ips, map nic_mac nics))"
proof -
  have "adapter_host_addresses node_name all ips macs =
      (let nics = concat (map (\<lambda>h. case h_inventory h of Has i \<Rightarrow> inv_interfaces i) hs);
           ips = ips @ concat (map nic_ipv4_addresses nics)
       in (if rest = [] then Cut (map interface_ip ips) else Uncut ips, macs @ map nic_mac nics))"
    if "filter (named node_name) all = hs @ rest" "\<forall>h \<in> set hs. \<exists>i. h_inventory h = Has i" for all ips macs
    using that assms(4)
  proof (induction all arbitrary: hs ips macs)
    case (Cons h all)
    show ?case
    proof (cases "named node_name h")
      case False
      with Cons.prems Cons.IH [of hs] show ?thesis by simp
    next
      case True
      show ?thesis
      proof (cases hs)
        case Nil
        with True Cons.prems show ?thesis by (auto simp: inventory_of_def split: attr.splits)
      next
        case (Cons h' hs')
        with True Cons.prems obtain i where "h' = h" "h_inventory h = Has i" "filter (named node_name) all = hs' @ rest" by auto
        with True Cons Cons.prems Cons.IH [of hs'] show ?thesis by (simp add: inventory_of_def Let_def)
      qed
    qed
  qed (simp add: Let_def)
  from this [OF assms(2,3)] show ?thesis
    using assms(1) by (simp add: adapter_get_node_ips_and_macs_def bindP_def cluster_get_def ext_app prog_simps Let_def)
qed

definition named_hosts :: cluster where
  "named_hosts = sample_cluster ''ready''
     [(sample_host ''n'' ''known'' ''worker'')\<lparr>h_inventory := Has \<lparr>inv_hostname = ''n'', inv_interfaces =
          [\<lparr>nic_name = ''e'', nic_mac = ''52:54'', nic_ipv4_addresses = [\<lparr>cidr_version = V4, cidr_value = 258, cidr_prefixlen = 24\<rparr>],
            nic_ipv6_addresses = []\<rparr>], inv_disks = []\<rparr>\<rparr>,
      sample_host ''n'' ''known'' ''worker'']"

definition named_hosts_env :: env where
  "named_hosts_env = dark_env\<lparr>e_get_cluster := \<lambda>_ _. Inr named_hosts\<rparr>"

lemma adapter_addresses_witness:
  "fst (adapter_get_node_ips_and_macs named_hosts_env ''c'' ''n'' (\<lparr>hist = []\<rparr> :: call world))
   = Inr (Uncut [\<lparr>cidr_version = V4, cidr_value = 258, cidr_prefixlen = 24\<rparr>], [''52:54''])"
  by (subst adapter_addresses [where c = named_hosts and hs = "[hd (cl_hosts named_hosts)]"
        and rest = "[sample_host ''n'' ''known'' ''worker'']"])
    (simp_all add: named_hosts_env_def named_hosts_def sample_cluster_def sample_host_def named_def)

end
