(* ===== verification/Oci.thy ===== *)
theory Oci
  imports Prepare Interface
begin

text \<open>
  \<open>node_controllers/oci_api_controller.py\<close>: a cluster on Oracle's cloud. The controller makes a bucket, uploads the
  image, opens an address for it, creates a stack and runs it; for everything it makes, it pushes the
  callback that removes it on a stack of cleanups. The cloud's clients are a parameter (\<open>env\<close>), and so are the
  contents of files. The list of cleanups is an attribute of the class: it is one component of the
  state, whichever controller runs.
\<close>

section \<open>State and cleanups\<close>

datatype oci_lifecycle = RUNNING | STARTING | STOPPING | STOPPED | TERMINATING | TERMINATED | RESETTING | RESTARTING
  | ACTIVE | SUCCEEDED | CREATED | FAILED | CANCELING | CANCELED

fun lifecycle_value :: "oci_lifecycle \<Rightarrow> string" where
  "lifecycle_value RUNNING = ''RUNNING''"
| "lifecycle_value STARTING = ''STARTING''"
| "lifecycle_value STOPPING = ''STOPPING''"
| "lifecycle_value STOPPED = ''STOPPED''"
| "lifecycle_value TERMINATING = ''TERMINATING''"
| "lifecycle_value TERMINATED = ''TERMINATED''"
| "lifecycle_value RESETTING = ''RESETTING''"
| "lifecycle_value RESTARTING = ''RESTARTING''"
| "lifecycle_value ACTIVE = ''ACTIVE''"
| "lifecycle_value SUCCEEDED = ''SUCCEEDED''"
| "lifecycle_value CREATED = ''CREATED''"
| "lifecycle_value FAILED = ''FAILED''"
| "lifecycle_value CANCELING = ''CANCELING''"
| "lifecycle_value CANCELED = ''CANCELED''"

text \<open>The callbacks that are stored, with their arguments.\<close>

datatype cleanup =
    DeleteBucket pyval pyval
  | DeleteObject pyval pyval pyval
  | DeletePreauth pyval pyval pyval
  | DeleteStack pyval
  | RunJob pyval "oci_lifecycle list" int

fun cleanup_call :: "cleanup \<Rightarrow> call" where
  "cleanup_call (DeleteBucket namespace name) = Controller ''delete_bucket'' [namespace, name]"
| "cleanup_call (DeleteObject namespace bucket name) = Controller ''delete_object'' [namespace, bucket, name]"
| "cleanup_call (DeletePreauth namespace bucket i) =
     Controller ''delete_preauthenticated_request'' [namespace, bucket, i]"
| "cleanup_call (DeleteStack i) = Controller ''delete_stack_and_wait_for_state'' [i]"
| "cleanup_call (RunJob details states timeout) = Controller ''create_job_and_wait_for_state''
     [details, PList (map (PStr \<circ> lifecycle_value) states), PInt timeout]"

record oci_state = "call world" +
  oc_cleanups :: "cleanup list"
  oc_tag_compartment :: pyval
  oc_manifests :: "manifest list"
  oc_cloud_provider :: pyval

type_synonym ('z, 'a) oprog = "('z oci_state_scheme, 'a) prog"

record oci_config =
  og_compartment :: pyval
  og_region :: pyval
  og_tenancy :: pyval
  og_controller_shape :: pyval
  og_controller_cpu :: pyval
  og_compute_shape :: pyval
  og_compute_cpu :: pyval
  og_workers_count :: int
  og_masters_count :: int
  og_infrastructure_zip :: string
  og_cluster_id :: string
  og_entity_name :: string
  og_iso_path :: string
  og_base_domain :: pyval

definition push_cleanup :: "cleanup \<Rightarrow> ('z, unit) oprog" where
  "push_cleanup c = modifies (\<lambda>s. s\<lparr>oc_cleanups := oc_cleanups s @ [c]\<rparr>)"

definition oci_ask :: "env \<Rightarrow> string \<Rightarrow> pyval list \<Rightarrow> ('z, pyval) oprog" where
  "oci_ask e what args = ask_call e (Controller what args)"

definition initialize_oci_clients :: "env \<Rightarrow> ('z, unit) oprog" where
  "initialize_oci_clients e =
     thenP (act e ''oci.config.validate_config'' [])
       (for_each (\<lambda>client. act e client [])
         [''ObjectStorageClient'', ''ComputeClient'', ''BlockstorageClient'', ''VirtualNetworkClient'', ''IdentityClient'',
          ''ResourceManagerClient'', ''ResourceManagerClientCompositeOperations''])"

text \<open>\<open>response.data\<close>.\<close>

definition data_of :: "pyval \<Rightarrow> pyval" where
  "data_of v = attribute v ''data''"

definition run_cleanup :: "env \<Rightarrow> cleanup \<Rightarrow> ('z, unit) oprog" where
  "run_cleanup e c = suppressing is_Exception (do_call e (cleanup_call c))"

text \<open>\<open>os.path.basename\<close>.\<close>

definition basename :: "string \<Rightarrow> string" where
  "basename p = rev (takeWhile (\<lambda>c. c \<noteq> CHR 0x2F) (rev p))"

section \<open>Making resources\<close>

definition create_bucket :: "env \<Rightarrow> oci_config \<Rightarrow> string \<Rightarrow> (string, pyval) dict \<Rightarrow> ('z, pyval) oprog" where
  "create_bucket e g name kwargs =
     (let details = PDict (dict_update
          [(''name'', PStr name), (''compartment_id'', og_compartment g), (''public_access_type'', PStr ''NoPublicAccess''),
           (''storage_tier'', PStr ''Standard''), (''object_events_enabled'', PBool False),
           (''versioning'', PStr ''Disabled''), (''auto_tiering'', PStr ''Disabled'')] kwargs)
      in bindP (oci_ask e ''get_namespace'' []) (\<lambda>v. let namespace = data_of v in
           bindP (oci_ask e ''create_bucket'' [namespace, details]) (\<lambda>obj.
           thenP (push_cleanup (DeleteBucket namespace (PStr name)))
           (thenP (assertP (attribute obj ''status'' = PInt 200)) (ret namespace)))))"

definition upload_file_to_bucket :: "env \<Rightarrow> string \<Rightarrow> pyval \<Rightarrow> string \<Rightarrow> ('z, unit) oprog" where
  "upload_file_to_bucket e file_path namespace bucket_name =
     bindP (ask_bool e ''isfile'' [PStr file_path]) (\<lambda>is_file.
       if is_file then
         thenP (act e ''open'' [PStr file_path])
         (bindP (oci_ask e ''put_object'' [namespace, PStr bucket_name, PStr (basename file_path)]) (\<lambda>_.
           push_cleanup (DeleteObject namespace (PStr bucket_name) (PStr (basename file_path)))))
       else raise RuntimeError)"

definition create_pre_authenticated :: "env \<Rightarrow> string \<Rightarrow> string \<Rightarrow> pyval \<Rightarrow> string \<Rightarrow> ('z, pyval) oprog" where
  "create_pre_authenticated e name file_path namespace bucket_name =
     bindP (oci_ask e ''create_preauthenticated_request'' [namespace, PStr bucket_name, PDict
         [(''name'', PStr name), (''object_name'', PStr (basename file_path)), (''access_type'', PStr ''ObjectRead''),
          (''time_expires'', PStr ''2030-07-16T17:46:56.731Z'')]]) (\<lambda>obj.
       thenP (push_cleanup (DeletePreauth namespace (PStr bucket_name) (attribute (data_of obj) ''id'')))
         (ret (attribute (data_of obj) ''full_path'')))"

definition terraform_variables ::
  "oci_config \<Rightarrow> pyval \<Rightarrow> pyval \<Rightarrow> (string, pyval) dict \<Rightarrow> (string, pyval) dict" where
  "terraform_variables g tag_compartment image_source_uri kwargs =
     (let variables = dict_update
          [(''compartment_ocid'', og_compartment g), (''region'', og_region g), (''tenancy_ocid'', og_tenancy g),
           (''cluster_name'', PStr (og_entity_name g)), (''openshift_image_source_uri'', image_source_uri),
           (''control_plane_shape'', og_controller_shape g), (''compute_shape'', og_compute_shape g),
           (''compute_count'', PStr (dec_int (og_workers_count g))), (''zone_dns'', og_base_domain g),
           (''tag_namespace_name'', PStr (''openshift-'' @ og_entity_name g)),
           (''tag_namespace_compartment_ocid_resource_tagging'', tag_compartment),
           (''enable_public_api_lb'', PStr ''true'')] kwargs;
          variables = (if og_controller_cpu g \<noteq> PNone then dict_set ''control_plane_ocpu'' (og_controller_cpu g) variables
            else variables)
      in if og_compute_cpu g \<noteq> PNone then dict_set ''compute_ocpu'' (og_compute_cpu g) variables else variables)"

text \<open>\<open>file_bytes\<close> reads a file.\<close>

definition base64_zip_file :: "(call list \<Rightarrow> string \<Rightarrow> exn + nat list) \<Rightarrow> env \<Rightarrow> string \<Rightarrow> ('z, string) oprog" where
  "base64_zip_file file_bytes e file_zip =
     bindP (ask_bool e ''isfile'' [PStr file_zip]) (\<lambda>is_file.
       if \<not> is_file then raise RuntimeError
       else bindP (ext (\<lambda>h. file_bytes h file_zip) (Controller ''open'' [PStr file_zip])) (\<lambda>bytes. ret (b64encode bytes)))"

definition create_stack ::
  "(call list \<Rightarrow> string \<Rightarrow> exn + nat list) \<Rightarrow> env \<Rightarrow> oci_config \<Rightarrow> string \<Rightarrow> pyval \<Rightarrow> string \<Rightarrow> (string, pyval) dict
     \<Rightarrow> int \<Rightarrow> ('z, pyval) oprog" where
  "create_stack file_bytes e g name namespace bucket_name variables timeout_seconds =
     bindP (base64_zip_file file_bytes e (og_infrastructure_zip g)) (\<lambda>encoded.
     bindP (oci_ask e ''create_stack_and_wait_for_state'' [PDict
         [(''compartment_id'', og_compartment g), (''display_name'', PStr name), (''description'', PStr name),
          (''config_source'', PDict [(''config_source_type'', PStr ''ZIP_UPLOAD''), (''zip_file_base64_encoded'', PStr encoded)]),
          (''custom_terraform_provider'', PDict [(''region'', og_region g), (''namespace'', namespace),
             (''bucket_name'', PStr bucket_name)]),
          (''variables'', PDict variables)],
         PList [PStr (lifecycle_value ACTIVE)], PInt timeout_seconds]) (\<lambda>obj.
       thenP (push_cleanup (DeleteStack (attribute (data_of obj) ''id''))) (ret (attribute (data_of obj) ''id''))))"

definition job_details :: "pyval \<Rightarrow> string \<Rightarrow> string \<Rightarrow> pyval" where
  "job_details stack_id display_name operation = PDict
     [(''stack_id'', stack_id), (''display_name'', PStr display_name), (''operation'', PStr operation),
      (''apply_job_plan_resolution'', PDict [(''is_use_latest_job_id'', PBool False), (''is_auto_approved'', PBool True)])]"

text \<open>
  The outputs of a job: the last field tells that the manifest of the cloud's controller was among them. Texts
  that are not strings do not occur there.
\<close>

fun keep_manifests :: "pyval list \<Rightarrow> ('z, bool) oprog" where
  "keep_manifests [] = ret False"
| "keep_manifests (item # items) =
     (if attribute item ''output_name'' = PStr ''dynamic_custom_manifest'' then
        thenP (modifies (\<lambda>s. s\<lparr>oc_manifests := oc_manifests s @ [\<lparr>mf_folder = ''manifests'',
            mf_file_name = ''oci_custom_manifests.yaml'',
            mf_content = TextContent (text_of (attribute item ''output_value''))\<rparr>]\<rparr>))
          (bindP (keep_manifests items) (\<lambda>_. ret True))
      else keep_manifests items)"

definition list_items :: "pyval \<Rightarrow> pyval list" where
  "list_items v = (case v of PList xs \<Rightarrow> xs | _ \<Rightarrow> [])"

definition apply_job_from_stack :: "env \<Rightarrow> pyval \<Rightarrow> string \<Rightarrow> int \<Rightarrow> ('z, unit) oprog" where
  "apply_job_from_stack e stack_id display_name timeout_seconds =
     thenP (push_cleanup (RunJob (job_details stack_id display_name ''DESTROY'') [SUCCEEDED] timeout_seconds))
     (bindP (oci_ask e ''create_job_and_wait_for_state'' [job_details stack_id display_name ''APPLY'',
          PList [PStr (lifecycle_value FAILED), PStr (lifecycle_value SUCCEEDED)], PInt timeout_seconds]) (\<lambda>job.
      let i = attribute (data_of job) ''id'' in
      bindP (oci_ask e ''get_job_logs_content'' [i]) (\<lambda>_.
      if attribute (data_of job) ''lifecycle_state'' = PStr (lifecycle_value FAILED) then raise RuntimeError
      else bindP (oci_ask e ''list_job_outputs'' [i]) (\<lambda>outputs.
        bindP (keep_manifests (list_items (attribute (data_of outputs) ''items''))) (\<lambda>success.
          if success then ret () else raise RuntimeError)))))"

section \<open>Preparing the nodes\<close>

definition ensure_resource_attribution_tags :: "env \<Rightarrow> oci_config \<Rightarrow> ('z, unit) oprog" where
  "ensure_resource_attribution_tags e g =
     bindP (oci_ask e ''list_tag_namespaces'' [og_tenancy g, PBool True]) (\<lambda>existing.
       case find (\<lambda>ns. attribute ns ''name'' = PStr ''openshift-tags''
              \<and> attribute ns ''lifecycle_state'' = PStr ''ACTIVE'') (list_items (data_of existing)) of
         Some ns \<Rightarrow> modifies (\<lambda>s. s\<lparr>oc_tag_compartment := attribute ns ''compartment_id''\<rparr>)
       | None \<Rightarrow>
           bindP (oci_ask e ''create_tag_namespace'' [PDict
               [(''compartment_id'', og_compartment g), (''name'', PStr ''openshift-tags''),
                (''description'', PStr ''Used for tracking openshift related resources for attribution and reporting'')]])
             (\<lambda>response.
           thenP (act e ''create_tag'' [attribute (data_of response) ''id'', PDict
               [(''name'', PStr ''openshift-resource''), (''description'', PStr ''OpenShift Resource Tracking''),
                (''is_cost_tracking'', PBool True)]])
             (modifies (\<lambda>s. s\<lparr>oc_tag_compartment := og_compartment g\<rparr>))))"

definition oci_prepare_nodes ::
  "(call list \<Rightarrow> string \<Rightarrow> exn + nat list) \<Rightarrow> env \<Rightarrow> oci_config \<Rightarrow> ('z, unit) oprog" where
  "oci_prepare_nodes file_bytes e g =
     thenP (ensure_resource_attribution_tags e g)
     (let bucket_name = ''bucket-'' @ og_cluster_id g in
      bindP (create_bucket e g bucket_name []) (\<lambda>namespace.
      thenP (upload_file_to_bucket e (og_iso_path g) namespace bucket_name)
      (bindP (create_pre_authenticated e (''preauth-'' @ og_cluster_id g) (og_iso_path g) namespace bucket_name) (\<lambda>url_path.
       bindP (reads oc_tag_compartment) (\<lambda>tag_compartment.
       bindP (create_stack file_bytes e g (''stack-'' @ og_cluster_id g) namespace bucket_name
           (terraform_variables g tag_compartment url_path [(''control_plane_count'', PStr (dec_int (og_masters_count g)))])
           2800) (\<lambda>stack_id.
       thenP (apply_job_from_stack e stack_id (''apply-job-'' @ og_cluster_id g) 3600)
         (modifies (\<lambda>s. s\<lparr>oc_cloud_provider := PNone\<rparr>))))))))"

section \<open>Removing resources\<close>

text \<open>
  Without a list of cleanups, as in another process, it is made from what the cloud lists. The callbacks are
  run from the end of the list to its start; the list stays as it is.
\<close>

definition push_cleanups :: "cleanup list \<Rightarrow> ('z, unit) oprog" where
  "push_cleanups cs = modifies (\<lambda>s. s\<lparr>oc_cleanups := oc_cleanups s @ cs\<rparr>)"

definition found_cleanups :: "oci_config \<Rightarrow> pyval \<Rightarrow> pyval list \<Rightarrow> pyval list \<Rightarrow> pyval \<Rightarrow> int \<Rightarrow> cleanup list" where
  "found_cleanups g namespace pre_auths objects stack_id timeout_seconds =
     (let bucket = PStr (''bucket-'' @ og_cluster_id g) in
      [DeleteStack stack_id, DeleteBucket namespace bucket]
      @ map (\<lambda>a. DeletePreauth namespace bucket (attribute a ''id'')) pre_auths
      @ map (\<lambda>x. DeleteObject namespace bucket (attribute x ''name'')) objects
      @ [RunJob (job_details stack_id (''destroy-job-'' @ og_cluster_id g) ''DESTROY'') [SUCCEEDED, FAILED] timeout_seconds])"

definition generate_cleanup_resources :: "env \<Rightarrow> oci_config \<Rightarrow> int \<Rightarrow> ('z, unit) oprog" where
  "generate_cleanup_resources e g timeout_seconds =
     bindP (oci_ask e ''get_namespace'' []) (\<lambda>v. let namespace = data_of v; bucket = PStr (''bucket-'' @ og_cluster_id g) in
     bindP (oci_ask e ''list_preauthenticated_requests'' [namespace, bucket]) (\<lambda>pre_auths.
     bindP (oci_ask e ''list_objects'' [namespace, bucket]) (\<lambda>objects.
     bindP (oci_ask e ''list_stacks'' [og_compartment g, PStr (''stack-'' @ og_cluster_id g)]) (\<lambda>stacks.
       push_cleanups (found_cleanups g namespace (list_items (data_of pre_auths))
         (list_items (attribute (data_of objects) ''objects''))
         (case list_items (data_of stacks) of [] \<Rightarrow> PNone | stack # _ \<Rightarrow> attribute stack ''id'') timeout_seconds)))))"

definition oci_destroy_all_nodes :: "env \<Rightarrow> oci_config \<Rightarrow> ('z, unit) oprog" where
  "oci_destroy_all_nodes e g =
     bindP (reads oc_cleanups) (\<lambda>cleanups.
       thenP (whenP (cleanups = []) (generate_cleanup_resources e g 2800))
       (bindP (reads oc_cleanups) (\<lambda>cleanups.
          for_each (\<lambda>c. suppressing is_Exception (run_cleanup e c)) (rev cleanups))))"

section \<open>Looking at the nodes\<close>

definition waiter_status ::
  "('z oci_state_scheme, unit) waiter \<Rightarrow> ('z, pyval) oprog \<Rightarrow> string \<Rightarrow> string \<Rightarrow> ('z, unit) oprog" where
  "waiter_status wait client_callback name status =
     wait (bindP client_callback (\<lambda>response.
         let waiting_to = filter (\<lambda>obj. attribute obj ''display_name'' = PStr name) (list_items (data_of response)) in
         thenP (assertP (length waiting_to = 1))
           (ret (truthy (attribute (hd waiting_to) ''lifecycle_state'' = PStr status)))))
       120 5 no_exceptions"

definition oci_instances :: "env \<Rightarrow> oci_config \<Rightarrow> ('z, pyval list) oprog" where
  "oci_instances e g =
     bindP (oci_ask e ''list_instances'' [og_compartment g]) (\<lambda>response.
       ret (filter (\<lambda>i. occurs_in (og_entity_name g) (text_of (attribute i ''display_name''))) (list_items (data_of response))))"

definition get_instance_role :: "oci_config \<Rightarrow> pyval \<Rightarrow> exn + string" where
  "get_instance_role g i =
     sum_bind (py_get (attribute i ''defined_tags'') (''openshift-'' @ og_entity_name g) PNone) (\<lambda>namespace.
       sum_bind (py_get namespace ''instance-role'' PNone) (\<lambda>role.
         Inr (if role = PStr ''control_plane'' then role_value Master else role_value Worker)))"

definition oci_list_nodes :: "env \<Rightarrow> oci_config \<Rightarrow> ('z, (string \<times> string) list) oprog" where
  "oci_list_nodes e g =
     bindP (oci_instances e g) (\<lambda>instances. sum_prog (sum_map (\<lambda>i.
       sum_bind (get_instance_role g i) (\<lambda>role. Inr (text_of (attribute i ''display_name''), role))) instances))"

definition get_vnics :: "env \<Rightarrow> oci_config \<Rightarrow> pyval \<Rightarrow> ('z, pyval list) oprog" where
  "get_vnics e g instance_id =
     bindP (oci_ask e ''list_vnic_attachments'' [og_compartment g, instance_id]) (\<lambda>attachments.
       collect (\<lambda>a. bindP (oci_ask e ''get_vnic'' [attribute a ''vnic_id'']) (\<lambda>response. ret (data_of response)))
         (list_items (data_of attachments)))"

definition vnic_addresses :: "pyval \<Rightarrow> pyval list" where
  "vnic_addresses v =
     filter truth [attribute v ''private_ip'', attribute v ''public_ip''] @ list_items (attribute v ''ipv6_addresses'')"

definition oci_get_node_ips_and_macs :: "env \<Rightarrow> oci_config \<Rightarrow> string \<Rightarrow> ('z, pyval list \<times> pyval list) oprog" where
  "oci_get_node_ips_and_macs e g node_name =
     bindP (oci_instances e g) (\<lambda>instances.
       case find (\<lambda>i. attribute i ''display_name'' = PStr node_name) instances of
         None \<Rightarrow> raise StopIteration
       | Some i \<Rightarrow> bindP (get_vnics e g (attribute i ''id'')) (\<lambda>vnics.
           ret (concat (map vnic_addresses vnics), map (\<lambda>v. attribute v ''mac_address'') vnics)))"

section \<open>What has to be removed\<close>

text \<open>
  \<open>undo e h c\<close>: the cleanups of the call \<open>c\<close>, made after the history \<open>h\<close>: one for every call that made something, and the
  destruction for every job that was started, also for one that failed.
\<close>

definition undo_of :: "string \<Rightarrow> pyval list \<Rightarrow> pyval \<Rightarrow> cleanup list" where
  "undo_of what args v =
     (if what = ''create_bucket'' then [DeleteBucket (args ! 0) (attribute (args ! 1) ''name'')]
      else if what = ''put_object'' then [DeleteObject (args ! 0) (args ! 1) (args ! 2)]
      else if what = ''create_preauthenticated_request''
        then [DeletePreauth (args ! 0) (args ! 1) (attribute (data_of v) ''id'')]
      else if what = ''create_stack_and_wait_for_state'' then [DeleteStack (attribute (data_of v) ''id'')]
      else [])"

definition destruction :: "pyval \<Rightarrow> pyval" where
  "destruction details = job_details (attribute details ''stack_id'') (text_of (attribute details ''display_name'')) ''DESTROY''"

fun undo :: "env \<Rightarrow> call list \<Rightarrow> call \<Rightarrow> cleanup list" where
  "undo e h (Controller what args) =
     (if what = ''create_job_and_wait_for_state'' then [RunJob (destruction (args ! 0)) [SUCCEEDED] 3600]
      else case e_ask e h (Controller what args) of Inl x \<Rightarrow> [] | Inr v \<Rightarrow> undo_of what args v)"
| "undo e h _ = []"

fun undo_all :: "env \<Rightarrow> call list \<Rightarrow> call list \<Rightarrow> cleanup list" where
  "undo_all e h [] = []"
| "undo_all e h (c # cs) = undo e h c @ undo_all e (h @ [c]) cs"

lemma undo_all_append: "undo_all e h (cs @ ds) = undo_all e h cs @ undo_all e (h @ cs) ds"
  by (induction cs arbitrary: h) simp_all

text \<open>\<open>accounted\<close>: what the new calls made, and only that, is on the list of cleanups, in the order of the calls.\<close>

definition accounted :: "env \<Rightarrow> 'z oci_state_scheme \<Rightarrow> 'z oci_state_scheme \<Rightarrow> bool" where
  "accounted e s t \<longleftrightarrow> (\<exists>cs. hist t = hist s @ cs \<and> oc_cleanups t = oc_cleanups s @ undo_all e (hist s) cs)"

interpretation accounts: state_rel "accounted e" for e
proof unfold_locales
  show "accounted e s s" for s by (simp add: accounted_def)
  show "accounted e s t \<Longrightarrow> accounted e t u \<Longrightarrow> accounted e s u" for s t u
    unfolding accounted_def by (metis append.assoc undo_all_append)
qed


definition makes_something :: "string \<Rightarrow> bool" where
  "makes_something what \<longleftrightarrow> what \<in> {''create_bucket'', ''put_object'', ''create_preauthenticated_request'',
     ''create_stack_and_wait_for_state'', ''create_job_and_wait_for_state''}"

lemma undo_nothing: "\<not> makes_something what \<Longrightarrow> undo e h (Controller what args) = []"
  unfolding makes_something_def undo_of_def undo.simps by (simp split: sum.split)

lemma accounted_quiet:
  assumes "\<not> makes_something what"
  shows "keeps (accounted e) (ext f (Controller what args))"
  by (rule keepsI) (auto simp: ext_app accounted_def undo_nothing [OF assms] simp del: undo.simps)

lemma accounts_quiet:
  assumes "\<not> makes_something what"
  shows "keeps (accounted e) (oci_ask e what args)" "keeps (accounted e) (ask_bool e what args)"
    "keeps (accounted e) (act e what args)"
  unfolding oci_ask_def ask_bool_def act_def ask_call_def do_call_def
  by (intro accounts.keeps_bindP accounts.keeps_ret accounted_quiet assms)+

lemma accounts_modifies [intro]:
  "(\<And>s. hist (f s) = hist s \<and> oc_cleanups (f s) = oc_cleanups s) \<Longrightarrow> keeps (accounted e) (modifies f)"
  by (rule keepsI) (auto simp: modifies_app accounted_def)

lemma accounts_sum_prog: "keeps (accounted e) (sum_prog r)"
  by (rule keepsI) (simp add: prog_simps accounts.rel_refl)

text \<open>Making a resource and pushing its cleanup is one accounted step, and so is pushing the destruction of a job and starting it.\<close>

lemma accounts_made:
  fixes f :: "pyval \<Rightarrow> ('z, 'a) oprog"
  assumes "what \<noteq> ''create_job_and_wait_for_state''"
    and "\<And>v. undo_of what args v = [c v]" and "\<And>v. keeps (accounted e) (f v)"
  shows "keeps (accounted e) (bindP (oci_ask e what args) (\<lambda>v. thenP (push_cleanup (c v)) (f v)))"
proof (rule keepsI)
  fix s t :: "'z oci_state_scheme" and r
  assume run: "bindP (oci_ask e what args) (\<lambda>v. thenP (push_cleanup (c v)) (f v)) s = (r, t)"
  let ?call = "Controller what args"
  show "accounted e s t"
  proof (cases "e_ask e (hist s) ?call")
    case (Inl x)
    then have "t = s\<lparr>hist := hist s @ [?call]\<rparr>"
      using run by (simp add: oci_ask_def ask_call_def ext_app bindP_def)
    then show ?thesis
      using Inl assms(1) by (simp add: accounted_def)
  next
    case (Inr v)
    let ?s = "s\<lparr>hist := hist s @ [?call], oc_cleanups := oc_cleanups s @ [c v]\<rparr>"
    have "f v ?s = (r, t)"
      using run Inr by (simp add: oci_ask_def ask_call_def ext_app bindP_def push_cleanup_def prog_simps)
    then have "accounted e ?s t" by (rule keepsD [OF assms(3)])
    moreover have "accounted e s ?s"
      using Inr assms(1,2) by (simp add: accounted_def)
    ultimately show ?thesis by (rule accounts.rel_trans [rotated])
  qed
qed

lemma accounts_job:
  fixes f :: "pyval \<Rightarrow> ('z, 'a) oprog"
  assumes "destruction d = d'" and "\<And>v. keeps (accounted e) (f v)"
  shows "keeps (accounted e) (thenP (push_cleanup (RunJob d' [SUCCEEDED] 3600))
           (bindP (oci_ask e ''create_job_and_wait_for_state'' (d # args)) f))"
proof (rule keepsI)
  fix s t :: "'z oci_state_scheme" and r
  let ?call = "Controller ''create_job_and_wait_for_state'' (d # args)"
  let ?s = "s\<lparr>oc_cleanups := oc_cleanups s @ [RunJob d' [SUCCEEDED] 3600], hist := hist s @ [?call]\<rparr>"
  assume run: "thenP (push_cleanup (RunJob d' [SUCCEEDED] 3600))
           (bindP (oci_ask e ''create_job_and_wait_for_state'' (d # args)) f) s = (r, t)"
  have s: "accounted e s ?s" by (simp add: accounted_def assms(1))
  show "accounted e s t"
  proof (cases "e_ask e (hist s) ?call")
    case (Inl x)
    then have "hist t = hist ?s" "oc_cleanups t = oc_cleanups ?s"
      using run by (auto simp: oci_ask_def ask_call_def ext_app bindP_def push_cleanup_def prog_simps)
    with s show ?thesis by (simp add: accounted_def)
  next
    case (Inr v)
    have "f v ?s = (r, t)"
      using run Inr by (simp add: oci_ask_def ask_call_def ext_app bindP_def push_cleanup_def prog_simps)
    with s show ?thesis by (meson accounts.rel_trans keepsD [OF assms(2)])
  qed
qed

lemmas accounts_intros = accounts.keeps_intros accounts_sum_prog accounts_quiet

lemma accounts_create_bucket [intro]: "keeps (accounted e) (create_bucket e g name [])"
  unfolding create_bucket_def Let_def
  by (intro accounts.keeps_bindP [OF accounts_quiet(1)] accounts_made)
    (auto simp: makes_something_def undo_of_def attribute_def cfg_def intro!: accounts_intros)

lemma accounts_put:
  "keeps (accounted e) (bindP (oci_ask e ''put_object'' [namespace, bucket, name])
     (\<lambda>_. push_cleanup (DeleteObject namespace bucket name)))"
  using accounts_made [of "''put_object''" "[namespace, bucket, name]" "\<lambda>_. DeleteObject namespace bucket name" e "\<lambda>_. ret ()"]
  by (simp add: undo_of_def accounts.keeps_ret)

lemma accounts_upload [intro]: "keeps (accounted e) (upload_file_to_bucket e path namespace bucket)"
  unfolding upload_file_to_bucket_def
proof (intro accounts.keeps_bindP, goal_cases)
  case 1
  show ?case by (rule accounts_quiet(2)) (simp add: makes_something_def)
next
  case (2 is_file)
  show ?case
    by (cases is_file)
      (simp_all add: accounts.keeps_bindP accounts.keeps_raise accounts_quiet accounts_put makes_something_def)
qed

lemma accounts_preauth [intro]: "keeps (accounted e) (create_pre_authenticated e name path namespace bucket)"
  unfolding create_pre_authenticated_def
  by (rule accounts_made) (simp_all add: undo_of_def accounts.keeps_ret)

lemma accounts_base64 [intro]: "keeps (accounted e) (base64_zip_file file_bytes e path)"
  unfolding base64_zip_file_def
  by (intro accounts_intros accounted_quiet) (auto intro!: accounts_intros accounted_quiet simp: makes_something_def)

lemma accounts_stack [intro]:
  "keeps (accounted e) (create_stack file_bytes e g name namespace bucket variables timeout)"
  unfolding create_stack_def
  by (intro accounts.keeps_bindP [OF accounts_base64] accounts_made) (simp_all add: undo_of_def accounts.keeps_ret)

lemma accounts_manifests [intro]: "keeps (accounted e) (keep_manifests items)"
  by (induction items) (auto intro!: accounts_intros)

lemma destruction_details [simp]: "destruction (job_details i name operation) = job_details i name ''DESTROY''"
  by (simp add: destruction_def job_details_def attribute_def cfg_def text_of_def)

lemma accounts_apply [intro]: "keeps (accounted e) (apply_job_from_stack e i name 3600)"
  unfolding apply_job_from_stack_def
  by (rule accounts_job) (auto intro!: accounts_intros simp: makes_something_def Let_def)

lemma accounts_tags [intro]: "keeps (accounted e) (ensure_resource_attribution_tags e g)"
  unfolding ensure_resource_attribution_tags_def
  by (auto intro!: accounts_intros accounts_modifies simp: makes_something_def split: option.split)

lemma accounts_prepare: "keeps (accounted e) (oci_prepare_nodes file_bytes e g)"
  unfolding oci_prepare_nodes_def Let_def
  by (intro accounts.keeps_bindP accounts.keeps_reads accounts_modifies accounts_tags accounts_create_bucket
      accounts_upload accounts_preauth accounts_stack accounts_apply) simp

section \<open>Properties\<close>

text \<open>C12: However the preparation of the nodes ends, the list of cleanups has grown by exactly the cleanups of what its
  calls have made, in the order of the calls: a bucket, objects, addresses and stacks whose creation was
  answered, and the destruction of every job that was started, also if it failed.
\<close>

theorem everything_made_is_recorded:
  assumes "oci_prepare_nodes file_bytes e g s = (r, t)"
  shows "\<exists>cs. hist t = hist s @ cs \<and> oc_cleanups t = oc_cleanups s @ undo_all e (hist s) cs"
  using keepsD [OF accounts_prepare assms] by (simp add: accounted_def)

text \<open>A cloud whose every answer has the fields read here; no output of the job is the manifest, so that the preparation fails at the end.\<close>

definition sample_answer :: pyval where
  "sample_answer = PDict [(''data'', PDict [(''id'', PStr ''i''), (''full_path'', PStr ''p''), (''items'', PList []),
     (''objects'', PList [PDict [(''name'', PStr ''disc.iso'')]])]), (''status'', PInt 200)]"

definition cloud_env :: env where
  "cloud_env = \<lparr>e_list_clusters = \<lambda>_ _. Inl (External 0), e_get_cluster = \<lambda>_ _. Inl (External 0),
     e_list_hosts = \<lambda>_ _. Inl (External 0), e_list_infra_envs = \<lambda>_. Inl (External 0),
     e_register = \<lambda>_ _. Inl (External 0), e_get_bundle = \<lambda>_ _. Inl (External 0), e_readyz = \<lambda>_ _. Inl (External 0),
     e_do = \<lambda>_ c. if c = Controller ''delete_bucket'' [PDict [], PStr ''bucket-c''] then Inl RequestException else Inr (),
     e_ask = \<lambda>_ _. Inr sample_answer, e_run = \<lambda>_ _. Inl (External 0)\<rparr>"

definition sample_oci :: oci_config where
  "sample_oci = \<lparr>og_compartment = PStr ''o'', og_region = PStr ''r'', og_tenancy = PStr ''t'', og_controller_shape = PNone,
     og_controller_cpu = PNone, og_compute_shape = PNone, og_compute_cpu = PNone, og_workers_count = 2, og_masters_count = 3,
     og_infrastructure_zip = ''z'', og_cluster_id = ''c'', og_entity_name = ''n'', og_iso_path = ''d/disc.iso'',
     og_base_domain = PNone\<rparr>"

definition no_oci :: oci_state where
  "no_oci = \<lparr>hist = [], oc_cleanups = [], oc_tag_compartment = PNone, oc_manifests = [], oc_cloud_provider = PNone\<rparr>"

theorem everything_made_is_recorded_witness:
  "\<exists>cs. hist (snd (oci_prepare_nodes (\<lambda>_ _. Inr [2, 3]) cloud_env sample_oci no_oci)) = [] @ cs
     \<and> oc_cleanups (snd (oci_prepare_nodes (\<lambda>_ _. Inr [2, 3]) cloud_env sample_oci no_oci)) = [] @ undo_all cloud_env [] cs"
  using everything_made_is_recorded [OF surjective_pairing, of "\<lambda>_ _. Inr [2, 3]" cloud_env sample_oci no_oci]
  by (simp add: no_oci_def)

lemma run_cleanup_app:
  assumes "\<forall>h c x. e_do e h c = Inl x \<longrightarrow> is_Exception x"
  shows "suppressing is_Exception (run_cleanup e c) s = (Inr (), s\<lparr>hist := hist s @ [cleanup_call c]\<rparr>)"
  using assms
  by (cases "e_do e (hist s) (cleanup_call c)")
    (simp_all add: run_cleanup_def suppressing_def try_except_def do_call_def ext_app prog_simps)

lemma run_cleanups_app:
  assumes "\<forall>h c x. e_do e h c = Inl x \<longrightarrow> is_Exception x"
  shows "for_each (\<lambda>c. suppressing is_Exception (run_cleanup e c)) cs s
     = (Inr (), s\<lparr>hist := hist s @ map cleanup_call cs\<rparr>)"
  by (induction cs arbitrary: s) (simp_all add: prog_simps run_cleanup_app [OF assms])

lemma destroy_with_cleanups:
  assumes "oc_cleanups s \<noteq> []" and "\<forall>h c x. e_do e h c = Inl x \<longrightarrow> is_Exception x"
  shows "oci_destroy_all_nodes e g s = (Inr (), s\<lparr>hist := hist s @ map cleanup_call (rev (oc_cleanups s))\<rparr>)"
  using assms(1) by (simp add: oci_destroy_all_nodes_def bindP_app whenP_def run_cleanups_app [OF assms(2)])


lemma prepare_run_cleanups:
  "oc_cleanups (snd (oci_prepare_nodes (\<lambda>_ _. Inr [2, 3]) cloud_env sample_oci no_oci)) \<noteq> []"
  by (simp add: oci_prepare_nodes_def ensure_resource_attribution_tags_def oci_ask_def ask_call_def ext_app bindP_def
      create_bucket_def upload_file_to_bucket_def ask_bool_def act_def do_call_def create_pre_authenticated_def
      create_stack_def base64_zip_file_def apply_job_from_stack_def push_cleanup_def prog_simps cloud_env_def
      sample_answer_def sample_oci_def no_oci_def data_of_def attribute_def cfg_def list_items_def Let_def)

lemma cloud_env_errors: "\<forall>h c x. e_do cloud_env h c = Inl x \<longrightarrow> is_Exception x"
  by (auto simp: cloud_env_def split: if_splits)


lemma oci_ask_Inr_iff:
  "oci_ask e what args s = (Inr v, t) \<longleftrightarrow>
     e_ask e (hist s) (Controller what args) = Inr v \<and> t = s\<lparr>hist := hist s @ [Controller what args]\<rparr>"
  by (auto simp: oci_ask_def ask_call_def ext_app)

lemma found_by_queries:
  assumes "generate_cleanup_resources e g timeout s = (Inr (), t)"
  shows "\<exists>qs namespace pre_auths objects stack_id. length qs = 4 \<and> hist t = hist s @ qs
    \<and> oc_cleanups t = oc_cleanups s @ found_cleanups g namespace pre_auths objects stack_id timeout"
proof -
  have "\<exists>qs. hist t = hist s @ qs \<and> length qs = 4"
    using assms unfolding generate_cleanup_resources_def Let_def push_cleanups_def
    by (elim bindP_InrE) (auto simp: oci_ask_Inr_iff modifies_app)
  moreover have "\<exists>namespace pre_auths objects stack_id.
      oc_cleanups t = oc_cleanups s @ found_cleanups g namespace pre_auths objects stack_id timeout"
    using assms unfolding generate_cleanup_resources_def Let_def push_cleanups_def
    by (elim bindP_InrE) (clarsimp simp: oci_ask_Inr_iff modifies_app, blast)
  ultimately show ?thesis by blast
qed

text \<open>In a process that has made nothing, destroying the nodes looks the resources up and removes them in an order in
  which each can be removed: the machines first, by the destruction of the stack's job, then every object and every
  address of the bucket, and only then the bucket and the stack themselves.
\<close>

lemma found_resources_in_order:
  assumes "oc_cleanups s = []" and "oci_destroy_all_nodes e g s = (Inr (), u)"
    and "\<forall>h c x. e_do e h c = Inl x \<longrightarrow> is_Exception x"
  shows "\<exists>queries namespace pre_auths objects stack_id. length queries = 4
     \<and> hist u = hist s @ queries
         @ [cleanup_call (RunJob (job_details stack_id (''destroy-job-'' @ og_cluster_id g) ''DESTROY'') [SUCCEEDED, FAILED] 2800)]
         @ map (\<lambda>x. Controller ''delete_object'' [namespace, PStr (''bucket-'' @ og_cluster_id g), attribute x ''name'']) (rev objects)
         @ map (\<lambda>a. Controller ''delete_preauthenticated_request''
             [namespace, PStr (''bucket-'' @ og_cluster_id g), attribute a ''id'']) (rev pre_auths)
         @ [Controller ''delete_bucket'' [namespace, PStr (''bucket-'' @ og_cluster_id g)],
            Controller ''delete_stack_and_wait_for_state'' [stack_id]]"
proof -
  obtain t where t: "generate_cleanup_resources e g 2800 s = (Inr (), t)"
    and run: "bindP (reads oc_cleanups) (\<lambda>cleanups.
          for_each (\<lambda>c. suppressing is_Exception (run_cleanup e c)) (rev cleanups)) t = (Inr (), u)"
    using assms(1,2) by (auto simp: oci_destroy_all_nodes_def bindP_app prog_simps elim!: bindP_InrE)
  obtain qs namespace pre_auths objects stack_id where qs: "length qs = 4" "hist t = hist s @ qs"
    "oc_cleanups t = found_cleanups g namespace pre_auths objects stack_id 2800"
    using found_by_queries [OF t] assms(1) by auto
  have "hist u = hist t @ map cleanup_call (rev (oc_cleanups t))"
    using run by (auto simp: bindP_app run_cleanups_app [OF assms(3)])
  with qs show ?thesis
    by (intro exI [of _ qs] exI [of _ namespace] exI [of _ pre_auths] exI [of _ objects] exI [of _ stack_id])
      (simp add: found_cleanups_def Let_def rev_map o_def)
qed

lemma destroy_run: "\<exists>u. oci_destroy_all_nodes cloud_env sample_oci no_oci = (Inr (), u)"
proof -
  obtain t where t: "generate_cleanup_resources cloud_env sample_oci 2800 no_oci = (Inr (), t)"
    by (simp add: generate_cleanup_resources_def oci_ask_def ask_call_def ext_app bindP_def push_cleanups_def prog_simps
        Let_def cloud_env_def)
  have "oc_cleanups no_oci = []" by (simp add: no_oci_def)
  then show ?thesis
    by (simp add: oci_destroy_all_nodes_def bindP_def reads_def whenP_def t run_cleanups_app [OF cloud_env_errors])
qed

lemma found_resources_in_order_witness:
  "\<exists>u queries rest. oci_destroy_all_nodes cloud_env sample_oci no_oci = (Inr (), u)
     \<and> length queries = 4 \<and> hist u = queries @ rest"
proof -
  obtain u where u: "oci_destroy_all_nodes cloud_env sample_oci no_oci = (Inr (), u)" using destroy_run by blast
  from found_resources_in_order [OF _ u cloud_env_errors] show ?thesis
    using u by (fastforce simp: no_oci_def)
qed

end
