(* ===== verification/Clouds.thy ===== *)
theory Clouds
  imports Terraform Interface
begin

text \<open>
  The controllers that make machines with terraform and run them through a provider's interface:
  \<open>node_controllers/tf_controller.py\<close>, the base class, \<open>vsphere_controller.py\<close> and \<open>nutanix_controller.py\<close>. The
  terraform state, the provider's objects and random numbers are parameters. A subclass is a record of the operations
  the base class calls (\<open>machine_ops\<close>).
\<close>

section \<open>Machines in the terraform state\<close>

record tf_controller =
  tk_config :: "(string, pyval) dict"
  tk_entity :: "(string, pyval) dict"
  tk_cluster_name :: string
  tk_resource_type :: string
  tk_name_key :: string
  tk_supported :: "string list"
  tk_attempts :: int
  tk_state :: "call list \<Rightarrow> exn + pyval list"

type_synonym ('z, 'a) wprog = "((call, 'z) world_scheme, 'a) prog"

record 'z machine_ops =
  mo_cores :: "string \<Rightarrow> ('z, pyval) wprog"
  mo_ram :: "string \<Rightarrow> ('z, pyval) wprog"
  mo_start :: "string \<Rightarrow> ('z, unit) wprog"
  mo_shutdown :: "string \<Rightarrow> ('z, unit) wprog"
  mo_set_boot_order :: "string \<Rightarrow> ('z, unit) wprog"

fun of_type :: "string \<Rightarrow> pyval list \<Rightarrow> exn + pyval list" where
  "of_type resource_type [] = Inr []"
| "of_type resource_type (r # rs) =
     sum_bind (py_field r ''type'') (\<lambda>t. sum_bind (of_type resource_type rs) (\<lambda>found.
       Inr (if t = PStr resource_type then r # found else found)))"

definition get_resources :: "tf_controller \<Rightarrow> string \<Rightarrow> ('z, pyval list) wprog" where
  "get_resources k resource_type =
     bindP (ext (tk_state k) (Controller ''read_state_file'' [])) (\<lambda>resources. sum_prog (of_type resource_type resources))"

text \<open>Only a list can be gone through.\<close>

definition get_tf_resource :: "tf_controller \<Rightarrow> string \<Rightarrow> ('z, pyval list) wprog" where
  "get_tf_resource k resource_type =
     bindP (get_resources k resource_type) (\<lambda>resources.
       sum_prog (sum_bind (sum_map (\<lambda>r. sum_bind (py_field r ''instances'') items_in) resources) (\<lambda>xss. Inr (concat xss))))"

definition get_tf_vms :: "tf_controller \<Rightarrow> ('z, pyval list) wprog" where
  "get_tf_vms k = get_tf_resource k (tk_resource_type k)"

definition vm_attribute :: "pyval \<Rightarrow> string \<Rightarrow> exn + pyval" where
  "vm_attribute vm f = sum_bind (py_field vm ''attributes'') (\<lambda>a. py_field a f)"

fun vm_named :: "string \<Rightarrow> string \<Rightarrow> pyval list \<Rightarrow> exn + pyval" where
  "vm_named key node_name [] = Inr PNone"
| "vm_named key node_name (vm # vms) =
     sum_bind (vm_attribute vm key) (\<lambda>v. if v = PStr node_name then Inr vm else vm_named key node_name vms)"

definition get_vm :: "tf_controller \<Rightarrow> string \<Rightarrow> ('z, pyval) wprog" where
  "get_vm k node_name = bindP (get_tf_vms k) (\<lambda>vms. sum_prog (vm_named (tk_name_key k) node_name vms))"

text \<open>\<open>self._get_vm(name)["attributes"][field]\<close>: without such a machine it subscripts \<open>None\<close>.\<close>

definition vm_field :: "tf_controller \<Rightarrow> string \<Rightarrow> string \<Rightarrow> ('z, pyval) wprog" where
  "vm_field k node_name f = bindP (get_vm k node_name) (\<lambda>vm. sum_prog (vm_attribute vm f))"

definition get_all_vars :: "tf_controller \<Rightarrow> (string, pyval) dict" where
  "get_all_vars k =
     dict_update (dict_update (dict_update [] (tk_config k)) (tk_entity k)) [(''cluster_name'', PStr (tk_cluster_name k))]"

text \<open>A \<open>Node\<close> asks for its resources when it is made. Nodes are given by their names.\<close>

definition tf_vm_to_node :: "tf_controller \<Rightarrow> 'z machine_ops \<Rightarrow> pyval \<Rightarrow> ('z, string) wprog" where
  "tf_vm_to_node k m vm =
     bindP (sum_prog (vm_attribute vm (tk_name_key k))) (\<lambda>v. let name = text_of v in
       thenP (mo_cores m name) (thenP (mo_ram m name) (ret name)))"

definition tf_list_nodes :: "tf_controller \<Rightarrow> 'z machine_ops \<Rightarrow> ('z, string list) wprog" where
  "tf_list_nodes k m = bindP (get_tf_vms k) (collect (tf_vm_to_node k m))"

definition tf_start_all_nodes :: "tf_controller \<Rightarrow> 'z machine_ops \<Rightarrow> ('z, string list) wprog" where
  "tf_start_all_nodes k m =
     bindP (tf_list_nodes k m) (\<lambda>nodes. thenP (for_each (mo_start m) nodes) (tf_list_nodes k m))"

definition tf_shutdown_all_nodes :: "tf_controller \<Rightarrow> 'z machine_ops \<Rightarrow> ('z, unit) wprog" where
  "tf_shutdown_all_nodes k m = bindP (tf_list_nodes k m) (for_each (mo_shutdown m))"

definition tf_apply_all ::
  "((call, 'z) world_scheme, unit) retrier \<Rightarrow> env \<Rightarrow> tf_controller \<Rightarrow> (string, pyval) dict \<Rightarrow> ('z, unit) wprog" where
  "tf_apply_all retry e k config = set_and_apply retry e (tk_attempts k) (tk_supported k) config"

definition tf_prepare_nodes ::
  "((call, 'z) world_scheme, unit) retrier \<Rightarrow> env \<Rightarrow> tf_controller \<Rightarrow> 'z machine_ops \<Rightarrow> ('z, unit) wprog
     \<Rightarrow> ('z, string list) wprog" where
  "tf_prepare_nodes retry e k m get_provider_client =
     thenP get_provider_client
     (thenP (tf_apply_all retry e k (get_all_vars k))
     (bindP (tf_list_nodes k m) (\<lambda>nodes. thenP (for_each (mo_set_boot_order m) nodes) (ret nodes))))"

definition tf_destroy_all_nodes :: "env \<Rightarrow> ('z, unit) wprog" where
  "tf_destroy_all_nodes e = act e ''terraform destroy'' [PBool False]"

definition add_dns_record :: "env \<Rightarrow> string \<Rightarrow> string \<Rightarrow> string \<Rightarrow> string \<Rightarrow> ('z, unit) wprog" where
  "add_dns_record e cluster_name base_dns_domain api_ip ingress_ip =
     (let fname = ''/etc/NetworkManager/dnsmasq.d/openshift-'' @ cluster_name @ ''.conf''; nl = [CHR 0x0A] in
      thenP (do_call e (WriteFile fname))
        (act e ''file.write'' [PStr fname, PStr (nl @ ''address=/api.'' @ cluster_name @ ''.'' @ base_dns_domain @ ''/'' @ api_ip
           @ nl @ ''address=/.apps.'' @ cluster_name @ ''.'' @ base_dns_domain @ ''/'' @ ingress_ip @ nl)]))"

definition tf_set_dns :: "env \<Rightarrow> tf_controller \<Rightarrow> string \<Rightarrow> string \<Rightarrow> ('z, unit) wprog" where
  "tf_set_dns e k api_ip ingress_ip =
     add_dns_record e (tk_cluster_name k) (text_of (cfg (tk_entity k) ''base_dns_domain'')) api_ip ingress_ip"

definition tf_get_ingress_and_api_vips :: "tf_controller \<Rightarrow> (pyval \<times> pyval) option" where
  "tf_get_ingress_and_api_vips k =
     (let api = cfg (tk_entity k) ''api_vips''; ingress = cfg (tk_entity k) ''ingress_vips'' in
      if truth api \<and> truth ingress then Some (api, ingress) else None)"

section \<open>vSphere\<close>

text \<open>The state of a task is asked for until it has succeeded or failed; it may run forever.\<close>

partial_function (option) await_task ::
  "env \<Rightarrow> (call, 'z) world_scheme \<Rightarrow> ((exn + unit) \<times> (call, 'z) world_scheme) option" where
  "await_task e s =
     (case ask_call e (Controller ''task.info.state'' []) s of
        (Inl x, t) \<Rightarrow> Some (Inl x, t)
      | (Inr v, t) \<Rightarrow>
          if v = PStr ''success'' \<or> v = PStr ''error'' then Some (Inr (), t)
          else await_task e (t\<lparr>hist := hist t @ [Sleep 1]\<rparr>))"

definition search_for_obj :: "env \<Rightarrow> string \<Rightarrow> string \<Rightarrow> ('z, bool) wprog" where
  "search_for_obj e kind name =
     bindP (ask_call e (Controller ''CreateContainerView'' [PStr kind])) (\<lambda>view.
       bindP (sum_prog (items_in view)) (\<lambda>names.
         thenP (act e ''container.Destroy'' []) (ret (PStr name \<in> set names))))"

definition new_connection :: "env \<Rightarrow> tf_controller \<Rightarrow> ('z, unit) wprog" where
  "new_connection e k = act e ''SmartConnect''
     [cfg (tk_config k) ''vsphere_server'', cfg (tk_config k) ''vsphere_username'', cfg (tk_config k) ''vsphere_password'']"

definition run_on_vm :: "env \<Rightarrow> tf_controller \<Rightarrow> string \<Rightarrow> string \<Rightarrow> ('z, unit) wprog" where
  "run_on_vm e k name action =
     thenP (new_connection e k)
     (thenP (act e ''RetrieveContent'' [])
     (bindP (search_for_obj e ''VirtualMachine'' name) (\<lambda>found.
        if \<not> found then raise (ValueError (''Unable to locate VirtualMachine $'' @ name))
        else thenP (do_call e (NodeCommand action name []))
          (thenP (or_diverges (await_task e)) (act e ''Disconnect'' [])))))"

definition vsphere_create_folder :: "env \<Rightarrow> tf_controller \<Rightarrow> string \<Rightarrow> ('z, unit) wprog" where
  "vsphere_create_folder e k name =
     (let datacenter = text_of (cfg (tk_config k) ''vsphere_datacenter'') in
      thenP (new_connection e k)
      (thenP (act e ''RetrieveContent'' [])
      (bindP (search_for_obj e ''Datacenter'' datacenter) (\<lambda>found.
        if \<not> found then raise (ValueError (''Unable to locate Datacenter $'' @ datacenter))
        else bindP (search_for_obj e ''Folder'' name) (\<lambda>exists.
          if exists then ret () else act e ''CreateFolder'' [PStr name])))))"

definition vsphere_start_node :: "env \<Rightarrow> tf_controller \<Rightarrow> string \<Rightarrow> ('z, unit) wprog" where
  "vsphere_start_node e k node_name = run_on_vm e k node_name ''PowerOn''"

definition vsphere_shutdown_node :: "env \<Rightarrow> tf_controller \<Rightarrow> string \<Rightarrow> ('z, unit) wprog" where
  "vsphere_shutdown_node e k node_name = run_on_vm e k node_name ''PowerOff''"

definition vsphere_restart_node :: "env \<Rightarrow> tf_controller \<Rightarrow> string \<Rightarrow> ('z, unit) wprog" where
  "vsphere_restart_node e k node_name = run_on_vm e k node_name ''ResetVM_Task''"

definition vsphere_get_cpu_cores :: "tf_controller \<Rightarrow> string \<Rightarrow> ('z, pyval) wprog" where
  "vsphere_get_cpu_cores k node_name = vm_field k node_name ''num_cpus''"

text \<open>The state holds numbers here.\<close>

definition times_1024 :: "pyval \<Rightarrow> exn + pyval" where
  "times_1024 v = (case v of PInt n \<Rightarrow> Inr (PInt (n * 1024)) | _ \<Rightarrow> Inl TypeError)"

definition vsphere_get_ram_kib :: "tf_controller \<Rightarrow> string \<Rightarrow> ('z, pyval) wprog" where
  "vsphere_get_ram_kib k node_name = bindP (vm_field k node_name ''memory'') (\<lambda>v. sum_prog (times_1024 v))"

definition vsphere_get_node_ips_and_macs :: "tf_controller \<Rightarrow> string \<Rightarrow> ('z, pyval \<times> pyval list) wprog" where
  "vsphere_get_node_ips_and_macs k node_name =
     bindP (get_vm k node_name) (\<lambda>vm. sum_prog (
       sum_bind (vm_attribute vm ''guest_ip_addresses'') (\<lambda>ips. sum_bind (vm_attribute vm ''network_interface'') (\<lambda>v.
         sum_bind (items_in v) (\<lambda>interfaces. sum_bind (sum_map (\<lambda>i. py_field i ''mac_address'') interfaces) (\<lambda>macs.
           Inr (ips, macs)))))))"

definition vsphere_ops :: "env \<Rightarrow> tf_controller \<Rightarrow> 'z machine_ops" where
  "vsphere_ops e k = \<lparr>mo_cores = vsphere_get_cpu_cores k, mo_ram = vsphere_get_ram_kib k, mo_start = vsphere_start_node e k,
     mo_shutdown = vsphere_shutdown_node e k, mo_set_boot_order = \<lambda>_. ret ()\<rparr>"

definition vsphere_start_all_nodes :: "env \<Rightarrow> tf_controller \<Rightarrow> ('z, string list) wprog" where
  "vsphere_start_all_nodes e k = tf_start_all_nodes k (vsphere_ops e k)"

definition vsphere_shutdown_all_nodes :: "env \<Rightarrow> tf_controller \<Rightarrow> ('z, unit) wprog" where
  "vsphere_shutdown_all_nodes e k = tf_shutdown_all_nodes k (vsphere_ops e k)"

text \<open>\<open>dir_of\<close> is \<open>os.path.dirname\<close>.\<close>

definition vsphere_prepare_nodes ::
  "(string \<Rightarrow> string) \<Rightarrow> ((call, 'z) world_scheme, unit) retrier \<Rightarrow> env \<Rightarrow> tf_controller \<Rightarrow> ('z, string list) wprog" where
  "vsphere_prepare_nodes dir_of retry e k =
     (let iso_path = text_of (cfg (tk_entity k) ''iso_download_path'') in
      bindP (ask_bool e ''os.path.exists'' [PStr iso_path]) (\<lambda>exists.
      thenP (whenP (\<not> exists) (thenP (recreate_folder e (dir_of iso_path) True False) (act e ''touch'' [PStr iso_path])))
      (case dict_get (get_all_vars k) ''iso_download_path'' of
         None \<Rightarrow> raise (KeyError ''iso_download_path'')
       | Some _ \<Rightarrow>
           thenP (vsphere_create_folder e k (text_of (cfg (tk_config k) ''vsphere_parent_folder'')))
           (thenP (tf_apply_all retry e k (filter (\<lambda>(f, v). f \<noteq> ''iso_download_path'') (get_all_vars k)))
             (tf_list_nodes k (vsphere_ops e k))))))"

definition vsphere_notify_iso_ready ::
  "((call, 'z) world_scheme, unit) retrier \<Rightarrow> env \<Rightarrow> tf_controller \<Rightarrow> ('z, unit) wprog" where
  "vsphere_notify_iso_ready retry e k =
     thenP (vsphere_shutdown_all_nodes e k) (tf_apply_all retry e k (get_all_vars k))"

definition vsphere_destroy_all_nodes :: "env \<Rightarrow> ('z, unit) wprog" where
  "vsphere_destroy_all_nodes e = tf_destroy_all_nodes e"

section \<open>Nutanix\<close>

record nutanix_vm =
  nv_uuid :: string
  nv_macs :: "string list"
  nv_power_state :: string

text \<open>
  What the provider lists, the random number between 1 and 160, and which of two free addresses a set gives up
  first.
\<close>

record nutanix =
  nx_vms :: "call list \<Rightarrow> exn + nutanix_vm list"
  nx_clusters :: "call list \<Rightarrow> exn + string list"
  nx_subnets :: "call list \<Rightarrow> exn + (string \<times> cidr) list"
  nx_random :: "call list \<Rightarrow> nat"
  nx_first_out :: "ip list \<Rightarrow> bool"

definition nutanix_get_node_ips_and_macs :: "tf_controller \<Rightarrow> string \<Rightarrow> ('z, pyval list \<times> pyval list) wprog" where
  "nutanix_get_node_ips_and_macs k node_name =
     bindP (get_vm k node_name) (\<lambda>vm. sum_prog (
       sum_bind (sum_bind (vm_attribute vm ''nic_list'') items_in) (\<lambda>nics.
       sum_bind (sum_map (\<lambda>nic. sum_bind (sum_bind (py_field nic ''ip_endpoint_list'') items_in) (\<lambda>ends.
           sum_bind (sum_map (\<lambda>x. py_field x ''ip'') ends) (\<lambda>ips.
             sum_bind (py_field nic ''mac_address'') (\<lambda>mac. Inr (ips, mac))))) nics) (\<lambda>found.
         Inr (concat (map fst found), map snd found)))))"

definition get_provider_vm :: "nutanix \<Rightarrow> tf_controller \<Rightarrow> string \<Rightarrow> ('z, nutanix_vm) wprog" where
  "get_provider_vm nx k tf_vm_name =
     bindP (ext (nx_vms nx) (Controller ''NutanixVM.list_entities'' [])) (\<lambda>vms.
     bindP (nutanix_get_node_ips_and_macs k tf_vm_name) (\<lambda>(_, macs).
       case find (\<lambda>vm. list_ex (\<lambda>mac. PStr mac \<in> set macs) (nv_macs vm)) vms of
         None \<Rightarrow> raise (ValueError (''Can't find node with name: '' @ tf_vm_name))
       | Some vm \<Rightarrow> ret vm))"

definition vm_do :: "env \<Rightarrow> string \<Rightarrow> nutanix_vm \<Rightarrow> ('z, unit) wprog" where
  "vm_do e what vm = do_call e (NodeCommand what (nv_uuid vm) [])"

definition nutanix_start_node :: "env \<Rightarrow> nutanix \<Rightarrow> tf_controller \<Rightarrow> string \<Rightarrow> ('z, unit) wprog" where
  "nutanix_start_node e nx k node_name =
     bindP (get_provider_vm nx k node_name) (\<lambda>vm. whenP (nv_power_state vm \<noteq> ''ON'') (vm_do e ''power_on'' vm))"

definition nutanix_shutdown_node :: "env \<Rightarrow> nutanix \<Rightarrow> tf_controller \<Rightarrow> string \<Rightarrow> ('z, unit) wprog" where
  "nutanix_shutdown_node e nx k node_name =
     bindP (get_provider_vm nx k node_name) (\<lambda>vm. whenP (nv_power_state vm \<noteq> ''OFF'') (vm_do e ''power_on'' vm))"

definition nutanix_restart_node :: "env \<Rightarrow> nutanix \<Rightarrow> tf_controller \<Rightarrow> string \<Rightarrow> ('z, unit) wprog" where
  "nutanix_restart_node e nx k node_name =
     bindP (get_provider_vm nx k node_name) (\<lambda>vm. thenP (vm_do e ''power_off'' vm) (vm_do e ''power_on'' vm))"

definition nutanix_set_boot_order ::
  "env \<Rightarrow> nutanix \<Rightarrow> tf_controller \<Rightarrow> string \<Rightarrow> bool \<Rightarrow> string option \<Rightarrow> ('z, unit) wprog" where
  "nutanix_set_boot_order e nx k node_name cd_first cdrom_iso_path =
     bindP (get_provider_vm nx k node_name) (\<lambda>vm.
       thenP (do_call e (NodeCommand ''update_boot_order'' (nv_uuid vm)
           [PList (if cd_first then [PStr ''default_boot_order'']
                   else [PStr ''DISK'', PStr ''CDROM'', PStr ''NETWORK''])]))
         (whenP (truthy_str cdrom_iso_path) (raise NotImplementedError)))"

definition nutanix_get_provider_client :: "env \<Rightarrow> nutanix \<Rightarrow> tf_controller \<Rightarrow> ('z, unit) wprog" where
  "nutanix_get_provider_client e nx k =
     thenP (act e ''NutanixApiClient'' [cfg (tk_config k) ''nutanix_username'', cfg (tk_config k) ''nutanix_password'',
         cfg (tk_config k) ''nutanix_port'', cfg (tk_config k) ''nutanix_endpoint''])
     (bindP (ext (nx_clusters nx) (Controller ''NutanixCluster.list_entities'' [])) (\<lambda>clusters.
        if cfg (tk_config k) ''nutanix_cluster'' \<in> PStr ` set clusters then ret ()
        else raise (ValueError (''Unable to locate nutanix cluster - '' @ text_of (cfg (tk_config k) ''nutanix_cluster'')))))"

definition nutanix_get_cpu_cores :: "tf_controller \<Rightarrow> string \<Rightarrow> ('z, pyval) wprog" where
  "nutanix_get_cpu_cores k node_name = vm_field k node_name ''num_sockets''"

definition nutanix_get_ram_kib :: "tf_controller \<Rightarrow> string \<Rightarrow> ('z, pyval) wprog" where
  "nutanix_get_ram_kib k node_name = bindP (vm_field k node_name ''memory_size_mib'') (\<lambda>v. sum_prog (times_1024 v))"

definition nutanix_ops :: "env \<Rightarrow> nutanix \<Rightarrow> tf_controller \<Rightarrow> 'z machine_ops" where
  "nutanix_ops e nx k = \<lparr>mo_cores = nutanix_get_cpu_cores k, mo_ram = nutanix_get_ram_kib k,
     mo_start = nutanix_start_node e nx k, mo_shutdown = nutanix_shutdown_node e nx k,
     mo_set_boot_order = \<lambda>n. nutanix_set_boot_order e nx k n False None\<rparr>"

subsection \<open>Virtual addresses\<close>

text \<open>\<open>subprocess.TimeoutExpired\<close>, another class than the one of the waiting library.\<close>

definition SubprocessTimeout :: exn where "SubprocessTimeout = External 6"

definition ping_call :: "ip \<Rightarrow> call" where
  "ping_call a = Controller ''ping'' [PInt (int (ip_value a))]"

definition no_answer :: "exn \<Rightarrow> bool" where
  "no_answer x \<longleftrightarrow> x = CalledProcessError \<or> x = SubprocessTimeout"

definition is_free :: "env \<Rightarrow> ip \<Rightarrow> ('z, bool) wprog" where
  "is_free e a =
     try_except (thenP (do_call e (ping_call a)) (ret False)) (\<lambda>x. if no_answer x then ret True else raise x)"

definition insert_new :: "'a \<Rightarrow> 'a list \<Rightarrow> 'a list" where
  "insert_new x xs = (if x \<in> set xs then xs else xs @ [x])"

text \<open>The loop; its first argument is how often it may still run.\<close>

fun probe_addresses :: "env \<Rightarrow> nutanix \<Rightarrow> ip \<Rightarrow> nat \<Rightarrow> ip list \<Rightarrow> ('z, ip list) wprog" where
  "probe_addresses e nx network 0 free_ips = ret free_ips"
| "probe_addresses e nx network (Suc n) free_ips =
     (if length free_ips < 2 then
        bindP (ext (\<lambda>h. Inr (nx_random nx h)) (Controller ''random.randint'' [PInt 1, PInt 160])) (\<lambda>r.
        bindP (sum_prog (ip_add network r)) (\<lambda>address.
        bindP (is_free e address) (\<lambda>free.
          probe_addresses e nx network n (if free then insert_new address free_ips else free_ips))))
      else ret free_ips)"

datatype vips = Configured pyval pyval | Probed ip ip

definition max_ping_attempts :: nat where "max_ping_attempts = 30"

text \<open>\<open>attempts\<close> counts from 1, and the loop runs while it is below the maximum.\<close>

definition empty_vips :: "pyval \<Rightarrow> bool" where
  "empty_vips v \<longleftrightarrow> v = PNone \<or> v = PList []"

definition two_vips :: "nutanix \<Rightarrow> ip list \<Rightarrow> ('z, vips) wprog" where
  "two_vips nx free_ips =
     (case free_ips of
        [a, b] \<Rightarrow> ret (if nx_first_out nx [a, b] then Probed a b else Probed b a)
      | _ \<Rightarrow> raise ConnectionError)"

definition nutanix_get_ingress_and_api_vips :: "env \<Rightarrow> nutanix \<Rightarrow> tf_controller \<Rightarrow> ('z, vips) wprog" where
  "nutanix_get_ingress_and_api_vips e nx k =
     (let api = cfg (tk_entity k) ''api_vips''; ingress = cfg (tk_entity k) ''ingress_vips'' in
      if \<not> truth (cfg (tk_entity k) ''vip_dhcp_allocation'') then
        if empty_vips api then raise (ValueError ''API VIP is not set'')
        else if empty_vips ingress then raise (ValueError ''Ingress VIP is not set'')
        else ret (Configured api ingress)
      else
        bindP (ext (nx_subnets nx) (Controller ''NutanixSubnet.list_entities'' [])) (\<lambda>subnets.
        bindP (case find (\<lambda>(name, c). PStr name = cfg (tk_config k) ''nutanix_subnet'') subnets of
                 None \<Rightarrow> raise StopIteration | Some (_, c) \<Rightarrow> sum_prog (ip_network c)) (\<lambda>network.
        bindP (probe_addresses e nx (network_address network) (max_ping_attempts - 1) []) (\<lambda>free_ips.
          two_vips nx free_ips))))"

section \<open>What the controllers guarantee\<close>

text \<open>
  \<open>unanswered e s t a\<close>: between \<open>s\<close> and \<open>t\<close> the address was pinged, and did not answer.
\<close>

definition unanswered :: "env \<Rightarrow> (call, 'z) world_scheme \<Rightarrow> (call, 'z) world_scheme \<Rightarrow> ip \<Rightarrow> bool" where
  "unanswered e s t a \<longleftrightarrow>
     (\<exists>h x. prefix (hist s) h \<and> prefix (h @ [ping_call a]) (hist t) \<and> e_do e h (ping_call a) = Inl x \<and> no_answer x)"

definition pings :: "call list \<Rightarrow> nat" where
  "pings cs = length (filter (\<lambda>c. \<exists>a. c = ping_call a) cs)"

lemma pings_simps [simp]:
  "pings [] = 0" "pings (ping_call a # cs) = Suc (pings cs)"
  "pings (Controller ''random.randint'' args # cs) = pings cs"
  by (auto simp: pings_def ping_call_def)

lemma unanswered_mono:
  "unanswered e s t a \<Longrightarrow> prefix (hist r) (hist s) \<Longrightarrow> prefix (hist t) (hist u) \<Longrightarrow> unanswered e r u a"
  unfolding unanswered_def by (meson prefix_order.trans)

lemma is_free_app:
  "is_free e a s = (case e_do e (hist s) (ping_call a) of
       Inr _ \<Rightarrow> (Inr False, s\<lparr>hist := hist s @ [ping_call a]\<rparr>)
     | Inl x \<Rightarrow> (if no_answer x then Inr True else Inl x, s\<lparr>hist := hist s @ [ping_call a]\<rparr>))"
  by (simp add: is_free_def try_except_def do_call_def ext_app bindP_def prog_simps split: sum.splits)

lemma probe_addresses_free:
  "probe_addresses e nx network n free s = (Inr found, t) \<Longrightarrow> distinct free \<Longrightarrow>
     \<exists>cs. hist t = hist s @ cs \<and> pings cs \<le> n \<and> distinct found
       \<and> (\<forall>a \<in> set found. a \<in> set free \<or> (unanswered e s t a \<and> (\<exists>h. ip_add network (nx_random nx h) = Inr a)))"
proof (induction n arbitrary: free s)
  case 0
  then show ?case by (simp add: prog_simps)
next
  case (Suc n)
  show ?case
  proof (cases "length free < 2")
    case False
    with Suc.prems show ?thesis by (simp add: prog_simps)
  next
    case True
    let ?rand = "Controller ''random.randint'' [PInt 1, PInt 160]"
    let ?s = "s\<lparr>hist := hist s @ [?rand]\<rparr>"
    obtain a b u where a: "ip_add network (nx_random nx (hist s)) = Inr a" and b: "is_free e a ?s = (Inr b, u)"
      and rest: "probe_addresses e nx network n (if b then insert_new a free else free) u = (Inr found, t)"
      using Suc.prems(1) True by (auto simp: ext_app bindP_eq_Inr_iff prog_simps)
    have u: "hist u = hist s @ [?rand, ping_call a]"
      and seen: "b \<Longrightarrow> \<exists>x. e_do e (hist s @ [?rand]) (ping_call a) = Inl x \<and> no_answer x"
      using b by (auto simp: is_free_app split: sum.splits if_splits)
    have "distinct (if b then insert_new a free else free)"
      using Suc.prems(2) by (simp add: insert_new_def)
    from Suc.IH [OF rest this] obtain cs where cs: "hist t = hist u @ cs" "pings cs \<le> n" "distinct found"
      "\<forall>x \<in> set found. x \<in> set (if b then insert_new a free else free)
         \<or> (unanswered e u t x \<and> (\<exists>h. ip_add network (nx_random nx h) = Inr x))" by blast
    have here: "unanswered e s t a" if b
      unfolding unanswered_def using seen [OF that] cs(1) u
      by (intro exI [of _ "hist s @ [?rand]"]) auto
    have later: "unanswered e s t x" if "unanswered e u t x" for x
      using unanswered_mono [OF that, of s t] u by simp
    show ?thesis
    proof (intro exI [of _ "[?rand, ping_call a] @ cs"] conjI ballI)
      fix x assume "x \<in> set found"
      with cs(4) have "x \<in> set (if b then insert_new a free else free)
         \<or> (unanswered e u t x \<and> (\<exists>h. ip_add network (nx_random nx h) = Inr x))" by blast
      then show "x \<in> set free \<or> (unanswered e s t x \<and> (\<exists>h. ip_add network (nx_random nx h) = Inr x))"
        using here later a by (auto simp: insert_new_def split: if_splits)
    qed (use cs u in simp_all)
  qed
qed

text \<open>Neither program of the provider's interface powers a machine off.\<close>

definition powers_off :: "call \<Rightarrow> bool" where
  "powers_off c \<longleftrightarrow> (\<exists>uuid args. c = NodeCommand ''power_off'' uuid args)"

lemma powers_off_simps [simp]: "powers_off (NodeCommand n u args) \<longleftrightarrow> n = ''power_off''" "\<not> powers_off (Controller n args)"
  by (simp_all add: powers_off_def)

abbreviation nothing_off :: "(call, 'z) world_scheme \<Rightarrow> (call, 'z) world_scheme \<Rightarrow> bool" where
  "nothing_off \<equiv> adds (\<lambda>c. \<not> powers_off c)"

lemma nothing_off_sum_prog: "keeps nothing_off (sum_prog r)"
  by (simp add: keeps_def prog_simps adds.rel_refl)

lemmas nothing_off_intros = adds.keeps_intros adds_ext nothing_off_sum_prog

lemma nothing_off_vms: "keeps nothing_off (get_tf_vms k)"
  unfolding get_tf_vms_def get_tf_resource_def get_resources_def
  by (intro nothing_off_intros) simp

lemma nothing_off_fields: "keeps nothing_off (vm_field k n f)" "keeps nothing_off (get_vm k n)"
  unfolding vm_field_def get_vm_def by (intro nothing_off_intros nothing_off_vms)+

lemma nothing_off_provider_vm: "keeps nothing_off (get_provider_vm nx k n)"
  unfolding get_provider_vm_def nutanix_get_node_ips_and_macs_def
  by (auto intro!: nothing_off_intros nothing_off_fields split: option.split)

lemma nothing_off_shutdown: "keeps nothing_off (nutanix_shutdown_node e nx k n)"
  unfolding nutanix_shutdown_node_def vm_do_def do_call_def
  by (intro nothing_off_intros nothing_off_provider_vm) simp

lemma nothing_off_list: "keeps nothing_off (tf_list_nodes k (nutanix_ops e nx k))"
  unfolding tf_list_nodes_def tf_vm_to_node_def Let_def nutanix_ops_def nutanix_get_cpu_cores_def nutanix_get_ram_kib_def
  by (simp, intro nothing_off_intros nothing_off_vms nothing_off_fields)

lemma two_vips_Inr:
  "two_vips nx free s = (Inr (Probed x y), t) \<Longrightarrow> t = s \<and> (free = [x, y] \<or> free = [y, x])"
  by (auto simp: two_vips_def prog_simps split: list.splits if_splits)

lemma configured_not_probed: "(if b then raise x else if c then raise y else ret (Configured i j)) s \<noteq> (Inr (Probed l m), t)"
  by (simp add: prog_simps)

section \<open>Properties\<close>

text \<open>Shutting down all machines of a Nutanix cluster, whatever state they are in and however it ends, powers no
  machine off: the only operation it calls on a machine is the one that powers it on.
\<close>

lemma nutanix_shutdown_powers_nothing_off:
  assumes "tf_shutdown_all_nodes k (nutanix_ops e nx k) s = (r, t)"
  shows "\<exists>cs. hist t = hist s @ cs \<and> list_all (\<lambda>c. \<not> powers_off c) cs"
proof -
  have "keeps nothing_off (tf_shutdown_all_nodes k (nutanix_ops e nx k))"
    unfolding tf_shutdown_all_nodes_def
    by (intro nothing_off_intros nothing_off_list) (simp add: nutanix_ops_def nothing_off_shutdown)
  from keepsD [OF this assms] show ?thesis by (simp add: adds_def)
qed

text \<open>One machine that is on.\<close>

definition one_vm :: tf_controller where
  "one_vm = \<lparr>tk_config = [(''nutanix_subnet'', PStr ''s'')], tk_entity = [(''vip_dhcp_allocation'', PBool True)], tk_cluster_name = ''c'',
     tk_resource_type = ''nutanix_virtual_machine'', tk_name_key = ''name'', tk_supported = [], tk_attempts = 1,
     tk_state = \<lambda>_. Inr [PDict [(''type'', PStr ''nutanix_virtual_machine''), (''instances'', PList
       [PDict [(''attributes'', PDict [(''name'', PStr ''m-0''), (''num_sockets'', PInt 4), (''memory_size_mib'', PInt 8),
          (''nic_list'', PList [PDict [(''ip_endpoint_list'', PList []), (''mac_address'', PStr ''52:54'')]])])]])]]\<rparr>"

definition one_nutanix :: nutanix where
  "one_nutanix = \<lparr>nx_vms = \<lambda>_. Inr [\<lparr>nv_uuid = ''u'', nv_macs = [''52:54''], nv_power_state = ''ON''\<rparr>], nx_clusters = \<lambda>_. Inr [],
     nx_subnets = \<lambda>_. Inr [(''s'', \<lparr>cidr_version = V4, cidr_value = 256, cidr_prefixlen = 24\<rparr>)],
     nx_random = \<lambda>h. length h, nx_first_out = \<lambda>_. True\<rparr>"

definition silent_env :: env where
  "silent_env = \<lparr>e_list_clusters = \<lambda>_ _. Inl (External 0), e_get_cluster = \<lambda>_ _. Inl (External 0),
     e_list_hosts = \<lambda>_ _. Inl (External 0), e_list_infra_envs = \<lambda>_. Inl (External 0),
     e_register = \<lambda>_ _. Inl (External 0), e_get_bundle = \<lambda>_ _. Inl (External 0), e_readyz = \<lambda>_ _. Inl (External 0),
     e_do = \<lambda>h c. case c of Controller _ _ \<Rightarrow> Inl CalledProcessError | _ \<Rightarrow> Inr (),
     e_ask = \<lambda>_ c. Inr (if c = Controller ''task.info.state'' [] then PStr ''error'' else PList [PStr ''m-0'']),
     e_run = \<lambda>_ _. Inl (External 0)\<rparr>"

lemma nutanix_shutdown_run:
  "\<exists>t. tf_shutdown_all_nodes one_vm (nutanix_ops silent_env one_nutanix one_vm) (\<lparr>hist = []\<rparr> :: call world) = (Inr (), t)
     \<and> last (hist t) = NodeCommand ''power_on'' ''u'' []"
  by (simp add: tf_shutdown_all_nodes_def tf_list_nodes_def tf_vm_to_node_def Let_def nutanix_ops_def nutanix_get_cpu_cores_def
      nutanix_get_ram_kib_def vm_field_def get_vm_def get_tf_vms_def get_tf_resource_def get_resources_def bindP_def ext_app
      prog_simps one_vm_def py_field_def items_in_def vm_attribute_def text_of_def times_1024_def nutanix_shutdown_node_def
      get_provider_vm_def nutanix_get_node_ips_and_macs_def one_nutanix_def vm_do_def do_call_def silent_env_def)

lemma nutanix_shutdown_powers_nothing_off_witness:
  "\<exists>t. tf_shutdown_all_nodes one_vm (nutanix_ops silent_env one_nutanix one_vm) (\<lparr>hist = []\<rparr> :: call world) = (Inr (), t)
     \<and> last (hist t) = NodeCommand ''power_on'' ''u'' [] \<and> list_all (\<lambda>c. \<not> powers_off c) (hist t)"
proof -
  obtain t where t: "tf_shutdown_all_nodes one_vm (nutanix_ops silent_env one_nutanix one_vm) (\<lparr>hist = []\<rparr> :: call world)
      = (Inr (), t)" "last (hist t) = NodeCommand ''power_on'' ''u'' []"
    using nutanix_shutdown_run by blast
  from nutanix_shutdown_powers_nothing_off [OF t(1)] t show ?thesis by auto
qed

text \<open>The virtual addresses that the controller finds in a subnet with dynamic addresses are two different
  addresses, each one of the first 160 after the address of the network; both were pinged during the search and
  did not answer, and at most 29 addresses were pinged.
\<close>

lemma nutanix_vips_are_free:
  assumes "nutanix_get_ingress_and_api_vips e nx k s = (Inr (Probed api ingress), t)"
    and "\<forall>h. 1 \<le> nx_random nx h \<and> nx_random nx h \<le> 160"
  shows "\<exists>cs network. hist t = hist s @ cs \<and> pings cs \<le> 29 \<and> api \<noteq> ingress
     \<and> (\<forall>a \<in> {api, ingress}. unanswered e s t a \<and> (\<exists>n \<in> {1..160}. ip_add (network_address network) n = Inr a))"
proof -
  let ?list = "Controller ''NutanixSubnet.list_entities'' []"
  let ?s = "s\<lparr>hist := hist s @ [?list]\<rparr>"
  obtain network free where run: "probe_addresses e nx (network_address network) 29 [] ?s = (Inr free, t)"
    and free: "free = [api, ingress] \<or> free = [ingress, api]"
    using assms(1) unfolding nutanix_get_ingress_and_api_vips_def Let_def max_ping_attempts_def
    by (auto simp: ext_app bindP_eq_Inr_iff prog_simps configured_not_probed dest!: two_vips_Inr
        split: if_splits option.splits)
  from probe_addresses_free [OF run] obtain cs where cs: "hist t = hist ?s @ cs" "pings cs \<le> 29" "distinct free"
    "\<forall>a \<in> set free. unanswered e ?s t a \<and> (\<exists>h. ip_add (network_address network) (nx_random nx h) = Inr a)" by auto
  have set: "set free = {api, ingress}" using free by auto
  show ?thesis
  proof (intro exI [of _ "?list # cs"] exI [of _ network] conjI ballI)
    show "pings (?list # cs) \<le> 29" using cs(2) by (simp add: pings_def ping_call_def)
    show "api \<noteq> ingress" using cs(3) free by auto
    fix a assume "a \<in> {api, ingress}"
    with cs(4) set have a: "unanswered e ?s t a" "\<exists>h. ip_add (network_address network) (nx_random nx h) = Inr a" by auto
    from unanswered_mono [OF a(1), of s t] show "unanswered e s t a" by simp
    from a(2) assms(2) show "\<exists>n \<in> {1..160}. ip_add (network_address network) n = Inr a" by (metis atLeastAtMost_iff)
  qed (use cs(1) in simp)
qed

definition bounded_nutanix :: nutanix where
  "bounded_nutanix = one_nutanix\<lparr>nx_random := \<lambda>h. 1 + length h mod 160\<rparr>"

lemma probe_addresses_numeral:
  "probe_addresses e nx network (numeral v) free_ips =
     (if length free_ips < 2 then
        bindP (ext (\<lambda>h. Inr (nx_random nx h)) (Controller ''random.randint'' [PInt 1, PInt 160])) (\<lambda>r.
        bindP (sum_prog (ip_add network r)) (\<lambda>address.
        bindP (is_free e address) (\<lambda>free.
          probe_addresses e nx network (pred_numeral v) (if free then insert_new address free_ips else free_ips))))
      else ret free_ips)"
  by (simp add: numeral_eq_Suc)

lemma nutanix_vips_run:
  "fst (nutanix_get_ingress_and_api_vips silent_env bounded_nutanix one_vm (\<lparr>hist = []\<rparr> :: call world))
   = Inr (Probed \<lparr>ip_version = V4, ip_value = 258\<rparr> \<lparr>ip_version = V4, ip_value = 260\<rparr>)"
  by (simp add: nutanix_get_ingress_and_api_vips_def Let_def one_vm_def cfg_def bounded_nutanix_def one_nutanix_def ext_app
      bindP_def prog_simps ip_network_def host_span_def network_address_def max_ping_attempts_def is_free_app silent_env_def
      no_answer_def ping_call_def ip_add_def insert_new_def two_vips_def probe_addresses_numeral)

lemma nutanix_vips_are_free_witness:
  "\<exists>t cs. nutanix_get_ingress_and_api_vips silent_env bounded_nutanix one_vm (\<lparr>hist = []\<rparr> :: call world)
       = (Inr (Probed \<lparr>ip_version = V4, ip_value = 258\<rparr> \<lparr>ip_version = V4, ip_value = 260\<rparr>), t)
     \<and> hist t = cs \<and> pings cs \<le> 29"
proof -
  let ?run = "nutanix_get_ingress_and_api_vips silent_env bounded_nutanix one_vm (\<lparr>hist = []\<rparr> :: call world)"
  have run: "?run = (Inr (Probed \<lparr>ip_version = V4, ip_value = 258\<rparr> \<lparr>ip_version = V4, ip_value = 260\<rparr>), snd ?run)"
    using nutanix_vips_run by (metis prod.collapse)
  have "1 \<le> nx_random bounded_nutanix h \<and> nx_random bounded_nutanix h \<le> 160" for h
    using mod_less_divisor [of 160 "length h"] by (simp add: bounded_nutanix_def Suc_le_eq)
  with nutanix_vips_are_free [OF run] run show ?thesis by auto
qed

abbreviation task_call :: call where
  "task_call \<equiv> Controller ''task.info.state'' []"

definition task_polls :: "call list \<Rightarrow> nat" where
  "task_polls h = length (filter (\<lambda>c. c = task_call) h)"

text \<open>A task that, asked \<open>n\<close> times, has succeeded or failed.\<close>

definition task_ends :: "env \<Rightarrow> nat \<Rightarrow> bool" where
  "task_ends e n \<longleftrightarrow> (\<forall>h. (\<exists>v. e_ask e h task_call = Inr v)
     \<and> (n \<le> task_polls h \<longrightarrow> e_ask e h task_call \<in> {Inr (PStr ''success''), Inr (PStr ''error'')}))"

lemma await_task_ends:
  assumes "task_ends e n"
  shows "n \<le> task_polls (hist s) + m \<Longrightarrow> \<exists>t. await_task e s = Some (Inr (), t)"
proof (induction m arbitrary: s)
  case 0
  then have "e_ask e (hist s) task_call \<in> {Inr (PStr ''success''), Inr (PStr ''error'')}"
    using assms by (simp add: task_ends_def)
  then show ?case
    by (subst await_task.simps) (auto simp: ask_call_def ext_app)
next
  case (Suc m)
  obtain v where v: "e_ask e (hist s) task_call = Inr v"
    using assms by (meson task_ends_def)
  show ?case
  proof (cases "v = PStr ''success'' \<or> v = PStr ''error''")
    case True
    with v show ?thesis by (subst await_task.simps) (simp add: ask_call_def ext_app)
  next
    case False
    let ?s = "s\<lparr>hist := hist s @ [task_call, Sleep 1]\<rparr>"
    have "n \<le> task_polls (hist ?s) + m" using Suc.prems by (simp add: task_polls_def)
    with Suc.IH obtain t where "await_task e ?s = Some (Inr (), t)" by blast
    with v False show ?thesis by (subst await_task.simps) (simp add: ask_call_def ext_app)
  qed
qed

text \<open>An operation on a machine of vSphere that exists returns as soon as its task has ended. It returns in the same way
  whether the task succeeded or failed: a machine that could not be switched off counts as switched off.
\<close>

lemma vm_operation_ends:
  assumes "task_ends e n"
    and "\<forall>h. \<exists>names. e_ask e h (Controller ''CreateContainerView'' [PStr ''VirtualMachine'']) = Inr (PList names)
           \<and> PStr name \<in> set names"
    and "\<forall>h c. e_do e h c = Inr ()"
  shows "\<exists>t. run_on_vm e k name action s = (Inr (), t)"
proof -
  have act: "act e what args s = (Inr (), s\<lparr>hist := hist s @ [Controller what args]\<rparr>)" for what args and s :: "(call, 'a) world_scheme"
    using assms(3) by (simp add: act_def do_call_def ext_app)
  have found: "\<exists>t. search_for_obj e ''VirtualMachine'' name s = (Inr True, t)" for s :: "(call, 'a) world_scheme"
  proof -
    obtain names where "e_ask e (hist s) (Controller ''CreateContainerView'' [PStr ''VirtualMachine'']) = Inr (PList names)"
      "PStr name \<in> set names" using assms(2) by blast
    then show ?thesis
      by (simp add: search_for_obj_def ask_call_def ext_app bindP_def prog_simps items_in_def act)
  qed
  obtain t where t: "search_for_obj e ''VirtualMachine'' name
      (s\<lparr>hist := hist s @ [Controller ''SmartConnect'' [cfg (tk_config k) ''vsphere_server'',
         cfg (tk_config k) ''vsphere_username'', cfg (tk_config k) ''vsphere_password''], Controller ''RetrieveContent'' []]\<rparr>)
      = (Inr True, t)" using found by blast
  let ?t = "t\<lparr>hist := hist t @ [NodeCommand action name []]\<rparr>"
  obtain u where u: "await_task e ?t = Some (Inr (), u)"
    using await_task_ends [OF assms(1), of ?t n] by auto
  show ?thesis
    using assms(3) by (simp add: run_on_vm_def new_connection_def act bindP_def t do_call_def ext_app or_diverges_def u)
qed

definition failing_task_env :: env where
  "failing_task_env = silent_env\<lparr>e_do := \<lambda>_ _. Inr ()\<rparr>"

lemma vm_operation_ends_witness:
  "\<exists>t. run_on_vm failing_task_env one_vm ''m-0'' ''PowerOff'' (\<lparr>hist = []\<rparr> :: call world) = (Inr (), t)"
  by (rule vm_operation_ends [of _ 0]) (simp_all add: task_ends_def failing_task_env_def silent_env_def)

end
