(* ===== verification/Services.thy ===== *)
theory Services
  imports Prepare
begin

text \<open>
  Services that the tests run beside the machines: \<open>controllers/containerized_controller.py\<close>, a service in a container,
  with the proxy, tang and ipxe servers that extend it, and \<open>iscsi_target_controller.py\<close>. The commands
  they run are calls; \<open>json.loads\<close>, the template of the proxy's configuration and the library that retries
  are arguments.
\<close>

section \<open>A service in a container\<close>

record container =
  cn_name :: string
  cn_port :: int
  cn_image :: string
  cn_extra_flags :: "string list"

record container_state = "call world" +
  ct_is_running :: bool
  ct_container_id :: "string option"

type_synonym ('z, 'a) cprog = "('z container_state_scheme, 'a) prog"

definition base_run_flags :: "container \<Rightarrow> string list" where
  "base_run_flags c = [''-d'', ''--restart=always'', ''--network=host'',
     ''--publish '' @ dec_int (cn_port c) @ '':'' @ dec_int (cn_port c)]"

text \<open>\<open>on_container_start\<close> and \<open>on_container_removed\<close> are the methods a subclass may override.\<close>

definition container_run :: "env \<Rightarrow> container \<Rightarrow> ('z, unit) cprog \<Rightarrow> ('z, unit) cprog" where
  "container_run e c on_container_start =
     bindP (reads ct_is_running) (\<lambda>running.
       if running then ret ()
       else thenP (modifies (\<lambda>s. s\<lparr>ct_is_running := True\<rparr>))
         (thenP on_container_start (run_container e (cn_name c) (cn_image c) (base_run_flags c @ cn_extra_flags c) [])))"

text \<open>\<open>json.loads(out)[0]["Id"]\<close>.\<close>

definition first_id :: "pyval \<Rightarrow> exn + pyval" where
  "first_id v = (case v of
     PList [] \<Rightarrow> Inl IndexError
   | PList (x # xs) \<Rightarrow> py_field x ''Id''
   | PDict d \<Rightarrow> Inl (KeyError ''0'')
   | _ \<Rightarrow> Inl TypeError)"

definition container_id :: "(string \<Rightarrow> exn + pyval) \<Rightarrow> env \<Rightarrow> container \<Rightarrow> ('z, string) cprog" where
  "container_id json_loads e c =
     bindP (reads ct_is_running) (\<lambda>running.
     if \<not> running then raise RuntimeError
     else bindP (reads ct_container_id) (\<lambda>cached.
       case cached of
         Some i \<Rightarrow> ret i
       | None \<Rightarrow>
           bindP (run_command e (''podman-remote ps -f name='' @ cn_name c @ '' --format json'') True) (\<lambda>(out, _).
             bindP (sum_prog (sum_bind (json_loads out) first_id)) (\<lambda>podman_id.
               thenP (modifies (\<lambda>s. s\<lparr>ct_container_id := Some (text_of podman_id)\<rparr>)) (ret (text_of podman_id))))))"

definition exec_echo :: "env \<Rightarrow> string \<Rightarrow> string \<Rightarrow> string \<Rightarrow> string \<Rightarrow> ('z, unit) cprog" where
  "exec_echo e i line redirect path =
     bindP (run_command e (''podman-remote exec -it '' @ i @ '' /bin/sh -c '' @ [CHR 0x27] @ ''echo '' @ line @ redirect @ path @ [CHR 0x27]) True)
       (\<lambda>_. ret ())"

definition write_to_container ::
  "(string \<Rightarrow> exn + pyval) \<Rightarrow> env \<Rightarrow> container \<Rightarrow> string \<Rightarrow> string list \<Rightarrow> bool \<Rightarrow> ('z, unit) cprog" where
  "write_to_container json_loads e c file_path_container content appending =
     bindP (container_id json_loads e c) (\<lambda>i.
       thenP (whenP (\<not> appending) (exec_echo e i [CHR 0x0A] ''>'' file_path_container))
         (for_each (\<lambda>line. exec_echo e i line ''>>'' file_path_container) content))"

definition copy_file_to_container ::
  "(string \<Rightarrow> exn + pyval) \<Rightarrow> env \<Rightarrow> container \<Rightarrow> string \<Rightarrow> string \<Rightarrow> ('z, unit) cprog" where
  "copy_file_to_container json_loads e c local_file_path container_file_path =
     bindP (container_id json_loads e c) (\<lambda>i.
       bindP (run_command e (''podman-remote cp '' @ local_file_path @ ''  '' @ i @ '':'' @ container_file_path) True) (\<lambda>_. ret ()))"

definition container_remove :: "env \<Rightarrow> container \<Rightarrow> ('z, unit) cprog \<Rightarrow> ('z, unit) cprog" where
  "container_remove e c on_container_removed =
     bindP (reads ct_is_running) (\<lambda>running.
       whenP running
         (thenP (remove_running_container e (cn_name c))
           (thenP on_container_removed (modifies (\<lambda>s. s\<lparr>ct_is_running := False\<rparr>)))))"

section \<open>Tang\<close>

record tang =
  tg_container :: container
  tg_ip :: string
  tg_address :: string

definition hostname_ip :: "env \<Rightarrow> ('z, string) cprog" where
  "hostname_ip e = bindP (ask_call e (Controller ''socket.gethostname'' [])) (\<lambda>name.
     bindP (ask_call e (Controller ''socket.gethostbyname'' [name])) (\<lambda>ip. ret (text_of ip)))"

definition create_auth_file :: "env \<Rightarrow> string \<Rightarrow> string \<Rightarrow> string option \<Rightarrow> ('z, string) cprog" where
  "create_auth_file e working_dir name pull_secret =
     (let filename = working_dir @ ''/'' @ name @ ''_authfile'' in
      thenP (do_call e (WriteFile filename))
        (case pull_secret of
           None \<Rightarrow> raise TypeError
         | Some p \<Rightarrow> thenP (act e ''file.write'' [PStr filename, PStr p]) (ret filename)))"

definition tang_init :: "env \<Rightarrow> string \<Rightarrow> string \<Rightarrow> int \<Rightarrow> string option \<Rightarrow> ('z, tang) cprog" where
  "tang_init e working_dir name port pull_secret =
     bindP (create_auth_file e working_dir name pull_secret) (\<lambda>filename.
       thenP (modifies (\<lambda>s. s\<lparr>ct_is_running := False, ct_container_id := None\<rparr>))
         (bindP (hostname_ip e) (\<lambda>ip.
            ret \<lparr>tg_container = \<lparr>cn_name = name, cn_port = port, cn_image = ''registry.redhat.io/rhel8/tang'',
                   cn_extra_flags = [''-e PORT='' @ dec_int port, ''--authfile='' @ filename]\<rparr>,
                 tg_ip = ip, tg_address = ''http://'' @ ip @ '':'' @ dec_int port\<rparr>)))"

definition set_thumbprint :: "env \<Rightarrow> tang \<Rightarrow> ('z, string) cprog" where
  "set_thumbprint e g =
     bindP (run_command e (''podman-remote exec -it '' @ cn_name (tg_container g) @ '' tang-show-keys ''
         @ dec_int (cn_port (tg_container g))) True) (\<lambda>(out, _). ret out)"

section \<open>Proxy\<close>

record proxy_server =
  px_container :: container
  px_address :: string

definition PROXY_USER :: string where "PROXY_USER = ''assisted''"
definition PROXY_USER_PASS :: string where "PROXY_USER_PASS = ''redhat''"

definition proxy_address :: "bool \<Rightarrow> bool \<Rightarrow> string \<Rightarrow> int \<Rightarrow> string" where
  "proxy_address authenticated is_ipv6 host_ip port =
     (let proxy_user_path = (if authenticated then PROXY_USER @ '':'' @ PROXY_USER_PASS @ ''@'' else []);
          address = proxy_user_path @ host_ip
      in ''http://'' @ (if is_ipv6 then ''['' @ address @ '']'' else address) @ '':'' @ dec_int port)"

definition set_server_address :: "env \<Rightarrow> bool \<Rightarrow> bool \<Rightarrow> string option \<Rightarrow> int \<Rightarrow> ('z, string) cprog" where
  "set_server_address e authenticated is_ipv6 host_ip port =
     bindP (ask_call e (Controller ''socket.gethostname'' [])) (\<lambda>name.
       bindP (case host_ip of
                Some (x # xs) \<Rightarrow> ret (x # xs)
              | _ \<Rightarrow> bindP (ask_call e (Controller ''socket.gethostbyname'' [name])) (\<lambda>ip. ret (text_of ip)))
         (\<lambda>ip. ret (proxy_address authenticated is_ipv6 ip port)))"

text \<open>The template gives the text of the configuration for a port, a denied port and the kind of access.\<close>

definition create_conf_from_template ::
  "(int \<Rightarrow> pyval \<Rightarrow> bool \<Rightarrow> string) \<Rightarrow> env \<Rightarrow> string \<Rightarrow> int \<Rightarrow> pyval \<Rightarrow> bool \<Rightarrow> ('z, string) cprog" where
  "create_conf_from_template template e name port denied_port authenticated =
     (let tmp = ''/tmp/'' @ name; config_dir_path = tmp @ ''/'' @ name; file = config_dir_path @ ''/squid.conf'' in
      thenP (suppressing is_Exception (act e ''shutil.rmtree'' [PStr tmp]))
      (thenP (act e ''os.mkdir'' [PStr tmp])
      (thenP (act e ''os.mkdir'' [PStr config_dir_path])
      (thenP (do_call e (WriteFile file))
      (thenP (act e ''file.write'' [PStr file, PStr (template port denied_port authenticated)]) (ret config_dir_path))))))"

definition create_user_file_for_auth :: "env \<Rightarrow> string \<Rightarrow> bool \<Rightarrow> ('z, unit) cprog" where
  "create_user_file_for_auth e config_dir_path authenticated =
     whenP authenticated
       (bindP (run_command e (''htpasswd -b -c '' @ config_dir_path @ ''/squid-users '' @ PROXY_USER @ '' '' @ PROXY_USER_PASS) True)
         (\<lambda>_. ret ()))"

definition proxy_init ::
  "(int \<Rightarrow> pyval \<Rightarrow> bool \<Rightarrow> string) \<Rightarrow> env \<Rightarrow> string \<Rightarrow> int \<Rightarrow> pyval \<Rightarrow> bool \<Rightarrow> string option \<Rightarrow> bool \<Rightarrow> ('z, proxy_server) cprog" where
  "proxy_init template e name port denied_port authenticated host_ip is_ipv6 =
     (let c = \<lparr>cn_name = name, cn_port = port, cn_image = ''quay.io/sameersbn/squid'', cn_extra_flags = []\<rparr> in
      thenP (modifies (\<lambda>s. s\<lparr>ct_is_running := False, ct_container_id := None\<rparr>))
      (if name = [] then ret \<lparr>px_container = c, px_address = []\<rparr>
       else bindP (set_server_address e authenticated is_ipv6 host_ip port) (\<lambda>address.
         bindP (create_conf_from_template template e name port denied_port authenticated) (\<lambda>config_dir_path.
           thenP (create_user_file_for_auth e config_dir_path authenticated)
             (ret \<lparr>px_container = c\<lparr>cn_extra_flags := [''--volume '' @ config_dir_path @ '':/etc/squid/'']\<rparr>,
                   px_address = address\<rparr>)))))"

definition remove_config :: "env \<Rightarrow> string \<Rightarrow> ('z, unit) cprog" where
  "remove_config e name =
     (let tmp = ''/tmp/'' @ name in
      bindP (ask_bool e ''os.path.exists'' [PStr tmp]) (\<lambda>exists. whenP exists (act e ''shutil.rmtree'' [PStr tmp])))"

definition proxy_run :: "env \<Rightarrow> proxy_server \<Rightarrow> ('z, unit) cprog" where
  "proxy_run e p = whenP (cn_name (px_container p) \<noteq> []) (container_run e (px_container p) (ret ()))"

definition proxy_remove :: "env \<Rightarrow> proxy_server \<Rightarrow> ('z, unit) cprog" where
  "proxy_remove e p = container_remove e (px_container p) (remove_config e (cn_name (px_container p)))"

section \<open>iPXE\<close>

record ipxe =
  ix_container :: container
  ix_ip :: string
  ix_local_pxe_assets :: bool
  ix_dir :: string
  ix_empty_pxe_content :: bool

definition ipxe_scripts_folder :: "ipxe \<Rightarrow> string" where
  "ipxe_scripts_folder x = ix_dir x @ ''/server/ipxe_scripts''"

text \<open>\<open>name\<close> is also the image.\<close>

definition ipxe_init :: "string \<Rightarrow> string \<Rightarrow> int \<Rightarrow> string \<Rightarrow> bool \<Rightarrow> bool \<Rightarrow> ('z, ipxe) cprog" where
  "ipxe_init dir name port ip local_pxe_assets empty_pxe_content =
     thenP (modifies (\<lambda>s. s\<lparr>ct_is_running := False, ct_container_id := None\<rparr>))
       (ret \<lparr>ix_container = \<lparr>cn_name = name, cn_port = port, cn_image = name, cn_extra_flags = []\<rparr>, ix_ip = ip,
          ix_local_pxe_assets = local_pxe_assets, ix_dir = dir, ix_empty_pxe_content = empty_pxe_content\<rparr>)"

definition build_server_image :: "env \<Rightarrow> ipxe \<Rightarrow> ('z, unit) cprog" where
  "build_server_image e x =
     bindP (run_command e (''podman-remote build '' @ ix_dir x @ ''/server -t '' @ cn_name (ix_container x)
         @ '' --build-arg SERVER_IP='' @ ix_ip x @ '' --build-arg SERVER_PORT='' @ dec_int (cn_port (ix_container x))) True)
       (\<lambda>_. ret ())"

definition download_file :: "(('z container_state_scheme), unit) retrier \<Rightarrow> env \<Rightarrow> string \<Rightarrow> string \<Rightarrow> bool \<Rightarrow> nat \<Rightarrow> ('z, string) cprog" where
  "download_file retry e url local_filename verify_ssl tries =
     thenP
       (retry (\<lambda>x. x = RuntimeError \<or> x = RequestException) tries
         (thenP (act e ''requests.get'' [PStr url, PBool verify_ssl])
           (thenP (do_call e (WriteFile local_filename)) (act e ''shutil.copyfileobj'' [PStr local_filename]))))
       (ret local_filename)"

text \<open>\<open>str.replace\<close>.\<close>

function str_replace :: "string \<Rightarrow> string \<Rightarrow> string \<Rightarrow> string" where
  "str_replace old new s =
     (if old = [] then new @ concat (map (\<lambda>c. c # new) s)
      else if s = [] then []
      else if prefix old s then new @ str_replace old new (drop (length old) s)
      else hd s # str_replace old new (tl s))"
  by pat_completeness auto
termination
  by (relation "measure (\<lambda>(old, new, s). length s)") auto

declare str_replace.simps [simp del]

definition replace_assets_pxe :: "string \<Rightarrow> string \<Rightarrow> string \<Rightarrow> string" where
  "replace_assets_pxe pxe_content old_asset new_asset = str_replace old_asset new_asset pxe_content"

text \<open>\<open>http[http.index("http"):]\<close>.\<close>

fun from_http :: "string \<Rightarrow> string" where
  "from_http [] = []"
| "from_http (c # cs) = (if prefix ''http'' (c # cs) then c # cs else from_http cs)"

definition ipxe_download_image ::
  "('z container_state_scheme, unit) retrier \<Rightarrow> env \<Rightarrow> ipxe \<Rightarrow> string \<Rightarrow> string \<Rightarrow> string \<Rightarrow> ('z, string) cprog" where
  "ipxe_download_image retry e x http img pxe_content =
     (if occurs_in img http then
        thenP (download_file retry e http (ipxe_scripts_folder x @ ''/'' @ img) False 5)
          (ret (replace_assets_pxe pxe_content http
             (''http://'' @ ix_ip x @ '':'' @ dec_int (cn_port (ix_container x)) @ ''/'' @ img)))
      else ret pxe_content)"

text \<open>A loop that carries a value.\<close>

fun for_each_with :: "('a \<Rightarrow> 'b \<Rightarrow> ('s, 'b) prog) \<Rightarrow> 'a list \<Rightarrow> 'b \<Rightarrow> ('s, 'b) prog" where
  "for_each_with f [] v = ret v"
| "for_each_with f (x # xs) v = bindP (f x v) (for_each_with f xs)"

definition download_ipxe_assets ::
  "('z container_state_scheme, unit) retrier \<Rightarrow> env \<Rightarrow> ipxe \<Rightarrow> string \<Rightarrow> ('z, string) cprog" where
  "download_ipxe_assets retry e x pxe_content =
     for_each_with (\<lambda>http. for_each_with (ipxe_download_image retry e x (from_http http)) [''pxe-initrd'', ''kernel'', ''rootfs''])
       (filter (occurs_in ''http:'') (words pxe_content)) pxe_content"

definition download_ipxe_script ::
  "('z container_state_scheme, unit) retrier \<Rightarrow> env \<Rightarrow> ipxe \<Rightarrow> string \<Rightarrow> string \<Rightarrow> ('z, unit) cprog" where
  "download_ipxe_script retry e x ie name =
     (let file = ipxe_scripts_folder x @ ''/'' @ name in
      thenP (recreate_folder e (ipxe_scripts_folder x) True False)
      (bindP (if ix_empty_pxe_content x then ret []
              else bindP (ask_call e (V2DownloadFile ie ''ipxe-script'')) (\<lambda>v.
                if ix_local_pxe_assets x then download_ipxe_assets retry e x (text_of v) else ret (text_of v))) (\<lambda>pxe_content.
      thenP (do_call e (WriteFile file)) (act e ''file.write'' [PStr file, PStr pxe_content]))))"

definition ipxe_on_container_start ::
  "('z container_state_scheme, unit) retrier \<Rightarrow> env \<Rightarrow> ipxe \<Rightarrow> string \<Rightarrow> string \<Rightarrow> ('z, unit) cprog" where
  "ipxe_on_container_start retry e x ie name =
     thenP (download_ipxe_script retry e x ie name) (build_server_image e x)"

definition remove_ipxe_scripts_folder :: "env \<Rightarrow> ipxe \<Rightarrow> ('z, unit) cprog" where
  "remove_ipxe_scripts_folder e x =
     bindP (ask_bool e ''os.path.exists'' [PStr (ipxe_scripts_folder x)]) (\<lambda>exists.
       whenP exists (act e ''shutil.rmtree'' [PStr (ipxe_scripts_folder x)]))"

definition ipxe_run ::
  "('z container_state_scheme, unit) retrier \<Rightarrow> env \<Rightarrow> ipxe \<Rightarrow> string \<Rightarrow> string \<Rightarrow> ('z, unit) cprog" where
  "ipxe_run retry e x ie name =
     container_run e (ix_container x) (ipxe_on_container_start retry e x ie name)"

definition ipxe_remove :: "env \<Rightarrow> ipxe \<Rightarrow> ('z, unit) cprog" where
  "ipxe_remove e x = container_remove e (ix_container x) (remove_ipxe_scripts_folder e x)"

section \<open>iSCSI targets\<close>

record iqn =
  iq_year_month :: string
  iq_base_domain :: string
  iq_unique_name :: string

definition iqn_init :: "string \<Rightarrow> string \<Rightarrow> string \<Rightarrow> iqn" where
  "iqn_init unique_name year_month base_domain =
     \<lparr>iq_year_month = year_month, iq_base_domain = join ''.'' (rev (split_on CHR 0x2E base_domain)), iq_unique_name = unique_name\<rparr>"

definition iqn_str :: "iqn \<Rightarrow> string" where
  "iqn_str q = ''iqn.'' @ iq_year_month q @ ''.'' @ iq_base_domain q @ '':'' @ iq_unique_name q"

record iscsi_target_config =
  it_disk_name :: string
  it_disk_size :: int
  it_iqn :: iqn
  it_remote_iqn :: iqn
  it_data_file :: string
  it_servers :: "string list"

text \<open>
  The controller is a singleton: its list of configurations is one part of the state. The keyword arguments given to
  the receiver at its creation are stored and never passed on; \<open>raise_errors\<close> is passed where it is given.
\<close>

record iscsi_state = "call world" +
  is_target_configs :: "iscsi_target_config list"

type_synonym ('z, 'a) iprog = "('z iscsi_state_scheme, 'a) prog"

definition receiver_execute :: "env \<Rightarrow> string \<Rightarrow> bool \<Rightarrow> ('z, unit) iprog" where
  "receiver_execute e cmd raise_errors = bindP (run_command e cmd raise_errors) (\<lambda>_. ret ())"

definition remove_file_disk_cmd :: "string \<Rightarrow> string" where
  "remove_file_disk_cmd disk_name = ''rm -rf  /tmp/'' @ disk_name"

definition remove_file_disk :: "env \<Rightarrow> string \<Rightarrow> ('z, unit) iprog" where
  "remove_file_disk e disk_name = receiver_execute e (remove_file_disk_cmd disk_name) True"

definition create_file_disk :: "env \<Rightarrow> string \<Rightarrow> int \<Rightarrow> ('z, unit) iprog" where
  "create_file_disk e disk_name disk_size_gb =
     receiver_execute e (''qemu-img create  -f raw /tmp/'' @ disk_name @ '' '' @ dec_int disk_size_gb @ ''G'') True"

definition clear_config_cmd :: string where
  "clear_config_cmd = ''targetcli clearconfig confirm=True''"

definition clear_iscsi_target_config :: "env \<Rightarrow> ('z, unit) iprog" where
  "clear_iscsi_target_config e = receiver_execute e clear_config_cmd True"

definition create_file_io :: "env \<Rightarrow> string \<Rightarrow> int \<Rightarrow> ('z, unit) iprog" where
  "create_file_io e disk_name disk_size =
     receiver_execute e (''targetcli backstores/fileio create name='' @ disk_name @ '' size='' @ dec_int disk_size
       @ ''G file_or_dev=/tmp/'' @ disk_name) True"

definition create_iqn :: "env \<Rightarrow> iqn \<Rightarrow> ('z, unit) iprog" where
  "create_iqn e q = receiver_execute e (''targetcli /iscsi create '' @ iqn_str q) True"

definition create_lun :: "env \<Rightarrow> iqn \<Rightarrow> string \<Rightarrow> ('z, unit) iprog" where
  "create_lun e q disk_name =
     receiver_execute e (''targetcli /iscsi/'' @ iqn_str q @ ''/tpg1/luns create /backstores/fileio/'' @ disk_name) True"

definition create_portal :: "env \<Rightarrow> iqn \<Rightarrow> string list \<Rightarrow> ('z, unit) iprog" where
  "create_portal e q server_addresses =
     thenP (receiver_execute e (''targetcli /iscsi/'' @ iqn_str q @ ''/tpg1/portals delete 0.0.0.0 3260'') False)
       (for_each (\<lambda>server. receiver_execute e (''targetcli /iscsi/'' @ iqn_str q @ ''/tpg1/portals create '' @ server @ '' 3260'') True)
         server_addresses)"

definition create_access_list :: "env \<Rightarrow> iqn \<Rightarrow> iqn \<Rightarrow> ('z, unit) iprog" where
  "create_access_list e q remote =
     receiver_execute e (''targetcli /iscsi/'' @ iqn_str q @ ''/tpg1/acls create '' @ iqn_str remote) True"

definition set_access_attributes :: "env \<Rightarrow> iqn \<Rightarrow> iqn \<Rightarrow> string list \<Rightarrow> ('z, unit) iprog" where
  "set_access_attributes e q remote params =
     for_each (\<lambda>param. receiver_execute e (''targetcli /iscsi/'' @ iqn_str q @ ''/tpg1/acls/'' @ iqn_str remote @ ''/ '' @ param) True) params"

definition create_access_list_data_out :: "env \<Rightarrow> iqn \<Rightarrow> iqn \<Rightarrow> ('z, unit) iprog" where
  "create_access_list_data_out e q remote =
     set_access_attributes e q remote [''set attribute dataout_timeout=60'', ''set attribute dataout_timeout_retries=10'']"

definition create_access_list_nopin_timeout :: "env \<Rightarrow> iqn \<Rightarrow> iqn \<Rightarrow> ('z, unit) iprog" where
  "create_access_list_nopin_timeout e q remote =
     set_access_attributes e q remote [''set attribute nopin_timeout=60'', ''set attribute nopin_response_timeout=60'']"

definition save_config :: "env \<Rightarrow> ('z, unit) iprog" where
  "save_config e = receiver_execute e ''targetcli / saveconfig'' True"

definition copy_to_created_disk :: "env \<Rightarrow> string \<Rightarrow> string \<Rightarrow> ('z, unit) iprog" where
  "copy_to_created_disk e disk_name data_disk_file =
     receiver_execute e (''dd conv=notrunc if='' @ data_disk_file @ '' of=/tmp/'' @ disk_name) True"

definition iscsi_init :: "('z, unit) iprog" where
  "iscsi_init = modifies (\<lambda>s. s\<lparr>is_target_configs := []\<rparr>)"

definition create_target :: "env \<Rightarrow> iscsi_target_config \<Rightarrow> bool \<Rightarrow> ('z, unit) iprog" where
  "create_target e k clear_config =
     (let name = it_disk_name k; q = it_iqn k; remote = it_remote_iqn k in
      thenP (whenP clear_config (clear_iscsi_target_config e))
      (thenP (modifies (\<lambda>s. s\<lparr>is_target_configs := is_target_configs s @ [k]\<rparr>))
      (thenP (remove_file_disk e name)
      (thenP (create_file_disk e name (it_disk_size k))
      (thenP (create_file_io e name (it_disk_size k))
      (thenP (create_iqn e q)
      (thenP (create_lun e q name)
      (thenP (create_portal e q (it_servers k))
      (thenP (create_access_list e q remote)
      (thenP (create_access_list_data_out e q remote)
      (thenP (create_access_list_nopin_timeout e q remote)
      (thenP (save_config e)
        (copy_to_created_disk e name (it_data_file k))))))))))))))"

definition clean_target :: "env \<Rightarrow> ('z, unit) iprog" where
  "clean_target e =
     bindP (reads is_target_configs) (\<lambda>configs.
       thenP (for_each (\<lambda>k. remove_file_disk e (it_disk_name k)) configs) (clear_iscsi_target_config e))"

section \<open>Properties\<close>

text \<open>What happens to the targets of a hypervisor: the controller is constructed again, or a target is made, which may fail.\<close>

datatype iscsi_event = Construct | CreateTarget iscsi_target_config bool

fun run_event :: "env \<Rightarrow> iscsi_event \<Rightarrow> ('z, unit) iprog" where
  "run_event e Construct = iscsi_init"
| "run_event e (CreateTarget k clear) = suppressing is_Exception (create_target e k clear)"

fun since_construction :: "iscsi_event list \<Rightarrow> iscsi_target_config list \<Rightarrow> iscsi_target_config list" where
  "since_construction [] ks = ks"
| "since_construction (Construct # evs) ks = since_construction evs []"
| "since_construction (CreateTarget k clear # evs) ks = since_construction evs (ks @ [k])"

definition works :: "env \<Rightarrow> string \<Rightarrow> bool" where
  "works e cmd \<longleftrightarrow> (\<forall>h. \<exists>p. e_run e h cmd = Inr p \<and> p_rc p = 0)"

lemma receiver_execute_works:
  assumes "works e cmd"
  shows "receiver_execute e cmd b s = (Inr (), s\<lparr>hist := hist s @ [ShellCommand cmd]\<rparr>)"
proof -
  obtain p where "e_run e (hist s) cmd = Inr p" "p_rc p = 0" using assms by (auto simp: works_def)
  then show ?thesis by (simp add: receiver_execute_def run_command_def bindP_def ext_app prog_simps)
qed

lemma configs_kept: "keeps (same is_target_configs) (receiver_execute e cmd b)"
  unfolding receiver_execute_def run_command_def
  by (auto intro!: frame.keeps_intros simp: keeps_def [of _ "ext _ _"] ext_app same_def split: if_splits)

lemma create_target_records:
  assumes "create_target e k clear s = (r, t)" and "works e clear_config_cmd"
  shows "is_target_configs t = is_target_configs s @ [k]"
proof -
  let ?u = "\<lambda>s. s\<lparr>is_target_configs := is_target_configs s @ [k]\<rparr>"
  define rest where "rest = (let name = it_disk_name k; q = it_iqn k; remote = it_remote_iqn k in
      thenP (remove_file_disk e name)
      (thenP (create_file_disk e name (it_disk_size k))
      (thenP (create_file_io e name (it_disk_size k))
      (thenP (create_iqn e q)
      (thenP (create_lun e q name)
      (thenP (create_portal e q (it_servers k))
      (thenP (create_access_list e q remote)
      (thenP (create_access_list_data_out e q remote)
      (thenP (create_access_list_nopin_timeout e q remote)
      (thenP (save_config e)
        (copy_to_created_disk e name (it_data_file k))))))))))) :: ('a iscsi_state_scheme, unit) prog)"
  have rest: "keeps (same is_target_configs) rest"
    unfolding rest_def Let_def remove_file_disk_def create_file_disk_def create_file_io_def create_iqn_def create_lun_def
      create_portal_def create_access_list_def create_access_list_data_out_def create_access_list_nopin_timeout_def
      set_access_attributes_def save_config_def copy_to_created_disk_def
    by (intro frame.keeps_intros configs_kept)
  have "create_target e k clear s = thenP (whenP clear (clear_iscsi_target_config e)) (thenP (modifies ?u) rest) s"
    by (simp add: create_target_def rest_def Let_def)
  also have "\<dots> = rest (?u (if clear then s\<lparr>hist := hist s @ [ShellCommand clear_config_cmd]\<rparr> else s))"
    by (simp add: whenP_def clear_iscsi_target_config_def bindP_def receiver_execute_works [OF assms(2)] prog_simps)
  finally have "rest (?u (if clear then s\<lparr>hist := hist s @ [ShellCommand clear_config_cmd]\<rparr> else s)) = (r, t)"
    using assms(1) by simp
  from keepsD [OF rest this] show ?thesis by (simp add: same_def split: if_splits)
qed

lemma events_record:
  assumes "works e clear_config_cmd"
  shows "for_each (run_event e) evs s = (Inr (), t) \<Longrightarrow> is_target_configs t = since_construction evs (is_target_configs s)"
proof (induction evs arbitrary: s)
  case (Cons ev evs)
  obtain u where u: "run_event e ev s = (Inr (), u)" "for_each (run_event e) evs u = (Inr (), t)"
    using Cons.prems by (auto elim: bindP_InrE)
  show ?case
  proof (cases ev)
    case Construct
    with u Cons.IH [OF u(2)] show ?thesis by (auto simp: iscsi_init_def prog_simps)
  next
    case (CreateTarget k clear)
    obtain q v where q: "create_target e k clear s = (q, v)" by force
    with u(1) CreateTarget have "u = v"
      by (cases q) (auto simp: suppressing_def try_except_def prog_simps split: if_splits)
    with create_target_records [OF q assms] Cons.IH [OF u(2)] CreateTarget show ?thesis by simp
  qed
qed (simp add: prog_simps)

lemma remove_disks:
  assumes "\<forall>k \<in> set ks. works e (remove_file_disk_cmd (it_disk_name k))"
  shows "for_each (\<lambda>k. remove_file_disk e (it_disk_name k)) ks s
     = (Inr (), s\<lparr>hist := hist s @ map (\<lambda>k. ShellCommand (remove_file_disk_cmd (it_disk_name k))) ks\<rparr>)"
  using assms by (induction ks arbitrary: s) (simp_all add: prog_simps remove_file_disk_def receiver_execute_works)

text \<open>Cleaning up removes the disk file of every target made since the controller was last constructed, each once and in
  their order, also of those whose creation failed, and then clears the configuration of all targets. The files of targets
  made before the controller was constructed again stay: the constructor empties the list of the one instance there is.
\<close>

lemma clean_target_removes:
  assumes "for_each (run_event e) evs s = (Inr (), t)" and "works e clear_config_cmd"
    and "\<forall>k \<in> set (since_construction evs (is_target_configs s)). works e (remove_file_disk_cmd (it_disk_name k))"
  shows "\<exists>u. clean_target e t = (Inr (), u) \<and> hist u = hist t
     @ map (\<lambda>k. ShellCommand (remove_file_disk_cmd (it_disk_name k))) (since_construction evs (is_target_configs s))
     @ [ShellCommand clear_config_cmd]"
  using events_record [OF assms(2,1)] assms(3)
  by (simp add: clean_target_def bindP_app clear_iscsi_target_config_def bindP_def [of "for_each _ _"] remove_disks
      receiver_execute_works [OF assms(2)])

definition shell_env :: env where
  "shell_env = \<lparr>e_list_clusters = \<lambda>_ _. Inl (External 0), e_get_cluster = \<lambda>_ _. Inl (External 0),
     e_list_hosts = \<lambda>_ _. Inl (External 0), e_list_infra_envs = \<lambda>_. Inl (External 0),
     e_register = \<lambda>_ _. Inl (External 0), e_get_bundle = \<lambda>_ _. Inl (External 0), e_readyz = \<lambda>_ _. Inl (External 0),
     e_do = \<lambda>_ _. Inr (), e_ask = \<lambda>_ _. Inl RequestException,
     e_run = \<lambda>_ cmd. Inr \<lparr>p_out = [], p_err = [], p_rc = if prefix ''qemu'' cmd then 1 else 0\<rparr>\<rparr>"

definition sample_target :: "string \<Rightarrow> iscsi_target_config" where
  "sample_target name = \<lparr>it_disk_name = name, it_disk_size = 20, it_iqn = iqn_init name ''2024-11'' ''example.com'',
     it_remote_iqn = iqn_init ''r'' ''2024-11'' ''example.com'', it_data_file = ''d'', it_servers = []\<rparr>"

lemma shell_works: "works shell_env clear_config_cmd" "works shell_env (remove_file_disk_cmd name)"
  by (simp_all add: works_def shell_env_def clear_config_cmd_def remove_file_disk_cmd_def)

lemma shell_fails: "create_file_disk shell_env name n s = (Inl RuntimeError, s\<lparr>hist := hist s
    @ [ShellCommand (''qemu-img create  -f raw /tmp/'' @ name @ '' '' @ dec_int n @ ''G'')]\<rparr>)"
  by (simp add: create_file_disk_def receiver_execute_def run_command_def bindP_def ext_app shell_env_def raise_def)

lemma shell_events_run:
  "\<exists>t. for_each (run_event shell_env) [CreateTarget (sample_target ''a'') False, Construct, CreateTarget (sample_target ''b'') False]
     \<lparr>hist = [], is_target_configs = []\<rparr> = (Inr (), t)"
  by (simp add: create_target_def Let_def bindP_def prog_simps suppressing_def try_except_def remove_file_disk_def
      receiver_execute_works [OF shell_works(2)] shell_fails iscsi_init_def)

lemma clean_target_removes_witness:
  "\<exists>t u. for_each (run_event shell_env) [CreateTarget (sample_target ''a'') False, Construct, CreateTarget (sample_target ''b'') False]
       \<lparr>hist = [], is_target_configs = []\<rparr> = (Inr (), t)
     \<and> clean_target shell_env t = (Inr (), u)
     \<and> hist u = hist t @ [ShellCommand (remove_file_disk_cmd ''b''), ShellCommand clear_config_cmd]"
proof -
  obtain t where t: "for_each (run_event shell_env)
      [CreateTarget (sample_target ''a'') False, Construct, CreateTarget (sample_target ''b'') False]
      \<lparr>hist = [], is_target_configs = []\<rparr> = (Inr (), t)"
    using shell_events_run by blast
  from clean_target_removes [OF t shell_works(1)] shell_works(2) t show ?thesis by (auto simp: sample_target_def)
qed

lemma id_kept: "keeps (same ct_container_id) (ext f c)" "keeps (same ct_container_id) (run_command e cmd b)"
  unfolding run_command_def
  by (auto intro!: frame.keeps_intros simp: keeps_def [of _ "ext _ _"] ext_app same_def split: if_splits)

lemma id_kept_run:
  assumes "keeps (same ct_container_id) started"
  shows "keeps (same ct_container_id) (container_run e c started)"
proof -
  have "keeps (same ct_container_id) (modifies (\<lambda>s. s\<lparr>ct_is_running := True\<rparr>))" by (simp add: keeps_def prog_simps same_def)
  then show ?thesis
    unfolding container_run_def run_container_def
    by (auto intro!: frame.keeps_intros id_kept assms split: if_splits)
qed

lemma id_kept_remove:
  assumes "keeps (same ct_container_id) removed"
  shows "keeps (same ct_container_id) (container_remove e c removed)"
proof -
  have "keeps (same ct_container_id) (modifies (\<lambda>s. s\<lparr>ct_is_running := False\<rparr>))" by (simp add: keeps_def prog_simps same_def)
  then show ?thesis
    unfolding container_remove_def remove_running_container_def
    by (intro frame.keeps_intros id_kept assms)
qed

lemma container_run_running:
  assumes "keeps (same ct_is_running) started"
  shows "container_run e c started s = (r, t) \<Longrightarrow> ct_is_running t"
proof -
  have kept: "keeps (same ct_is_running) (thenP started (run_container e (cn_name c) (cn_image c) flags []))" for flags
    unfolding run_container_def run_command_def
    by (auto intro!: frame.keeps_intros assms simp: keeps_def [of _ "ext _ _"] ext_app same_def split: if_splits)
  then show "container_run e c started s = (r, t) \<Longrightarrow> ct_is_running t"
    by (auto simp: container_run_def bindP_app prog_simps same_def dest!: keepsD [OF kept] split: if_splits)
qed

lemma container_id_cached: "container_id json_loads e c s = (Inr i, t) \<Longrightarrow> ct_container_id t = Some i"
  by (auto simp: container_id_def bindP_app prog_simps bindP_eq_Inr_iff split: option.splits if_splits prod.splits)

text \<open>Once the identifier of a container was read, it stays: after the service was removed and run again, it is still given
  as that of the new container, whatever podman lists, so that files go to a container that is gone.
\<close>

lemma container_id_outlives_container:
  assumes "container_id json_loads e c s = (Inr i, s1)"
    and "container_remove e c removed s1 = (Inr (), s2)" and "container_run e c started s2 = (Inr (), s3)"
    and "keeps (same ct_container_id) removed" and "keeps (same ct_container_id) started" and "keeps (same ct_is_running) started"
  shows "container_id json_loads e c s3 = (Inr i, s3)"
proof -
  have "ct_container_id s2 = Some i"
    using container_id_cached [OF assms(1)] keepsD [OF id_kept_remove [OF assms(4)] assms(2)] by (simp add: same_def)
  then have "ct_container_id s3 = Some i"
    using keepsD [OF id_kept_run [OF assms(5)] assms(3)] by (simp add: same_def)
  with container_run_running [OF assms(6,3)] show ?thesis
    by (simp add: container_id_def bindP_app prog_simps)
qed

text \<open>A podman whose containers get a new identifier with every command.\<close>

definition podman_env :: env where
  "podman_env = shell_env\<lparr>e_run := \<lambda>h _. Inr \<lparr>p_out = dec (length h), p_err = [], p_rc = 0\<rparr>\<rparr>"

definition listed :: "string \<Rightarrow> exn + pyval" where
  "listed out = Inr (PList [PDict [(''Id'', PStr out)]])"

definition some_container :: container where
  "some_container = \<lparr>cn_name = ''t'', cn_port = 7500, cn_image = ''i'', cn_extra_flags = []\<rparr>"

lemma podman_run: "run_command podman_env cmd True s
    = (Inr (strip (dec (length (hist s))), [], 0), s\<lparr>hist := hist s @ [ShellCommand cmd]\<rparr>)"
  by (simp add: run_command_def bindP_def ext_app podman_env_def prog_simps strip_def)

lemma char_of_48: "char_of (48 :: nat) = CHR ''0''"
  by (simp add: char_of_eq_iff)

lemma podman_runs:
  "\<exists>s1 s2 s3. container_id listed podman_env some_container \<lparr>hist = [], ct_is_running = True, ct_container_id = None\<rparr> = (Inr ''0'', s1)
     \<and> container_remove podman_env some_container (ret ()) s1 = (Inr (), s2)
     \<and> container_run podman_env some_container (ret ()) s2 = (Inr (), s3)"
  by (simp add: container_id_def container_remove_def container_run_def run_container_def remove_running_container_def
      bindP_def podman_run prog_simps listed_def first_id_def py_field_def text_of_def strip_def is_space_def dec.simps digit_char_def char_of_48)

lemma container_id_outlives_container_witness:
  "\<exists>s1 s2 s3. container_id listed podman_env some_container \<lparr>hist = [], ct_is_running = True, ct_container_id = None\<rparr> = (Inr ''0'', s1)
     \<and> container_remove podman_env some_container (ret ()) s1 = (Inr (), s2)
     \<and> container_run podman_env some_container (ret ()) s2 = (Inr (), s3)
     \<and> container_id listed podman_env some_container s3 = (Inr ''0'', s3)"
  using podman_runs container_id_outlives_container [OF _ _ _ frame.keeps_ret frame.keeps_ret frame.keeps_ret] by metis

end
