(* ===== verification/HubCluster.thy ===== *)
theory HubCluster
  imports Prepare
begin

text \<open>
  \<open>controllers/assisted_installer_infra_controller.py\<close>: changes of the configuration of the hub cluster, the one that runs the
  assisted-installer service. The Kubernetes client is a parameter: what a query for the resources of a kind lists is a
  function of the history (\<open>hb_list\<close>). A resource is an untyped value; the client's class of resources reads a missing field as
  \<open>None\<close>.
\<close>

section \<open>Resources\<close>

datatype resource_kind = CONFIGMAP | DEPLOYMENT | REPLICASET | POD | SERVICE

fun kind_value :: "resource_kind \<Rightarrow> string" where
  "kind_value CONFIGMAP = ''ConfigMap''"
| "kind_value DEPLOYMENT = ''Deployment''"
| "kind_value REPLICASET = ''ReplicaSet''"
| "kind_value POD = ''Pod''"
| "kind_value SERVICE = ''Service''"

fun api_version_of :: "resource_kind \<Rightarrow> string" where
  "api_version_of CONFIGMAP = ''v1''"
| "api_version_of DEPLOYMENT = ''apps/v1''"
| "api_version_of REPLICASET = ''apps/v1''"
| "api_version_of POD = ''v1''"
| "api_version_of SERVICE = ''v1''"

record hub =
  hb_namespace :: string
  hb_configmap :: string
  hb_deployment_service :: string
  hb_list :: "call list \<Rightarrow> resource_kind \<Rightarrow> exn + pyval list"

type_synonym ('z, 'a) hprog = "((call, 'z) world_scheme, 'a) prog"

definition init_mapping :: "env \<Rightarrow> ('z, unit) hprog" where
  "init_mapping e = for_each (\<lambda>kind. act e ''resources.get'' [PStr (api_version_of kind), PStr (kind_value kind)])
     [CONFIGMAP, DEPLOYMENT, REPLICASET, POD, SERVICE]"

definition list_call :: "hub \<Rightarrow> resource_kind \<Rightarrow> call" where
  "list_call k kind = Controller ''resource.get'' [PStr (kind_value kind), PStr (hb_namespace k)]"

text \<open>\<open>v.k\<close> and \<open>v["k"]\<close> of a resource.\<close>

definition field_of :: "pyval \<Rightarrow> string \<Rightarrow> exn + pyval" where
  "field_of v k = (case v of PDict d \<Rightarrow> Inr (cfg d k) | _ \<Rightarrow> Inl AttributeError)"

definition item_of :: "pyval \<Rightarrow> string \<Rightarrow> exn + pyval" where
  "item_of v k = (case v of PDict d \<Rightarrow> Inr (cfg d k) | _ \<Rightarrow> Inl TypeError)"

definition has_name :: "bool \<Rightarrow> string \<Rightarrow> pyval \<Rightarrow> exn + bool" where
  "has_name exact_match name v =
     sum_bind (sum_bind (field_of v ''metadata'') (\<lambda>m. field_of m ''name'')) (\<lambda>n.
       if exact_match then Inr (PStr name = n)
       else (case n of PStr s \<Rightarrow> Inr (startswith s name) | _ \<Rightarrow> Inl AttributeError))"

fun with_name :: "bool \<Rightarrow> string \<Rightarrow> pyval list \<Rightarrow> exn + pyval list" where
  "with_name exact_match name [] = Inr []"
| "with_name exact_match name (v # vs) =
     sum_bind (has_name exact_match name v) (\<lambda>b. sum_bind (with_name exact_match name vs) (\<lambda>found.
       Inr (if b then v # found else found)))"

definition get_obj_resources_by_name :: "hub \<Rightarrow> resource_kind \<Rightarrow> string \<Rightarrow> bool \<Rightarrow> ('z, pyval list) hprog" where
  "get_obj_resources_by_name k kind name_begins_with exact_match =
     bindP (ext (\<lambda>h. hb_list k h kind) (list_call k kind)) (\<lambda>items. sum_prog (with_name exact_match name_begins_with items))"

definition configmap_data :: "hub \<Rightarrow> ('z, pyval) hprog" where
  "configmap_data k =
     bindP (get_obj_resources_by_name k CONFIGMAP (hb_configmap k) False) (\<lambda>store.
       thenP (assertP (length store = 1)) (ret (hd store)))"

definition verify_resource_replicas :: "hub \<Rightarrow> resource_kind \<Rightarrow> string \<Rightarrow> bool \<Rightarrow> nat \<Rightarrow> ('z, unit) hprog" where
  "verify_resource_replicas k kind name exact_match expected =
     bindP (get_obj_resources_by_name k kind name exact_match) (\<lambda>resource. assertP (length resource = expected))"

section \<open>Changing the configuration\<close>

type_synonym patch_body = "(string, (string, pyval) dict) dict"

definition body_value :: "patch_body \<Rightarrow> pyval" where
  "body_value body = PDict (map (\<lambda>(k, d). (k, PDict d)) body)"

definition patch_call :: "hub \<Rightarrow> resource_kind \<Rightarrow> string \<Rightarrow> patch_body \<Rightarrow> call" where
  "patch_call k kind name body = Controller ''resource.patch'' [PStr (kind_value kind), PStr (hb_namespace k), PStr name, body_value body]"

text \<open>\<open>all(list(map(...)))\<close>: all comparisons are made before the answer.\<close>

definition same_fields :: "(string, pyval) dict \<Rightarrow> pyval \<Rightarrow> exn + bool" where
  "same_fields body obj = sum_bind (sum_map (\<lambda>(key, v). sum_bind (item_of obj key) (\<lambda>x. Inr (v = x))) body) (\<lambda>bs. Inr (list_all id bs))"

definition matches_body :: "string \<Rightarrow> (string, pyval) dict \<Rightarrow> pyval \<Rightarrow> exn + bool" where
  "matches_body body_key body obj = sum_bind (item_of obj body_key) (same_fields body)"

definition verify_resource_data_exists :: "hub \<Rightarrow> resource_kind \<Rightarrow> string \<Rightarrow> patch_body \<Rightarrow> ('z, bool) hprog" where
  "verify_resource_data_exists k kind name body_data =
     (case body_data of
        [(body_key, body)] \<Rightarrow>
          bindP (get_obj_resources_by_name k kind name False) (\<lambda>objs.
            thenP (assertP (length objs = 1)) (sum_prog (matches_body body_key body (hd objs))))
      | _ \<Rightarrow> raise AssertionError)"

definition patch_resource :: "env \<Rightarrow> hub \<Rightarrow> resource_kind \<Rightarrow> string \<Rightarrow> patch_body \<Rightarrow> ('z, unit) hprog" where
  "patch_resource e k kind name body =
     thenP (do_call e (patch_call k kind name body))
       (bindP (verify_resource_data_exists k kind name body) assertP)"

definition verify_deployments_are_ready :: "hub \<Rightarrow> ('z, bool) hprog" where
  "verify_deployments_are_ready k =
     bindP (ext (\<lambda>h. hb_list k h DEPLOYMENT) (Controller ''resource.get'' [PStr (kind_value DEPLOYMENT)])) (\<lambda>deployments.
       sum_prog (sum_bind (sum_map (\<lambda>d. sum_bind (item_of d ''status'') (\<lambda>st. sum_bind (field_of st ''availableReplicas'') (\<lambda>a.
         if a = PInt 1 then sum_bind (field_of st ''readyReplicas'') (\<lambda>r. Inr (r = PInt 1)) else Inr False))) deployments)
         (\<lambda>bs. Inr (list_all id bs))))"

type_synonym 'z hwaiter = "((call, 'z) world_scheme, unit) waiter"

definition first_replicas_are :: "int \<Rightarrow> pyval list \<Rightarrow> exn + bool" where
  "first_replicas_are n objs =
     (case objs of
        [] \<Rightarrow> Inl IndexError
      | v # vs \<Rightarrow> sum_bind (sum_bind (field_of v ''spec'') (\<lambda>sp. field_of sp ''replicas'')) (\<lambda>r. Inr (r = PInt n)))"

definition check_resources ::
  "hub \<Rightarrow> resource_kind \<Rightarrow> string \<Rightarrow> (pyval list \<Rightarrow> exn + bool) \<Rightarrow> ('z, unit option) hprog" where
  "check_resources k kind name P =
     bindP (get_obj_resources_by_name k kind name False) (\<lambda>objs. bindP (sum_prog (P objs)) (\<lambda>b. ret (truthy b)))"

definition wait_for_scale_config_change :: "'z hwaiter \<Rightarrow> hub \<Rightarrow> resource_kind \<Rightarrow> string \<Rightarrow> int \<Rightarrow> ('z, unit) hprog" where
  "wait_for_scale_config_change wait k kind name replicas_count =
     wait (check_resources k kind name (first_replicas_are replicas_count)) 10 2 no_exceptions"

definition running_pod :: "pyval \<Rightarrow> exn + bool" where
  "running_pod pod =
     sum_bind (field_of pod ''status'') (\<lambda>st.
       case st of PDict d \<Rightarrow> Inr (cfg d ''phase'' = PStr ''Running'') | _ \<Rightarrow> Inr False)"

definition pods_are_running :: "pyval list \<Rightarrow> exn + bool" where
  "pods_are_running pods = sum_bind (sum_map running_pod pods) (\<lambda>bs. Inr (list_all id bs))"

definition wait_for_pod_change :: "'z hwaiter \<Rightarrow> env \<Rightarrow> hub \<Rightarrow> string \<Rightarrow> int \<Rightarrow> ('z, unit) hprog" where
  "wait_for_pod_change wait e k name replicas_count =
     thenP (wait (check_resources k POD name (\<lambda>pods. Inr (int (length pods) = replicas_count))) 180 10 no_exceptions)
     (thenP (whenP (replicas_count \<noteq> 0) (wait (check_resources k POD name pods_are_running) 180 10 no_exceptions))
       (do_call e (Sleep 20)))"

definition scale_body :: "int \<Rightarrow> patch_body" where
  "scale_body replicas_count = [(''spec'', [(''replicas'', PInt replicas_count)])]"

definition change_deployment_scale :: "'z hwaiter \<Rightarrow> env \<Rightarrow> hub \<Rightarrow> string \<Rightarrow> int \<Rightarrow> ('z, unit) hprog" where
  "change_deployment_scale wait e k name replicas_count =
     thenP (verify_resource_replicas k DEPLOYMENT name False 1)
     (thenP (verify_resource_replicas k REPLICASET name False 1)
     (thenP (patch_resource e k DEPLOYMENT name (scale_body replicas_count))
     (thenP (wait_for_scale_config_change wait k DEPLOYMENT name replicas_count)
     (thenP (wait_for_scale_config_change wait k REPLICASET name replicas_count)
       (wait_for_pod_change wait e k name replicas_count)))))"

definition restart_deployment :: "'z hwaiter \<Rightarrow> env \<Rightarrow> hub \<Rightarrow> string \<Rightarrow> ('z, unit) hprog" where
  "restart_deployment wait e k name =
     thenP (change_deployment_scale wait e k name 0) (change_deployment_scale wait e k name 1)"

definition change_configmap_data :: "'z hwaiter \<Rightarrow> env \<Rightarrow> hub \<Rightarrow> patch_body \<Rightarrow> bool \<Rightarrow> string \<Rightarrow> ('z, unit) hprog" where
  "change_configmap_data wait e k dict_data restart name =
     thenP (patch_resource e k CONFIGMAP (hb_configmap k) dict_data) (whenP restart (restart_deployment wait e k name))"

text \<open>Two dictionaries are equal when they have the same items, in whatever order.\<close>

definition rollout_assisted_service ::
  "'z hwaiter \<Rightarrow> env \<Rightarrow> hub \<Rightarrow> (string, pyval) dict \<Rightarrow> (string, pyval) dict \<Rightarrow> ('z, unit) hprog" where
  "rollout_assisted_service wait e k configmap_before configmap_after =
     whenP (map_of configmap_before \<noteq> map_of configmap_after)
       (thenP (patch_resource e k CONFIGMAP (hb_configmap k) [(''data'', configmap_before)])
         (restart_deployment wait e k (hb_deployment_service k)))"

section \<open>What was seen on the way\<close>

text \<open>Calls and observations that happen one after the other, between two histories.\<close>

fun in_turn :: "call list \<Rightarrow> (call list \<Rightarrow> bool) list \<Rightarrow> call list \<Rightarrow> bool" where
  "in_turn h [] h' = prefix h h'"
| "in_turn h (P # Ps) h' = (\<exists>g. prefix h g \<and> P g \<and> in_turn g Ps h')"

lemma in_turn_prefix: "in_turn h Ps h' \<Longrightarrow> prefix h h'"
  by (induction Ps arbitrary: h) (auto intro: prefix_order.order_trans)

lemma in_turn_mono:
  assumes "in_turn h Ps h'" and "prefix g h" and "prefix h' g'"
  shows "in_turn g Ps g'"
  using assms(1,2)
proof (induction Ps arbitrary: g h)
  case Nil
  then have "prefix g h'" by (auto intro: prefix_order.order_trans)
  with assms(3) show ?case by (auto intro: prefix_order.order_trans)
next
  case (Cons P Ps)
  then obtain f where f: "prefix h f" "P f" "in_turn f Ps h'" by auto
  have "in_turn f Ps g'" by (rule Cons.IH [OF f(3)]) simp
  moreover have "prefix g f" using Cons.prems(2) f(1) by (rule prefix_order.order_trans)
  ultimately show ?case using f(2) by auto
qed

lemma in_turn_append: "in_turn h Ps g \<Longrightarrow> in_turn g Qs h' \<Longrightarrow> in_turn h (Ps @ Qs) h'"
proof (induction Ps arbitrary: h)
  case Nil
  then show ?case by (auto intro: in_turn_mono)
next
  case (Cons P Ps)
  then show ?case by auto
qed

lemma in_turn_skip: "in_turn h (Ps @ Qs) h' \<Longrightarrow> in_turn h Qs h'"
proof (induction Ps arbitrary: h)
  case (Cons P Ps)
  then obtain g where "prefix h g" "in_turn g (Ps @ Qs) h'" by auto
  with Cons.IH show ?case by (auto intro: in_turn_mono)
qed simp

definition made :: "call \<Rightarrow> call list \<Rightarrow> bool" where
  "made c h \<longleftrightarrow> (\<exists>g. h = g @ [c])"

text \<open>A query for the resources of a kind was made whose answer, restricted to a name, satisfies \<open>P\<close>.\<close>

definition seen :: "hub \<Rightarrow> resource_kind \<Rightarrow> string \<Rightarrow> (pyval list \<Rightarrow> bool) \<Rightarrow> call list \<Rightarrow> bool" where
  "seen k kind name P h \<longleftrightarrow> (\<exists>g items objs. h = g @ [list_call k kind] \<and> hb_list k g kind = Inr items
     \<and> with_name False name items = Inr objs \<and> P objs)"

lemma get_obj_resources_Inr:
  assumes "get_obj_resources_by_name k kind name False s = (Inr objs, t)" and "P objs"
  shows "seen k kind name P (hist t) \<and> prefix (hist s) (hist t)"
  using assms
  by (auto simp: get_obj_resources_by_name_def bindP_def ext_app prog_simps seen_def split: sum.splits)

lemma check_resources_seen:
  assumes "check_resources k kind name P s = (Inr (Some ()), t)"
  shows "seen k kind name (\<lambda>objs. P objs = Inr True) (hist t)"
proof -
  obtain objs where "get_obj_resources_by_name k kind name False s = (Inr objs, t)" "P objs = Inr True"
    using assms by (auto simp: check_resources_def bindP_eq_Inr_iff prog_simps)
  from get_obj_resources_Inr [where P = "\<lambda>objs. P objs = Inr True", OF this] show ?thesis by blast
qed

lemma check_resources_extends: "keeps extends (check_resources k kind name P)"
  unfolding check_resources_def get_obj_resources_by_name_def
  by (auto intro!: grows.keeps_intros keeps_extends_ext simp: keeps_def [of _ "sum_prog _"] prog_simps extends_def)

lemma wait_seen:
  assumes "waits_by wait" and "wait (check_resources k kind name P) timeout sleep no_exceptions s = (Inr (), t)"
  shows "in_turn (hist s) [seen k kind name (\<lambda>objs. P objs = Inr True)] (hist t)"
proof -
  obtain u where "extends s u" "check_resources k kind name P u = (Inr (Some ()), t)"
    using grows.wait_Inr_rel [OF assms(1) check_resources_extends assms(2)] by blast
  with check_resources_seen [OF this(2)] keepsD [OF check_resources_extends this(2)] show ?thesis
    by (auto simp: extends_def intro!: exI [of _ "hist t"] intro: prefix_order.order_trans)
qed

lemma do_call_made: "do_call e c s = (Inr (), t) \<Longrightarrow> in_turn (hist s) [made c] (hist t)"
  by (simp add: do_call_def ext_app) (intro exI [of _ "hist s @ [c]"], auto simp: made_def)

lemma patch_seen:
  assumes "patch_resource e k kind name [(key, body)] s = (Inr (), t)"
  shows "in_turn (hist s) [made (patch_call k kind name [(key, body)]),
    seen k kind name (\<lambda>objs. \<exists>obj. objs = [obj] \<and> matches_body key body obj = Inr True)] (hist t)"
proof -
  obtain u objs where u: "do_call e (patch_call k kind name [(key, body)]) s = (Inr (), u)"
    "get_obj_resources_by_name k kind name False u = (Inr objs, t)" "length objs = 1"
    "matches_body key body (hd objs) = Inr True"
    using assms
    by (auto simp: patch_resource_def verify_resource_data_exists_def bindP_eq_Inr_iff prog_simps split: if_splits)
  then have "\<exists>obj. objs = [obj] \<and> matches_body key body obj = Inr True" by (cases objs) auto
  from get_obj_resources_Inr [OF u(2), where P = "\<lambda>objs. \<exists>obj. objs = [obj] \<and> matches_body key body obj = Inr True", OF this]
  have "in_turn (hist u) [seen k kind name (\<lambda>objs. \<exists>obj. objs = [obj] \<and> matches_body key body obj = Inr True)] (hist t)"
    by auto
  from in_turn_append [OF do_call_made [OF u(1)] this] show ?thesis by simp
qed

text \<open>What a change of the scale goes through.\<close>

definition scale_steps :: "hub \<Rightarrow> string \<Rightarrow> int \<Rightarrow> (call list \<Rightarrow> bool) list" where
  "scale_steps k name n = [made (patch_call k DEPLOYMENT name (scale_body n)),
     seen k DEPLOYMENT name (\<lambda>objs. first_replicas_are n objs = Inr True),
     seen k REPLICASET name (\<lambda>objs. first_replicas_are n objs = Inr True),
     seen k POD name (\<lambda>pods. int (length pods) = n)]
   @ (if n = 0 then [] else [seen k POD name (\<lambda>pods. pods_are_running pods = Inr True)])"

lemma verify_extends: "verify_resource_replicas k kind name b n s = (r, t) \<Longrightarrow> prefix (hist s) (hist t)"
  by (auto simp: verify_resource_replicas_def get_obj_resources_by_name_def bindP_def ext_app prog_simps
      split: sum.splits prod.splits)

lemma pod_change_seen:
  assumes "waits_by wait" and "wait_for_pod_change wait e k name n s = (Inr (), t)"
  shows "in_turn (hist s) ([seen k POD name (\<lambda>pods. int (length pods) = n)]
     @ (if n = 0 then [] else [seen k POD name (\<lambda>pods. pods_are_running pods = Inr True)])) (hist t)"
proof -
  obtain u v where u: "wait (check_resources k POD name (\<lambda>pods. Inr (int (length pods) = n))) 180 10 no_exceptions s = (Inr (), u)"
    "whenP (n \<noteq> 0) (wait (check_resources k POD name pods_are_running) 180 10 no_exceptions) u = (Inr (), v)"
    "do_call e (Sleep 20) v = (Inr (), t)"
    using assms(2) by (auto simp: wait_for_pod_change_def elim!: bindP_InrE)
  have 1: "in_turn (hist s) [seen k POD name (\<lambda>pods. int (length pods) = n)] (hist u)"
    using wait_seen [OF assms(1) u(1)] by simp
  have 2: "in_turn (hist u) (if n = 0 then [] else [seen k POD name (\<lambda>pods. pods_are_running pods = Inr True)]) (hist v)"
    using u(2) wait_seen [OF assms(1), of k POD name pods_are_running 180 10 u v] by (auto simp: prog_simps)
  have "prefix (hist v) (hist t)" using in_turn_prefix [OF do_call_made [OF u(3)]] .
  from in_turn_mono [OF in_turn_append [OF 1 2] prefix_order.order_refl this] show ?thesis .
qed

lemma scale_seen:
  assumes "waits_by wait" and "change_deployment_scale wait e k name n s = (Inr (), t)"
  shows "in_turn (hist s) (scale_steps k name n) (hist t)"
proof -
  obtain a b c d f where run: "verify_resource_replicas k DEPLOYMENT name False 1 s = (Inr (), a)"
    "verify_resource_replicas k REPLICASET name False 1 a = (Inr (), b)"
    "patch_resource e k DEPLOYMENT name (scale_body n) b = (Inr (), c)"
    "wait_for_scale_config_change wait k DEPLOYMENT name n c = (Inr (), d)"
    "wait_for_scale_config_change wait k REPLICASET name n d = (Inr (), f)"
    "wait_for_pod_change wait e k name n f = (Inr (), t)"
    using assms(2) by (auto simp: change_deployment_scale_def elim!: bindP_InrE)
  have "prefix (hist s) (hist b)"
    using verify_extends [OF run(1)] verify_extends [OF run(2)] by (rule prefix_order.order_trans)
  then have 1: "in_turn (hist s) [made (patch_call k DEPLOYMENT name (scale_body n))] (hist c)"
    using patch_seen [OF run(3) [unfolded scale_body_def]] by (auto simp: scale_body_def dest: in_turn_prefix intro: prefix_order.order_trans)
  note 2 = wait_seen [OF assms(1) run(4) [unfolded wait_for_scale_config_change_def]]
  note 3 = wait_seen [OF assms(1) run(5) [unfolded wait_for_scale_config_change_def]]
  from in_turn_append [OF in_turn_append [OF in_turn_append [OF 1 2] 3] pod_change_seen [OF assms(1) run(6)]]
  show ?thesis by (simp add: scale_steps_def)
qed

section \<open>Properties\<close>

text \<open>C16: When the roll-out after a test that changed the configuration returns, the configuration from before the test was written to the
  config map and read back with every key equal, then the service's deployment was set to no replicas, and no pod of that name was seen, and
  then to one, and one pod was seen; each in this order. The last thing seen are pods that are all running, which is so also if there is none.
\<close>

theorem rollout_restores:
  assumes "waits_by wait" and "rollout_assisted_service wait e k configmap_before configmap_after s = (Inr (), t)"
    and "map_of configmap_before \<noteq> map_of configmap_after"
  shows "in_turn (hist s)
    ([made (patch_call k CONFIGMAP (hb_configmap k) [(''data'', configmap_before)]),
      seen k CONFIGMAP (hb_configmap k) (\<lambda>objs. \<exists>obj. objs = [obj] \<and> matches_body ''data'' configmap_before obj = Inr True)]
     @ scale_steps k (hb_deployment_service k) 0 @ scale_steps k (hb_deployment_service k) 1) (hist t)"
proof -
  obtain u v where run: "patch_resource e k CONFIGMAP (hb_configmap k) [(''data'', configmap_before)] s = (Inr (), u)"
    "change_deployment_scale wait e k (hb_deployment_service k) 0 u = (Inr (), v)"
    "change_deployment_scale wait e k (hb_deployment_service k) 1 v = (Inr (), t)"
    using assms(2,3) by (auto simp: rollout_assisted_service_def restart_deployment_def prog_simps elim!: bindP_InrE)
  show ?thesis
    by (rule in_turn_append [OF patch_seen [OF run(1)]
          in_turn_append [OF scale_seen [OF assms(1) run(2)] scale_seen [OF assms(1) run(3)]]])
qed

text \<open>A cluster whose deployment follows the last patch, with as many pods.\<close>

definition replicas_after :: "call list \<Rightarrow> int" where
  "replicas_after h = (if Controller ''resource.patch'' [PStr ''Deployment'', PStr ''ns'', PStr ''svc'', body_value (scale_body 1)] \<in> set h
     then 1 else 0)"

definition small_hub :: hub where
  "small_hub = \<lparr>hb_namespace = ''ns'', hb_configmap = ''cm'', hb_deployment_service = ''svc'', hb_list = \<lambda>h kind.
     let obj = (\<lambda>name. PDict [(''metadata'', PDict [(''name'', PStr name)]), (''data'', PDict [(''A'', PStr ''x'')]),
                 (''spec'', PDict [(''replicas'', PInt (replicas_after h))]), (''status'', PDict [(''phase'', PStr ''Running'')])])
     in Inr (case kind of CONFIGMAP \<Rightarrow> [obj ''cm''] | POD \<Rightarrow> if replicas_after h = 1 then [obj ''svc-1''] else [] | _ \<Rightarrow> [obj ''svc''])\<rparr>"

definition accepting_env :: env where
  "accepting_env = \<lparr>e_list_clusters = \<lambda>_ _. Inl (External 0), e_get_cluster = \<lambda>_ _. Inl (External 0),
     e_list_hosts = \<lambda>_ _. Inl (External 0), e_list_infra_envs = \<lambda>_. Inl (External 0),
     e_register = \<lambda>_ _. Inl (External 0), e_get_bundle = \<lambda>_ _. Inl (External 0), e_readyz = \<lambda>_ _. Inl (External 0),
     e_do = \<lambda>_ _. Inr (), e_ask = \<lambda>_ _. Inl RequestException, e_run = \<lambda>_ _. Inl (External 0)\<rparr>"

lemma small_hub_list:
  "get_obj_resources_by_name small_hub kind name False s = (with_name False name (projr (hb_list small_hub (hist s) kind)),
     s\<lparr>hist := hist s @ [list_call small_hub kind]\<rparr>)"
  by (simp add: get_obj_resources_by_name_def bindP_def ext_app small_hub_def Let_def prog_simps)

lemma replicas_after_append:
  "replicas_after (h @ list_call small_hub kind # cs) = replicas_after (h @ cs)"
  "replicas_after (h @ Sleep n # cs) = replicas_after (h @ cs)"
  "replicas_after (h @ patch_call small_hub DEPLOYMENT ''svc'' [(''spec'', [(''replicas'', PInt 1)])] # cs) = 1"
  "replicas_after (h @ patch_call small_hub DEPLOYMENT ''svc'' [(''spec'', [(''replicas'', PInt 0)])] # cs) = replicas_after (h @ cs)"
  "replicas_after (h @ patch_call small_hub CONFIGMAP ''cm'' body # cs) = replicas_after (h @ cs)"
  by (simp_all add: replicas_after_def list_call_def patch_call_def small_hub_def scale_body_def body_value_def)

lemma small_objects:
  "with_name False ''svc'' (projr (hb_list small_hub h DEPLOYMENT)) = Inr [hd (projr (hb_list small_hub h DEPLOYMENT))]"
  "with_name False ''svc'' (projr (hb_list small_hub h REPLICASET)) = Inr [hd (projr (hb_list small_hub h REPLICASET))]"
  "with_name False ''svc'' (projr (hb_list small_hub h POD))
     = Inr (if replicas_after h = 1 then [hd (projr (hb_list small_hub h POD))] else [])"
  "with_name False ''cm'' (projr (hb_list small_hub h CONFIGMAP)) = Inr [hd (projr (hb_list small_hub h CONFIGMAP))]"
  by (simp_all add: small_hub_def Let_def has_name_def field_of_def cfg_def)

lemma small_checks:
  "first_replicas_are n [hd (projr (hb_list small_hub h DEPLOYMENT))] = Inr (n = replicas_after h)"
  "first_replicas_are n [hd (projr (hb_list small_hub h REPLICASET))] = Inr (n = replicas_after h)"
  "replicas_after h = 1 \<Longrightarrow> pods_are_running [hd (projr (hb_list small_hub h POD))] = Inr True"
  "matches_body ''spec'' [(''replicas'', PInt n)] (hd (projr (hb_list small_hub h DEPLOYMENT))) = Inr (n = replicas_after h)"
  "matches_body ''data'' [(''A'', PStr ''x'')] (hd (projr (hb_list small_hub h CONFIGMAP))) = Inr True"
  by (auto simp: small_hub_def Let_def first_replicas_are_def field_of_def item_of_def cfg_def pods_are_running_def running_pod_def
      matches_body_def same_fields_def)

lemma small_scale:
  assumes "n = 0 \<and> replicas_after (hist s) = 0 \<or> n = 1"
  shows "\<exists>t. change_deployment_scale (poll_upto 2) accepting_env small_hub ''svc'' n s = (Inr (), t) \<and> replicas_after (hist t) = n"
  using assms
  by (auto simp: change_deployment_scale_def verify_resource_replicas_def bindP_def small_hub_list prog_simps small_objects
      patch_resource_def do_call_def ext_app accepting_env_def verify_resource_data_exists_def replicas_after_append small_checks
      wait_for_scale_config_change_def wait_for_pod_change_def check_resources_def poll_upto.simps scale_body_def)

lemma small_rollout:
  "\<exists>t. rollout_assisted_service (poll_upto 2) accepting_env small_hub [(''A'', PStr ''x'')] [] \<lparr>hist = []\<rparr> = (Inr (), t)"
proof -
  let ?patch = "patch_resource accepting_env small_hub CONFIGMAP ''cm'' [(''data'', [(''A'', PStr ''x'')])]"
  have "\<exists>u. ?patch \<lparr>hist = []\<rparr> = (Inr (), u) \<and> replicas_after (hist u) = 0"
    using replicas_after_append(1,5) [of "[]"]
    by (simp add: patch_resource_def do_call_def bindP_def ext_app accepting_env_def verify_resource_data_exists_def
        small_hub_list small_objects prog_simps small_checks) (simp add: replicas_after_def)
  then obtain u where u: "?patch \<lparr>hist = []\<rparr> = (Inr (), u)" "replicas_after (hist u) = 0" by blast
  obtain v where v: "change_deployment_scale (poll_upto 2) accepting_env small_hub ''svc'' 0 u = (Inr (), v)"
    using small_scale [of 0 u] u(2) by auto
  obtain t where "change_deployment_scale (poll_upto 2) accepting_env small_hub ''svc'' 1 v = (Inr (), t)"
    using small_scale [of 1 v] by auto
  with u(1) v show ?thesis
    by (simp add: rollout_assisted_service_def restart_deployment_def prog_simps fun_eq_iff bindP_def small_hub_def)
qed

theorem rollout_restores_witness:
  "\<exists>t. rollout_assisted_service (poll_upto 2) accepting_env small_hub [(''A'', PStr ''x'')] [] \<lparr>hist = []\<rparr> = (Inr (), t)
     \<and> in_turn [] (scale_steps small_hub ''svc'' 1) (hist t)"
proof -
  obtain t where t: "rollout_assisted_service (poll_upto 2) accepting_env small_hub [(''A'', PStr ''x'')] [] \<lparr>hist = []\<rparr> = (Inr (), t)"
    using small_rollout by blast
  have "hb_deployment_service small_hub = ''svc''" by (simp add: small_hub_def)
  moreover have "map_of [(''A'', PStr ''x'')] \<noteq> map_of ([] :: (string, pyval) dict)" by (simp add: fun_eq_iff)
  ultimately have "\<exists>Ps. in_turn [] (Ps @ scale_steps small_hub ''svc'' 0 @ scale_steps small_hub ''svc'' 1) (hist t)"
    using rollout_restores [OF waits_by_poll_upto t] by (metis world.select_convs(1))
  then obtain Ps where "in_turn [] ((Ps @ scale_steps small_hub ''svc'' 0) @ scale_steps small_hub ''svc'' 1) (hist t)" by auto
  from in_turn_skip [OF this] have "in_turn [] (scale_steps small_hub ''svc'' 1) (hist t)" .
  with t show ?thesis by blast
qed

end
