(* ===== verification/Kube.thy ===== *)
theory Kube
  imports Prepare
begin

text \<open>
  \<open>helper_classes/kube_helpers\<close>: the custom resources of the Kubernetes interface. A resource is known by its kind
  and its reference; its methods build bodies for the client of the custom objects interface, read the
  objects back and wait for what their status says. The client is a parameter (\<open>env\<close>). The pauses between
  polls, half a second in places, do not matter to the contract of the waiting library and are given as 1.
\<close>

section \<open>References and requests\<close>

datatype crd = AgentCrd | ClusterDeploymentCrd | AgentClusterInstallCrd | InfraEnvCrd | NMStateConfigCrd

fun crd_plural :: "crd \<Rightarrow> string" where
  "crd_plural AgentCrd = ''agents''"
| "crd_plural ClusterDeploymentCrd = ''clusterdeployments''"
| "crd_plural AgentClusterInstallCrd = ''agentclusterinstalls''"
| "crd_plural InfraEnvCrd = ''infraenvs''"
| "crd_plural NMStateConfigCrd = ''nmstateconfigs''"

definition CRD_API_GROUP :: string where "CRD_API_GROUP = ''agent-install.openshift.io''"
definition CRD_API_VERSION :: string where "CRD_API_VERSION = ''v1beta1''"
definition HIVE_API_GROUP :: string where "HIVE_API_GROUP = ''hive.openshift.io''"
definition HIVE_API_VERSION :: string where "HIVE_API_VERSION = ''v1''"
definition CRD_STATE_TIMEOUT :: int where "CRD_STATE_TIMEOUT = 5 * MINUTE"

fun crd_group_version :: "crd \<Rightarrow> string \<times> string" where
  "crd_group_version ClusterDeploymentCrd = (HIVE_API_GROUP, HIVE_API_VERSION)"
| "crd_group_version AgentClusterInstallCrd = (''extensions.hive.openshift.io'', ''v1beta1'')"
| "crd_group_version _ = (CRD_API_GROUP, CRD_API_VERSION)"

definition api_version :: "crd \<Rightarrow> string" where
  "api_version k = (case crd_group_version k of (g, v) \<Rightarrow> g @ ''/'' @ v)"

record object_ref =
  rf_name :: string
  rf_namespace :: string
  rf_kind :: "string option"
  rf_group :: "string option"
  rf_version :: "string option"

definition optional_field :: "string \<Rightarrow> string option \<Rightarrow> (string \<times> pyval) list" where
  "optional_field k v = (case v of None \<Rightarrow> [] | Some s \<Rightarrow> if s = [] then [] else [(k, PStr s)])"

definition ref_as_dict :: "object_ref \<Rightarrow> pyval" where
  "ref_as_dict r = PDict ([(''name'', PStr (rf_name r)), (''namespace'', PStr (rf_namespace r))]
     @ optional_field ''kind'' (rf_kind r) @ optional_field ''version'' (rf_version r) @ optional_field ''group'' (rf_group r))"

definition plain_ref :: "string \<Rightarrow> string \<Rightarrow> object_ref" where
  "plain_ref name namespace =
     \<lparr>rf_name = name, rf_namespace = namespace, rf_kind = None, rf_group = None, rf_version = None\<rparr>"

definition install_ref :: "string \<Rightarrow> string \<Rightarrow> object_ref" where
  "install_ref name namespace =
     (case crd_group_version AgentClusterInstallCrd of (g, v) \<Rightarrow>
       \<lparr>rf_name = name, rf_namespace = namespace, rf_kind = Some ''AgentClusterInstall'', rf_group = Some g,
        rf_version = Some v\<rparr>)"

type_synonym ('z, 'a) kprog = "((call, 'z) world_scheme, 'a) prog"

definition crd_args :: "crd \<Rightarrow> pyval list" where
  "crd_args k = (case crd_group_version k of (g, v) \<Rightarrow> [PStr g, PStr v, PStr (crd_plural k)])"

definition named_args :: "crd \<Rightarrow> object_ref \<Rightarrow> pyval list" where
  "named_args k r = crd_args k @ [PStr (rf_namespace r), PStr (rf_name r)]"

definition crd_get :: "env \<Rightarrow> crd \<Rightarrow> object_ref \<Rightarrow> ('z, pyval) kprog" where
  "crd_get e k r = ask_call e (Controller ''get_namespaced_custom_object'' (named_args k r))"

definition crd_create :: "env \<Rightarrow> crd \<Rightarrow> object_ref \<Rightarrow> pyval \<Rightarrow> ('z, pyval) kprog" where
  "crd_create e k r body = ask_call e (Controller ''create_namespaced_custom_object''
     (crd_args k @ [PStr (rf_namespace r), body]))"

definition crd_patch :: "env \<Rightarrow> crd \<Rightarrow> object_ref \<Rightarrow> pyval \<Rightarrow> ('z, unit) kprog" where
  "crd_patch e k r body = act e ''patch_namespaced_custom_object'' (named_args k r @ [body])"

definition crd_replace :: "env \<Rightarrow> crd \<Rightarrow> object_ref \<Rightarrow> pyval \<Rightarrow> ('z, unit) kprog" where
  "crd_replace e k r body = act e ''replace_namespaced_custom_object'' (named_args k r @ [body])"

definition crd_delete :: "env \<Rightarrow> crd \<Rightarrow> object_ref \<Rightarrow> ('z, unit) kprog" where
  "crd_delete e k r = act e ''delete_namespaced_custom_object'' (named_args k r)"

definition crd_list :: "env \<Rightarrow> crd \<Rightarrow> string \<Rightarrow> ('z, pyval) kprog" where
  "crd_list e k namespace = ask_call e (Controller ''list_namespaced_custom_object''
     (crd_args k @ [PStr namespace]))"

definition crd_patch_spec :: "env \<Rightarrow> crd \<Rightarrow> object_ref \<Rightarrow> (string, pyval) dict \<Rightarrow> ('z, unit) kprog" where
  "crd_patch_spec e k r kwargs = crd_patch e k r (PDict [(''spec'', PDict kwargs)])"

text \<open>\<open>apply\<close>: an existing object is deleted first; errors of the interface are ignored there.\<close>

definition crd_apply :: "env \<Rightarrow> crd \<Rightarrow> object_ref \<Rightarrow> ('z, unit) kprog \<Rightarrow> ('z, unit) kprog" where
  "crd_apply e k r create = thenP (suppressing (\<lambda>x. x = ApiException) (crd_delete e k r)) create"

section \<open>Status and conditions\<close>

definition is_KeyError :: "exn \<Rightarrow> bool" where
  "is_KeyError x \<longleftrightarrow> (\<exists>k. x = KeyError k)"

type_synonym 'z pwaiter = "((call, 'z) world_scheme, pyval) waiter"
type_synonym 'z uwaiter = "((call, 'z) world_scheme, unit) waiter"

definition if_true :: "pyval \<Rightarrow> pyval option" where
  "if_true v = (if truth v then Some v else None)"

definition crd_status :: "'z pwaiter \<Rightarrow> env \<Rightarrow> crd \<Rightarrow> object_ref \<Rightarrow> int \<Rightarrow> ('z, pyval) kprog" where
  "crd_status wait e k r timeout =
     wait (bindP (crd_get e k r) (\<lambda>obj. bindP (sum_prog (py_field obj ''status'')) (\<lambda>v. ret (if_true v))))
       timeout 1 is_KeyError"

type_synonym condition = "pyval \<times> pyval \<times> pyval"

fun find_condition :: "string \<Rightarrow> pyval list \<Rightarrow> exn + condition" where
  "find_condition cond_type [] = Inr (PNone, PNone, PNone)"
| "find_condition cond_type (c # cs) =
     sum_bind (py_get c ''type'' PNone) (\<lambda>t.
       if PStr cond_type = t then
         sum_bind (py_get c ''status'' PNone) (\<lambda>status. sum_bind (py_get c ''reason'' PNone) (\<lambda>reason.
           sum_bind (py_get c ''message'' PNone) (\<lambda>message. Inr (status, reason, message))))
       else find_condition cond_type cs)"

text \<open>Only a list of conditions can be gone through with \<open>get\<close> on its elements.\<close>

definition condition_in :: "string \<Rightarrow> pyval \<Rightarrow> exn + condition" where
  "condition_in cond_type status =
     sum_bind (py_get status ''conditions'' (PList [])) (\<lambda>v.
       case v of PList cs \<Rightarrow> find_condition cond_type cs | _ \<Rightarrow> Inl TypeError)"

definition crd_condition :: "'z pwaiter \<Rightarrow> env \<Rightarrow> crd \<Rightarrow> object_ref \<Rightarrow> string \<Rightarrow> int \<Rightarrow> ('z, condition) kprog" where
  "crd_condition wait e k r cond_type timeout =
     bindP (crd_status wait e k r timeout) (\<lambda>status. sum_prog (condition_in cond_type status))"

text \<open>\<open>ClusterDeployment._has_required_condition\<close>.\<close>

definition has_condition :: "string \<Rightarrow> string option \<Rightarrow> condition \<Rightarrow> bool" where
  "has_condition required_status required_reason c =
     (case c of (status, reason, _) \<Rightarrow>
        status = PStr required_status
        \<and> (required_reason \<in> {None, Some []} \<or> opt_str required_reason = reason))"

definition deployment_wait_for_condition ::
  "'z pwaiter \<Rightarrow> 'z uwaiter \<Rightarrow> env \<Rightarrow> object_ref \<Rightarrow> string \<Rightarrow> string \<Rightarrow> string option \<Rightarrow> int \<Rightarrow> ('z, unit) kprog" where
  "deployment_wait_for_condition pwait wait e r cond_type required_status required_reason timeout =
     wait (bindP (crd_condition pwait e ClusterDeploymentCrd r cond_type 1) (\<lambda>c.
             ret (truthy (has_condition required_status required_reason c))))
       timeout 10 (\<lambda>x. x = TimeoutExpired)"

text \<open>\<open>AgentClusterInstall._has_required_condition\<close>: the exceptional status and reason default to \<open>None\<close>.\<close>

definition install_condition ::
  "string \<Rightarrow> string option \<Rightarrow> string option \<Rightarrow> string option \<Rightarrow> condition \<Rightarrow> exn + bool" where
  "install_condition required_status required_reason exception_status exception_reason c =
     (case c of (status, reason, _) \<Rightarrow>
        if status = PStr required_status then Inr (has_condition required_status required_reason c)
        else if status = opt_str exception_status \<and> reason = opt_str exception_reason then Inl GenericException
        else Inr False)"

definition install_wait_for_condition ::
  "'z pwaiter \<Rightarrow> 'z uwaiter \<Rightarrow> env \<Rightarrow> object_ref \<Rightarrow> string \<Rightarrow> string \<Rightarrow> string option \<Rightarrow> string option
     \<Rightarrow> string option \<Rightarrow> int \<Rightarrow> ('z, unit) kprog" where
  "install_wait_for_condition pwait wait e r cond_type required_status required_reason exception_status exception_reason
       timeout =
     wait (bindP (crd_condition pwait e AgentClusterInstallCrd r cond_type 1) (\<lambda>c.
             bindP (sum_prog (install_condition required_status required_reason exception_status exception_reason c))
               (\<lambda>b. ret (truthy b))))
       timeout 10 (\<lambda>x. x = TimeoutExpired)"

definition wait_to_be_ready :: "'z pwaiter \<Rightarrow> 'z uwaiter \<Rightarrow> env \<Rightarrow> object_ref \<Rightarrow> bool \<Rightarrow> ('z, unit) kprog" where
  "wait_to_be_ready pwait wait e r ready =
     install_wait_for_condition pwait wait e r ''RequirementsMet'' (if ready then ''True'' else ''False'') None None None
       CRD_STATE_TIMEOUT"

definition wait_to_be_installing :: "'z pwaiter \<Rightarrow> 'z uwaiter \<Rightarrow> env \<Rightarrow> object_ref \<Rightarrow> ('z, unit) kprog" where
  "wait_to_be_installing pwait wait e r =
     install_wait_for_condition pwait wait e r ''RequirementsMet'' ''True'' (Some ''ClusterAlreadyInstalling'') None None
       CRD_STATE_TIMEOUT"

definition wait_to_be_installed :: "'z pwaiter \<Rightarrow> 'z uwaiter \<Rightarrow> env \<Rightarrow> object_ref \<Rightarrow> ('z, unit) kprog" where
  "wait_to_be_installed pwait wait e r =
     install_wait_for_condition pwait wait e r ''Completed'' ''True'' (Some ''InstallationCompleted'') (Some ''False'')
       (Some ''InstallationFailed'') (2 * HOUR)"

section \<open>Cluster installations\<close>

definition hyperthreading_fields :: "string \<Rightarrow> (string \<times> pyval) list" where
  "hyperthreading_fields mode =
     (if mode = [] then []
      else
        let masters_mode = (if mode = ''none'' \<or> mode = ''workers'' then ''Disabled'' else ''Enabled'');
            workers_mode = (if mode = ''none'' \<or> mode = ''masters'' then ''Disabled'' else ''Enabled'')
        in [(''controlPlane'', PDict [(''hyperthreading'', PStr masters_mode), (''name'', PStr ''master'')]),
            (''compute'', PList [PDict [(''hyperthreading'', PStr workers_mode), (''name'', PStr ''worker'')]])])"

text \<open>Options are taken out of \<open>kwargs\<close>; what is left is added to the specification as it is.\<close>

definition renamed :: "(string \<times> string) list" where
  "renamed = [(''api_vips'', ''apiVIPs''), (''ingress_vips'', ''ingressVIPs''), (''ssh_pub_key'', ''sshPublicKey''),
     (''hold_installation'', ''holdInstallation''), (''platform_type'', ''platformType'')]"

definition known_options :: "string list" where
  "known_options = map fst renamed @ [''image_set_ref'', ''worker_agents'', ''arbiter_agents'', ''machine_cidr'',
     ''hyperthreading'', ''load_balancer_type'']"

definition option_or :: "(string, pyval) dict \<Rightarrow> string \<Rightarrow> pyval \<Rightarrow> pyval" where
  "option_or kwargs k d = (case dict_get kwargs k of None \<Rightarrow> d | Some v \<Rightarrow> v)"

definition install_spec ::
  "object_ref \<Rightarrow> string \<Rightarrow> int \<Rightarrow> string \<Rightarrow> int \<Rightarrow> (string, pyval) dict \<Rightarrow> (string, pyval) dict" where
  "install_spec cluster_deployment_ref cluster_cidr host_prefix service_network control_plane_agents kwargs =
     (let networking =
          [(''clusterNetwork'', PList [PDict [(''cidr'', PStr cluster_cidr), (''hostPrefix'', PInt host_prefix)]]),
           (''serviceNetwork'', PList [PStr service_network])]
          @ (case dict_get kwargs ''machine_cidr'' of None \<Rightarrow> []
             | Some v \<Rightarrow> [(''machineNetwork'', PList [PDict [(''cidr'', v)]])]);
        spec =
          [(''clusterDeploymentRef'', ref_as_dict cluster_deployment_ref),
           (''imageSetRef'', option_or kwargs ''image_set_ref'' (PDict [(''name'', PStr [])])),
           (''networking'', PDict networking),
           (''provisionRequirements'', PDict
              [(''controlPlaneAgents'', PInt control_plane_agents),
               (''workerAgents'', option_or kwargs ''worker_agents'' (PInt 0)),
               (''arbiterAgents'', option_or kwargs ''arbiter_agents'' (PInt 0))])];
        options =
          List.map_filter (\<lambda>(k, f). map_option (Pair f) (dict_get kwargs k)) renamed
          @ (case dict_get kwargs ''hyperthreading'' of Some (PStr mode) \<Rightarrow> hyperthreading_fields mode | _ \<Rightarrow> [])
          @ (case dict_get kwargs ''load_balancer_type'' of None \<Rightarrow> [] | Some v \<Rightarrow> [(''loadBalancer'', PDict [(''type'', v)])])
      in dict_update (dict_update spec options) (filter (\<lambda>(k, v). k \<notin> set known_options) kwargs))"

definition install_create ::
  "env \<Rightarrow> object_ref \<Rightarrow> object_ref \<Rightarrow> string \<Rightarrow> int \<Rightarrow> string \<Rightarrow> int \<Rightarrow> (string, pyval) dict \<Rightarrow> ('z, unit) kprog" where
  "install_create e r cluster_deployment_ref cluster_cidr host_prefix service_network control_plane_agents kwargs =
     bindP (crd_create e AgentClusterInstallCrd r (PDict
       [(''apiVersion'', PStr (api_version AgentClusterInstallCrd)), (''kind'', PStr ''AgentClusterInstall''),
        (''metadata'', ref_as_dict r),
        (''spec'', PDict (install_spec cluster_deployment_ref cluster_cidr host_prefix service_network
           control_plane_agents kwargs))])) (\<lambda>_. ret ())"

definition set_machine_networks :: "env \<Rightarrow> object_ref \<Rightarrow> string list \<Rightarrow> ('z, unit) kprog" where
  "set_machine_networks e r machine_cidrs =
     crd_patch_spec e AgentClusterInstallCrd r [(''networking'', PDict
       [(''machineNetwork'', PList (map (\<lambda>c. PDict [(''cidr'', PStr c)]) machine_cidrs))])]"

definition set_api_vip :: "env \<Rightarrow> object_ref \<Rightarrow> pyval \<Rightarrow> ('z, unit) kprog" where
  "set_api_vip e r vip = crd_patch_spec e AgentClusterInstallCrd r [(''apiVIPs'', PList [vip])]"

definition set_ingress_vip :: "env \<Rightarrow> object_ref \<Rightarrow> pyval \<Rightarrow> ('z, unit) kprog" where
  "set_ingress_vip e r vip = crd_patch_spec e AgentClusterInstallCrd r [(''ingressVIPs'', PList [vip])]"

definition install_get :: "env \<Rightarrow> object_ref \<Rightarrow> ('z, pyval) kprog" where
  "install_get e r = crd_get e AgentClusterInstallCrd r"

definition install_get_spec :: "env \<Rightarrow> object_ref \<Rightarrow> ('z, pyval) kprog" where
  "install_get_spec e r =
     bindP (install_get e r) (\<lambda>obj. bindP (sum_prog (py_get obj ''spec'' PNone)) (\<lambda>spec. ret (py_or spec (PDict []))))"

definition install_patch :: "env \<Rightarrow> object_ref \<Rightarrow> (string, pyval) dict \<Rightarrow> ('z, unit) kprog" where
  "install_patch e r kwargs = crd_patch_spec e AgentClusterInstallCrd r kwargs"

definition install_delete :: "env \<Rightarrow> object_ref \<Rightarrow> ('z, unit) kprog" where
  "install_delete e r = crd_delete e AgentClusterInstallCrd r"

definition install_status :: "'z pwaiter \<Rightarrow> env \<Rightarrow> object_ref \<Rightarrow> int \<Rightarrow> ('z, pyval) kprog" where
  "install_status wait e r timeout = crd_status wait e AgentClusterInstallCrd r timeout"

definition install_list :: "env \<Rightarrow> string \<Rightarrow> ('z, pyval) kprog" where
  "install_list e namespace = crd_list e AgentClusterInstallCrd namespace"

text \<open>
  \<open>download_kubeconfig\<close>. The reference of the secret becomes the keyword arguments of \<open>Secret\<close>, beside the
  namespace: anything but exactly a name is a \<open>TypeError\<close>. \<open>decode\<close> is \<open>b64decode(...).decode()\<close>, and
  \<open>dirname\<close> the directory of a path.
\<close>

definition read_secret :: "env \<Rightarrow> object_ref \<Rightarrow> ('z, pyval) kprog" where
  "read_secret e r = ask_call e (Controller ''read_namespaced_secret'' [PStr (rf_name r), PStr (rf_namespace r)])"

definition secret_arguments :: "string \<Rightarrow> pyval \<Rightarrow> exn + object_ref" where
  "secret_arguments namespace v =
     (case v of PDict [(k, PStr name)] \<Rightarrow> if k = ''name'' then Inr (plain_ref name namespace) else Inl TypeError
      | _ \<Rightarrow> Inl TypeError)"

definition kubeconfig_secret_ref :: "pyval \<Rightarrow> exn + pyval" where
  "kubeconfig_secret_ref obj =
     sum_bind (py_field obj ''spec'') (\<lambda>spec. sum_bind (py_field spec ''clusterMetadata'') (\<lambda>metadata.
       py_field metadata ''adminKubeconfigSecretRef''))"

definition download_kubeconfig ::
  "(pyval \<Rightarrow> exn + string) \<Rightarrow> (string \<Rightarrow> string) \<Rightarrow> 'z pwaiter \<Rightarrow> env \<Rightarrow> object_ref \<Rightarrow> string \<Rightarrow> ('z, unit) kprog" where
  "download_kubeconfig decode dir_of wait e r kubeconfig_path =
     bindP (wait (bindP (install_get e r) (\<lambda>obj. bindP (sum_prog (kubeconfig_secret_ref obj)) (\<lambda>v. ret (if_true v))))
         (5 * MINUTE) 1 is_KeyError) (\<lambda>secret_ref.
     bindP (sum_prog (secret_arguments (rf_namespace r) secret_ref)) (\<lambda>secret.
     bindP (read_secret e secret) (\<lambda>v.
     bindP (sum_prog (py_field (attribute v ''data'') ''kubeconfig'')) (\<lambda>kubeconfig_data.
     thenP (act e ''makedirs'' [PStr (dir_of kubeconfig_path), PBool True])
     (thenP (do_call e (WriteFile kubeconfig_path))
     (bindP (sum_prog (decode kubeconfig_data)) (\<lambda>text.
       act e ''file.write'' [PStr kubeconfig_path, PStr text])))))))"

section \<open>Cluster deployments\<close>

definition platform_field :: "(string, pyval) dict" where
  "platform_field = [(''platform'', PDict [(''agentBareMetal'', PDict [(''agentSelector'', PDict [])])])]"

definition deployment_create_from_yaml :: "env \<Rightarrow> object_ref \<Rightarrow> pyval \<Rightarrow> ('z, unit) kprog" where
  "deployment_create_from_yaml e r yaml_data = bindP (crd_create e ClusterDeploymentCrd r yaml_data) (\<lambda>_. ret ())"

definition deployment_create ::
  "env \<Rightarrow> object_ref \<Rightarrow> object_ref \<Rightarrow> string \<Rightarrow> object_ref option \<Rightarrow> (string, pyval) dict \<Rightarrow> ('z, unit) kprog" where
  "deployment_create e r secret base_domain agent_cluster_install_ref kwargs =
     (let spec = dict_update [(''clusterName'', PStr (rf_name r)), (''baseDomain'', PStr base_domain),
            (''pullSecretRef'', ref_as_dict secret)] platform_field;
          spec = (case agent_cluster_install_ref of None \<Rightarrow> spec
            | Some i \<Rightarrow> dict_set ''clusterInstallRef'' (ref_as_dict i) spec)
      in bindP (crd_create e ClusterDeploymentCrd r (PDict
           [(''apiVersion'', PStr (api_version ClusterDeploymentCrd)), (''kind'', PStr ''ClusterDeployment''),
            (''metadata'', ref_as_dict r), (''spec'', PDict (dict_update spec kwargs))])) (\<lambda>_. ret ()))"

text \<open>
  A reference passed to \<open>patch\<close> as \<open>agent_cluster_install_ref\<close> is one of the \<open>kwargs\<close>, which are the
  specification: the object stays there beside \<open>clusterInstallRef\<close>. \<open>serialize\<close> is what the client library
  makes of a body that may hold such an object.
\<close>

datatype spec_value = PlainValue pyval | ReferenceObject object_ref

type_synonym serializer = "(string, spec_value) dict \<Rightarrow> exn + pyval"

definition deployment_patch_body ::
  "object_ref option \<Rightarrow> object_ref option \<Rightarrow> (string, pyval) dict \<Rightarrow> (string, spec_value) dict" where
  "deployment_patch_body secret agent_cluster_install_ref kwargs =
     (let plain = map (\<lambda>(k, v). (k, PlainValue v));
          spec = plain kwargs @ (case agent_cluster_install_ref of None \<Rightarrow> []
            | Some i \<Rightarrow> [(''agent_cluster_install_ref'', ReferenceObject i)]);
          spec = dict_update (dict_set ''platform'' (PlainValue (PDict [(''agentBareMetal'', PDict [])])) spec)
            (plain platform_field);
          spec = (case secret of None \<Rightarrow> spec
            | Some s \<Rightarrow> dict_set ''pullSecretRef'' (PlainValue (ref_as_dict s)) spec)
      in case agent_cluster_install_ref of None \<Rightarrow> spec
         | Some i \<Rightarrow> dict_set ''clusterInstallRef'' (PlainValue (ref_as_dict i)) spec)"

definition deployment_patch ::
  "serializer \<Rightarrow> env \<Rightarrow> object_ref \<Rightarrow> object_ref option \<Rightarrow> object_ref option \<Rightarrow> (string, pyval) dict \<Rightarrow> ('z, unit) kprog" where
  "deployment_patch serialize e r secret agent_cluster_install_ref kwargs =
     bindP (sum_prog (serialize (deployment_patch_body secret agent_cluster_install_ref kwargs))) (\<lambda>spec.
       crd_patch e ClusterDeploymentCrd r (PDict [(''spec'', spec)]))"

definition annotate_install_config :: "env \<Rightarrow> object_ref \<Rightarrow> string \<Rightarrow> ('z, unit) kprog" where
  "annotate_install_config e r install_config =
     crd_patch e ClusterDeploymentCrd r (PDict [(''metadata'', PDict [(''annotations'', PDict
       [(CRD_API_GROUP @ ''/install-config-overrides'', PStr install_config)])])])"

definition deployment_get :: "env \<Rightarrow> object_ref \<Rightarrow> ('z, pyval) kprog" where
  "deployment_get e r = crd_get e ClusterDeploymentCrd r"

definition deployment_delete :: "env \<Rightarrow> object_ref \<Rightarrow> ('z, unit) kprog" where
  "deployment_delete e r = crd_delete e ClusterDeploymentCrd r"

definition deployment_status :: "'z pwaiter \<Rightarrow> env \<Rightarrow> object_ref \<Rightarrow> int \<Rightarrow> ('z, pyval) kprog" where
  "deployment_status wait e r timeout = crd_status wait e ClusterDeploymentCrd r timeout"

definition deployment_list :: "env \<Rightarrow> string \<Rightarrow> ('z, pyval) kprog" where
  "deployment_list e namespace = crd_list e ClusterDeploymentCrd namespace"

definition deployment_list_all_namespaces :: "env \<Rightarrow> ('z, pyval) kprog" where
  "deployment_list_all_namespaces e =
     ask_call e (Controller ''list_cluster_custom_object'' (crd_args ClusterDeploymentCrd))"

section \<open>Network configurations, image sets and secrets\<close>

definition nmstate_create_from_yaml :: "env \<Rightarrow> object_ref \<Rightarrow> pyval \<Rightarrow> ('z, unit) kprog" where
  "nmstate_create_from_yaml e r yaml_data = bindP (crd_create e NMStateConfigCrd r yaml_data) (\<lambda>_. ret ())"

definition nmstate_selector :: string where
  "nmstate_selector = CRD_API_GROUP @ ''/selector-nmstate-config-name''"

definition fields_of :: "pyval \<Rightarrow> (string, pyval) dict" where
  "fields_of v = (case v of PDict d \<Rightarrow> d | _ \<Rightarrow> [])"

definition nmstate_create ::
  "env \<Rightarrow> object_ref \<Rightarrow> pyval \<Rightarrow> pyval \<Rightarrow> string option \<Rightarrow> (string, pyval) dict \<Rightarrow> ('z, unit) kprog" where
  "nmstate_create e r config interfaces label kwargs =
     bindP (crd_create e NMStateConfigCrd r (PDict
       [(''apiVersion'', PStr (api_version NMStateConfigCrd)), (''kind'', PStr ''NMStateConfig''),
        (''metadata'', PDict (dict_update [(''labels'', PDict [(nmstate_selector, opt_str label)])]
           (fields_of (ref_as_dict r)))),
        (''spec'', PDict (dict_update [(''config'', config), (''interfaces'', interfaces)] kwargs))])) (\<lambda>_. ret ())"

definition set_if_true :: "string \<Rightarrow> pyval \<Rightarrow> (string, pyval) dict \<Rightarrow> (string, pyval) dict" where
  "set_if_true k v d = (if truth v then dict_set k v d else d)"

definition nmstate_patch ::
  "env \<Rightarrow> object_ref \<Rightarrow> pyval \<Rightarrow> pyval \<Rightarrow> (string, pyval) dict \<Rightarrow> ('z, unit) kprog" where
  "nmstate_patch e r config interfaces kwargs =
     crd_patch_spec e NMStateConfigCrd r (set_if_true ''interfaces'' interfaces (set_if_true ''config'' config kwargs))"

definition nmstate_get :: "env \<Rightarrow> object_ref \<Rightarrow> ('z, pyval) kprog" where
  "nmstate_get e r = crd_get e NMStateConfigCrd r"

definition nmstate_delete :: "env \<Rightarrow> object_ref \<Rightarrow> ('z, unit) kprog" where
  "nmstate_delete e r = crd_delete e NMStateConfigCrd r"

definition nmstate_status :: "'z pwaiter \<Rightarrow> env \<Rightarrow> object_ref \<Rightarrow> int \<Rightarrow> ('z, pyval) kprog" where
  "nmstate_status wait e r timeout = crd_status wait e NMStateConfigCrd r timeout"

text \<open>Image sets belong to no namespace.\<close>

definition image_set_args :: "pyval list" where
  "image_set_args = [PStr ''hive.openshift.io'', PStr ''v1'', PStr ''clusterimagesets'']"

definition image_set_create_from_yaml :: "env \<Rightarrow> pyval \<Rightarrow> ('z, unit) kprog" where
  "image_set_create_from_yaml e yaml_data = act e ''create_cluster_custom_object'' (image_set_args @ [yaml_data])"

definition image_set_create :: "env \<Rightarrow> object_ref \<Rightarrow> string \<Rightarrow> ('z, unit) kprog" where
  "image_set_create e r release_image =
     act e ''create_cluster_custom_object'' (image_set_args @ [PDict
       [(''apiVersion'', PStr ''hive.openshift.io/v1''), (''kind'', PStr ''ClusterImageSet''),
        (''metadata'', ref_as_dict r), (''spec'', PDict [(''releaseImage'', PStr release_image)])]])"

definition image_set_get :: "env \<Rightarrow> object_ref \<Rightarrow> ('z, pyval) kprog" where
  "image_set_get e r = ask_call e (Controller ''get_cluster_custom_object'' (image_set_args @ [PStr (rf_name r)]))"

definition image_set_delete :: "env \<Rightarrow> object_ref \<Rightarrow> ('z, unit) kprog" where
  "image_set_delete e r = act e ''delete_cluster_custom_object'' (image_set_args @ [PStr (rf_name r)])"

definition secret_create :: "env \<Rightarrow> object_ref \<Rightarrow> string \<Rightarrow> ('z, unit) kprog" where
  "secret_create e r pull_secret =
     act e ''create_namespaced_secret'' [PDict
       [(''type'', PStr ''kubernetes.io/dockerconfigjson''), (''apiVersion'', PStr ''v1''), (''kind'', PStr ''Secret''),
        (''metadata'', ref_as_dict r), (''stringData'', PDict [(''.dockerconfigjson'', PStr pull_secret)])],
       PStr (rf_namespace r)]"

definition secret_create_with_data :: "env \<Rightarrow> object_ref \<Rightarrow> pyval \<Rightarrow> ('z, unit) kprog" where
  "secret_create_with_data e r secret_data =
     act e ''create_namespaced_secret'' [PDict
       [(''apiVersion'', PStr ''v1''), (''kind'', PStr ''Secret''), (''metadata'', ref_as_dict r),
        (''stringData'', secret_data)], PStr (rf_namespace r)]"

definition secret_delete :: "env \<Rightarrow> object_ref \<Rightarrow> ('z, unit) kprog" where
  "secret_delete e r = act e ''delete_namespaced_secret'' [PStr (rf_name r), PStr (rf_namespace r)]"

text \<open>
  The \<open>reason\<close> of an \<open>ApiException\<close> is a parameter, a function of the history that ends with the call that
  raised it; \<open>valid_json\<close> tells whether \<open>json.loads\<close> reads a text.
\<close>

type_synonym reasons = "call list \<Rightarrow> string"

definition tolerating :: "reasons \<Rightarrow> string \<Rightarrow> bool \<Rightarrow> ('z, unit) kprog \<Rightarrow> ('z, unit) kprog" where
  "tolerating reason ignored ignore m =
     try_except m (\<lambda>x. bindP (reads (\<lambda>s. reason (hist s))) (\<lambda>why.
       if x = ApiException \<and> why = ignored \<and> ignore then ret () else raise x))"

definition validate_kube_pull_secret :: "(string \<Rightarrow> bool) \<Rightarrow> string \<Rightarrow> exn + unit" where
  "validate_kube_pull_secret valid_json pull_secret =
     (if pull_secret = [] \<or> valid_json pull_secret then Inr ()
      else Inl (ValueError (''invalid pull secret '' @ pull_secret)))"

definition deploy_default_secret ::
  "reasons \<Rightarrow> (string \<Rightarrow> bool) \<Rightarrow> env \<Rightarrow> string \<Rightarrow> string \<Rightarrow> string \<Rightarrow> bool \<Rightarrow> ('z, object_ref) kprog" where
  "deploy_default_secret reason valid_json e name namespace pull_secret ignore_conflict =
     thenP (sum_prog (validate_kube_pull_secret valid_json pull_secret))
     (thenP (tolerating reason ''Conflict'' ignore_conflict (secret_create e (plain_ref name namespace) pull_secret))
       (ret (plain_ref name namespace)))"

section \<open>What a finished wait has read\<close>

lemma polls_always_hit:
  assumes "polls p expected s r t" and "\<And>s. fst (p s) = Inr (Some v)"
  shows "r = Inr v"
  using assms by (cases rule: polls.cases) (auto dest!: arg_cong [where f = fst])

lemma polls_always_raise:
  assumes "polls p expected s r t" and "\<And>s. fst (p s) = Inl x" and "\<not> expected x"
  shows "r = Inl x"
  using assms by (cases rule: polls.cases) (auto dest!: arg_cong [where f = fst])

lemma polls_never_hit:
  assumes "polls p expected s r t" and "\<And>s. fst (p s) = Inr None"
  shows "r = Inl TimeoutExpired"
  using assms(1)
proof (induction rule: polls.induct)
  case (hit s w t)
  then show ?case using assms(2) [of s] by simp
next
  case (error s x t)
  then show ?case using assms(2) [of s] by simp
qed simp_all

lemmas wait_always_hit = polls_always_hit [OF waits_byD [OF _ surjective_pairing]]
lemmas wait_always_raise = polls_always_raise [OF waits_byD [OF _ surjective_pairing]]
lemmas wait_never_hit = polls_never_hit [OF waits_byD [OF _ surjective_pairing]]

abbreviation get_call :: "crd \<Rightarrow> object_ref \<Rightarrow> call" where
  "get_call k r \<equiv> Controller ''get_namespaced_custom_object'' (named_args k r)"

lemma keeps_calls_crd_get [intro]: "keeps only_calls (crd_get e k r)"
  unfolding crd_get_def ask_call_def by (rule keeps_calls_ext)

abbreviation read_status :: "env \<Rightarrow> crd \<Rightarrow> object_ref \<Rightarrow> ('z, pyval option) kprog" where
  "read_status e k r \<equiv>
     bindP (crd_get e k r) (\<lambda>obj. bindP (sum_prog (py_field obj ''status'')) (\<lambda>v. ret (if_true v)))"

lemma keeps_calls_read_status [intro]: "keeps only_calls (read_status e k r)"
  by (intro calls_intros keeps_calls_crd_get)

lemma keeps_calls_crd_status [intro]:
  assumes "waits_by pwait"
  shows "keeps only_calls (crd_status pwait e k r timeout)"
  unfolding crd_status_def
  by (rule calls.keeps_wait [where wait = pwait, OF assms keeps_calls_read_status])

lemma keeps_calls_crd_condition [intro]:
  "waits_by pwait \<Longrightarrow> keeps only_calls (crd_condition pwait e k r cond_type timeout)"
  unfolding crd_condition_def by (intro calls_intros keeps_calls_crd_status)

lemma crd_get_app: "crd_get e k r s = (e_ask e (hist s) (get_call k r), s\<lparr>hist := hist s @ [get_call k r]\<rparr>)"
  by (simp add: crd_get_def ask_call_def ext_app)

text \<open>
  \<open>status_read\<close>: the last call before \<open>t\<close>, made after \<open>s\<close>, read the object, and \<open>st\<close> is the status in it.
\<close>

definition status_read ::
  "env \<Rightarrow> crd \<Rightarrow> object_ref \<Rightarrow> (call, 'z) world_scheme \<Rightarrow> (call, 'z) world_scheme \<Rightarrow> pyval \<Rightarrow> bool" where
  "status_read e k r s t st \<longleftrightarrow>
     (\<exists>h obj. prefix (hist s) h \<and> hist t = h @ [get_call k r] \<and> e_ask e h (get_call k r) = Inr obj
        \<and> py_field obj ''status'' = Inr st)"

lemma crd_status_read:
  assumes "waits_by pwait" and "crd_status pwait e k r timeout s = (Inr st, t)"
  shows "status_read e k r s t st"
proof -
  obtain s' where s': "only_calls s s'" "read_status e k r s' = (Inr (Some st), t)"
    using calls.wait_Inr_rel [where wait = pwait and p = "read_status e k r",
        OF assms(1) keeps_calls_read_status] assms(2)
    unfolding crd_status_def by blast
  then obtain obj where "e_ask e (hist s') (get_call k r) = Inr obj" "py_field obj ''status'' = Inr st"
    "hist t = hist s' @ [get_call k r]"
    by (auto simp: bindP_eq_Inr_iff crd_get_app prog_simps if_true_def split: if_splits)
  with s'(1) show ?thesis
    unfolding status_read_def only_calls_def by blast
qed

lemma status_read_later: "only_calls s s' \<Longrightarrow> status_read e k r s' t st \<Longrightarrow> status_read e k r s t st"
  unfolding status_read_def only_calls_def by (blast intro: prefix_order.trans)

lemma crd_condition_read:
  assumes "waits_by pwait" and "crd_condition pwait e k r cond_type timeout s = (Inr c, t)"
  shows "\<exists>st. status_read e k r s t st \<and> condition_in cond_type st = Inr c"
proof -
  obtain st where "crd_status pwait e k r timeout s = (Inr st, t)" "condition_in cond_type st = Inr c"
    using assms(2) by (auto simp: crd_condition_def bindP_eq_Inr_iff prog_simps)
  with crd_status_read [OF assms(1)] show ?thesis by blast
qed

lemma install_wait_read:
  assumes "waits_by pwait" and "waits_by wait"
    and "install_wait_for_condition pwait wait e r cond_type rs rr es er timeout s = (Inr u, t)"
  shows "\<exists>st c. status_read e AgentClusterInstallCrd r s t st \<and> condition_in cond_type st = Inr c
     \<and> has_condition rs rr c"
proof -
  let ?p = "bindP (crd_condition pwait e AgentClusterInstallCrd r cond_type 1) (\<lambda>c.
     bindP (sum_prog (install_condition rs rr es er c)) (\<lambda>b. ret (truthy b)))"
  have kept: "keeps only_calls ?p"
    by (intro calls_intros keeps_calls_crd_condition assms(1))
  obtain s' where s': "only_calls s s'" "?p s' = (Inr (Some u), t)"
    using calls.wait_Inr_rel [where wait = wait, OF assms(2) kept] assms(3)
    unfolding install_wait_for_condition_def by blast
  then obtain c where c: "crd_condition pwait e AgentClusterInstallCrd r cond_type 1 s' = (Inr c, t)"
    "install_condition rs rr es er c = Inr True"
    by (elim bindP_InrE) (simp add: prog_simps)
  then have "has_condition rs rr c"
    by (auto simp: install_condition_def split: prod.splits if_splits)
  with crd_condition_read [OF assms(1) c(1)] show ?thesis
    by (blast intro: status_read_later [OF s'(1)])
qed

text \<open>When every read gives an object with the same status, the waits for conditions are decided.\<close>

definition always_reads :: "env \<Rightarrow> crd \<Rightarrow> object_ref \<Rightarrow> pyval \<Rightarrow> bool" where
  "always_reads e k r st \<longleftrightarrow>
     (\<forall>h. \<exists>obj. e_ask e h (get_call k r) = Inr obj \<and> py_field obj ''status'' = Inr st) \<and> truth st"

lemma crd_status_decided:
  assumes "waits_by pwait" and "always_reads e k r st"
  shows "fst (crd_status pwait e k r timeout s) = Inr st"
proof -
  have "fst (read_status e k r s) = Inr (Some st)" for s :: "(call, 'a) world_scheme"
  proof -
    obtain obj where "e_ask e (hist s) (get_call k r) = Inr obj" "py_field obj ''status'' = Inr st"
      using assms(2) unfolding always_reads_def by blast
    then show ?thesis
      using assms(2) by (simp add: bindP_def crd_get_app prog_simps if_true_def always_reads_def)
  qed
  then show ?thesis
    unfolding crd_status_def by (rule wait_always_hit [OF assms(1)])
qed

lemma crd_condition_decided:
  assumes "waits_by pwait" and "always_reads e k r st"
  shows "fst (crd_condition pwait e k r cond_type timeout s) = condition_in cond_type st"
  using crd_status_decided [OF assms, of timeout s]
  by (auto simp: crd_condition_def bindP_def prog_simps split: prod.splits sum.splits)

lemma find_condition_missing:
  "find_condition t cs = Inr (s, x, m) \<Longrightarrow> \<forall>c \<in> set cs. py_get c ''type'' PNone \<noteq> Inr (PStr t)
     \<Longrightarrow> (s, x, m) = (PNone, PNone, PNone)"
  by (induction cs) (auto simp: sum_bind_def split: sum.splits if_splits)

section \<open>Properties\<close>

lemma has_condition_iff:
  "has_condition rs (Some (c # cs)) (status, reason, message) \<longleftrightarrow> status = PStr rs \<and> reason = PStr (c # cs)"
  by (auto simp: has_condition_def opt_str_def)

lemma has_condition_cases:
  assumes "has_condition rs (Some (c # cs)) x"
  obtains message where "x = (PStr rs, PStr (c # cs), message)"
  using assms by (cases x) (auto simp: has_condition_def opt_str_def)

text \<open>C32: When the wait for a cluster to be installed returns, the last call it made read the custom resource, and
  the status in it says that the installation is completed: the condition \<open>Completed\<close> is true, and the reason is
  \<open>InstallationCompleted\<close>; no earlier status and no other condition counts.
\<close>

theorem completed_installation_was_read:
  assumes "waits_by pwait" and "waits_by wait"
    and "wait_to_be_installed pwait wait e r s = (Inr u, t)"
  shows "\<exists>st message. status_read e AgentClusterInstallCrd r s t st
     \<and> condition_in ''Completed'' st = Inr (PStr ''True'', PStr ''InstallationCompleted'', message)"
proof -
  obtain st c where c: "status_read e AgentClusterInstallCrd r s t st" "condition_in ''Completed'' st = Inr c"
    "has_condition ''True'' (Some ''InstallationCompleted'') c"
    using install_wait_read [OF assms(1,2) assms(3) [unfolded wait_to_be_installed_def]] by blast
  from c(3) obtain message where "c = (PStr ''True'', PStr ''InstallationCompleted'', message)"
    by (rule has_condition_cases)
  with c(1,2) show ?thesis by blast
qed

definition sample_condition :: "string \<Rightarrow> string \<Rightarrow> string \<Rightarrow> pyval" where
  "sample_condition t status reason = PDict [(''type'', PStr t), (''status'', PStr status), (''reason'', PStr reason)]"

definition reading_env :: "pyval list \<Rightarrow> env" where
  "reading_env conditions = \<lparr>e_list_clusters = \<lambda>_ _. Inl (External 0), e_get_cluster = \<lambda>_ _. Inl (External 0),
     e_list_hosts = \<lambda>_ _. Inl (External 0), e_list_infra_envs = \<lambda>_. Inl (External 0),
     e_register = \<lambda>_ _. Inl (External 0), e_get_bundle = \<lambda>_ _. Inl (External 0), e_readyz = \<lambda>_ _. Inl (External 0),
     e_do = \<lambda>_ _. Inr (),
     e_ask = \<lambda>_ _. Inr (PDict [(''status'', PDict [(''conditions'', PList conditions)])]),
     e_run = \<lambda>_ _. Inl (External 0)\<rparr>"

lemma reading_env_always:
  "always_reads (reading_env cs) k r (PDict [(''conditions'', PList cs)])"
  by (simp add: always_reads_def reading_env_def py_field_def)

lemma condition_in_list: "condition_in t (PDict [(''conditions'', PList cs)]) = find_condition t cs"
  by (simp add: condition_in_def py_get_def)

lemma installed_run:
  "wait_to_be_installed (poll_upto 0) (poll_upto 0)
     (reading_env [sample_condition ''Completed'' ''True'' ''InstallationCompleted'']) (plain_ref ''c'' ''n'') \<lparr>hist = []\<rparr>
   = (Inr (), \<lparr>hist = [get_call AgentClusterInstallCrd (plain_ref ''c'' ''n'')]\<rparr>)"
  by (simp add: wait_to_be_installed_def install_wait_for_condition_def crd_condition_def crd_status_def poll_upto.simps
      bindP_def crd_get_app reading_env_def py_field_def py_get_def prog_simps if_true_def condition_in_def
      sample_condition_def install_condition_def has_condition_def opt_str_def)

theorem completed_installation_was_read_witness:
  "\<exists>st message. status_read (reading_env [sample_condition ''Completed'' ''True'' ''InstallationCompleted''])
       AgentClusterInstallCrd (plain_ref ''c'' ''n'') \<lparr>hist = []\<rparr>
       \<lparr>hist = [get_call AgentClusterInstallCrd (plain_ref ''c'' ''n'')]\<rparr> st
     \<and> condition_in ''Completed'' st = Inr (PStr ''True'', PStr ''InstallationCompleted'', message)"
  by (rule completed_installation_was_read [OF waits_by_poll_upto waits_by_poll_upto installed_run])

text \<open>As long as the status of a cluster installation has no entry for the condition that is waited for, as
  before the service has looked at it, the waits for it to be ready and to be installing do not wait: they raise at the first
  status they read, because the condition that is not there has the status and reason \<open>None\<close>, and so have the
  exceptional ones by default. The same wait on a cluster deployment goes on until it times out.
\<close>

lemma missing_condition_ends_wait:
  assumes "waits_by pwait" and "waits_by wait"
    and "always_reads e AgentClusterInstallCrd r st" and "always_reads e ClusterDeploymentCrd r st"
    and "condition_in ''RequirementsMet'' st = Inr (PNone, PNone, PNone)"
  shows "fst (wait_to_be_ready pwait wait e r ready s) = Inl GenericException
     \<and> fst (wait_to_be_installing pwait wait e r s) = Inl GenericException
     \<and> fst (deployment_wait_for_condition pwait wait e r ''RequirementsMet'' rs rr timeout s) = Inl TimeoutExpired"
proof -
  have none: "fst (crd_condition pwait e k r ''RequirementsMet'' 1 s) = Inr (PNone, PNone, PNone)"
    if "always_reads e k r st" for k and s :: "(call, 'a) world_scheme"
    using crd_condition_decided [OF assms(1) that] assms(5) by simp
  have raised: "fst (install_wait_for_condition pwait wait e r ''RequirementsMet'' rs rr None None timeout s)
      = Inl GenericException" for rs rr timeout
    unfolding install_wait_for_condition_def
  proof (rule wait_always_raise [OF assms(2)])
    show "fst (bindP (crd_condition pwait e AgentClusterInstallCrd r ''RequirementsMet'' 1) (\<lambda>c.
        bindP (sum_prog (install_condition rs rr None None c)) (\<lambda>b. ret (truthy b))) s) = Inl GenericException"
      for s
      using none [OF assms(3), of s]
      by (auto simp: bindP_def prog_simps install_condition_def opt_str_def split: prod.splits)
  qed simp
  have "fst (deployment_wait_for_condition pwait wait e r ''RequirementsMet'' rs rr timeout s) = Inl TimeoutExpired"
    unfolding deployment_wait_for_condition_def
  proof (rule wait_never_hit [OF assms(2)])
    show "fst (bindP (crd_condition pwait e ClusterDeploymentCrd r ''RequirementsMet'' 1) (\<lambda>c.
        ret (truthy (has_condition rs rr c))) s) = Inr None" for s
      using none [OF assms(4), of s]
      by (auto simp: bindP_def prog_simps has_condition_def split: prod.splits)
  qed
  with raised show ?thesis
    by (simp add: wait_to_be_ready_def wait_to_be_installing_def)
qed

lemma missing_condition_ends_wait_witness:
  "fst (wait_to_be_ready (poll_upto 5) (poll_upto 5) (reading_env [sample_condition ''SpecSynced'' ''True'' ''SyncOK''])
       (plain_ref ''c'' ''n'') True \<lparr>hist = []\<rparr>) = Inl GenericException"
  using missing_condition_ends_wait [OF waits_by_poll_upto [of 5] waits_by_poll_upto [of 5]
      reading_env_always [of "[sample_condition ''SpecSynced'' ''True'' ''SyncOK'']"] reading_env_always,
      where r = "plain_ref ''c'' ''n''" and ready = True and s = "\<lparr>hist = []\<rparr> :: call world"]
  by (simp add: condition_in_list sample_condition_def py_get_def)

end
