(* ===== verification/Agents.thy ===== *)
theory Agents
  imports Kube
begin

text \<open>
  \<open>helper_classes/kube_helpers\<close>, continued: the agents of a cluster and of an infrastructure environment, the
  waits for what their conditions say, the infrastructure environment itself, the cleanup of the resources that
  were made within a context, and the override of the installer's configuration. The lists that the interface
  returns are untyped answers; names and namespaces of objects are strings there.
\<close>

section \<open>Agents of a cluster\<close>

definition str_field :: "pyval \<Rightarrow> string \<Rightarrow> exn + string" where
  "str_field v k = sum_bind (py_field v k) (\<lambda>x. case x of PStr s \<Rightarrow> Inr s | _ \<Rightarrow> Inl TypeError)"

lemma str_field_Inr: "str_field v k = Inr s \<longleftrightarrow> py_field v k = Inr (PStr s)"
  by (cases "py_field v k") (auto simp: str_field_def split: pyval.split)

definition named_object :: "pyval \<Rightarrow> exn + object_ref" where
  "named_object v =
     sum_bind (str_field v ''name'') (\<lambda>name. sum_bind (str_field v ''namespace'') (\<lambda>namespace.
       Inr (plain_ref name namespace)))"

definition items_of :: "pyval \<Rightarrow> exn + pyval list" where
  "items_of v = sum_bind (py_get v ''items'' (PList [])) (\<lambda>x. case x of PList items \<Rightarrow> Inr items | _ \<Rightarrow> Inl TypeError)"

definition assigned_cluster :: "pyval \<Rightarrow> exn + object_ref option" where
  "assigned_cluster item =
     sum_bind (py_field item ''spec'') (\<lambda>spec. sum_bind (py_get spec ''clusterDeploymentName'' PNone) (\<lambda>v.
       if v = PNone then Inr None else sum_bind (named_object v) (\<lambda>r. Inr (Some r))))"

fun assigned_agents :: "object_ref \<Rightarrow> pyval list \<Rightarrow> exn + object_ref list" where
  "assigned_agents cluster [] = Inr []"
| "assigned_agents cluster (item # items) =
     sum_bind (assigned_cluster item) (\<lambda>assigned.
       if assigned = Some cluster then
         sum_bind (sum_bind (py_field item ''metadata'') named_object) (\<lambda>agent.
           sum_bind (assigned_agents cluster items) (\<lambda>agents. Inr (agent # agents)))
       else assigned_agents cluster items)"

definition agent_list :: "env \<Rightarrow> object_ref \<Rightarrow> string option \<Rightarrow> ('z, object_ref list) kprog" where
  "agent_list e cluster agents_namespace =
     bindP (crd_list e AgentCrd (case agents_namespace of None \<Rightarrow> rf_namespace cluster
         | Some n \<Rightarrow> if n = [] then rf_namespace cluster else n)) (\<lambda>resources.
       sum_prog (sum_bind (items_of resources) (assigned_agents cluster)))"

definition deployment_list_agents :: "env \<Rightarrow> object_ref \<Rightarrow> string option \<Rightarrow> ('z, object_ref list) kprog" where
  "deployment_list_agents e cluster agents_namespace = agent_list e cluster agents_namespace"

type_synonym 'z awaiter = "((call, 'z) world_scheme, object_ref list) waiter"

text \<open>The empty list is falsy: a wait for no agents never ends well.\<close>

definition agents_if_enough :: "int \<Rightarrow> object_ref list \<Rightarrow> object_ref list option" where
  "agents_if_enough num_agents agents =
     (let found = (if int (length agents) = num_agents then agents else []) in if found = [] then None else Some found)"

definition deployment_wait_for_agents ::
  "'z awaiter \<Rightarrow> env \<Rightarrow> object_ref \<Rightarrow> int \<Rightarrow> int \<Rightarrow> string option \<Rightarrow> ('z, object_ref list) kprog" where
  "deployment_wait_for_agents wait e cluster num_agents timeout agents_namespace =
     wait (bindP (deployment_list_agents e cluster agents_namespace) (\<lambda>agents. ret (agents_if_enough num_agents agents)))
       timeout 1 no_exceptions"

section \<open>Operations of an agent\<close>

definition agent_create :: "('z, unit) kprog" where
  "agent_create = raise RuntimeError"

definition agent_get :: "env \<Rightarrow> object_ref \<Rightarrow> ('z, pyval) kprog" where
  "agent_get e r = crd_get e AgentCrd r"

definition agent_patch :: "env \<Rightarrow> object_ref \<Rightarrow> (string, pyval) dict \<Rightarrow> ('z, unit) kprog" where
  "agent_patch e r kwargs = crd_patch_spec e AgentCrd r kwargs"

definition agent_delete :: "env \<Rightarrow> object_ref \<Rightarrow> ('z, unit) kprog" where
  "agent_delete e r = crd_delete e AgentCrd r"

definition kube_agent_status :: "'z pwaiter \<Rightarrow> env \<Rightarrow> object_ref \<Rightarrow> int \<Rightarrow> ('z, pyval) kprog" where
  "kube_agent_status wait e r timeout = crd_status wait e AgentCrd r timeout"

definition agent_role :: "env \<Rightarrow> object_ref \<Rightarrow> ('z, pyval) kprog" where
  "agent_role e r =
     bindP (agent_get e r) (\<lambda>v. sum_prog (sum_bind (py_field v ''spec'') (\<lambda>spec. py_get spec ''role'' PNone)))"

definition agent_set_role :: "env \<Rightarrow> object_ref \<Rightarrow> string \<Rightarrow> ('z, unit) kprog" where
  "agent_set_role e r role = agent_patch e r [(''role'', PStr role)]"

definition agent_approve :: "env \<Rightarrow> object_ref \<Rightarrow> ('z, unit) kprog" where
  "agent_approve e r = agent_patch e r [(''approved'', PBool True)]"

definition agent_bind :: "env \<Rightarrow> object_ref \<Rightarrow> object_ref \<Rightarrow> ('z, unit) kprog" where
  "agent_bind e r cluster = agent_patch e r [(''clusterDeploymentName'', PDict
     [(''name'', PStr (rf_name cluster)), (''namespace'', PStr (rf_namespace cluster))])]"

text \<open>\<open>unbind\<close> writes back the object it read, without the name of the cluster.\<close>

definition unbound :: "pyval \<Rightarrow> exn + pyval" where
  "unbound agent =
     sum_bind (py_field agent ''spec'') (\<lambda>spec. sum_bind (py_field spec ''clusterDeploymentName'') (\<lambda>_.
       Inr (PDict (dict_set ''spec'' (PDict (filter (\<lambda>(k, v). k \<noteq> ''clusterDeploymentName'') (fields_of spec)))
         (fields_of agent)))))"

definition agent_unbind :: "env \<Rightarrow> object_ref \<Rightarrow> ('z, unit) kprog" where
  "agent_unbind e r =
     bindP (agent_get e r) (\<lambda>agent. bindP (sum_prog (unbound agent)) (\<lambda>body. crd_replace e AgentCrd r body))"

section \<open>Conditions of agents\<close>

datatype agent_condition = SpecSynced | Connected | Validated | Installed | RequirementsMet | Bound

fun condition_name :: "agent_condition \<Rightarrow> string" where
  "condition_name SpecSynced = ''SpecSynced''"
| "condition_name Connected = ''Connected''"
| "condition_name Validated = ''Validated''"
| "condition_name Installed = ''Installed''"
| "condition_name RequirementsMet = ''RequirementsMet''"
| "condition_name Bound = ''Bound''"

text \<open>
  The conditions of an agent as a dictionary from types to statuses, in which a later entry of the same type
  replaces an earlier one; then the dictionary of all agents, whose keys are their names alone.
\<close>

definition conditions_dict :: "pyval \<Rightarrow> exn + (string, pyval) dict" where
  "conditions_dict status =
     sum_bind (py_field status ''conditions'') (\<lambda>cs. case cs of
       PList items \<Rightarrow> sum_bind (sum_map (\<lambda>c. sum_bind (str_field c ''type'') (\<lambda>t.
           sum_bind (py_field c ''status'') (\<lambda>v. Inr (t, v)))) items) (\<lambda>entries. Inr (dict_update [] entries))
     | _ \<Rightarrow> Inl TypeError)"

definition CRD_STATUS_TIMEOUT :: int where "CRD_STATUS_TIMEOUT = 5 * MINUTE"

definition read_conditions :: "'z pwaiter \<Rightarrow> env \<Rightarrow> object_ref \<Rightarrow> ('z, (string, pyval) dict) kprog" where
  "read_conditions wait e r =
     bindP (kube_agent_status wait e r CRD_STATUS_TIMEOUT) (\<lambda>status. sum_prog (conditions_dict status))"

fun by_agent_name ::
  "(object_ref \<Rightarrow> ('z, 'v) kprog) \<Rightarrow> object_ref list \<Rightarrow> (string, 'v) dict \<Rightarrow> ('z, (string, 'v) dict) kprog" where
  "by_agent_name f [] d = ret d"
| "by_agent_name f (r # rs) d = bindP (f r) (\<lambda>v. by_agent_name f rs (dict_set (rf_name r) v d))"

definition are_agents_in_status :: "'z pwaiter \<Rightarrow> env \<Rightarrow> object_ref list \<Rightarrow> string \<Rightarrow> string \<Rightarrow> ('z, bool) kprog" where
  "are_agents_in_status wait e agents status_type status =
     bindP (by_agent_name (read_conditions wait e) agents []) (\<lambda>d.
       ret (list_all (\<lambda>(name, conditions). dict_get conditions status_type = Some (PStr status)) d))"

definition wait_till_all_agents_are_in_status ::
  "'z pwaiter \<Rightarrow> 'z uwaiter \<Rightarrow> env \<Rightarrow> object_ref list \<Rightarrow> string \<Rightarrow> int \<Rightarrow> string \<Rightarrow> int \<Rightarrow> ('z, unit) kprog" where
  "wait_till_all_agents_are_in_status pwait wait e agents status_type timeout status interval =
     wait (bindP (are_agents_in_status pwait e agents status_type status) (\<lambda>b. ret (truthy b)))
       timeout interval no_exceptions"

definition wait_for_agents_to_be_bound ::
  "'z pwaiter \<Rightarrow> 'z uwaiter \<Rightarrow> env \<Rightarrow> object_ref list \<Rightarrow> int \<Rightarrow> ('z, unit) kprog" where
  "wait_for_agents_to_be_bound pwait wait e agents timeout =
     wait_till_all_agents_are_in_status pwait wait e agents (condition_name Bound) timeout ''True'' 10"

definition wait_for_agents_to_be_ready_for_install ::
  "'z pwaiter \<Rightarrow> 'z uwaiter \<Rightarrow> env \<Rightarrow> object_ref list \<Rightarrow> int \<Rightarrow> ('z, unit) kprog" where
  "wait_for_agents_to_be_ready_for_install pwait wait e agents timeout =
     for_each (\<lambda>c. wait_till_all_agents_are_in_status pwait wait e agents (condition_name c) timeout ''True'' 10)
       [SpecSynced, Connected, RequirementsMet, Validated]"

definition wait_for_agents_to_unbound ::
  "'z pwaiter \<Rightarrow> 'z uwaiter \<Rightarrow> env \<Rightarrow> object_ref list \<Rightarrow> int \<Rightarrow> ('z, unit) kprog" where
  "wait_for_agents_to_unbound pwait wait e agents timeout =
     thenP (wait_for_agents_to_be_ready_for_install pwait wait e agents timeout)
       (wait_till_all_agents_are_in_status pwait wait e agents (condition_name Bound) timeout ''False'' 10)"

definition wait_for_agents_to_install ::
  "'z pwaiter \<Rightarrow> 'z uwaiter \<Rightarrow> env \<Rightarrow> object_ref list \<Rightarrow> int \<Rightarrow> ('z, unit) kprog" where
  "wait_for_agents_to_install pwait wait e agents timeout =
     thenP (wait_for_agents_to_be_ready_for_install pwait wait e agents timeout)
       (wait_till_all_agents_are_in_status pwait wait e agents (condition_name Installed) timeout ''True'' 10)"

definition agent_state :: "pyval \<Rightarrow> exn + pyval" where
  "agent_state obj =
     sum_bind (py_field obj ''status'') (\<lambda>status. sum_bind (py_field status ''debugInfo'') (\<lambda>info. py_field info ''state''))"

definition are_agents_in_state :: "env \<Rightarrow> object_ref list \<Rightarrow> string \<Rightarrow> ('z, bool) kprog" where
  "are_agents_in_state e agents expected_state =
     bindP (by_agent_name (\<lambda>r. bindP (agent_get e r) (\<lambda>v. sum_prog (agent_state v))) agents []) (\<lambda>d.
       ret (list_all (\<lambda>(name, state). state = PStr expected_state) d))"

definition wait_for_agents_to_reclaim ::
  "'z uwaiter \<Rightarrow> env \<Rightarrow> object_ref list \<Rightarrow> string \<Rightarrow> int \<Rightarrow> int \<Rightarrow> ('z, unit) kprog" where
  "wait_for_agents_to_reclaim wait e agents expected_state timeout interval =
     wait (bindP (are_agents_in_state e agents expected_state) (\<lambda>b. ret (truthy b))) timeout interval no_exceptions"

section \<open>Infrastructure environments\<close>

record proxy =
  px_http :: string
  px_https :: string
  px_no :: string

definition proxy_as_dict :: "proxy \<Rightarrow> pyval" where
  "proxy_as_dict p = PDict [(''httpProxy'', PStr (px_http p)), (''httpsProxy'', PStr (px_https p)), (''noProxy'', PStr (px_no p))]"

definition kube_infraenv_create_from_yaml :: "env \<Rightarrow> object_ref \<Rightarrow> pyval \<Rightarrow> ('z, unit) kprog" where
  "kube_infraenv_create_from_yaml e r yaml_data = bindP (crd_create e InfraEnvCrd r yaml_data) (\<lambda>_. ret ())"

text \<open>The optional parameters that \<open>create\<close> and \<open>patch\<close> share.\<close>

record infraenv_options =
  io_proxy :: "proxy option"
  io_ignition_config_override :: "string option"
  io_nmstate_label :: "string option"
  io_ssh_pub_key :: "string option"
  io_additional_trust_bundle :: "string option"

definition label_selector :: "string \<Rightarrow> pyval" where
  "label_selector label = PDict [(''matchLabels'', PDict [(nmstate_selector, PStr label)])]"

definition or_empty :: "string option \<Rightarrow> string" where
  "or_empty s = (case s of None \<Rightarrow> [] | Some t \<Rightarrow> t)"

definition set_optional :: "string \<Rightarrow> pyval option \<Rightarrow> (string, pyval) dict \<Rightarrow> (string, pyval) dict" where
  "set_optional k v d = (case v of None \<Rightarrow> d | Some x \<Rightarrow> dict_set k x d)"

definition infraenv_spec ::
  "object_ref option \<Rightarrow> object_ref \<Rightarrow> bool \<Rightarrow> string option \<Rightarrow> infraenv_options \<Rightarrow> (string, pyval) dict \<Rightarrow> (string, pyval) dict" where
  "infraenv_spec cluster_deployment secret set_infraenv_version openshift_version io kwargs =
     (let spec = [(''pullSecretRef'', ref_as_dict secret),
            (''nmStateConfigLabelSelector'', label_selector (or_empty (io_nmstate_label io))),
            (''ignitionConfigOverride'', PStr (or_empty (io_ignition_config_override io)))];
          spec = set_optional ''clusterRef'' (map_option ref_as_dict cluster_deployment) spec;
          spec = set_optional ''proxy'' (map_option proxy_as_dict (io_proxy io)) spec;
          spec = set_if_true ''sshAuthorizedKey'' (opt_str (io_ssh_pub_key io)) spec;
          spec = set_if_true ''additionalTrustBundle'' (opt_str (io_additional_trust_bundle io)) spec;
          spec = (if set_infraenv_version then dict_set ''osImageVersion'' (opt_str openshift_version) spec else spec)
      in dict_update spec kwargs)"

definition kube_infraenv_create ::
  "env \<Rightarrow> object_ref \<Rightarrow> object_ref option \<Rightarrow> object_ref \<Rightarrow> bool \<Rightarrow> string option \<Rightarrow> infraenv_options
     \<Rightarrow> (string, pyval) dict \<Rightarrow> ('z, pyval) kprog" where
  "kube_infraenv_create e r cluster_deployment secret set_infraenv_version openshift_version io kwargs =
     crd_create e InfraEnvCrd r (PDict
       [(''apiVersion'', PStr (api_version InfraEnvCrd)), (''kind'', PStr ''InfraEnv''), (''metadata'', ref_as_dict r),
        (''spec'', PDict (infraenv_spec cluster_deployment secret set_infraenv_version openshift_version io kwargs))])"

definition infraenv_patch_spec ::
  "object_ref option \<Rightarrow> object_ref option \<Rightarrow> infraenv_options \<Rightarrow> (string, pyval) dict \<Rightarrow> (string, pyval) dict" where
  "infraenv_patch_spec cluster_deployment secret io kwargs =
     (let spec = set_optional ''clusterRef'' (map_option ref_as_dict cluster_deployment) kwargs;
          spec = set_optional ''pullSecretRef'' (map_option ref_as_dict secret) spec;
          spec = set_optional ''proxy'' (map_option proxy_as_dict (io_proxy io)) spec;
          spec = (if truth (opt_str (io_nmstate_label io))
            then dict_set ''nmStateConfigLabelSelector'' (label_selector (or_empty (io_nmstate_label io))) spec else spec);
          spec = set_if_true ''ignitionConfigOverride'' (opt_str (io_ignition_config_override io)) spec;
          spec = set_if_true ''sshAuthorizedKey'' (opt_str (io_ssh_pub_key io)) spec
      in set_if_true ''additionalTrustBundle'' (opt_str (io_additional_trust_bundle io)) spec)"

definition kube_infraenv_patch ::
  "env \<Rightarrow> object_ref \<Rightarrow> object_ref option \<Rightarrow> object_ref option \<Rightarrow> infraenv_options \<Rightarrow> (string, pyval) dict \<Rightarrow> ('z, unit) kprog" where
  "kube_infraenv_patch e r cluster_deployment secret io kwargs =
     crd_patch_spec e InfraEnvCrd r (infraenv_patch_spec cluster_deployment secret io kwargs)"

definition kube_infraenv_get :: "env \<Rightarrow> object_ref \<Rightarrow> ('z, pyval) kprog" where
  "kube_infraenv_get e r = crd_get e InfraEnvCrd r"

definition kube_infraenv_delete :: "env \<Rightarrow> object_ref \<Rightarrow> ('z, unit) kprog" where
  "kube_infraenv_delete e r = crd_delete e InfraEnvCrd r"

definition kube_infraenv_status :: "'z pwaiter \<Rightarrow> env \<Rightarrow> object_ref \<Rightarrow> int \<Rightarrow> ('z, pyval) kprog" where
  "kube_infraenv_status wait e r timeout = crd_status wait e InfraEnvCrd r timeout"

definition get_iso_download_url :: "'z pwaiter \<Rightarrow> env \<Rightarrow> object_ref \<Rightarrow> int \<Rightarrow> ('z, pyval) kprog" where
  "get_iso_download_url wait e r timeout =
     wait (bindP (kube_infraenv_get e r) (\<lambda>obj.
         bindP (sum_prog (sum_bind (py_field obj ''status'') (\<lambda>status. py_field status ''isoDownloadURL''))) (\<lambda>v.
           ret (if_true v)))) timeout 3 is_KeyError"

text \<open>
  \<open>ISO_URL_PATTERN\<close>: the first part takes as much as it can, at least one character and no line break; then the
  path, the identifier and the name of the image. \<open>match\<close> does not look at what follows.
\<close>

definition iso_url_path :: string where
  "iso_url_path = ''/api/assisted-install/v1/clusters/''"

definition is_id_char :: "char \<Rightarrow> bool" where
  "is_id_char c \<longleftrightarrow> c \<in> set ''0123456789abcdefghijklmnopqrstuvwxyz-''"

definition id_after :: "string \<Rightarrow> nat \<Rightarrow> string option" where
  "id_after url n =
     (let rest = drop n url; tail = drop (length iso_url_path) rest; cluster_id = takeWhile is_id_char tail
      in if startswith rest iso_url_path \<and> cluster_id \<noteq> []
            \<and> startswith (dropWhile is_id_char tail) ''/downloads/image''
            \<and> CHR 0x0A \<notin> set (take n url)
         then Some cluster_id else None)"

fun longest_match :: "string \<Rightarrow> nat \<Rightarrow> string option" where
  "longest_match url 0 = None"
| "longest_match url (Suc n) = (case id_after url (Suc n) of None \<Rightarrow> longest_match url n | Some i \<Rightarrow> Some i)"

definition cluster_id_of_url :: "pyval \<Rightarrow> exn + string" where
  "cluster_id_of_url v =
     (case v of PStr url \<Rightarrow> (case longest_match url (length url) of None \<Rightarrow> Inl AttributeError | Some i \<Rightarrow> Inr i)
      | _ \<Rightarrow> Inl TypeError)"

definition get_cluster_id :: "'z pwaiter \<Rightarrow> env \<Rightarrow> object_ref \<Rightarrow> ('z, string) kprog" where
  "get_cluster_id wait e r =
     bindP (get_iso_download_url wait e r (5 * MINUTE)) (\<lambda>url. sum_prog (cluster_id_of_url url))"

text \<open>
  The default environment. \<open>kwargs\<close> are the further keyword arguments of the caller; \<open>name\<close> and
  \<open>ignore_conflict\<close> have no parameter in \<open>_create_infraenv_from_attrs\<close> and travel on into the specification.
  Without a secret the default one is made, named after the cluster: without a cluster there is no \<open>ref\<close>.
  \<open>read_yaml\<close> reads the file named by the argument \<open>filepath\<close>.
\<close>

record infraenv_request =
  iq_pull_secret :: string
  iq_cluster_deployment :: "object_ref option"
  iq_secret :: "object_ref option"
  iq_version :: "string option option"
  iq_options :: infraenv_options

definition create_infraenv_from_yaml_file ::
  "(pyval \<Rightarrow> exn + pyval) \<Rightarrow> env \<Rightarrow> object_ref \<Rightarrow> pyval \<Rightarrow> ('z, unit) kprog" where
  "create_infraenv_from_yaml_file read_yaml e r filepath =
     bindP (sum_prog (read_yaml filepath)) (\<lambda>yaml_data. kube_infraenv_create_from_yaml e r yaml_data)"

definition create_infraenv_from_attrs ::
  "reasons \<Rightarrow> (string \<Rightarrow> bool) \<Rightarrow> env \<Rightarrow> object_ref \<Rightarrow> infraenv_request \<Rightarrow> (string, pyval) dict \<Rightarrow> ('z, unit) kprog" where
  "create_infraenv_from_attrs reason valid_json e r q kwargs =
     bindP (case iq_secret q of Some secret \<Rightarrow> ret secret
       | None \<Rightarrow> (case iq_cluster_deployment q of None \<Rightarrow> raise AttributeError
          | Some cluster \<Rightarrow> deploy_default_secret reason valid_json e (rf_name cluster) (rf_namespace r) (iq_pull_secret q) True))
       (\<lambda>secret. bindP (kube_infraenv_create e r (iq_cluster_deployment q) secret (iq_version q \<noteq> None)
          (case iq_version q of None \<Rightarrow> None | Some v \<Rightarrow> v) (iq_options q) kwargs) (\<lambda>_. ret ()))"

definition deploy_default_infraenv ::
  "(pyval \<Rightarrow> exn + pyval) \<Rightarrow> reasons \<Rightarrow> (string \<Rightarrow> bool) \<Rightarrow> 'z pwaiter \<Rightarrow> env \<Rightarrow> string \<Rightarrow> string \<Rightarrow> bool
     \<Rightarrow> infraenv_request \<Rightarrow> (string, pyval) dict \<Rightarrow> ('z, object_ref) kprog" where
  "deploy_default_infraenv read_yaml reason valid_json wait e name namespace ignore_conflict q kwargs =
     (let r = plain_ref name namespace in
      thenP (tolerating reason ''Conflict'' ignore_conflict
          (case dict_get kwargs ''filepath'' of
             Some filepath \<Rightarrow> create_infraenv_from_yaml_file read_yaml e r filepath
           | None \<Rightarrow> create_infraenv_from_attrs reason valid_json e r q
               ([(''name'', PStr name), (''ignore_conflict'', PBool ignore_conflict)] @ kwargs)))
        (thenP (kube_infraenv_status wait e r CRD_STATUS_TIMEOUT) (ret r)))"

text \<open>
  The deprecated function of the same name passes the trust bundle as a tenth positional argument to a method
  that takes nine.
\<close>

definition deploy_default_infraenv_deprecated :: "('z, object_ref) kprog" where
  "deploy_default_infraenv_deprecated = raise TypeError"

fun agents_of_infraenv :: "string \<Rightarrow> pyval list \<Rightarrow> exn + object_ref list" where
  "agents_of_infraenv name [] = Inr []"
| "agents_of_infraenv name (agent # agents) =
     sum_bind (py_field agent ''metadata'') (\<lambda>metadata. sum_bind (py_field metadata ''labels'') (\<lambda>labels.
       sum_bind (py_get labels ''infraenvs.agent-install.openshift.io'' PNone) (\<lambda>v.
         if v = PStr name then
           sum_bind (named_object metadata) (\<lambda>r. sum_bind (agents_of_infraenv name agents) (\<lambda>rs. Inr (r # rs)))
         else agents_of_infraenv name agents)))"

definition infraenv_list_agents :: "env \<Rightarrow> object_ref \<Rightarrow> ('z, object_ref list) kprog" where
  "infraenv_list_agents e r =
     bindP (crd_list e AgentCrd (rf_namespace r)) (\<lambda>resources.
       sum_prog (sum_bind (items_of resources) (agents_of_infraenv (rf_name r))))"

definition infraenv_wait_for_agents :: "'z awaiter \<Rightarrow> env \<Rightarrow> object_ref \<Rightarrow> int \<Rightarrow> int \<Rightarrow> ('z, object_ref list) kprog" where
  "infraenv_wait_for_agents wait e r num_agents timeout =
     wait (bindP (infraenv_list_agents e r) (\<lambda>agents. ret (agents_if_enough num_agents agents)))
       timeout 1 no_exceptions"

section \<open>The cleanup of a context\<close>

text \<open>The set of the resources made within a context, in the order in which it is gone through.\<close>

datatype resource = CustomResource crd object_ref | ImageSetResource object_ref | SecretResource object_ref

fun delete_resource :: "env \<Rightarrow> resource \<Rightarrow> ('z, unit) kprog" where
  "delete_resource e (CustomResource k r) = crd_delete e k r"
| "delete_resource e (ImageSetResource r) = image_set_delete e r"
| "delete_resource e (SecretResource r) = secret_delete e r"

definition delete_all_resources :: "reasons \<Rightarrow> env \<Rightarrow> bool \<Rightarrow> resource list \<Rightarrow> ('z, unit) kprog" where
  "delete_all_resources reason e ignore_not_found resources =
     for_each (\<lambda>r. tolerating reason ''Not Found'' ignore_not_found (delete_resource e r)) resources"

definition context_exit :: "reasons \<Rightarrow> env \<Rightarrow> bool \<Rightarrow> resource list \<Rightarrow> ('z, unit) kprog" where
  "context_exit reason e clean_on_exit resources =
     (if clean_on_exit then delete_all_resources reason e True resources else ret ())"

section \<open>The override of the installer's configuration\<close>

text \<open>\<open>getenv\<close> reads a variable of the environment and \<open>json_dumps\<close> writes a value as JSON.\<close>

definition env_or :: "(string \<Rightarrow> string option) \<Rightarrow> string option \<Rightarrow> string \<Rightarrow> string \<Rightarrow> string" where
  "env_or getenv given variable fallback =
     (case str_or given None of Some s \<Rightarrow> s
      | None \<Rightarrow> (case getenv variable of None \<Rightarrow> fallback | Some s \<Rightarrow> s))"

definition kubectl_prefix :: "string option \<Rightarrow> string list" where
  "kubectl_prefix kubeconfig_path =
     ''kubectl'' # (case str_or kubeconfig_path None of None \<Rightarrow> [] | Some p \<Rightarrow> [''--kubeconfig'', p])"

definition override_config_map :: "string \<Rightarrow> string \<Rightarrow> string" where
  "override_config_map override_cm_name namespace =
     (let nl = [CHR 0x0A] in
      ''apiVersion: v1'' @ nl @ ''kind: ConfigMap'' @ nl @ ''metadata:'' @ nl @ ''  name: '' @ override_cm_name @ nl
        @ ''  namespace: '' @ namespace @ nl @ ''data:'' @ nl @ ''  LOG_LEVEL: \"debug\"'' @ nl
        @ ''  OPENSHIFT_INSTALL_EXPERIMENTAL_DISABLE_IMAGE_POLICY: \"true\"'' @ nl)"

definition run_with_input :: "env \<Rightarrow> string list \<Rightarrow> pyval \<Rightarrow> ('z, unit) kprog" where
  "run_with_input e cmd stdin = act e ''subprocess.run'' [PList (map PStr cmd), stdin]"

definition apply_installer_config_override ::
  "(string \<Rightarrow> string option) \<Rightarrow> (pyval \<Rightarrow> string) \<Rightarrow> env \<Rightarrow> string option \<Rightarrow> string option \<Rightarrow> string option
     \<Rightarrow> string option \<Rightarrow> ('z, unit) kprog" where
  "apply_installer_config_override getenv json_dumps e kubeconfig_path namespace asc_name override_cm_name =
     (let namespace = env_or getenv namespace ''NAMESPACE'' ''assisted-installer'';
          asc_name = env_or getenv asc_name ''ASSISTED_INSTALLER_CONFIG_OVERRIDE_ASC_NAME'' ''agent'';
          override_cm_name = env_or getenv override_cm_name ''ASSISTED_INSTALLER_CONFIG_OVERRIDE_CM_NAME''
            ''assisted-installer-config-override'';
          prefix = kubectl_prefix (if kubeconfig_path \<noteq> None then kubeconfig_path else getenv ''KUBECONFIG'');
          asc_patch = json_dumps (PDict [(''metadata'', PDict [(''annotations'', PDict
            [(''unsupported.agent-install.openshift.io/assisted-service-configmap'', PStr override_cm_name)])])])
      in thenP (run_with_input e (prefix @ [''apply'', ''-f'', ''-'']) (PStr (override_config_map override_cm_name namespace)))
           (run_with_input e (prefix @ [''patch'', ''agentserviceconfig/'' @ asc_name, ''--type=merge'', ''-p'', asc_patch])
              PNone))"

section \<open>What the waits on agents have read\<close>

lemma keeps_calls_read_conditions [intro]:
  "waits_by pwait \<Longrightarrow> keeps only_calls (read_conditions pwait e r)"
  unfolding read_conditions_def kube_agent_status_def by (intro calls_intros keeps_calls_crd_status)

lemma keeps_calls_by_agent_name [intro]:
  assumes "\<And>r. keeps only_calls (f r)"
  shows "keeps only_calls (by_agent_name f rs d)"
proof (induction rs arbitrary: d)
  case Nil
  show ?case by (simp add: calls.keeps_ret)
next
  case (Cons r rs)
  then show ?case by (simp add: calls.keeps_bindP assms)
qed

text \<open>With distinct names, every agent's value was read and is the one in the dictionary.\<close>

lemma by_agent_name_reads:
  assumes kept: "\<And>r. keeps only_calls (f r)"
  shows "by_agent_name f rs d s = (Inr d', t) \<Longrightarrow> distinct (map rf_name rs) \<Longrightarrow>
     (\<forall>n. n \<notin> rf_name ` set rs \<longrightarrow> dict_get d' n = dict_get d n)
     \<and> (\<forall>r \<in> set rs. \<exists>x y v. only_calls s x \<and> f r x = (Inr v, y) \<and> only_calls y t \<and> dict_get d' (rf_name r) = Some v)"
proof (induction rs arbitrary: d s)
  case Nil
  then show ?case by (simp add: prog_simps)
next
  case (Cons r rs)
  from Cons.prems(1) obtain v y where v: "f r s = (Inr v, y)"
    and rest: "by_agent_name f rs (dict_set (rf_name r) v d) y = (Inr d', t)"
    by (auto simp: bindP_eq_Inr_iff)
  have sy: "only_calls s y" by (rule keepsD [OF kept v])
  have yt: "only_calls y t"
    by (rule keepsD [OF keeps_calls_by_agent_name [where f = f, OF kept] rest])
  from Cons.prems(2) have dist: "rf_name r \<notin> rf_name ` set rs" "distinct (map rf_name rs)" by auto
  note IH = Cons.IH [OF rest dist(2)]
  have "\<exists>x z w. only_calls s x \<and> f q x = (Inr w, z) \<and> only_calls z t \<and> dict_get d' (rf_name q) = Some w"
    if "q \<in> set rs" for q
    using IH that sy by (meson calls.rel_trans)
  moreover have "dict_get d' (rf_name r) = Some v"
    using IH dist(1) by (simp add: dict_get_set)
  moreover have "dict_get d' n = dict_get d n" if "n \<notin> rf_name ` set (r # rs)" for n
    using IH that by (simp add: dict_get_set)
  ultimately show ?case
    using v yt calls.rel_refl by fastforce
qed

text \<open>
  \<open>agent_seen\<close>: between \<open>s\<close> and \<open>t\<close> a status of the agent was read whose condition of the given type has
  the given status.
\<close>

definition agent_seen ::
  "env \<Rightarrow> object_ref \<Rightarrow> string \<Rightarrow> string \<Rightarrow> (call, 'z) world_scheme \<Rightarrow> (call, 'z) world_scheme \<Rightarrow> bool" where
  "agent_seen e r status_type status s t \<longleftrightarrow>
     (\<exists>x y st conditions. only_calls s x \<and> only_calls y t \<and> status_read e AgentCrd r x y st
        \<and> conditions_dict st = Inr conditions \<and> dict_get conditions status_type = Some (PStr status))"

lemma read_conditions_read:
  assumes "waits_by pwait" and "read_conditions pwait e r s = (Inr c, t)"
  shows "\<exists>st. status_read e AgentCrd r s t st \<and> conditions_dict st = Inr c"
proof -
  obtain st where "crd_status pwait e AgentCrd r CRD_STATUS_TIMEOUT s = (Inr st, t)" "conditions_dict st = Inr c"
    using assms(2) by (auto simp: read_conditions_def kube_agent_status_def bindP_eq_Inr_iff prog_simps)
  with crd_status_read [OF assms(1)] show ?thesis by blast
qed

lemma agents_in_status_seen:
  assumes "waits_by pwait" and "distinct (map rf_name agents)"
    and "are_agents_in_status pwait e agents status_type status s = (Inr True, t)" and "r \<in> set agents"
  shows "agent_seen e r status_type status s t"
proof -
  from assms(3) obtain d where d: "by_agent_name (read_conditions pwait e) agents [] s = (Inr d, t)"
    and all: "list_all (\<lambda>(name, conditions). dict_get conditions status_type = Some (PStr status)) d"
    by (auto simp: are_agents_in_status_def bindP_eq_Inr_iff prog_simps)
  obtain x y c where c: "only_calls s x" "read_conditions pwait e r x = (Inr c, y)" "only_calls y t"
    "dict_get d (rf_name r) = Some c"
    using by_agent_name_reads [where f = "read_conditions pwait e", OF keeps_calls_read_conditions [OF assms(1)] d assms(2)]
      assms(4) by blast
  have "dict_get c status_type = Some (PStr status)"
    using all map_of_SomeD [OF c(4)] by (auto simp: list_all_iff)
  with c read_conditions_read [OF assms(1) c(2)] show ?thesis
    unfolding agent_seen_def by blast
qed

lemma agents_wait_seen:
  assumes "waits_by pwait" and "waits_by wait" and "distinct (map rf_name agents)"
    and "wait_till_all_agents_are_in_status pwait wait e agents status_type timeout status interval s = (Inr u, t)"
    and "r \<in> set agents"
  shows "agent_seen e r status_type status s t"
proof -
  let ?p = "bindP (are_agents_in_status pwait e agents status_type status) (\<lambda>b. ret (truthy b))"
  have kept: "keeps only_calls ?p"
    unfolding are_agents_in_status_def
    by (intro calls_intros keeps_calls_by_agent_name keeps_calls_read_conditions assms(1))
  obtain s' where s': "only_calls s s'" "?p s' = (Inr (Some u), t)"
    using calls.wait_Inr_rel [where wait = wait, OF assms(2) kept] assms(4)
    unfolding wait_till_all_agents_are_in_status_def by blast
  then have "are_agents_in_status pwait e agents status_type status s' = (Inr True, t)"
    by (elim bindP_InrE) (simp add: prog_simps)
  from agents_in_status_seen [OF assms(1,3) this assms(5)] s'(1) show ?thesis
    unfolding agent_seen_def by (meson calls.rel_trans)
qed

lemma agent_seen_mono:
  "agent_seen e r a b s t \<Longrightarrow> only_calls s' s \<Longrightarrow> only_calls t t' \<Longrightarrow> agent_seen e r a b s' t'"
  unfolding agent_seen_def by (meson calls.rel_trans)

lemma keeps_calls_wait_agents [intro]:
  assumes "waits_by pwait" and "waits_by wait"
  shows "keeps only_calls (wait_till_all_agents_are_in_status pwait wait e agents status_type timeout status interval)"
proof -
  have "keeps only_calls (bindP (are_agents_in_status pwait e agents status_type status) (\<lambda>b. ret (truthy b)))"
    unfolding are_agents_in_status_def
    by (intro calls_intros keeps_calls_by_agent_name keeps_calls_read_conditions assms(1))
  then show ?thesis
    unfolding wait_till_all_agents_are_in_status_def
    by (rule calls.keeps_wait [where wait = wait, OF assms(2)])
qed

lemma agents_ready_seen:
  assumes "waits_by pwait" and "waits_by wait" and "distinct (map rf_name agents)" and "r \<in> set agents"
  shows "for_each (\<lambda>c. wait_till_all_agents_are_in_status pwait wait e agents (condition_name c) timeout ''True'' 10) cs s
      = (Inr (), t) \<Longrightarrow> c \<in> set cs \<Longrightarrow> agent_seen e r (condition_name c) ''True'' s t"
proof (induction cs arbitrary: s)
  case (Cons c' cs)
  let ?w = "\<lambda>c. wait_till_all_agents_are_in_status pwait wait e agents (condition_name c) timeout ''True'' 10"
  from Cons.prems(1) obtain m where m: "?w c' s = (Inr (), m)" "for_each ?w cs m = (Inr (), t)"
    by (auto simp: bindP_eq_Inr_iff)
  have kept: "keeps only_calls (for_each ?w cs)"
    by (intro calls.keeps_for_each keeps_calls_wait_agents assms(1,2))
  have sm: "only_calls s m" by (rule keepsD [OF keeps_calls_wait_agents [OF assms(1,2)] m(1)])
  have mt: "only_calls m t" by (rule keepsD [OF kept m(2)])
  show ?case
  proof (cases "c = c'")
    case True
    show ?thesis
      using agent_seen_mono [OF agents_wait_seen [OF assms(1,2,3) m(1) assms(4)] calls.rel_refl mt] True by simp
  next
    case False
    then have "c \<in> set cs" using Cons.prems(2) by simp
    from agent_seen_mono [OF Cons.IH [OF m(2) this] sm calls.rel_refl] show ?thesis .
  qed
qed simp

section \<open>Properties\<close>


definition installed_conditions :: "pyval list" where
  "installed_conditions = map (\<lambda>c. sample_condition (condition_name c) ''True'' ''x'')
     [SpecSynced, Connected, RequirementsMet, Validated, Installed]"

lemma installed_agent_reads:
  "read_conditions (poll_upto 0) (reading_env installed_conditions) r s =
     (Inr (map (\<lambda>c. (condition_name c, PStr ''True'')) [SpecSynced, Connected, RequirementsMet, Validated, Installed]),
      s\<lparr>hist := hist s @ [get_call AgentCrd r]\<rparr>)"
  by (simp add: read_conditions_def kube_agent_status_def crd_status_def poll_upto.simps bindP_def crd_get_app
      reading_env_def py_field_def prog_simps if_true_def conditions_dict_def installed_conditions_def
      sample_condition_def str_field_def)

lemma installed_agents_wait_run:
  "c \<in> {SpecSynced, Connected, RequirementsMet, Validated, Installed} \<Longrightarrow>
   wait_till_all_agents_are_in_status (poll_upto 0) (poll_upto 0) (reading_env installed_conditions)
     [plain_ref ''a'' ''n'', plain_ref ''b'' ''n''] (condition_name c) 10 ''True'' 10 s
   = (Inr (), s\<lparr>hist := hist s @ [get_call AgentCrd (plain_ref ''a'' ''n''), get_call AgentCrd (plain_ref ''b'' ''n'')]\<rparr>)"
  by (auto simp: wait_till_all_agents_are_in_status_def are_agents_in_status_def poll_upto.simps bindP_def
      installed_agent_reads plain_ref_def prog_simps)

lemma installed_agents_run:
  "\<exists>t. wait_for_agents_to_install (poll_upto 0) (poll_upto 0) (reading_env installed_conditions)
     [plain_ref ''a'' ''n'', plain_ref ''b'' ''n''] 10 (\<lparr>hist = []\<rparr> :: call world) = (Inr (), t)"
  by (simp add: wait_for_agents_to_install_def wait_for_agents_to_be_ready_for_install_def bindP_def
      installed_agents_wait_run prog_simps del: condition_name.simps)


text \<open>The check of the agents keeps one entry per name. Two agents of the same name in different namespaces
  share it, and only the later one of the list counts: the check says what the later one's status says, whatever
  the status of the earlier one is.
\<close>

lemma same_name_hides_agent:
  assumes "waits_by pwait" and "rf_name r = rf_name q"
    and "always_reads e AgentCrd r st" and "conditions_dict st = Inr cr"
    and "always_reads e AgentCrd q su" and "conditions_dict su = Inr cq"
  shows "fst (are_agents_in_status pwait e [r, q] status_type status s)
     = Inr (dict_get cq status_type = Some (PStr status))"
proof -
  have reads: "fst (read_conditions pwait e a s) = Inr c"
    if "always_reads e AgentCrd a v" "conditions_dict v = Inr c" for a v c and s :: "(call, 'a) world_scheme"
    using crd_status_decided [OF assms(1) that(1), of CRD_STATUS_TIMEOUT s] that(2)
    by (auto simp: read_conditions_def kube_agent_status_def bindP_def prog_simps split: prod.splits)
  obtain t where t: "read_conditions pwait e r s = (Inr cr, t)"
    using reads [OF assms(3,4), of s] by (metis prod.collapse)
  obtain u where u: "read_conditions pwait e q t = (Inr cq, u)"
    using reads [OF assms(5,6), of t] by (metis prod.collapse)
  show ?thesis
    by (simp add: are_agents_in_status_def bindP_def t u prog_simps assms(2))
qed

definition two_namespaces_env :: env where
  "two_namespaces_env = (reading_env [])\<lparr>e_ask := \<lambda>_ c. Inr (PDict [(''status'', PDict [(''conditions'', PList
     [sample_condition ''Installed'' (if c = get_call AgentCrd (plain_ref ''a'' ''n'') then ''False'' else ''True'') ''x''])])])\<rparr>"

lemma same_name_hides_agent_witness:
  "fst (are_agents_in_status (poll_upto 3) two_namespaces_env [plain_ref ''a'' ''n'', plain_ref ''a'' ''m'']
     ''Installed'' ''True'' \<lparr>hist = []\<rparr>) = Inr True"
proof -
  let ?st = "\<lambda>v. PDict [(''conditions'', PList [sample_condition ''Installed'' v ''x''])]"
  have "always_reads two_namespaces_env AgentCrd (plain_ref ''a'' ''n'') (?st ''False'')"
    "always_reads two_namespaces_env AgentCrd (plain_ref ''a'' ''m'') (?st ''True'')"
    by (simp_all add: always_reads_def two_namespaces_env_def py_field_def plain_ref_def named_args_def crd_args_def)
  moreover have "conditions_dict (?st v) = Inr [(''Installed'', PStr v)]" for v
    by (simp add: conditions_dict_def py_field_def sample_condition_def str_field_def)
  ultimately show ?thesis
    using same_name_hides_agent [OF waits_by_poll_upto [of 3], of "plain_ref ''a'' ''n''" "plain_ref ''a'' ''m''"
        two_namespaces_env "?st ''False''" "[(''Installed'', PStr ''False'')]" "?st ''True''"
        "[(''Installed'', PStr ''True'')]" "''Installed''" "''True''" "\<lparr>hist = []\<rparr> :: call world"]
    by (simp add: plain_ref_def)
qed

text \<open>What the deletion of a resource asks the interface for.\<close>

fun delete_call :: "resource \<Rightarrow> call" where
  "delete_call (CustomResource k r) = Controller ''delete_namespaced_custom_object'' (named_args k r)"
| "delete_call (ImageSetResource r) = Controller ''delete_cluster_custom_object'' (image_set_args @ [PStr (rf_name r)])"
| "delete_call (SecretResource r) = Controller ''delete_namespaced_secret'' [PStr (rf_name r), PStr (rf_namespace r)]"

lemma delete_resource_app:
  "delete_resource e r s = (e_do e (hist s) (delete_call r), s\<lparr>hist := hist s @ [delete_call r]\<rparr>)"
  by (cases r) (simp_all add: crd_delete_def image_set_delete_def secret_delete_def act_def do_call_def ext_app)

lemma tolerating_app:
  "tolerating reason ignored ignore m s = (case m s of (Inr x, t) \<Rightarrow> (Inr x, t)
     | (Inl x, t) \<Rightarrow> (if x = ApiException \<and> reason (hist t) = ignored \<and> ignore then Inr () else Inl x, t))"
  by (simp add: tolerating_def try_except_def prog_simps split: prod.splits sum.splits)

text \<open>Leaving a context deletes its resources one after the other, each once and in order. The deletion goes on
  past resources that are not found; any other error ends it at the resource that raised it, and the ones after
  it are left behind.
\<close>

lemma context_deletes_until_error:
  assumes "context_exit reason e True resources s = (q, t)"
  shows "\<exists>n \<le> length resources. hist t = hist s @ map delete_call (take n resources)
     \<and> (q = Inr () \<longrightarrow> n = length resources)
     \<and> (\<forall>x. q = Inl x \<longrightarrow> 0 < n
          \<and> e_do e (hist s @ map delete_call (take (n - 1) resources)) (delete_call (resources ! (n - 1))) = Inl x
          \<and> \<not> (x = ApiException \<and> reason (hist t) = ''Not Found''))"
  using assms unfolding context_exit_def delete_all_resources_def
proof (induction resources arbitrary: s)
  case Nil
  then show ?case by (auto simp: prog_simps)
next
  case (Cons r rs)
  let ?d = "\<lambda>r. tolerating reason ''Not Found'' True (delete_resource e r)"
  let ?s = "s\<lparr>hist := hist s @ [delete_call r]\<rparr>"
  show ?case
  proof (cases "?d r s")
    case (Pair p u)
    have u: "u = ?s"
      using Pair by (auto simp: tolerating_app delete_resource_app split: sum.splits if_splits)
    show ?thesis
    proof (cases p)
      case (Inl x)
      then have "q = Inl x" "t = ?s"
        using Cons.prems Pair u by (auto simp: prog_simps)
      moreover have "e_do e (hist s) (delete_call r) = Inl x" "\<not> (x = ApiException \<and> reason (hist ?s) = ''Not Found'')"
        using Pair Inl by (auto simp: tolerating_app delete_resource_app split: sum.splits if_splits)
      ultimately show ?thesis by (intro exI [of _ 1]) simp
    next
      case (Inr v)
      then have "(if True then for_each ?d rs else ret ()) ?s = (q, t)"
        using Cons.prems Pair u by (auto simp: prog_simps)
      from Cons.IH [OF this] obtain n where n: "n \<le> length rs"
        "hist t = hist ?s @ map delete_call (take n rs)" "q = Inr () \<longrightarrow> n = length rs"
        "\<forall>x. q = Inl x \<longrightarrow> 0 < n
          \<and> e_do e (hist ?s @ map delete_call (take (n - 1) rs)) (delete_call (rs ! (n - 1))) = Inl x
          \<and> \<not> (x = ApiException \<and> reason (hist t) = ''Not Found'')"
        by blast
      show ?thesis
      proof (intro exI [of _ "Suc n"] conjI allI impI)
        fix x assume "q = Inl x"
        with n(4) obtain m where "n = Suc m" by (cases n) auto
        with n(4) \<open>q = Inl x\<close>
        show "e_do e (hist s @ map delete_call (take (Suc n - 1) (r # rs))) (delete_call ((r # rs) ! (Suc n - 1))) = Inl x"
          "\<not> (x = ApiException \<and> reason (hist t) = ''Not Found'')"
          by (simp_all del: delete_call.simps)
      qed (use n(1-3) in simp_all)
    qed
  qed
qed

definition undeletable_env :: env where
  "undeletable_env = (reading_env [])\<lparr>e_do := \<lambda>_ c.
     if c = delete_call (SecretResource (plain_ref ''b'' ''n'')) then Inl ApiException else Inr ()\<rparr>"

lemma context_exit_run:
  "context_exit (\<lambda>_. ''Forbidden'') undeletable_env True
     [SecretResource (plain_ref ''a'' ''n''), SecretResource (plain_ref ''b'' ''n''), SecretResource (plain_ref ''c'' ''n'')]
     (\<lparr>hist = []\<rparr> :: call world)
   = (Inl ApiException, \<lparr>hist = map delete_call [SecretResource (plain_ref ''a'' ''n''), SecretResource (plain_ref ''b'' ''n'')]\<rparr>)"
  by (simp add: context_exit_def delete_all_resources_def bindP_def tolerating_app delete_resource_app
      undeletable_env_def plain_ref_def del: delete_resource.simps)

lemma context_deletes_until_error_witness:
  "\<exists>n \<le> (3::nat). map delete_call [SecretResource (plain_ref ''a'' ''n''), SecretResource (plain_ref ''b'' ''n'')]
     = map delete_call (take n [SecretResource (plain_ref ''a'' ''n''), SecretResource (plain_ref ''b'' ''n''),
         SecretResource (plain_ref ''c'' ''n'')])"
proof -
  obtain n where "n \<le> length [SecretResource (plain_ref ''a'' ''n''), SecretResource (plain_ref ''b'' ''n''),
      SecretResource (plain_ref ''c'' ''n'')]"
    "map delete_call [SecretResource (plain_ref ''a'' ''n''), SecretResource (plain_ref ''b'' ''n'')]
     = map delete_call (take n [SecretResource (plain_ref ''a'' ''n''), SecretResource (plain_ref ''b'' ''n''),
         SecretResource (plain_ref ''c'' ''n'')])"
    using context_deletes_until_error [OF context_exit_run] by (simp only: world.simps append_Nil) blast
  then show ?thesis by (intro exI [of _ n]) simp
qed

section \<open>Agents and the clusters they are bound to\<close>

text \<open>What the interface promises about the object of an agent: its name, its namespace and its cluster.\<close>

record agent =
  ag_name :: string
  ag_namespace :: string
  ag_cluster :: "object_ref option"

definition agent_object :: "agent \<Rightarrow> pyval" where
  "agent_object a = PDict
     [(''metadata'', PDict [(''name'', PStr (ag_name a)), (''namespace'', PStr (ag_namespace a))]),
      (''spec'', PDict ((''approved'', PBool True) # (case ag_cluster a of None \<Rightarrow> []
         | Some c \<Rightarrow> [(''clusterDeploymentName'', PDict [(''name'', PStr (rf_name c)), (''namespace'', PStr (rf_namespace c))])])))]"

definition bound_agents :: "string \<Rightarrow> string \<Rightarrow> agent list \<Rightarrow> object_ref list" where
  "bound_agents name namespace agents = map (\<lambda>a. plain_ref (ag_name a) (ag_namespace a))
     (filter (\<lambda>a. map_option (\<lambda>c. (rf_name c, rf_namespace c)) (ag_cluster a) = Some (name, namespace)) agents)"

lemma assigned_cluster_object:
  "assigned_cluster (agent_object a) = Inr (map_option (\<lambda>c. plain_ref (rf_name c) (rf_namespace c)) (ag_cluster a))"
  by (cases "ag_cluster a")
    (simp_all add: assigned_cluster_def agent_object_def py_field_def py_get_def named_object_def str_field_def)

lemma agent_object_metadata:
  "sum_bind (py_field (agent_object a) ''metadata'') named_object = Inr (plain_ref (ag_name a) (ag_namespace a))"
  by (simp add: agent_object_def py_field_def named_object_def str_field_def)

lemma assigned_agents_objects:
  "assigned_agents (plain_ref name namespace) (map agent_object agents) = Inr (bound_agents name namespace agents)"
proof (induction agents)
  case (Cons a agents)
  have "plain_ref n m = plain_ref name namespace \<longleftrightarrow> n = name \<and> m = namespace" for n m
    by (simp add: plain_ref_def)
  then show ?case
    using Cons by (cases "ag_cluster a") (auto simp: assigned_cluster_object agent_object_metadata bound_agents_def)
qed (simp add: bound_agents_def)

lemma unbound_object:
  "ag_cluster a \<noteq> None \<Longrightarrow> unbound (agent_object a) = Inr (agent_object (a\<lparr>ag_cluster := None\<rparr>))"
  by (auto simp: unbound_def agent_object_def py_field_def fields_of_def)


definition sample_agent :: "string \<Rightarrow> agent" where
  "sample_agent name = \<lparr>ag_name = name, ag_namespace = ''n'', ag_cluster = Some (plain_ref ''c'' ''n'')\<rparr>"


section \<open>Identifiers in download addresses\<close>

lemma iso_url_path_slashes:
  assumes "0 < k" and "k < length iso_url_path" and "prefix iso_url_path (drop k iso_url_path @ rest)"
  shows "k = 33"
proof -
  have "k < 34" using assms(2) by (simp add: iso_url_path_def)
  then have "k \<in> set [1..<34]" using assms(1) by simp
  then show ?thesis
    using assms(3) by (simp add: iso_url_path_def upt_rec, elim disjE) simp_all
qed

lemma id_chars_end:
  assumes "list_all is_id_char i"
  shows "takeWhile is_id_char (i @ ''/downloads/image'') = i"
    "dropWhile is_id_char (i @ ''/downloads/image'') = ''/downloads/image''"
  using assms by (induction i) (simp_all add: is_id_char_def)

lemma no_later_path:
  assumes i: "list_all is_id_char i" and k: "0 < k"
  shows "\<not> prefix iso_url_path (drop k (iso_url_path @ i @ ''/downloads/image''))"
proof
  assume p: "prefix iso_url_path (drop k (iso_url_path @ i @ ''/downloads/image''))"
  show False
  proof (cases "k < length iso_url_path")
    case True
    with p have "prefix iso_url_path (drop k iso_url_path @ i @ ''/downloads/image'')" by simp
    with iso_url_path_slashes [OF k True this] obtain z where
      "i @ ''/downloads/image'' = ''api/assisted-install/v1/clusters/'' @ z"
      by (auto simp: iso_url_path_def prefix_def)
    then have "takeWhile is_id_char (i @ ''/downloads/image'') = ''api''"
      "dropWhile is_id_char (i @ ''/downloads/image'') = ''/assisted-install/v1/clusters/'' @ z"
      by (simp_all add: is_id_char_def)
    then show False unfolding id_chars_end [OF i] by simp
  next
    case False
    let ?j = "k - length iso_url_path"
    have p: "prefix iso_url_path (drop ?j i @ drop (?j - length i) ''/downloads/image'')"
      using p False by simp
    show False
    proof (cases "drop ?j i")
      case Nil
      then have "length iso_url_path \<le> length (drop (?j - length i) ''/downloads/image'')"
        using p prefix_length_le by fastforce
      then show False by (simp add: iso_url_path_def)
    next
      case (Cons c cs)
      then have "c \<in> set i" by (metis in_set_dropD list.set_intros(1))
      then have "is_id_char c" using i by (simp add: list_all_iff)
      moreover have "c = CHR 0x2F"
        using p unfolding Cons by (simp add: iso_url_path_def)
      ultimately show False by (simp add: is_id_char_def)
    qed
  qed
qed

lemma longest_match_from:
  assumes "id_after url m = Some i" and "0 < m" and "\<And>n. m < n \<Longrightarrow> id_after url n = None"
  shows "m \<le> n \<Longrightarrow> longest_match url n = Some i"
proof (induction n)
  case (Suc n)
  then show ?case using assms by (cases "m = Suc n") auto
qed (use assms(2) in simp)

text \<open>The cluster of an infrastructure environment is read off the address of its image. For every address of
  the service, and every identifier of lower case letters, digits and hyphens, the identifier is the one the
  address was made of, also where it or the address of the service looks like a part of the path.
\<close>

lemma cluster_id_round_trip:
  assumes "api \<noteq> []" and "CHR 0x0A \<notin> set api" and "i \<noteq> []" and "list_all is_id_char i"
  shows "cluster_id_of_url (PStr (api @ iso_url_path @ i @ ''/downloads/image'')) = Inr i"
proof -
  let ?url = "api @ iso_url_path @ i @ ''/downloads/image''"
  have here: "id_after ?url (length api) = Some i"
    using assms by (simp add: id_after_def id_chars_end)
  have later: "id_after ?url n = None" if "length api < n" for n
  proof -
    have "\<not> prefix iso_url_path (drop n ?url)"
      using no_later_path [OF assms(4), of "n - length api"] that by (simp del: drop_append add: drop_append [of n api])
    then show ?thesis by (simp add: id_after_def Let_def del: drop_append)
  qed
  have "longest_match ?url (length ?url) = Some i"
    by (rule longest_match_from [OF here _ later]) (use assms(1) in simp_all)
  then show ?thesis by (simp add: cluster_id_of_url_def del: length_append)
qed

lemma cluster_id_round_trip_witness:
  "cluster_id_of_url (PStr (''http://a/api/assisted-install/v1/clusters/x/downloads/image'' @ iso_url_path
     @ ''5c-api'' @ ''/downloads/image'')) = Inr ''5c-api''"
  by (rule cluster_id_round_trip) (simp_all add: is_id_char_def)

end
