(* ===== verification/KubeUtils.thy ===== *)
theory KubeUtils
  imports Agents
begin

text \<open>
  The helpers around a Kubernetes cluster: fields of resources by their path and the watch for a ready pod
  (\<open>utils/k8s_utils\<close>), the answers of the command line client (\<open>utils/oc_utils\<close>), the addresses and names of
  the agents' hosts and the removal of the resources of a namespace (\<open>utils/kubeapi_utils\<close>), and clusters whose
  control plane is hosted by another one (\<open>helper_classes/hypershift\<close>).
\<close>

section \<open>Fields of resources\<close>

text \<open>\<open>int(text)\<close>: blanks around it, a sign, digits with single underscores between them.\<close>

definition nat_of_text :: "string \<Rightarrow> exn + nat" where
  "nat_of_text s =
     (let groups = split_on CHR ''_'' s in
      if list_all (\<lambda>g. g \<noteq> [] \<and> list_all is_digit g) groups then Inr (undec 0 (concat groups))
      else Inl (ValueError ''invalid literal for int()''))"

definition int_of_text :: "string \<Rightarrow> exn + int" where
  "int_of_text text =
     (case strip text of
        [] \<Rightarrow> Inl (ValueError ''invalid literal for int()'')
      | c # s \<Rightarrow>
          if c = CHR ''-'' then sum_bind (nat_of_text s) (\<lambda>n. Inr (- int n))
          else sum_bind (nat_of_text (if c = CHR ''+'' then s else c # s)) (\<lambda>n. Inr (int n)))"

text \<open>\<open>text.rstrip(c)\<close>.\<close>

definition rstrip_char :: "char \<Rightarrow> string \<Rightarrow> string" where
  "rstrip_char c s = rev (dropWhile (\<lambda>x. x = c) (rev s))"

text \<open>\<open>xs[i]\<close> with an index that may count from the end.\<close>

definition py_item :: "'a list \<Rightarrow> int \<Rightarrow> exn + 'a" where
  "py_item xs i =
     (let j = (if i < 0 then int (length xs) + i else i) in
      if 0 \<le> j \<and> j < int (length xs) then Inr (xs ! nat j) else Inl IndexError)"

text \<open>A value that is no dictionary is reported as a missing key, too.\<close>

definition required_key :: "pyval \<Rightarrow> string \<Rightarrow> exn + pyval" where
  "required_key current key =
     (case current of
        PDict d \<Rightarrow> (case dict_get d key of None \<Rightarrow> Inl (KeyError key) | Some v \<Rightarrow> Inr v)
      | _ \<Rightarrow> Inl (KeyError key))"

definition follow_part :: "string \<Rightarrow> pyval \<Rightarrow> exn + pyval" where
  "follow_part part current =
     (if CHR ''['' \<in> set part \<and> CHR '']'' \<in> set part then
        (case split_on CHR ''['' part of
           [key, index] \<Rightarrow>
             sum_bind (int_of_text (rstrip_char CHR '']'' index)) (\<lambda>i.
             sum_bind (required_key current key) (\<lambda>v. case v of
                 PList xs \<Rightarrow> if int (length xs) \<le> i then Inl IndexError else py_item xs i
               | _ \<Rightarrow> Inl TypeError))
         | _ \<Rightarrow> Inl (ValueError ''too many values to unpack''))
      else required_key current part)"

fun follow_parts :: "string list \<Rightarrow> pyval \<Rightarrow> exn + pyval" where
  "follow_parts [] current = Inr current"
| "follow_parts (part # parts) current = sum_bind (follow_part part current) (follow_parts parts)"

definition get_field_from_resource :: "pyval \<Rightarrow> string \<Rightarrow> exn + pyval" where
  "get_field_from_resource resource path = follow_parts (split_on CHR ''.'' path) resource"

section \<open>The watch for a ready pod\<close>

text \<open>
  The events of the watch, each with the readiness of the containers of its pod or \<open>None\<close> when there are no
  statuses yet (iterating over \<open>None\<close> raises). The stream ends by itself when its time is over.
\<close>

fun watch_pods :: "env \<Rightarrow> bool list option list \<Rightarrow> ('z, unit) kprog" where
  "watch_pods e [] = ret ()"
| "watch_pods e (None # events) = raise TypeError"
| "watch_pods e (Some ready # events) =
     (if length ready = length (filter (\<lambda>r. r) ready) then act e ''watch.stop'' [] else watch_pods e events)"

definition wait_for_pod_ready ::
  "(call list \<Rightarrow> exn + bool list option list) \<Rightarrow> env \<Rightarrow> string \<Rightarrow> string \<Rightarrow> ('z, unit) kprog" where
  "wait_for_pod_ready stream e namespace selector =
     thenP (act e ''load_kube_config'' [])
     (bindP (ext stream (Controller ''watch.stream'' [PStr namespace, PStr selector, PInt 300])) (watch_pods e))"

section \<open>The command line client\<close>

definition OC_PATH :: string where "OC_PATH = ''/usr/local/bin/oc''"

text \<open>\<open>loads\<close> is \<open>json.loads\<close> on the answer of a command or on a text.\<close>

definition oc_list ::
  "(pyval \<Rightarrow> exn + pyval) \<Rightarrow> env \<Rightarrow> string \<Rightarrow> string \<Rightarrow> string option \<Rightarrow> ('z, pyval list) kprog" where
  "oc_list loads e kubeconfig_path resource namespace =
     (let command = [OC_PATH, ''--kubeconfig'', kubeconfig_path, ''get'', resource, ''-o'', ''json'']
            @ (case namespace of None \<Rightarrow> [] | Some n \<Rightarrow> [''--namespace'', n])
      in bindP (ask_call e (Controller ''check_output'' [PList (map PStr command)])) (\<lambda>out.
           sum_prog (sum_bind (loads out) (\<lambda>v. sum_bind (py_field v ''items'') (\<lambda>x.
             case x of PList items \<Rightarrow> Inr items | _ \<Rightarrow> Inl TypeError)))))"

fun any_condition :: "string \<Rightarrow> string \<Rightarrow> pyval list \<Rightarrow> exn + bool" where
  "any_condition type status [] = Inr False"
| "any_condition type status (c # cs) =
     sum_bind (py_field c ''type'') (\<lambda>t.
       if t = PStr type then
         sum_bind (py_field c ''status'') (\<lambda>v. if v = PStr status then Inr True else any_condition type status cs)
       else any_condition type status cs)"

definition resource_has_condition :: "pyval \<Rightarrow> string \<Rightarrow> string \<Rightarrow> exn + bool" where
  "resource_has_condition resource type status =
     sum_bind (py_get resource ''status'' (PDict [])) (\<lambda>s. sum_bind (py_get s ''conditions'' (PList [])) (\<lambda>v.
       case v of PList cs \<Rightarrow> any_condition type status cs | _ \<Rightarrow> Inl TypeError))"

definition resource_name :: "pyval \<Rightarrow> exn + string" where
  "resource_name resource = sum_bind (py_field resource ''metadata'') (\<lambda>m. str_field m ''name'')"

definition conditions_by_name :: "string \<Rightarrow> pyval list \<Rightarrow> exn + (string, bool) dict" where
  "conditions_by_name type resources =
     sum_bind (sum_map (\<lambda>r. sum_bind (resource_name r) (\<lambda>n.
         sum_bind (resource_has_condition r type ''True'') (\<lambda>b. Inr (n, b)))) resources)
       (\<lambda>entries. Inr (dict_update [] entries))"

definition get_clusteroperators_status ::
  "(pyval \<Rightarrow> exn + pyval) \<Rightarrow> env \<Rightarrow> string \<Rightarrow> ('z, (string, bool) dict) kprog" where
  "get_clusteroperators_status loads e kubeconfig_path =
     bindP (oc_list loads e kubeconfig_path ''clusteroperators'' None) (\<lambda>rs.
       sum_prog (conditions_by_name ''Available'' rs))"

definition get_nodes_readiness ::
  "(pyval \<Rightarrow> exn + pyval) \<Rightarrow> env \<Rightarrow> string \<Rightarrow> ('z, (string, bool) dict) kprog" where
  "get_nodes_readiness loads e kubeconfig_path =
     bindP (oc_list loads e kubeconfig_path ''nodes'' None) (\<lambda>rs. sum_prog (conditions_by_name ''Ready'' rs))"

fun unapproved_names :: "pyval list \<Rightarrow> exn + string list" where
  "unapproved_names [] = Inr []"
| "unapproved_names (csr # csrs) =
     sum_bind (resource_has_condition csr ''Approved'' ''True'') (\<lambda>b.
       if b then unapproved_names csrs
       else sum_bind (resource_name csr) (\<lambda>n. sum_bind (unapproved_names csrs) (\<lambda>ns. Inr (n # ns))))"

definition get_unapproved_csr_names ::
  "(pyval \<Rightarrow> exn + pyval) \<Rightarrow> env \<Rightarrow> string \<Rightarrow> ('z, string list) kprog" where
  "get_unapproved_csr_names loads e kubeconfig_path =
     bindP (oc_list loads e kubeconfig_path ''csr'' None) (\<lambda>rs. sum_prog (unapproved_names rs))"

definition approve_csr :: "env \<Rightarrow> string \<Rightarrow> string \<Rightarrow> ('z, unit) kprog" where
  "approve_csr e kubeconfig_path csr_name =
     act e ''check_call'' [PList (map PStr [OC_PATH, ''--kubeconfig'', kubeconfig_path, ''adm'', ''certificate'',
       ''approve'', csr_name])]"

section \<open>The client of the oc mode\<close>

text \<open>
  \<open>OCConfiguration\<close>: the server and the keys that the base class keeps, and whether certificates are verified.
  \<open>load\<close> is \<open>load_kube_config\<close>, which fills in what the file of the environment says.
\<close>

record oc_configuration =
  oc_host :: string
  oc_api_key :: "(string, string) dict"
  oc_verify_ssl :: bool

definition oc_token :: "oc_configuration \<Rightarrow> exn + string" where
  "oc_token c = (case dict_get (oc_api_key c) ''authorization'' of
     None \<Rightarrow> Inl (KeyError ''authorization'') | Some t \<Rightarrow> Inr t)"

definition bearer :: "string \<Rightarrow> string" where
  "bearer token = (if startswith token ''Bearer '' then token else ''Bearer '' @ token)"

definition set_oc_token :: "string \<Rightarrow> oc_configuration \<Rightarrow> oc_configuration" where
  "set_oc_token token c = c\<lparr>oc_api_key := dict_set ''authorization'' (bearer token) (oc_api_key c)\<rparr>"

definition set_oc_server :: "string \<Rightarrow> oc_configuration \<Rightarrow> oc_configuration" where
  "set_oc_server server c = c\<lparr>oc_host := server\<rparr>"

definition set_oc_verify_ssl :: "env \<Rightarrow> bool \<Rightarrow> oc_configuration \<Rightarrow> ('z, oc_configuration) kprog" where
  "set_oc_verify_ssl e verify c =
     thenP (whenP (\<not> verify) (act e ''disable_warnings'' [PStr ''InsecureRequestWarning'']))
       (ret (c\<lparr>oc_verify_ssl := verify\<rparr>))"

definition get_oc_api_client ::
  "(oc_configuration \<Rightarrow> ('z, oc_configuration) kprog) \<Rightarrow> env \<Rightarrow> string option \<Rightarrow> string option \<Rightarrow> bool
     \<Rightarrow> ('z, oc_configuration) kprog" where
  "get_oc_api_client load e token server verify =
     bindP (load \<lparr>oc_host = [], oc_api_key = [], oc_verify_ssl = False\<rparr>) (\<lambda>c.
       let c = (case str_or token None of None \<Rightarrow> c | Some t \<Rightarrow> set_oc_token t c);
           c = (case str_or server None of None \<Rightarrow> c | Some s \<Rightarrow> set_oc_server s c)
       in set_oc_verify_ssl e verify c)"

text \<open>
  A request of the client: with the settings \<open>["BearerToken"]\<close> it uses all that the configuration has, which
  \<open>settings_of\<close> (of the base class) tells.
\<close>

definition request_settings :: "(oc_configuration \<Rightarrow> pyval) \<Rightarrow> oc_configuration \<Rightarrow> pyval \<Rightarrow> pyval" where
  "request_settings settings_of c auth_settings =
     (if auth_settings = PList [PStr ''BearerToken''] then settings_of c else auth_settings)"

definition oc_call_api ::
  "(oc_configuration \<Rightarrow> pyval) \<Rightarrow> env \<Rightarrow> oc_configuration \<Rightarrow> string \<Rightarrow> string \<Rightarrow> pyval \<Rightarrow> pyval \<Rightarrow> ('z, pyval) kprog" where
  "oc_call_api settings_of e c resource_path method query_params auth_settings =
     ask_call e (Controller ''call_api''
       [PStr resource_path, PStr method, query_params, request_settings settings_of c auth_settings])"

text \<open>A service that is not given is written into the selector as \<open>None\<close>.\<close>

definition get_namespaced_service_routes_list ::
  "(oc_configuration \<Rightarrow> pyval) \<Rightarrow> env \<Rightarrow> oc_configuration \<Rightarrow> string \<Rightarrow> string option \<Rightarrow> ('z, pyval) kprog" where
  "get_namespaced_service_routes_list settings_of e c namespace service =
     oc_call_api settings_of e c (''/apis/route.openshift.io/v1/namespaces/'' @ namespace @ ''/routes'') ''GET''
       (PList [PList [PStr ''fieldSelector'',
          PStr (''spec.to.name='' @ (case service of None \<Rightarrow> ''None'' | Some s \<Rightarrow> s))]])
       (PList [PStr ''BearerToken''])"

definition resource_config :: "(pyval \<Rightarrow> exn + pyval) \<Rightarrow> pyval \<Rightarrow> exn + pyval" where
  "resource_config loads resource =
     sum_bind (py_field (attribute (attribute resource ''metadata'') ''annotations'')
       ''kubectl.kubernetes.io/last-applied-configuration'') loads"

definition rule_urls :: "string \<Rightarrow> pyval \<Rightarrow> exn + string list" where
  "rule_urls scheme rule =
     (case rule of
        PDict d \<Rightarrow> (case dict_get d ''host'' of
            None \<Rightarrow> Inr [] | Some (PStr host) \<Rightarrow> Inr [scheme @ ''://'' @ host] | Some _ \<Rightarrow> Inl TypeError)
      | _ \<Rightarrow> Inl TypeError)"

definition route_urls :: "(pyval \<Rightarrow> exn + pyval) \<Rightarrow> string \<Rightarrow> pyval \<Rightarrow> exn + string list" where
  "route_urls loads scheme route =
     sum_bind (resource_config loads route) (\<lambda>config. sum_bind (py_field config ''spec'') (\<lambda>spec.
     sum_bind (py_field spec ''rules'') (\<lambda>rules. case rules of
         PList rs \<Rightarrow> sum_bind (sum_map (rule_urls scheme) rs) (\<lambda>urls. Inr (concat urls))
       | _ \<Rightarrow> Inl TypeError)))"

definition get_namespaced_service_urls_list ::
  "(pyval \<Rightarrow> exn + pyval) \<Rightarrow> (oc_configuration \<Rightarrow> pyval) \<Rightarrow> env \<Rightarrow> oc_configuration \<Rightarrow> string \<Rightarrow> string option
     \<Rightarrow> string \<Rightarrow> ('z, string list) kprog" where
  "get_namespaced_service_urls_list loads settings_of e c namespace service scheme =
     bindP (get_namespaced_service_routes_list settings_of e c namespace service) (\<lambda>routes.
       sum_prog (case attribute routes ''items'' of
           PList items \<Rightarrow> sum_bind (sum_map (route_urls loads scheme) items) (\<lambda>urls. Inr (concat urls))
         | _ \<Rightarrow> Inl TypeError))"

section \<open>Agents' hosts\<close>

text \<open>\<open>ip_of is_ipv4 text\<close> is \<open>str(IPv4Interface(text).ip)\<close>, or \<open>IPv6Interface\<close>.\<close>

definition bmc_address :: "(bool \<Rightarrow> pyval \<Rightarrow> exn + string) \<Rightarrow> bool \<Rightarrow> pyval \<Rightarrow> exn + string option" where
  "bmc_address ip_of is_ipv4 status =
     sum_bind (py_get status ''inventory'' (PDict [])) (\<lambda>inventory.
     sum_bind (py_get inventory ''interfaces'' PNone) (\<lambda>interfaces.
       if \<not> truth interfaces then Inr None
       else (case interfaces of
           PList (i # _) \<Rightarrow>
             sum_bind (py_get i (if is_ipv4 then ''ipV4Addresses'' else ''ipV6Addresses'') PNone) (\<lambda>addresses.
               if \<not> truth addresses then Inr None
               else (case addresses of
                   PList (a # _) \<Rightarrow> sum_bind (ip_of is_ipv4 a) (\<lambda>text. Inr (str_or (Some text) None))
                 | _ \<Rightarrow> Inl TypeError))
         | _ \<Rightarrow> Inl TypeError)))"

type_synonym 'z swaiter = "((call, 'z) world_scheme, string) waiter"

definition kube_ip_for_single_node ::
  "(bool \<Rightarrow> pyval \<Rightarrow> exn + string) \<Rightarrow> 'z pwaiter \<Rightarrow> 'z swaiter \<Rightarrow> env \<Rightarrow> object_ref \<Rightarrow> bool \<Rightarrow> int
     \<Rightarrow> ('z, string) kprog" where
  "kube_ip_for_single_node ip_of pwait wait e cluster is_ipv4 timeout =
     bindP (deployment_list_agents e cluster None) (\<lambda>agents.
     thenP (assertP (length agents = 1))
       (wait (bindP (kube_agent_status pwait e (hd agents) CRD_STATUS_TIMEOUT) (\<lambda>status.
                sum_prog (bmc_address ip_of is_ipv4 status)))
          timeout 1 no_exceptions))"

fun has_interface :: "string \<Rightarrow> pyval list \<Rightarrow> exn + bool" where
  "has_interface mac [] = Inr False"
| "has_interface mac (i # is) =
     sum_bind (str_field i ''macAddress'') (\<lambda>m. if lower m = mac then Inr True else has_interface mac is)"

definition inventory_interfaces :: "pyval \<Rightarrow> exn + pyval list" where
  "inventory_interfaces inventory =
     sum_bind (py_get inventory ''interfaces'' (PList [])) (\<lambda>v.
       case v of PList is \<Rightarrow> Inr is | _ \<Rightarrow> Inl TypeError)"

fun named_by_mac :: "pyval \<Rightarrow> (string, tf_node) dict \<Rightarrow> exn + string option" where
  "named_by_mac inventory [] = Inr None"
| "named_by_mac inventory ((mac, node) # nodes) =
     sum_bind (inventory_interfaces inventory) (\<lambda>is. sum_bind (has_interface (lower mac) is) (\<lambda>b.
       if b then Inr (Some (tfn_name node)) else named_by_mac inventory nodes))"

definition get_hostname_for_agent ::
  "'z pwaiter \<Rightarrow> env \<Rightarrow> object_ref \<Rightarrow> (string, tf_node) dict \<Rightarrow> ('z, string option) kprog" where
  "get_hostname_for_agent pwait e agent nodes_details =
     bindP (kube_agent_status pwait e agent CRD_STATUS_TIMEOUT) (\<lambda>status.
       sum_prog (sum_bind (py_get status ''inventory'' (PDict [])) (\<lambda>inventory. named_by_mac inventory nodes_details)))"

definition set_agent_hostname ::
  "'z pwaiter \<Rightarrow> 'z swaiter \<Rightarrow> env \<Rightarrow> object_ref \<Rightarrow> (string, tf_node) dict \<Rightarrow> ('z, unit) kprog" where
  "set_agent_hostname pwait wait e agent nodes_details =
     thenP (assertP (length nodes_details \<ge> 1))
     (bindP (wait (bindP (get_hostname_for_agent pwait e agent nodes_details) (\<lambda>name. ret (str_or name None)))
          60 1 no_exceptions) (\<lambda>hostname.
       agent_patch e agent [(''hostname'', PStr hostname)]))"

section \<open>Platforms, folders and the kubeconfig\<close>

definition get_platform_type :: "string \<Rightarrow> string" where
  "get_platform_type platform =
     (if platform = platform_value NonePlatform then ''None''
      else if platform = platform_value BareMetal then ''BareMetal''
      else if platform = platform_value VSphere then ''VSphere''
      else platform)"

text \<open>\<open>os.path.join\<close> and \<open>Path.joinpath\<close> with two parts, the first of which is not empty.\<close>

definition path_join :: "string \<Rightarrow> string \<Rightarrow> string" where
  "path_join a b = (if startswith b ''/'' then b else if endswith a ''/'' then a @ b else a @ ''/'' @ b)"

definition get_folder :: "string \<Rightarrow> string option \<Rightarrow> string" where
  "get_folder cluster_name namespace =
     path_join ''build/terraform'' (case str_or namespace None of
        None \<Rightarrow> cluster_name | Some n \<Rightarrow> cluster_name @ ''__'' @ n)"

definition create_tfvars_file :: "env \<Rightarrow> string \<Rightarrow> ('z, string) kprog" where
  "create_tfvars_file e tf_folder =
     (let tfvars_file = path_join tf_folder ''terraform.tfvars.json''
      in thenP (do_call e (WriteFile tfvars_file))
         (thenP (act e ''json.dump'' [PStr tfvars_file, PDict []]) (ret tfvars_file)))"

text \<open>A folder that exists is used as it is, also for a platform that was not in it before.\<close>

definition create_folder :: "env \<Rightarrow> string \<Rightarrow> string \<Rightarrow> ('z, string) kprog" where
  "create_folder e cluster_name platform =
     (let tf_folder = get_folder cluster_name None
      in bindP (ask_bool e ''os.path.exists'' [PStr tf_folder]) (\<lambda>present.
           if present then ret (path_join tf_folder platform)
           else thenP (act e ''copy_tree'' [PStr ''terraform_files'', PStr tf_folder])
             (bindP (create_tfvars_file e (path_join tf_folder platform)) (\<lambda>_. ret (path_join tf_folder platform)))))"

definition get_tfvars :: "env \<Rightarrow> string \<Rightarrow> ('z, pyval) kprog" where
  "get_tfvars e tf_folder = ask_call e (Controller ''json.load'' [PStr (path_join tf_folder ''terraform.tfvars.json'')])"

definition set_tfvars :: "env \<Rightarrow> string \<Rightarrow> pyval \<Rightarrow> ('z, unit) kprog" where
  "set_tfvars e tf_folder tfvars_json =
     (let tf_json_file = path_join tf_folder ''terraform.tfvars.json''
      in thenP (do_call e (WriteFile tf_json_file)) (act e ''json.dump'' [PStr tf_json_file, tfvars_json]))"

text \<open>\<open>get_state\<close> is the state that the controller passed as \<open>tf\<close> reads.\<close>

definition get_nodes_details ::
  "env \<Rightarrow> string \<Rightarrow> string option \<Rightarrow> ('z, tf_resource list) kprog \<Rightarrow> ('z, (string, tf_node) dict) kprog" where
  "get_nodes_details e cluster_name namespace get_state =
     bindP (get_tfvars e (path_join (get_folder cluster_name namespace) (platform_value BareMetal))) (\<lambda>tf_vars.
     bindP (sum_prog (str_field tf_vars ''libvirt_network_name'')) (\<lambda>primary.
     bindP (sum_prog (str_field tf_vars ''libvirt_secondary_network_name'')) (\<lambda>secondary.
     bindP get_state (\<lambda>tf_state. ret (get_libvirt_nodes_from_tf_state [primary, secondary] tf_state)))))"

text \<open>\<open>KUBECONFIG\<close>, when it is set, is the path for every cluster.\<close>

definition get_kubeconfig_path :: "environ \<Rightarrow> string \<Rightarrow> env \<Rightarrow> string \<Rightarrow> ('z, string) kprog" where
  "get_kubeconfig_path environ cwd e cluster_name =
     (let kubeconfig_dir = path_join cwd ''build/kubeconfig'';
          default = path_join kubeconfig_dir (''kubeconfig_'' @ cluster_name);
          kubeconfig_path = (case get_env environ ''KUBECONFIG'' (Some default) of None \<Rightarrow> default | Some p \<Rightarrow> p)
      in thenP (whenP (kubeconfig_path = default) (act e ''mkdir'' [PStr kubeconfig_dir]))
           (ret kubeconfig_path))"

section \<open>The removal of a namespace's resources\<close>

text \<open>
  The removal replaces two methods of the client's classes by wrappers that ignore objects that are not found. They are
  replaced for good, and for every caller: \<open>pt_wrapped\<close> tells whether that has happened. Image sets, which
  belong to no namespace, are deleted by a third method.
\<close>

record patched_world = "call world" +
  pt_wrapped :: bool

fun is_wrapped :: "resource \<Rightarrow> bool" where
  "is_wrapped (CustomResource k r) = True"
| "is_wrapped (SecretResource r) = True"
| "is_wrapped (ImageSetResource r) = False"

definition suppress_not_found_error :: "reasons \<Rightarrow> ('z, unit) kprog \<Rightarrow> ('z, unit) kprog" where
  "suppress_not_found_error reason fn =
     try_except fn (\<lambda>x. bindP (reads (\<lambda>s. reason (hist s))) (\<lambda>why.
       if x = ApiException \<and> why = ''Not Found'' then ret () else raise x))"

definition delete_now :: "reasons \<Rightarrow> env \<Rightarrow> resource \<Rightarrow> (patched_world, unit) prog" where
  "delete_now reason e r =
     bindP (reads pt_wrapped) (\<lambda>wrapped.
       if wrapped \<and> is_wrapped r then suppress_not_found_error reason (delete_resource e r) else delete_resource e r)"

definition name_or :: "string option \<Rightarrow> string \<Rightarrow> string" where
  "name_or given fallback = (case str_or given None of None \<Rightarrow> fallback | Some n \<Rightarrow> n)"

definition namespace_resources ::
  "string \<Rightarrow> string \<Rightarrow> string option \<Rightarrow> string option \<Rightarrow> string option \<Rightarrow> object_ref list \<Rightarrow> resource list" where
  "namespace_resources name namespace secret_name infraenv_name nmstate_name agents =
     map (CustomResource AgentCrd) agents
     @ [CustomResource ClusterDeploymentCrd (plain_ref name namespace),
        SecretResource (plain_ref (name_or secret_name name) namespace),
        CustomResource InfraEnvCrd (plain_ref (name_or infraenv_name (name @ ''-infra-env'')) namespace),
        CustomResource NMStateConfigCrd (plain_ref (name_or nmstate_name (name @ ''-nmstate-config'')) namespace)]"

definition delete_kube_api_resources_for_namespace ::
  "reasons \<Rightarrow> env \<Rightarrow> string \<Rightarrow> string \<Rightarrow> string option \<Rightarrow> string option \<Rightarrow> string option \<Rightarrow> string option
     \<Rightarrow> (patched_world, unit) prog" where
  "delete_kube_api_resources_for_namespace reason e name namespace secret_name infraenv_name nmstate_name
       image_set_name =
     thenP (modifies (\<lambda>s. s\<lparr>pt_wrapped := True\<rparr>))
     (bindP (deployment_list_agents e (plain_ref name namespace) None) (\<lambda>agents.
     thenP (for_each (delete_now reason e)
         (namespace_resources name namespace secret_name infraenv_name nmstate_name agents))
       (delete_now reason e
         (ImageSetResource (plain_ref (name_or image_set_name (name @ ''-image-set'')) namespace)))))"

section \<open>Hosted clusters\<close>

text \<open>
  A hosted cluster of the given name: the path of its kubeconfig once it is downloaded (the empty string before), the
  kubeconfig its client was made from, and the resources that the shared context has registered. Every resource
  object is registered when it is made.
\<close>

record hosted_world = "call world" +
  hs_kubeconfig_path :: string
  hs_client :: "string option"
  hs_registered :: "resource list"

type_synonym 'a hprog = "(hosted_world, 'a) prog"

definition registers :: "resource \<Rightarrow> unit hprog" where
  "registers r = modifies (\<lambda>s. s\<lparr>hs_registered := hs_registered s @ [r]\<rparr>)"

definition HYPERSHIFT_DIR :: string where "HYPERSHIFT_DIR = ''build/hypershift/''"

definition option_flag :: "string \<Rightarrow> string \<Rightarrow> string" where
  "option_flag flag v = (if v = [] then [] else flag @ v)"

definition hypershift_command :: "string \<Rightarrow> string \<Rightarrow> string \<Rightarrow> string \<Rightarrow> string \<Rightarrow> string \<Rightarrow> string \<Rightarrow> string \<Rightarrow> string" where
  "hypershift_command name pull_secret_file agent_namespace base_domain provider_image cpo_image release_image ssh_key =
     ''./bin/hypershift create cluster agent --pull-secret '' @ pull_secret_file @ '' --name '' @ name
     @ '' --agent-namespace '' @ agent_namespace @ '' --base-domain '' @ base_domain
     @ option_flag '' --annotations hypershift.openshift.io/capi-provider-agent-image='' provider_image
     @ option_flag '' --control-plane-operator-image='' cpo_image
     @ option_flag '' --release-image='' release_image
     @ option_flag '' --ssh-key '' ssh_key"

definition hypershift_create ::
  "env \<Rightarrow> string \<Rightarrow> string \<Rightarrow> string \<Rightarrow> string \<Rightarrow> string \<Rightarrow> string \<Rightarrow> string \<Rightarrow> string \<Rightarrow> ('z, unit) kprog" where
  "hypershift_create e name pull_secret_file agent_namespace base_domain provider_image cpo_image release_image ssh_key =
     run_command_with_output e (hypershift_command name pull_secret_file agent_namespace base_domain provider_image
       cpo_image release_image ssh_key)"

definition hypershift_delete :: "env \<Rightarrow> string \<Rightarrow> ('z, unit) kprog" where
  "hypershift_delete e name =
     run_command_with_output e (''./bin/hypershift destroy cluster agent --name '' @ name)"

definition hypershift_dump :: "env \<Rightarrow> string \<Rightarrow> string \<Rightarrow> string option \<Rightarrow> ('z, unit) kprog" where
  "hypershift_dump e name output_folder kubeconfig_path =
     run_command_with_output e (''KUBECONFIG='' @ (case kubeconfig_path of None \<Rightarrow> ''None'' | Some p \<Rightarrow> p) @ '' ''
       @ HYPERSHIFT_DIR @ ''/bin/hypershift dump cluster --name '' @ name @ '' --artifact-dir '' @ output_folder
       @ '' --dump-guest-cluster=true'')"

definition hosted_secret :: "string \<Rightarrow> object_ref" where
  "hosted_secret name = plain_ref ''admin-kubeconfig'' (''clusters-'' @ name)"

definition hosted_kubeconfig_path ::
  "(pyval \<Rightarrow> exn + string) \<Rightarrow> environ \<Rightarrow> string \<Rightarrow> env \<Rightarrow> string \<Rightarrow> string hprog" where
  "hosted_kubeconfig_path decode environ cwd e name =
     bindP (reads hs_kubeconfig_path) (\<lambda>known.
       if known \<noteq> [] then ret known
       else
         thenP (registers (SecretResource (hosted_secret name)))
         (bindP (read_secret e (hosted_secret name)) (\<lambda>v.
         bindP (sum_prog (py_field (attribute v ''data'') ''kubeconfig'')) (\<lambda>kubeconfig_data.
         bindP (get_kubeconfig_path environ cwd e name) (\<lambda>base.
           let path = base @ ''-hypershift'' in
           thenP (do_call e (WriteFile path))
           (bindP (sum_prog (decode kubeconfig_data)) (\<lambda>text.
           thenP (act e ''file.write'' [PStr path, PStr text])
           (thenP (modifies (\<lambda>s. s\<lparr>hs_kubeconfig_path := path\<rparr>)) (ret path)))))))))"

definition nodepool_args :: "string \<Rightarrow> pyval list" where
  "nodepool_args name = map PStr [''hypershift.openshift.io'', ''v1alpha1'', ''nodepools'', ''clusters'', name]"

definition set_nodepool_replicas :: "env \<Rightarrow> string \<Rightarrow> int \<Rightarrow> ('z, unit) kprog" where
  "set_nodepool_replicas e name node_count =
     act e ''patch_namespaced_custom_object''
       (nodepool_args name @ [PDict [(''spec'', PDict [(''replicas'', PInt node_count)])]])"

definition get_control_plane :: "env \<Rightarrow> string \<Rightarrow> ('z, pyval) kprog" where
  "get_control_plane e name =
     ask_call e (Controller ''get_namespaced_custom_object'' (map PStr
       [''hypershift.openshift.io'', ''v1alpha1'', ''hostedcontrolplanes'', ''clusters-'' @ name, name]))"

definition wait_for_control_plane_ready :: "'z pwaiter \<Rightarrow> env \<Rightarrow> string \<Rightarrow> ('z, pyval) kprog" where
  "wait_for_control_plane_ready wait e name =
     wait (bindP (get_control_plane e name) (\<lambda>v.
             bindP (sum_prog (sum_bind (py_get v ''status'' (PDict [])) (\<lambda>s. py_get s ''ready'' PNone))) (\<lambda>r.
               ret (if_true r))))
       (20 * MINUTE) 5 is_Exception"

text \<open>The nodes as the client lists them; a node may not have conditions yet.\<close>

record kube_node =
  kn_name :: string
  kn_conditions :: "(string \<times> string) list option"

fun filter_node_by_ready_status :: "kube_node list \<Rightarrow> exn + kube_node list" where
  "filter_node_by_ready_status [] = Inr []"
| "filter_node_by_ready_status (n # ns) =
     (case kn_conditions n of
        None \<Rightarrow> Inl TypeError
      | Some cs \<Rightarrow> sum_bind (filter_node_by_ready_status ns) (\<lambda>items.
          Inr (map (\<lambda>_. n) (filter (\<lambda>c. c = (''Ready'', ''True'')) cs) @ items)))"

text \<open>\<open>no_nodes\<close> is what \<open>V1NodeList()\<close>, a list made of nothing, gives.\<close>

definition hosted_client ::
  "(pyval \<Rightarrow> exn + string) \<Rightarrow> environ \<Rightarrow> string \<Rightarrow> env \<Rightarrow> string \<Rightarrow> unit hprog" where
  "hosted_client decode environ cwd e name =
     bindP (reads hs_client) (\<lambda>client.
       if client \<noteq> None then ret ()
       else bindP (hosted_kubeconfig_path decode environ cwd e name) (\<lambda>path.
         thenP (act e ''load_kube_config'' [PStr path]) (modifies (\<lambda>s. s\<lparr>hs_client := Some path\<rparr>))))"

definition hosted_nodes ::
  "(unit hprog) \<Rightarrow> (call list \<Rightarrow> exn + kube_node list) \<Rightarrow> exn + kube_node list \<Rightarrow> bool \<Rightarrow> kube_node list hprog" where
  "hosted_nodes client list_node no_nodes ready =
     thenP client
     (bindP (try_except (bindP (ext list_node (Controller ''list_node'' [])) (\<lambda>ns. ret (Some ns)))
         (\<lambda>x. if is_Exception x then ret None else raise x)) (\<lambda>answer.
       case answer of
         None \<Rightarrow> sum_prog no_nodes
       | Some nodes \<Rightarrow> if ready then sum_prog (filter_node_by_ready_status nodes) else ret nodes))"

definition wait_for_nodes ::
  "(hosted_world, unit) waiter \<Rightarrow> (unit hprog) \<Rightarrow> (call list \<Rightarrow> exn + kube_node list) \<Rightarrow> exn + kube_node list
     \<Rightarrow> int \<Rightarrow> bool \<Rightarrow> unit hprog" where
  "wait_for_nodes wait client list_node no_nodes node_count ready =
     wait (bindP (hosted_nodes client list_node no_nodes ready) (\<lambda>items.
             ret (truthy (int (length items) = node_count))))
       (10 * MINUTE) 1 no_exceptions"

section \<open>The context of the resources\<close>

text \<open>
  \<open>with context:\<close> forgets what was registered before, for the set belongs to the class and is shared by all
  contexts. At the end the registered resources are deleted in the order in which the set happens to be gone through.
\<close>

definition within_context ::
  "reasons \<Rightarrow> (resource list \<Rightarrow> resource list) \<Rightarrow> env \<Rightarrow> bool \<Rightarrow> 'a hprog \<Rightarrow> 'a hprog" where
  "within_context reason in_order e clean_on_exit body =
     thenP (modifies (\<lambda>s. s\<lparr>hs_registered := []\<rparr>))
       (try_finally body (bindP (reads hs_registered) (\<lambda>rs. context_exit reason e clean_on_exit (in_order rs))))"

section \<open>Properties\<close>

subsection \<open>Paths of fields\<close>

datatype field_step = FieldStep string | ItemStep string nat

fun step_text :: "field_step \<Rightarrow> string" where
  "step_text (FieldStep k) = k"
| "step_text (ItemStep k i) = k @ ''['' @ dec i @ '']''"

fun step_key :: "field_step \<Rightarrow> string" where
  "step_key (FieldStep k) = k"
| "step_key (ItemStep k i) = k"

definition plain_step :: "field_step \<Rightarrow> bool" where
  "plain_step x \<longleftrightarrow> CHR ''.'' \<notin> set (step_key x) \<and> CHR ''['' \<notin> set (step_key x)"

fun take_step :: "field_step \<Rightarrow> pyval \<Rightarrow> exn + pyval" where
  "take_step (FieldStep k) v = required_key v k"
| "take_step (ItemStep k i) v =
     sum_bind (required_key v k) (\<lambda>x. case x of PList xs \<Rightarrow> py_nth xs i | _ \<Rightarrow> Inl TypeError)"

fun take_steps :: "field_step list \<Rightarrow> pyval \<Rightarrow> exn + pyval" where
  "take_steps [] v = Inr v"
| "take_steps (x # xs) v = sum_bind (take_step x v) (take_steps xs)"

lemma is_digit_dec: "list_all is_digit (dec n)"
  by (auto simp: list_all_iff is_digit_def of_digit_char dest!: dec_digits)

lemma digit_no_sep: "c \<in> set (dec n) \<Longrightarrow> is_digit c"
  using is_digit_dec [of n] by (simp add: list_all_iff)

lemma dec_no_sep [simp]:
  "CHR ''.'' \<notin> set (dec n)" "CHR ''['' \<notin> set (dec n)" "CHR '']'' \<notin> set (dec n)" "CHR ''_'' \<notin> set (dec n)"
  by (auto dest!: digit_no_sep simp: is_digit_def)

lemma digit_no_space: "is_digit c \<Longrightarrow> \<not> is_space c"
  by (auto simp: is_digit_def is_space_def)

lemma strip_digits: "list_all is_digit s \<Longrightarrow> strip s = s"
proof -
  assume "list_all is_digit s"
  then have none: "\<not> is_space c" if "c \<in> set s" for c
    using that by (auto simp: list_all_iff dest: digit_no_space)
  have same: "dropWhile is_space u = u" if "set u \<subseteq> set s" for u
    using that none by (cases u) auto
  show ?thesis by (simp add: strip_def same)
qed

lemma int_of_text_dec: "int_of_text (dec n) = Inr (int n)"
proof -
  obtain c s where d: "dec n = c # s" by (cases "dec n") auto
  then have "is_digit c" using is_digit_dec [of n] by simp
  then have "c \<noteq> CHR ''-''" "c \<noteq> CHR ''+''" by (auto simp: is_digit_def)
  moreover have "nat_of_text (dec n) = Inr n"
    using is_digit_dec [of n] by (simp add: nat_of_text_def split_on_no_sep)
  ultimately show ?thesis
    using strip_digits [OF is_digit_dec, of n] by (simp add: int_of_text_def d)
qed

lemma rstrip_bracket: "CHR '']'' \<notin> set s \<Longrightarrow> rstrip_char CHR '']'' (s @ '']'') = s"
  by (cases s rule: rev_cases) (auto simp: rstrip_char_def)

lemma follow_part_step:
  assumes "plain_step x"
  shows "follow_part (step_text x) v = take_step x v"
proof (cases x)
  case (FieldStep k)
  with assms show ?thesis by (simp add: follow_part_def plain_step_def)
next
  case (ItemStep k i)
  then have "split_on CHR ''['' (step_text x) = [k, dec i @ '']'']"
    using assms by (simp add: plain_step_def split_on_append_sep split_on_no_sep)
  moreover have "rstrip_char CHR '']'' (dec i @ '']'') = dec i"
    by (rule rstrip_bracket) simp
  ultimately show ?thesis
    using ItemStep by (cases "required_key v k")
      (auto simp: follow_part_def int_of_text_dec py_item_def py_nth_def split: pyval.split)
qed

lemma follow_parts_steps:
  "list_all plain_step xs \<Longrightarrow> follow_parts (map step_text xs) v = take_steps xs v"
  by (induction xs arbitrary: v) (simp_all add: follow_part_step sum_bind_def split: sum.split)

lemma step_text_no_dot: "plain_step x \<Longrightarrow> CHR ''.'' \<notin> set (step_text x)"
  by (cases x) (auto simp: plain_step_def)

lemma split_path:
  "xs \<noteq> [] \<Longrightarrow> list_all plain_step xs \<Longrightarrow> split_on CHR ''.'' (join ''.'' (map step_text xs)) = map step_text xs"
proof (induction xs)
  case (Cons x xs)
  then have "CHR ''.'' \<notin> set (step_text x)" by (simp add: step_text_no_dot)
  with Cons show ?case
    by (cases xs) (simp_all add: split_on_no_sep split_on_append_sep)
qed simp

text \<open>The path of a field that is written as keys joined by dots, with an index in brackets where the value of a
  key is a list, is followed key by key and index by index: \<open>get_field_from_resource\<close> reads what the steps say, or
  raises what the first step that cannot be taken raises.
\<close>

lemma field_paths_are_followed:
  assumes "xs \<noteq> []" and "list_all plain_step xs"
  shows "get_field_from_resource v (join ''.'' (map step_text xs)) = take_steps xs v"
  by (simp add: get_field_from_resource_def split_path [OF assms] follow_parts_steps [OF assms(2)])

definition agent_with_interface :: pyval where
  "agent_with_interface = PDict [(''status'', PDict [(''inventory'', PDict [(''interfaces'', PList
     [PDict [(''ipV4Addresses'', PList [PStr ''192.168.127.10/24''])]])])])]"

lemma field_paths_are_followed_witness:
  "get_field_from_resource agent_with_interface ''status.inventory.interfaces[0].ipV4Addresses[0]''
   = Inr (PStr ''192.168.127.10/24'')"
proof -
  let ?xs = "[FieldStep ''status'', FieldStep ''inventory'', ItemStep ''interfaces'' 0, ItemStep ''ipV4Addresses'' 0]"
  have zero: "dec 0 = ''0''" by code_simp
  have path: "join ''.'' (map step_text ?xs) = ''status.inventory.interfaces[0].ipV4Addresses[0]''"
    by (simp add: zero)
  have found: "take_steps ?xs agent_with_interface = Inr (PStr ''192.168.127.10/24'')"
    by (simp add: agent_with_interface_def required_key_def py_nth_def)
  have "get_field_from_resource agent_with_interface (join ''.'' (map step_text ?xs)) = take_steps ?xs agent_with_interface"
    by (rule field_paths_are_followed) (simp_all add: plain_step_def)
  then show ?thesis by (simp only: path found)
qed

subsection \<open>The removal tolerates everything missing but the image set\<close>

lemma delete_now_app:
  "delete_now reason e r s =
     (let c = delete_call r; answer = e_do e (hist s) c in
      (if pt_wrapped s \<and> is_wrapped r \<and> answer = Inl ApiException \<and> reason (hist s @ [c]) = ''Not Found''
       then Inr () else answer, s\<lparr>hist := hist s @ [c]\<rparr>))"
  by (auto simp: delete_now_def suppress_not_found_error_def try_except_def prog_simps delete_resource_app Let_def
      split: sum.splits)

lemma delete_all_now:
  assumes "\<And>h r. r \<in> set rs \<Longrightarrow> e_do e h (delete_call r) = Inr ()
      \<or> e_do e h (delete_call r) = Inl ApiException \<and> reason (h @ [delete_call r]) = ''Not Found''"
    and "\<And>r. r \<in> set rs \<Longrightarrow> is_wrapped r" and "pt_wrapped s"
  shows "for_each (delete_now reason e) rs s = (Inr (), s\<lparr>hist := hist s @ map delete_call rs\<rparr>)"
  using assms
proof (induction rs arbitrary: s)
  case (Cons r rs)
  have "delete_now reason e r s = (Inr (), s\<lparr>hist := hist s @ [delete_call r]\<rparr>)"
    using Cons.prems(1) [of r "hist s"] Cons.prems(2) [of r] Cons.prems(3) by (auto simp: delete_now_app Let_def)
  then show ?case using Cons by (simp add: prog_simps)
qed (simp add: prog_simps)

lemma keeps_calls_deployment_list_agents [intro]: "keeps only_calls (deployment_list_agents e cluster ns)"
  unfolding deployment_list_agents_def agent_list_def crd_list_def ask_call_def
  by (intro calls_intros keeps_calls_ext)

lemma only_calls_wrapped: "only_calls s t \<Longrightarrow> pt_wrapped t = pt_wrapped s"
  by (cases s; cases t; simp add: only_calls_def)

lemma namespace_resources_wrapped:
  "r \<in> set (namespace_resources name namespace secret_name infraenv_name nmstate_name agents) \<Longrightarrow> is_wrapped r"
  by (auto simp: namespace_resources_def)

text \<open>The removal of a namespace's resources deletes the agents, the deployment, the secret, the environment and the
  network configuration, each once and whether or not they are there, and the image set last, whose deletion alone
  decides: a missing image set is an error. Afterwards the deletions of the whole process go on to ignore objects that
  are not found.
\<close>

lemma only_a_missing_image_set_is_noticed:
  fixes s :: patched_world
  assumes listed: "deployment_list_agents e (plain_ref name namespace) None (s\<lparr>pt_wrapped := True\<rparr>) = (Inr agents, t)"
    and missing: "\<And>h r. is_wrapped r \<Longrightarrow> e_do e h (delete_call r) = Inr ()
      \<or> e_do e h (delete_call r) = Inl ApiException \<and> reason (h @ [delete_call r]) = ''Not Found''"
    and run: "delete_kube_api_resources_for_namespace reason e name namespace secret_name infraenv_name nmstate_name
      image_set_name s = (q, u)"
  shows "hist u = hist t @ map delete_call (namespace_resources name namespace secret_name infraenv_name nmstate_name agents)
      @ [delete_call (ImageSetResource (plain_ref (name_or image_set_name (name @ ''-image-set'')) namespace))]
    \<and> q = e_do e (butlast (hist u)) (last (hist u)) \<and> pt_wrapped u"
proof -
  let ?rs = "namespace_resources name namespace secret_name infraenv_name nmstate_name agents"
  let ?img = "ImageSetResource (plain_ref (name_or image_set_name (name @ ''-image-set'')) namespace)"
  have "pt_wrapped t"
    using only_calls_wrapped [OF keepsD [OF keeps_calls_deployment_list_agents listed]] by simp
  moreover from this have "for_each (delete_now reason e) ?rs t = (Inr (), t\<lparr>hist := hist t @ map delete_call ?rs\<rparr>)"
    using missing by (intro delete_all_now) (auto dest: namespace_resources_wrapped)
  ultimately have "q = e_do e (hist t @ map delete_call ?rs) (delete_call ?img)"
    "u = t\<lparr>hist := hist t @ map delete_call ?rs @ [delete_call ?img]\<rparr>"
    using run listed
    by (simp_all add: delete_kube_api_resources_for_namespace_def prog_simps delete_now_app Let_def)
  then show ?thesis
    using \<open>pt_wrapped t\<close> by (simp add: butlast_append)
qed

definition nothing_there :: env where
  "nothing_there = (reading_env [])\<lparr>e_ask := \<lambda>_ _. Inr (PDict []), e_do := \<lambda>_ _. Inl ApiException\<rparr>"

lemma only_a_missing_image_set_is_noticed_witness:
  "fst (delete_kube_api_resources_for_namespace (\<lambda>_. ''Not Found'') nothing_there ''c'' ''n'' None None None None
     \<lparr>hist = [], pt_wrapped = False\<rparr>) = Inl ApiException"
proof -
  let ?s = "\<lparr>hist = [], pt_wrapped = False\<rparr>"
  obtain q u where run: "delete_kube_api_resources_for_namespace (\<lambda>_. ''Not Found'') nothing_there ''c'' ''n'' None None
      None None ?s = (q, u)" by fastforce
  obtain agents t where listed: "deployment_list_agents nothing_there (plain_ref ''c'' ''n'') None
      (?s\<lparr>pt_wrapped := True\<rparr>) = (Inr agents, t)"
    by (simp add: deployment_list_agents_def agent_list_def crd_list_def ask_call_def ext_app nothing_there_def items_of_def
        py_get_def prog_simps)
  have "q = e_do nothing_there (butlast (hist u)) (last (hist u))"
    by (rule only_a_missing_image_set_is_noticed [OF listed _ run, THEN conjunct2, THEN conjunct1]) (simp add: nothing_there_def)
  with run show ?thesis by (simp add: nothing_there_def)
qed

subsection \<open>The nodes that are waited for\<close>

definition node_ready :: "kube_node \<Rightarrow> bool" where
  "node_ready n \<longleftrightarrow> (case kn_conditions n of None \<Rightarrow> False | Some cs \<Rightarrow> (''Ready'', ''True'') \<in> set cs)"

lemma length_filter_eq: "distinct xs \<Longrightarrow> length (filter (\<lambda>x. x = a) xs) = (if a \<in> set xs then 1 else 0)"
  by (induction xs) auto

lemma ready_nodes_counted:
  "filter_node_by_ready_status ns = Inr items \<Longrightarrow> \<forall>n \<in> set ns. \<forall>cs. kn_conditions n = Some cs \<longrightarrow> distinct (map fst cs)
     \<Longrightarrow> length items = length (filter node_ready ns)"
proof (induction ns arbitrary: items)
  case (Cons n ns)
  then obtain cs where cs: "kn_conditions n = Some cs" by (auto split: option.splits)
  with Cons.prems obtain rest where rest: "filter_node_by_ready_status ns = Inr rest"
    "items = map (\<lambda>_. n) (filter (\<lambda>c. c = (''Ready'', ''True'')) cs) @ rest"
    by (auto simp: sum_bind_Inr_iff)
  have "distinct cs" using Cons.prems(2) cs by (auto simp: distinct_map)
  then show ?case
    using Cons.IH [OF rest(1)] Cons.prems(2) rest(2) cs length_filter_eq [of cs "(''Ready'', ''True'')"]
    by (auto simp: node_ready_def)
qed simp

lemma hosted_nodes_Inr:
  assumes "hosted_nodes client list_node no_nodes ready s = (Inr items, t)"
  shows "\<exists>u. client s = (Inr (), u) \<and> hist t = hist u @ [Controller ''list_node'' []]
    \<and> (case list_node (hist u) of
         Inr nodes \<Rightarrow> (if ready then filter_node_by_ready_status nodes else Inr nodes) = Inr items
       | Inl x \<Rightarrow> is_Exception x \<and> no_nodes = Inr items)"
proof -
  obtain u where u: "client s = (Inr (), u)"
    using assms by (auto simp: hosted_nodes_def bindP_eq_Inr_iff)
  with assms show ?thesis
    by (cases "list_node (hist u)")
      (auto simp: hosted_nodes_def prog_simps try_except_def bindP_def ext_app split: if_splits)
qed

text \<open>A wait for ready nodes that ends well has just listed the nodes of the hosted cluster, and as many of them as were
  asked for are ready, where no node has two conditions of one type; or that listing has failed, and the list that
  stands for the failure has the length that was asked for.
\<close>

lemma waited_nodes_are_ready:
  fixes wait :: "(hosted_world, unit) waiter"
  assumes "waits_by wait"
    and single: "\<And>h nodes n cs. list_node h = Inr nodes \<Longrightarrow> n \<in> set nodes \<Longrightarrow> kn_conditions n = Some cs
      \<Longrightarrow> distinct (map fst cs)"
    and run: "wait_for_nodes wait client list_node no_nodes node_count True s = (Inr (), t)"
  shows "\<exists>h. hist t = h @ [Controller ''list_node'' []]
    \<and> (case list_node h of
         Inr nodes \<Rightarrow> int (length (filter node_ready nodes)) = node_count
       | Inl x \<Rightarrow> is_Exception x \<and> (\<exists>ns. no_nodes = Inr ns \<and> int (length ns) = node_count))"
proof -
  obtain s' where "bindP (hosted_nodes client list_node no_nodes True)
      (\<lambda>items. ret (truthy (int (length items) = node_count))) s' = (Inr (Some ()), t)"
    using wait_Inr [where wait = wait, OF assms(1) run [unfolded wait_for_nodes_def]] by blast
  then obtain items where items: "hosted_nodes client list_node no_nodes True s' = (Inr items, t)"
    "int (length items) = node_count"
    by (auto simp: bindP_eq_Inr_iff prog_simps)
  from hosted_nodes_Inr [OF this(1)] obtain u :: hosted_world where u: "hist t = hist u @ [Controller ''list_node'' []]"
    "case list_node (hist u) of Inr nodes \<Rightarrow> filter_node_by_ready_status nodes = Inr items
       | Inl x \<Rightarrow> is_Exception x \<and> no_nodes = Inr items"
    unfolding if_True by blast
  then show ?thesis
    using items(2) ready_nodes_counted single by (intro exI [of _ "hist u"]) (auto split: sum.splits)
qed

definition two_ready_nodes :: "kube_node list" where
  "two_ready_nodes = [\<lparr>kn_name = ''a'', kn_conditions = Some [(''Ready'', ''True''), (''DiskPressure'', ''False'')]\<rparr>,
     \<lparr>kn_name = ''b'', kn_conditions = Some [(''Ready'', ''False'')]\<rparr>,
     \<lparr>kn_name = ''c'', kn_conditions = Some [(''Ready'', ''True'')]\<rparr>]"

lemma waited_nodes_are_ready_witness:
  "\<exists>h. [Controller ''list_node'' []] = h @ [Controller ''list_node'' []]
     \<and> int (length (filter node_ready two_ready_nodes)) = 2"
proof -
  let ?s = "\<lparr>hist = [], hs_kubeconfig_path = ''k'', hs_client = Some ''k'', hs_registered = []\<rparr>"
  have run: "wait_for_nodes (poll_upto 0) (ret ()) (\<lambda>_. Inr two_ready_nodes) (Inr []) 2 True ?s
      = (Inr (), ?s\<lparr>hist := [Controller ''list_node'' []]\<rparr>)"
    by (simp add: wait_for_nodes_def hosted_nodes_def poll_upto.simps two_ready_nodes_def try_except_def bindP_def prog_simps
        ext_app)
  show ?thesis
    using waited_nodes_are_ready [OF waits_by_poll_upto _ run] by (fastforce simp: two_ready_nodes_def)
qed

subsection \<open>What a context deletes\<close>

lemma delete_all_resources_done:
  "delete_all_resources reason e ignore rs s = (Inr (), t) \<Longrightarrow> t = s\<lparr>hist := hist s @ map delete_call rs\<rparr>"
proof (induction rs arbitrary: s)
  case (Cons r rs)
  then obtain u where "tolerating reason ''Not Found'' ignore (delete_resource e r) s = (Inr (), u)"
    "delete_all_resources reason e ignore rs u = (Inr (), t)"
    by (auto simp: delete_all_resources_def bindP_eq_Inr_iff)
  with Cons.IH [OF this(2)] show ?case
    by (auto simp: tolerating_app delete_resource_app split: sum.splits if_splits)
qed (simp add: delete_all_resources_def prog_simps)

lemma within_context_done:
  assumes "within_context reason in_order e True body s = (Inr x, t)"
  shows "\<exists>u. body (s\<lparr>hs_registered := []\<rparr>) = (Inr x, u)
    \<and> t = u\<lparr>hist := hist u @ map delete_call (in_order (hs_registered u))\<rparr>"
proof -
  obtain q u where u: "body (s\<lparr>hs_registered := []\<rparr>) = (q, u)" by force
  obtain p v where p: "delete_all_resources reason e True (in_order (hs_registered u)) u = (p, v)" by force
  have "q = Inr x" "p = Inr ()" "t = v"
    using assms u p
    by (auto simp: within_context_def prog_simps try_finally_def context_exit_def split: if_splits sum.splits)
  with u p delete_all_resources_done show ?thesis by blast
qed

lemma only_calls_registered: "only_calls s t \<Longrightarrow> hs_registered t = hs_registered s"
  by (cases s; cases t; simp add: only_calls_def)

lemma keeps_calls_read_secret: "keeps only_calls (read_secret e r)"
  unfolding read_secret_def ask_call_def by (rule keeps_calls_ext)

lemma keeps_calls_get_kubeconfig_path: "keeps only_calls (get_kubeconfig_path environ cwd e name)"
  unfolding get_kubeconfig_path_def Let_def by (intro calls_intros keeps_calls_do)

lemma hosted_kubeconfig_registers:
  assumes "hosted_kubeconfig_path decode environ cwd e name s = (Inr p, t)" and "hs_kubeconfig_path s = []"
  shows "SecretResource (hosted_secret name) \<in> set (hs_registered t)" and "hs_kubeconfig_path t = p"
proof -
  let ?k = "s\<lparr>hs_registered := hs_registered s @ [SecretResource (hosted_secret name)]\<rparr>"
  from assms obtain v t1 base t2 t3 t4 path contents where steps:
    "read_secret e (hosted_secret name) ?k = (Inr v, t1)" "get_kubeconfig_path environ cwd e name t1 = (Inr base, t2)"
    "do_call e (WriteFile path) t2 = (Inr (), t3)" "act e ''file.write'' [PStr path, PStr contents] t3 = (Inr (), t4)"
    and t: "t = t4\<lparr>hs_kubeconfig_path := path\<rparr>" "p = path"
    by (auto simp: hosted_kubeconfig_path_def registers_def bindP_eq_Inr_iff prog_simps Let_def)
  have "only_calls ?k t4"
    by (rule calls.rel_trans [OF keepsD [OF keeps_calls_read_secret steps(1)]
      calls.rel_trans [OF keepsD [OF keeps_calls_get_kubeconfig_path steps(2)]
      calls.rel_trans [OF keepsD [OF keeps_calls_do(1) steps(3)] keepsD [OF keeps_calls_do(2) steps(4)]]]])
  then have "hs_registered t4 = hs_registered ?k" by (rule only_calls_registered)
  with t show "SecretResource (hosted_secret name) \<in> set (hs_registered t)" "hs_kubeconfig_path t = p"
    by simp_all
qed


definition secret_env :: env where
  "secret_env = (reading_env [])\<lparr>e_ask := \<lambda>_ _. Inr (PDict [(''data'', PDict [(''kubeconfig'', PStr ''a'')])]),
     e_do := \<lambda>_ _. Inr ()\<rparr>"


text \<open>A watch that never sees the pod ready ends like one that does: nothing is raised when its time is over.\<close>

lemma unready_watch_ends_quietly:
  "\<forall>ev \<in> set events. \<exists>ready. ev = Some ready \<and> False \<in> set ready \<Longrightarrow> watch_pods e events s = (Inr (), s)"
proof (induction events)
  case (Cons ev events)
  then obtain ready where "ev = Some ready" "False \<in> set ready" by auto
  moreover from this have "length (filter (\<lambda>r. r) ready) < length ready"
    by (intro length_filter_less) auto
  ultimately show ?case using Cons by simp
qed (simp add: prog_simps)

text \<open>A node that has the condition twice is counted twice.\<close>

lemma doubly_ready_node:
  "kn_conditions n = Some [(''Ready'', ''True''), (''Ready'', ''True'')] \<Longrightarrow> filter_node_by_ready_status [n] = Inr [n, n]"
  by simp

end
