(* ===== verification/Logger.thy ===== *)
theory Logger
  imports Utils
begin

text \<open>
  \<open>service_client/logger\<close>: the formatter that takes secrets out of what is logged, the handlers that write it, and the
  level. The regular expressions of the formatter are written out as matchers; a substitution goes through the text
  from the left and never looks again at what it has replaced.
\<close>

section \<open>Substitutions\<close>

text \<open>
  A matcher looks for a match at the beginning of a text and gives what replaces it and the text after it. Every match
  here takes at least one character.
\<close>

type_synonym matcher = "string \<Rightarrow> (string \<times> string) option"

function re_sub :: "matcher \<Rightarrow> string \<Rightarrow> string" where
  "re_sub m s =
     (case m s of
        Some (r, rest) \<Rightarrow> if length rest < length s then r @ re_sub m rest else s
      | None \<Rightarrow> (case s of [] \<Rightarrow> [] | c # cs \<Rightarrow> c # re_sub m cs))"
  by pat_completeness auto
termination by (relation "measure (\<lambda>(m, s). length s)") auto

declare re_sub.simps [simp del]

definition quote :: char where "quote = CHR 0x27"

text \<open>What \<open>\s\<close> matches in a string.\<close>

definition is_white :: "char \<Rightarrow> bool" where
  "is_white c \<longleftrightarrow> is_space c \<or> of_char c \<in> {28, 29, 30, 31, 133, 160 :: nat}"

text \<open>\<open>(.*?)'\<close> after an opening quote: up to the next quote, which has to come before the end of the line.\<close>

fun after_line_quote :: "string \<Rightarrow> string option" where
  "after_line_quote [] = None"
| "after_line_quote (c # cs) =
     (if c = quote then Some cs else if c = newline then None else after_line_quote cs)"

text \<open>\<open>[^']*'\<close>: up to the next quote.\<close>

fun after_quote :: "string \<Rightarrow> string option" where
  "after_quote [] = None"
| "after_quote (c # cs) = (if c = quote then Some cs else after_quote cs)"

text \<open>\<open>('_pull_secret':\s+)'(.*?)'\<close> and its like: the key and the blanks stay.\<close>

definition dict_key :: "string \<Rightarrow> string" where
  "dict_key field = [quote] @ ''_'' @ field @ [quote] @ '':''"

definition dict_matcher :: "string \<Rightarrow> string \<Rightarrow> matcher" where
  "dict_matcher field label s =
     (let key = dict_key field; r = drop (length key) s; blanks = takeWhile is_white r; v = dropWhile is_white r in
      if startswith s key \<and> blanks \<noteq> [] \<and> v \<noteq> [] \<and> hd v = quote then
        map_option (\<lambda>rest. (key @ blanks @ [quote] @ ''*** '' @ label @ '' ***'' @ [quote], rest)) (after_line_quote (tl v))
      else None)"

text \<open>\<open>(pull_secret='[^']*(?=')')\<close> and its like: everything is replaced.\<close>

definition object_matcher :: "string \<Rightarrow> string \<Rightarrow> matcher" where
  "object_matcher field label s =
     (let key = field @ ''='' @ [quote] in
      if startswith s key then
        map_option (\<lambda>rest. (field @ '' = *** '' @ label @ '' ***'', rest)) (after_quote (drop (length key) s))
      else None)"

definition sensitive_fields :: "(string \<times> string) list" where
  "sensitive_fields = [(''pull_secret'', ''PULL_SECRET''), (''ssh_public_key'', ''SSH_KEY''),
     (''vsphere_username'', ''VSPHERE_USER''), (''vsphere_password'', ''VSPHERE_PASSWORD'')]"

definition sensitive_filter :: "string \<Rightarrow> string" where
  "sensitive_filter s =
     fold re_sub (map (\<lambda>(f, m). dict_matcher f m) sensitive_fields @ map (\<lambda>(f, m). object_matcher f m) sensitive_fields) s"

text \<open>\<open>format\<close> filters what the base class makes of a record.\<close>

definition sensitive_format :: "('r \<Rightarrow> string) \<Rightarrow> 'r \<Rightarrow> string" where
  "sensitive_format base record = sensitive_filter (base record)"

section \<open>Handlers\<close>

definition escape :: "string \<Rightarrow> string" where
  "escape colour = [CHR 0x1B] @ ''['' @ colour @ ''m''"

definition colour_reset :: string where "colour_reset = escape ''0''"

text \<open>The levels that have a colour; any other is a \<open>KeyError\<close>.\<close>

definition colour_of_level :: "int \<Rightarrow> exn + string" where
  "colour_of_level level =
     (case map_of [(10, escape ''0;34''), (20, colour_reset), (30, escape ''1;33''), (40, escape ''1;31''), (50, escape ''1;35'')]
        level of
      None \<Rightarrow> Inl (KeyError ''level'') | Some c \<Rightarrow> Inr c)"

text \<open>
  \<open>emit\<close>: a file always counts as a terminal. Whatever goes wrong is handed to the error handler of the library.
\<close>

definition emit :: "env \<Rightarrow> bool \<Rightarrow> string \<Rightarrow> int \<Rightarrow> string \<Rightarrow> ((call, 'z) world_scheme, unit) prog" where
  "emit e is_tty stream level message =
     try_except
       (thenP (if \<not> is_tty then act e ''stream.write'' [PStr stream, PStr message]
           else bindP (sum_prog (colour_of_level level)) (\<lambda>c.
             act e ''stream.write'' [PStr stream, PStr (c @ message @ colour_reset)]))
         (thenP (act e ''stream.write'' [PStr stream, PStr [newline]]) (act e ''stream.flush'' [PStr stream])))
       (\<lambda>x. if is_Exception x then act e ''handleError'' [PStr stream] else raise x)"

definition file_emit :: "env \<Rightarrow> string \<Rightarrow> int \<Rightarrow> string \<Rightarrow> ((call, 'z) world_scheme, unit) prog" where
  "file_emit e stream level message = emit e True stream level message"

text \<open>\<open>level_name\<close> is \<open>logging.getLevelName\<close>, a number for a name it knows and a text otherwise; 10 is \<open>DEBUG\<close>.\<close>

definition get_logging_level :: "environ \<Rightarrow> (string \<Rightarrow> string) \<Rightarrow> (string \<Rightarrow> pyval) \<Rightarrow> pyval" where
  "get_logging_level environ upper level_name =
     (case environ ''LOGGING_LEVEL'' of
        None \<Rightarrow> PInt 10 | Some level \<Rightarrow> if level = [] then PInt 10 else level_name (upper level))"

text \<open>\<open>SuppressAndLog\<close>: the listed exceptions end the block, with a warning that never fails itself.\<close>

definition suppress_and_log ::
  "(exn \<Rightarrow> bool) \<Rightarrow> env \<Rightarrow> ((call, 'z) world_scheme, unit) prog \<Rightarrow> ((call, 'z) world_scheme, unit) prog" where
  "suppress_and_log listed e m =
     try_except m (\<lambda>x. if listed x then suppressing (\<lambda>y. y \<noteq> Diverges) (act e ''log.warning'' []) else raise x)"

section \<open>Properties\<close>

lemma re_sub_skip:
  assumes "\<And>p q. pre = p @ q \<Longrightarrow> q \<noteq> [] \<Longrightarrow> m (q @ s) = None"
  shows "re_sub m (pre @ s) = pre @ re_sub m s"
  using assms
proof (induction pre)
  case (Cons c pre)
  have "m ((c # pre) @ s) = None" using Cons.prems [of "[]" "c # pre"] by simp
  moreover have "re_sub m (pre @ s) = pre @ re_sub m s"
    using Cons.prems by (intro Cons.IH) (metis append_Cons)
  ultimately show ?case by (subst re_sub.simps) simp
qed simp

lemma after_line_quote_value:
  "quote \<notin> set s \<Longrightarrow> newline \<notin> set s \<Longrightarrow> after_line_quote (s @ quote # rest) = Some rest"
  by (induction s) auto

lemma quote_not_white [simp]: "\<not> is_white quote"
  by (simp add: is_white_def is_space_def quote_def)

text \<open>A key ends with its only colon, so that an occurrence of it cannot begin before another one and end within it.\<close>

lemma key_starts_alone:
  assumes "startswith (q @ dict_key field @ s) (dict_key field)" and "q \<noteq> []" and "CHR '':'' \<notin> set field"
  shows "prefix (dict_key field) q"
proof (rule ccontr)
  let ?k = "dict_key field"
  assume "\<not> prefix ?k q"
  with prefix_append [THEN iffD1, OF assms(1)] obtain u where u: "?k = q @ u" "prefix u (?k @ s)" by blast
  with \<open>\<not> prefix ?k q\<close> have "u \<noteq> []" by auto
  have body: "?k = butlast ?k @ '':''" "CHR '':'' \<notin> set (butlast ?k)"
    using assms(3) by (simp_all add: dict_key_def quote_def butlast_append)
  have "last u = CHR '':''" using u(1) \<open>u \<noteq> []\<close> body(1) by (metis last_appendR last_snoc)
  have short: "length u < length ?k" using u(1) assms(2) by simp
  have "prefix u ?k"
    by (rule prefix_length_prefix [OF u(2)]) (use short in simp_all)
  with short have "prefix u (butlast ?k)"
    using body(1) by (metis prefix_snoc less_irrefl)
  then have "last u \<in> set (butlast ?k)" using \<open>u \<noteq> []\<close> by (metis last_in_set set_mono_prefix subsetD)
  with \<open>last u = CHR '':''\<close> body(2) show False by simp
qed

lemma masked_field:
  assumes "\<not> occurs_in (dict_key field) pre" and "CHR '':'' \<notin> set field"
    and "quote \<notin> set secret" and "newline \<notin> set secret" and "blanks \<noteq> []" and "list_all is_white blanks"
  shows "re_sub (dict_matcher field label) (pre @ dict_key field @ blanks @ [quote] @ secret @ [quote] @ post)
    = pre @ dict_key field @ blanks @ [quote] @ ''*** '' @ label @ '' ***'' @ [quote] @ re_sub (dict_matcher field label) post"
proof -
  let ?m = "dict_matcher field label" let ?k = "dict_key field"
  let ?t = "blanks @ [quote] @ secret @ [quote] @ post"
  have "?m (q @ ?k @ ?t) = None" if "pre = p @ q" "q \<noteq> []" for p q
  proof -
    have "\<not> startswith (q @ ?k @ ?t) ?k"
    proof
      assume "startswith (q @ ?k @ ?t) ?k"
      from key_starts_alone [OF this that(2) assms(2)] have "occurs_in ?k pre"
        unfolding that(1) by (auto simp: prefix_def)
      with assms(1) show False ..
    qed
    then show ?thesis by (simp add: dict_matcher_def Let_def)
  qed
  then have "re_sub ?m (pre @ ?k @ ?t) = pre @ re_sub ?m (?k @ ?t)"
    by (rule re_sub_skip) simp_all
  moreover have "takeWhile is_white ?t = blanks" "dropWhile is_white ?t = [quote] @ secret @ [quote] @ post"
    using assms(6) by (simp_all add: list_all_iff takeWhile_append dropWhile_append is_white_def is_space_def quote_def)
  then have "?m (?k @ ?t) = Some (?k @ blanks @ [quote] @ ''*** '' @ label @ '' ***'' @ [quote], post)"
    using assms(3-5) after_line_quote_value by (simp add: dict_matcher_def Let_def)
  then have "re_sub ?m (?k @ ?t) = (?k @ blanks @ [quote] @ ''*** '' @ label @ '' ***'' @ [quote]) @ re_sub ?m post"
    by (subst re_sub.simps) simp
  ultimately show ?thesis by simp
qed

text \<open>C26: What is logged does not depend on a pull secret that stands in it as a dictionary shows it: two texts that differ
  in the secret alone, a value in single quotes on one line after the first occurrence of its key, leave the formatter
  as one and the same text.
\<close>

theorem pull_secret_is_not_logged:
  assumes "\<not> occurs_in (dict_key ''pull_secret'') pre" and "blanks \<noteq> []" and "list_all is_white blanks"
    and "quote \<notin> set secret" and "newline \<notin> set secret" and "quote \<notin> set other" and "newline \<notin> set other"
  shows "sensitive_filter (pre @ dict_key ''pull_secret'' @ blanks @ [quote] @ secret @ [quote] @ post)
    = sensitive_filter (pre @ dict_key ''pull_secret'' @ blanks @ [quote] @ other @ [quote] @ post)"
  unfolding sensitive_filter_def sensitive_fields_def
  using masked_field [OF assms(1) _ assms(4,5,2,3)] masked_field [OF assms(1) _ assms(6,7,2,3)] by simp

theorem pull_secret_is_not_logged_witness:
  "sensitive_filter (''{'' @ dict_key ''pull_secret'' @ '' '' @ [quote] @ ''hunter2'' @ [quote] @ ''}'')
   = sensitive_filter (''{'' @ dict_key ''pull_secret'' @ '' '' @ [quote] @ ''other'' @ [quote] @ ''}'')"
proof -
  have "length (dict_key ''pull_secret'') = 15" by (simp add: dict_key_def)
  then have "\<not> occurs_in (dict_key ''pull_secret'') ''{''" by (auto dest: sublist_length_le)
  then show ?thesis
    by (rule pull_secret_is_not_logged)
      (auto simp: quote_def newline_def is_white_def is_space_def)
qed

text \<open>
  A secret with an apostrophe in it is shown between double quotes, which no expression knows: it is logged as it is.
\<close>

definition shown_password :: string where
  "shown_password = dict_key ''vsphere_password'' @ '' '' @ [CHR 0x22] @ ''it'' @ [quote] @ ''s'' @ [CHR 0x22]"

lemma secret_with_apostrophe_is_logged: "sensitive_filter shown_password = shown_password"
  by code_simp

text \<open>A file handler colours everything; a level without a colour is not written at all.\<close>

lemma unknown_level_is_not_written:
  assumes "colour_of_level level = Inl x" and "is_Exception x"
  shows "file_emit e stream level message s = act e ''handleError'' [PStr stream] s"
  using assms by (simp add: file_emit_def emit_def try_except_def bindP_def prog_simps)

end
