(* ===== verification/Virsh.thy ===== *)
theory Virsh
  imports Terraform
begin

text \<open>
  \<open>virsh_cleanup/virsh_cleanup\<close>: the removal of the domains, pools and networks of the libvirt of this machine that
  match a filter and are not on a list of names to skip. The filter is a command of the shell, whose output is an
  answer of the outside.
\<close>

section \<open>Commands\<close>

definition filtered :: "string \<Rightarrow> string list \<Rightarrow> string" where
  "filtered command resource_filter =
     (if resource_filter = [] then command
      else command @ ''| grep -E '' @ [CHR 0x22] @ join ''|'' resource_filter @ [CHR 0x22])"

text \<open>A command that fails is not noticed: \<open>check\<close> is false everywhere.\<close>

definition virsh_run :: "env \<Rightarrow> string \<Rightarrow> string list \<Rightarrow> ((call, 'z) world_scheme, string) prog" where
  "virsh_run e command resource_filter =
     (let c = filtered command resource_filter
      in bindP (ext (\<lambda>h. e_run e h c) (ShellCommand c)) (\<lambda>p. ret (strip (p_out p))))"

definition virsh_do :: "env \<Rightarrow> string \<Rightarrow> ((call, 'z) world_scheme, unit) prog" where
  "virsh_do e command = bindP (virsh_run e command []) (\<lambda>_. ret ())"

definition virsh :: string where "virsh = ''virsh -c qemu:///system ''"

section \<open>Domains, volumes, pools and networks\<close>

definition clean_domain :: "env \<Rightarrow> string list \<Rightarrow> string \<Rightarrow> ((call, 'z) world_scheme, unit) prog" where
  "clean_domain e skip_list domain =
     whenP (domain \<noteq> [] \<and> domain \<notin> set skip_list)
       (thenP (virsh_do e (virsh @ ''destroy '' @ domain)) (virsh_do e (virsh @ ''undefine --nvram '' @ domain)))"

definition clean_domains :: "env \<Rightarrow> string list \<Rightarrow> string list \<Rightarrow> ((call, 'z) world_scheme, unit) prog" where
  "clean_domains e skip_list resource_filter =
     bindP (virsh_run e (virsh @ ''list --all --name'') resource_filter) (\<lambda>out.
       for_each (clean_domain e skip_list) (filter (\<lambda>l. l \<noteq> []) (splitlines out)))"

text \<open>A line of the listing has a name and a path; a blank in either is a \<open>ValueError\<close>.\<close>

definition clean_volume :: "env \<Rightarrow> string \<Rightarrow> string \<Rightarrow> ((call, 'z) world_scheme, unit) prog" where
  "clean_volume e pool volume_with_path =
     (case words volume_with_path of
        [volume, _] \<Rightarrow> virsh_do e (virsh @ ''vol-delete --pool '' @ pool @ '' '' @ volume)
      | _ \<Rightarrow> raise (ValueError ''unpack''))"

text \<open>\<open>str.splitlines\<close> takes a carriage return and a line feed for one break.\<close>

fun one_break :: "string \<Rightarrow> string" where
  "one_break [] = []"
| "one_break [c] = [c]"
| "one_break (c # d # cs) =
     (if c = CHR 0x0D \<and> d = newline then newline # one_break cs else c # one_break (d # cs))"

definition clean_volumes :: "env \<Rightarrow> string \<Rightarrow> ((call, 'z) world_scheme, unit) prog" where
  "clean_volumes e pool =
     bindP (virsh_run e (virsh @ ''vol-list '' @ pool @ '' | tail -n +3'') []) (\<lambda>out.
       for_each (clean_volume e pool) (if out = [] then [] else splitlines (one_break out)))"

definition clean_pool :: "env \<Rightarrow> string list \<Rightarrow> string \<Rightarrow> ((call, 'z) world_scheme, unit) prog" where
  "clean_pool e skip_list pool =
     whenP (pool \<noteq> [] \<and> pool \<notin> set skip_list)
       (thenP (clean_volumes e pool)
       (thenP (virsh_do e (virsh @ ''pool-destroy '' @ pool)) (virsh_do e (virsh @ ''pool-undefine '' @ pool))))"

definition clean_pools :: "env \<Rightarrow> string list \<Rightarrow> string list \<Rightarrow> ((call, 'z) world_scheme, unit) prog" where
  "clean_pools e skip_list resource_filter =
     bindP (virsh_run e (virsh @ ''pool-list --all --name'') resource_filter) (\<lambda>out.
       for_each (clean_pool e skip_list) (filter (\<lambda>l. l \<noteq> []) (splitlines out)))"

definition clean_network :: "env \<Rightarrow> string list \<Rightarrow> string \<Rightarrow> ((call, 'z) world_scheme, unit) prog" where
  "clean_network e skip_list net =
     whenP (net \<noteq> [] \<and> net \<notin> set skip_list)
       (thenP (virsh_do e (virsh @ ''net-destroy '' @ net)) (virsh_do e (virsh @ ''net-undefine '' @ net)))"

definition clean_networks :: "env \<Rightarrow> string list \<Rightarrow> string list \<Rightarrow> ((call, 'z) world_scheme, unit) prog" where
  "clean_networks e skip_list resource_filter =
     bindP (virsh_run e (virsh @ ''net-list --all --name'') resource_filter) (\<lambda>out.
       for_each (clean_network e skip_list) (filter (\<lambda>l. l \<noteq> []) (splitlines out)))"

definition clean_virsh_resources :: "env \<Rightarrow> string list \<Rightarrow> string list \<Rightarrow> ((call, 'z) world_scheme, unit) prog" where
  "clean_virsh_resources e skip_list resource_filter =
     file_lock_context e ''/tmp/src.lock''
       (thenP (clean_domains e skip_list resource_filter)
       (thenP (clean_pools e skip_list resource_filter) (clean_networks e skip_list resource_filter)))"

section \<open>The command line\<close>

definition DEFAULT_SKIP_LIST :: "string list" where "DEFAULT_SKIP_LIST = [''default'']"

definition minikube_names :: "string list" where "minikube_names = [''minikube'', ''minikube-net'']"

text \<open>The options \<open>--minikube\<close> and \<open>--filter\<close>; any other choice, \<open>--all\<close> included, spares minikube.\<close>

definition virsh_cleanup_main :: "env \<Rightarrow> bool \<Rightarrow> string list option \<Rightarrow> ((call, 'z) world_scheme, unit) prog" where
  "virsh_cleanup_main e minikube given =
     (if minikube then clean_virsh_resources e DEFAULT_SKIP_LIST [''minikube'']
      else case given of
        Some (f # fs) \<Rightarrow> clean_virsh_resources e DEFAULT_SKIP_LIST (f # fs)
      | _ \<Rightarrow> clean_virsh_resources e (DEFAULT_SKIP_LIST @ minikube_names) [])"

section \<open>Properties\<close>

text \<open>What is removed by name: domains, pools and networks.\<close>

definition removal_commands :: "string \<Rightarrow> string set" where
  "removal_commands name = {virsh @ c @ name | c. c \<in> {''destroy '', ''undefine --nvram '', ''pool-destroy '',
     ''pool-undefine '', ''net-destroy '', ''net-undefine ''}}"

text \<open>Between two states there are only calls, and none of them removes one of the names.\<close>

definition spares :: "string set \<Rightarrow> (call, 'z) world_scheme \<Rightarrow> (call, 'z) world_scheme \<Rightarrow> bool" where
  "spares names s t \<longleftrightarrow>
     (\<exists>cs. hist t = hist s @ cs \<and> (\<forall>n \<in> names. \<forall>c \<in> removal_commands n. ShellCommand c \<notin> set cs))"

interpretation sparing: state_rel "spares names :: (call, 'z) world_scheme \<Rightarrow> _" for names
proof
  fix s t u :: "(call, 'z) world_scheme"
  show "spares names s s" by (simp add: spares_def)
  assume "spares names s t" "spares names t u"
  then obtain cs ds where "hist t = hist s @ cs" "hist u = hist t @ ds"
    "\<forall>n \<in> names. \<forall>c \<in> removal_commands n. ShellCommand c \<notin> set cs"
    "\<forall>n \<in> names. \<forall>c \<in> removal_commands n. ShellCommand c \<notin> set ds"
    by (auto simp: spares_def)
  then show "spares names s u"
    by (intro spares_def [THEN iffD2] exI [of _ "cs @ ds"]) simp
qed

lemma spares_ext: "(\<And>n d. n \<in> names \<Longrightarrow> d \<in> removal_commands n \<Longrightarrow> c \<noteq> ShellCommand d) \<Longrightarrow> keeps (spares names) (ext f c)"
  by (auto simp: keeps_def ext_def spares_def)

lemma spares_virsh_do:
  "(\<And>n. n \<in> names \<Longrightarrow> c \<notin> removal_commands n) \<Longrightarrow> keeps (spares names) (virsh_do e c)"
  unfolding virsh_do_def virsh_run_def Let_def filtered_def
  by (intro sparing.keeps_intros) (auto intro!: spares_ext)

lemma spares_act: "keeps (spares names) (act e w args)" "keeps (spares names) (do_call e (WriteFile f))"
  by (auto simp: act_def do_call_def intro!: spares_ext)

lemma spares_listing:
  assumes "\<And>n. n \<in> names \<Longrightarrow> filtered c fs \<notin> removal_commands n"
  shows "keeps (spares names) (virsh_run e c fs)"
  unfolding virsh_run_def Let_def using assms by (intro sparing.keeps_intros) (auto intro!: spares_ext)

lemma spares_clean_domain: "keeps (spares (set skip)) (clean_domain e skip d)"
  by (cases "d \<in> set skip")
    (auto simp: clean_domain_def whenP_def removal_commands_def virsh_def
      intro!: sparing.keeps_intros spares_virsh_do)

lemma spares_clean_network: "keeps (spares (set skip)) (clean_network e skip d)"
  by (cases "d \<in> set skip")
    (auto simp: clean_network_def whenP_def removal_commands_def virsh_def
      intro!: sparing.keeps_intros spares_virsh_do)

lemma spares_clean_volumes: "keeps (spares names) (clean_volumes e pool)"
  unfolding clean_volumes_def clean_volume_def
  by (intro sparing.keeps_bindP sparing.keeps_for_each spares_listing)
    (auto simp: removal_commands_def virsh_def filtered_def split: list.split
      intro!: sparing.keeps_intros spares_virsh_do)

lemma spares_clean_pool: "keeps (spares (set skip)) (clean_pool e skip d)"
  by (cases "d \<in> set skip")
    (auto simp: clean_pool_def whenP_def removal_commands_def virsh_def
      intro!: sparing.keeps_intros spares_virsh_do spares_clean_volumes)

lemma spares_clean: "keeps (spares (set skip)) (clean_virsh_resources e skip fs)"
  unfolding clean_virsh_resources_def file_lock_context_def acquire_lock_def release_lock_def clean_domains_def
    clean_pools_def clean_networks_def
  by (intro sparing.keeps_intros spares_listing spares_clean_domain spares_clean_network spares_clean_pool)
    (auto simp: removal_commands_def virsh_def filtered_def split: if_splits intro!: spares_act sparing.keeps_intros)

text \<open>Whatever the listings of libvirt say and however the removal ends, no command removes a domain, a pool or a network
  that is on the list of names to skip.
\<close>

lemma skipped_names_survive:
  assumes "clean_virsh_resources e skip_list resource_filter s = (r, t)"
    and "name \<in> set skip_list" and "c \<in> removal_commands name"
  shows "\<exists>cs. hist t = hist s @ cs \<and> ShellCommand c \<notin> set cs"
  using keepsD [OF spares_clean assms(1)] assms(2,3) by (auto simp: spares_def)

definition two_domains :: env where
  "two_domains = \<lparr>e_list_clusters = \<lambda>_ _. Inl (External 0), e_get_cluster = \<lambda>_ _. Inl (External 0),
     e_list_hosts = \<lambda>_ _. Inl (External 0), e_list_infra_envs = \<lambda>_. Inl (External 0),
     e_register = \<lambda>_ _. Inl (External 0), e_get_bundle = \<lambda>_ _. Inl (External 0), e_readyz = \<lambda>_ _. Inl (External 0),
     e_do = \<lambda>_ _. Inr (), e_ask = \<lambda>_ _. Inr PNone,
     e_run = \<lambda>_ c. Inr \<lparr>p_out = (if c = virsh @ ''list --all --name'' then ''default'' @ [newline] @ ''a'' else []),
       p_err = [], p_rc = 0\<rparr>\<rparr>"

lemma two_domains_removed:
  "ShellCommand (virsh @ ''destroy a'')
     \<in> set (hist (snd (clean_virsh_resources two_domains [''default''] [] (\<lparr>hist = []\<rparr> :: call world))))"
  by code_simp

lemma skipped_names_survive_witness:
  "\<exists>r t. clean_virsh_resources two_domains [''default''] [] (\<lparr>hist = []\<rparr> :: call world) = (r, t)
     \<and> ShellCommand (virsh @ ''destroy a'') \<in> set (hist t) \<and> ShellCommand (virsh @ ''destroy default'') \<notin> set (hist t)"
proof -
  let ?s = "\<lparr>hist = []\<rparr> :: call world"
  obtain r t where run: "clean_virsh_resources two_domains [''default''] [] ?s = (r, t)" by force
  have "\<exists>cs. hist t = hist ?s @ cs \<and> ShellCommand (virsh @ ''destroy '' @ ''default'') \<notin> set cs"
    by (rule skipped_names_survive [OF run]) (auto simp: removal_commands_def)
  then have "ShellCommand (virsh @ ''destroy default'') \<notin> set (hist t)" by simp
  moreover have "ShellCommand (virsh @ ''destroy a'') \<in> set (hist t)"
    using arg_cong [OF run, of snd] two_domains_removed by simp
  ultimately show ?thesis using run by blast
qed

end
