(* ===== verification/TfNodes.thy ===== *)
theory TfNodes
  imports Virsh Clouds S390x Access
begin

text \<open>
  \<open>terraform_controller.py\<close>: the variables of the plan, and the making, preparing, starting and destroying of the
  machines. The controller's state is its parameters, the addresses of its masters, its configuration (one attribute
  of which it sets) and the list of names to skip of the module \<open>virsh_cleanup\<close>, which it changes. Counts in the
  configuration are integers, names are text. Random numbers and the text of an address are parameters.
\<close>

section \<open>The controller\<close>

datatype entity_kind = ClusterEntity | InfraEnvEntity | OtherEntity

record tf_nodes =
  tn_entity_name :: string
  tn_suffix :: string
  tn_folder :: string
  tn_kind :: entity_kind
  tn_entity :: config
  tn_asset :: config
  tn_net :: tf_config
  tn_libvirt_uri :: pyval
  tn_cwd :: string
  tn_attempts :: int
  tn_show_ip :: "ip \<Rightarrow> string"
  tn_show_cidr :: "cidr \<Rightarrow> string"
  tn_randint :: "call list \<Rightarrow> nat"
  tn_virtual_size :: "string \<Rightarrow> exn + string"

record tfn_state = "call world" +
  tn_params :: config
  tn_master_ips :: pyval
  tn_config :: config
  tn_skip_list :: "string list"

type_synonym ('z, 'a) tprog = "('z tfn_state_scheme, 'a) prog"

text \<open>\<open>kwargs.get(key, default)\<close>: an attribute that is there and \<open>None\<close> stays \<open>None\<close>.\<close>

definition kget :: "config \<Rightarrow> string \<Rightarrow> pyval \<Rightarrow> pyval" where
  "kget kwargs k d = (case dict_get kwargs k of None \<Rightarrow> d | Some v \<Rightarrow> v)"

definition or_default :: "pyval \<Rightarrow> pyval \<Rightarrow> pyval" where
  "or_default v d = (if v \<noteq> PNone then v else d)"

definition count_of :: "pyval \<Rightarrow> nat" where
  "count_of v = (case v of PInt i \<Rightarrow> nat i | PBool True \<Rightarrow> 1 | _ \<Rightarrow> 0)"

text \<open>\<open>BaseName\<close>: the suffix is only appended to the default prefix.\<close>

definition base_name_get :: "string \<Rightarrow> string \<Rightarrow> string \<Rightarrow> string" where
  "base_name_get default_prefix name_prefix name_suffix =
     (if name_prefix = default_prefix \<and> name_suffix \<noteq> [] then name_prefix @ ''-'' @ name_suffix else name_prefix)"

definition SUFFIX_LENGTH :: nat where "SUFFIX_LENGTH = 8"

definition get_name_suffix :: "string \<Rightarrow> string" where
  "get_name_suffix uuid4 = take SUFFIX_LENGTH uuid4"

definition base_name_init ::
  "(string \<Rightarrow> string \<Rightarrow> string) \<Rightarrow> string \<Rightarrow> string \<Rightarrow> string \<Rightarrow> string option \<Rightarrow> string option \<Rightarrow> string \<times> string" where
  "base_name_init getenv uuid4 env_var default_prefix name_prefix name_suffix =
     (case name_prefix of None \<Rightarrow> getenv env_var default_prefix | Some p \<Rightarrow> p,
      case name_suffix of None \<Rightarrow> get_name_suffix uuid4 | Some s \<Rightarrow> s)"

text \<open>\<open>utils/entity_name.py\<close>: the names of clusters, infrastructure environments and namespaces.\<close>

definition cluster_name_init ::
  "(string \<Rightarrow> string \<Rightarrow> string) \<Rightarrow> string \<Rightarrow> string option \<Rightarrow> string option \<Rightarrow> string \<times> string" where
  "cluster_name_init getenv uuid4 = base_name_init getenv uuid4 ''CLUSTER_NAME'' ''test-infra-cluster''"

definition infra_env_name_init ::
  "(string \<Rightarrow> string \<Rightarrow> string) \<Rightarrow> string \<Rightarrow> string option \<Rightarrow> string option \<Rightarrow> string \<times> string" where
  "infra_env_name_init getenv uuid4 = base_name_init getenv uuid4 ''INFRA_ENV_NAME'' ''test-infra-infra-env''"

definition spoke_namespace_init ::
  "(string \<Rightarrow> string \<Rightarrow> string) \<Rightarrow> string \<Rightarrow> string option \<Rightarrow> string option \<Rightarrow> string \<times> string" where
  "spoke_namespace_init getenv uuid4 = base_name_init getenv uuid4 ''SPOKE_NAMESPACE'' ''assisted-spoke-cluster''"

text \<open>The primary stack is the entity's; an entity is always there.\<close>

definition tfn_primary_stack :: "tf_nodes \<Rightarrow> pyval" where
  "tfn_primary_stack k = kget (tn_entity k) ''primary_stack'' (PStr ''ipv4'')"

definition net_of :: "tf_nodes \<Rightarrow> tf_config" where
  "net_of k = (tn_net k)\<lparr>tc_primary_stack := tfn_primary_stack k\<rparr>"

definition network_name :: "tf_nodes \<Rightarrow> config \<Rightarrow> string" where
  "network_name k c = text_of (cfg c ''network_name'') @ tn_suffix k"

definition tfn_create_tf_folder :: "env \<Rightarrow> entity_kind \<Rightarrow> string \<Rightarrow> string \<Rightarrow> ('z, string) kprog" where
  "tfn_create_tf_folder e kind name platform =
     (if kind = InfraEnvEntity then create_folder e name ''baremetal_infra_env'' else create_folder e name platform)"

text \<open>What making the controller does outside: the folder is made unless the configuration names one.\<close>

definition tfn_init ::
  "((call, 'z) world_scheme, unit) retrier \<Rightarrow> env \<Rightarrow> string \<Rightarrow> string \<Rightarrow> tf_nodes \<Rightarrow> config \<Rightarrow> ('z, tf_nodes) kprog" where
  "tfn_init retry e name_suffix uuid4 k c =
     bindP (if truth (cfg c ''tf_folder'') then ret (text_of (cfg c ''tf_folder''))
            else tfn_create_tf_folder e (tn_kind k) (tn_entity_name k) (text_of (cfg c ''tf_platform''))) (\<lambda>folder.
       thenP (init_tf retry e)
         (ret (k\<lparr>tn_suffix := (if name_suffix \<noteq> [] then name_suffix else get_name_suffix uuid4),
                 tn_folder := folder\<rparr>)))"

definition tfn_get_all_vars :: "tf_nodes \<Rightarrow> config \<Rightarrow> config" where
  "tfn_get_all_vars k c =
     dict_update (dict_update (dict_update [] c) (tn_entity k)) [(''cluster_name'', PStr (tn_entity_name k))]"

section \<open>Parameters\<close>

definition GB :: int where "GB = 10 ^ 9"

definition DEFAULT_BOOT_DEVICES :: pyval where
  "DEFAULT_BOOT_DEVICES = PList [PStr ''hd'', PStr ''cdrom'']"

definition HOST_PASSTHROUGH_CPU_MODE :: pyval where "HOST_PASSTHROUGH_CPU_MODE = PStr ''host-passthrough''"

definition appliance_params :: "(bool \<times> bool \<times> bool) option \<Rightarrow> config" where
  "appliance_params r = (case r of None \<Rightarrow> []
     | Some (masters, workers, arbiters) \<Rightarrow>
         [(''master_vtpm2'', PBool masters), (''worker_vtpm2'', PBool workers), (''arbiter_vtpm2'', PBool arbiters)])"

definition get_specific_tf_entity_params :: "tf_nodes \<Rightarrow> config" where
  "get_specific_tf_entity_params k =
     (case tn_kind k of
        ClusterEntity \<Rightarrow> [(''cluster_name'', PStr (tn_entity_name k)),
                          (''cluster_domain'', cfg (tn_entity k) ''base_dns_domain'')]
      | InfraEnvEntity \<Rightarrow> [(''infra_env_name'', PStr (tn_entity_name k))]
      | OtherEntity \<Rightarrow> [])"

definition address_keys :: "string list" where
  "address_keys = [''libvirt_master_ips'', ''libvirt_secondary_master_ips'', ''libvirt_worker_ips'',
     ''libvirt_secondary_worker_ips'', ''libvirt_arbiter_ips'', ''libvirt_secondary_arbiter_ips'']"

definition plain_params :: "tf_nodes \<Rightarrow> config \<Rightarrow> config \<Rightarrow> config" where
  "plain_params k c kwargs =
     [(''libvirt_worker_memory'', kget kwargs ''worker_memory'' PNone),
      (''libvirt_arbiter_memory'', kget kwargs ''arbiter_memory'' (PInt (8 * MiB_UNITS))),
      (''libvirt_master_memory'', kget kwargs ''master_memory'' (PInt DEFAULT_MASTER_MEMORY)),
      (''libvirt_worker_vcpu'', kget kwargs ''worker_vcpu'' (PInt DEFAULT_MASTER_CPU)),
      (''libvirt_arbiter_vcpu'', kget kwargs ''arbiter_vcpu'' (PInt 2)),
      (''libvirt_master_vcpu'', kget kwargs ''master_vcpu'' (PInt DEFAULT_MASTER_CPU)),
      (''worker_count'', kget kwargs ''workers_count'' (PInt 0)),
      (''arbiter_count'', kget kwargs ''arbiters_count'' (PInt 0)),
      (''master_count'', kget kwargs ''masters_count'' (PInt 3)),
      (''machine_cidr'', PStr (tn_show_cidr k (primary_machine_cidr (net_of k)))),
      (''libvirt_network_name'', PStr (network_name k c)),
      (''libvirt_network_mtu'', kget kwargs ''network_mtu'' (PInt 1500)),
      (''libvirt_dns_records'', kget kwargs ''dns_records'' (PDict [])),
      (''libvirt_network_if'', cfg (tn_asset k) ''libvirt_network_if''),
      (''libvirt_worker_disk'', kget kwargs ''worker_disk'' (PInt (20 * GB))),
      (''libvirt_arbiter_disk'', kget kwargs ''arbiter_disk'' (PInt (20 * GB))),
      (''libvirt_master_disk'', kget kwargs ''master_disk'' (PInt (100 * GB))),
      (''libvirt_secondary_network_name'', PStr (''test-infra-secondary-network-'' @ tn_suffix k)),
      (''libvirt_storage_pool_path'', kget kwargs ''storage_pool_path'' (PStr (path_join (tn_cwd k) ''storage_pool''))),
      (''libvirt_secondary_network_if'', cfg (tn_asset k) ''libvirt_secondary_network_if''),
      (''enable_dhcp'', PBool (\<not> truth (kget kwargs ''is_static_ip'' PNone))),
      (''provisioning_cidr'', PStr (tn_show_cidr k (tc_provisioning_cidr (tn_net k)))),
      (''running'', cfg c ''running''),
      (''single_node_ip'', kget kwargs ''single_node_ip'' (PStr '''')),
      (''master_disk_count'', kget kwargs ''master_disk_count'' (PInt 1)),
      (''worker_disk_count'', kget kwargs ''worker_disk_count'' (PInt 1)),
      (''arbiter_disk_count'', kget kwargs ''arbiter_disk_count'' (PInt 1)),
      (''worker_cpu_mode'', kget kwargs ''worker_cpu_mode'' HOST_PASSTHROUGH_CPU_MODE),
      (''arbiter_cpu_mode'', kget kwargs ''arbiter_cpu_mode'' HOST_PASSTHROUGH_CPU_MODE),
      (''master_cpu_mode'', kget kwargs ''master_cpu_mode'' HOST_PASSTHROUGH_CPU_MODE),
      (''master_boot_devices'', or_default (cfg c ''master_boot_devices'') DEFAULT_BOOT_DEVICES),
      (''worker_boot_devices'', or_default (cfg c ''worker_boot_devices'') DEFAULT_BOOT_DEVICES),
      (''arbiter_boot_devices'', or_default (cfg c ''arbiter_boot_devices'') DEFAULT_BOOT_DEVICES)]"

text \<open>\<open>_terraform_params(**kwargs)\<close>; the disk encryption may be an \<open>AssertionError\<close>.\<close>

definition terraform_params :: "tf_nodes \<Rightarrow> config \<Rightarrow> config \<Rightarrow> exn + config" where
  "terraform_params k c kwargs =
     sum_bind (get_disk_encryption_appliance (tn_kind k = InfraEnvEntity) (cfg (tn_entity k) ''disk_encryption_mode'')
         (cfg (tn_entity k) ''disk_encryption_roles'')) (\<lambda>appliance.
       Inr (dict_update (dict_update (dict_update (plain_params k c kwargs) (appliance_params appliance))
              (get_specific_tf_entity_params k))
         (filter (\<lambda>(_, v). v \<noteq> PNone) (map (\<lambda>key. (key, kget kwargs key PNone)) address_keys))))"

definition get_params_from_config :: "tf_nodes \<Rightarrow> config \<Rightarrow> exn + config" where
  "get_params_from_config k c = terraform_params k c c"

definition set_params :: "tf_nodes \<Rightarrow> ('z, unit) tprog" where
  "set_params k = bindP (reads tn_config) (\<lambda>c. bindP (sum_prog (get_params_from_config k c)) (\<lambda>p.
     modifies (\<lambda>s. s\<lparr>tn_params := p\<rparr>)))"

section \<open>The variables file\<close>

text \<open>Random addresses of network cards.\<close>

definition random_byte :: "tf_nodes \<Rightarrow> ('z, string) kprog" where
  "random_byte k =
     bindP (ext (\<lambda>h. Inr (tn_randint k h)) (Controller ''random.randint'' [PInt 0, PInt 255])) (\<lambda>b. ret (hex02 (int b)))"

definition random_mac :: "tf_nodes \<Rightarrow> ('z, string) kprog" where
  "random_mac k = bindP (random_byte k) (\<lambda>a. bindP (random_byte k) (\<lambda>b. bindP (random_byte k) (\<lambda>c.
     ret (''02:00:00:'' @ a @ '':'' @ b @ '':'' @ c))))"

definition generate_macs :: "tf_nodes \<Rightarrow> nat \<Rightarrow> ('z, string list) kprog" where
  "generate_macs k n = collect (\<lambda>_. random_mac k) [0..<n]"

definition macs_to_create :: "tf_nodes \<Rightarrow> nat \<Rightarrow> nat" where
  "macs_to_create k nodes_count =
     (if truth (cfg (tn_entity k) ''is_bonded'') then nodes_count * count_of (cfg (tn_entity k) ''num_bonded_slaves'')
      else nodes_count)"

definition tfn_generate_macs :: "tf_nodes \<Rightarrow> nat \<Rightarrow> ('z, pyval) kprog" where
  "tfn_generate_macs k nodes_count =
     bindP (generate_macs k (macs_to_create k nodes_count)) (\<lambda>ms. ret (PList (map PStr ms)))"

text \<open>The counts that the parameters give.\<close>

definition with_counts :: "tf_nodes \<Rightarrow> config \<Rightarrow> tf_config" where
  "with_counts k p = (net_of k)\<lparr>tc_master_count := count_of (cfg p ''master_count''),
     tc_worker_count := count_of (cfg p ''worker_count''), tc_arbiter_count := count_of (cfg p ''arbiter_count'')\<rparr>"

definition addresses_val :: "tf_nodes \<Rightarrow> ip list list option \<Rightarrow> pyval" where
  "addresses_val k r = (case r of None \<Rightarrow> PNone | Some xs \<Rightarrow> PList (map (\<lambda>ips. PList (map (PStr \<circ> tn_show_ip k) ips)) xs))"

definition cidrs_val :: "tf_nodes \<Rightarrow> cidr list \<Rightarrow> pyval" where
  "cidrs_val k cs = PList (map (PStr \<circ> tn_show_cidr k) cs)"

definition vips_val :: "tf_nodes \<Rightarrow> ip list \<Rightarrow> pyval" where
  "vips_val k ips = PList (map (PStr \<circ> tn_show_ip k) ips)"

text \<open>\<open>tfvars["libvirt_worker_ips"][0][0]\<close>.\<close>

definition first_worker_ip :: "ip list list option \<Rightarrow> exn + ip" where
  "first_worker_ip r =
     (case r of None \<Rightarrow> Inl TypeError | Some ((a # _) # _) \<Rightarrow> Inr a | Some _ \<Rightarrow> Inl IndexError)"

definition ingress_services :: "string list" where
  "ingress_services = [''console-openshift-console'', ''canary-openshift-ingress'', ''oauth-openshift'']"

text \<open>The records of the ingress; they go to the first worker.\<close>

definition with_ingress_records :: "tf_nodes \<Rightarrow> config \<Rightarrow> ip list list option \<Rightarrow> config \<Rightarrow> exn + config" where
  "with_ingress_records k c workers p =
     (if \<not> truth (cfg c ''ingress_dns'') then Inr p
      else sum_bind (first_worker_ip workers) (\<lambda>a.
        case cfg p ''libvirt_dns_records'' of
          PDict records \<Rightarrow> Inr (dict_set ''libvirt_dns_records''
            (PDict (dict_update records (map (\<lambda>service.
               (join ''.'' [service, ''apps'', text_of (cfg c ''cluster_name''), text_of (cfg (tn_entity k) ''base_dns_domain'')],
                PStr (tn_show_ip k a))) ingress_services))) p)
        | _ \<Rightarrow> Inl TypeError))"

definition secondary_tfvars :: "tf_nodes \<Rightarrow> config \<Rightarrow> ('z, config) kprog" where
  "secondary_tfvars k p =
     bindP (sum_prog (secondary_addresses (with_counts k p))) (\<lambda>(masters, workers, arbiters).
       bindP (tfn_generate_macs k (count_of (cfg p ''master_count''))) (\<lambda>master_macs.
       bindP (tfn_generate_macs k (count_of (cfg p ''worker_count''))) (\<lambda>worker_macs.
       bindP (tfn_generate_macs k (count_of (cfg p ''arbiter_count''))) (\<lambda>arbiter_macs.
         ret [(''libvirt_secondary_worker_ips'', addresses_val k workers),
              (''libvirt_secondary_master_ips'', addresses_val k masters),
              (''libvirt_secondary_arbiter_ips'', addresses_val k arbiters),
              (''libvirt_secondary_master_macs'', master_macs),
              (''libvirt_secondary_worker_macs'', worker_macs),
              (''libvirt_secondary_arbiter_macs'', arbiter_macs)]))))"

text \<open>The variables in the order in which they are set, up to the argument \<open>running\<close> and after it.\<close>

definition address_tfvars ::
  "tf_nodes \<Rightarrow> config \<Rightarrow> config \<Rightarrow> ip list list option \<times> ip list list option \<times> ip list list option
     \<Rightarrow> ip list \<times> ip list \<Rightarrow> config" where
  "address_tfvars k c p addresses vips =
     (case addresses of (masters, workers, arbiters) \<Rightarrow>
        [(''libvirt_uri'', tn_libvirt_uri k), (''master_count'', cfg p ''master_count''),
         (''image_path'', cfg (tn_entity k) ''iso_download_path''),
         (''worker_image_path'', py_or (cfg (tn_entity k) ''worker_iso_download_path'') (cfg (tn_entity k) ''iso_download_path'')),
         (''libvirt_master_ips'', addresses_val k masters), (''libvirt_worker_ips'', addresses_val k workers),
         (''libvirt_arbiter_ips'', addresses_val k arbiters),
         (''machine_cidr_addresses'', cidrs_val k (get_all_machine_addresses (with_counts k p))),
         (''provisioning_cidr_addresses'', cidrs_val k (get_all_provisioning_addresses (with_counts k p))),
         (''bootstrap_in_place'', cfg c ''bootstrap_in_place''),
         (''api_vips'', vips_val k (fst vips)), (''ingress_vips'', vips_val k (snd vips))]
        @ (if truth (cfg c ''base_cluster_domain'') then [(''base_cluster_domain'', cfg c ''base_cluster_domain'')] else []))"

definition machine_tfvars :: "tf_nodes \<Rightarrow> config \<Rightarrow> config \<Rightarrow> pyval \<Rightarrow> pyval \<Rightarrow> pyval \<Rightarrow> config" where
  "machine_tfvars k c p master_macs worker_macs arbiter_macs =
     [(''libvirt_master_macs'', master_macs), (''libvirt_worker_macs'', worker_macs),
      (''libvirt_arbiter_macs'', arbiter_macs), (''master_boot_devices'', cfg p ''master_boot_devices''),
      (''worker_boot_devices'', cfg p ''worker_boot_devices''), (''arbiter_boot_devices'', cfg p ''arbiter_boot_devices''),
      (''load_balancer_type'', cfg (tn_entity k) ''load_balancer_type'')]
     @ (if truth (cfg c ''uefi_boot'') then [(''uefi_boot_firmware'', cfg c ''uefi_boot_firmware''),
          (''uefi_boot_template'', cfg c ''uefi_boot_template'')] else [])
     @ (if truth (cfg (tn_entity k) ''is_bonded'') then [(''slave_interfaces'', PBool True),
          (''network_interfaces_count'', cfg (tn_entity k) ''num_bonded_slaves'')] else [])"

definition all_tfvars :: "config \<Rightarrow> bool \<Rightarrow> config \<Rightarrow> config \<Rightarrow> config \<Rightarrow> config" where
  "all_tfvars addresses running machines p secondary =
     dict_update (dict_update (dict_update (dict_set ''running'' (PBool running) addresses) machines) p) secondary"

definition fill_tfvars :: "env \<Rightarrow> tf_nodes \<Rightarrow> bool \<Rightarrow> ('z, unit) tprog" where
  "fill_tfvars e k running =
     bindP (reads tn_config) (\<lambda>c. bindP (reads tn_params) (\<lambda>q.
       bindP (sum_prog (primary_addresses (with_counts k q))) (\<lambda>(masters, workers, arbiters).
         thenP (modifies (\<lambda>s. s\<lparr>tn_master_ips := addresses_val k masters\<rparr>))
         (bindP (sum_prog (with_ingress_records k c workers q)) (\<lambda>p.
           thenP (modifies (\<lambda>s. s\<lparr>tn_params := p\<rparr>))
           (bindP (sum_prog (get_vips (with_counts k p))) (\<lambda>vips.
             bindP (tfn_generate_macs k (count_of (cfg p ''master_count''))) (\<lambda>master_macs.
             bindP (tfn_generate_macs k (count_of (cfg p ''worker_count''))) (\<lambda>worker_macs.
             bindP (tfn_generate_macs k (count_of (cfg p ''arbiter_count''))) (\<lambda>arbiter_macs.
             bindP (secondary_tfvars k p) (\<lambda>secondary.
               let path = path_join (tn_folder k) ''terraform.tfvars.json''
               in thenP (do_call e (WriteFile path))
                    (act e ''json.dump'' [PStr path, PDict (all_tfvars (address_tfvars k c p (masters, workers, arbiters) vips)
                       running (machine_tfvars k c p master_macs worker_macs arbiter_macs) p secondary)]))))))))))))"

section \<open>The machines\<close>

definition int_count :: "pyval \<Rightarrow> int" where
  "int_count v = (case v of PInt i \<Rightarrow> i | PBool True \<Rightarrow> 1 | _ \<Rightarrow> 0)"

definition nodes_count :: "config \<Rightarrow> int" where
  "nodes_count c =
     (if cfg c ''workers_count'' \<noteq> PNone \<and> cfg c ''masters_count'' \<noteq> PNone \<and> cfg c ''arbiters_count'' \<noteq> PNone
      then int_count (cfg c ''masters_count'') + int_count (cfg c ''workers_count'') + int_count (cfg c ''arbiters_count'')
      else 0)"

definition vlan_id_of :: "config \<Rightarrow> nat option" where
  "vlan_id_of c = (case kget c ''vlan_id'' (PInt 100) of PInt i \<Rightarrow> Some (nat i) | _ \<Rightarrow> None)"

definition bridge_of :: "tf_nodes \<Rightarrow> string" where
  "bridge_of k = text_of (cfg (tn_asset k) ''libvirt_network_if'')"

definition tfn_wait_till_nodes_are_ready ::
  "'z tfn_state_ext lwaiter \<Rightarrow> env \<Rightarrow> libvirt_env \<Rightarrow> tf_nodes \<Rightarrow> string option \<Rightarrow> ('z, unit) tprog" where
  "tfn_wait_till_nodes_are_ready wait e l k name =
     bindP (reads tn_config) (\<lambda>c.
       wait_till_nodes_are_ready wait e l (nodes_count c) (str_or name (Some (network_name k c))))"

definition tfn_create_nodes :: "'z tfn_state_ext lwaiter \<Rightarrow> env \<Rightarrow> libvirt_env \<Rightarrow> tf_nodes \<Rightarrow> bool \<Rightarrow> ('z, unit) tprog" where
  "tfn_create_nodes wait e l k running =
     thenP (set_params k)
     (thenP (fill_tfvars e k running)
     (thenP (apply_plan e (tn_attempts k))
     (bindP (reads tn_config) (\<lambda>c.
       thenP (whenP (truth (cfg c ''static_ips_vlan'')) (ensure_vlan_interface e (bridge_of k) (vlan_id_of c)))
       (bindP (reads tn_params) (\<lambda>p.
         whenP (truth (cfg p ''running''))
           (tfn_wait_till_nodes_are_ready wait e l k (Some (text_of (cfg p ''libvirt_network_name''))))))))))"

definition tfn_list_nodes :: "env \<Rightarrow> libvirt_env \<Rightarrow> tf_nodes \<Rightarrow> ('z, node list) tprog" where
  "tfn_list_nodes e l k = list_nodes_with_name_filter e l (Some (tn_entity_name k))"

text \<open>The base class's method, which lists the nodes through the override above.\<close>

definition tfn_start_all_nodes :: "'z tfn_state_ext lwaiter \<Rightarrow> env \<Rightarrow> libvirt_env \<Rightarrow> tf_nodes \<Rightarrow> ('z, node list) tprog" where
  "tfn_start_all_nodes wait e l k =
     bindP (tfn_list_nodes e l k) (\<lambda>ns.
       if ns = [] then thenP (tfn_create_nodes wait e l k True) (tfn_list_nodes e l k)
       else bindP (tfn_list_nodes e l k) (\<lambda>ns.
         thenP (for_each (\<lambda>n. start_node wait e l (nd_name n) True) ns) (ret ns)))"

definition tfn_format_node_disk :: "env \<Rightarrow> tf_nodes \<Rightarrow> string \<Rightarrow> nat \<Rightarrow> ('z, unit) tprog" where
  "tfn_format_node_disk e k node_name disk_index =
     bindP (reads tn_params) (\<lambda>p.
       case dict_get p ''libvirt_storage_pool_path'' of
         None \<Rightarrow> raise AttributeError
       | Some v \<Rightarrow> format_disk e (tn_virtual_size k)
           (text_of v @ ''/'' @ tn_entity_name k @ ''/'' @ node_name @ ''-disk-'' @ dec disk_index))"

definition tfn_prepare_nodes :: "'z tfn_state_ext lwaiter \<Rightarrow> env \<Rightarrow> libvirt_env \<Rightarrow> tf_nodes \<Rightarrow> ('z, unit) tprog" where
  "tfn_prepare_nodes wait e l k =
     (let image = text_of (cfg (tn_entity k) ''iso_download_path'')
      in bindP (ask_bool e ''os.path.exists'' [PStr image]) (\<lambda>present.
           thenP (whenP (\<not> present)
                    (thenP (recreate_folder e (dirname image) True False) (touch e image)))
           (thenP (modifies (\<lambda>s. s\<lparr>tn_config := dict_set ''running'' (PBool False) (tn_config s)\<rparr>))
             (tfn_create_nodes wait e l k True))))"

section \<open>Names\<close>

definition tfn_set_dns :: "env \<Rightarrow> tf_nodes \<Rightarrow> string \<Rightarrow> string \<Rightarrow> ('z, unit) tprog" where
  "tfn_set_dns e k api_ip ingress_ip =
     add_dns_record e (tn_entity_name k) (text_of (cfg (tn_entity k) ''base_dns_domain'')) api_ip ingress_ip"

text \<open>\<open>IPNetwork(cidr).ip + 1\<close>: an \<open>IndexError\<close> past the end.\<close>

definition netaddr_next :: "cidr \<Rightarrow> exn + ip" where
  "netaddr_next c =
     (case ip_add (interface_ip c) 1 of Inl _ \<Rightarrow> Inl IndexError | Inr a \<Rightarrow> Inr a)"

definition set_dns_for_user_managed_network :: "env \<Rightarrow> tf_nodes \<Rightarrow> ('z, unit) tprog" where
  "set_dns_for_user_managed_network e k =
     bindP (sum_prog (netaddr_next (primary_machine_cidr (net_of k)))) (\<lambda>a.
       tfn_set_dns e k (tn_show_ip k a) (tn_show_ip k a))"

definition set_single_node_ip :: "env \<Rightarrow> tf_nodes \<Rightarrow> string \<Rightarrow> ('z, unit) tprog" where
  "set_single_node_ip e k a = change_variables e (tn_attempts k) [(''single_node_ip'', PStr a)]"

section \<open>Destroying\<close>

text \<open>The list of names to skip belongs to a module and gets longer at every call.\<close>

definition delete_virsh_resources :: "env \<Rightarrow> string list \<Rightarrow> ('z, unit) tprog" where
  "delete_virsh_resources e filters =
     thenP (modifies (\<lambda>s. s\<lparr>tn_skip_list := tn_skip_list s @ minikube_names\<rparr>))
       (bindP (reads tn_skip_list) (\<lambda>skip_list. clean_virsh_resources e skip_list filters))"

definition tfn_destroy_all_nodes :: "env \<Rightarrow> tf_nodes \<Rightarrow> bool \<Rightarrow> ('z, unit) tprog" where
  "tfn_destroy_all_nodes e k delete_tf_folder =
     thenP (set_params k)
     (bindP (reads tn_config) (\<lambda>c.
       thenP (whenP (truth (cfg c ''static_ips_vlan''))
                (try_except (delete_vlan_interface e (bridge_of k) (vlan_id_of c))
                   (\<lambda>x. if is_Exception x then ret () else raise x)))
       (bindP (ask_bool e ''os.path.exists'' [PStr (tn_folder k)]) (\<lambda>present.
         thenP (whenP present (act e ''terraform destroy'' [PBool False]))
         (bindP (reads tn_params) (\<lambda>p.
           thenP (delete_virsh_resources e [tn_entity_name k, text_of (cfg p ''libvirt_network_name''),
                    text_of (cfg p ''libvirt_secondary_network_name'')])
           (let tfstate_path = tn_folder k @ ''/'' @ ''terraform.tfstate''
            in bindP (ask_bool e ''os.path.exists'' [PStr tfstate_path]) (\<lambda>state_there.
                 thenP (whenP state_there (act e ''os.remove'' [PStr tfstate_path]))
                   (whenP delete_tf_folder (act e ''shutil.rmtree'' [PStr (tn_folder k)]))))))))))"

section \<open>Properties\<close>

subsection \<open>Whether the machines run\<close>

text \<open>Dictionaries with the same keys in the same order that differ in one value at most.\<close>

definition all_but :: "string \<Rightarrow> config \<Rightarrow> config \<Rightarrow> bool" where
  "all_but k = list_all2 (\<lambda>p q. fst p = fst q \<and> (fst p = k \<or> snd p = snd q))"

lemma all_but_set: "all_but k d d' \<Longrightarrow> all_but k (dict_set j v d) (dict_set j v d')"
  unfolding all_but_def by (induction rule: list_all2_induct) auto

lemma all_but_set_there: "all_but k d d' \<Longrightarrow> distinct (map fst d) \<Longrightarrow> dict_set k v d = dict_set k v d'"
proof (induction d arbitrary: d')
  case Nil
  then show ?case by (simp add: all_but_def)
next
  case (Cons p d)
  then obtain q e where d': "d' = q # e" "fst p = fst q" "fst p = k \<or> snd p = snd q" "all_but k d e"
    by (auto simp: all_but_def list_all2_Cons1)
  show ?case
  proof (cases "fst p = k")
    case True
    then have "k \<notin> fst ` set d" using Cons.prems(2) by auto
    with d'(4) have "d = e"
      unfolding all_but_def by (induction rule: list_all2_induct) (auto simp: prod_eq_iff)
    with d' True show ?thesis by (cases p, cases q) simp
  next
    case False
    with d' have "p = q" by (simp add: prod_eq_iff)
    then show ?thesis using Cons.IH [OF d'(4)] Cons.prems(2) d'(1) False by (cases q) auto
  qed
qed

lemma distinct_dict_set: "distinct (map fst d) \<Longrightarrow> distinct (map fst (dict_set k v d))"
  by (rule distinct_update)

lemma distinct_dict_update: "distinct (map fst d) \<Longrightarrow> distinct (map fst (dict_update d e))"
  by (induction e arbitrary: d) (auto simp: distinct_dict_set)

lemma all_but_update: "all_but k d d' \<Longrightarrow> all_but k (dict_update d e) (dict_update d' e)"
  by (induction e arbitrary: d d') (auto simp: all_but_set)

lemma overwritten:
  "all_but k d d' \<Longrightarrow> distinct (map fst d) \<Longrightarrow> k \<in> fst ` set e \<Longrightarrow> dict_update d e = dict_update d' e"
proof (induction e arbitrary: d d')
  case (Cons p e)
  obtain j v where p: "p = (j, v)" by force
  show ?case
  proof (cases "j = k")
    case True
    then show ?thesis using all_but_set_there [OF Cons.prems(1,2)] p by simp
  next
    case False
    then show ?thesis
      using Cons.IH [OF all_but_set [OF Cons.prems(1)] distinct_dict_set [OF Cons.prems(2)]] Cons.prems(3) p
      by auto
  qed
qed simp

lemma keys_dict_set: "fst ` set (dict_set k v d) = insert k (fst ` set d)"
  using dom_update [of k v d] by (simp add: dom_map_of_conv_image_fst)

lemma keys_dict_update: "fst ` set (dict_update d e) = fst ` set d \<union> fst ` set e"
proof (induction e arbitrary: d)
  case (Cons p e)
  show ?case using Cons.IH [of "dict_set (fst p) (snd p) d"]
    by (cases p) (simp add: keys_dict_set)
qed (simp add: dict_update_def)

lemma all_but_start: "all_but k (dict_set k v d) (dict_set k w d)"
  unfolding all_but_def by (induction d) (auto simp: list_all2_refl)

lemma all_tfvars_running:
  assumes "''running'' \<in> fst ` set p" and "distinct (map fst addresses)"
  shows "all_tfvars addresses b machines p secondary = all_tfvars addresses b' machines p secondary"
  unfolding all_tfvars_def
  by (rule arg_cong [where f = "\<lambda>d. dict_update d secondary"], rule overwritten)
    (use assms in \<open>auto intro!: all_but_update all_but_start distinct_dict_update distinct_dict_set\<close>)

lemma distinct_address_tfvars: "distinct (map fst (address_tfvars k c p addresses vips))"
  by (cases addresses) (simp add: address_tfvars_def)

lemma params_say_running:
  assumes "terraform_params k c kwargs = Inr p"
  shows "''running'' \<in> fst ` set p"
  using assms by (auto simp: terraform_params_def sum_bind_def keys_dict_update plain_params_def split: sum.splits)

lemma ingress_records_running:
  assumes "with_ingress_records k c workers q = Inr p" and "''running'' \<in> fst ` set q"
  shows "''running'' \<in> fst ` set p"
proof (cases "p = q")
  case False
  then obtain j v where "p = dict_set j v q"
    using assms(1) unfolding with_ingress_records_def sum_bind_def
    by (auto simp del: update.simps split: if_splits sum.splits pyval.splits)
  then show ?thesis using assms(2) by (simp only: keys_dict_set insertI2)
qed (use assms in simp)

text \<open>Setting the parameters gives them a value for \<open>running\<close>, or fails.\<close>

lemma set_params_running:
  "set_params k s = (Inr u, t) \<Longrightarrow> ''running'' \<in> fst ` set (tn_params t)"
  by (auto simp: set_params_def get_params_from_config_def prog_simps sum_prog_def dest: params_say_running
      split: sum.splits)

lemma fill_tfvars_running:
  assumes "''running'' \<in> fst ` set (tn_params s)"
  shows "fill_tfvars e k b s = fill_tfvars e k b' s"
proof -
  have same_file: "all_tfvars (address_tfvars k c p a vips) b m p sec = all_tfvars (address_tfvars k c p a vips) b' m p sec"
    if "with_ingress_records k c workers (tn_params s) = Inr p" for c p a vips m sec workers
    by (rule all_tfvars_running [OF ingress_records_running [OF that assms] distinct_address_tfvars])
  show ?thesis
    unfolding fill_tfvars_def Let_def
    by (simp add: prog_simps sum_prog_def same_file split: sum.split prod.split cong: if_cong)
qed

text \<open>Whether the machines are made to run is decided by the configuration alone: the argument \<open>running\<close> of the method
  that makes them changes nothing, since the value it is given is overwritten in the file before terraform reads it.
\<close>

lemma running_argument_is_ignored: "tfn_create_nodes wait e l k True = tfn_create_nodes wait e l k False"
proof
  fix s :: "'a tfn_state_scheme"
  obtain r t where set: "set_params k s = (r, t)" by force
  show "tfn_create_nodes wait e l k True s = tfn_create_nodes wait e l k False s"
  proof (cases r)
    case (Inl x)
    with set show ?thesis by (simp add: tfn_create_nodes_def bindP_def)
  next
    case (Inr u)
    then have same: "fill_tfvars e k True t = fill_tfvars e k False t"
      using set by (intro fill_tfvars_running set_params_running) simp
    show ?thesis using set Inr by (simp add: tfn_create_nodes_def bindP_def same)
  qed
qed

text \<open>No other parameter shadows what the configuration says, which preparing the machines sets to false.\<close>

lemma cfg_running_params:
  assumes "terraform_params k c c = Inr p"
  shows "cfg p ''running'' = cfg c ''running''"
proof -
  obtain a where "p = dict_update (dict_update (dict_update (plain_params k c c) (appliance_params a))
      (get_specific_tf_entity_params k))
    (filter (\<lambda>(_, v). v \<noteq> PNone) (map (\<lambda>key. (key, kget c key PNone)) address_keys))"
    using assms by (auto simp: terraform_params_def sum_bind_def split: sum.splits)
  moreover have "dict_get (dict_update d e) ''running'' = dict_get d ''running''" if "''running'' \<notin> fst ` set e" for d e :: config
    using that by (induction e arbitrary: d) (auto simp: update_conv')
  moreover have "''running'' \<notin> fst ` set (appliance_params a)"
    by (auto simp: appliance_params_def split: option.splits)
  moreover have "''running'' \<notin> fst ` set (get_specific_tf_entity_params k)"
    by (auto simp: get_specific_tf_entity_params_def split: entity_kind.splits)
  moreover have "''running'' \<notin> fst ` set (filter (\<lambda>(_, v). v \<noteq> PNone) (map (\<lambda>key. (key, kget c key PNone)) address_keys))"
    by (auto simp: address_keys_def)
  ultimately show ?thesis by (simp add: cfg_def plain_params_def)
qed

subsection \<open>Network cards\<close>

lemma hex02_byte: "b < 256 \<Longrightarrow> length (hex02 (int b)) = 2"
  by (simp add: hex02_def hex.simps [of b] hex.simps [of "b div 16"] less_mult_imp_div_less)

lemma random_byte_form:
  assumes "\<And>h. tn_randint k h < 256" and "random_byte k s = (r, t)"
  shows "\<exists>x. r = Inr x \<and> length x = 2"
  using assms(2) hex02_byte [OF assms(1)] by (auto simp: random_byte_def ext_app bindP_def ret_def)

lemma random_mac_form:
  assumes "\<And>h. tn_randint k h < 256" and "random_mac k s = (r, t)"
  shows "\<exists>m. r = Inr m \<and> length m = 17 \<and> prefix ''02:00:00:'' m"
proof -
  obtain q1 u where 1: "random_byte k s = (q1, u)" by force
  then obtain a where a: "q1 = Inr a" "length a = 2" using random_byte_form [OF assms(1)] by blast
  obtain q2 v where 2: "random_byte k u = (q2, v)" by force
  then obtain b where b: "q2 = Inr b" "length b = 2" using random_byte_form [OF assms(1)] by blast
  obtain q3 w where 3: "random_byte k v = (q3, w)" by force
  then obtain c where c: "q3 = Inr c" "length c = 2" using random_byte_form [OF assms(1)] by blast
  show ?thesis using assms(2) 1 2 3 a b c by (auto simp: random_mac_def bindP_def ret_def)
qed

text \<open>As many addresses as asked for, all of the same form; that they differ is left to chance.\<close>

lemma generate_macs_form:
  assumes "\<And>h. tn_randint k h < 256"
  shows "\<exists>ms. fst (generate_macs k n s) = Inr ms \<and> length ms = n
    \<and> (\<forall>m \<in> set ms. length m = 17 \<and> prefix ''02:00:00:'' m)"
proof -
  have "\<exists>ms. fst (collect (\<lambda>_. random_mac k) xs s) = Inr ms \<and> length ms = length xs
    \<and> (\<forall>m \<in> set ms. length m = 17 \<and> prefix ''02:00:00:'' m)" for xs :: "nat list"
  proof (induction xs arbitrary: s)
    case (Cons x xs)
    obtain r t where run: "random_mac k s = (r, t)" by force
    then obtain m where m: "r = Inr m" "length m = 17" "prefix ''02:00:00:'' m"
      using random_mac_form [OF assms] by blast
    from Cons.IH [of t] obtain ms where ms: "fst (collect (\<lambda>_. random_mac k) xs t) = Inr ms" "length ms = length xs"
      "\<forall>m \<in> set ms. length m = 17 \<and> prefix ''02:00:00:'' m" by blast
    obtain u where "collect (\<lambda>_. random_mac k) xs t = (Inr ms, u)" using ms(1) by (metis prod.collapse)
    then show ?case using run m ms by (auto simp: bindP_def ret_def)
  qed (simp add: ret_def)
  from this [of "[0..<n]"] show ?thesis by (simp add: generate_macs_def)
qed

subsection \<open>Addresses of the ingress\<close>

text \<open>The records of the ingress need a worker with an address: with IPv6 they are an error that ends everything.\<close>

lemma ingress_records_need_ipv4:
  assumes "primary_addresses (with_counts k p) = Inr (masters, workers, arbiters)"
    and "tc_is_ipv6 (tn_net k)" and "truth (cfg c ''ingress_dns'')"
  shows "with_ingress_records k c workers p = Inl IndexError"
proof -
  have "workers = Some (create_empty_nested_list (tc_worker_count (with_counts k p)))"
    using assms(1,2) by (auto simp: primary_addresses_def role_addresses_def create_address_list_def with_counts_def
        net_of_def sum_bind_def split: sum.splits)
  then have "first_worker_ip workers = Inl IndexError"
    by (cases "tc_worker_count (with_counts k p)")
      (simp_all add: first_worker_ip_def create_empty_nested_list_def map_replicate_const del: upt_Suc)
  with assms(3) show ?thesis by (simp add: with_ingress_records_def sum_bind_def)
qed

subsection \<open>What destroying spares\<close>

lemma skip_list_grows:
  "delete_virsh_resources e fs s = clean_virsh_resources e (tn_skip_list s @ minikube_names) fs
     (s\<lparr>tn_skip_list := tn_skip_list s @ minikube_names\<rparr>)"
  by (simp add: delete_virsh_resources_def prog_simps)


definition spares_listed :: "string set \<Rightarrow> 'z tfn_state_scheme \<Rightarrow> 'z tfn_state_scheme \<Rightarrow> bool" where
  "spares_listed names s t \<longleftrightarrow> (names \<subseteq> set (tn_skip_list s) \<longrightarrow>
     spares (names \<union> set minikube_names) s t \<and> set (tn_skip_list s) \<subseteq> set (tn_skip_list t))"

interpretation sparing_listed: state_rel "spares_listed names :: 'z tfn_state_scheme \<Rightarrow> _" for names
proof
  fix s t u :: "'z tfn_state_scheme"
  show "spares_listed names s s" by (simp add: spares_listed_def sparing.rel_refl)
  assume "spares_listed names s t" "spares_listed names t u"
  then show "spares_listed names s u"
    unfolding spares_listed_def by (blast intro: sparing.rel_trans)
qed

lemma spares_listedI:
  assumes "keeps (spares (names \<union> set minikube_names)) m" and "keeps (same tn_skip_list) m"
  shows "keeps (spares_listed names) m"
  using assms by (auto simp: keeps_def spares_listed_def same_def)

lemma same_skip_list_ext: "keeps (same tn_skip_list) (ext f c)"
  by (simp add: keeps_def same_def ext_def)

lemma spares_listed_ext:
  "(\<And>d. c \<noteq> ShellCommand d) \<Longrightarrow> keeps (spares_listed names) (ext f c)"
  by (intro spares_listedI same_skip_list_ext spares_ext) auto

lemma spares_listed_act: "keeps (spares_listed names) (act e w args)"
  by (auto simp: act_def do_call_def intro!: spares_listed_ext)

lemma spares_listed_ask: "keeps (spares_listed names) (ask_bool e w args)"
  unfolding ask_bool_def ask_call_def
  by (intro sparing_listed.keeps_intros spares_listed_ext) simp

lemma spares_listed_set_params: "keeps (spares_listed names) (set_params k)"
  by (auto simp: keeps_def set_params_def prog_simps sum_prog_def spares_listed_def spares_def split: sum.splits)

lemma clean_keeps_skip_list: "keeps (same tn_skip_list) (clean_virsh_resources e skip fs)"
  unfolding clean_virsh_resources_def file_lock_context_def acquire_lock_def release_lock_def clean_domains_def
    clean_pools_def clean_networks_def clean_domain_def clean_pool_def clean_network_def clean_volumes_def
    clean_volume_def virsh_do_def virsh_run_def act_def do_call_def Let_def
  by (intro frame.keeps_intros same_skip_list_ext)
    (auto intro!: frame.keeps_intros same_skip_list_ext split: list.split)


lemma spares_listed_cleaning: "keeps (spares_listed names) (delete_virsh_resources e fs)"
proof (rule keepsI)
  fix s r t
  assume "delete_virsh_resources e fs s = (r, t)"
  then have run: "clean_virsh_resources e (tn_skip_list s @ minikube_names) fs
      (s\<lparr>tn_skip_list := tn_skip_list s @ minikube_names\<rparr>) = (r, t)" by (simp add: skip_list_grows)
  have "tn_skip_list t = tn_skip_list s @ minikube_names"
    using keepsD [OF clean_keeps_skip_list run] by (simp add: same_def)
  moreover have "spares (set (tn_skip_list s @ minikube_names)) s t"
    using keepsD [OF spares_clean run] by (simp add: spares_def)
  ultimately show "spares_listed names s t"
    by (auto simp: spares_listed_def spares_def)
qed

lemma spares_listed_vlan: "keeps (spares_listed names) (delete_vlan_interface e bridge vlan_id)"
proof -
  have other: "keeps (spares_listed names) (run_command e c b)" if "\<And>n. c \<notin> removal_commands n" for c b
    using that unfolding run_command_def
    by (intro spares_listedI) (auto intro!: sparing.keeps_intros frame.keeps_intros spares_ext same_skip_list_ext)
  show ?thesis
    unfolding delete_vlan_interface_def iface_exists_def run_only_def Let_def
    by (intro sparing_listed.keeps_intros)
      (auto intro!: sparing_listed.keeps_intros other simp: removal_commands_def virsh_def split: prod.split)
qed

text \<open>C37: Destroying the machines of a controller, however it ends, removes no domain, pool or network of minikube, and none
  with a name that was on the list of names to skip.
\<close>

theorem destroying_spares_minikube:
  assumes "tfn_destroy_all_nodes e k delete_tf_folder s = (r, t)"
    and "name \<in> set (tn_skip_list s) \<union> {''minikube'', ''minikube-net''}" and "c \<in> removal_commands name"
  shows "\<exists>cs. hist t = hist s @ cs \<and> ShellCommand c \<notin> set cs"
proof -
  have "keeps (spares_listed (set (tn_skip_list s))) (tfn_destroy_all_nodes e k delete_tf_folder)"
    unfolding tfn_destroy_all_nodes_def Let_def
    by (intro sparing_listed.keeps_intros spares_listed_set_params spares_listed_vlan spares_listed_ask
        spares_listed_cleaning spares_listed_act)
      (auto intro!: sparing_listed.keeps_intros)
  from keepsD [OF this assms(1)] have "spares (set (tn_skip_list s) \<union> set minikube_names) s t"
    by (simp add: spares_listed_def)
  with assms(2,3) show ?thesis by (auto simp: spares_def minikube_names_def)
qed


definition two_grepped_domains :: env where
  "two_grepped_domains = two_domains\<lparr>e_run := \<lambda>_ c. Inr \<lparr>p_out =
     (if prefix (virsh @ ''list'') c then ''default'' @ [newline] @ ''a'' else []), p_err = [], p_rc = 0\<rparr>\<rparr>"

definition sample_tfn :: tf_nodes where
  "sample_tfn = \<lparr>tn_entity_name = ''a'', tn_suffix = ''s'', tn_folder = ''f'', tn_kind = InfraEnvEntity, tn_entity = [],
     tn_asset = [], tn_net = sample_tf 3, tn_libvirt_uri = PNone, tn_cwd = ''/'', tn_attempts = 1,
     tn_show_ip = (\<lambda>_. ''ip''), tn_show_cidr = (\<lambda>_. ''net''), tn_randint = (\<lambda>_. 0), tn_virtual_size = Inr\<rparr>"

definition fresh_tfn :: "unit tfn_state_scheme" where
  "fresh_tfn = \<lparr>hist = [], tn_params = [], tn_master_ips = PNone, tn_config = [], tn_skip_list = [''default'']\<rparr>"

lemma destroyed_domain:
  "ShellCommand (virsh @ ''destroy a'') \<in> set (hist (snd (tfn_destroy_all_nodes two_grepped_domains sample_tfn False fresh_tfn)))"
  by code_simp

theorem destroying_spares_minikube_witness:
  "\<exists>r t. tfn_destroy_all_nodes two_grepped_domains sample_tfn False fresh_tfn = (r, t)
     \<and> ShellCommand (virsh @ ''destroy a'') \<in> set (hist t) \<and> ShellCommand (virsh @ ''destroy default'') \<notin> set (hist t)"
proof -
  obtain r t where run: "tfn_destroy_all_nodes two_grepped_domains sample_tfn False fresh_tfn = (r, t)" by force
  have "\<exists>cs. hist t = hist fresh_tfn @ cs \<and> ShellCommand (virsh @ ''destroy '' @ ''default'') \<notin> set cs"
    by (rule destroying_spares_minikube [OF run, where name = "''default''"]) (auto simp: removal_commands_def fresh_tfn_def)
  then have "ShellCommand (virsh @ ''destroy default'') \<notin> set (hist t)" by (simp add: fresh_tfn_def)
  moreover have "ShellCommand (virsh @ ''destroy a'') \<in> set (hist t)"
    using arg_cong [OF run, of snd] destroyed_domain by simp
  ultimately show ?thesis using run by blast
qed

end
