(* ===== verification/LogTools.thy ===== *)
theory LogTools
  imports Logs Access Nodes "HOL-Library.List_Lexorder"
begin

text \<open>
  The rest of \<open>download_logs/download_logs.py\<close> and \<open>download_logs/__main__.py\<close>: logs of clusters that are made through the
  Kubernetes API, the metadata and the events of a cluster, reports of the machines, and the choice of the clusters whose
  logs are downloaded. The controllers and the download of one cluster are arguments where their own theories say what
  they do.
\<close>

section \<open>Events and metadata\<close>

text \<open>What \<open>events.extend\<close> adds: dictionaries and texts have no items a time could be read of.\<close>

definition event_items :: "pyval \<Rightarrow> exn + pyval list" where
  "event_items v =
     (case v of PList xs \<Rightarrow> Inr xs | PDict [] \<Rightarrow> Inr [] | PStr [] \<Rightarrow> Inr [] | _ \<Rightarrow> Inl TypeError)"

text \<open>Times are text; \<open>sorted\<close> reads all of them before it compares any.\<close>

definition event_time :: "pyval \<Rightarrow> exn + string" where
  "event_time v = sum_bind (py_field v ''event_time'') (\<lambda>t. case t of PStr s \<Rightarrow> Inr s | _ \<Rightarrow> Inl TypeError)"

definition sorted_events :: "pyval list \<Rightarrow> exn + pyval list" where
  "sorted_events events =
     sum_bind (sum_map event_time events) (\<lambda>ts. Inr (map snd (sort_key fst (zip ts events))))"

definition merge_events :: "env \<Rightarrow> string list \<Rightarrow> ('z, pyval list) kprog" where
  "merge_events e event_paths =
     bindP (collect (\<lambda>path. bindP (ask_call e (Controller ''json.load'' [PStr path])) (\<lambda>v. sum_prog (event_items v)))
              event_paths) (\<lambda>xss. sum_prog (sorted_events (concat xss)))"

text \<open>The link is left out for a service that is not known; the versions may replace what is there.\<close>

definition metadata_of :: "pyval \<Rightarrow> config \<Rightarrow> pyval \<Rightarrow> string \<Rightarrow> config" where
  "metadata_of c versions infra_envs inventory_url =
     (let d = dict_set ''infraenvs'' infra_envs (dict_update [(''cluster'', c)] versions)
      in case sum_bind (get_ui_url_from_api_url inventory_url) (\<lambda>url. sum_bind (py_field c ''id'') (\<lambda>i. Inr (url, i))) of
           Inl _ \<Rightarrow> d
         | Inr (url, i) \<Rightarrow> dict_set ''link'' (PStr (url @ ''/clusters/'' @ text_of i)) d)"

definition write_metadata_file :: "env \<Rightarrow> pyval \<Rightarrow> pyval \<Rightarrow> string \<Rightarrow> string \<Rightarrow> ('z, unit) kprog" where
  "write_metadata_file e c infra_envs inventory_url file_name =
     bindP (ask_call e (Controller ''get_versions'' [])) (\<lambda>versions.
       case versions of
         PDict vs \<Rightarrow> thenP (do_call e (WriteFile file_name))
           (act e ''json.dump'' [PStr file_name, PDict (metadata_of c vs infra_envs inventory_url)])
       | _ \<Rightarrow> raise TypeError)"

section \<open>Clusters of the Kubernetes API\<close>

definition debug_urls :: "pyval \<Rightarrow> (string, string) dict" where
  "debug_urls v = (case v of PDict d \<Rightarrow> map (\<lambda>(k, u). (k, text_of u)) d | _ \<Rightarrow> [])"

text \<open>Where the debug information is looked for is outside of the part whose exceptions are logged.\<close>

definition collect_debug_info_from_cluster :: "env \<Rightarrow> object_ref \<Rightarrow> object_ref \<Rightarrow> string option \<Rightarrow> ('z, unit) kprog" where
  "collect_debug_info_from_cluster e deployment install output_folder =
     bindP (case str_or output_folder None of
              Some f \<Rightarrow> ret f
            | None \<Rightarrow> (let f = ''build/'' @ rf_name deployment in thenP (recreate_folder e f True True) (ret f))) (\<lambda>folder.
       bindP (install_get e install) (\<lambda>aci.
         bindP (sum_prog (sum_bind (py_field aci ''status'') (\<lambda>status. py_field status ''debugInfo''))) (\<lambda>debug_info.
           suppressing is_Exception
             (thenP (fetch_url_and_write_to_file e ''eventsURL'' ''events.json'' (debug_urls debug_info) folder)
               (fetch_url_and_write_to_file e ''logsURL'' ''logs.tar'' (debug_urls debug_info) folder)))))"

text \<open>\<open>is_cidr_is_ipv4\<close> tests for an object that a field of the specification, which is text, never is.\<close>

definition is_cidr_is_ipv4 :: "pyval \<Rightarrow> bool" where
  "is_cidr_is_ipv4 v = False"

definition first_machine_cidr :: "pyval \<Rightarrow> exn + pyval" where
  "first_machine_cidr spec =
     sum_bind (py_field spec ''networking'') (\<lambda>n. sum_bind (py_field n ''machineNetwork'') (\<lambda>ms.
       case ms of PList (m # _) \<Rightarrow> py_field m ''cidr'' | PList [] \<Rightarrow> Inl IndexError | PDict _ \<Rightarrow> Inl (KeyError ''0'') | _ \<Rightarrow> Inl TypeError))"

definition must_gather_kube_api ::
  "(pyval \<Rightarrow> exn + string) \<Rightarrow> (bool \<Rightarrow> pyval \<Rightarrow> exn + string) \<Rightarrow> 'z pwaiter \<Rightarrow> 'z swaiter \<Rightarrow> env \<Rightarrow> string \<Rightarrow> object_ref
     \<Rightarrow> object_ref \<Rightarrow> string \<Rightarrow> ('z, unit) kprog" where
  "must_gather_kube_api decode ip_of pwait wait e cluster_name deployment install output_folder =
     (let kubeconfig_path = path_join (path_join output_folder ''kubeconfig'') (cluster_name @ ''_kubeconfig.yaml'')
      in bindP (install_get_spec e install) (\<lambda>agent_spec.
         thenP (download_kubeconfig decode dirname pwait e install kubeconfig_path)
         (bindP (sum_prog (sum_bind (py_get agent_spec ''provisionRequirements'' (PDict [])) (\<lambda>r.
                   py_get r ''controlPlaneAgents'' (PInt 3)))) (\<lambda>masters.
          bindP (if masters = PInt 1
                 then bindP (sum_prog (first_machine_cidr agent_spec)) (\<lambda>c.
                   kube_ip_for_single_node ip_of pwait wait e deployment (is_cidr_is_ipv4 c) 300)
                 else bindP (install_get_spec e install) (\<lambda>spec.
                   bindP (sum_prog (py_field spec ''apiVIP'')) (\<lambda>v. ret (text_of v)))) (\<lambda>kube_api_ip.
          bindP (deployment_get e deployment) (\<lambda>obj.
          bindP (sum_prog (sum_bind (py_field obj ''spec'') (\<lambda>spec. py_field spec ''baseDomain''))) (\<lambda>domain.
            thenP (config_etc_hosts e cluster_name (text_of domain) (Some kube_api_ip) None)
              (download_must_gather e kubeconfig_path output_folder True))))))))"

definition chmod_folder :: "env \<Rightarrow> string \<Rightarrow> ('z, unit) kprog" where
  "chmod_folder e output_folder =
     bindP (run_command e (''chmod -R ugo+rx '' @ [CHR 0x27] @ output_folder @ [CHR 0x27]) True) (\<lambda>_. ret ())"

text \<open>The state keeps what the object of the hosted cluster, made where it is needed, has read.\<close>

definition dump_hosted_cluster ::
  "(pyval \<Rightarrow> exn + string) \<Rightarrow> environ \<Rightarrow> string \<Rightarrow> env \<Rightarrow> string \<Rightarrow> string \<Rightarrow> string \<Rightarrow> unit hprog" where
  "dump_hosted_cluster decode environ cwd e cluster_name output_folder management_kubeconfig =
     thenP (modifies (\<lambda>s. s\<lparr>hs_kubeconfig_path := [], hs_client := None\<rparr>))
     (thenP (hypershift_dump e cluster_name (path_join output_folder ''dump'') (Some management_kubeconfig))
     (bindP (hosted_kubeconfig_path decode environ cwd e cluster_name) (\<lambda>path.
       download_must_gather e path output_folder True)))"

definition download_logs_kube_api ::
  "(pyval \<Rightarrow> exn + string) \<Rightarrow> (bool \<Rightarrow> pyval \<Rightarrow> exn + string) \<Rightarrow> (hosted_world, pyval) waiter \<Rightarrow> (hosted_world, string) waiter
     \<Rightarrow> environ \<Rightarrow> string \<Rightarrow> env \<Rightarrow> string \<Rightarrow> string \<Rightarrow> string \<Rightarrow> bool \<Rightarrow> string \<Rightarrow> unit hprog" where
  "download_logs_kube_api decode ip_of pwait wait environ cwd e cluster_name namespace dest must_gather management_kubeconfig =
     (let deployment = plain_ref cluster_name namespace; output_folder = path_join dest cluster_name
      in bindP (deployment_get e deployment) (\<lambda>obj.
         bindP (sum_prog (sum_bind (py_field obj ''spec'') (\<lambda>spec. sum_bind (py_field spec ''clusterInstallRef'') (\<lambda>r.
                  py_field r ''name'')))) (\<lambda>install_name.
         let install = plain_ref (text_of install_name) namespace
         in thenP (recreate_folder e output_folder True True)
            (try_finally
              (thenP (suppressing is_request_error
                        (collect_debug_info_from_cluster e deployment install (Some output_folder)))
                (whenP must_gather
                  (thenP (recreate_folder e (path_join output_folder ''must-gather'') True True)
                    (suppressing is_Exception
                      (if startswith namespace ''clusters''
                       then dump_hosted_cluster decode environ cwd e cluster_name output_folder management_kubeconfig
                       else must_gather_kube_api decode ip_of pwait wait e cluster_name deployment install output_folder)))))
              (chmod_folder e output_folder)))))"

definition kube_api_logs :: "env \<Rightarrow> (string \<Rightarrow> string \<Rightarrow> ('z, unit) kprog) \<Rightarrow> ('z, unit) kprog" where
  "kube_api_logs e download =
     bindP (deployment_list_all_namespaces e) (\<lambda>v.
     bindP (sum_prog (items_of v)) (\<lambda>items.
       for_each (\<lambda>item.
         bindP (sum_prog (sum_bind (py_field item ''spec'') (\<lambda>spec. py_field spec ''clusterName''))) (\<lambda>name.
           whenP (truth name)
             (bindP (sum_prog (sum_bind (py_field item ''metadata'') (\<lambda>m. py_field m ''namespace''))) (\<lambda>namespace.
               download (text_of name) (text_of namespace))))) items))"

section \<open>Reports of the machines\<close>

text \<open>\<open>list_nodes\<close> of the three controllers; the nodes are those of the first controller that has any.\<close>

fun find_sos_nodes :: "('z, string list) kprog list \<Rightarrow> string list \<Rightarrow> ('z, string list) kprog" where
  "find_sos_nodes [] known = ret known"
| "find_sos_nodes (listing # controllers) known =
     bindP (try_except (bindP listing (\<lambda>ns. ret (Some ns))) (\<lambda>x. if is_Exception x then ret None else raise x)) (\<lambda>r.
       case r of
         None \<Rightarrow> find_sos_nodes controllers known
       | Some ns \<Rightarrow> if ns \<noteq> [] then ret ns else find_sos_nodes controllers ns)"

text \<open>A thread some of whose exceptions are logged.\<close>

primrec suppress_thread :: "(exn \<Rightarrow> bool) \<Rightarrow> ('s, unit) thread \<Rightarrow> ('s, unit) thread" where
  "suppress_thread P (Finished r) = Finished (case r of Inl x \<Rightarrow> if P x then Inr () else Inl x | Inr u \<Rightarrow> Inr u)"
| "suppress_thread P (Step f) = Step (map_prod (suppress_thread P) (\<lambda>l. l) \<circ> f)"

definition sos_errors :: "exn \<Rightarrow> bool" where
  "sos_errors x \<longleftrightarrow> x \<in> {RuntimeError, External 1, External 2, External 3}"

definition sos_job :: "env \<Rightarrow> string \<Rightarrow> string \<Rightarrow> ((call, 'z) world_scheme, unit) thread" where
  "sos_job e destination_dir node =
     suppress_thread sos_errors (in_steps
       [do_call e (NodeCommand node ''upload_file'' [PStr ''/tmp/man_sosreport.sh'']),
        do_call e (NodeCommand node ''run_command'' [PStr ''chmod a+x /tmp/man_sosreport.sh'']),
        do_call e (NodeCommand node ''run_command'' [PStr ''sudo /tmp/man_sosreport.sh'']),
        do_call e (NodeCommand node ''download_file''
          [PStr ''/var/tmp/sosreport.tar.xz'', PStr (destination_dir @ ''/sosreport-'' @ node @ ''.tar.xz'')])])"

definition prepare_sosreport ::
  "env \<Rightarrow> ('z, string list) kprog list \<Rightarrow> string \<Rightarrow> ('z, string list) kprog" where
  "prepare_sosreport e controllers sosreport_output =
     thenP (recreate_folder e sosreport_output True True) (find_sos_nodes controllers [])"

text \<open>The time limit of the reports is not modelled.\<close>

inductive gather_sosreport_data ::
  "env \<Rightarrow> ('z, string list) kprog list \<Rightarrow> string \<Rightarrow> (call, 'z) world_scheme \<Rightarrow> exn + unit \<Rightarrow> (call, 'z) world_scheme \<Rightarrow> bool"
  for e controllers output_dir s where
  not_found: "prepare_sosreport e controllers (path_join output_dir ''sosreport'') s = (Inl x, t) \<Longrightarrow>
    gather_sosreport_data e controllers output_dir s (Inl x) t"
| found: "prepare_sosreport e controllers (path_join output_dir ''sosreport'') s = (Inr ns, u) \<Longrightarrow>
    runs_concurrently 5 (map (sos_job e (path_join output_dir ''sosreport'')) ns) u res t \<Longrightarrow>
    gather_sosreport_data e controllers output_dir s (map_sum (\<lambda>x. x) (\<lambda>_. ()) res) t"

inductive_cases gather_sosreport_dataE: "gather_sosreport_data e controllers output_dir s r t"

section \<open>The choice of clusters\<close>

record listed_cluster = log_cluster +
  dl_created_at :: string

definition get_cluster_installation_date_and_id :: "'z listed_cluster_scheme \<Rightarrow> string \<times> string" where
  "get_cluster_installation_date_and_id c = (take 10 (dl_created_at c), dl_id c)"

text \<open>A line without a comma is an \<open>IndexError\<close>.\<close>

definition excluded_of_line :: "string \<Rightarrow> exn + string \<times> string" where
  "excluded_of_line line =
     (case split_on (CHR 0x2C) (strip line) of date # i # _ \<Rightarrow> Inr (date, i) | _ \<Rightarrow> Inl IndexError)"

definition without_excluded :: "string list option \<Rightarrow> 'z listed_cluster_scheme list \<Rightarrow> exn + 'z listed_cluster_scheme list" where
  "without_excluded exclude_installs clusters =
     (case exclude_installs of
        None \<Rightarrow> Inr clusters
      | Some lines \<Rightarrow> sum_bind (sum_map excluded_of_line lines) (\<lambda>out.
          Inr (filter (\<lambda>c. get_cluster_installation_date_and_id c \<notin> set out) clusters)))"

definition chosen_for_download :: "bool \<Rightarrow> 'z listed_cluster_scheme \<Rightarrow> bool" where
  "chosen_for_download download_all c \<longleftrightarrow> download_all \<or> should_download_logs (log_cluster.truncate c)"

text \<open>
  \<open>main\<close> without a given cluster and with a client: \<open>list_clusters\<close> gets whether all clusters are meant, \<open>lines\<close> is the
  content of the file of clusters to leave out, and \<open>download\<close> downloads the logs of one.
\<close>

definition download_clusters ::
  "(bool \<Rightarrow> ('z, 'c listed_cluster_scheme list) kprog) \<Rightarrow> string list option \<Rightarrow> bool
     \<Rightarrow> ('c listed_cluster_scheme \<Rightarrow> ('z, unit) kprog) \<Rightarrow> ('z, unit) kprog" where
  "download_clusters list_clusters lines download_all download =
     bindP (list_clusters download_all) (\<lambda>clusters.
       if clusters = [] then ret ()
       else bindP (sum_prog (without_excluded lines clusters)) (\<lambda>clusters.
         for_each (\<lambda>c. whenP (chosen_for_download download_all c) (download c)) clusters))"

section \<open>Properties\<close>

subsection \<open>Merged events\<close>

lemma sum_map_Inr: "sum_map f xs = Inr ys \<Longrightarrow> list_all2 (\<lambda>x y. f x = Inr y) xs ys"
  by (induction xs arbitrary: ys) (auto simp: sum_bind_def split: sum.splits)

lemma event_pairs:
  "list_all2 (\<lambda>x y. event_time x = Inr y) events ts \<Longrightarrow> \<forall>p \<in> set (zip ts events). event_time (snd p) = Inr (fst p)"
  by (auto simp: list_all2_conv_all_nth set_zip)

lemma events_of_a_time:
  "\<forall>p \<in> set ps. event_time (snd p) = Inr (fst p) \<Longrightarrow>
     filter (\<lambda>x. event_time x = Inr k) (map snd ps) = map snd (filter (\<lambda>p. fst p = k) ps)"
  by (induction ps) auto

text \<open>The events in the order of their times, and those of one time in the order in which they came.\<close>

definition in_order_of_time :: "pyval list \<Rightarrow> pyval list \<Rightarrow> bool" where
  "in_order_of_time events r \<longleftrightarrow> (\<exists>ts. sorted ts \<and> list_all2 (\<lambda>x y. event_time x = Inr y) r ts)
     \<and> mset r = mset events
     \<and> (\<forall>k. filter (\<lambda>x. event_time x = Inr k) r = filter (\<lambda>x. event_time x = Inr k) events)"

lemma sorted_events_ok:
  assumes "sorted_events events = Inr r"
  shows "in_order_of_time events r"
proof -
  from assms obtain ts where ts: "sum_map event_time events = Inr ts"
    and r: "r = map snd (sort_key fst (zip ts events))"
    by (auto simp: sorted_events_def sum_bind_def split: sum.splits)
  have l: "list_all2 (\<lambda>x y. event_time x = Inr y) events ts" by (rule sum_map_Inr [OF ts])
  then have len: "length ts = length events" by (simp add: list_all2_lengthD)
  let ?ps = "sort_key fst (zip ts events)"
  have pairs: "\<forall>p \<in> set ?ps. event_time (snd p) = Inr (fst p)" using event_pairs [OF l] by simp
  have "mset r = image_mset snd (mset (zip ts events))" using r by simp
  also have "\<dots> = mset events" using len by (simp flip: mset_map)
  finally have "mset r = mset events" .
  moreover have "sorted (map fst ?ps)" by (rule sorted_sort_key)
  moreover have "list_all2 (\<lambda>x y. event_time x = Inr y) r (map fst ?ps)"
    using pairs r by (simp add: list_all2_map1 list_all2_map2 list_all2_same)
  moreover have "filter (\<lambda>x. event_time x = Inr k) r = filter (\<lambda>x. event_time x = Inr k) events" for k
    using events_of_a_time [OF pairs, of k] events_of_a_time [OF event_pairs [OF l], of k] len r
    by (simp add: sort_key_stable)
  ultimately show ?thesis unfolding in_order_of_time_def by blast
qed

definition read_events :: "string \<Rightarrow> call" where
  "read_events path = Controller ''json.load'' [PStr path]"

text \<open>What the files contain, each read after those before it.\<close>

definition files_contain :: "env \<Rightarrow> call list \<Rightarrow> string list \<Rightarrow> pyval list list \<Rightarrow> bool" where
  "files_contain e h paths xss \<longleftrightarrow> length xss = length paths
     \<and> (\<forall>i < length paths. \<exists>v. e_ask e (h @ map read_events (take i paths)) (read_events (paths ! i)) = Inr v
          \<and> event_items v = Inr (xss ! i))"

lemma files_contain_Cons:
  assumes "e_ask e h (read_events p) = Inr v" and "event_items v = Inr xs" and "files_contain e (h @ [read_events p]) ps xss"
  shows "files_contain e h (p # ps) (xs # xss)"
  using assms by (auto simp: files_contain_def less_Suc_eq_0_disj)

lemma collected_events:
  "collect (\<lambda>path. bindP (ask_call e (Controller ''json.load'' [PStr path])) (\<lambda>v. sum_prog (event_items v))) paths s
     = (Inr xss, t) \<Longrightarrow> files_contain e (hist s) paths xss"
proof (induction paths arbitrary: s xss)
  case Nil
  then show ?case by (simp add: files_contain_def ret_def)
next
  case (Cons p ps)
  then obtain xs u yss where read: "bindP (ask_call e (read_events p)) (\<lambda>v. sum_prog (event_items v)) s = (Inr xs, u)"
    and rest: "collect (\<lambda>path. bindP (ask_call e (Controller ''json.load'' [PStr path])) (\<lambda>v. sum_prog (event_items v))) ps u
      = (Inr yss, t)" and xss: "xss = xs # yss"
    by (auto simp: bindP_eq_Inr_iff read_events_def ret_def)
  from read obtain v w where w: "ask_call e (read_events p) s = (Inr v, w)" "sum_prog (event_items v) w = (Inr xs, u)"
    unfolding bindP_eq_Inr_iff by blast
  have v: "e_ask e (hist s) (read_events p) = Inr v" "event_items v = Inr xs" "hist u = hist s @ [read_events p]"
    using w by (cases "event_items v"; auto simp: ask_call_def ext_app sum_prog_def prog_simps)+
  show ?case
    unfolding xss by (rule files_contain_Cons [OF v(1,2)]) (use Cons.IH [OF rest] v(3) in simp)
qed

text \<open>C17: The page of the events shows every event of every file exactly as often as the files have it, ordered by the
  times of the events, and events of the same time in the order of the files.
\<close>

theorem merged_events_are_sorted:
  assumes "merge_events e event_paths s = (Inr r, t)"
  shows "\<exists>xss. files_contain e (hist s) event_paths xss \<and> in_order_of_time (concat xss) r"
proof -
  from assms obtain xss u where xss: "collect (\<lambda>path. bindP (ask_call e (Controller ''json.load'' [PStr path]))
      (\<lambda>v. sum_prog (event_items v))) event_paths s = (Inr xss, u)" "sum_prog (sorted_events (concat xss)) u = (Inr r, t)"
    unfolding merge_events_def bindP_eq_Inr_iff by blast
  then have "sorted_events (concat xss) = Inr r"
    by (auto simp: sum_prog_def prog_simps split: sum.splits)
  with sorted_events_ok collected_events [OF xss(1)] show ?thesis by blast
qed

definition two_files :: env where
  "two_files = (reading_env [])\<lparr>e_ask := \<lambda>_ c.
     Inr (PList [PDict [(''event_time'', PStr (if c = Controller ''json.load'' [PStr ''a''] then ''2'' else ''1''))]])\<rparr>"

theorem merged_events_are_sorted_witness:
  "\<exists>r t. merge_events two_files [''a'', ''b''] (\<lparr>hist = []\<rparr> :: call world) = (Inr r, t) \<and> length r = 2
     \<and> (\<exists>xss. files_contain two_files [] [''a'', ''b''] xss \<and> in_order_of_time (concat xss) r)"
proof -
  have "fst (merge_events two_files [''a'', ''b''] (\<lparr>hist = []\<rparr> :: call world))
    = Inr [PDict [(''event_time'', PStr ''1'')], PDict [(''event_time'', PStr ''2'')]]"
    by code_simp
  then obtain t where run: "merge_events two_files [''a'', ''b''] (\<lparr>hist = []\<rparr> :: call world)
    = (Inr [PDict [(''event_time'', PStr ''1'')], PDict [(''event_time'', PStr ''2'')]], t)"
    by (metis prod.collapse)
  from merged_events_are_sorted [OF run] run show ?thesis by fastforce
qed

subsection \<open>Reports\<close>

lemma run_suppress_thread: "run_thread (suppress_thread P t) = suppressing P (run_thread t)"
proof (induction t)
  case (Finished r)
  show ?case by (auto simp: fun_eq_iff suppressing_def try_except_def prog_simps split: sum.split)
next
  case (Step f)
  show ?case
  proof
    fix l
    obtain t l' where f: "f l = (t, l')" by force
    then have "run_thread (suppress_thread P t) = suppressing P (run_thread t)"
      using Step.IH [of "(t, l')" t] by (metis fsts.intros fst_conv rangeI)
    then show "run_thread (suppress_thread P (Step f)) l = suppressing P (run_thread (Step f)) l"
      using f by (simp add: run_Step suppressing_def try_except_def)
  qed
qed

lemma run_all_steps: "run_thread (in_steps ms) = for_each (\<lambda>m. m) ms"
proof (induction ms)
  case (Cons m ms)
  show ?case
  proof
    fix l
    obtain r t where "m l = (r, t)" by force
    then show "run_thread (in_steps (m # ms)) l = for_each (\<lambda>m. m) (m # ms) l"
      using Cons.IH by (cases r) (simp_all add: run_Step bindP_def)
  qed
qed (simp add: fun_eq_iff ret_def)

text \<open>The steps of the thread of a machine, run on their own, are the function that gathers its report.\<close>

lemma sos_job_alone: "run_thread (sos_job e destination_dir node) = gather_sosreport_from_node e node destination_dir"
  unfolding sos_job_def run_suppress_thread run_all_steps gather_sosreport_from_node_def sos_errors_def
  by (simp add: bindP_ret_right)


text \<open>The machines are those a controller has listed.\<close>

lemma sos_nodes_are_listed:
  assumes "find_sos_nodes controllers known s = (Inr ns, t)" and "ns \<noteq> []" and "known = []"
  shows "\<exists>listing \<in> set controllers. \<exists>u. listing u = (Inr ns, t)"
  using assms
proof (induction controllers arbitrary: s known)
  case (Cons listing controllers)
  obtain r u where u: "listing s = (r, u)" by force
  show ?case
  proof (cases "\<exists>ms. r = Inr ms \<and> ms \<noteq> []")
    case True
    then have "listing s = (Inr ns, t)" using Cons.prems(1) u by (auto simp: bindP_def try_except_def ret_def)
    then show ?thesis by auto
  next
    case False
    then have "\<exists>v. find_sos_nodes controllers [] v = (Inr ns, t)"
      using Cons.prems(1,3) u by (cases r) (auto simp: bindP_def try_except_def prog_simps split: if_splits)
    then show ?thesis using Cons.IH Cons.prems(2) by auto
  qed
qed (simp add: ret_def)

subsection \<open>Which logs are downloaded\<close>

lemma excluded_clusters_are_left_out:
  assumes "without_excluded (Some lines) clusters = Inr cs"
  shows "set cs = {c \<in> set clusters. \<forall>line \<in> set lines. excluded_of_line line \<noteq> Inr (get_cluster_installation_date_and_id c)}"
proof -
  obtain out where out: "sum_map excluded_of_line lines = Inr out"
    and cs: "cs = filter (\<lambda>c. get_cluster_installation_date_and_id c \<notin> set out) clusters"
    using assms by (auto simp: without_excluded_def sum_bind_def split: sum.splits)
  have "x \<in> set out \<longleftrightarrow> (\<exists>line \<in> set lines. excluded_of_line line = Inr x)" for x
    using sum_map_Inr [OF out] by (induction rule: list_all2_induct) auto
  then show ?thesis using cs by auto
qed

text \<open>A cluster without debug information ends the collection with an exception that nothing here catches.\<close>

lemma debug_info_is_required:
  assumes "install_get e install s = (Inr aci, t)" and "output_folder \<noteq> []"
    and "sum_bind (py_field aci ''status'') (\<lambda>status. py_field status ''debugInfo'') = Inl x" and "\<not> is_request_error x"
  shows "suppressing is_request_error (collect_debug_info_from_cluster e deployment install (Some output_folder)) s = (Inl x, t)"
proof -
  have "str_or (Some output_folder) None = Some output_folder" using assms(2) by (cases output_folder) (simp_all add: str_or_def)
  then have "collect_debug_info_from_cluster e deployment install (Some output_folder) s = (Inl x, t)"
    using assms(1,3) by (simp add: collect_debug_info_from_cluster_def bindP_def ret_def sum_prog_def raise_def)
  then show ?thesis using assms(4) by (simp add: suppressing_def try_except_def raise_def)
qed

end
