(* ===== verification/Indexer.thy ===== *)
theory Indexer
  imports Utils
begin

text \<open>
  \<open>scripts/indexer.py\<close>: the index of every namespace, from which ports, networks and bridges are derived. The indexes are
  kept in a file that is read and written under a lock. Whether the lock is acquired in time (\<open>got\<close>) is decided outside.
  A file is missing, not JSON (\<open>Unreadable\<close>), or holds
  a dictionary of integers: no other JSON is ever written to it.
\<close>

section \<open>The provider\<close>

type_synonym indexes = "(string, int) dict"

datatype index_file = Missing | Unreadable | Holds indexes

record index_state =
  ix_file :: index_file
  ix_locked :: bool
  ix_in_context :: bool
  ix_ns_to_idx :: indexes

type_synonym 'a iprog = "(index_state, 'a) prog"

text \<open>A file that is missing is made, and is empty then.\<close>

definition indexer_load :: "unit iprog" where
  "indexer_load = modifies (\<lambda>s.
     case ix_file s of
       Missing \<Rightarrow> s\<lparr>ix_file := Unreadable, ix_ns_to_idx := []\<rparr>
     | Unreadable \<Rightarrow> s\<lparr>ix_ns_to_idx := []\<rparr>
     | Holds d \<Rightarrow> s\<lparr>ix_ns_to_idx := d\<rparr>)"

definition indexer_dump :: "unit iprog" where
  "indexer_dump = modifies (\<lambda>s. s\<lparr>ix_file := Holds (ix_ns_to_idx s)\<rparr>)"

definition indexer_enter :: "bool \<Rightarrow> unit iprog" where
  "indexer_enter got =
     thenP (if got then modifies (\<lambda>s. s\<lparr>ix_locked := True\<rparr>) else raise LockTimeout)
       (thenP (modifies (\<lambda>s. s\<lparr>ix_in_context := True\<rparr>)) indexer_load)"

definition indexer_exit :: "bool \<Rightarrow> unit iprog" where
  "indexer_exit failed =
     thenP (whenP (\<not> failed) indexer_dump)
       (modifies (\<lambda>s. s\<lparr>ix_ns_to_idx := [], ix_locked := False, ix_in_context := False\<rparr>))"

text \<open>\<open>with _indexer:\<close>.\<close>

definition with_indexer :: "bool \<Rightarrow> 'a iprog \<Rightarrow> 'a iprog" where
  "with_indexer got body =
     thenP (indexer_enter got) (\<lambda>s. case body s of (r, t) \<Rightarrow> (r, snd (indexer_exit (isl r) t)))"

definition set_index :: "int \<Rightarrow> string \<Rightarrow> int \<Rightarrow> bool iprog" where
  "set_index max_indexes ns idx =
     bindP (reads (\<lambda>s. \<not> ix_in_context s \<or> max_indexes < int (length (ix_ns_to_idx s)))) (\<lambda>refused.
       if refused then ret False
       else thenP (modifies (\<lambda>s. s\<lparr>ix_ns_to_idx := dict_set ns idx (ix_ns_to_idx s)\<rparr>)) (ret True))"

definition get_index :: "string \<Rightarrow> int option iprog" where
  "get_index ns = reads (\<lambda>s. dict_get (ix_ns_to_idx s) ns)"

text \<open>The result is the truth value of what was removed.\<close>

definition del_index :: "string \<Rightarrow> bool iprog" where
  "del_index ns =
     bindP (get_index ns) (\<lambda>old.
       thenP (modifies (\<lambda>s. s\<lparr>ix_ns_to_idx := AList.delete ns (ix_ns_to_idx s)\<rparr>)) (ret (old \<noteq> None \<and> old \<noteq> Some 0)))"

definition clear_all :: "unit iprog" where
  "clear_all = modifies (\<lambda>s. s\<lparr>ix_ns_to_idx := []\<rparr>)"

fun first_gap :: "int \<Rightarrow> int \<Rightarrow> int list \<Rightarrow> int option" where
  "first_gap max_indexes idx [] = (if idx < max_indexes then Some idx else None)"
| "first_gap max_indexes idx (v # vs) = (if idx < v then Some idx else first_gap max_indexes (idx + 1) vs)"

definition first_unused_index :: "int \<Rightarrow> indexes \<Rightarrow> int option" where
  "first_unused_index max_indexes d = first_gap max_indexes 0 (sort (map snd d))"

section \<open>The commands\<close>

definition MAX_INDEXES :: int where "MAX_INDEXES = 15"

text \<open>\<open>None\<close> is the empty text that is written when there is no index.\<close>

definition set_idx :: "bool \<Rightarrow> string \<Rightarrow> int option iprog" where
  "set_idx got ns =
     with_indexer got (bindP (get_index ns) (\<lambda>idx.
       if idx \<noteq> None then ret idx
       else bindP (reads (\<lambda>s. first_unused_index MAX_INDEXES (ix_ns_to_idx s))) (\<lambda>unused.
         case unused of
           None \<Rightarrow> ret None
         | Some i \<Rightarrow> bindP (set_index MAX_INDEXES ns i) (\<lambda>done. ret (if done then Some i else None)))))"

text \<open>\<open>sys.exit\<close> is below \<open>BaseException\<close>.\<close>

definition get_idx :: "bool \<Rightarrow> string \<Rightarrow> int iprog" where
  "get_idx got ns =
     bindP (with_indexer got (get_index ns)) (\<lambda>idx. case idx of None \<Rightarrow> raise BaseExn | Some i \<Rightarrow> ret i)"

definition del_idx :: "bool \<Rightarrow> string \<Rightarrow> unit iprog" where
  "del_idx got ns =
     with_indexer got (if ns = ''all'' then clear_all else thenP (del_index ns) (ret ()))"

definition OC_PREFIX :: string where "OC_PREFIX = ''OC__''"

definition without_prefix :: "string \<Rightarrow> string" where
  "without_prefix ns = (if startswith ns OC_PREFIX then drop 4 ns else ns)"

definition list_namespaces :: "bool \<Rightarrow> string list iprog" where
  "list_namespaces got = with_indexer got (reads (\<lambda>s. map (without_prefix \<circ> fst) (ix_ns_to_idx s)))"

datatype index_action = SetIdx | GetIdx | DelIdx | ListIdx

datatype index_output = Index "int option" | Names "string list" | Silent

text \<open>\<open>main\<close>, without the folder \<open>build\<close> it makes.\<close>

definition indexer_main :: "bool \<Rightarrow> index_action \<Rightarrow> string \<Rightarrow> bool \<Rightarrow> index_output iprog" where
  "indexer_main got action namespace oc_mode =
     (let ns = (if oc_mode then OC_PREFIX @ namespace else namespace)
      in case action of
           SetIdx \<Rightarrow> bindP (set_idx got ns) (\<lambda>r. ret (Index r))
         | GetIdx \<Rightarrow> bindP (get_idx got ns) (\<lambda>i. ret (Index (Some i)))
         | DelIdx \<Rightarrow> thenP (del_idx got ns) (ret Silent)
         | ListIdx \<Rightarrow> bindP (list_namespaces got) (\<lambda>ns. ret (Names ns)))"

section \<open>Properties\<close>

text \<open>What a store of indexes promises to the commands: a free index is the least that no namespace has.\<close>

locale index_store =
  fixes lookup :: "'s \<Rightarrow> string \<Rightarrow> int option"
    and store :: "string \<Rightarrow> int \<Rightarrow> 's \<Rightarrow> 's"
    and remove :: "string \<Rightarrow> 's \<Rightarrow> 's"
    and unused :: "'s \<Rightarrow> int option"
    and ok :: "'s \<Rightarrow> bool"
  assumes lookup_store: "lookup (store n i s) m = (if m = n then Some i else lookup s m)"
    and lookup_remove: "lookup (remove n s) m = (if m = n then None else lookup s m)"
    and ok_store: "ok s \<Longrightarrow> lookup s n = None \<Longrightarrow> unused s = Some i \<Longrightarrow> ok (store n i s)"
    and ok_remove: "ok s \<Longrightarrow> ok (remove n s)"
    and ok_injective: "ok s \<Longrightarrow> lookup s n = Some i \<Longrightarrow> lookup s m = Some i \<Longrightarrow> m = n"
    and unused_least: "ok s \<Longrightarrow> unused s = Some i \<Longrightarrow> 0 \<le> j \<Longrightarrow> j < i \<Longrightarrow> \<exists>m. lookup s m = Some j"
begin

lemma nobody_has_unused:
  assumes "ok s" and "lookup s n = None" and "unused s = Some i"
  shows "lookup s m \<noteq> Some i"
proof
  assume m: "lookup s m = Some i"
  have "ok (store n i s)" by (rule ok_store [OF assms])
  moreover have "lookup (store n i s) n = Some i" "lookup (store n i s) m = Some i"
    using m assms(2) by (auto simp: lookup_store)
  ultimately have "m = n" by (rule ok_injective)
  with m assms(2) show False by simp
qed

text \<open>What is removed is the next to be given away again, unless a smaller index is free.\<close>

lemma removed_is_reusable:
  assumes "ok s" and "lookup s n = Some j" and "unused (remove n s) = Some i" and "0 \<le> j"
  shows "i \<le> j"
proof (rule ccontr)
  assume "\<not> i \<le> j"
  then obtain m where "lookup (remove n s) m = Some j"
    using unused_least [OF ok_remove [OF assms(1)] assms(3,4)] by auto
  then have "m \<noteq> n" "lookup s m = Some j" by (auto simp: lookup_remove split: if_splits)
  with ok_injective [OF assms(1,2)] show False by blast
qed

end

definition good_indexes :: "indexes \<Rightarrow> bool" where
  "good_indexes d \<longleftrightarrow> distinct (map fst d) \<and> distinct (map snd d) \<and> (\<forall>i \<in> snd ` set d. 0 \<le> i \<and> i < MAX_INDEXES)"

lemma first_gap_Some:
  "first_gap m idx vs = Some i \<Longrightarrow> sorted vs \<Longrightarrow> distinct vs \<Longrightarrow> \<forall>v \<in> set vs. idx \<le> v \<and> v < m \<Longrightarrow>
     idx \<le> i \<and> i < m \<and> i \<notin> set vs \<and> (\<forall>j. idx \<le> j \<longrightarrow> j < i \<longrightarrow> j \<in> set vs)"
proof (induction m idx vs rule: first_gap.induct)
  case (2 m idx v vs)
  show ?case
  proof (cases "idx < v")
    case True
    then have "i = idx" using "2.prems"(1) by simp
    with True "2.prems" show ?thesis by auto
  next
    case False
    then have v: "v = idx" using "2.prems"(4) by auto
    then have later: "\<forall>w \<in> set vs. idx + 1 \<le> w \<and> w < m"
      using "2.prems"(2-4) by (force simp: order.order_iff_strict)
    have rest: "idx + 1 \<le> i \<and> i < m \<and> i \<notin> set vs \<and> (\<forall>j. idx + 1 \<le> j \<longrightarrow> j < i \<longrightarrow> j \<in> set vs)"
    proof (rule "2.IH" [OF False])
      show "first_gap m (idx + 1) vs = Some i" "sorted vs" "distinct vs" using "2.prems"(1-3) False by simp_all
    qed (rule later)
    have "j \<in> set (v # vs)" if "idx \<le> j" "j < i" for j
      using rest v that by (cases "j = idx") auto
    with rest v show ?thesis by auto
  qed
qed (auto split: if_splits)

lemma first_gap_None:
  "first_gap m idx vs = None \<Longrightarrow> sorted vs \<Longrightarrow> \<forall>v \<in> set vs. idx \<le> v \<Longrightarrow> distinct vs \<Longrightarrow>
     idx \<le> j \<Longrightarrow> j < m \<Longrightarrow> j \<in> set vs"
proof (induction m idx vs rule: first_gap.induct)
  case (2 m idx v vs)
  then have "\<not> idx < v" by (auto split: if_splits)
  with 2 have v: "v = idx" by auto
  show ?case
  proof (cases "j = idx")
    case False
    have "\<forall>w \<in> set vs. idx + 1 \<le> w" using 2 v by (force simp: order.order_iff_strict)
    then have "j \<in> set vs" using 2 v False by simp
    then show ?thesis by simp
  qed (simp add: v)
qed (auto split: if_splits)

lemma unused_Some:
  assumes "good_indexes d" and "first_unused_index MAX_INDEXES d = Some i"
  shows "0 \<le> i \<and> i < MAX_INDEXES \<and> i \<notin> snd ` set d \<and> (\<forall>j. 0 \<le> j \<longrightarrow> j < i \<longrightarrow> j \<in> snd ` set d)"
  using first_gap_Some [OF assms(2) [unfolded first_unused_index_def]] assms(1) by (auto simp: good_indexes_def)

lemma unused_None:
  assumes "good_indexes d" and "first_unused_index MAX_INDEXES d = None" and "0 \<le> j" "j < MAX_INDEXES"
  shows "j \<in> snd ` set d"
  using first_gap_None [OF assms(2) [unfolded first_unused_index_def]] assms by (auto simp: good_indexes_def)

lemma good_Nil: "good_indexes []"
  by (simp add: good_indexes_def)

lemma good_delete: "good_indexes d \<Longrightarrow> good_indexes (AList.delete n d)"
  unfolding good_indexes_def AList.delete_eq by (auto intro: distinct_map_filter)

lemma good_store:
  assumes "good_indexes d" and "dict_get d n = None" and "first_unused_index MAX_INDEXES d = Some i"
  shows "good_indexes (dict_set n i d)"
proof -
  have "n \<notin> fst ` set d" using assms(2) by (simp add: map_of_eq_None_iff)
  then show ?thesis using dict_set_new [of n d i] assms(1) unused_Some [OF assms(1,3)]
    by (auto simp: good_indexes_def)
qed

lemma good_dict_get: "good_indexes d \<Longrightarrow> dict_get d n = Some i \<longleftrightarrow> (n, i) \<in> set d"
  by (simp add: good_indexes_def)

interpretation ix: index_store dict_get dict_set AList.delete "first_unused_index MAX_INDEXES" good_indexes
proof
  fix s :: indexes and n i m j
  show "dict_get (dict_set n i s) m = (if m = n then Some i else dict_get s m)" by (rule dict_get_set)
  show "dict_get (AList.delete n s) m = (if m = n then None else dict_get s m)" by (simp add: delete_conv')
  assume good: "good_indexes s"
  show "good_indexes (AList.delete n s)" by (rule good_delete [OF good])
  show "m = n" if "dict_get s n = Some i" "dict_get s m = Some i"
  proof -
    have "(n, i) \<in> set s" "(m, i) \<in> set s" "inj_on snd (set s)"
      using that good by (auto simp: good_dict_get good_indexes_def distinct_map)
    then show ?thesis by (auto dest: inj_onD [of snd _ "(m, i)" "(n, i)"])
  qed
  assume unused: "first_unused_index MAX_INDEXES s = Some i"
  show "good_indexes (dict_set n i s)" if "dict_get s n = None" by (rule good_store [OF good that unused])
  show "\<exists>m. dict_get s m = Some j" if "0 \<le> j" "j < i"
    using unused_Some [OF good unused] that by (force simp: good_dict_get [OF good])
qed


subsection \<open>Commands in sequence\<close>

definition stored :: "index_state \<Rightarrow> indexes" where
  "stored s = (case ix_file s of Holds d \<Rightarrow> d | _ \<Rightarrow> [])"

text \<open>Between two commands the lock is free, no namespace is in memory, and what is stored is good.\<close>

definition tidy :: "index_state \<Rightarrow> bool" where
  "tidy s \<longleftrightarrow> \<not> ix_locked s \<and> \<not> ix_in_context s \<and> ix_ns_to_idx s = [] \<and> good_indexes (stored s)"

definition opened :: "index_state \<Rightarrow> index_state" where
  "opened s = s\<lparr>ix_file := (if ix_file s = Missing then Unreadable else ix_file s), ix_locked := True,
     ix_in_context := True, ix_ns_to_idx := stored s\<rparr>"

definition closed_with :: "index_state \<Rightarrow> indexes \<Rightarrow> index_state" where
  "closed_with s d = s\<lparr>ix_file := Holds d, ix_locked := False, ix_in_context := False, ix_ns_to_idx := []\<rparr>"

lemma opened_simps [simp]: "ix_in_context (opened s)" "ix_ns_to_idx (opened s) = stored s"
  by (simp_all add: opened_def)

lemma stored_closed [simp]: "stored (closed_with s d) = d"
  by (simp add: closed_with_def stored_def)

lemma tidy_closed: "good_indexes d \<Longrightarrow> tidy (closed_with s d)"
  by (simp add: tidy_def) (simp add: closed_with_def)

text \<open>A body that only changes the namespaces in memory.\<close>

lemma with_indexer_runs:
  assumes "body (opened s) = (Inr r, (opened s)\<lparr>ix_ns_to_idx := d\<rparr>)"
  shows "with_indexer True body s = (Inr r, closed_with s d)"
proof -
  have "indexer_enter True s = (Inr (), opened s)"
    by (auto simp: indexer_enter_def indexer_load_def opened_def stored_def bindP_app prog_simps split: index_file.split)
  with assms show ?thesis
    by (simp add: with_indexer_def bindP_app indexer_exit_def indexer_dump_def closed_with_def opened_def prog_simps)
qed

lemma with_indexer_locked: "with_indexer False body s = (Inl LockTimeout, s)"
  by (simp add: with_indexer_def indexer_enter_def bindP_app prog_simps)

text \<open>The guard of \<open>set_index\<close> never refuses: there are at most as many namespaces as indexes.\<close>

lemma few_namespaces:
  assumes "good_indexes d"
  shows "int (length d) \<le> MAX_INDEXES"
proof -
  have "set (map snd d) \<subseteq> {0..<MAX_INDEXES}" using assms by (auto simp: good_indexes_def)
  then have "card (set (map snd d)) \<le> card {0..<MAX_INDEXES}" by (intro card_mono) simp_all
  then show ?thesis using assms distinct_card [of "map snd d"] by (simp add: good_indexes_def MAX_INDEXES_def)
qed

definition allotted :: "string \<Rightarrow> indexes \<Rightarrow> int option \<times> indexes" where
  "allotted ns d =
     (case dict_get d ns of
        Some i \<Rightarrow> (Some i, d)
      | None \<Rightarrow> (case first_unused_index MAX_INDEXES d of None \<Rightarrow> (None, d) | Some i \<Rightarrow> (Some i, dict_set ns i d)))"

lemma set_idx_runs:
  assumes "tidy s"
  shows "set_idx True ns s = (Inr (fst (allotted ns (stored s))), closed_with s (snd (allotted ns (stored s))))"
proof -
  have few: "\<not> MAX_INDEXES < int (length (stored s))"
    using few_namespaces assms by (force simp: tidy_def)
  show ?thesis
    unfolding set_idx_def
    by (rule with_indexer_runs)
      (use few in \<open>auto simp: allotted_def get_index_def set_index_def bindP_app prog_simps split: option.split\<close>)
qed

lemma get_idx_runs:
  "get_idx True ns s = (case dict_get (stored s) ns of None \<Rightarrow> Inl BaseExn | Some i \<Rightarrow> Inr i, closed_with s (stored s))"
proof -
  have "with_indexer True (get_index ns) s = (Inr (dict_get (stored s) ns), closed_with s (stored s))"
    by (rule with_indexer_runs) (simp add: get_index_def prog_simps)
  then show ?thesis by (simp add: get_idx_def bindP_app prog_simps split: option.split)
qed

lemma del_idx_runs:
  "del_idx True ns s = (Inr (), closed_with s (if ns = ''all'' then [] else AList.delete ns (stored s)))"
  unfolding del_idx_def
  by (rule with_indexer_runs) (simp add: clear_all_def del_index_def get_index_def bindP_app prog_simps)

lemma list_namespaces_runs:
  "list_namespaces True s = (Inr (map (without_prefix \<circ> fst) (stored s)), closed_with s (stored s))"
  unfolding list_namespaces_def by (rule with_indexer_runs) (simp add: prog_simps)

lemma good_allotted: "good_indexes d \<Longrightarrow> good_indexes (snd (allotted ns d))"
  by (auto simp: allotted_def good_store split: option.split)

lemma locked_out: "indexer_main False action namespace oc_mode s = (Inl LockTimeout, s)"
proof -
  have "set_idx False ns s = (Inl LockTimeout, s)" "get_idx False ns s = (Inl LockTimeout, s)"
    "del_idx False ns s = (Inl LockTimeout, s)" "list_namespaces False s = (Inl LockTimeout, s)" for ns
    unfolding set_idx_def get_idx_def del_idx_def list_namespaces_def
    by (simp_all add: with_indexer_locked bindP_def)
  then show ?thesis by (cases action) (simp_all add: indexer_main_def bindP_def Let_def)
qed

lemma command_keeps_tidy:
  assumes "tidy s"
  shows "tidy (snd (indexer_main got action namespace oc_mode s))"
proof (cases got)
  case False
  then show ?thesis using assms by (simp add: locked_out)
next
  case True
  have "good_indexes (stored s)" using assms by (simp add: tidy_def)
  with True show ?thesis
    by (cases action)
      (auto simp: indexer_main_def set_idx_runs [OF assms] get_idx_runs del_idx_runs list_namespaces_runs bindP_def Let_def
        prog_simps good_allotted good_delete good_Nil tidy_closed split: option.split)
qed

fun run_commands :: "(bool \<times> index_action \<times> string \<times> bool) list \<Rightarrow> index_state \<Rightarrow> index_state" where
  "run_commands [] s = s"
| "run_commands ((got, action, namespace, oc_mode) # cs) s =
     run_commands cs (snd (indexer_main got action namespace oc_mode s))"

lemma commands_keep_tidy: "tidy s \<Longrightarrow> tidy (run_commands cs s)"
  by (induction cs s rule: run_commands.induct) (simp_all add: command_keeps_tidy)

text \<open>C18: After any sequence of commands, whatever commands were locked out, no two namespaces have the same index, and every
  index is below the number of indexes.
\<close>

theorem namespaces_have_own_indexes:
  assumes "tidy s" and "dict_get (stored (run_commands cs s)) m = Some i"
  shows "0 \<le> i \<and> i < MAX_INDEXES \<and> (\<forall>n. n \<noteq> m \<longrightarrow> dict_get (stored (run_commands cs s)) n \<noteq> Some i)"
proof -
  have good: "good_indexes (stored (run_commands cs s))"
    using commands_keep_tidy [OF assms(1)] by (simp add: tidy_def)
  have "dict_get (stored (run_commands cs s)) n \<noteq> Some i" if "n \<noteq> m" for n
    using ix.ok_injective [OF good assms(2)] that by blast
  moreover have "0 \<le> i \<and> i < MAX_INDEXES"
    using assms(2) good by (force simp: good_dict_get [OF good] good_indexes_def)
  ultimately show ?thesis by blast
qed

definition no_indexes :: index_state where
  "no_indexes = \<lparr>ix_file = Missing, ix_locked = False, ix_in_context = False, ix_ns_to_idx = []\<rparr>"

lemma tidy_no_indexes: "tidy no_indexes"
  by (simp add: tidy_def no_indexes_def stored_def good_Nil)

definition some_commands :: "(bool \<times> index_action \<times> string \<times> bool) list" where
  "some_commands = [(True, SetIdx, ''a'', False), (True, SetIdx, ''b'', False), (False, DelIdx, ''b'', False),
     (True, DelIdx, ''a'', False), (True, SetIdx, ''c'', True)]"

theorem namespaces_have_own_indexes_witness:
  "dict_get (stored (run_commands some_commands no_indexes)) ''b'' = Some 1
     \<and> dict_get (stored (run_commands some_commands no_indexes)) ''OC__c'' = Some 0
     \<and> dict_get (stored (run_commands some_commands no_indexes)) ''d'' \<noteq> Some 1"
proof -
  have "dict_get (stored (run_commands some_commands no_indexes)) ''b'' = Some 1"
    "dict_get (stored (run_commands some_commands no_indexes)) ''OC__c'' = Some 0" by code_simp+
  with namespaces_have_own_indexes [OF tidy_no_indexes, of some_commands "''b''" 1] show ?thesis by simp
qed

subsection \<open>The specification\<close>

text \<open>The commands over a partial function; the free index is the first of the fifteen that no namespace has.\<close>

definition spec_unused :: "(string \<rightharpoonup> int) \<Rightarrow> int option" where
  "spec_unused m = find (\<lambda>i. i \<notin> ran m) [0..MAX_INDEXES - 1]"

fun spec_command :: "index_action \<Rightarrow> string \<Rightarrow> (string \<rightharpoonup> int) \<Rightarrow> (exn + index_output) \<times> (string \<rightharpoonup> int)" where
  "spec_command SetIdx ns m =
     (case m ns of
        Some i \<Rightarrow> (Inr (Index (Some i)), m)
      | None \<Rightarrow> (case spec_unused m of None \<Rightarrow> (Inr (Index None), m) | Some i \<Rightarrow> (Inr (Index (Some i)), m(ns \<mapsto> i))))"
| "spec_command GetIdx ns m = (case m ns of None \<Rightarrow> (Inl BaseExn, m) | Some i \<Rightarrow> (Inr (Index (Some i)), m))"
| "spec_command DelIdx ns m = (Inr Silent, if ns = ''all'' then Map.empty else m(ns := None))"
| "spec_command ListIdx ns m = (Inr (Names []), m)"

lemma ran_stored: "good_indexes d \<Longrightarrow> ran (map_of d) = snd ` set d"
  by (force simp: ran_def good_dict_get)

lemma find_upto: "find P [a..b] = Some i \<longleftrightarrow> a \<le> i \<and> i \<le> b \<and> P i \<and> (\<forall>j. a \<le> j \<longrightarrow> j < i \<longrightarrow> \<not> P j)" for i :: int
proof (induction a b rule: upto.induct)
  case (1 a b)
  show ?case
  proof (cases "a \<le> b")
    case True
    show ?thesis
    proof (cases "P a")
      case True
      then have "find P [a..b] = Some a" using \<open>a \<le> b\<close> by (simp add: upto.simps [of a b])
      moreover have "a = i \<longleftrightarrow> a \<le> i \<and> i \<le> b \<and> P i \<and> (\<forall>j. a \<le> j \<longrightarrow> j < i \<longrightarrow> \<not> P j)"
        using True \<open>a \<le> b\<close> by (cases i a rule: linorder_cases) auto
      ultimately show ?thesis by simp
    next
      case False
      then have "find P [a..b] = find P [a + 1..b]" using \<open>a \<le> b\<close> by (simp add: upto.simps [of a b])
      also have "\<dots> = Some i \<longleftrightarrow> a + 1 \<le> i \<and> i \<le> b \<and> P i \<and> (\<forall>j. a + 1 \<le> j \<longrightarrow> j < i \<longrightarrow> \<not> P j)"
        by (rule 1 [OF \<open>a \<le> b\<close>])
      also have "\<dots> \<longleftrightarrow> a \<le> i \<and> i \<le> b \<and> P i \<and> (\<forall>j. a \<le> j \<longrightarrow> j < i \<longrightarrow> \<not> P j)"
        using False by (metis add1_zle_eq order_le_less)
      finally show ?thesis .
    qed
  qed simp
qed

lemma spec_unused_stored:
  assumes "good_indexes d"
  shows "spec_unused (map_of d) = first_unused_index MAX_INDEXES d"
proof (cases "first_unused_index MAX_INDEXES d")
  case None
  then have "\<forall>i \<in> set [0..MAX_INDEXES - 1]. i \<in> ran (map_of d)"
    using unused_None [OF assms None] by (simp add: ran_stored [OF assms])
  then show ?thesis using None by (simp add: spec_unused_def find_None_iff)
next
  case (Some i)
  then show ?thesis
    using unused_Some [OF assms Some] by (simp add: spec_unused_def find_upto ran_stored [OF assms])
qed

text \<open>C19: Setting, getting and deleting indexes under the lock is what the specification over partial functions does: same
  output, same error, and the file holds the specification's function afterwards.
\<close>

theorem commands_refine_specification:
  assumes "tidy s" and "action \<noteq> ListIdx"
  shows "map_prod (\<lambda>r. r) (map_of \<circ> stored) (indexer_main True action namespace oc_mode s)
    = spec_command action (if oc_mode then OC_PREFIX @ namespace else namespace) (map_of (stored s))"
proof -
  have good: "good_indexes (stored s)" using assms(1) by (simp add: tidy_def)
  define ns where "ns = (if oc_mode then OC_PREFIX @ namespace else namespace)"
  have main: "indexer_main True action namespace oc_mode s = indexer_main True action ns False s"
    by (simp add: indexer_main_def ns_def)
  have "map_prod (\<lambda>r. r) (map_of \<circ> stored) (indexer_main True action ns False s) = spec_command action ns (map_of (stored s))"
    using assms(2)
    by (cases action)
      (auto simp: indexer_main_def set_idx_runs [OF assms(1)] get_idx_runs del_idx_runs bindP_def prog_simps allotted_def
        spec_unused_stored [OF good] update_conv' AList.delete_conv' split: option.split)
  then show ?thesis unfolding main ns_def .
qed

theorem commands_refine_specification_witness:
  "map_prod (\<lambda>r. r) (map_of \<circ> stored) (indexer_main True SetIdx ''a'' True no_indexes)
     = (Inr (Index (Some 0)), [''OC__a'' \<mapsto> 0])"
proof -
  have "spec_unused Map.empty = Some 0"
    using spec_unused_stored [OF good_Nil] by (simp add: first_unused_index_def MAX_INDEXES_def)
  then show ?thesis
    using commands_refine_specification [OF tidy_no_indexes, of SetIdx "''a''" True]
    by (simp add: no_indexes_def stored_def OC_PREFIX_def)
qed

subsection \<open>Names\<close>

text \<open>A namespace that was removed had an index also when the result of the removal is false: the first index is 0.\<close>

lemma first_index_is_falsy:
  assumes "dict_get (ix_ns_to_idx s) ns = Some 0"
  shows "fst (del_index ns s) = Inr False"
  using assms by (simp add: del_index_def get_index_def bindP_def prog_simps)

text \<open>The list shows a remote namespace and a local one of the same name alike.\<close>

lemma remote_and_local_look_alike:
  "\<not> startswith ns OC_PREFIX \<Longrightarrow> without_prefix (OC_PREFIX @ ns) = without_prefix ns"
  by (simp add: without_prefix_def OC_PREFIX_def)

end
