(* ===== verification/Scripts.thy ===== *)
theory Scripts
  imports Libvirt
begin

text \<open>
  Maintenance scripts: \<open>update_assisted_service_cm.py\<close>, which writes variables of the environment and requirements of the
  hardware into the configuration of the service, \<open>manage/manage.py\<close>, which removes or unregisters old clusters,
  \<open>deprecated_utils.py\<close> and \<open>cleanup.py\<close>. JSON, YAML and the format of times are parameters; times are microseconds.
\<close>

section \<open>The configuration of the service\<close>

definition CM_PATH :: string where "CM_PATH = ''assisted-service/deploy/assisted-service-configmap.yaml''"

definition cm_variables :: "(string \<times> string) list" where
  "cm_variables =
     [(''INSTALLER_IMAGE'', ''''), (''CONTROLLER_IMAGE'', ''''), (''SERVICE_BASE_URL'', ''''),
      (''IMAGE_SERVICE_BASE_URL'', ''''), (''AGENT_DOCKER_IMAGE'', ''''), (''BASE_DNS_DOMAINS'', ''''),
      (''IMAGE_BUILDER'', ''''), (''OCM_BASE_URL'', ''''), (''AGENT_TIMEOUT_START'', ''''),
      (''PUBLIC_CONTAINER_REGISTRIES'', ''''), (''CHECK_CLUSTER_VERSION'', ''''), (''HW_VALIDATOR_REQUIREMENTS'', ''''),
      (''HW_VALIDATOR_MIN_CPU_CORES_SNO'', ''''), (''HW_VALIDATOR_MIN_RAM_GIB_SNO'', ''''),
      (''ENABLE_UPGRADE_AGENT'', ''true''), (''JWKS_URL'', ''''), (''ENABLE_HOST_RECLAIM'', ''''),
      (''ENABLE_SKIP_MCO_REBOOT'', ''''), (''ENABLE_SOFT_TIMEOUTS'', ''''), (''OCM_SELF_TOKEN'', ''''),
      (''ACKNOWLEDGE_DEPRECATED_OCM_SELF_TOKEN'', '''')]"

definition requirements :: "int \<Rightarrow> int \<Rightarrow> pyval" where
  "requirements cpu_cores ram_mib =
     PDict [(''cpu_cores'', PInt cpu_cores), (''ram_mib'', PInt ram_mib), (''disk_size_gb'', PInt 10),
            (''installation_disk_speed_threshold_ms'', PInt 10)]"

definition role_requirements :: "(string \<times> pyval) list" where
  "role_requirements =
     [(''master'', requirements 4 (8 * MiB_UNITS)), (''worker'', requirements 2 (3 * MiB_UNITS)),
      (''sno'', requirements 8 (16 * MiB_UNITS))]"

definition DEFAULT_REQUIREMENTS :: pyval where
  "DEFAULT_REQUIREMENTS = PList [PDict ((''version'', PStr ''default'') # role_requirements)]"

text \<open>A value of two quotation marks is an empty value; an empty one is left out.\<close>

definition relevant_env :: "environ \<Rightarrow> string \<times> string \<Rightarrow> (string \<times> pyval) option" where
  "relevant_env environ var =
     (let v = os_environ_get environ (fst var) (snd var)
      in if v = [CHR 0x22, CHR 0x22] then Some (fst var, PStr []) else if v \<noteq> [] then Some (fst var, PStr v) else None)"

definition get_relevant_envs :: "environ \<Rightarrow> (string, pyval) dict" where
  "get_relevant_envs environ = List.map_filter (relevant_env environ) cm_variables"

definition is_default_version :: "pyval \<Rightarrow> exn + bool" where
  "is_default_version r = sum_bind (py_field r ''version'') (\<lambda>v. Inr (v = PStr ''default''))"

definition with_role_requirements :: "pyval \<Rightarrow> exn + pyval" where
  "with_role_requirements r =
     sum_bind (is_default_version r) (\<lambda>known.
       case r of PDict d \<Rightarrow> Inr (if known then PDict (dict_update d role_requirements) else r) | _ \<Rightarrow> Inl TypeError)"

definition update_requirements ::
  "(string \<Rightarrow> exn + pyval) \<Rightarrow> (pyval \<Rightarrow> string) \<Rightarrow> string \<Rightarrow> exn + string" where
  "update_requirements loads dumps requirements_json =
     (if requirements_json = [] \<or> requirements_json = ''REPLACE_HW_VALIDATOR_REQUIREMENTS'' then Inr (dumps DEFAULT_REQUIREMENTS)
      else sum_bind (loads requirements_json) (\<lambda>v.
        case v of
          PList rs \<Rightarrow> sum_bind (sum_map with_role_requirements rs) (\<lambda>rs. Inr (dumps (PList rs)))
        | PDict [] \<Rightarrow> Inr (dumps v) | PStr [] \<Rightarrow> Inr (dumps v) | _ \<Rightarrow> Inl TypeError))"

definition kube_api_installer_policy_env :: "environ \<Rightarrow> (string, pyval) dict" where
  "kube_api_installer_policy_env environ =
     (if lower (os_environ_get environ ''ENABLE_KUBE_API'' []) \<notin> {''true'', ''1'', ''yes''} then []
      else [(''LOG_LEVEL'', PStr ''debug''), (''OPENSHIFT_INSTALL_EXPERIMENTAL_DISABLE_IMAGE_POLICY'', PStr ''true'')])"

definition updated_cm_data ::
  "(string \<Rightarrow> exn + pyval) \<Rightarrow> (pyval \<Rightarrow> string) \<Rightarrow> environ \<Rightarrow> (string, pyval) dict \<Rightarrow> exn + (string, pyval) dict" where
  "updated_cm_data loads dumps environ data =
     (let d = dict_update (dict_update data (get_relevant_envs environ)) (kube_api_installer_policy_env environ)
      in sum_bind (case dict_get d ''HW_VALIDATOR_REQUIREMENTS'' of
             None \<Rightarrow> update_requirements loads dumps []
           | Some (PStr text) \<Rightarrow> update_requirements loads dumps text
           | Some _ \<Rightarrow> Inl TypeError) (\<lambda>r. Inr (dict_set ''HW_VALIDATOR_REQUIREMENTS'' (PStr r) d)))"

definition read_yaml :: "env \<Rightarrow> ((call, 'z) world_scheme, pyval) prog" where
  "read_yaml e =
     bindP (ask_bool e ''os.path.exists'' [PStr CM_PATH]) (\<lambda>there.
       if \<not> there then ret PNone else ask_call e (Controller ''yaml.safe_load'' [PStr CM_PATH]))"

definition set_envs_to_service_cm ::
  "(string \<Rightarrow> exn + pyval) \<Rightarrow> (pyval \<Rightarrow> string) \<Rightarrow> environ \<Rightarrow> env \<Rightarrow> ((call, 'z) world_scheme, unit) prog" where
  "set_envs_to_service_cm loads dumps environ e =
     bindP (read_yaml e) (\<lambda>cm.
       if \<not> truth cm then raise GenericException
       else bindP (sum_prog (sum_bind (py_field cm ''data'') (\<lambda>data. case (cm, data) of
           (PDict c, PDict d) \<Rightarrow> sum_bind (updated_cm_data loads dumps environ d) (\<lambda>new. Inr (dict_set ''data'' (PDict new) c))
         | _ \<Rightarrow> Inl AttributeError))) (\<lambda>new.
         thenP (do_call e (WriteFile CM_PATH)) (act e ''yaml.dump'' [PStr CM_PATH, PDict new])))"

section \<open>Old clusters\<close>

definition DAY :: int where "DAY = 24 * 60 * 60 * 1000000"

text \<open>\<open>(date - now).days\<close> is the floor of the days.\<close>

definition is_older_then :: "int \<Rightarrow> int \<Rightarrow> int \<Rightarrow> bool" where
  "is_older_then date now days \<longleftrightarrow> (date - now) div DAY < - days"

definition valid_answers :: "(string \<times> bool) list" where
  "valid_answers = [(''yes'', True), (''y'', True), (''no'', False), (''n'', False)]"

text \<open>It asks until the answer is valid; an empty answer is the default.\<close>

partial_function (option) ask_again ::
  "env \<Rightarrow> string option \<Rightarrow> (call, 'z) world_scheme \<Rightarrow> ((exn + bool) \<times> (call, 'z) world_scheme) option" where
  "ask_again e preset s =
     (case ask_call e (Controller ''input'' []) s of
        (Inl x, t) \<Rightarrow> Some (Inl x, t)
      | (Inr v, t) \<Rightarrow>
          let choice = lower (text_of v)
          in if preset \<noteq> None \<and> choice = [] then Some (Inr (the (map_of valid_answers (the preset))), t)
             else case map_of valid_answers choice of
                 Some b \<Rightarrow> Some (Inr b, t)
               | None \<Rightarrow> ask_again e preset t)"

definition query_yes_no :: "env \<Rightarrow> string option \<Rightarrow> ((call, 'z) world_scheme, bool) prog" where
  "query_yes_no e preset =
     (if preset \<in> {None, Some ''yes'', Some ''no''} then or_diverges (ask_again e preset)
      else raise (ValueError ''invalid default answer''))"

definition old_cluster ::
  "env \<Rightarrow> (string \<Rightarrow> exn + int) \<Rightarrow> (call list \<Rightarrow> int) \<Rightarrow> string \<Rightarrow> pyval \<Rightarrow> pyval \<Rightarrow> ((call, 'z) world_scheme, pyval option) prog" where
  "old_cluster e parse_time now measure_field days_back c =
     bindP (sum_prog (sum_bind (py_field c measure_field) (\<lambda>v. case v of PStr t \<Rightarrow> parse_time t | _ \<Rightarrow> Inl TypeError))) (\<lambda>date.
       bindP (ext (\<lambda>h. Inr (now h)) (Controller ''datetime.now'' [])) (\<lambda>n.
       bindP (sum_prog (case days_back of PInt d \<Rightarrow> Inr d | _ \<Rightarrow> Inl TypeError)) (\<lambda>days.
         if is_older_then date n days then bindP (sum_prog (py_field c ''id'')) (\<lambda>i. ret (Some i)) else ret None)))"

text \<open>The first part of \<open>Manage.__init__\<close>: the configured option, and the identifiers of the clusters that are old enough.\<close>

definition select_clusters ::
  "env \<Rightarrow> (string \<Rightarrow> exn + int) \<Rightarrow> (call list \<Rightarrow> int) \<Rightarrow> string \<Rightarrow> ((call, 'z) world_scheme, pyval \<times> pyval list) prog" where
  "select_clusters e parse_time now type =
     bindP (ask_call e (Controller ''yaml.load'' [PStr ''src/manage/manageable_options.yaml''])) (\<lambda>options.
     bindP (sum_prog (py_get options type PNone)) (\<lambda>manage_config.
       if \<not> truth manage_config then raise (ValueError ''not a valid manageable_options option'')
       else bindP (sum_prog (py_field manage_config ''days_back'')) (\<lambda>days_back.
         bindP (sum_prog (py_field manage_config ''measure_field'')) (\<lambda>measure_field.
         bindP (ask_call e (Controller ''get_all_clusters'' [])) (\<lambda>v.
         bindP (sum_prog (items_in v)) (\<lambda>cs.
         bindP (collect (old_cluster e parse_time now (text_of measure_field) days_back) cs) (\<lambda>old.
           ret (manage_config, List.map_filter (\<lambda>x. x) old))))))))"

definition process_cluster :: "env \<Rightarrow> string \<Rightarrow> pyval \<Rightarrow> ((call, 'z) world_scheme, unit) prog" where
  "process_cluster e m i = suppressing (\<lambda>x. x = ApiException) (act e m [i])"

definition manage ::
  "env \<Rightarrow> (string \<Rightarrow> exn + int) \<Rightarrow> (call list \<Rightarrow> int) \<Rightarrow> string \<Rightarrow> ((call, 'z) world_scheme, unit) prog" where
  "manage e parse_time now type =
     bindP (select_clusters e parse_time now type) (\<lambda>(manage_config, clusters_to_process).
     bindP (query_yes_no e (Some ''yes'')) (\<lambda>proceed.
       if \<not> proceed then ret ()
       else bindP (sum_prog (py_field manage_config ''method'')) (\<lambda>m.
         for_each (process_cluster e (text_of m)) clusters_to_process)))"

section \<open>Deprecated helpers\<close>

text \<open>The names of the programs for which a warning was displayed.\<close>

record displayed = "call world" +
  displayed_warnings :: "string list"

definition warn_deprecate :: "env \<Rightarrow> string \<Rightarrow> (displayed, unit) prog" where
  "warn_deprecate e program =
     bindP (reads displayed_warnings) (\<lambda>shown.
       if program \<in> set shown \<or> endswith program ''__main__.py'' then ret ()
       else thenP (act e ''warnings.filterwarnings'' []) (thenP (act e ''warnings.warn'' [PStr program])
         (thenP (modifies (\<lambda>s. s\<lparr>displayed_warnings := displayed_warnings s @ [program]\<rparr>)) (do_call e (Sleep 5)))))"

text \<open>The leases and the wait are the libvirt controller's; the warnings of the functions themselves are left out.\<close>

definition deprecated_network_leases :: "env \<Rightarrow> libvirt_env \<Rightarrow> string \<Rightarrow> ('z, lease list) lprog" where
  "deprecated_network_leases e l network_name = list_leases e l network_name"

definition deprecated_wait_till_ready ::
  "'z lwaiter \<Rightarrow> env \<Rightarrow> libvirt_env \<Rightarrow> int \<Rightarrow> string \<Rightarrow> ('z, unit) lprog" where
  "deprecated_wait_till_ready wait e l nodes_count network_name =
     try_except
       (wait (bindP (deprecated_network_leases e l network_name) (\<lambda>ls. ret (truthy (nodes_count \<le> int (length ls)))))
         (NODES_REGISTERED_TIMEOUT * nodes_count) 10 no_exceptions)
       (\<lambda>x. thenP (deprecated_network_leases e l network_name) (raise x))"

text \<open>The loop is over the keys of the dictionary.\<close>

definition are_libvirt_nodes_in_cluster_hosts ::
  "env \<Rightarrow> string \<Rightarrow> int \<Rightarrow> ((call, 'z) world_scheme, bool) prog" where
  "are_libvirt_nodes_in_cluster_hosts e c_id num_nodes =
     try_except
       (bindP (get_hosts_id_with_macs e c_id) (\<lambda>hosts_macs.
          ret (num_nodes \<le> int (length (filter (\<lambda>mac. mac \<noteq> []) (map fst hosts_macs))))))
       (\<lambda>x. if x = Diverges then raise x else ret False)"

section \<open>Cleaning up\<close>

definition REMOVE_FILES :: "string list" where "REMOVE_FILES = [''*.py[co]'', ''test_infra.log'']"

definition REMOVE_FOLDERS :: "string list" where
  "REMOVE_FOLDERS = [''__pycache__'', ''UNKNOWN.egg-info'', ''build'', ''reports'', ''.mypy_cache'']"

text \<open>The paths are found one by one, each after the one before was removed.\<close>

partial_function (option) remove_paths ::
  "env \<Rightarrow> string \<Rightarrow> string \<Rightarrow> (call, 'z) world_scheme \<Rightarrow> ((exn + unit) \<times> (call, 'z) world_scheme) option" where
  "remove_paths e removal pattern s =
     (case ask_call e (Controller ''rglob'' [PStr pattern]) s of
        (Inl x, t) \<Rightarrow> Some (Inl x, t)
      | (Inr p, t) \<Rightarrow>
          if p = PNone then Some (Inr (), t)
          else case act e removal [p] t of
              (Inl x, u) \<Rightarrow> Some (Inl x, u)
            | (Inr _, u) \<Rightarrow> remove_paths e removal pattern u)"

definition remove_leftovers :: "env \<Rightarrow> ((call, 'z) world_scheme, unit) prog" where
  "remove_leftovers e =
     thenP (for_each (\<lambda>p. or_diverges (remove_paths e ''unlink'' p)) REMOVE_FILES)
       (for_each (\<lambda>p. or_diverges (remove_paths e ''shutil.rmtree'' p)) REMOVE_FOLDERS)"

section \<open>Properties\<close>

text \<open>A cluster is old as soon as more than the days have passed since the measured time.\<close>

lemma is_older_then_iff: "is_older_then date now days \<longleftrightarrow> days * DAY < now - date"
proof -
  have day: "0 < DAY" by (simp add: DAY_def)
  then have "(date - now + days * DAY) div DAY = days + (date - now) div DAY" by simp
  then have "(date - now) div DAY < - days \<longleftrightarrow> (date - now + days * DAY) div DAY < 0" by linarith
  also have "\<dots> \<longleftrightarrow> date - now + days * DAY < 0" using day by (rule pos_imp_zdiv_neg_iff)
  finally show ?thesis by (auto simp: is_older_then_def algebra_simps)
qed

text \<open>The default requirements are not changed by a second run that reads them back.\<close>

lemma default_requirements_stay:
  assumes "\<And>v. loads (dumps v) = Inr v" and "dumps DEFAULT_REQUIREMENTS \<notin> {[], ''REPLACE_HW_VALIDATOR_REQUIREMENTS''}"
  shows "update_requirements loads dumps (dumps DEFAULT_REQUIREMENTS) = Inr (dumps DEFAULT_REQUIREMENTS)"
  using assms
  by (simp add: update_requirements_def DEFAULT_REQUIREMENTS_def with_role_requirements_def is_default_version_def py_field_def
      role_requirements_def)

text \<open>Requirements of other versions are kept.\<close>

lemma other_versions_stay:
  assumes "with_role_requirements r = Inr r'" and "is_default_version r \<noteq> Inr True"
  shows "r' = r"
  using assms by (cases r) (auto simp: with_role_requirements_def sum_bind_Inr_iff)

text \<open>The policy of images is only changed when the Kubernetes interface is enabled.\<close>

lemma policy_only_for_kube_api:
  "kube_api_installer_policy_env environ \<noteq> [] \<longleftrightarrow> lower (os_environ_get environ ''ENABLE_KUBE_API'' []) \<in> {''true'', ''1'', ''yes''}"
  by (simp add: kube_api_installer_policy_env_def)

lemma warned_once:
  assumes "warn_deprecate e program s = (Inr (), t)" and "\<not> endswith program ''__main__.py''"
  shows "program \<in> set (displayed_warnings t) \<and> warn_deprecate e program t = (Inr (), t)"
  using assms by (auto simp: warn_deprecate_def act_def do_call_def ext_def bindP_def prog_simps split: sum.splits if_splits prod.splits)

subsection \<open>Only old clusters are processed\<close>

lemma adds_ask: "P c \<Longrightarrow> keeps (adds P) (ask_call e c)"
  unfolding ask_call_def by (rule adds_ext)

lemma adds_sum_prog: "keeps (adds P) (sum_prog r)"
  by (cases r) (simp_all add: sum_prog_def adds.keeps_intros)

definition selecting :: "call \<Rightarrow> bool" where
  "selecting c \<longleftrightarrow> (\<exists>n args. c = Controller n args \<and> n \<in> {''yaml.load'', ''get_all_clusters'', ''datetime.now'', ''input''})"

lemma selecting_simps [simp]:
  "selecting (Controller ''yaml.load'' args)" "selecting (Controller ''get_all_clusters'' args)"
  "selecting (Controller ''datetime.now'' args)" "selecting (Controller ''input'' args)"
  by (simp_all add: selecting_def)

lemma old_cluster_selects: "keeps (adds selecting) (old_cluster e parse_time now f days c)"
  unfolding old_cluster_def
  by (intro adds.keeps_bindP adds_sum_prog adds_ext selecting_simps) (simp add: adds.keeps_intros adds_sum_prog)

lemma select_clusters_selects: "keeps (adds selecting) (select_clusters e parse_time now type)"
  unfolding select_clusters_def
  by (intro adds.keeps_bindP adds_sum_prog adds_ask selecting_simps)
    (auto intro!: adds.keeps_intros adds_sum_prog adds_ask old_cluster_selects)

lemma ask_again_selects:
  assumes "ask_again e preset s = Some y"
  shows "adds selecting s (snd y)"
proof (rule ask_again.raw_induct [OF _ assms, where P = "\<lambda>_ _ s y. adds selecting s (snd y)"])
  fix loop e preset and s :: "(call, 'a) world_scheme" and y
  assume later: "\<And>e preset s y. loop e preset s = Some y \<Longrightarrow> adds selecting s (snd y)"
    and now: "(case ask_call e (Controller ''input'' []) s of
        (Inl x, t) \<Rightarrow> Some (Inl x, t)
      | (Inr v, t) \<Rightarrow>
          let choice = lower (text_of v)
          in if preset \<noteq> None \<and> choice = [] then Some (Inr (the (map_of valid_answers (the preset))), t)
             else case map_of valid_answers choice of
                 Some b \<Rightarrow> Some (Inr b, t)
               | None \<Rightarrow> loop e preset t) = Some y"
  obtain q t where q: "ask_call e (Controller ''input'' []) s = (q, t)" by force
  have st: "adds selecting s t" by (rule keepsD [OF adds_ask q]) simp
  have "adds selecting s (snd y)" if "loop e preset t = Some y"
    using st later [OF that] by (rule adds.rel_trans)
  then show "adds selecting s (snd y)"
    using now st by (cases q) (auto simp: q Let_def split: if_splits option.splits)
qed

lemma query_selects: "keeps (adds selecting) (query_yes_no e preset)"
proof (rule keepsI)
  fix s :: "(call, 'a) world_scheme" and r t
  assume "query_yes_no e preset s = (r, t)"
  then show "adds selecting s t"
    using ask_again_selects [of e preset s]
    by (auto simp: query_yes_no_def or_diverges_def prog_simps adds.rel_refl split: if_splits option.splits)
qed

lemma query_answered:
  assumes "preset \<in> {None, Some ''yes'', Some ''no''}" and "ask_call e (Controller ''input'' []) s = (Inr (PStr a), t)"
    and "map_of valid_answers (lower a) = Some b"
  shows "query_yes_no e preset s = (Inr b, t)"
proof -
  have "lower a \<noteq> []" using assms(3) by (auto simp: valid_answers_def)
  with assms have "ask_again e preset s = Some (Inr b, t)" by (simp add: ask_again.simps [of e preset s] text_of_def)
  with assms(1) show ?thesis by (simp add: query_yes_no_def or_diverges_def)
qed

text \<open>The cluster \<open>c\<close> of identifier \<open>i\<close> was old when it was looked at, by the configured field and number of days.\<close>

definition seen_old ::
  "(string \<Rightarrow> exn + int) \<Rightarrow> (call list \<Rightarrow> int) \<Rightarrow> string \<Rightarrow> pyval \<Rightarrow> pyval \<Rightarrow> pyval \<Rightarrow> bool" where
  "seen_old parse_time now measure_field days_back c i \<longleftrightarrow>
     (\<exists>d date time h. days_back = PInt d \<and> py_field c measure_field = Inr (PStr date) \<and> parse_time date = Inr time
        \<and> d * DAY < now h - time \<and> py_field c ''id'' = Inr i)"

lemma old_cluster_seen:
  assumes "old_cluster e parse_time now f days c s = (Inr (Some i), t)"
  shows "seen_old parse_time now f days c i"
  using assms
  by (auto simp: old_cluster_def seen_old_def is_older_then_iff bindP_eq_Inr_iff prog_simps ext_def sum_bind_Inr_iff
      split: if_splits pyval.splits)

lemma collected_seen:
  "collect (old_cluster e parse_time now f days) cs s = (Inr old, t) \<Longrightarrow> Some i \<in> set old \<Longrightarrow>
     \<exists>c \<in> set cs. seen_old parse_time now f days c i"
proof (induction cs arbitrary: s old)
  case (Cons c cs)
  then show ?case by (fastforce simp: bindP_eq_Inr_iff prog_simps dest: old_cluster_seen)
qed (simp add: prog_simps)

lemma selected_seen:
  assumes "select_clusters e parse_time now type s = (Inr (conf, old), t)" and "i \<in> set old"
  shows "\<exists>options days f h clusters. e_ask e (hist s) (Controller ''yaml.load'' [PStr ''src/manage/manageable_options.yaml'']) = Inr options
    \<and> py_get options type PNone = Inr conf \<and> py_field conf ''days_back'' = Inr days \<and> py_field conf ''measure_field'' = Inr f
    \<and> e_ask e h (Controller ''get_all_clusters'' []) = Inr (PList clusters)
    \<and> (\<exists>c \<in> set clusters. seen_old parse_time now (text_of f) days c i)"
proof -
  from assms(1) obtain options days f h cs s' old' where
    "e_ask e (hist s) (Controller ''yaml.load'' [PStr ''src/manage/manageable_options.yaml'']) = Inr options"
      "py_get options type PNone = Inr conf" "py_field conf ''days_back'' = Inr days" "py_field conf ''measure_field'' = Inr f"
      "e_ask e h (Controller ''get_all_clusters'' []) = Inr (PList cs)"
      "collect (old_cluster e parse_time now (text_of f) days) cs s' = (Inr old', t)" "old = List.map_filter (\<lambda>x. x) old'"
    by (auto simp: select_clusters_def bindP_eq_Inr_iff prog_simps ask_call_def ext_app split: if_splits)
  moreover from this(7) assms(2) have "Some i \<in> set old'" by (auto simp: List.map_filter_def)
  ultimately show ?thesis
    using collected_seen [of e parse_time now "text_of f" days cs s' old' t i] by blast
qed


definition two_clusters :: pyval where
  "two_clusters = PList [PDict [(''id'', PStr ''old''), (''created_at'', PStr ''1'')],
     PDict [(''id'', PStr ''new''), (''created_at'', PStr ''2'')]]"

definition deregister_options :: pyval where
  "deregister_options = PDict [(''deregister'', PDict [(''days_back'', PInt 7), (''measure_field'', PStr ''created_at''),
     (''method'', PStr ''delete_cluster'')])]"

definition managed_env :: env where
  "managed_env = (still_env (sample_cluster ''ready'' []))\<lparr>e_ask := (\<lambda>_ c.
     if c = Controller ''get_all_clusters'' [] then Inr two_clusters
     else if c = Controller ''input'' [] then Inr (PStr ''Y'')
     else Inr deregister_options), e_do := (\<lambda>_ _. Inl ApiException)\<rparr>"

definition days_of_text :: "string \<Rightarrow> exn + int" where
  "days_of_text t = (if t = ''1'' then Inr 0 else Inr (5 * DAY))"

lemma managed_selection:
  "select_clusters managed_env days_of_text (\<lambda>_. 8 * DAY) ''deregister'' fresh_world
     = (Inr (PDict [(''days_back'', PInt 7), (''measure_field'', PStr ''created_at''), (''method'', PStr ''delete_cluster'')],
          [PStr ''old'']),
        \<lparr>hist = [Controller ''yaml.load'' [PStr ''src/manage/manageable_options.yaml''], Controller ''get_all_clusters'' [],
           Controller ''datetime.now'' [], Controller ''datetime.now'' []]\<rparr>)"
  by code_simp

lemma managed_processing:
  "process_cluster managed_env ''delete_cluster'' (PStr ''old'') s = (Inr (), s\<lparr>hist := hist s @ [Controller ''delete_cluster'' [PStr ''old'']]\<rparr>)"
  by (simp add: process_cluster_def suppressing_def act_def do_call_def ext_app try_except_def prog_simps managed_env_def)

lemma managed_run:
  "manage managed_env days_of_text (\<lambda>_. 8 * DAY) ''deregister'' fresh_world
     = (Inr (), \<lparr>hist = [Controller ''yaml.load'' [PStr ''src/manage/manageable_options.yaml''], Controller ''get_all_clusters'' [],
         Controller ''datetime.now'' [], Controller ''datetime.now'' [], Controller ''input'' [],
         Controller ''delete_cluster'' [PStr ''old'']]\<rparr>)"
proof -
  have answer: "map_of valid_answers (lower ''Y'') = Some True" by code_simp
  have input: "ask_call managed_env (Controller ''input'' []) s = (Inr (PStr ''Y''), s\<lparr>hist := hist s @ [Controller ''input'' []]\<rparr>)"
    for s :: "call world" by (simp add: ask_call_def ext_app managed_env_def)
  have "query_yes_no managed_env (Some ''yes'') s = (Inr True, s\<lparr>hist := hist s @ [Controller ''input'' []]\<rparr>)" for s :: "call world"
    by (rule query_answered [OF _ input answer]) simp
  then show ?thesis
    by (simp add: manage_def bindP_def managed_selection managed_processing py_field_def prog_simps text_of_def)
qed

end
