(* ===== verification/Chatbot.thy ===== *)
theory Chatbot
  imports Utils
begin

text \<open>
  \<open>chatbot_client.py\<close>: the client of the chat interface. A request is an event of the history; the answer of the service is
  a parameter (\<open>post\<close>), as are JSON, the decoding of bytes and the clock, in seconds. The lines of an answer may end with an
  exception of the connection.
\<close>

section \<open>The client\<close>

record answer =
  an_status :: int
  an_reason :: string
  an_json :: "exn + pyval"
  an_lines :: "(exn + string) list"

record chat_lib =
  cl_post :: "call list \<Rightarrow> call \<Rightarrow> exn + answer"
  cl_now :: "call list \<Rightarrow> int"
  cl_loads :: "string \<Rightarrow> exn + pyval"
  cl_decode :: "string \<Rightarrow> exn + string"

record chat_client = "call world" +
  cb_token :: string
  cb_url :: string
  cb_streaming :: bool
  cb_conversation_id :: pyval
  cb_access_token :: pyval
  cb_last_auth :: "int option"

type_synonym ('z, 'a) cprog = "('z chat_client_scheme, 'a) prog"

definition chat_auth_url :: string where
  "chat_auth_url = ''https://sso.redhat.com/auth/realms/redhat-external/protocol/openid-connect/token''"

text \<open>The explicit argument comes before the variable, which comes before the default.\<close>

definition streaming_mode :: "bool option \<Rightarrow> string option \<Rightarrow> bool" where
  "streaming_mode streaming_enabled env_val =
     (case streaming_enabled of
        Some b \<Rightarrow> b
      | None \<Rightarrow> (case env_val of None \<Rightarrow> True | Some v \<Rightarrow> lower v \<in> {''1'', ''true'', ''yes'', ''on''}))"

definition strip_slashes :: "string \<Rightarrow> string" where
  "strip_slashes s = rev (dropWhile (\<lambda>c. c = CHR ''/'') (rev s))"

definition resolve_endpoint :: "string \<Rightarrow> bool \<Rightarrow> string" where
  "resolve_endpoint base_or_full streaming_enabled =
     (let s = strip_slashes base_or_full
      in if endswith s ''/query'' \<or> endswith s ''/streaming_query'' then s
         else if endswith s ''/v1'' then s @ (if streaming_enabled then ''/streaming_query'' else ''/query'')
         else s @ (if streaming_enabled then ''/streaming_query'' else ''/query''))"

definition chat_now :: "chat_lib \<Rightarrow> ('z, int) cprog" where
  "chat_now l = ext (\<lambda>h. Inr (cl_now l h)) (Controller ''datetime.now'' [])"

definition get_access_token :: "chat_lib \<Rightarrow> ('z, pyval) cprog" where
  "get_access_token l =
     bindP (reads cb_token) (\<lambda>refresh.
       let c = Controller ''requests.post'' [PStr chat_auth_url, PDict [(''grant_type'', PStr ''refresh_token''),
             (''refresh_token'', PStr refresh), (''client_id'', PStr ''cloud-services'')]]
       in bindP (ext (\<lambda>h. cl_post l h c) c) (\<lambda>res.
         if 400 \<le> an_status res \<and> an_status res < 500 then raise GenericException
         else bindP (sum_prog (sum_bind (an_json res) (\<lambda>v. py_field v ''access_token''))) (\<lambda>token.
           bindP (chat_now l) (\<lambda>n. thenP (modifies (\<lambda>s. s\<lparr>cb_last_auth := Some n\<rparr>)) (ret token)))))"

text \<open>The constructor; \<open>token\<close> and \<open>url\<close> are the two required variables.\<close>

definition chat_init ::
  "chat_lib \<Rightarrow> bool option \<Rightarrow> string option \<Rightarrow> string option \<Rightarrow> string option \<Rightarrow> ('z, unit) cprog" where
  "chat_init l streaming_enabled env_val token url =
     (case (token, url) of
        (Some tk, Some u) \<Rightarrow>
          let streaming = streaming_mode streaming_enabled env_val
          in thenP (modifies (\<lambda>s. s\<lparr>cb_token := tk, cb_url := resolve_endpoint u streaming, cb_streaming := streaming,
                 cb_conversation_id := PNone, cb_access_token := PNone, cb_last_auth := None\<rparr>))
             (bindP (get_access_token l) (\<lambda>a. modifies (\<lambda>s. s\<lparr>cb_access_token := a\<rparr>)))
      | _ \<Rightarrow> raise (ValueError ''environment variable is not set''))"

definition FIFTEEN_MINUTES :: int where "FIFTEEN_MINUTES = 15 * 60"

text \<open>The time that is kept is the one before the renewal.\<close>

definition renew_token :: "chat_lib \<Rightarrow> ('z, unit) cprog" where
  "renew_token l =
     bindP (chat_now l) (\<lambda>current_time.
     bindP (reads cb_last_auth) (\<lambda>last_auth_time.
       whenP (last_auth_time = None \<or> FIFTEEN_MINUTES < current_time - the last_auth_time)
         (bindP (get_access_token l) (\<lambda>token.
            modifies (\<lambda>s. s\<lparr>cb_access_token := token, cb_last_auth := Some current_time\<rparr>)))))"

definition chat_payload :: "string \<Rightarrow> pyval \<Rightarrow> pyval" where
  "chat_payload query conversation =
     PDict ((''query'', PStr query) # (if truth conversation then [(''conversation_id'', conversation)] else []))"

definition chat_request :: "string \<Rightarrow> pyval \<Rightarrow> pyval \<Rightarrow> bool \<Rightarrow> call" where
  "chat_request url token payload stream = Controller ''requests.post'' [PStr url, token, payload, PBool stream]"

definition api_error :: "answer \<Rightarrow> pyval" where
  "api_error res = PStr (''API error '' @ dec_int (an_status res) @ '': '' @ an_reason res)"

section \<open>Streams\<close>

definition json_text :: "string \<Rightarrow> string" where
  "json_text raw = (if startswith raw ''data: '' then strip (drop 6 raw) else strip raw)"

text \<open>The token of an event: its text, or the content of its delta.\<close>

definition event_token :: "pyval \<Rightarrow> exn + pyval" where
  "event_token data =
     sum_bind (py_get data ''token'' PNone) (\<lambda>tok.
       if tok \<noteq> PNone then Inr tok
       else sum_bind (py_get data ''text'' PNone) (\<lambda>content.
         if truth content then Inr content
         else sum_bind (py_get data ''delta'' PNone) (\<lambda>delta. py_get (py_or delta (PDict [])) ''content'' PNone)))"

text \<open>The effect of an event on the conversation and on the parts of the response.\<close>

definition handle_event :: "pyval \<Rightarrow> pyval \<times> pyval list \<Rightarrow> exn + pyval \<times> pyval list" where
  "handle_event evt acc =
     (case acc of (conversation, parts) \<Rightarrow>
        sum_bind (py_get evt ''event'' PNone) (\<lambda>event_name.
        sum_bind (py_get evt ''data'' (PDict [])) (\<lambda>data.
          if event_name = PStr ''start'' \<and> conversation = PNone then
            sum_bind (py_get data ''conversation_id'' PNone) (\<lambda>c. Inr (c, parts))
          else if event_name = PStr ''token'' then
            sum_bind (event_token data) (\<lambda>tok. Inr (conversation, if truth tok then parts @ [tok] else parts))
          else Inr acc)))"

definition apply_event :: "pyval \<Rightarrow> pyval list \<Rightarrow> ('z, pyval list) cprog" where
  "apply_event evt parts =
     bindP (reads cb_conversation_id) (\<lambda>conversation.
     bindP (sum_prog (handle_event evt (conversation, parts))) (\<lambda>(conversation, parts).
       thenP (modifies (\<lambda>s. s\<lparr>cb_conversation_id := conversation\<rparr>)) (ret parts)))"

text \<open>Only errors of \<open>json.loads\<close> are passed over.\<close>

fun handle_lines ::
  "chat_lib \<Rightarrow> (exn + string) list \<Rightarrow> pyval list \<Rightarrow> ('z, pyval list) cprog" where
  "handle_lines l [] parts = ret parts"
| "handle_lines l (Inl x # ls) parts = raise x"
| "handle_lines l (Inr line # ls) parts =
     (if line = [] then handle_lines l ls parts
      else bindP (sum_prog (cl_decode l line)) (\<lambda>raw.
        case cl_loads l (json_text raw) of
          Inl x \<Rightarrow> if is_Exception x then handle_lines l ls parts else raise x
        | Inr evt \<Rightarrow> bindP (apply_event evt parts) (handle_lines l ls)))"

fun joined :: "pyval list \<Rightarrow> exn + string" where
  "joined [] = Inr []"
| "joined (PStr s # ps) = sum_bind (joined ps) (\<lambda>t. Inr (s @ t))"
| "joined (_ # ps) = Inl TypeError"

section \<open>Queries\<close>

definition handle_answer :: "chat_lib \<Rightarrow> bool \<Rightarrow> answer \<Rightarrow> ('z, pyval) cprog" where
  "handle_answer l streaming res =
     (if an_status res < 200 \<or> 300 \<le> an_status res then ret (api_error res)
      else if streaming then
        bindP (handle_lines l (an_lines res) []) (\<lambda>parts.
          bindP (sum_prog (joined parts)) (\<lambda>t. ret (PStr (strip t))))
      else
        bindP (sum_prog (an_json res)) (\<lambda>response_data.
        bindP (reads cb_conversation_id) (\<lambda>conversation.
          thenP
            (if conversation = PNone then
               bindP (sum_prog (py_get response_data ''conversation_id'' PNone)) (\<lambda>i.
                 modifies (\<lambda>s. s\<lparr>cb_conversation_id := i\<rparr>))
             else ret ())
            (sum_prog (py_get response_data ''response'' (PStr []))))))"

definition send_query :: "chat_lib \<Rightarrow> string \<Rightarrow> ('z, pyval) cprog" where
  "send_query l query =
     thenP (renew_token l)
     (bindP (reads (\<lambda>s. (cb_streaming s, chat_request (cb_url s) (cb_access_token s)
          (chat_payload query (cb_conversation_id s)) (cb_streaming s)))) (\<lambda>(streaming, c).
      bindP (ext (\<lambda>h. cl_post l h c) c) (handle_answer l streaming)))"

definition set_conversation_id :: "pyval \<Rightarrow> ('z, unit) cprog" where
  "set_conversation_id conversation = modifies (\<lambda>s. s\<lparr>cb_conversation_id := conversation\<rparr>)"

definition get_conversation_id :: "('z, pyval) cprog" where
  "get_conversation_id = reads cb_conversation_id"

section \<open>Properties\<close>

subsection \<open>The address\<close>

lemma strip_slashes_fixed: "s \<noteq> [] \<Longrightarrow> last s \<noteq> CHR ''/'' \<Longrightarrow> strip_slashes s = s"
  by (cases s rule: rev_cases) (simp_all add: strip_slashes_def)

lemma suffix_app: "endswith (p @ q) q"
  by (simp add: suffix_def)

lemma resolved_is_full:
  "endswith (resolve_endpoint u b) ''/query'' \<or> endswith (resolve_endpoint u b) ''/streaming_query''"
  by (auto simp: resolve_endpoint_def Let_def suffix_app)

text \<open>A resolved address is resolved: nothing is appended a second time, whatever the mode.\<close>

lemma resolve_endpoint_fixed: "resolve_endpoint (resolve_endpoint u b) b' = resolve_endpoint u b"
proof -
  let ?r = "resolve_endpoint u b"
  obtain p where "?r = p @ ''/query'' \<or> ?r = p @ ''/streaming_query''"
    using resolved_is_full [of u b] by (auto elim!: suffixE)
  then have "strip_slashes ?r = ?r" by (intro strip_slashes_fixed) auto
  with resolved_is_full [of u b] show ?thesis by (simp add: resolve_endpoint_def Let_def)
qed

text \<open>A full address decides against the mode: with \<open>/query\<close> a streaming client still asks for the plain endpoint.\<close>

lemma full_address_ignores_mode: "resolve_endpoint (p @ ''/query'') b = p @ ''/query''"
proof -
  have "strip_slashes (p @ ''/query'') = p @ ''/query''" by (rule strip_slashes_fixed) simp_all
  then show ?thesis by (simp add: resolve_endpoint_def Let_def suffix_app)
qed

text \<open>The answer of the plain endpoint is then read as a stream of one line, and is lost.\<close>

lemma plain_answer_is_lost:
  assumes "cl_decode l line = Inr raw" and "cl_loads l (json_text raw) = Inr (PDict d)" and "line \<noteq> []"
    and "dict_get d ''event'' = None"
  shows "fst (handle_lines l [Inr line] [] s) = Inr []"
  using assms by (simp add: prog_simps bindP_def apply_event_def handle_event_def py_get_def split: option.splits)

subsection \<open>The conversation\<close>

text \<open>The identifier of a conversation stays.\<close>

definition conversation_kept :: "'z chat_client_scheme \<Rightarrow> 'z chat_client_scheme \<Rightarrow> bool" where
  "conversation_kept s t \<longleftrightarrow> (cb_conversation_id s \<noteq> PNone \<longrightarrow> cb_conversation_id t = cb_conversation_id s)"

interpretation conversation: state_rel "conversation_kept :: 'z chat_client_scheme \<Rightarrow> _"
  by unfold_locales (auto simp: conversation_kept_def)

lemma conversation_modifies:
  "(\<And>s. cb_conversation_id (f s) = cb_conversation_id s) \<Longrightarrow> keeps conversation_kept (modifies f)"
  by (simp add: keeps_def modifies_app conversation_kept_def)

lemma conversation_ext: "keeps conversation_kept (ext f c)"
  by (simp add: keeps_def ext_app conversation_kept_def)

lemma conversation_sum_prog: "keeps conversation_kept (sum_prog r)"
  by (cases r) (simp_all add: sum_prog_def conversation.keeps_intros)

lemmas conversation_intros = conversation.keeps_intros conversation_modifies conversation_ext conversation_sum_prog

lemma get_access_token_keeps: "keeps conversation_kept (get_access_token l)"
  by (auto simp: get_access_token_def chat_now_def Let_def intro!: conversation_intros)

lemma renew_token_keeps: "keeps conversation_kept (renew_token l)"
  by (auto simp: renew_token_def chat_now_def intro!: conversation_intros get_access_token_keeps)

lemma handle_event_conversation:
  "handle_event evt (conversation, parts) = Inr (conversation', parts') \<Longrightarrow> conversation \<noteq> PNone \<Longrightarrow> conversation' = conversation"
  by (auto simp: handle_event_def sum_bind_Inr_iff split: if_splits)

lemma apply_event_keeps: "keeps conversation_kept (apply_event evt parts)"
proof (rule keepsI)
  fix s :: "'z chat_client_scheme" and r t
  assume "apply_event evt parts s = (r, t)"
  then show "conversation_kept s t"
    by (cases "handle_event evt (cb_conversation_id s, parts)")
      (auto simp: apply_event_def bindP_def prog_simps conversation_kept_def dest: handle_event_conversation)
qed

lemma handle_lines_keeps: "keeps conversation_kept (handle_lines l ls parts :: ('z, pyval list) cprog)"
proof (induction ls arbitrary: parts)
  case (Cons line ls)
  then show ?case
    by (cases line) (auto intro!: conversation_intros apply_event_keeps split: sum.split)
qed (simp add: conversation.keeps_intros)

lemma handle_answer_keeps: "keeps conversation_kept (handle_answer l streaming res)"
proof -
  have new: "keeps conversation_kept (bindP (reads cb_conversation_id) (\<lambda>conversation.
      thenP (if conversation = PNone then bindP (sum_prog (py_get v ''conversation_id'' PNone)) (\<lambda>i.
           modifies (\<lambda>s. s\<lparr>cb_conversation_id := i\<rparr>)) else ret ()) (sum_prog (py_get v ''response'' (PStr [])))))" for v
    by (cases "py_get v ''conversation_id'' PNone"; cases "py_get v ''response'' (PStr [])")
      (auto simp: keeps_def bindP_def prog_simps conversation_kept_def)
  show ?thesis
    unfolding handle_answer_def by (auto intro!: conversation_intros handle_lines_keeps new)
qed

lemma send_query_keeps: "keeps conversation_kept (send_query l query)"
  unfolding send_query_def by (auto intro!: conversation_intros renew_token_keeps handle_answer_keeps)

text \<open>Handling an answer makes no request and leaves the token alone.\<close>

definition connection_part :: "'z chat_client_scheme \<Rightarrow> call list \<times> pyval \<times> int option" where
  "connection_part s = (hist s, cb_access_token s, cb_last_auth s)"

lemma connection_modifies:
  "(\<And>s. connection_part (f s) = connection_part s) \<Longrightarrow> keeps (same connection_part) (modifies f)"
  by (simp add: keeps_def modifies_app same_def)

lemma connection_sum_prog: "keeps (same connection_part) (sum_prog r)"
  by (cases r) (simp_all add: sum_prog_def frame.keeps_intros)

lemma connection_conversation: "keeps (same connection_part) (modifies (\<lambda>s. s\<lparr>cb_conversation_id := c\<rparr>))"
  by (rule connection_modifies) (simp add: connection_part_def)

lemmas connection_intros = frame.keeps_intros connection_sum_prog connection_conversation

lemma apply_event_connection: "keeps (same connection_part) (apply_event evt parts)"
  by (auto simp: apply_event_def intro!: connection_intros)

lemma handle_lines_connection: "keeps (same connection_part) (handle_lines l ls parts :: ('z, pyval list) cprog)"
proof (induction ls arbitrary: parts)
  case (Cons line ls)
  then show ?case
    by (cases line) (auto intro!: connection_intros apply_event_connection split: sum.split)
qed (simp add: frame.keeps_intros)

definition is_chat_request :: "call \<Rightarrow> bool" where
  "is_chat_request c \<longleftrightarrow> (\<exists>url token payload b. c = chat_request url token payload b)"

lemma not_chat_request [simp]:
  "\<not> is_chat_request (Controller ''datetime.now'' args)" "\<not> is_chat_request (Controller ''requests.post'' [a, b])"
  by (simp_all add: is_chat_request_def chat_request_def)

lemma chat_request_eq [simp]:
  "chat_request url token payload b = chat_request url' token' payload' b'
     \<longleftrightarrow> url = url' \<and> token = token' \<and> payload = payload' \<and> b = b'"
  by (auto simp: chat_request_def)

lemma is_chat_request_request [simp]: "is_chat_request (chat_request url token payload b)"
  by (auto simp: is_chat_request_def)

text \<open>What is known when the token has been looked after: no request was made, and if nothing failed, it is fresh.\<close>

lemma renew_token_run:
  assumes "renew_token l s = (r, u)"
  shows "\<exists>cs. hist u = hist s @ cs \<and> (\<forall>c \<in> set cs. \<not> is_chat_request c)
    \<and> (cb_conversation_id s \<noteq> PNone \<longrightarrow> cb_conversation_id u = cb_conversation_id s)
    \<and> (r = Inr () \<longrightarrow> (\<exists>last. cb_last_auth u = Some last \<and> cl_now l (hist s) - last \<le> FIFTEEN_MINUTES))"
proof -
  have conv: "cb_conversation_id s \<noteq> PNone \<Longrightarrow> cb_conversation_id u = cb_conversation_id s"
    using keepsD [OF renew_token_keeps assms] by (simp add: conversation_kept_def)
  have "\<exists>cs. hist u = hist s @ cs \<and> (\<forall>c \<in> set cs. \<not> is_chat_request c)
      \<and> (r = Inr () \<longrightarrow> (\<exists>last. cb_last_auth u = Some last \<and> cl_now l (hist s) - last \<le> FIFTEEN_MINUTES))"
    using assms
    by (auto simp: renew_token_def get_access_token_def chat_now_def bindP_def ext_app prog_simps whenP_def Let_def FIFTEEN_MINUTES_def
        split: if_splits sum.splits prod.splits)
  with conv show ?thesis by blast
qed

text \<open>A query: what is asked, and that handling the answer changes nothing of the connection.\<close>

lemma send_query_run:
  fixes s :: "'z chat_client_scheme"
  assumes "send_query l query s = (r, t)" and "renew_token l s = (Inr (), u)"
  shows "connection_part t = (hist u @ [chat_request (cb_url u) (cb_access_token u)
      (chat_payload query (cb_conversation_id u)) (cb_streaming u)], cb_access_token u, cb_last_auth u)"
proof -
  define c where "c = chat_request (cb_url u) (cb_access_token u) (chat_payload query (cb_conversation_id u)) (cb_streaming u)"
  have kept: "keeps (same connection_part) (handle_answer l streaming res)" for streaming res
    unfolding handle_answer_def by (auto intro!: connection_intros handle_lines_connection)
  have run: "bindP (ext (\<lambda>h. cl_post l h c) c) (handle_answer l (cb_streaming u)) u = (r, t)"
    using assms by (simp add: send_query_def bindP_Inr bindP_app c_def)
  show ?thesis
  proof (cases "cl_post l (hist u) c")
    case (Inl x)
    then show ?thesis using run by (auto simp: bindP_def ext_app connection_part_def c_def)
  next
    case (Inr res)
    then have "handle_answer l (cb_streaming u) res (u\<lparr>hist := hist u @ [c]\<rparr>) = (r, t)" using run by (simp add: bindP_def ext_app)
    from keepsD [OF kept this] show ?thesis by (simp add: same_def connection_part_def c_def)
  qed
qed


text \<open>Once a conversation has an identifier, a query keeps it, whatever the answer, and every request names it.\<close>

lemma queries_stay_in_conversation:
  assumes "send_query l query s = (r, t)" and "hist t = hist s @ cs" and "truth (cb_conversation_id s)"
  shows "cb_conversation_id t = cb_conversation_id s
    \<and> (\<forall>url token payload b. chat_request url token payload b \<in> set cs \<longrightarrow>
         py_get payload ''conversation_id'' PNone = Inr (cb_conversation_id s))"
proof -
  have some: "cb_conversation_id s \<noteq> PNone" using assms(3) by auto
  have kept: "cb_conversation_id t = cb_conversation_id s"
    using keepsD [OF send_query_keeps assms(1)] some by (simp add: conversation_kept_def)
  obtain q u where q: "renew_token l s = (q, u)" by force
  obtain ds where ds: "hist u = hist s @ ds" "\<forall>c \<in> set ds. \<not> is_chat_request c"
    and conv: "cb_conversation_id u = cb_conversation_id s"
    using renew_token_run [OF q] some by blast
  show ?thesis
  proof (cases q)
    case (Inl x)
    then have "t = u" using assms(1) q by (simp add: send_query_def bindP_def)
    then show ?thesis using kept assms(2) ds is_chat_request_request by auto
  next
    case (Inr w)
    then have "renew_token l s = (Inr (), u)" using q by simp
    from send_query_run [OF assms(1) this] show ?thesis
      using kept assms(2,3) ds conv
      by (auto simp: connection_part_def chat_payload_def py_get_def dest: bspec [of _ _ "chat_request _ _ _ _"])
  qed
qed


definition chat_answers :: chat_lib where
  "chat_answers = \<lparr>cl_post = \<lambda>h c. Inr \<lparr>an_status = 200, an_reason = [],
       an_json = Inr (PDict [(''access_token'', PStr ''new''), (''response'', PStr ''hello''), (''conversation_id'', PStr ''other'')]),
       an_lines = []\<rparr>,
     cl_now = \<lambda>_. 1000, cl_loads = \<lambda>_. Inr PNone, cl_decode = Inr\<rparr>"

definition chatting :: "int \<Rightarrow> chat_client" where
  "chatting since = \<lparr>hist = [], cb_token = ''t'', cb_url = ''https://chat/query'', cb_streaming = False,
     cb_conversation_id = PStr ''mine'', cb_access_token = PStr ''old'', cb_last_auth = Some since\<rparr>"

definition chat_renewal :: call where
  "chat_renewal = Controller ''requests.post'' [PStr chat_auth_url, PDict [(''grant_type'', PStr ''refresh_token''),
     (''refresh_token'', PStr ''t''), (''client_id'', PStr ''cloud-services'')]]"

definition hello_request :: "string \<Rightarrow> call" where
  "hello_request token = chat_request ''https://chat/query'' (PStr token)
     (PDict [(''query'', PStr ''hi''), (''conversation_id'', PStr ''mine'')]) False"

definition after_renewal :: chat_client where
  "after_renewal = (chatting 1000)\<lparr>cb_access_token := PStr ''new'',
     hist := [Controller ''datetime.now'' [], chat_renewal, Controller ''datetime.now'' [], hello_request ''new'']\<rparr>"

definition after_hello :: chat_client where
  "after_hello = (chatting 900)\<lparr>hist := [Controller ''datetime.now'' [], hello_request ''old'']\<rparr>"

lemma stale_token_run: "send_query chat_answers ''hi'' (chatting 0) = (Inr (PStr ''hello''), after_renewal)"
  by code_simp

lemma good_token_run: "send_query chat_answers ''hi'' (chatting 900) = (Inr (PStr ''hello''), after_hello)"
  by code_simp


lemma queries_stay_in_conversation_witness:
  "cb_conversation_id after_hello = PStr ''mine'' \<and> (\<forall>url token payload b. chat_request url token payload b
      \<in> set [Controller ''datetime.now'' [], hello_request ''old''] \<longrightarrow> py_get payload ''conversation_id'' PNone = Inr (PStr ''mine''))"
  using queries_stay_in_conversation [OF good_token_run, where cs = "[Controller ''datetime.now'' [], hello_request ''old'']"]
  by (simp add: after_hello_def chatting_def)
end
