(* ===== verification/Cli.thy ===== *)
theory Cli
  imports Utils
begin

text \<open>
  The interactive tool under \<open>src/cli\<close>: its commands, the prompt, and the loop of the application. The environment of the
  process is part of the state; \<open>pytest.main\<close> is a parameter that may do anything to it. The terminal library and the
  random part of names are asked for, like everything outside the repository.
\<close>

section \<open>Commands\<close>

record cli_state = "call world" +
  cli_environ :: "(string, string) dict"

type_synonym ('z, 'a) tprog = "('z cli_state_scheme, 'a) prog"

datatype command_kind = DummyCommand | TestCommand | EnvCommand | HelpCommand

record cli_command =
  cc_kind :: command_kind
  cc_text :: string
  cc_args :: "string list option"

definition InvalidCommandError :: exn where "InvalidCommandError = External 7"

definition EOFError :: exn where "EOFError = External 8"

text \<open>\<open>Command(text)\<close> has no arguments; the setter splits them.\<close>

definition new_command :: "command_kind \<Rightarrow> string \<Rightarrow> cli_command" where
  "new_command k t = \<lparr>cc_kind = k, cc_text = t, cc_args = None\<rparr>"

definition nonempty_words :: "string \<Rightarrow> string list" where
  "nonempty_words t = filter (\<lambda>w. w \<noteq> []) (split_on CHR '' '' t)"

definition set_args :: "string \<Rightarrow> cli_command \<Rightarrow> cli_command" where
  "set_args args c = c\<lparr>cc_args := Some (nonempty_words args)\<rparr>"

definition supported_commands :: "(string \<times> command_kind) list" where
  "supported_commands =
     [([], DummyCommand), (''test'', TestCommand), (''list'', EnvCommand), (''clear'', EnvCommand), (''help'', HelpCommand)]"

definition get_command :: "string \<Rightarrow> exn + cli_command" where
  "get_command t =
     (case map_of supported_commands (hd (split_on CHR '' '' t)) of
        None \<Rightarrow> Inl InvalidCommandError
      | Some k \<Rightarrow> Inr (new_command k t))"

section \<open>Running a test\<close>

text \<open>The match of \<open>(?P<key>.*)=(?P<value>.*)\<close>: the first line is split at its last equals sign.\<close>

fun split_last :: "char \<Rightarrow> string \<Rightarrow> (string \<times> string) option" where
  "split_last c [] = None"
| "split_last c (x # xs) =
     (case split_last c xs of
        Some (k, v) \<Rightarrow> Some (x # k, v)
      | None \<Rightarrow> if x = c then Some ([], xs) else None)"

definition match_variable :: "string \<Rightarrow> (string \<times> string) option" where
  "match_variable arg = split_last CHR ''='' (takeWhile (\<lambda>c. c \<noteq> newline) arg)"

text \<open>The operating system refuses names that are empty or contain an equals sign.\<close>

definition set_environ :: "string \<Rightarrow> string \<Rightarrow> ('z, unit) tprog" where
  "set_environ key value =
     (if key = [] then raise (OSError 22)
      else if CHR ''='' \<in> set key then raise (ValueError ''illegal environment variable name'')
      else modifies (\<lambda>s. s\<lparr>cli_environ := dict_set key value (cli_environ s)\<rparr>))"

definition set_variable :: "string \<Rightarrow> ('z, unit) tprog" where
  "set_variable arg = (case match_variable arg of None \<Rightarrow> raise AttributeError | Some (key, v) \<Rightarrow> set_environ key v)"

definition run_test ::
  "env \<Rightarrow> (string list \<Rightarrow> ('z, unit) tprog) \<Rightarrow> cli_command \<Rightarrow> ('z, unit) tprog" where
  "run_test e pytest_main c =
     bindP (sum_prog (case cc_args c of None \<Rightarrow> Inl TypeError | Some args \<Rightarrow> Inr args)) (\<lambda>args.
       thenP (for_each set_variable args)
         (case nonempty_words (cc_text c) of
            _ # test_file # func # _ \<Rightarrow>
              bindP (ask_call e (Controller ''uuid4'' [])) (\<lambda>u.
                thenP (act e ''log.setLevel'' [])
                  (pytest_main [test_file, ''-k'', func, ''--verbose'', ''-s'',
                     ''--junit-xml=unittest_'' @ (case u of PStr i \<Rightarrow> take 8 i | _ \<Rightarrow> []) @ ''.xml'']))
          | _ \<Rightarrow> raise (ValueError ''not enough values to unpack'')))"

text \<open>Importing the tests' configuration in the last block comes before the environment is put back.\<close>

definition restore_environ :: "env \<Rightarrow> (string, string) dict \<Rightarrow> ('z, unit) tprog" where
  "restore_environ e original_environ =
     thenP (act e ''import tests.config'' [])
    (thenP (modifies (\<lambda>s. s\<lparr>cli_environ := []\<rparr>))
    (thenP (modifies (\<lambda>s. s\<lparr>cli_environ := dict_update (cli_environ s) original_environ\<rparr>))
       (act e ''reset_global_variables'' [])))"

definition test_handle ::
  "env \<Rightarrow> (string list \<Rightarrow> ('z, unit) tprog) \<Rightarrow> cli_command \<Rightarrow> ('z, unit) tprog" where
  "test_handle e pytest_main c =
     (if cc_text c = [] then ret ()
      else bindP (reads cli_environ) (\<lambda>original_environ.
        try_finally
          (try_except (run_test e pytest_main c) (\<lambda>x. if x = Diverges then raise x else ret ()))
          (restore_environ e original_environ)))"

section \<open>The other commands\<close>

fun cluster_rows :: "nat \<Rightarrow> cluster list \<Rightarrow> pyval list" where
  "cluster_rows i [] = []"
| "cluster_rows i (c # cs) =
     PList [PStr (dec (i + 1) @ '')''), PStr (cl_id c), PStr (cl_name c)] # cluster_rows (i + 1) cs"

definition command_list :: "env \<Rightarrow> string list \<Rightarrow> ('z, unit) tprog" where
  "command_list e args =
     (if args \<noteq> [] \<and> hd args = ''clusters'' then
        bindP (clusters_list e) (\<lambda>clusters. act e ''print'' (cluster_rows 0 clusters))
      else ret ())"

definition env_handle :: "env \<Rightarrow> cli_command \<Rightarrow> ('z, unit) tprog" where
  "env_handle e c =
     (let ws = split_on CHR '' '' (strip (cc_text c))
      in if hd ws = ''clear'' then act e ''clear'' []
         else if hd ws = ''list'' then command_list e (tl ws)
         else ret ())"

definition help_handle :: "env \<Rightarrow> ('z, unit) tprog" where
  "help_handle e = act e ''message_dialog'' [PStr ''Help'']"

definition handle_command ::
  "env \<Rightarrow> (string list \<Rightarrow> ('z, unit) tprog) \<Rightarrow> cli_command \<Rightarrow> ('z, unit) tprog" where
  "handle_command e pytest_main c =
     (case cc_kind c of
        DummyCommand \<Rightarrow> ret ()
      | TestCommand \<Rightarrow> test_handle e pytest_main c
      | EnvCommand \<Rightarrow> env_handle e c
      | HelpCommand \<Rightarrow> help_handle e)"

section \<open>The prompt\<close>

text \<open>\<open>PNone\<close>, the result when the prompt is left, also stands for the end of the input.\<close>

definition cli_input :: "env \<Rightarrow> string \<Rightarrow> ('z, pyval) tprog" where
  "cli_input e prompt_text =
     try_except (ask_call e (Controller ''prompt'' [PStr prompt_text])) (\<lambda>x. if x = EOFError then ret PNone else raise x)"

definition get_environment_variables :: "env \<Rightarrow> ('z, pyval) tprog" where
  "get_environment_variables e =
     bindP (ask_bool e ''yes_no_dialog'' []) (\<lambda>result. if result then cli_input e ''envs'' else ret (PStr []))"

definition get_prompt_results :: "env \<Rightarrow> ('z, cli_command option) tprog" where
  "get_prompt_results e =
     bindP (cli_input e ''test-infra'') (\<lambda>v.
       case v of
         PStr t \<Rightarrow>
           bindP (sum_prog (get_command t)) (\<lambda>c.
             if cc_kind c = TestCommand then
               bindP (get_environment_variables e) (\<lambda>args.
                 ret (Some (case args of PStr a \<Rightarrow> set_args a c | _ \<Rightarrow> c)))
             else ret (Some c))
       | _ \<Rightarrow> ret None)"

section \<open>The application\<close>

definition init_window :: "env \<Rightarrow> bool \<Rightarrow> ('z, unit) tprog" where
  "init_window e has_pull_secret =
     thenP (act e ''clear'' []) (thenP (act e ''set_title'' [PStr ''Test Infra CLI''])
       (whenP (\<not> has_pull_secret) (act e ''message_dialog'' [PStr ''Pull Secret''])))"

partial_function (option) cli_loop ::
  "env \<Rightarrow> (string list \<Rightarrow> ('z, unit) tprog) \<Rightarrow> 'z cli_state_scheme \<Rightarrow> ((exn + unit) \<times> 'z cli_state_scheme) option" where
  "cli_loop e pytest_main s =
     (case get_prompt_results e s of
        (Inl x, t) \<Rightarrow> if x = InvalidCommandError then cli_loop e pytest_main t else Some (Inl x, t)
      | (Inr None, t) \<Rightarrow> Some (Inr (), t)
      | (Inr (Some c), t) \<Rightarrow>
          (case handle_command e pytest_main c t of
             (Inl x, u) \<Rightarrow> Some (Inl x, u)
           | (Inr _, u) \<Rightarrow> cli_loop e pytest_main u))"

definition cli_run :: "env \<Rightarrow> (string list \<Rightarrow> ('z, unit) tprog) \<Rightarrow> bool \<Rightarrow> ('z, unit) tprog" where
  "cli_run e pytest_main has_pull_secret =
     thenP (init_window e has_pull_secret) (or_diverges (cli_loop e pytest_main))"

section \<open>Keys and completions\<close>

text \<open>What the key Enter does with the text of the prompt.\<close>

datatype enter_action = InsertText string | Accept "string option"

definition on_enter :: "string list \<Rightarrow> string \<Rightarrow> enter_action" where
  "on_enter env_keys t =
     (let keys = (if t \<noteq> [] then split_on CHR '' '' t else [])
      in if keys \<noteq> [] \<and> last keys \<in> set env_keys then InsertText ''=''
         else if t \<noteq> [] \<and> last t \<noteq> CHR '' '' then InsertText '' ''
         else Accept (if t \<noteq> [] then Some t else None))"

text \<open>Control and C leaves an empty prompt and clears any other: \<open>None\<close> and the new text.\<close>

definition on_control_c :: "string \<Rightarrow> string option" where
  "on_control_c t = (if t = [] then None else Some [])"

text \<open>The fields of the global variables: the name, the keys of its environment variables, and the value.\<close>

type_synonym variable_fields = "(string \<times> string list \<times> pyval) list"

definition get_env_args_keys :: "variable_fields \<Rightarrow> string list" where
  "get_env_args_keys vfields = concat (map (\<lambda>(_, keys, _). keys) vfields)"

definition get_boolean_keys :: "variable_fields \<Rightarrow> string list" where
  "get_boolean_keys vfields =
     concat (map (\<lambda>(_, keys, _). keys) (filter (\<lambda>(_, _, v). case v of PBool _ \<Rightarrow> True | _ \<Rightarrow> False) vfields))"

definition get_namespace :: "env \<Rightarrow> (string \<Rightarrow> exn + pyval) \<Rightarrow> ('z, pyval list) tprog" where
  "get_namespace e loads =
     bindP (ext (\<lambda>h. e_run e h ''kubectl get ns --output=json'') (ShellCommand ''kubectl get ns --output=json'')) (\<lambda>p.
       if p_rc p \<noteq> 0 then raise CalledProcessError
       else case loads (p_out p) of
           Inl x \<Rightarrow> if x = JSONDecodeError then ret [] else raise x
         | Inr namespaces \<Rightarrow>
             bindP (sum_prog (py_field namespaces ''items'')) (\<lambda>items.
               case items of
                 PList nss \<Rightarrow> collect (\<lambda>ns. sum_prog (sum_bind (py_field ns ''metadata'') (\<lambda>m. py_field m ''name''))) nss
               | _ \<Rightarrow> raise TypeError))"

text \<open>The words a completer proposes, or the paths of the file system.\<close>

datatype completer = Words "pyval list" | Paths

definition dynamic_options ::
  "env \<Rightarrow> (string \<Rightarrow> exn + pyval) \<Rightarrow> variable_fields \<Rightarrow> string \<Rightarrow> ('z, completer option) tprog" where
  "dynamic_options e loads vfields key =
     (if key = ''OPENSHIFT_VERSION'' then
        bindP (ask_call e (Controller ''get_openshift_versions'' [])) (\<lambda>v.
          case v of PDict d \<Rightarrow> ret (Some (Words (map (PStr \<circ> fst) d))) | _ \<Rightarrow> raise AttributeError)
      else if key = ''CLUSTER_ID'' then
        bindP (clusters_list e) (\<lambda>cs. ret (Some (Words (map (PStr \<circ> cl_id) cs))))
      else if key = ''NETWORK_TYPE'' then
        ret (Some (Words [PList (map PStr [''OpenShiftSDN'', ''OVNKubernetes'', ''Cilium'', ''Calico'', ''CiscoACI'', ''None''])]))
      else if key = ''DISK_ENCRYPTION_MODE'' then ret (Some (Words [PList (map PStr [''tpmv2'', ''tang''])]))
      else if key = ''DISK_ENCRYPTION_ROLES'' then
        ret (Some (Words [PList (map PStr [''none'', ''all'', ''masters'', ''workers'', ''arbiters'', ''masters,workers'',
           ''masters,arbiters'', ''arbiters,workers'', ''masters,arbiters,workers''])]))
      else if key = ''NAMESPACE'' then bindP (get_namespace e loads) (\<lambda>ns. ret (Some (Words ns)))
      else if key \<in> {''ISO'', ''ISO_DOWNLOAD_PATH'', ''STORAGE_POOL_PATH'', ''PRIVATE_KEY_PATH''} then ret (Some Paths)
      else if key \<in> set (get_boolean_keys vfields) then ret (Some (Words [PStr ''true'', PStr ''false'']))
      else ret None)"

section \<open>Properties\<close>

subsection \<open>The environment of the process\<close>

lemma split_last_join: "split_last c s = Some (k, v) \<Longrightarrow> s = k @ c # v \<and> c \<notin> set v"
proof (induction s arbitrary: k v)
  case (Cons x xs)
  have none: "split_last c ys = None \<Longrightarrow> c \<notin> set ys" for ys by (induction ys) (auto split: option.splits if_splits)
  from Cons show ?case by (auto split: option.splits if_splits dest: none)
qed simp

text \<open>A value with an equals sign is refused: the name would reach up to the last one.\<close>

lemma value_with_equals_is_refused:
  assumes "match_variable arg = Some (key, v)" and "key = name @ CHR ''='' # rest"
  shows "\<exists>x. set_variable arg s = (Inl x, s)"
  using assms by (simp add: set_variable_def set_environ_def prog_simps)

text \<open>After a cancelled dialog the test is not run, and nothing says so.\<close>

lemma cancelled_test_is_not_run:
  assumes "cc_args c = None"
  shows "run_test e pytest_main c s = (Inl TypeError, s)"
  using assms by (simp add: run_test_def bindP_def prog_simps)

definition environ_kept :: "'z cli_state_scheme \<Rightarrow> 'z cli_state_scheme \<Rightarrow> bool" where
  "environ_kept s t \<longleftrightarrow> (distinct (map fst (cli_environ s)) \<longrightarrow> cli_environ t = cli_environ s)"

interpretation environ: state_rel "environ_kept :: 'z cli_state_scheme \<Rightarrow> _"
  by unfold_locales (auto simp: environ_kept_def)

lemma environ_ext: "keeps environ_kept (ext f c)"
  by (simp add: keeps_def ext_app environ_kept_def)

lemma environ_sum_prog: "keeps environ_kept (sum_prog r)"
  by (cases r) (simp_all add: sum_prog_def environ.keeps_intros)

lemma environ_act: "keeps environ_kept (act e n args)"
  unfolding act_def do_call_def by (rule environ_ext)

lemma environ_ask: "keeps environ_kept (ask_call e c)"
  unfolding ask_call_def by (rule environ_ext)

lemmas environ_intros = environ.keeps_intros environ_ext environ_sum_prog environ_act environ_ask

lemma prompt_keeps: "keeps environ_kept (get_prompt_results e)"
  unfolding get_prompt_results_def cli_input_def get_environment_variables_def ask_bool_def
  by (auto intro!: environ_intros split: pyval.split)

lemma init_window_keeps: "keeps environ_kept (init_window e b)"
  unfolding init_window_def by (intro environ_intros)

lemma env_handle_keeps: "keeps environ_kept (env_handle e c)"
  unfolding env_handle_def command_list_def clusters_list_def Let_def by (auto intro!: environ_intros)

definition configuration_loads :: "env \<Rightarrow> bool" where
  "configuration_loads e \<longleftrightarrow> (\<forall>h. e_do e h (Controller ''import tests.config'' []) = Inr ())"

lemma restore_environ_run:
  assumes "configuration_loads e" and "restore_environ e original s = (r, t)"
  shows "cli_environ t = dict_update [] original"
  using assms
  by (auto simp: restore_environ_def configuration_loads_def act_def do_call_def bindP_def ext_app prog_simps split: sum.splits prod.splits)

lemma test_handle_keeps:
  assumes "configuration_loads e" and "test_handle e pytest_main c s = (r, t)" and "r \<noteq> Inl Diverges"
  shows "environ_kept s t"
proof (cases "cc_text c = []")
  case True
  then show ?thesis using assms(2) by (simp add: test_handle_def prog_simps environ.rel_refl)
next
  case False
  obtain q u where q: "try_except (run_test e pytest_main c) (\<lambda>x. if x = Diverges then raise x else ret ()) s = (q, u)" by force
  obtain p w where w: "restore_environ e (cli_environ s) u = (p, w)" by force
  have "t = w"
    using assms(2,3) False q w
    by (auto simp: test_handle_def bindP_app try_finally_def split: if_splits sum.splits)
  with restore_environ_run [OF assms(1) w] show ?thesis
    by (simp add: environ_kept_def dict_update_new)
qed

lemma handle_command_keeps:
  assumes "configuration_loads e" and "handle_command e pytest_main c s = (r, t)" and "r \<noteq> Inl Diverges"
  shows "environ_kept s t"
proof (cases "cc_kind c")
  case DummyCommand
  then show ?thesis using assms(2) by (simp add: handle_command_def prog_simps environ.rel_refl)
next
  case TestCommand
  then show ?thesis using assms(2) test_handle_keeps [OF assms(1) _ assms(3)] by (simp add: handle_command_def)
next
  case EnvCommand
  then show ?thesis using assms(2) keepsD [OF env_handle_keeps] by (simp add: handle_command_def)
next
  case HelpCommand
  then show ?thesis using assms(2) keepsD [OF environ_act] by (simp add: handle_command_def help_handle_def)
qed

lemma cli_loop_keeps:
  assumes "configuration_loads e" and "cli_loop e pytest_main s = Some y" and "fst y \<noteq> Inl Diverges"
  shows "environ_kept s (snd y)"
proof -
  have "configuration_loads e \<longrightarrow> fst y \<noteq> Inl Diverges \<longrightarrow> environ_kept s (snd y)"
  proof (rule cli_loop.raw_induct [OF _ assms(2), where P = "\<lambda>e _ s y. configuration_loads e \<longrightarrow> fst y \<noteq> Inl Diverges \<longrightarrow> environ_kept s (snd y)"],
      intro impI)
    fix loop :: "env \<Rightarrow> (string list \<Rightarrow> ('a, unit) tprog) \<Rightarrow> 'a cli_state_scheme \<Rightarrow> ((exn + unit) \<times> 'a cli_state_scheme) option"
      and e pytest_main s y
    assume later: "\<And>e pytest_main s y. loop e pytest_main s = Some y \<Longrightarrow>
        configuration_loads e \<longrightarrow> fst y \<noteq> Inl Diverges \<longrightarrow> environ_kept s (snd y)"
      and now: "(case get_prompt_results e s of
        (Inl x, t) \<Rightarrow> if x = InvalidCommandError then loop e pytest_main t else Some (Inl x, t)
      | (Inr None, t) \<Rightarrow> Some (Inr (), t)
      | (Inr (Some c), t) \<Rightarrow>
          (case handle_command e pytest_main c t of
             (Inl x, u) \<Rightarrow> Some (Inl x, u)
           | (Inr _, u) \<Rightarrow> loop e pytest_main u)) = Some y"
      and loads: "configuration_loads e" and ends: "fst y \<noteq> Inl Diverges"
    obtain q t where q: "get_prompt_results e s = (q, t)" by force
    have st: "environ_kept s t" by (rule keepsD [OF prompt_keeps q])
    have on: "environ_kept s (snd y)" if "loop e pytest_main u = Some y" "environ_kept s u" for u
      using later [OF that(1)] loads ends that(2) by (blast intro: environ.rel_trans)
    show "environ_kept s (snd y)"
    proof (cases q)
      case (Inl x)
      then show ?thesis using now q st on [of t] by (auto split: if_splits)
    next
      case (Inr c)
      show ?thesis
      proof (cases c)
        case None
        then show ?thesis using now q Inr st by auto
      next
        case (Some d)
        obtain p u where p: "handle_command e pytest_main d t = (p, u)" by force
        have "environ_kept s u" if "p \<noteq> Inl Diverges"
          by (rule environ.rel_trans [OF st handle_command_keeps [OF loads p that]])
        then show ?thesis using now q Inr Some p ends on [of u] by (cases p) auto
      qed
    qed
  qed
  with assms(1,3) show ?thesis by blast
qed


lemma cli_loop_ends: "get_prompt_results e s = (Inr None, t) \<Longrightarrow> cli_loop e pytest_main s = Some (Inr (), t)"
  by (simp add: cli_loop.simps [of e pytest_main s])

lemma cli_loop_command:
  "get_prompt_results e s = (Inr (Some c), t) \<Longrightarrow> handle_command e pytest_main c t = (Inr v, u) \<Longrightarrow>
     cli_loop e pytest_main s = cli_loop e pytest_main u"
  by (simp add: cli_loop.simps [of e pytest_main s])

text \<open>A session: one test is run with a variable, then the prompt is left.\<close>

definition typing_env :: env where
  "typing_env = (still_env (sample_cluster ''ready'' []))\<lparr>e_ask := (\<lambda>h c.
     if c = Controller ''prompt'' [PStr ''test-infra''] then Inr (if length h < 4 then PStr ''test f g'' else PNone)
     else if c = Controller ''prompt'' [PStr ''envs''] then Inr (PStr ''A=1 B=2'')
     else Inr (PBool True))\<rparr>"

definition spoiling_pytest :: "string list \<Rightarrow> (unit, unit) tprog" where
  "spoiling_pytest args = thenP (modifies (\<lambda>s. s\<lparr>cli_environ := (''C'', join '' '' args) # cli_environ s\<rparr>)) (raise KeyboardInterrupt)"

definition typing_start :: "call list \<Rightarrow> cli_state" where
  "typing_start h = \<lparr>hist = h, cli_environ = [(''A'', ''0''), (''HOME'', ''/root'')]\<rparr>"

definition typing_calls :: "call list" where
  "typing_calls = [Controller ''clear'' [], Controller ''set_title'' [PStr ''Test Infra CLI'']]"

definition prompt_calls :: "call list" where
  "prompt_calls = typing_calls @ [Controller ''prompt'' [PStr ''test-infra''], Controller ''yes_no_dialog'' [],
     Controller ''prompt'' [PStr ''envs'']]"

definition test_calls :: "call list" where
  "test_calls = prompt_calls @ [Controller ''uuid4'' [], Controller ''log.setLevel'' [], Controller ''import tests.config'' [],
     Controller ''reset_global_variables'' []]"

lemma typing_run:
  "cli_run typing_env spoiling_pytest True (typing_start [])
     = (Inr (), typing_start (test_calls @ [Controller ''prompt'' [PStr ''test-infra'']]))"
proof -
  have "init_window typing_env True (typing_start []) = (Inr (), typing_start typing_calls)" by code_simp
  moreover have first: "get_prompt_results typing_env (typing_start typing_calls)
      = (Inr (Some (set_args ''A=1 B=2'' (new_command TestCommand ''test f g''))), typing_start prompt_calls)" by code_simp
  moreover have "handle_command typing_env spoiling_pytest (set_args ''A=1 B=2'' (new_command TestCommand ''test f g''))
      (typing_start prompt_calls) = (Inr (), typing_start test_calls)" by code_simp
  moreover have "get_prompt_results typing_env (typing_start test_calls)
      = (Inr None, typing_start (test_calls @ [Controller ''prompt'' [PStr ''test-infra'']]))" by code_simp
  ultimately show ?thesis
    by (simp add: cli_run_def bindP_Inr or_diverges_def cli_loop_command [OF first] cli_loop_ends)
qed


subsection \<open>The key Enter\<close>

lemma split_on_snoc: "split_on c (s @ [c]) = split_on c s @ [[]]"
  by (induction s) (auto split: list.split)

text \<open>A text that ends with a space is accepted: after at most one press that adds a space, Enter sends the text.\<close>

lemma enter_accepts:
  assumes "[] \<notin> set env_keys"
  shows "on_enter env_keys (t @ '' '') = Accept (Some (t @ '' ''))"
  using assms split_on_snoc [of "CHR '' ''" t] by (simp add: on_enter_def)

end
