(* ===== verification/Config.thy ===== *)
theory Config
  imports Triggers
begin

text \<open>
  The rest of \<open>helper_classes/config/base_config.py\<close>: the types that the annotations of a configuration give to its
  attributes, and the conversion of what \<open>set_value\<close> is given. What constructors of other classes and \<open>str\<close> and \<open>int\<close> return
  is a parameter.
\<close>

section \<open>Annotations\<close>

datatype py_type = TStr | TInt | TBool | TNone | TClass string

text \<open>\<open>Optional[t]\<close> is \<open>Union[t, NoneType]\<close>.\<close>

datatype annotation = Plain py_type | ListOf annotation | UnionOf "annotation list"

type_synonym annotations = "(string, annotation) dict"

text \<open>The classes come in the order of resolution, derived classes first; \<open>None\<close> is a class without annotations.\<close>

definition get_annotations :: "annotations option list \<Rightarrow> annotations" where
  "get_annotations mro = fold (\<lambda>c d. case c of None \<Rightarrow> d | Some a \<Rightarrow> dict_update d a) mro []"

definition annotation_type :: "annotations \<Rightarrow> string \<Rightarrow> exn + annotation" where
  "annotation_type anns key =
     (case dict_get anns key of
        None \<Rightarrow> Inl (KeyError key)
      | Some (UnionOf args) \<Rightarrow>
          (case args of
             a # b # _ \<Rightarrow> if b = Plain TNone then Inr a else Inl (ValueError ''Type is not supported'')
           | _ \<Rightarrow> Inl (ValueError ''Type is not supported''))
      | Some t \<Rightarrow> Inr t)"

section \<open>Conversion\<close>

record type_lib =
  tl_str :: "pyval \<Rightarrow> exn + string"
  tl_int :: "pyval \<Rightarrow> exn + int"
  tl_class :: "string \<Rightarrow> pyval \<Rightarrow> exn + pyval"
  tl_is :: "string \<Rightarrow> pyval \<Rightarrow> bool"

text \<open>Truth values are integers.\<close>

fun is_instance :: "type_lib \<Rightarrow> py_type \<Rightarrow> pyval \<Rightarrow> bool" where
  "is_instance l TStr v = (case v of PStr _ \<Rightarrow> True | _ \<Rightarrow> False)"
| "is_instance l TInt v = (case v of PInt _ \<Rightarrow> True | PBool _ \<Rightarrow> True | _ \<Rightarrow> False)"
| "is_instance l TBool v = (case v of PBool _ \<Rightarrow> True | _ \<Rightarrow> False)"
| "is_instance l TNone v = (v = PNone)"
| "is_instance l (TClass c) v = tl_is l c v"

fun construct :: "type_lib \<Rightarrow> py_type \<Rightarrow> pyval \<Rightarrow> exn + pyval" where
  "construct l TStr v = sum_bind (tl_str l v) (\<lambda>s. Inr (PStr s))"
| "construct l TInt v = sum_bind (tl_int l v) (\<lambda>i. Inr (PInt i))"
| "construct l TBool v = Inr (PBool (truth v))"
| "construct l TNone v = Inl TypeError"
| "construct l (TClass c) v = tl_class l c v"

definition as_list :: "pyval \<Rightarrow> exn + pyval" where
  "as_list v =
     (case v of
        PList xs \<Rightarrow> Inr (PList xs)
      | PStr s \<Rightarrow> Inr (PList (map (\<lambda>c. PStr [c]) s))
      | PDict d \<Rightarrow> Inr (PList (map (PStr \<circ> fst) d))
      | _ \<Rightarrow> Inl TypeError)"

text \<open>The missing attribute is found by \<open>set_value\<close>.\<close>

definition correct_value :: "type_lib \<Rightarrow> annotations \<Rightarrow> string \<Rightarrow> pyval \<Rightarrow> exn + pyval" where
  "correct_value l anns attr new_val =
     sum_bind (annotation_type anns attr) (\<lambda>t.
       case t of
         ListOf _ \<Rightarrow> as_list new_val
       | UnionOf _ \<Rightarrow> Inl TypeError
       | Plain p \<Rightarrow> if is_instance l p new_val then Inr new_val else construct l p new_val)"

definition set_config_value ::
  "type_lib \<Rightarrow> annotations \<Rightarrow> string \<Rightarrow> pyval \<Rightarrow> origin option \<Rightarrow> (base_config, unit) prog" where
  "set_config_value l anns = set_value (correct_value l anns)"

text \<open>A copy is made by the constructor: its origins are empty, and values that are \<open>None\<close> are looked up again.\<close>

definition config_copy :: "base_config \<Rightarrow> base_config" where
  "config_copy c = config_post_init c"

text \<open>\<open>cluster_name\<close> is another name of \<open>entity_name\<close>.\<close>

definition config_cluster_name :: "base_config \<Rightarrow> pyval option" where
  "config_cluster_name c = dict_get (bc_fields c) ''entity_name''"

definition set_config_cluster_name :: "pyval \<Rightarrow> base_config \<Rightarrow> base_config" where
  "set_config_cluster_name v c = c\<lparr>bc_fields := dict_set ''entity_name'' v (bc_fields c)\<rparr>"

section \<open>Properties\<close>

text \<open>What the type of an annotation says of a value; what the elements of a list are is not looked at.\<close>

fun has_type :: "type_lib \<Rightarrow> annotation \<Rightarrow> pyval \<Rightarrow> bool" where
  "has_type l (Plain p) v = is_instance l p v"
| "has_type l (ListOf _) v = (case v of PList _ \<Rightarrow> True | _ \<Rightarrow> False)"
| "has_type l (UnionOf _) v = False"

text \<open>The constructor of a class returns instances of it.\<close>

definition constructs_instances :: "type_lib \<Rightarrow> bool" where
  "constructs_instances l \<longleftrightarrow> (\<forall>c v w. tl_class l c v = Inr w \<longrightarrow> tl_is l c w)"

lemma constructed_is_instance:
  assumes "constructs_instances l" and "construct l p v = Inr w"
  shows "is_instance l p w"
  using assms by (cases p) (auto simp: constructs_instances_def sum_bind_Inr_iff)

lemma correct_value_typed:
  assumes "constructs_instances l" and "correct_value l anns attr v = Inr w"
  shows "\<exists>t. annotation_type anns attr = Inr t \<and> has_type l t w"
proof -
  obtain t where t: "annotation_type anns attr = Inr t"
    and w: "(case t of ListOf _ \<Rightarrow> as_list v | UnionOf _ \<Rightarrow> Inl TypeError
       | Plain p \<Rightarrow> if is_instance l p v then Inr v else construct l p v) = Inr w"
    using assms(2) by (auto simp: correct_value_def sum_bind_Inr_iff)
  have "has_type l t w"
    using w by (cases t) (auto simp: as_list_def constructed_is_instance [OF assms(1)] split: if_splits pyval.splits)
  with t show ?thesis by blast
qed

definition typed_config :: "type_lib \<Rightarrow> annotations \<Rightarrow> base_config \<Rightarrow> bool" where
  "typed_config l anns c \<longleftrightarrow>
     (\<forall>(k, v) \<in> set (bc_fields c). v = PNone \<or> (\<exists>t. annotation_type anns k = Inr t \<and> has_type l t v))"

lemma in_dict_set: "p \<in> set (dict_set k v d) \<Longrightarrow> p = (k, v) \<or> p \<in> set d"
  by (induction d) (auto split: if_splits)

lemma set_value_cases:
  assumes "set_config_value l anns attr v mark c = (r, c')"
  shows "bc_fields c' = bc_fields c \<and> r \<noteq> Inr () \<or>
    (\<exists>w. correct_value l anns attr v = Inr w \<and> bc_fields c' = dict_set attr w (bc_fields c) \<and> r = Inr ())"
proof (cases mark)
  case None
  then show ?thesis using assms
    by (cases "correct_value l anns attr v") (auto simp: set_config_value_def set_value_def bindP_app prog_simps bindP_def split: if_splits)
next
  case (Some m)
  then show ?thesis using assms
    by (cases "correct_value l anns attr v") (auto simp: set_config_value_def set_value_def bindP_app prog_simps bindP_def split: if_splits)
qed

text \<open>C21: \<open>set_value\<close> keeps a configuration typed by its annotations, also when it raises; when it returns, the attribute holds
  a value of its annotated type.
\<close>

theorem set_value_keeps_types:
  assumes "constructs_instances l" and "typed_config l anns c" and "set_config_value l anns attr v mark c = (r, c')"
  shows "typed_config l anns c' \<and>
    (r = Inr () \<longrightarrow> (\<exists>w t. dict_get (bc_fields c') attr = Some w \<and> annotation_type anns attr = Inr t \<and> has_type l t w))"
  using set_value_cases [OF assms(3)]
proof (elim disjE exE conjE)
  assume "bc_fields c' = bc_fields c" "r \<noteq> Inr ()"
  with assms(2) show ?thesis by (simp add: typed_config_def)
next
  fix w
  assume w: "correct_value l anns attr v = Inr w" "bc_fields c' = dict_set attr w (bc_fields c)" "r = Inr ()"
  obtain t where t: "annotation_type anns attr = Inr t" "has_type l t w"
    using correct_value_typed [OF assms(1) w(1)] by blast
  have "typed_config l anns c'"
    using assms(2) t by (auto simp: typed_config_def w(2) dest!: in_dict_set)
  with t w(2) show ?thesis by (auto simp: dict_get_set)
qed

definition plain_types :: type_lib where
  "plain_types = \<lparr>tl_str = (\<lambda>v. case v of PStr s \<Rightarrow> Inr s | _ \<Rightarrow> Inr ''text''), tl_int = (\<lambda>v. Inl (ValueError ''int'')),
     tl_class = (\<lambda>c v. Inr (PDict [(c, v)])), tl_is = (\<lambda>c v. case v of PDict [(d, _)] \<Rightarrow> c = d | _ \<Rightarrow> False)\<rparr>"

definition some_annotations :: annotations where
  "some_annotations = [(''is_ipv4'', Plain TBool), (''working_dir'', UnionOf [Plain TStr, Plain TNone]),
     (''private_ssh_key_path'', Plain (TClass ''Path'')), (''master_boot_devices'', ListOf (Plain TStr))]"

definition some_config :: base_config where
  "some_config = \<lparr>bc_fields = [(''is_ipv4'', PBool True), (''working_dir'', PNone), (''private_ssh_key_path'', PNone),
     (''master_boot_devices'', PNone)], bc_origins = [], bc_pool = []\<rparr>"

theorem set_value_keeps_types_witness:
  "\<exists>c'. set_config_value plain_types some_annotations ''private_ssh_key_path'' (PStr ''/k'') (Some PARAMETERIZED) some_config = (Inr (), c')
     \<and> typed_config plain_types some_annotations c'
     \<and> dict_get (bc_fields c') ''private_ssh_key_path'' = Some (PDict [(''Path'', PStr ''/k'')])"
proof -
  have lib: "constructs_instances plain_types" by (auto simp: constructs_instances_def plain_types_def)
  have typed: "typed_config plain_types some_annotations some_config"
    by (simp add: typed_config_def some_config_def some_annotations_def annotation_type_def)
  obtain c' where c': "set_config_value plain_types some_annotations ''private_ssh_key_path'' (PStr ''/k'') (Some PARAMETERIZED) some_config
      = (Inr (), c')" "dict_get (bc_fields c') ''private_ssh_key_path'' = Some (PDict [(''Path'', PStr ''/k'')])"
    by (simp add: set_config_value_def set_value_def bindP_app prog_simps bindP_def some_config_def correct_value_def
        some_annotations_def annotation_type_def plain_types_def)
  with set_value_keeps_types [OF lib typed c'(1)] show ?thesis by blast
qed

subsection \<open>What the conversion does not do\<close>

text \<open>Every text but the empty one converts to true, \<open>false\<close> too.\<close>

lemma every_text_is_true:
  assumes "annotation_type anns attr = Inr (Plain TBool)"
  shows "correct_value l anns attr (PStr s) = Inr (PBool (s \<noteq> []))"
  using assms by (simp add: correct_value_def)

text \<open>A text for a list becomes the list of its characters.\<close>

lemma text_becomes_characters:
  assumes "annotation_type anns attr = Inr (ListOf t)"
  shows "correct_value l anns attr (PStr s) = Inr (PList (map (\<lambda>c. PStr [c]) s))"
  using assms by (simp add: correct_value_def as_list_def)

text \<open>An annotation of a base class overrides that of a derived one.\<close>

lemma base_annotation_wins:
  assumes "distinct (map fst b)" and "dict_get b k = Some t"
  shows "dict_get (get_annotations (mro @ [Some b])) k = Some t"
  using assms by (simp add: get_annotations_def dict_get_update)

text \<open>Triggers set a value as it is.\<close>

lemma trigger_value_is_not_converted:
  assumes "dict_get (bc_fields c) k \<noteq> None"
  shows "dict_get (bc_fields (snd (config_set k v c))) k = Some v"
  using assms by (simp add: config_set_def bindP_app whenP_def prog_simps dict_get_set)

text \<open>A copy does not know where the values came from.\<close>

lemma copy_forgets_origins:
  "config_origin (config_copy c) k = pool_origin (bc_pool c) k"
  by (simp add: config_copy_def config_post_init_def config_origin_def split: option.split)

lemma cluster_name_is_entity_name:
  "config_cluster_name (set_config_cluster_name v c) = Some v"
  by (simp add: config_cluster_name_def set_config_cluster_name_def dict_get_set)

end
