(* ===== verification/LibvirtNet.thy ===== *)
theory LibvirtNet
  imports Libvirt
begin

text \<open>
  The rest of \<open>libvirt_controller.py\<close>: the controller's connection, networks, their DNS and iPXE entries, and the collection
  of the logs of the host. The description of a network is what \<open>minidom\<close> makes of it; writing it is a parameter.
\<close>

section \<open>The connection\<close>

text \<open>The state of the controller: the address of the server, the connection, and the time of its setup.\<close>

record libvirt_controller = "call world" +
  lc_uri :: pyval
  lc_connection :: pyval
  lc_setup_timestamp :: string

type_synonym ('z, 'a) cnprog = "('z libvirt_controller_scheme, 'a) prog"

definition date_command :: string where
  "date_command = ''date +'' @ [CHR 0x22] @ ''%Y-%m-%d %T'' @ [CHR 0x22]"

definition libvirt_init :: "env \<Rightarrow> pyval \<Rightarrow> pyval \<Rightarrow> ('z, unit) cnprog" where
  "libvirt_init e entity_uri uri =
     thenP (modifies (\<lambda>s. s\<lparr>lc_uri := (if uri = PNone then entity_uri else uri)\<rparr>))
     (bindP (reads lc_uri) (\<lambda>u.
      bindP (ask_call e (Controller ''libvirt.open'' [u])) (\<lambda>c.
      thenP (modifies (\<lambda>s. s\<lparr>lc_connection := c\<rparr>))
      (bindP (run_command e date_command True) (\<lambda>(out, _, _).
         modifies (\<lambda>s. s\<lparr>lc_setup_timestamp := out\<rparr>))))))"

definition libvirt_del :: "env \<Rightarrow> ('z, unit) cnprog" where
  "libvirt_del e = bindP (reads lc_connection) (\<lambda>c. suppressing is_Exception (act e ''conn.close'' [c]))"

definition setup_time :: "('z, string) cnprog" where
  "setup_time = reads lc_setup_timestamp"

text \<open>\<open>with LibvirtController.connection_context(uri) as conn\<close>.\<close>

definition with_libvirt_connection :: "env \<Rightarrow> pyval \<Rightarrow> (pyval \<Rightarrow> ('z, 'a) lprog) \<Rightarrow> ('z, 'a) lprog" where
  "with_libvirt_connection e uri body =
     bindP (ask_call e (Controller ''libvirt.open'' [uri])) (\<lambda>c.
       try_finally (body c) (act e ''conn.close'' [c]))"

section \<open>Networks\<close>

text \<open>A network by its DHCP elements, each with the files of its \<open>bootp\<close> elements, and by the rest of it.\<close>

record network_xml =
  nx_dhcp :: "string list list"
  nx_rest :: string

definition get_network_by_name :: "env \<Rightarrow> string \<Rightarrow> ('z, pyval) lprog" where
  "get_network_by_name e network_name = ask_call e (Controller ''networkLookupByName'' [PStr network_name])"

definition destroy_network :: "env \<Rightarrow> pyval \<Rightarrow> ('z, unit) lprog" where
  "destroy_network e network = act e ''network.destroy'' [network]"

definition undefine_network :: "env \<Rightarrow> pyval \<Rightarrow> ('z, unit) lprog" where
  "undefine_network e network = act e ''network.undefine'' [network]"

definition with_bootp :: "string \<Rightarrow> network_xml \<Rightarrow> exn + network_xml" where
  "with_bootp url x =
     (case nx_dhcp x of [] \<Rightarrow> Inl IndexError | d # ds \<Rightarrow> Inr (x\<lparr>nx_dhcp := (d @ [url]) # ds\<rparr>))"

definition set_ipxe_url ::
  "env \<Rightarrow> (call list \<Rightarrow> pyval \<Rightarrow> exn + network_xml) \<Rightarrow> (network_xml \<Rightarrow> pyval) \<Rightarrow> string \<Rightarrow> string \<Rightarrow> ('z, unit) lprog" where
  "set_ipxe_url e described pretty network_name ipxe_url =
     bindP (get_network_by_name e network_name) (\<lambda>network.
     bindP (ext (\<lambda>h. described h network) (Controller ''network.XMLDesc'' [network])) (\<lambda>xml.
     bindP (sum_prog (with_bootp ipxe_url xml)) (\<lambda>xml.
       thenP (destroy_network e network) (thenP (undefine_network e network)
         (bindP (create_network e (pretty xml)) (\<lambda>_. ret ()))))))"

text \<open>A \<open>host\<close> element: its address and its name, if there is a cluster.\<close>

definition dns_host_xml :: "string \<Rightarrow> string \<Rightarrow> string \<Rightarrow> pyval" where
  "dns_host_xml base_dns_domain api_vip cluster =
     PDict ((''ip'', PStr api_vip) #
       (if cluster \<noteq> [] then [(''hostname'', PStr (''api.'' @ cluster @ ''.'' @ base_dns_domain))] else []))"

definition ADD_LAST :: pyval where "ADD_LAST = PStr ''VIR_NETWORK_UPDATE_COMMAND_ADD_LAST''"

definition DELETE_HOST :: pyval where "DELETE_HOST = PStr ''VIR_NETWORK_UPDATE_COMMAND_DELETE''"

definition update_dns :: "env \<Rightarrow> pyval \<Rightarrow> string \<Rightarrow> pyval \<Rightarrow> ('z, unit) lprog" where
  "update_dns e command network_name host_xml =
     bindP (get_network_by_name e network_name) (\<lambda>network.
       act e ''network.update'' [network, command, PStr ''VIR_NETWORK_SECTION_DNS_HOST'', PInt (- 1), host_xml])"

definition add_dns_host_to_network :: "env \<Rightarrow> string \<Rightarrow> string \<Rightarrow> string \<Rightarrow> string \<Rightarrow> ('z, unit) lprog" where
  "add_dns_host_to_network e base_dns_domain network_name api_vip cluster =
     update_dns e ADD_LAST network_name (dns_host_xml base_dns_domain api_vip cluster)"

definition remove_dns_host_from_network :: "env \<Rightarrow> string \<Rightarrow> string \<Rightarrow> string \<Rightarrow> string \<Rightarrow> ('z, unit) lprog" where
  "remove_dns_host_from_network e base_dns_domain network_name api_vip cluster =
     update_dns e DELETE_HOST network_name (dns_host_xml base_dns_domain api_vip cluster)"

section \<open>Machines\<close>

definition get_node_ips_and_macs :: "libvirt_env \<Rightarrow> string \<Rightarrow> ('z, string list \<times> string list) lprog" where
  "get_node_ips_and_macs l node_name = get_domain_ips_and_macs l node_name"

definition get_domain_ips :: "libvirt_env \<Rightarrow> string \<Rightarrow> ('z, string list) lprog" where
  "get_domain_ips l domain = bindP (get_domain_ips_and_macs l domain) (\<lambda>(ips, _). ret ips)"

definition get_host_id :: "env \<Rightarrow> string \<Rightarrow> ('z, pyval) lprog" where
  "get_host_id e node_name = ask_call e (NodeCommand ''UUIDString'' node_name [])"

definition set_cpu_cores :: "env \<Rightarrow> string \<Rightarrow> pyval \<Rightarrow> ('z, unit) lprog" where
  "set_cpu_cores e node_name core_count = do_call e (NodeCommand ''setVcpusFlags'' node_name [core_count])"

section \<open>Logs of the host\<close>

definition copy_file :: "env \<Rightarrow> string \<Rightarrow> string \<Rightarrow> ('z, unit) lprog" where
  "copy_file e src dst = act e ''shutil.copy'' [PStr src, PStr dst]"

definition copy_if_there :: "env \<Rightarrow> string \<Rightarrow> string \<Rightarrow> ('z, unit) lprog" where
  "copy_if_there e src dst = suppressing (\<lambda>x. x = FileNotFoundError) (copy_file e src dst)"

definition make_folder :: "env \<Rightarrow> string \<Rightarrow> bool \<Rightarrow> ('z, unit) lprog" where
  "make_folder e path exist_ok = act e ''os.makedirs'' [PStr path, PBool exist_ok]"

definition qemu_log :: "string \<Rightarrow> string" where
  "qemu_log name = ''/var/log/libvirt/qemu/'' @ name @ ''.log''"

definition console_log :: "string \<Rightarrow> string" where
  "console_log name = ''/var/log/libvirt/qemu/'' @ name @ ''-console.log''"

definition shell :: "env \<Rightarrow> string \<Rightarrow> ('z, unit) lprog" where
  "shell e command = bindP (run_command e command True) (\<lambda>_. ret ())"

text \<open>\<open>network\<close> is \<open>nodes.get_cluster_network()\<close>, \<open>names\<close> the names of the nodes and \<open>since\<close> their setup time.\<close>

definition collect_virsh_logs :: "env \<Rightarrow> (exn + string) \<Rightarrow> string list \<Rightarrow> string \<Rightarrow> string \<Rightarrow> ('z, unit) lprog" where
  "collect_virsh_logs e network names since log_dir_name =
     (let path = log_dir_name @ ''/libvirt_logs'' in
      thenP (make_folder e log_dir_name True)
     (thenP (make_folder e path False)
     (thenP (shell e (''virsh list --all >> '' @ path @ ''/virsh_list''))
     (thenP (shell e (''virsh net-list --all >> '' @ path @ ''/virsh_net_list''))
     (bindP (sum_prog network) (\<lambda>network_name.
      thenP (suppressing (\<lambda>x. x = RuntimeError)
              (shell e (''virsh net-dhcp-leases '' @ network_name @ '' >> '' @ path @ ''/net_dhcp_leases'')))
     (thenP (copy_if_there e ''/var/log/messages'' (path @ ''/messages.log''))
     (thenP (make_folder e (path @ ''/qemu_libvirt_logs'') False)
     (thenP (for_each (\<lambda>name. copy_if_there e (qemu_log name) (path @ ''/qemu_libvirt_logs/'' @ name @ ''-qemu.log'')) names)
     (thenP (make_folder e (path @ ''/console_logs'') False)
     (thenP (for_each (\<lambda>name. copy_if_there e (console_log name) (path @ ''/console_logs/'' @ name @ ''-console.log'')) names)
       (shell e (''journalctl --since '' @ [CHR 0x22] @ since @ [CHR 0x22] @ '' -u libvirtd -D /run/log/journal >> ''
          @ path @ ''/libvirtd_journal'')))))))))))))"

section \<open>Properties\<close>

text \<open>The connection is closed on every path, unless the body does not return.\<close>

lemma connection_is_closed:
  assumes "with_libvirt_connection e uri body s = (r, t)" and "e_ask e (hist s) (Controller ''libvirt.open'' [uri]) = Inr c"
    and "r \<noteq> Inl Diverges"
  shows "hist t \<noteq> [] \<and> last (hist t) = Controller ''conn.close'' [c]"
  using assms
  by (auto simp: with_libvirt_connection_def ask_call_def bindP_def ext_app try_finally_def act_def do_call_def
      split: prod.splits if_splits sum.splits)

text \<open>The entry that is removed is the one that was added.\<close>

lemma same_dns_entry:
  "\<exists>host. add_dns_host_to_network e d n v c = (update_dns e ADD_LAST n host :: ('z, unit) lprog)
     \<and> remove_dns_host_from_network e d n v c = (update_dns e DELETE_HOST n host :: ('z, unit) lprog)"
  by (auto simp: add_dns_host_to_network_def remove_dns_host_from_network_def)

text \<open>The files named before stay: a second address is appended to the first.\<close>

lemma bootp_accumulates:
  assumes "with_bootp u x = Inr y" and "with_bootp v y = Inr z"
  shows "\<exists>d ds. nx_dhcp x = d # ds \<and> nx_dhcp z = (d @ [u, v]) # ds"
  using assms by (auto simp: with_bootp_def split: list.splits)

text \<open>When the network cannot be created again it is gone: it was destroyed and undefined before.\<close>

lemma failed_creation_loses_network:
  assumes "set_ipxe_url e described pretty n url s = (Inl x, t)"
    and "e_ask e (hist s) (Controller ''networkLookupByName'' [PStr n]) = Inr network"
    and "\<And>h. e_do e h (Controller ''network.destroy'' [network]) = Inr ()"
    and "\<And>h. e_do e h (Controller ''network.undefine'' [network]) = Inr ()"
    and "\<And>h xml. e_ask e h (Controller ''networkCreateXML'' [xml]) = Inl x"
    and "described (hist s @ [Controller ''networkLookupByName'' [PStr n]]) network = Inr \<lparr>nx_dhcp = [d], nx_rest = rest\<rparr>"
  shows "\<exists>xml. hist t = hist s @ [Controller ''networkLookupByName'' [PStr n], Controller ''network.XMLDesc'' [network],
    Controller ''network.destroy'' [network], Controller ''network.undefine'' [network], Controller ''networkCreateXML'' [xml]]"
  using assms
  by (auto simp: set_ipxe_url_def get_network_by_name_def ask_call_def bindP_def ext_app destroy_network_def undefine_network_def
      act_def do_call_def create_network_def with_bootp_def prog_simps)

text \<open>A log that is missing does not keep the logs of other nodes from being copied.\<close>

definition only_missing_files :: "env \<Rightarrow> bool" where
  "only_missing_files e \<longleftrightarrow>
     (\<forall>h src dst. e_do e h (Controller ''shutil.copy'' [src, dst]) \<in> {Inr (), Inl FileNotFoundError})"

lemma copies_all_nodes:
  assumes "only_missing_files e"
  shows "for_each (\<lambda>name. copy_if_there e (src name) (dst name)) names s
    = (Inr (), s\<lparr>hist := hist s @ map (\<lambda>name. Controller ''shutil.copy'' [PStr (src name), PStr (dst name)]) names\<rparr>)"
proof (induction names arbitrary: s)
  case (Cons n ns)
  have "copy_if_there e (src n) (dst n) s
      = (Inr (), s\<lparr>hist := hist s @ [Controller ''shutil.copy'' [PStr (src n), PStr (dst n)]]\<rparr>)"
    using assms [unfolded only_missing_files_def, rule_format, of "hist s" "PStr (src n)" "PStr (dst n)"]
    by (auto simp: copy_if_there_def suppressing_def try_except_def copy_file_def act_def do_call_def ext_app prog_simps)
  then show ?case by (simp add: bindP_Inr Cons.IH)
qed (simp add: prog_simps)

end
