(* ===== verification/Views.thy ===== *)
theory Views
  imports LogTools Nodes Prepare Access
begin

text \<open>
  Operations of \<open>cluster.py\<close>, \<open>base_cluster.py\<close>, \<open>nodes.py\<close> and \<open>node.py\<close> that call one modelled operation, and the methods
  that are run on given nodes. Each is defined over the operation it calls.
\<close>

section \<open>Nodes\<close>

definition nodes_is_prepared :: "('z, bool) nprog" where
  "nodes_is_prepared = reads ns_is_prepared"

text \<open>The counts of masters, workers and arbiters are the controller's.\<close>

definition total_nodes :: "int \<Rightarrow> int \<Rightarrow> int \<Rightarrow> int" where
  "total_nodes masters workers arbiters = workers + masters + arbiters"

definition nodes_len :: "node_api \<Rightarrow> ('z, nat) nprog" where
  "nodes_len c = bindP (nodes c) (\<lambda>rs. ret (length rs))"

text \<open>Negative positions count from the end.\<close>

definition nodes_item :: "node_api \<Rightarrow> int \<Rightarrow> ('z, nat) nprog" where
  "nodes_item c i =
     bindP (nodes c) (\<lambda>rs.
       if - int (length rs) \<le> i \<and> i < int (length rs) then ret (rs ! nat (if i < 0 then i + int (length rs) else i))
       else raise IndexError)"

definition start_all ::
  "env \<Rightarrow> node_api \<Rightarrow> bool \<Rightarrow> 'z nodes_state_scheme \<Rightarrow> exn + unit results \<Rightarrow> 'z nodes_state_scheme \<Rightarrow> bool" where
  "start_all e c check_ips s r t \<longleftrightarrow> run_for_all_nodes e c (Start check_ips) s r t"

definition destroy_all ::
  "env \<Rightarrow> node_api \<Rightarrow> 'z nodes_state_scheme \<Rightarrow> exn + unit results \<Rightarrow> 'z nodes_state_scheme \<Rightarrow> bool" where
  "destroy_all e c s r t \<longleftrightarrow> run_for_all_nodes e c Shutdown s r t"

definition format_all_disks ::
  "env \<Rightarrow> node_api \<Rightarrow> 'z nodes_state_scheme \<Rightarrow> exn + unit results \<Rightarrow> 'z nodes_state_scheme \<Rightarrow> bool" where
  "format_all_disks e c s r t \<longleftrightarrow> run_for_all_nodes e c FormatDisk s r t"

definition reboot_all ::
  "env \<Rightarrow> node_api \<Rightarrow> 'z nodes_state_scheme \<Rightarrow> exn + unit \<Rightarrow> 'z nodes_state_scheme \<Rightarrow> bool" where
  "reboot_all e c s r t \<longleftrightarrow> run_and_drop e c Restart s None r t"

definition start_given ::
  "env \<Rightarrow> node_api \<Rightarrow> nat list \<Rightarrow> 'z nodes_state_scheme \<Rightarrow> exn + unit \<Rightarrow> 'z nodes_state_scheme \<Rightarrow> bool" where
  "start_given e c rs s r t \<longleftrightarrow> run_and_drop e c (Start True) s (Some rs) r t"

definition shutdown_given ::
  "env \<Rightarrow> node_api \<Rightarrow> nat list \<Rightarrow> 'z nodes_state_scheme \<Rightarrow> exn + unit \<Rightarrow> 'z nodes_state_scheme \<Rightarrow> bool" where
  "shutdown_given e c rs s r t \<longleftrightarrow> run_and_drop e c Shutdown s (Some rs) r t"

definition reboot_given ::
  "env \<Rightarrow> node_api \<Rightarrow> nat list \<Rightarrow> 'z nodes_state_scheme \<Rightarrow> exn + unit \<Rightarrow> 'z nodes_state_scheme \<Rightarrow> bool" where
  "reboot_given e c rs s r t \<longleftrightarrow> run_and_drop e c Restart s (Some rs) r t"

text \<open>The nodes of the hosts are looked up before any of them is touched.\<close>

inductive run_by_cluster_hosts ::
  "env \<Rightarrow> node_api \<Rightarrow> node_method \<Rightarrow> host list \<Rightarrow> 'z nodes_state_scheme \<Rightarrow> exn + unit results \<Rightarrow> 'z nodes_state_scheme \<Rightarrow> bool"
  for e c m hosts s where
  not_found: "collect (get_node_from_cluster_host c) hosts s = (Inl x, t) \<Longrightarrow> run_by_cluster_hosts e c m hosts s (Inl x) t"
| found: "collect (get_node_from_cluster_host c) hosts s = (Inr rs, u) \<Longrightarrow>
    run_for_given_nodes (nc_tf_platform c) (method_job e m) rs u res t \<Longrightarrow> run_by_cluster_hosts e c m hosts s res t"

inductive_cases run_by_cluster_hostsE: "run_by_cluster_hosts e c m hosts s res t"

text \<open>The jobs are a dictionary by name: of nodes with one name only the last is asked.\<close>

inductive run_ssh_command_on_given_nodes ::
  "env \<Rightarrow> node_api \<Rightarrow> (nat \<Rightarrow> ('z nodes_state_scheme, string) thread) \<Rightarrow> nat list \<Rightarrow> 'z nodes_state_scheme
     \<Rightarrow> exn + (string, string) dict \<Rightarrow> 'z nodes_state_scheme \<Rightarrow> bool"
  for e c job rs s where
  "jobs = by_name s rs \<Longrightarrow> runs_concurrently 5 (map (job \<circ> snd) jobs) s res t \<Longrightarrow>
    run_ssh_command_on_given_nodes e c job rs s
      (map_sum (\<lambda>x. x) (\<lambda>outs. map (\<lambda>(i, out). (fst (jobs ! i), out)) outs) res) t"

section \<open>One node\<close>

definition node_is_active :: "env \<Rightarrow> nat \<Rightarrow> ('z, pyval) nprog" where
  "node_is_active e r = node_ask e ''is_active'' r []"

definition node_set_per_device_boot_order :: "env \<Rightarrow> pyval \<Rightarrow> nat \<Rightarrow> ('z, unit) nprog" where
  "node_set_per_device_boot_order e key r = node_act e ''set_per_device_boot_order'' r [key]"

definition set_boot_order_flow :: "env \<Rightarrow> bool \<Rightarrow> bool \<Rightarrow> nat \<Rightarrow> ('z, unit) nprog" where
  "set_boot_order_flow e cd_first start r =
     thenP (node_shutdown e r) (thenP (node_set_boot_order e cd_first r) (whenP start (node_start e True r)))"

section \<open>The cluster\<close>

definition is_in_error :: "env \<Rightarrow> ('z, bool option) ClusterBase.cprog" where
  "is_in_error e = cluster_is_in_status e CS_Error"

definition is_finalizing :: "env \<Rightarrow> ('z, bool option) ClusterBase.cprog" where
  "is_finalizing e = cluster_is_in_status e CS_Finalizing"

definition is_installing :: "env \<Rightarrow> ('z, bool option) ClusterBase.cprog" where
  "is_installing e = cluster_is_in_status e CS_Installing"

definition is_in_insufficient_status :: "env \<Rightarrow> ('z, bool option) ClusterBase.cprog" where
  "is_in_insufficient_status e = cluster_is_in_status e CS_Insufficient"

definition cluster_is_installed :: "('z, bool) ClusterBase.cprog" where
  "cluster_is_installed = reads cs_is_installed"

definition cluster_config_value :: "string \<Rightarrow> ('z, pyval) ClusterBase.cprog" where
  "cluster_config_value key = reads (\<lambda>s. cc s key)"

definition cluster_kubeconfig_path :: "('z, pyval) ClusterBase.cprog" where
  "cluster_kubeconfig_path = cluster_config_value ''kubeconfig_path''"

definition cluster_iso_download_path :: "('z, pyval) ClusterBase.cprog" where
  "cluster_iso_download_path = cluster_config_value ''iso_download_path''"

definition cluster_enable_image_download :: "('z, pyval) ClusterBase.cprog" where
  "cluster_enable_image_download = cluster_config_value ''download_image''"

definition cluster_control_plane_count :: "('z, pyval) ClusterBase.cprog" where
  "cluster_control_plane_count = cluster_config_value ''control_plane_count''"

definition cluster_high_availability_mode :: "('z, pyval) ClusterBase.cprog" where
  "cluster_high_availability_mode = cluster_config_value ''high_availability_mode''"

definition single_node_cluster :: "nodes_env \<Rightarrow> bool" where
  "single_node_cluster nv \<longleftrightarrow> nv_nodes_count nv = 1"

definition cluster_wait_for_logs_complete :: "'z kwaiter \<Rightarrow> env \<Rightarrow> int \<Rightarrow> int \<Rightarrow> bool \<Rightarrow> ('z, unit) ClusterBase.cprog" where
  "cluster_wait_for_logs_complete wait e timeout interval check_host_logs_only =
     with_cluster_id (\<lambda>i. wait_for_logs_complete wait e i timeout interval check_host_logs_only)"

definition wait_for_masters_to_join :: "'z kwaiter \<Rightarrow> env \<Rightarrow> nodes_env \<Rightarrow> nat option \<Rightarrow> ('z, unit) ClusterBase.cprog" where
  "wait_for_masters_to_join wait e nv num_masters = wait_for_non_bootstrap_masters wait e nv Joined num_masters"

definition cluster_is_operator_in_status :: "env \<Rightarrow> string \<Rightarrow> string \<Rightarrow> ('z, bool) ClusterBase.cprog" where
  "cluster_is_operator_in_status e operator_name status =
     with_cluster_id (\<lambda>i. bindP (get_cluster_operators e i) (\<lambda>ops. ret (is_operator_in_status ops operator_name status)))"

definition register_dummy_host :: "env \<Rightarrow> ('z, unit) ClusterBase.cprog" where
  "register_dummy_host e =
     with_cluster_id (\<lambda>i. api_register_host e i ''b164df18-0ff1-4b85-9121-059f10f58f71'')"

definition host_post_step_result :: "env \<Rightarrow> string \<Rightarrow> string \<Rightarrow> string \<Rightarrow> int \<Rightarrow> string \<Rightarrow> ('z, unit) ClusterBase.cprog" where
  "host_post_step_result e host step_type step_id exit_code output =
     with_cluster_id (\<lambda>i. api_host_post_step_result e i host [(''step_type'', PStr step_type),
       (''step_id'', PStr step_id), (''exit_code'', PInt exit_code), (''output'', PStr output)])"

text \<open>The script is downloaded only when there was no infrastructure environment yet.\<close>

definition base_download_ipxe_script :: "env \<Rightarrow> pyval \<Rightarrow> ('z, unit) ClusterBase.cprog" where
  "base_download_ipxe_script e static_network_config =
     bindP (reads cs_has_infra_env) (\<lambda>b.
       whenP (\<not> b)
         (thenP (generate_infra_env e static_network_config PNone PNone PNone PNone PNone)
           (bindP (reads (\<lambda>s. cc s ''install_working_dir'')) (\<lambda>dir.
              download_infra_env_file e ''ipxe-script'' (text_of dir)))))"

section \<open>Properties\<close>

text \<open>One node after the other, the flow of the boot order runs as its steps do on the pool.\<close>

lemma flow_is_its_steps:
  "run_thread (method_job e (SetBootOrderFlow cd_first start) r) s = set_boot_order_flow e cd_first start r s"
  unfolding method_job_def run_all_steps by (cases start) (simp_all add: set_boot_order_flow_def whenP_def)

text \<open>Without a node for one of the hosts nothing is run.\<close>

lemma unknown_host_runs_nothing:
  assumes "run_by_cluster_hosts e c m hosts s res t" and "collect (get_node_from_cluster_host c) hosts s = (Inl x, u)"
  shows "res = Inl x \<and> t = u"
  using assms(1) by (rule run_by_cluster_hostsE) (use assms(2) in simp_all)

text \<open>Starting all nodes does not drop the cache, starting given ones does.\<close>

lemma start_given_drops_cache:
  assumes "start_given e c rs s (Inr ()) t"
  shows "ns_nodes t = None \<and> ns_nodes_as_dict t = None"
  using assms unfolding start_given_def
  by (cases rule: run_and_drop.cases) (auto simp: bindP_eq_Inr_iff prog_simps drop_cache_def)

text \<open>With an infrastructure environment there is no download.\<close>

lemma ipxe_script_needs_new_environment:
  assumes "cs_has_infra_env s"
  shows "base_download_ipxe_script e static_network_config s = (Inr (), s)"
  using assms by (simp add: base_download_ipxe_script_def bindP_app prog_simps)

end
