(* ===== verification/Overrides.thy ===== *)
theory Overrides
  imports Access
begin

text \<open>
  \<open>scripts/override_images\<close>: the scripts that leave one release image and the operating system images that belong to it,
  and \<open>utils/release_image_utils.py\<close>. Reading the lists, parsing versions, and what \<open>extract_version\<close> and
  \<open>extract_architecture\<close> find for an image are parameters; versions and architectures are given as text.
\<close>

section \<open>The release image\<close>

record release =
  rl_openshift_version :: string
  rl_version :: string
  rl_arch :: string
  rl_archs :: "string list"
  rl_default :: bool
  rl_url :: string

definition MULTI :: string where "MULTI = ''multi''"

definition X86 :: string where "X86 = ''x86_64''"

definition single_archs :: "string list" where
  "single_archs = [X86, ''arm64'', ''s390x'', ''ppc64le'']"

definition get_release_image :: "release list \<Rightarrow> string \<Rightarrow> string \<Rightarrow> release option" where
  "get_release_image release_images ocp_xy_version arch =
     (let archs_images = filter (\<lambda>v. rl_arch v = arch) release_images
      in case filter (\<lambda>v. rl_openshift_version v = ocp_xy_version) archs_images of [] \<Rightarrow> None | r # _ \<Rightarrow> Some r)"

definition multi_suffix :: "string \<Rightarrow> string" where
  "multi_suffix version = (if endswith version (''-'' @ MULTI) then ''-'' @ MULTI else [])"

definition xy_version :: "nat \<times> nat \<Rightarrow> string \<Rightarrow> string" where
  "xy_version v sfx = dec (fst v) @ ''.'' @ dec (snd v) @ sfx"

text \<open>By version: one of the default images.\<close>

definition release_by_version ::
  "(string \<Rightarrow> exn + nat \<times> nat) \<Rightarrow> release list \<Rightarrow> string \<Rightarrow> exn + release" where
  "release_by_version semver_parse release_images version =
     sum_bind (semver_parse version) (\<lambda>v.
       let sfx = multi_suffix version;
           arch = (if occurs_in MULTI sfx then MULTI else X86)
       in case get_release_image release_images (xy_version v sfx) arch of
            None \<Rightarrow> Inl (ValueError ''No release image found'')
          | Some r \<Rightarrow> Inr (r\<lparr>rl_default := True\<rparr>))"

text \<open>By reference: \<open>version\<close> gives the numbers and the text of the version.\<close>

definition release_by_reference ::
  "(string \<Rightarrow> exn + (nat \<times> nat) \<times> string) \<Rightarrow> (string \<Rightarrow> exn + string) \<Rightarrow> string \<Rightarrow> exn + release" where
  "release_by_reference version architecture ref =
     sum_bind (version ref) (\<lambda>(v, full_version).
     sum_bind (architecture ref) (\<lambda>arch.
       Inr \<lparr>rl_openshift_version = xy_version v (if arch = MULTI then MULTI else []), rl_version = full_version,
            rl_arch = arch, rl_archs = (if arch = MULTI then single_archs else [arch]), rl_default = True, rl_url = ref\<rparr>))"

definition override_release_images ::
  "(string \<Rightarrow> exn + release list) \<Rightarrow> (string \<Rightarrow> exn + nat \<times> nat) \<Rightarrow> (string \<Rightarrow> exn + (nat \<times> nat) \<times> string)
     \<Rightarrow> (string \<Rightarrow> exn + string) \<Rightarrow> environ \<Rightarrow> exn + release list" where
  "override_release_images load_releases semver_parse version architecture environ =
     (let path = os_environ_get environ ''RELEASE_IMAGES_PATH'' [];
          given = os_environ_get environ ''OPENSHIFT_VERSION'' [];
          ref = os_environ_get environ ''OPENSHIFT_INSTALL_RELEASE_IMAGE'' []
      in if path = [] then Inl (ValueError ''RELEASE_IMAGES_PATH environment variable must be provided'')
         else sum_bind (load_releases path) (\<lambda>release_images.
           sum_bind
             (if given \<noteq> [] then release_by_version semver_parse release_images given
              else if ref \<noteq> [] then release_by_reference version architecture ref
              else Inl (ValueError ''OPENSHIFT_INSTALL_RELEASE_IMAGE or OPENSHIFT_VERSION must be specified''))
             (\<lambda>r. Inr [r])))"

section \<open>The images of the operating system\<close>

record os_image =
  oi_openshift_version :: string
  oi_arch :: string
  oi_url :: string

definition get_os_image :: "os_image list \<Rightarrow> string \<Rightarrow> string \<Rightarrow> os_image option" where
  "get_os_image os_images version arch =
     (let archs_images = filter (\<lambda>v. oi_arch v = arch) os_images
      in case filter (\<lambda>v. oi_openshift_version v = version) archs_images of [] \<Rightarrow> None | i # _ \<Rightarrow> Some i)"

definition remove_suffix :: "string \<Rightarrow> string \<Rightarrow> string" where
  "remove_suffix sfx s = (if sfx \<noteq> [] \<and> endswith s sfx then take (length s - length sfx) s else s)"

text \<open>
  The architectures are those of a set, in an order that is not determined (\<open>archs\<close>). The list that is compared with 0
  in the end is never equal to it.
\<close>

definition os_images_for :: "string list \<Rightarrow> os_image list \<Rightarrow> release \<Rightarrow> exn + os_image list" where
  "os_images_for archs os_images r =
     (if rl_arch r = MULTI then
        Inr (List.map_filter (get_os_image os_images (remove_suffix (''-'' @ MULTI) (rl_openshift_version r))) archs)
      else case get_os_image os_images (rl_openshift_version r) (rl_arch r) of
          None \<Rightarrow> Inl (ValueError ''Failed find get OS image'')
        | Some i \<Rightarrow> Inr [i])"

definition override_os_images ::
  "string list \<Rightarrow> (string \<Rightarrow> exn + os_image list) \<Rightarrow> (string \<Rightarrow> exn + release list) \<Rightarrow> environ \<Rightarrow> exn + os_image list" where
  "override_os_images archs load_images loads_releases environ =
     (let path = os_environ_get environ ''OS_IMAGES_PATH'' [];
          releases = os_environ_get environ ''RELEASE_IMAGES'' []
      in if path = [] then Inl (ValueError ''OS_IMAGES_PATH environment variable must be provided'')
         else sum_bind (load_images path) (\<lambda>os_images.
           if releases = [] then Inl (ValueError ''RELEASE_IMAGES environment variable must be provided'')
           else sum_bind
             (case loads_releases releases of
                Inl x \<Rightarrow> Inl (if x = JSONDecodeError then ValueError ''RELEASE_IMAGES is invalid JSON'' else x)
              | Inr rs \<Rightarrow> Inr rs)
             (\<lambda>rs. case rs of
                [r] \<Rightarrow> os_images_for archs os_images r
              | _ \<Rightarrow> Inl (ValueError ''RELEASE_IMAGES must contain exactly one release image''))))"

section \<open>Contents of a release image\<close>

definition extract_installer ::
  "environ \<Rightarrow> (string \<Rightarrow> exn + pyval) \<Rightarrow> env \<Rightarrow> string \<Rightarrow> string \<Rightarrow> ('z, unit) kprog" where
  "extract_installer environ loads e release_image dest =
     pull_secret_file environ loads e (\<lambda>pull_secret.
       bindP (run_command e (''oc adm release extract --registry-config '' @ [CHR 0x27] @ pull_secret @ [CHR 0x27]
          @ '' --command=openshift-install --to='' @ dest @ '' '' @ release_image) True) (\<lambda>_. ret ()))"

definition rhcos_path :: "string list" where
  "rhcos_path = [''architectures'', ''x86_64'', ''artifacts'', ''metal'', ''formats'', ''iso'', ''disk'', ''location'']"

fun along_path :: "pyval \<Rightarrow> string list \<Rightarrow> exn + pyval" where
  "along_path v [] = Inr v"
| "along_path v (k # ks) = sum_bind (py_get v k (PDict [])) (\<lambda>w. along_path w ks)"

definition extract_rhcos_url ::
  "(string \<Rightarrow> exn + pyval) \<Rightarrow> env \<Rightarrow> string \<Rightarrow> ('z, pyval) kprog" where
  "extract_rhcos_url loads e installer_binary_path =
     bindP (run_command e ([CHR 0x27] @ installer_binary_path @ [CHR 0x27] @ '' coreos print-stream-json'') True) (\<lambda>(out, _, _).
     bindP (sum_prog (sum_bind (loads out) (\<lambda>v. along_path v rhcos_path))) (\<lambda>u.
       if u = PDict [] then raise (ValueError ''Could not extract RHCOS URL'') else ret u))"

section \<open>Properties\<close>

lemma get_os_image_Some:
  "get_os_image os_images version arch = Some i \<Longrightarrow> i \<in> set os_images \<and> oi_openshift_version i = version \<and> oi_arch i = arch"
  by (auto simp: get_os_image_def Let_def filter_eq_Cons_iff split: list.splits)

lemma get_os_image_None:
  "get_os_image os_images version arch = None \<longleftrightarrow> (\<forall>i \<in> set os_images. oi_arch i = arch \<longrightarrow> oi_openshift_version i \<noteq> version)"
  by (cases "filter (\<lambda>v. oi_openshift_version v = version) (filter (\<lambda>v. oi_arch v = arch) os_images)")
    (auto simp: get_os_image_def Let_def filter_empty_conv dest: filter_eq_ConsD)

lemma map_filter_keys:
  assumes "\<And>a i. f a = Some i \<Longrightarrow> g i = a"
  shows "map g (List.map_filter f xs) = filter (\<lambda>a. f a \<noteq> None) xs"
  using assms by (induction xs) (auto simp: List.map_filter_simps split: option.splits)

text \<open>The images written are images of the list, of the release's version without its suffix; for a release of one
  architecture there is one, of that architecture, and for one of all architectures one for each that the list has.
\<close>

lemma os_images_match_release:
  assumes "override_os_images archs load_images loads_releases environ = Inr imgs"
  shows "\<exists>os_images r. load_images (os_environ_get environ ''OS_IMAGES_PATH'' []) = Inr os_images
    \<and> loads_releases (os_environ_get environ ''RELEASE_IMAGES'' []) = Inr [r]
    \<and> set imgs \<subseteq> set os_images
    \<and> (if rl_arch r = MULTI
        then (\<forall>i \<in> set imgs. oi_openshift_version i = remove_suffix (''-'' @ MULTI) (rl_openshift_version r))
          \<and> map oi_arch imgs = filter (\<lambda>a. \<exists>i \<in> set os_images. oi_arch i = a
                \<and> oi_openshift_version i = remove_suffix (''-'' @ MULTI) (rl_openshift_version r)) archs
        else map oi_arch imgs = [rl_arch r] \<and> map oi_openshift_version imgs = [rl_openshift_version r])"
proof -
  obtain os_images r where loaded: "load_images (os_environ_get environ ''OS_IMAGES_PATH'' []) = Inr os_images"
    "loads_releases (os_environ_get environ ''RELEASE_IMAGES'' []) = Inr [r]" "os_images_for archs os_images r = Inr imgs"
    using assms by (auto simp: override_os_images_def Let_def sum_bind_Inr_iff split: if_splits sum.splits list.splits)
  let ?v = "remove_suffix (''-'' @ MULTI) (rl_openshift_version r)"
  show ?thesis
  proof (cases "rl_arch r = MULTI")
    case True
    then have imgs: "imgs = List.map_filter (get_os_image os_images ?v) archs" using loaded(3) by (simp add: os_images_for_def)
    have "map oi_arch imgs = filter (\<lambda>a. get_os_image os_images ?v a \<noteq> None) archs"
      unfolding imgs by (rule map_filter_keys) (auto dest: get_os_image_Some)
    moreover have "\<forall>i \<in> set imgs. i \<in> set os_images \<and> oi_openshift_version i = ?v"
      unfolding imgs by (auto simp: List.map_filter_def dest: get_os_image_Some)
    moreover have "get_os_image os_images ?v a \<noteq> None \<longleftrightarrow> (\<exists>i \<in> set os_images. oi_arch i = a \<and> oi_openshift_version i = ?v)" for a
      unfolding get_os_image_None by auto
    ultimately show ?thesis using loaded(1,2) True by auto
  next
    case False
    then obtain i where "get_os_image os_images (rl_openshift_version r) (rl_arch r) = Some i" "imgs = [i]"
      using loaded(3) by (auto simp: os_images_for_def split: option.splits)
    with get_os_image_Some [of os_images "rl_openshift_version r" "rl_arch r" i] loaded(1,2) False show ?thesis by auto
  qed
qed

text \<open>By version, the text that is looked for is that of the other modules.\<close>

lemma version_as_elsewhere:
  assumes "semver_parse version = Inr v"
  shows "Inr (xy_version v (multi_suffix version)) = get_major_minor_version semver_parse version"
  using assms by (simp add: get_major_minor_version_def xy_version_def multi_suffix_def MULTI_def split: prod.split)

text \<open>
  By reference, the suffix lacks its hyphen: for an image of all architectures no image of the operating system is found,
  and the script writes an empty list.
\<close>

lemma digit_is_no_hyphen: "d < 10 \<Longrightarrow> digit_char d \<noteq> CHR ''-''"
  using of_digit_char [of d] by auto

lemma not_removed: "\<not> endswith (xy_version v MULTI) (''-'' @ MULTI)"
proof -
  have "CHR ''-'' \<notin> set (xy_version v MULTI)"
    by (auto simp: xy_version_def MULTI_def dest!: dec_digits digit_is_no_hyphen)
  then show ?thesis by (auto simp: suffix_def)
qed

lemma all_architectures_get_no_os_image:
  assumes "release_by_reference version architecture ref = Inr r" and "architecture ref = Inr MULTI"
    and "\<forall>i \<in> set os_images. \<not> endswith (oi_openshift_version i) MULTI"
  shows "os_images_for archs os_images r = Inr []"
proof -
  obtain v where r: "rl_arch r = MULTI" "rl_openshift_version r = xy_version v MULTI"
    using assms(1,2) by (auto simp: release_by_reference_def sum_bind_Inr_iff)
  have same: "remove_suffix (''-'' @ MULTI) (rl_openshift_version r) = rl_openshift_version r"
    using not_removed by (simp add: remove_suffix_def r(2))
  have "get_os_image os_images (rl_openshift_version r) a = None" for a
    using assms(3) by (auto simp: get_os_image_None r(2) xy_version_def suffix_def)
  then have "List.map_filter (get_os_image os_images (rl_openshift_version r)) archs = []"
    by (simp add: List.map_filter_def)
  then show ?thesis by (simp only: os_images_for_def r(1) same if_True simp_thms)
qed

definition two_os_images :: "os_image list" where
  "two_os_images = [\<lparr>oi_openshift_version = ''4.19'', oi_arch = ''arm64'', oi_url = ''a''\<rparr>,
     \<lparr>oi_openshift_version = ''4.19'', oi_arch = X86, oi_url = ''x''\<rparr>, \<lparr>oi_openshift_version = ''4.18'', oi_arch = X86, oi_url = ''o''\<rparr>]"

definition multi_release :: release where
  "multi_release = \<lparr>rl_openshift_version = ''4.19-multi'', rl_version = ''4.19.1'', rl_arch = MULTI, rl_archs = single_archs,
     rl_default = True, rl_url = ''r''\<rparr>"

lemma two_images_run:
  "override_os_images single_archs (\<lambda>_. Inr two_os_images) (\<lambda>_. Inr [multi_release]) (\<lambda>_. Some ''f'')
     = Inr [\<lparr>oi_openshift_version = ''4.19'', oi_arch = X86, oi_url = ''x''\<rparr>, \<lparr>oi_openshift_version = ''4.19'', oi_arch = ''arm64'', oi_url = ''a''\<rparr>]"
  by code_simp

lemma os_images_match_release_witness:
  "\<exists>os_images r. os_images = two_os_images \<and> r = multi_release
     \<and> map oi_arch [two_os_images ! 1, two_os_images ! 0] = filter (\<lambda>a. \<exists>i \<in> set os_images. oi_arch i = a
          \<and> oi_openshift_version i = remove_suffix (''-'' @ MULTI) (rl_openshift_version r)) single_archs"
  using os_images_match_release [OF two_images_run] by (simp add: two_os_images_def multi_release_def split: if_splits)

end
