(* ===== verification/Events.thy ===== *)
theory Events
  imports Access
begin

text \<open>
  \<open>helper_classes/events_handler.py\<close>: the search for an event and the wait for it. Times are seconds; what \<open>utils.to_utc\<close>
  makes of the text of a time is a parameter.
\<close>

section \<open>Finding an event\<close>

text \<open>Without a list of parameters the first event that is late enough raises: \<open>None\<close> cannot be gone through.\<close>

definition event_fits :: "(string \<Rightarrow> exn + int) \<Rightarrow> string \<Rightarrow> int \<Rightarrow> string list option \<Rightarrow> pyval \<Rightarrow> exn + bool" where
  "event_fits to_utc event_to_find reference_time params event =
     sum_bind (str_field event ''message'') (\<lambda>message.
       if \<not> occurs_in event_to_find message then Inr False
       else sum_bind (sum_bind (str_field event ''event_time'') to_utc) (\<lambda>time.
         if time < reference_time - 2 then Inr False
         else case params of None \<Rightarrow> Inl TypeError | Some ps \<Rightarrow> Inr (list_all (\<lambda>p. occurs_in p message) ps)))"

fun find_in_events :: "(pyval \<Rightarrow> exn + bool) \<Rightarrow> pyval list \<Rightarrow> exn + bool" where
  "find_in_events fits [] = Inr False"
| "find_in_events fits (event # events) =
     sum_bind (fits event) (\<lambda>b. if b then Inr True else find_in_events fits events)"

definition find_event ::
  "(pyval \<Rightarrow> exn + pyval) \<Rightarrow> (string \<Rightarrow> exn + int) \<Rightarrow> env \<Rightarrow> string \<Rightarrow> int \<Rightarrow> string list option \<Rightarrow> string \<Rightarrow> string \<Rightarrow> string
     \<Rightarrow> ((call, 'z) world_scheme, bool) prog" where
  "find_event loads to_utc e event_to_find reference_time params host infra_env i =
     bindP (api_get_events loads e i host infra_env None []) (\<lambda>v.
       sum_prog (sum_bind (items_in v)
         (find_in_events (event_fits to_utc event_to_find reference_time params))))"

definition wait_for_event ::
  "((call, 'z) world_scheme, unit) waiter \<Rightarrow> (pyval \<Rightarrow> exn + pyval) \<Rightarrow> (string \<Rightarrow> exn + int) \<Rightarrow> env \<Rightarrow> string \<Rightarrow> int
     \<Rightarrow> string list option \<Rightarrow> string \<Rightarrow> string \<Rightarrow> string \<Rightarrow> int \<Rightarrow> ((call, 'z) world_scheme, unit) prog" where
  "wait_for_event wait loads to_utc e event_to_find reference_time params host infra_env i timeout =
     (let ps = (case params of None \<Rightarrow> [] | Some ps \<Rightarrow> ps)
      in wait (bindP (find_event loads to_utc e event_to_find reference_time (Some ps) host infra_env i) (\<lambda>b. ret (truthy b)))
           timeout 2 no_exceptions)"

section \<open>Properties\<close>

text \<open>The event: its message names what was looked for and all parameters, and it is not older than two seconds before.\<close>

definition is_event :: "(string \<Rightarrow> exn + int) \<Rightarrow> string \<Rightarrow> int \<Rightarrow> string list \<Rightarrow> pyval \<Rightarrow> bool" where
  "is_event to_utc event_to_find reference_time ps event \<longleftrightarrow>
     (\<exists>message t time. py_field event ''message'' = Inr (PStr message) \<and> py_field event ''event_time'' = Inr (PStr t)
        \<and> to_utc t = Inr time \<and> reference_time - 2 \<le> time \<and> occurs_in event_to_find message
        \<and> (\<forall>p \<in> set ps. occurs_in p message))"

lemma event_fits_True:
  "event_fits to_utc event_to_find reference_time (Some ps) event = Inr True \<Longrightarrow> is_event to_utc event_to_find reference_time ps event"
  by (auto simp: event_fits_def is_event_def sum_bind_Inr_iff str_field_Inr list_all_iff split: if_splits)

lemma find_in_events_True: "find_in_events fits events = Inr True \<Longrightarrow> \<exists>event \<in> set events. fits event = Inr True"
  by (induction events) (auto simp: sum_bind_Inr_iff split: if_splits)

text \<open>A wait that returns has read the event in its last query.\<close>

lemma awaited_event_was_read:
  assumes "waits_by wait"
    and "wait_for_event wait loads to_utc e event_to_find reference_time params host infra_env i timeout s = (Inr (), t)"
  shows "\<exists>h response events. e_ask e h (Controller ''v2_list_events'' [PStr i, PStr host, PStr infra_env, or_user None, PDict []])
      = Inr response \<and> loads (attribute response ''data'') = Inr (PList events)
    \<and> (\<exists>event \<in> set events. is_event to_utc event_to_find reference_time (case params of None \<Rightarrow> [] | Some ps \<Rightarrow> ps) event)"
proof -
  let ?ps = "case params of None \<Rightarrow> [] | Some ps \<Rightarrow> ps"
  obtain u where "bindP (find_event loads to_utc e event_to_find reference_time (Some ?ps) host infra_env i) (\<lambda>b. ret (truthy b)) u
      = (Inr (Some ()), t)"
    using wait_Inr [OF assms(1) assms(2) [unfolded wait_for_event_def Let_def]] by blast
  then have "fst (find_event loads to_utc e event_to_find reference_time (Some ?ps) host infra_env i u) = Inr True"
    by (auto simp: bindP_eq_Inr_iff prog_simps)
  then show ?thesis
    by (auto simp: find_event_def api_get_events_def ask_call_def ext_app bindP_def prog_simps sum_bind_Inr_iff
        split: sum.splits pyval.splits dest!: find_in_events_True event_fits_True)
qed

text \<open>Called directly, without parameters, the search raises at an event that would do.\<close>

lemma search_without_parameters_raises:
  assumes "is_event to_utc event_to_find reference_time [] event"
  shows "find_in_events (event_fits to_utc event_to_find reference_time None) (event # events) = Inl TypeError"
  using assms by (auto simp: is_event_def event_fits_def str_field_def)

end
