(* ===== verification/Spec2Isabelle.thy ===== *)
theory Spec2Isabelle
  imports Assets Triggers Firewall Terraform Day2 Logs Junit Pool Nodes Interface Libvirt S390x BareMetal Oci Clouds Services HubCluster Kube Agents KubeUtils Access Logger Virsh TfNodes LogTools Indexer Scripts Chatbot Cli Config LibvirtNet Views Overrides Events
begin

text \<open>
  Verification of the test infrastructure of the assisted installer (Python, under \<open>src/src\<close>).

  The program. A test describes a cluster by configuration values. Objects of the package
  \<open>assisted_test_infra\<close> create the cluster and its infrastructure environment at the
  assisted-installer service, start machines (through terraform, libvirt or a cloud), wait until
  the hosts have registered, prepare and start the installation, wait for its end, collect logs and
  clean up. Most of it is a dialogue: a call to the service, a look at the answer, a wait, the next
  call. The theories follow the files of the program.

  How code is modelled. A method is a program, \<open>('s, 'a) prog\<close> of \<open>Prelude\<close>: it gets the state and
  returns a value or an exception together with the state it leaves. The state is a record that
  extends \<open>world\<close> of \<open>History\<close>: the history of all calls that left the repository. What those calls
  answer (\<open>env\<close> of \<open>Service\<close>) is a function of the history before the call, so that answers may change
  over time and no theorem can assume that a second query answers like the first. Waiting
  (the library \<open>waiting\<close>), retrying (\<open>retry\<close>), \<open>netaddr\<close>, terraform, libvirt, \<open>junit_xml\<close>, file systems,
  archives and clocks are arguments. What is relied on of them is a named hypothesis: \<open>waits_by\<close> (the
  predicate is polled at least once and its last value is returned), \<open>retries_by\<close>, \<open>netaddr_order\<close>,
  \<open>keeps_table\<close> (iptables keeps the rules it is given), \<open>failure_contract\<close>. Every property with such a
  hypothesis has a witness with a concrete instance. Python integers are unbounded and are \<open>int\<close> or \<open>nat\<close>;
  dictionaries are association lists in insertion order, because the code iterates over them.

  Theories and sources.
  \<^item> \<open>Prelude\<close>, \<open>Strings\<close>, \<open>History\<close>, \<open>Values\<close>, \<open>Ip\<close>: exceptions, programs, strings and dictionaries of
    Python, untyped values, \<open>ipaddress\<close>; the locales \<open>state_rel\<close> (a relation between states that every
    combinator keeps: one proof for the history that only grows, for parts of the state that stay
    as they are, for calls of a certain kind only) and \<open>first_free\<close> (a linear search).
  \<^item> \<open>Constants\<close>: \<open>consts/consts.py\<close>.
  \<^item> \<open>Service\<close>: \<open>service_client/assisted_service_api.py\<close>, the requests and the queries.
  \<^item> \<open>Waiting\<close>: \<open>utils/waiting.py\<close>. A wait that returns saw the status it waited for, in its last
    query; one that raises has seen an error status or has timed out.
  \<^item> \<open>Utils\<close>: \<open>utils/utils.py\<close>. The lock of a file is released on every path; the port that is found was
    free; the hosts file keeps the entries of other names.
  \<^item> \<open>Assets\<close>: \<open>tools/assets.py\<close>. The search for a free network ends (\<open>netaddr_order\<close>: networks in use are
    bounded and a step moves up), the networks chosen are free and differ, release removes what was taken.
  \<^item> \<open>StaticNetwork\<close>: \<open>tools/static_network.py\<close>. Addresses of different hosts differ; the next hop of a
    default route is served by the interface's network.
  \<^item> \<open>Operators\<close>, \<open>Triggers\<close>: \<open>consts/olm_operators.py\<close>, \<open>utils/operators_utils.py\<close>, \<open>utils/env_var.py\<close>,
    \<open>triggers/*.py\<close>, \<open>config/base_config.py\<close>. Triggers never change what the user or the environment
    has set (locale \<open>triggerable\<close>, for configurations and for default variables).
  \<^item> \<open>InfraEnv\<close>, \<open>ClusterBase\<close>, \<open>Cluster\<close>, \<open>Prepare\<close>: \<open>helper_classes/entity.py\<close>, \<open>infra_env.py\<close>,
    \<open>base_cluster.py\<close>, \<open>cluster_host.py\<close>, \<open>cluster.py\<close>, \<open>utils/manifests.py\<close>. Locale \<open>entity\<close>: an object is created
    if it has no identifier and adopted otherwise, and has one afterwards. The cluster is marked as installed only after
    the installation was seen to be complete; it is started at most three times; the hosts are matched with
    their nodes; the preparation reports ready only after the status was seen twice.
  \<^item> \<open>Firewall\<close>: \<open>controllers/iptables.py\<close>, \<open>nat_controller.py\<close>, \<open>load_balancer_controller.py\<close>. Rules are added
    once and removed again (locale \<open>rule_commands\<close>, for the filter and the translation table).
  \<^item> \<open>Terraform\<close>: \<open>tools/terraform_utils.py\<close>, \<open>terraform_controller.py\<close>. Applying a plan ends; the addresses
    given to machines and the virtual addresses.
  \<^item> \<open>Day2\<close>: \<open>helper_classes/day2_cluster.py\<close>. Only known hosts are installed, and it returns only when the
    nodes were seen to have joined.
  \<^item> \<open>Logs\<close>, \<open>Junit\<close>: \<open>utils/logs_utils.py\<close>, \<open>download_logs/download_logs.py\<close>, \<open>junit_log_parser.py\<close>. No secret is left,
    what an accepted archive contains, how often a download is tried, how log entries become test cases.
  \<^item> \<open>Pool\<close>: \<open>tools/concurrently.py\<close>, a step relation of threads on a pool. Every run ends, and for jobs on
    parts of their own every interleaving has the outcome of the jobs run one by one.
  \<^item> \<open>Nodes\<close>: \<open>helper_classes/nodes.py\<close>, \<open>node_controllers/node.py\<close>. The cache of nodes, their preparation, and
    operations on all nodes.
  \<^item> \<open>Interface\<close>: \<open>node_controllers/node_controller.py\<close>, the operations of all controllers, and those that controllers
    leave empty.
  \<^item> \<open>Libvirt\<close>: \<open>libvirt_controller.py\<close>. Names of disks, leases, the start of nodes, and the boot order.
  \<^item> \<open>S390x\<close>: \<open>kvm_s390x_controller.py\<close>. Every machine is restarted after its first reboot, although the list of machines is
    changed while it is gone through.
  \<^item> \<open>BareMetal\<close>: \<open>redfish_controller.py\<close>, \<open>adapter_controller.py\<close>. Threads on \<open>Pool\<close> (locale \<open>thread_invariants\<close>) reset
    each machine once; the image is in place before the first restart. The number of polls of the library is an argument;
    the time limits allow seven.
  \<^item> \<open>Oci\<close>: \<open>oci_api_controller.py\<close>. Whatever a preparation made, however it ended, is recorded and removed in reverse order
    (an instance of \<open>state_rel\<close>).
  \<^item> \<open>Clouds\<close>: \<open>tf_controller.py\<close>, \<open>vsphere_controller.py\<close>, \<open>nutanix_controller.py\<close>. The virtual addresses that are found
    did not answer; what shutting down does on Nutanix; operations end when their task has ended.
  \<^item> \<open>Services\<close>: \<open>containerized_controller.py\<close>, the proxy, tang and iPXE controllers, \<open>iscsi_target_controller.py\<close>. What
    cleaning up iSCSI targets removes; how long the identifier of a container is kept.
  \<^item> \<open>HubCluster\<close>: \<open>assisted_installer_infra_controller.py\<close>. What was seen, and in which order, when a changed configuration
    has been rolled out.
  \<^item> \<open>Kube\<close>, \<open>Agents\<close>: \<open>helper_classes/kube_helpers\<close>, \<open>consts/kube_api.py\<close>. The bodies of the requests for custom
    resources; a wait for a condition of an installation or of agents returns only when it was read; the agents of a cluster
    are those bound to it; leaving a context deletes its resources. The client library is a parameter, and so are
    the \<open>reason\<close> of its exceptions and the serialization of request bodies.
  \<^item> \<open>KubeUtils\<close>: \<open>utils/k8s_utils.py\<close>, \<open>oc_utils.py\<close>, \<open>kubeapi_utils.py\<close>, \<open>terraform_util.py\<close>, \<open>helper_classes/hypershift.py\<close>. Paths of
    fields are followed as they are written; which deletions of a namespace's resources tolerate that there is nothing; the
    nodes a wait has seen; what the context of a hosted cluster deletes. The state keeps the registered resources.
  \<^item> \<open>Access\<close>: the rest of \<open>assisted_service_api.py\<close> and of \<open>utils/utils.py\<close>, \<open>client_factory.py\<close>, \<open>client_validator.py\<close>. The host of the
    client, base64 as Python decodes it, the key after a renewal, and why the address of the service is looked up once.
  \<^item> \<open>Logger\<close>: \<open>service_client/logger.py\<close>. The substitutions of regular expressions that take secrets out of the log, written as
    matchers: the log does not depend on the pull secret.
  \<^item> \<open>Virsh\<close>, \<open>TfNodes\<close>: \<open>virsh_cleanup/virsh_cleanup.py\<close>, the rest of \<open>terraform_controller.py\<close>. Removing libvirt's resources
    spares the names to skip (an instance of \<open>state_rel\<close>), and so does destroying machines; the argument \<open>running\<close> changes
    nothing of what terraform reads.
  \<^item> \<open>LogTools\<close>: the rest of \<open>download_logs\<close>. The page of the events is a stable sort of what the files contain; the
    threads that gather reports of the machines; which clusters are left out.
  \<^item> \<open>Indexer\<close>: \<open>scripts/indexer.py\<close>. Locale \<open>index_store\<close>: a free index is the least that no namespace has. After any sequence
    of commands no two namespaces share an index; the commands refine a specification over partial functions.
  \<^item> \<open>Scripts\<close>: \<open>update_assisted_service_cm.py\<close>, \<open>manage/manage.py\<close>, \<open>deprecated_utils.py\<close>, \<open>cleanup.py\<close>. Only clusters
    that had become old enough are processed.
  \<^item> \<open>Chatbot\<close>: \<open>chatbot_client.py\<close>. The age of the token of a request; conversations keep their identifier (two instances of
    \<open>state_rel\<close>).
  \<^item> \<open>Cli\<close>: \<open>src/cli\<close>. A session leaves the environment of the process as it was, whatever its tests do; \<open>pytest.main\<close> is a
    parameter, an arbitrary program on the state.
  \<^item> \<open>Config\<close>: the rest of \<open>config/base_config.py\<close>. Setting a value keeps a configuration typed by its annotations.
  \<^item> \<open>LibvirtNet\<close>, \<open>Views\<close>: the rest of \<open>libvirt_controller.py\<close>, \<open>nodes.py\<close>, \<open>node.py\<close> and \<open>cluster.py\<close>: networks, logs of the
    host, and operations that call one modelled operation.
  \<^item> \<open>Overrides\<close>, \<open>Events\<close>: \<open>scripts/override_images\<close>, \<open>utils/release_image_utils.py\<close>, \<open>helper_classes/events_handler.py\<close>.
    The images that are written belong to the release; a wait for an event that returns has read it.

  Loops. \<open>for\<close> loops are structural recursion. The search for a network, the search for a free
  number and terraform's loop may not end, and are \<open>partial_function (option)\<close>, with theorems that they return
  a value; in a program such a missing value is the outcome \<open>Diverges\<close>, which no handler catches.
  The fuel of \<open>poll_upto\<close> and \<open>retry_upto\<close> belongs to the instances in witnesses only: two or three polls
  are enough for the histories given there.

  Not modelled. The libraries of the providers (OCI, vSphere, Nutanix,
  Redfish), podman, \<open>targetcli\<close> and the Kubernetes client are parameters: only the order and the answers of
  their calls occur.
  Of the command line tools the parsers of options and the trees of completions are left out. The classes of
  configurations are declarations of attributes: the model takes their fields and annotations as arguments. The template of
  the events' page, the XML of reports, and the reading of the variables that a terraform plan declares are
  left out: they are data or formatting. The end-to-end tests are the specification the program serves, not part of it.
  Time is not modelled: limits of time are arguments of the libraries that wait.
\<close>

end
